(* ===== verification/Prelude.thy ===== *)
theory Prelude
  imports Main "HOL-Library.Option_ord"
begin

text \<open>
  Shared vocabulary of the development: the types every component uses, the
  relational-table operations that stand for the SQL statements under
  src/src/db/, and the generic lemmas about them.

  A table is the list of its rows in insertion order.  An UPDATE, DELETE or
  SELECT is one of the operations below applied to the list; an SQL
  statement is atomic, so one operation is one step of the model.  Times are
  integers in microseconds (PostgreSQL's resolution); \<open>secs\<close> converts.
\<close>

named_theorems tables \<open>behaviour of the relational operations on tables\<close>

type_synonym uuid = nat
type_synonym timestamp = int
type_synonym sat = int

text \<open>The \<open>sqlx::Error\<close> values the modelled code distinguishes.\<close>
datatype sqlx_error =
    RowNotFound
  | UniqueViolation string
  | CheckViolation string
  | ProtocolError string

type_synonym 'a db_result = "sqlx_error + 'a"

definition secs :: "int \<Rightarrow> timestamp" where
  "secs n = n * 1000000"

text \<open>\<open>EXTRACT(EPOCH FROM col)::BIGINT\<close>: PostgreSQL rounds the numeric value to
  the nearest second, halves away from zero.\<close>
definition epoch :: "timestamp \<Rightarrow> int" where
  "epoch t = (if 0 \<le> t then (t + 500000) div 1000000 else - ((500000 - t) div 1000000))"

subsection \<open>Relational operations\<close>

text \<open>\<open>UPDATE .. SET f WHERE P\<close>: the new table and \<open>rows_affected\<close>.\<close>
definition update_where :: "('r \<Rightarrow> bool) \<Rightarrow> ('r \<Rightarrow> 'r) \<Rightarrow> 'r list \<Rightarrow> 'r list \<times> nat" where
  "update_where P f t = (map (\<lambda>r. if P r then f r else r) t, length (filter P t))"

definition delete_where :: "('r \<Rightarrow> bool) \<Rightarrow> 'r list \<Rightarrow> 'r list \<times> nat" where
  "delete_where P t = (filter (\<lambda>r. \<not> P r) t, length (filter P t))"

text \<open>\<open>fetch_optional\<close> without an ORDER BY: the first row that matches.\<close>
definition select_one :: "('r \<Rightarrow> bool) \<Rightarrow> 'r list \<Rightarrow> 'r option" where
  "select_one P t = List.find P t"

definition row_exists :: "('r \<Rightarrow> bool) \<Rightarrow> 'r list \<Rightarrow> bool" where
  "row_exists P t = list_ex P t"

text \<open>\<open>ORDER BY key DESC\<close>, stable like the ascending sort.\<close>
definition sort_desc :: "('r \<Rightarrow> int) \<Rightarrow> 'r list \<Rightarrow> 'r list" where
  "sort_desc key t = sort_key (\<lambda>r. - key r) t"

lemma update_where_rows [tables]:
  "fst (update_where P f t) = map (\<lambda>r. if P r then f r else r) t"
  by (simp add: update_where_def)

lemma update_where_count [tables]: "snd (update_where P f t) = length (filter P t)"
  by (simp add: update_where_def)

lemma update_where_length [simp]: "length (fst (update_where P f t)) = length t"
  by (simp add: tables)

lemma update_where_id:
  "(\<And>r. r \<in> set t \<Longrightarrow> \<not> P r) \<Longrightarrow> update_where P f t = (t, 0)"
  by (auto simp: update_where_def filter_empty_conv intro: map_idI)

lemma update_where_map:
  assumes "\<And>r. r \<in> set t \<Longrightarrow> P r \<Longrightarrow> g (f r) = g r"
  shows "map g (fst (update_where P f t)) = map g t"
  using assms by (auto simp: tables)

lemma update_where_frame:
  "r \<in> set t \<Longrightarrow> \<not> P r \<Longrightarrow> r \<in> set (fst (update_where P f t))"
  by (auto simp: tables image_iff)

lemma update_where_hit:
  "r \<in> set t \<Longrightarrow> P r \<Longrightarrow> f r \<in> set (fst (update_where P f t))"
  by (force simp: tables)

text \<open>The form in which the table contracts use an update: every row is still
  there under its key, related to its old value.\<close>
lemma update_where_evolves:
  assumes "r \<in> set t" "key (f r) = key r" "P r \<Longrightarrow> R r (f r)" "R r r"
  shows "\<exists>r'\<in>set (fst (update_where P f t)). key r' = key r \<and> R r r'"
  using assms update_where_hit[of r t P f] update_where_frame[of r t P f] by (cases "P r") auto

lemma update_where_setE:
  assumes "r' \<in> set (fst (update_where P f t))"
  obtains r where "r \<in> set t" "r' = (if P r then f r else r)"
  using assms by (auto simp: tables)

lemma update_where_all:
  assumes "list_all Q t" "\<And>r. r \<in> set t \<Longrightarrow> Q r \<Longrightarrow> P r \<Longrightarrow> Q (f r)"
  shows "list_all Q (fst (update_where P f t))"
  using assms by (auto simp: tables list_all_iff)

lemma delete_where_rows [tables]: "fst (delete_where P t) = filter (\<lambda>r. \<not> P r) t"
  by (simp add: delete_where_def)

lemma delete_where_count [tables]: "snd (delete_where P t) = length (filter P t)"
  by (simp add: delete_where_def)

lemma select_one_Nil [simp]: "select_one P [] = None"
  by (simp add: select_one_def)

lemma select_one_Cons [simp]:
  "select_one P (r # t) = (if P r then Some r else select_one P t)"
  by (simp add: select_one_def)

lemma select_one_SomeD:
  "select_one P t = Some r \<Longrightarrow> r \<in> set t \<and> P r"
  by (induction t) (auto split: if_splits)

lemma select_one_None_iff: "select_one P t = None \<longleftrightarrow> (\<forall>r\<in>set t. \<not> P r)"
  by (induction t) auto

lemma select_one_append:
  "select_one P (t @ u) = (case select_one P t of None \<Rightarrow> select_one P u | Some r \<Rightarrow> Some r)"
  by (induction t) auto

text \<open>With unique keys a lookup by key finds exactly the row.\<close>
lemma select_one_key:
  assumes "distinct (map k t)" "r \<in> set t"
  shows "select_one (\<lambda>x. k x = k r) t = Some r"
  using assms by (induction t) auto

lemma select_one_key_iff:
  assumes "distinct (map k t)"
  shows "select_one (\<lambda>x. k x = i) t = Some r \<longleftrightarrow> r \<in> set t \<and> k r = i"
  using assms select_one_key[OF assms] by (auto dest: select_one_SomeD)

text \<open>A guard beside the key: the row under the key decides.\<close>
lemma select_one_guarded:
  assumes "distinct (map k t)"
  shows "select_one (\<lambda>x. k x = i \<and> P x) t =
    (case select_one (\<lambda>x. k x = i) t of None \<Rightarrow> None | Some r \<Rightarrow> if P r then Some r else None)"
  using assms
proof (induction t)
  case (Cons a t)
  show ?case
  proof (cases "k a = i")
    case True
    then have "select_one (\<lambda>x. k x = i \<and> P x) t = None"
      using Cons.prems unfolding select_one_None_iff by (metis distinct.simps(2) imageI list.simps(9) list.set_map)
    then show ?thesis using True by simp
  next
    case False
    then show ?thesis using Cons by simp
  qed
qed simp

text \<open>An update by key, seen through a lookup by the same key.\<close>
lemma select_one_update_key:
  assumes "\<And>r. k (f r) = k r"
  shows "select_one (\<lambda>x. k x = i) (fst (update_where (\<lambda>x. k x = j \<and> P x) f t)) =
    (case select_one (\<lambda>x. k x = i) t of
       None \<Rightarrow> None
     | Some r \<Rightarrow> Some (if i = j \<and> P r then f r else r))"
  using assms by (induction t) (auto simp: tables)

lemma select_one_update_all:
  assumes "\<And>r. k (f r) = k r"
  shows "select_one (\<lambda>x. k x = i) (fst (update_where (\<lambda>x. k x = j) f t)) =
    (case select_one (\<lambda>x. k x = i) t of
       None \<Rightarrow> None
     | Some r \<Rightarrow> Some (if i = j then f r else r))"
  using assms by (induction t) (auto simp: tables)

text \<open>Overwriting the row under a key.\<close>
lemma select_one_overwrite:
  assumes "select_one (\<lambda>x. k x = i) t = Some r" "k v = i"
  shows "select_one (\<lambda>x. k x = i) (fst (update_where (\<lambda>x. k x = i) (\<lambda>_. v) t)) = Some v"
  using assms by (induction t) (auto simp: tables split: if_splits)

lemma row_exists_iff [simp]: "row_exists P t \<longleftrightarrow> (\<exists>r\<in>set t. P r)"
  by (simp add: row_exists_def list_ex_iff)

lemma sort_desc_set [simp]: "set (sort_desc key t) = set t"
  by (simp add: sort_desc_def)

lemma sort_desc_length [simp]: "length (sort_desc key t) = length t"
  by (simp add: sort_desc_def)

text \<open>Two different rows of a table whose rows are pairwise related.\<close>
lemma sorted_wrt_pair:
  "sorted_wrt R t \<Longrightarrow> r \<in> set t \<Longrightarrow> s \<in> set t \<Longrightarrow> r \<noteq> s \<Longrightarrow> R r s \<or> R s r"
  by (induction t) auto

subsection \<open>Pages\<close>

text \<open>\<open>LIMIT lim OFFSET off\<close>; PostgreSQL rejects negative values, the callers clamp.\<close>
definition limit_offset :: "int \<Rightarrow> int \<Rightarrow> 'r list \<Rightarrow> 'r list" where
  "limit_offset lim off t = take (nat lim) (drop (nat off) t)"

lemma limit_offset_subset: "set (limit_offset n k t) \<subseteq> set t"
  by (auto simp: limit_offset_def dest: in_set_takeD in_set_dropD)

lemma limit_offset_length: "length (limit_offset n k t) \<le> nat n"
  by (simp add: limit_offset_def)

subsection \<open>Machine integers of the source\<close>

definition i64_max :: int where "i64_max = 9223372036854775807"
definition i64_min :: int where "i64_min = -9223372036854775808"
definition i32_max :: int where "i32_max = 2147483647"

definition i32_min :: int where "i32_min = -2147483648"

text \<open>\<open>as i32\<close> on any wider integer keeps the low 32 bits.\<close>
definition as_i32 :: "int \<Rightarrow> int" where
  "as_i32 x = (x + 2147483648) mod 4294967296 - 2147483648"

lemma as_i32_id [simp]: "i32_min \<le> x \<Longrightarrow> x \<le> i32_max \<Longrightarrow> as_i32 x = x"
  by (simp add: as_i32_def i32_min_def i32_max_def)

definition in_i64 :: "int \<Rightarrow> bool" where
  "in_i64 x \<longleftrightarrow> i64_min \<le> x \<and> x \<le> i64_max"

text \<open>\<open>i64::saturating_sub\<close> and its companions.\<close>
definition sat_i64 :: "int \<Rightarrow> int" where
  "sat_i64 x = max i64_min (min i64_max x)"

lemma sat_i64_id [simp]: "in_i64 x \<Longrightarrow> sat_i64 x = x"
  by (simp add: sat_i64_def in_i64_def)

lemma sat_i64_in [simp]: "in_i64 (sat_i64 x)"
  by (simp add: sat_i64_def in_i64_def i64_min_def i64_max_def)

definition checked_i64 :: "int \<Rightarrow> int option" where
  "checked_i64 x = (if in_i64 x then Some x else None)"

lemma checked_i64_Some_iff [simp]: "checked_i64 x = Some y \<longleftrightarrow> in_i64 x \<and> y = x"
  by (auto simp: checked_i64_def)

text \<open>Rust's \<open>/\<close> truncates toward zero.\<close>
definition tdiv :: "int \<Rightarrow> int \<Rightarrow> int" where
  "tdiv a b = sgn a * sgn b * (\<bar>a\<bar> div \<bar>b\<bar>)"

lemma tdiv_nonneg [simp]: "0 \<le> a \<Longrightarrow> 0 < b \<Longrightarrow> tdiv a b = a div b"
  by (cases "a = 0") (simp_all add: tdiv_def)

end
