(* ===== verification/Contracts.thy ===== *)
theory Contracts
  imports Prelude
begin

text \<open>
  The contracts the database components share.  \<open>evolving_table\<close> is the
  promise of a table whose operations never lose a row and only move it along
  a preorder; \<open>terminal_table\<close> adds that a row in a terminal state keeps its
  outcome.  \<open>index_source\<close> is the promise of the statements that take an index
  from a descriptor's cursor, among all those that write its table.  Each
  component interprets them on its own step relation.
\<close>

locale evolving_table =
  fixes rows :: "'s \<Rightarrow> 'r list"
    and key :: "'r \<Rightarrow> 'k"
    and good :: "'s \<Rightarrow> bool"
    and step :: "'s \<Rightarrow> 's \<Rightarrow> bool"
    and evolves :: "'r \<Rightarrow> 'r \<Rightarrow> bool"
  assumes evolves_refl: "evolves r r"
    and evolves_trans: "evolves r s \<Longrightarrow> evolves s u \<Longrightarrow> evolves r u"
    and step_good: "step t t' \<Longrightarrow> good t \<Longrightarrow> good t'"
    and step_evolves:
      "step t t' \<Longrightarrow> good t \<Longrightarrow> r \<in> set (rows t) \<Longrightarrow> \<exists>r'\<in>set (rows t'). key r' = key r \<and> evolves r r'"
begin

lemma run_good: "step\<^sup>*\<^sup>* t t' \<Longrightarrow> good t \<Longrightarrow> good t'"
  by (induction rule: rtranclp_induct) (auto intro: step_good)

lemma run_evolves:
  assumes "step\<^sup>*\<^sup>* t t'" "good t" "r \<in> set (rows t)"
  shows "\<exists>r'\<in>set (rows t'). key r' = key r \<and> evolves r r'"
  using assms
proof (induction rule: rtranclp_induct)
  case base
  then show ?case using evolves_refl by blast
next
  case (step u v)
  then obtain r1 where r1: "r1 \<in> set (rows u)" "key r1 = key r" "evolves r r1" by blast
  have "good u" using run_good step.hyps(1) step.prems(1) by blast
  then obtain r2 where "r2 \<in> set (rows v)" "key r2 = key r1" "evolves r1 r2"
    using step_evolves[OF step.hyps(2) _ r1(1)] by blast
  with r1 show ?case using evolves_trans by (metis (no_types))
qed

lemma run_keys: "step\<^sup>*\<^sup>* t t' \<Longrightarrow> good t \<Longrightarrow> key ` set (rows t) \<subseteq> key ` set (rows t')"
proof
  fix k assume run: "step\<^sup>*\<^sup>* t t'" "good t" and "k \<in> key ` set (rows t)"
  then obtain r where "r \<in> set (rows t)" "k = key r" by blast
  with run_evolves[OF run this(1)] show "k \<in> key ` set (rows t')" by (metis image_eqI)
qed

end

locale terminal_table = evolving_table +
  fixes terminal :: "'b \<Rightarrow> bool"
    and outcome :: "'b \<Rightarrow> 'o"
  assumes terminal_kept: "evolves r r' \<Longrightarrow> terminal r \<Longrightarrow> terminal r' \<and> outcome r' = outcome r"
begin

lemma run_terminal:
  assumes "step\<^sup>*\<^sup>* t t'" "good t" "r \<in> set (rows t)" "terminal r"
  shows "\<exists>r'\<in>set (rows t'). key r' = key r \<and> terminal r' \<and> outcome r' = outcome r"
  using run_evolves[OF assms(1-3)] assms(4) terminal_kept by blast

text \<open>With unique keys, any later row under the same key is that row.\<close>
lemma run_terminal_unique:
  assumes "step\<^sup>*\<^sup>* t t'" "good t" "r \<in> set (rows t)" "terminal r"
    and "distinct (map key (rows t'))" "r' \<in> set (rows t')" "key r' = key r"
  shows "outcome r' = outcome r"
proof -
  obtain s where s: "s \<in> set (rows t')" "key s = key r" "outcome s = outcome r"
    using run_terminal[OF assms(1-4)] by blast
  then have "s = r'"
    using assms(5-7) by (auto simp: distinct_map inj_on_def)
  then show ?thesis using s by simp
qed

end

text \<open>The indices handed out along a run, each with the source it was taken from.  \<open>hand\<close> is one
  step of the tables, with the index it hands out, if any.\<close>
inductive index_trace :: "('s \<Rightarrow> ('k \<times> int) option \<Rightarrow> 's \<Rightarrow> bool) \<Rightarrow> 's \<Rightarrow> ('k \<times> int) list \<Rightarrow> 's \<Rightarrow> bool" for hand where
  trace_start: "index_trace hand s [] s"
| trace_quiet: "hand s None t \<Longrightarrow> index_trace hand t xs u \<Longrightarrow> index_trace hand s xs u"
| trace_index: "hand s (Some x) t \<Longrightarrow> index_trace hand t xs u \<Longrightarrow> index_trace hand s (x # xs) u"

text \<open>The indices of one source in a list of handed out indices.\<close>
definition indices_of :: "'k \<Rightarrow> ('k \<times> int) list \<Rightarrow> int list" where
  "indices_of k xs = map snd (filter (\<lambda>x. fst x = k) xs)"

lemma indices_of_simps [simp]:
  "indices_of k [] = []" "indices_of k (x # xs) = (if fst x = k then snd x # indices_of k xs else indices_of k xs)"
  by (simp_all add: indices_of_def)

text \<open>
  A contract for cursors: every step keeps the tables well-formed and moves no cursor back, and
  an index that is handed out lies between the cursor before and the cursor after.
\<close>
locale index_source =
  fixes good :: "'s \<Rightarrow> bool"
    and level :: "'k \<Rightarrow> 's \<Rightarrow> int"
    and hand :: "'s \<Rightarrow> ('k \<times> int) option \<Rightarrow> 's \<Rightarrow> bool"
  assumes hand_good: "hand s r t \<Longrightarrow> good s \<Longrightarrow> good t"
    and hand_forward: "hand s r t \<Longrightarrow> good s \<Longrightarrow> level k s \<le> level k t"
    and hand_index: "hand s (Some (k, i)) t \<Longrightarrow> good s \<Longrightarrow> level k s \<le> i \<and> i < level k t"
begin

lemma trace_forward:
  "index_trace hand s xs u \<Longrightarrow> good s \<Longrightarrow>
   sorted_wrt (<) (indices_of k xs) \<and> level k s \<le> level k u \<and> (\<forall>i\<in>set (indices_of k xs). level k s \<le> i \<and> i < level k u)"
proof (induction rule: index_trace.induct)
  case (trace_quiet s t xs u)
  then show ?case
    using hand_good[OF trace_quiet(1)] hand_forward[OF trace_quiet(1), of k] by force
next
  case (trace_index s x t xs u)
  have "good t" "level k s \<le> level k t" "fst x = k \<longrightarrow> level k s \<le> snd x \<and> snd x < level k t"
    using hand_good[OF trace_index(1,4)] hand_forward[OF trace_index(1,4), of k] hand_index[of s "fst x" "snd x" t] trace_index(1,4)
    by auto
  then show ?case using trace_index(3) by force
qed simp

text \<open>Every index of every source is handed out once, in increasing order.\<close>
lemma trace_distinct:
  assumes "index_trace hand s xs u" "good s"
  shows "distinct xs"
proof -
  have "distinct (indices_of k xs)" for k
    using trace_forward[OF assms, of k] by (simp add: strict_sorted_iff)
  moreover have "distinct xs" if "\<And>k. distinct (indices_of k xs)" for xs :: "('k \<times> int) list"
    using that
  proof (induction xs)
    case (Cons x xs)
    have "snd x \<notin> set (indices_of (fst x) xs)" using Cons.prems[of "fst x"] by simp
    then have "x \<notin> set xs" by (force simp: indices_of_def)
    moreover have "distinct (indices_of k xs)" for k using Cons.prems[of k] by (auto split: if_splits)
    ultimately show ?case using Cons.IH by simp
  qed simp
  ultimately show ?thesis by blast
qed

end

end
