(* ===== verification/Users.thy ===== *)
theory Users
  imports Contracts
begin

text \<open>
  The \<open>users\<close> and \<open>outpoint_addresses\<close> tables and their operations
  (src/src/db/users.rs, src/src/db/reservations.rs, src/src/db/watcher.rs).
  A registration is one transaction under the npub's advisory lock, so it is
  one step.  \<open>fresh_id\<close> is the value of \<open>gen_random_uuid()\<close>.
  \<open>purge_user\<close>, which also touches swaps and pages, is in theory Lifecycle.
\<close>

named_theorems user_defs \<open>definitions of the users-table operations\<close>

record user =
  u_id :: uuid
  u_nym :: string
  u_npub :: string
  u_verification_npub :: string
  u_ct_descriptor :: string
  u_next_addr_idx :: int
  u_is_active :: bool
  u_created_at :: timestamp
  u_has_been_used :: bool
  u_last_callback_at :: "timestamp option"

record outpoint_address =
  oa_nym :: string
  oa_outpoint :: string
  oa_addr_index :: int
  oa_pubkey :: "string option"
  oa_fulfilled :: bool
  oa_created_at :: timestamp

record user_store =
  us_users :: "user list"
  us_outpoints :: "outpoint_address list"

subsection \<open>Reading users\<close>

definition get_user_by_nym :: "string \<Rightarrow> user list \<Rightarrow> user option" where
  "get_user_by_nym nym = select_one (\<lambda>u. u_nym u = nym)"

definition get_active_user_by_nym :: "string \<Rightarrow> user list \<Rightarrow> user option" where
  "get_active_user_by_nym nym = select_one (\<lambda>u. u_nym u = nym \<and> u_is_active u)"

definition get_user_by_npub :: "string \<Rightarrow> user list \<Rightarrow> user option" where
  "get_user_by_npub npub = select_one (\<lambda>u. u_npub u = npub \<and> u_is_active u)"

text \<open>\<open>ORDER BY created_at DESC LIMIT 1\<close>.\<close>
definition get_inactive_user_by_npub :: "string \<Rightarrow> user list \<Rightarrow> user option" where
  "get_inactive_user_by_npub npub us =
    (case sort_desc u_created_at (filter (\<lambda>u. u_npub u = npub \<and> \<not> u_is_active u) us) of
       [] \<Rightarrow> None
     | u # _ \<Rightarrow> Some u)"

definition count_lifetime_nyms_by_npub :: "string \<Rightarrow> user list \<Rightarrow> nat" where
  "count_lifetime_nyms_by_npub npub us = length (filter (\<lambda>u. u_npub u = npub) us)"

text \<open>One row: the active nym, the previous nyms newest first, the lifetime count.\<close>
definition lookup_status_by_npub ::
  "string \<Rightarrow> user list \<Rightarrow> string option \<times> (string \<times> timestamp) list \<times> nat" where
  "lookup_status_by_npub npub us =
    ((case sort_desc u_created_at (filter (\<lambda>u. u_npub u = npub \<and> u_is_active u) us) of
        [] \<Rightarrow> None
      | u # _ \<Rightarrow> Some (u_nym u)),
     map (\<lambda>u. (u_nym u, u_created_at u))
       (sort_desc u_created_at (filter (\<lambda>u. u_npub u = npub \<and> \<not> u_is_active u) us)),
     length (filter (\<lambda>u. u_npub u = npub) us))"

subsection \<open>Writing users\<close>

definition mark_user_used :: "string \<Rightarrow> user list \<Rightarrow> user list" where
  "mark_user_used nym us = fst (update_where
    (\<lambda>u. u_nym u = nym \<and> \<not> u_has_been_used u) (\<lambda>u. u\<lparr>u_has_been_used := True\<rparr>) us)"

text \<open>An INSERT meets the primary key and the two unique indices: \<open>users.nym\<close> and one
  active row per npub.\<close>
definition insert_user :: "user \<Rightarrow> user list \<Rightarrow> user list db_result" where
  "insert_user u us =
    (if row_exists (\<lambda>x. u_id x = u_id u) us then Inl (UniqueViolation ''users_pkey'')
     else if row_exists (\<lambda>x. u_nym x = u_nym u) us then Inl (UniqueViolation ''users_nym_key'')
     else if u_is_active u \<and> row_exists (\<lambda>x. u_npub x = u_npub u \<and> u_is_active x) us
       then Inl (UniqueViolation ''users_npub_active_key'')
     else Inr (us @ [u]))"

text \<open>The column defaults of a new row.\<close>
definition new_user :: "timestamp \<Rightarrow> uuid \<Rightarrow> string \<Rightarrow> string \<Rightarrow> string \<Rightarrow> string \<Rightarrow> user" where
  "new_user now fresh_id nym npub ct_descriptor verification_npub =
    \<lparr>u_id = fresh_id, u_nym = nym, u_npub = npub, u_verification_npub = verification_npub,
     u_ct_descriptor = ct_descriptor, u_next_addr_idx = 0, u_is_active = True,
     u_created_at = now, u_has_been_used = False, u_last_callback_at = None\<rparr>"

definition create_user ::
  "timestamp \<Rightarrow> uuid \<Rightarrow> string \<Rightarrow> string \<Rightarrow> string \<Rightarrow> user list \<Rightarrow> (user \<times> user list) db_result" where
  "create_user now fresh_id nym npub ct_descriptor us =
    (let u = new_user now fresh_id nym npub ct_descriptor npub
     in map_sum id (\<lambda>us'. (u, us')) (insert_user u us))"

datatype register_outcome =
    Created user
  | Reactivated user
  | KeyAlreadyRegistered string
  | QuotaExceeded nat int

definition delete_outpoints_of :: "string \<Rightarrow> outpoint_address list \<Rightarrow> outpoint_address list" where
  "delete_outpoints_of nym oas = fst (delete_where (\<lambda>a. oa_nym a = nym) oas)"

text \<open>\<open>prior_inactive.filter(|u| u.nym == nym)\<close>.\<close>
definition reactivatable :: "string \<Rightarrow> string \<Rightarrow> user list \<Rightarrow> user option" where
  "reactivatable npub nym us =
    (case get_inactive_user_by_npub npub us of
       Some p \<Rightarrow> if u_nym p = nym then Some p else None
     | None \<Rightarrow> None)"

definition register_user_atomic ::
  "timestamp \<Rightarrow> uuid \<Rightarrow> string \<Rightarrow> string \<Rightarrow> string \<Rightarrow> string \<Rightarrow> int \<Rightarrow> user_store
    \<Rightarrow> (register_outcome \<times> user_store) db_result" where
  "register_user_atomic now fresh_id npub nym ct_descriptor verification_npub cap s =
    (let us = us_users s;
         used = count_lifetime_nyms_by_npub npub us;
         u = new_user now fresh_id nym npub ct_descriptor verification_npub;
         hit = (\<lambda>x. u_npub x = npub \<and> u_nym x = nym \<and> \<not> u_is_active x);
         upd = (\<lambda>x. x\<lparr>u_ct_descriptor := ct_descriptor,
                       u_verification_npub := verification_npub, u_is_active := True\<rparr>)
     in case get_user_by_npub npub us of
          Some active \<Rightarrow> Inr (KeyAlreadyRegistered (u_nym active), s)
        | None \<Rightarrow>
            (case reactivatable npub nym us of
               Some p \<Rightarrow> Inr (Reactivated (upd p),
                 s\<lparr>us_users := fst (update_where hit upd us),
                   us_outpoints := delete_outpoints_of nym (us_outpoints s)\<rparr>)
             | None \<Rightarrow>
                 if cap \<le> int used then Inr (QuotaExceeded used cap, s)
                 else map_sum id (\<lambda>us'. (Created u, s\<lparr>us_users := us'\<rparr>)) (insert_user u us)))"

definition update_user_descriptor :: "string \<Rightarrow> string \<Rightarrow> user_store \<Rightarrow> user option \<times> user_store" where
  "update_user_descriptor npub ct_descriptor s =
    (let hit = (\<lambda>u. u_npub u = npub \<and> u_is_active u);
         upd = (\<lambda>u. u\<lparr>u_ct_descriptor := ct_descriptor\<rparr>)
     in case select_one hit (us_users s) of
          None \<Rightarrow> (None, s)
        | Some u \<Rightarrow> (Some (upd u),
            s\<lparr>us_users := fst (update_where hit upd (us_users s)),
              us_outpoints := delete_outpoints_of (u_nym u) (us_outpoints s)\<rparr>))"

definition deactivate_user :: "string \<Rightarrow> user list \<Rightarrow> user option \<times> user list" where
  "deactivate_user npub us =
    (let hit = (\<lambda>u. u_npub u = npub \<and> u_is_active u);
         upd = (\<lambda>u. u\<lparr>u_is_active := False\<rparr>)
     in (map_option upd (select_one hit us), fst (update_where hit upd us)))"

subsection \<open>Address cursors: swaps.rs and watcher.rs\<close>

text \<open>\<open>UPDATE .. next_addr_idx + 1 .. RETURNING next_addr_idx - 1\<close>.\<close>
definition allocate_address_index :: "string \<Rightarrow> user list \<Rightarrow> int option \<times> user list" where
  "allocate_address_index nym us =
    (let hit = (\<lambda>u. u_nym u = nym \<and> u_is_active u)
     in (map_option u_next_addr_idx (select_one hit us),
         fst (update_where hit (\<lambda>u. u\<lparr>u_next_addr_idx := u_next_addr_idx u + 1\<rparr>) us)))"

definition list_active_nyms_for_watcher :: "user list \<Rightarrow> (string \<times> string \<times> int) list" where
  "list_active_nyms_for_watcher us =
    map (\<lambda>u. (u_nym u, u_ct_descriptor u, u_next_addr_idx u)) (filter u_is_active us)"

definition list_recently_active_nyms_for_watcher ::
  "timestamp \<Rightarrow> int \<Rightarrow> user list \<Rightarrow> (string \<times> string \<times> int) list" where
  "list_recently_active_nyms_for_watcher now active_window_secs us =
    map (\<lambda>u. (u_nym u, u_ct_descriptor u, u_next_addr_idx u))
      (filter (\<lambda>u. u_is_active u \<and>
         (case u_last_callback_at u of None \<Rightarrow> False | Some t \<Rightarrow> now - secs active_window_secs < t)) us)"

definition touch_user_callback :: "timestamp \<Rightarrow> string \<Rightarrow> user list \<Rightarrow> user list" where
  "touch_user_callback now nym us = fst (update_where
    (\<lambda>u. u_nym u = nym \<and> u_is_active u) (\<lambda>u. u\<lparr>u_last_callback_at := Some now\<rparr>) us)"

text \<open>\<open>observed_idx\<close> is a u32; both bindings are cast \<open>as i32\<close>.\<close>
definition advance_next_addr_idx :: "string \<Rightarrow> int \<Rightarrow> user list \<Rightarrow> user list" where
  "advance_next_addr_idx nym observed_idx us = fst (update_where
    (\<lambda>u. u_nym u = nym \<and> u_is_active u \<and> u_next_addr_idx u \<le> as_i32 observed_idx)
    (\<lambda>u. u\<lparr>u_next_addr_idx := as_i32 (observed_idx + 1)\<rparr>) us)"

subsection \<open>Reservations: reservations.rs\<close>

definition get_outpoint_address :: "string \<Rightarrow> string \<Rightarrow> outpoint_address list \<Rightarrow> outpoint_address option" where
  "get_outpoint_address nym outpoint = select_one (\<lambda>a. oa_nym a = nym \<and> oa_outpoint a = outpoint)"

definition list_reservations_for_nym :: "string \<Rightarrow> outpoint_address list \<Rightarrow> outpoint_address list" where
  "list_reservations_for_nym nym oas = sort_key oa_addr_index (filter (\<lambda>a. oa_nym a = nym) oas)"

definition count_unfulfilled_reservations :: "string \<Rightarrow> outpoint_address list \<Rightarrow> nat" where
  "count_unfulfilled_reservations nym oas = length (filter (\<lambda>a. oa_nym a = nym \<and> \<not> oa_fulfilled a) oas)"

definition allocate_outpoint_address ::
  "timestamp \<Rightarrow> string \<Rightarrow> string \<Rightarrow> string \<Rightarrow> user_store \<Rightarrow> (int \<times> user_store) db_result" where
  "allocate_outpoint_address now nym outpoint pubkey_hex s =
    (case get_outpoint_address nym outpoint (us_outpoints s) of
       Some a \<Rightarrow> Inr (oa_addr_index a, s)
     | None \<Rightarrow>
        (case get_active_user_by_nym nym (us_users s) of
           None \<Rightarrow> Inl RowNotFound
         | Some u \<Rightarrow> Inr (u_next_addr_idx u,
             s\<lparr>us_outpoints := us_outpoints s @
                 [\<lparr>oa_nym = nym, oa_outpoint = outpoint, oa_addr_index = u_next_addr_idx u,
                   oa_pubkey = Some pubkey_hex, oa_fulfilled = False, oa_created_at = now\<rparr>],
               us_users := mark_user_used nym (us_users s)\<rparr>)))"

definition mark_reservation_fulfilled ::
  "string \<Rightarrow> string \<Rightarrow> outpoint_address list \<Rightarrow> outpoint_address list" where
  "mark_reservation_fulfilled nym outpoint oas = fst (update_where
    (\<lambda>a. oa_nym a = nym \<and> oa_outpoint a = outpoint \<and> \<not> oa_fulfilled a)
    (\<lambda>a. a\<lparr>oa_fulfilled := True\<rparr>) oas)"

definition mark_reservations_fulfilled_at_idx ::
  "string \<Rightarrow> int \<Rightarrow> outpoint_address list \<Rightarrow> outpoint_address list \<times> nat" where
  "mark_reservations_fulfilled_at_idx nym addr_index oas = update_where
    (\<lambda>a. oa_nym a = nym \<and> oa_addr_index a = as_i32 addr_index \<and> \<not> oa_fulfilled a)
    (\<lambda>a. a\<lparr>oa_fulfilled := True\<rparr>) oas"

text \<open>The collector of src/src/gc.rs recycles what was never paid.\<close>
definition prune_outpoint_addresses ::
  "timestamp \<Rightarrow> int \<Rightarrow> outpoint_address list \<Rightarrow> outpoint_address list \<times> nat" where
  "prune_outpoint_addresses now ttl_secs oas =
    delete_where (\<lambda>a. \<not> oa_fulfilled a \<and> oa_created_at a < now - secs ttl_secs) oas"

subsection \<open>The table invariant\<close>

text \<open>What the unique indices promise, and non-negative cursors.\<close>
definition users_apart :: "user \<Rightarrow> user \<Rightarrow> bool" where
  "users_apart u v \<longleftrightarrow> u_id u \<noteq> u_id v \<and> u_nym u \<noteq> u_nym v \<and> (u_is_active u \<and> u_is_active v \<longrightarrow> u_npub u \<noteq> u_npub v)"

definition users_ok :: "user list \<Rightarrow> bool" where
  "users_ok us \<longleftrightarrow> sorted_wrt users_apart us \<and> (\<forall>u\<in>set us. 0 \<le> u_next_addr_idx u)"

text \<open>A row keeps its names and birth; its cursor and its used mark only grow.\<close>
definition user_evolves :: "user \<Rightarrow> user \<Rightarrow> bool" where
  "user_evolves u u' \<longleftrightarrow> u_nym u' = u_nym u \<and> u_npub u' = u_npub u
     \<and> u_created_at u' = u_created_at u \<and> u_next_addr_idx u \<le> u_next_addr_idx u'
     \<and> (u_has_been_used u \<longrightarrow> u_has_been_used u')"

inductive user_step :: "user_store \<Rightarrow> user_store \<Rightarrow> bool" where
  step_register: "register_user_atomic now fid npub nym d v cap s = Inr (out, s') \<Longrightarrow> user_step s s'"
| step_create: "create_user now fid nym npub d (us_users s) = Inr (u, us') \<Longrightarrow> user_step s (s\<lparr>us_users := us'\<rparr>)"
| step_update: "update_user_descriptor npub d s = (r, s') \<Longrightarrow> user_step s s'"
| step_deactivate: "deactivate_user npub (us_users s) = (r, us') \<Longrightarrow> user_step s (s\<lparr>us_users := us'\<rparr>)"
| step_allocate: "allocate_address_index nym (us_users s) = (r, us') \<Longrightarrow> user_step s (s\<lparr>us_users := us'\<rparr>)"
| step_used: "user_step s (s\<lparr>us_users := mark_user_used nym (us_users s)\<rparr>)"
| step_touch: "user_step s (s\<lparr>us_users := touch_user_callback now nym (us_users s)\<rparr>)"
| step_advance: "0 \<le> i \<Longrightarrow> i < i32_max \<Longrightarrow>
    user_step s (s\<lparr>us_users := advance_next_addr_idx nym i (us_users s)\<rparr>)"
| step_reserve: "allocate_outpoint_address now nym outp pk s = Inr (i, s') \<Longrightarrow> user_step s s'"
| step_fulfilled: "user_step s (s\<lparr>us_outpoints := mark_reservation_fulfilled nym outp (us_outpoints s)\<rparr>)"
| step_fulfilled_at:
    "user_step s (s\<lparr>us_outpoints := fst (mark_reservations_fulfilled_at_idx nym i (us_outpoints s))\<rparr>)"
| step_recycle: "user_step s (s\<lparr>us_outpoints := fst (prune_outpoint_addresses now ttl (us_outpoints s))\<rparr>)"
| step_purge: "get_user_by_npub npub (us_users s) = Some u \<Longrightarrow> user_step s
    \<lparr>us_users = fst (update_where (\<lambda>x. u_id x = u_id u) (\<lambda>x. x\<lparr>u_is_active := False, u_ct_descriptor := []\<rparr>) (us_users s)),
     us_outpoints = delete_outpoints_of (u_nym u) (us_outpoints s)\<rparr>"

inductive_cases user_stepE: "user_step s s'"

lemma user_evolves_refl [simp]: "user_evolves u u"
  by (simp add: user_evolves_def)

lemma user_evolves_fields [simp]:
  "user_evolves u (u\<lparr>u_ct_descriptor := d\<rparr>)"
  "user_evolves u (u\<lparr>u_ct_descriptor := d, u_verification_npub := v, u_is_active := b\<rparr>)"
  "user_evolves u (u\<lparr>u_is_active := b\<rparr>)"
  "user_evolves u (u\<lparr>u_has_been_used := True\<rparr>)"
  "user_evolves u (u\<lparr>u_last_callback_at := c\<rparr>)"
  "user_evolves u (u\<lparr>u_next_addr_idx := i\<rparr>) \<longleftrightarrow> u_next_addr_idx u \<le> i"
  by (simp_all add: user_evolves_def)

lemma user_evolves_trans: "user_evolves u v \<Longrightarrow> user_evolves v w \<Longrightarrow> user_evolves u w"
  by (auto simp: user_evolves_def)

lemma apart_nyms: "sorted_wrt users_apart us \<Longrightarrow> distinct (map u_nym us)"
  by (induction us) (auto simp: users_apart_def)

lemma users_ok_nyms: "users_ok us \<Longrightarrow> distinct (map u_nym us)"
  by (simp add: users_ok_def apart_nyms)

text \<open>The common case: no row becomes active.\<close>
lemma users_ok_quiet:
  assumes "users_ok us"
    and "\<And>u. P u \<Longrightarrow> u_id (f u) = u_id u \<and> u_nym (f u) = u_nym u \<and> u_npub (f u) = u_npub u
           \<and> (u_is_active (f u) \<longrightarrow> u_is_active u) \<and> (0 \<le> u_next_addr_idx u \<longrightarrow> 0 \<le> u_next_addr_idx (f u))"
  shows "users_ok (fst (update_where P f us))"
proof -
  let ?f = "\<lambda>u. if P u then f u else u"
  have "users_apart (?f u) (?f v)" if "users_apart u v" for u v
    using that assms(2)[of u] assms(2)[of v] by (auto simp: users_apart_def)
  then have "sorted_wrt users_apart (map ?f us)"
    using assms(1) sorted_wrt_mono_rel[of us users_apart "\<lambda>u v. users_apart (?f u) (?f v)"]
    by (simp add: users_ok_def sorted_wrt_map)
  then show ?thesis
    using assms by (auto simp: users_ok_def tables)
qed

lemma get_user_by_npub_None:
  "get_user_by_npub npub us = None \<longleftrightarrow> (\<forall>u\<in>set us. u_npub u = npub \<longrightarrow> \<not> u_is_active u)"
  by (auto simp: get_user_by_npub_def select_one_None_iff)

lemma users_ok_insert:
  assumes "users_ok us" "insert_user u us = Inr us'" "0 \<le> u_next_addr_idx u"
  shows "users_ok us'"
  using assms by (auto simp: users_ok_def insert_user_def users_apart_def sorted_wrt_append split: if_splits)

text \<open>Reactivation turns one inactive row active where the npub had no active row.\<close>
lemma users_ok_reactivate:
  assumes "users_ok us" "get_user_by_npub npub us = None"
    and "\<And>u. u_id (f u) = u_id u \<and> u_nym (f u) = u_nym u \<and> u_npub (f u) = u_npub u
           \<and> u_next_addr_idx (f u) = u_next_addr_idx u"
  shows "users_ok (fst (update_where (\<lambda>u. u_npub u = npub \<and> u_nym u = nym \<and> \<not> u_is_active u) f us))"
proof -
  let ?P = "\<lambda>u. u_npub u = npub \<and> u_nym u = nym \<and> \<not> u_is_active u"
  let ?f = "\<lambda>u. if ?P u then f u else u"
  have "users_apart (?f u) (?f v)"
    if "u \<in> set us" "v \<in> set us" "users_apart u v" for u v
    using that assms(2,3) by (auto simp: users_apart_def get_user_by_npub_None)
  then have "sorted_wrt users_apart (map ?f us)"
    using assms(1) sorted_wrt_mono_rel[of us users_apart "\<lambda>u v. users_apart (?f u) (?f v)"]
    by (simp add: users_ok_def sorted_wrt_map)
  then show ?thesis
    using assms(1,3) by (auto simp: users_ok_def tables)
qed

subsection \<open>Every operation keeps the invariant and moves rows forward\<close>

lemma map_sum_Inr_iff: "map_sum f g x = Inr y \<longleftrightarrow> (\<exists>z. x = Inr z \<and> y = g z)"
  by (cases x) auto

text \<open>The three ways a registration that returns can change the store.\<close>
lemma register_cases:
  assumes "register_user_atomic now fid npub nym d v cap s = Inr (out, s')"
  obtains (refused) "s' = s"
  | (reactivated) "get_user_by_npub npub (us_users s) = None"
      "s' = s\<lparr>us_users := fst (update_where (\<lambda>x. u_npub x = npub \<and> u_nym x = nym \<and> \<not> u_is_active x)
                (\<lambda>x. x\<lparr>u_ct_descriptor := d, u_verification_npub := v, u_is_active := True\<rparr>) (us_users s)),
              us_outpoints := delete_outpoints_of nym (us_outpoints s)\<rparr>"
  | (created) us' where "insert_user (new_user now fid nym npub d v) (us_users s) = Inr us'"
      "s' = s\<lparr>us_users := us'\<rparr>"
proof (cases "get_user_by_npub npub (us_users s)")
  case (Some a)
  then have "s' = s" using assms by (simp add: register_user_atomic_def)
  then show ?thesis by (rule refused)
next
  case None
  note no_active = this
  show ?thesis
  proof (cases "reactivatable npub nym (us_users s)")
    case (Some p)
    show ?thesis
      by (rule reactivated[OF None]) (use None Some assms in \<open>simp add: register_user_atomic_def Let_def\<close>)
  next
    case None
    have "s' = s \<or> (\<exists>us'. insert_user (new_user now fid nym npub d v) (us_users s) = Inr us'
        \<and> s' = s\<lparr>us_users := us'\<rparr>)"
      using no_active None assms
      by (auto simp: register_user_atomic_def Let_def map_sum_Inr_iff split: if_splits)
    then show ?thesis using refused created by blast
  qed
qed

lemma user_step_ok: "user_step s s' \<Longrightarrow> users_ok (us_users s) \<Longrightarrow> users_ok (us_users s')"
proof (induction rule: user_step.induct)
  case (step_register now fid npub nym d v cap s out s')
  from step_register(1) show ?case
  proof (cases rule: register_cases)
    case refused
    then show ?thesis using step_register(2) by simp
  next
    case reactivated
    then show ?thesis using step_register(2) by (simp add: users_ok_reactivate)
  next
    case (created us')
    then show ?thesis using step_register(2) by (auto simp: new_user_def intro: users_ok_insert)
  qed
next
  case (step_create now fid nym npub d s u us')
  then show ?case
    by (auto simp: create_user_def Let_def map_sum_Inr_iff new_user_def intro: users_ok_insert)
next
  case (step_advance i s nym)
  then show ?case
    by (auto simp: advance_next_addr_idx_def i32_max_def i32_min_def intro!: users_ok_quiet)
qed (auto simp: deactivate_user_def allocate_address_index_def Let_def mark_user_used_def
    touch_user_callback_def allocate_outpoint_address_def update_user_descriptor_def
    intro!: users_ok_quiet split: option.splits)

lemma insert_user_keeps: "insert_user u us = Inr us' \<Longrightarrow> set us \<subseteq> set us'"
  by (auto simp: insert_user_def split: if_splits)

lemma update_users_evolve:
  assumes "u \<in> set us" "P u \<Longrightarrow> user_evolves u (f u)"
  shows "\<exists>u'\<in>set (fst (update_where P f us)). u_nym u' = u_nym u \<and> user_evolves u u'"
proof (cases "P u")
  case True
  then show ?thesis
    using assms update_where_hit[of u us P f] by (auto simp: user_evolves_def intro!: bexI[of _ "f u"])
next
  case False
  then show ?thesis using assms update_where_frame[of u us P f] by auto
qed

lemma register_evolves:
  assumes "register_user_atomic now fid npub nym d v cap s = Inr (out, s')" "u \<in> set (us_users s)"
  shows "\<exists>u'\<in>set (us_users s'). u_nym u' = u_nym u \<and> user_evolves u u'"
  using assms(1)
proof (cases rule: register_cases)
  case refused
  then show ?thesis using assms(2) user_evolves_refl by blast
next
  case reactivated
  then show ?thesis using assms(2) update_users_evolve by auto
next
  case (created us')
  then show ?thesis using assms(2) insert_user_keeps user_evolves_refl by fastforce
qed

lemma user_step_evolves:
  assumes "user_step s s'" "u \<in> set (us_users s)"
  shows "\<exists>u'\<in>set (us_users s'). u_nym u' = u_nym u \<and> user_evolves u u'"
  using assms
proof (induction rule: user_step.induct)
  case (step_create now fid nym npub d s v us')
  then show ?case
    using insert_user_keeps[of v "us_users s"] user_evolves_refl
    by (fastforce simp: create_user_def Let_def map_sum_Inr_iff)
next
  case (step_advance i s nym)
  then show ?case
    unfolding advance_next_addr_idx_def
    by simp (rule update_users_evolve, auto simp: i32_max_def i32_min_def)
next
  case (step_update npub d s r s')
  then show ?case
    using user_evolves_refl
    by (auto simp: update_user_descriptor_def Let_def
        intro!: update_users_evolve split: option.splits)
next
  case (step_reserve now nym outp pk s i s')
  then show ?case
    using user_evolves_refl
    by (auto simp: allocate_outpoint_address_def mark_user_used_def
        intro!: update_users_evolve split: option.splits)
next
  case (step_purge npub s u)
  then show ?case
    unfolding user_store.select_convs
    by (intro update_users_evolve) (auto simp: user_evolves_def)
qed (auto simp: deactivate_user_def allocate_address_index_def Let_def mark_user_used_def touch_user_callback_def
    intro!: update_users_evolve intro: register_evolves)

interpretation user_table: evolving_table us_users u_nym "\<lambda>s. users_ok (us_users s)" user_step user_evolves
  by unfold_locales (auto intro: user_evolves_trans user_step_ok user_step_evolves)

subsection \<open>The descriptor cursor\<close>

definition addr_cursor :: "string \<Rightarrow> user list \<Rightarrow> int" where
  "addr_cursor nym us = (case get_active_user_by_nym nym us of None \<Rightarrow> 0 | Some u \<Rightarrow> u_next_addr_idx u)"

end
