(* ===== verification/Invoices.thy ===== *)
theory Invoices
  imports Contracts
begin

text \<open>
  Invoices, their payment-event ledger, the durable address reservations and
  the Bitcoin observations: src/src/db/invoices.rs with the CHECK and UNIQUE
  constraints of src/migrations/019..033 that its statements can meet.

  The text columns \<open>status\<close> and \<open>settlement_status\<close> have CHECK constraints
  listing their values, so they are datatypes here; \<open>now\<close> is the database's
  \<open>NOW()\<close>, \<open>unix_now\<close> the process clock in seconds.
\<close>

named_theorems invoice_defs \<open>definitions of the invoice operations\<close>

datatype invoice_status =
    Unpaid | In_progress | Partially_paid | Paid | Underpaid | Overpaid | Expired | Cancelled

datatype settlement_status =
    S_none | S_pending | S_settled | S_claim_stuck | S_refunded | S_failed

datatype pricing_mode = Sat_fixed | Fiat_fixed

fun invoice_status_text :: "invoice_status \<Rightarrow> string" where
  "invoice_status_text Unpaid = ''unpaid''"
| "invoice_status_text In_progress = ''in_progress''"
| "invoice_status_text Partially_paid = ''partially_paid''"
| "invoice_status_text Paid = ''paid''"
| "invoice_status_text Underpaid = ''underpaid''"
| "invoice_status_text Overpaid = ''overpaid''"
| "invoice_status_text Expired = ''expired''"
| "invoice_status_text Cancelled = ''cancelled''"

text \<open>The \<open>matches!\<close> guard of the two settlement updates.\<close>
definition parse_settlement_status :: "string \<Rightarrow> settlement_status db_result" where
  "parse_settlement_status s =
    (if s = ''none'' then Inr S_none
     else if s = ''pending'' then Inr S_pending
     else if s = ''settled'' then Inr S_settled
     else if s = ''claim_stuck'' then Inr S_claim_stuck
     else if s = ''refunded'' then Inr S_refunded
     else if s = ''failed'' then Inr S_failed
     else Inl (ProtocolError (''unknown invoice settlement_status: '' @ s)))"

record invoice =
  inv_id :: uuid
  inv_nym_owner :: "string option"
  inv_npub_owner :: string
  inv_origin :: string
  inv_fiat_amount_minor :: "int option"
  inv_fiat_currency :: "string option"
  inv_amount_sat :: sat
  inv_rate_minor_per_btc :: "int option"
  inv_memo :: "string option"
  inv_terminal_id :: "uuid option"
  inv_memo_public :: bool
  inv_recipient_label :: "string option"
  inv_bitcoin_address :: "string option"
  inv_accept_btc :: bool
  inv_accept_ln :: bool
  inv_accept_liquid :: bool
  inv_public_description :: "string option"
  inv_invoice_number :: "string option"
  inv_liquid_address :: "string option"
  inv_liquid_address_index :: "int option"
  inv_status :: invoice_status
  inv_paid_via :: "string option"
  inv_paid_amount_sat :: "sat option"
  inv_pricing_mode :: pricing_mode
  inv_settlement_status :: settlement_status
  inv_liquid_blinding_key_hex :: "string option"
  inv_created_at :: timestamp
  inv_expires_at :: timestamp
  inv_rate_locked_at :: timestamp
  inv_rate_locks_until :: timestamp
  inv_paid_at :: "timestamp option"
  inv_cancelled_at :: "timestamp option"

record new_invoice =
  ni_nym_owner :: "string option"
  ni_npub_owner :: string
  ni_origin :: string
  ni_fiat_amount_minor :: "int option"
  ni_fiat_currency :: "string option"
  ni_amount_sat :: sat
  ni_rate_minor_per_btc :: "int option"
  ni_rate_lock_secs :: int
  ni_memo :: "string option"
  ni_terminal_id :: "uuid option"
  ni_memo_public :: bool
  ni_recipient_label :: "string option"
  ni_public_description :: "string option"
  ni_invoice_number :: "string option"
  ni_accept_btc :: bool
  ni_accept_ln :: bool
  ni_accept_liquid :: bool
  ni_bitcoin_address :: "string option"
  ni_liquid_address :: "string option"
  ni_liquid_blinding_key_hex :: "string option"
  ni_expires_in_secs :: int

record payment_event =
  pe_invoice_id :: uuid
  pe_rail :: string
  pe_source :: "string option"
  pe_event_key :: string
  pe_amount_sat :: sat
  pe_txid :: "string option"
  pe_vout :: "int option"
  pe_boltz_swap_id :: "string option"
  pe_address :: "string option"
  pe_created_at :: timestamp

record payment_address =
  pa_invoice_id :: uuid
  pa_rail :: string
  pa_address :: string

record payment_observation =
  po_invoice_id :: uuid
  po_rail :: string
  po_source :: string
  po_event_key :: string
  po_txid :: string
  po_vout :: int
  po_address :: string
  po_amount_sat :: sat
  po_confirmations :: int
  po_block_height :: "int option"
  po_last_seen_state :: string
  po_first_seen_at :: timestamp
  po_last_seen_at :: timestamp

record invoice_store =
  is_invoices :: "invoice list"
  is_events :: "payment_event list"
  is_addresses :: "payment_address list"
  is_observations :: "payment_observation list"

subsection \<open>Creation, deletion and listing\<close>

text \<open>The row-level CHECK constraints an INSERT or UPDATE of an invoice must satisfy.\<close>
definition invoice_checks :: "invoice \<Rightarrow> bool" where
  "invoice_checks i \<longleftrightarrow> 0 < inv_amount_sat i \<and> inv_amount_sat i \<le> i64_max
     \<and> (case inv_paid_amount_sat i of None \<Rightarrow> True | Some p \<Rightarrow> 0 < p)
     \<and> (inv_paid_via i = None \<longleftrightarrow> inv_status i \<in> {Unpaid, In_progress, Expired, Cancelled})
     \<and> (inv_accept_btc i \<longrightarrow> inv_bitcoin_address i \<noteq> None)
     \<and> (inv_accept_ln i \<or> inv_accept_liquid i \<longrightarrow> inv_liquid_address i \<noteq> None)
     \<and> (inv_accept_btc i \<or> inv_accept_ln i \<or> inv_accept_liquid i)
     \<and> (inv_fiat_amount_minor i = None \<longleftrightarrow> inv_fiat_currency i = None)"

definition invoice_of_new :: "timestamp \<Rightarrow> uuid \<Rightarrow> new_invoice \<Rightarrow> invoice" where
  "invoice_of_new now fresh_id n =
    \<lparr>inv_id = fresh_id, inv_nym_owner = ni_nym_owner n, inv_npub_owner = ni_npub_owner n,
     inv_origin = ni_origin n, inv_fiat_amount_minor = ni_fiat_amount_minor n,
     inv_fiat_currency = ni_fiat_currency n, inv_amount_sat = ni_amount_sat n,
     inv_rate_minor_per_btc = ni_rate_minor_per_btc n, inv_memo = ni_memo n,
     inv_terminal_id = ni_terminal_id n, inv_memo_public = ni_memo_public n,
     inv_recipient_label = ni_recipient_label n, inv_bitcoin_address = ni_bitcoin_address n,
     inv_accept_btc = ni_accept_btc n, inv_accept_ln = ni_accept_ln n,
     inv_accept_liquid = ni_accept_liquid n, inv_public_description = ni_public_description n,
     inv_invoice_number = ni_invoice_number n, inv_liquid_address = ni_liquid_address n,
     inv_liquid_address_index = None, inv_status = Unpaid, inv_paid_via = None,
     inv_paid_amount_sat = None,
     inv_pricing_mode = (case ni_rate_minor_per_btc n of None \<Rightarrow> Sat_fixed | Some _ \<Rightarrow> Fiat_fixed),
     inv_settlement_status = S_none,
     inv_liquid_blinding_key_hex = ni_liquid_blinding_key_hex n, inv_created_at = now,
     inv_expires_at = now + secs (ni_expires_in_secs n), inv_rate_locked_at = now,
     inv_rate_locks_until = now + secs (ni_rate_lock_secs n), inv_paid_at = None,
     inv_cancelled_at = None\<rparr>"

text \<open>One address reservation; the unique index is per rail, and only deleting the invoice releases it.\<close>
definition reserve_address ::
  "uuid \<Rightarrow> string \<Rightarrow> string option \<Rightarrow> payment_address list \<Rightarrow> payment_address list db_result" where
  "reserve_address iid rail addr pas =
    (case addr of
       None \<Rightarrow> Inr pas
     | Some a \<Rightarrow>
         if row_exists (\<lambda>p. pa_rail p = rail \<and> pa_address p = a) pas
         then Inl (UniqueViolation (''invoice_payment_addresses_'' @ rail @ ''_address_key''))
         else Inr (pas @ [\<lparr>pa_invoice_id = iid, pa_rail = rail, pa_address = a\<rparr>]))"

text \<open>One transaction: the row, then its Bitcoin and Liquid reservations; any failure rolls back.\<close>
definition insert_invoice ::
  "timestamp \<Rightarrow> uuid \<Rightarrow> new_invoice \<Rightarrow> invoice_store \<Rightarrow> (invoice \<times> invoice_store) db_result" where
  "insert_invoice now fresh_id n s =
    (let i = invoice_of_new now fresh_id n in
     if \<not> invoice_checks i then Inl (CheckViolation ''invoices'')
     else if row_exists (\<lambda>x. inv_id x = fresh_id) (is_invoices s) then Inl (UniqueViolation ''invoices_pkey'')
     else case reserve_address fresh_id ''bitcoin'' (ni_bitcoin_address n) (is_addresses s) of
       Inl e \<Rightarrow> Inl e
     | Inr pas \<Rightarrow>
        (case reserve_address fresh_id ''liquid'' (ni_liquid_address n) pas of
           Inl e \<Rightarrow> Inl e
         | Inr pas' \<Rightarrow> Inr (i, s\<lparr>is_invoices := is_invoices s @ [i], is_addresses := pas'\<rparr>)))"

definition get_invoice_by_id :: "uuid \<Rightarrow> invoice list \<Rightarrow> invoice option" where
  "get_invoice_by_id iid = select_one (\<lambda>i. inv_id i = iid)"

definition status_matches :: "string option \<Rightarrow> invoice \<Rightarrow> bool" where
  "status_matches f i = (case f of None \<Rightarrow> True | Some s \<Rightarrow> invoice_status_text (inv_status i) = s)"

text \<open>\<open>page.saturating_sub(1).saturating_mul(page_size)\<close>.\<close>
definition page_offset :: "int \<Rightarrow> int \<Rightarrow> int" where
  "page_offset page page_size = sat_i64 (sat_i64 (page - 1) * page_size)"

definition list_invoices_by_npub ::
  "string \<Rightarrow> string option \<Rightarrow> int \<Rightarrow> int \<Rightarrow> invoice list \<Rightarrow> invoice list" where
  "list_invoices_by_npub npub f page page_size is =
    limit_offset page_size (page_offset page page_size)
      (sort_desc inv_created_at (filter (\<lambda>i. inv_npub_owner i = npub \<and> status_matches f i) is))"

definition list_pos_invoices_by_nym ::
  "string \<Rightarrow> string option \<Rightarrow> int \<Rightarrow> int \<Rightarrow> invoice list \<Rightarrow> invoice list" where
  "list_pos_invoices_by_nym nym f page page_size is =
    limit_offset page_size (page_offset page page_size)
      (sort_desc inv_created_at (filter (\<lambda>i. inv_nym_owner i = Some nym \<and> inv_terminal_id i \<noteq> None
         \<and> status_matches f i) is))"

definition watchable_liquid :: "timestamp \<Rightarrow> invoice \<Rightarrow> bool" where
  "watchable_liquid now i \<longleftrightarrow>
     (inv_status i \<in> {Unpaid, In_progress, Partially_paid}
      \<or> (inv_origin i = ''checkout'' \<and> inv_status i = Underpaid))
     \<and> inv_accept_liquid i \<and> inv_liquid_address i \<noteq> None
     \<and> inv_liquid_blinding_key_hex i \<noteq> None \<and> now < inv_expires_at i"

definition list_unpaid_invoices_with_liquid_address ::
  "timestamp \<Rightarrow> invoice list \<Rightarrow> (uuid \<times> string \<times> sat \<times> string) list" where
  "list_unpaid_invoices_with_liquid_address now is =
    take 1000 (map (\<lambda>i. (inv_id i, the (inv_liquid_address i),
        max (inv_amount_sat i - (case inv_paid_amount_sat i of None \<Rightarrow> 0 | Some p \<Rightarrow> p)) 0,
        the (inv_liquid_blinding_key_hex i)))
      (sort_key inv_created_at (filter (watchable_liquid now) is)))"

subsection \<open>Shortfall tolerances\<close>

record tolerances =
  tol_btc_sat :: sat
  tol_liquid_sat :: sat
  tol_lightning_sat :: sat

definition default_tolerances :: tolerances where
  "default_tolerances = \<lparr>tol_btc_sat = 300, tol_liquid_sat = 60, tol_lightning_sat = 1\<rparr>"

definition for_rail :: "tolerances \<Rightarrow> string \<Rightarrow> sat" where
  "for_rail t rail =
    max (if rail = ''bitcoin'' then tol_btc_sat t
         else if rail = ''liquid'' then tol_liquid_sat t
         else if rail = ''lightning'' then tol_lightning_sat t
         else 0) 0"

definition payment_tolerance_sat_for_amount :: "sat \<Rightarrow> string \<Rightarrow> tolerances \<Rightarrow> sat" where
  "payment_tolerance_sat_for_amount amount_sat rail t =
    (let one_percent = max (tdiv amount_sat 100) 1
     in max (min (for_rail t rail) one_percent) 0)"

subsection \<open>Observations\<close>

definition is_ascii_hexdigit :: "char \<Rightarrow> bool" where
  "is_ascii_hexdigit c \<longleftrightarrow> (let n = (of_char c :: nat)
     in (48 \<le> n \<and> n \<le> 57) \<or> (65 \<le> n \<and> n \<le> 70) \<or> (97 \<le> n \<and> n \<le> 102))"

definition is_hex64 :: "string \<Rightarrow> bool" where
  "is_hex64 s \<longleftrightarrow> length s = 64 \<and> list_all is_ascii_hexdigit s"

text \<open>Decimal rendering of \<open>format!("{}")\<close> on a non-negative integer.\<close>
fun show_nat :: "nat \<Rightarrow> string" where
  "show_nat n = (if n < 10 then [char_of (48 + n)] else show_nat (n div 10) @ [char_of (48 + n mod 10)])"

declare show_nat.simps [simp del]

definition show_int :: "int \<Rightarrow> string" where
  "show_int i = (if i < 0 then ''-'' @ show_nat (nat (- i)) else show_nat (nat i))"

record new_observation =
  no_rail :: string
  no_source :: string
  no_event_key :: string
  no_txid :: string
  no_vout :: int
  no_address :: string
  no_amount_sat :: sat
  no_confirmations :: int
  no_block_height :: "int option"
  no_last_seen_state :: string

definition bitcoin_direct_key :: "string \<Rightarrow> int \<Rightarrow> string" where
  "bitcoin_direct_key txid vout = ''bitcoin_direct:'' @ txid @ '':'' @ show_int vout"

definition validate_observation :: "new_observation \<Rightarrow> unit db_result" where
  "validate_observation n =
    (if no_rail n \<noteq> ''bitcoin'' \<or> no_source n \<noteq> ''bitcoin_direct''
       then Inl (ProtocolError (''invalid invoice payment observation source/rail pair: ''
                   @ no_source n @ ''/'' @ no_rail n))
     else if no_amount_sat n \<le> 0 then Inl (ProtocolError ''observation amount_sat must be > 0'')
     else if no_vout n < 0 then Inl (ProtocolError ''observation vout must be non-negative'')
     else if \<not> is_hex64 (no_txid n) then Inl (ProtocolError ''observation txid must be 64 hex characters'')
     else if no_event_key n \<noteq> bitcoin_direct_key (no_txid n) (no_vout n)
       then Inl (ProtocolError ''observation event_key must be bitcoin_direct:<txid>:<vout>'')
     else if length (no_address n) < 14 \<or> 90 < length (no_address n)
       then Inl (ProtocolError ''observation address length is invalid'')
     else if no_confirmations n < 0
       then Inl (ProtocolError ''observation confirmations must be non-negative'')
     else if no_last_seen_state n = ''seen_unconfirmed'' then
       (if no_confirmations n \<noteq> 0 \<or> no_block_height n \<noteq> None
        then Inl (ProtocolError ''seen_unconfirmed observation must have zero confirmations and no block height'')
        else Inr ())
     else if no_last_seen_state n = ''awaiting_confirmations'' \<or> no_last_seen_state n = ''counted'' then
       (if no_confirmations n \<le> 0 \<or> no_block_height n = None
        then Inl (ProtocolError ''confirmed observation must include confirmations and block height'')
        else Inr ())
     else if no_last_seen_state n = ''not_seen'' then Inr ()
     else Inl (ProtocolError (''unknown observation state: '' @ no_last_seen_state n)))"

definition observation_of_new :: "timestamp \<Rightarrow> uuid \<Rightarrow> new_observation \<Rightarrow> payment_observation" where
  "observation_of_new now iid n =
    \<lparr>po_invoice_id = iid, po_rail = no_rail n, po_source = no_source n, po_event_key = no_event_key n,
     po_txid = no_txid n, po_vout = no_vout n, po_address = no_address n, po_amount_sat = no_amount_sat n,
     po_confirmations = no_confirmations n, po_block_height = no_block_height n,
     po_last_seen_state = no_last_seen_state n, po_first_seen_at = now, po_last_seen_at = now\<rparr>"

text \<open>INSERT .. ON CONFLICT (event_key) DO UPDATE .. WHERE the row belongs to the same invoice.\<close>
definition upsert_invoice_payment_observation ::
  "timestamp \<Rightarrow> uuid \<Rightarrow> new_observation \<Rightarrow> payment_observation list
    \<Rightarrow> (nat \<times> payment_observation list) db_result" where
  "upsert_invoice_payment_observation now iid n pos =
    (case validate_observation n of
       Inl e \<Rightarrow> Inl e
     | Inr _ \<Rightarrow>
        (if row_exists (\<lambda>p. po_event_key p = no_event_key n) pos then
           (let (pos', rows) = update_where
              (\<lambda>p. po_event_key p = no_event_key n \<and> po_invoice_id p = iid)
              (\<lambda>p. p\<lparr>po_amount_sat := no_amount_sat n, po_confirmations := no_confirmations n,
                     po_block_height := no_block_height n,
                     po_last_seen_state := no_last_seen_state n, po_last_seen_at := now\<rparr>) pos
            in Inr (rows, pos'))
         else Inr (1, pos @ [observation_of_new now iid n])))"

definition mark_missing_bitcoin_payment_observations_not_seen ::
  "timestamp \<Rightarrow> uuid \<Rightarrow> string list \<Rightarrow> payment_observation list \<Rightarrow> payment_observation list \<times> nat" where
  "mark_missing_bitcoin_payment_observations_not_seen now iid seen pos = update_where
    (\<lambda>p. po_invoice_id p = iid \<and> po_source p = ''bitcoin_direct'' \<and> po_rail p = ''bitcoin''
       \<and> po_last_seen_state p \<in> {''seen_unconfirmed'', ''awaiting_confirmations''}
       \<and> po_event_key p \<notin> set seen)
    (\<lambda>p. p\<lparr>po_last_seen_state := ''not_seen'', po_last_seen_at := now\<rparr>) pos"

text \<open>\<open>ORDER BY last_seen_at DESC, first_seen_at DESC LIMIT limit.clamp(0, 50)\<close>.\<close>
definition list_invoice_payment_observations ::
  "uuid \<Rightarrow> int \<Rightarrow> payment_observation list \<Rightarrow> payment_observation list" where
  "list_invoice_payment_observations iid lim pos =
    take (nat (max 0 (min 50 lim)))
      (sort_desc po_last_seen_at (sort_desc po_first_seen_at
        (filter (\<lambda>p. po_invoice_id p = iid \<and> po_source p = ''bitcoin_direct'' \<and> po_rail p = ''bitcoin'') pos)))"

subsection \<open>Payment evidence and the ledger\<close>

record evidence =
  ev_rail :: string
  ev_source :: string
  ev_event_key :: string
  ev_amount_sat :: sat
  ev_txid :: "string option"
  ev_vout :: "int option"
  ev_boltz_swap_id :: "string option"
  ev_address :: "string option"

definition direct_evidence_complete :: "evidence \<Rightarrow> bool" where
  "direct_evidence_complete e \<longleftrightarrow> ev_txid e \<noteq> None \<and> (case ev_vout e of None \<Rightarrow> False | Some v \<Rightarrow> 0 \<le> v) \<and> ev_address e \<noteq> None \<and> ev_boltz_swap_id e = None"

definition boltz_evidence_complete :: "evidence \<Rightarrow> bool" where
  "boltz_evidence_complete e \<longleftrightarrow> ev_txid e \<noteq> None \<and> ev_boltz_swap_id e \<noteq> None \<and> ev_vout e = None"

definition validate_evidence :: "evidence \<Rightarrow> unit db_result" where
  "validate_evidence e =
    (if ev_amount_sat e \<le> 0 then Inl (ProtocolError ''payment amount_sat must be > 0'')
     else if ev_rail e \<notin> {''bitcoin'', ''liquid'', ''lightning''}
       then Inl (ProtocolError (''unknown invoice payment rail: '' @ ev_rail e))
     else if ev_source e = ''bitcoin_direct'' \<and> ev_rail e = ''bitcoin'' then
       (if direct_evidence_complete e then Inr ()
        else Inl (ProtocolError ''bitcoin_direct evidence requires txid, non-negative vout, address, and no boltz_swap_id''))
     else if ev_source e = ''liquid_direct'' \<and> ev_rail e = ''liquid'' then
       (if direct_evidence_complete e then Inr ()
        else Inl (ProtocolError ''liquid_direct evidence requires txid, non-negative vout, address, and no boltz_swap_id''))
     else if ev_source e = ''lightning_boltz_reverse'' \<and> ev_rail e = ''lightning'' then
       (if boltz_evidence_complete e then Inr ()
        else Inl (ProtocolError ''lightning_boltz_reverse evidence requires txid, boltz_swap_id, and no vout''))
     else if ev_source e = ''bitcoin_boltz_chain'' \<and> ev_rail e = ''bitcoin'' then
       (if boltz_evidence_complete e then Inr ()
        else Inl (ProtocolError ''bitcoin_boltz_chain evidence requires txid, boltz_swap_id, and no vout''))
     else Inl (ProtocolError (''invalid invoice payment source/rail pair: '' @ ev_source e @ ''/'' @ ev_rail e)))"

definition event_of_evidence :: "timestamp \<Rightarrow> uuid \<Rightarrow> evidence \<Rightarrow> payment_event" where
  "event_of_evidence now iid e =
    \<lparr>pe_invoice_id = iid, pe_rail = ev_rail e, pe_source = Some (ev_source e),
     pe_event_key = ev_event_key e, pe_amount_sat = ev_amount_sat e, pe_txid = ev_txid e,
     pe_vout = ev_vout e, pe_boltz_swap_id = ev_boltz_swap_id e, pe_address = ev_address e,
     pe_created_at = now\<rparr>"

text \<open>CHECK constraints of the event table that \<open>validate\<close> does not already imply:
  both evidence checks want a 64-hex txid.\<close>
definition event_checks :: "evidence \<Rightarrow> bool" where
  "event_checks e \<longleftrightarrow> (case ev_txid e of None \<Rightarrow> False | Some t \<Rightarrow> is_hex64 t)"

definition is_boltz_settlement :: "evidence \<Rightarrow> bool" where
  "is_boltz_settlement e \<longleftrightarrow> ev_source e \<in> {''lightning_boltz_reverse'', ''bitcoin_boltz_chain''}"

text \<open>SQL equality: a NULL txid equals nothing.\<close>
definition same_txid :: "uuid \<Rightarrow> evidence \<Rightarrow> payment_event \<Rightarrow> bool" where
  "same_txid iid e p \<longleftrightarrow> pe_invoice_id p = iid \<and> pe_txid p \<noteq> None \<and> pe_txid p = ev_txid e"

definition boltz_settlement_exists :: "uuid \<Rightarrow> evidence \<Rightarrow> payment_event list \<Rightarrow> bool" where
  "boltz_settlement_exists iid e evs = row_exists (\<lambda>p. same_txid iid e p
     \<and> pe_source p \<in> {Some ''lightning_boltz_reverse'', Some ''bitcoin_boltz_chain''}) evs"

definition prune_direct_rows :: "uuid \<Rightarrow> evidence \<Rightarrow> payment_event list \<Rightarrow> payment_event list \<times> nat" where
  "prune_direct_rows iid e evs =
    (if is_boltz_settlement e
     then delete_where (\<lambda>p. same_txid iid e p \<and> pe_source p = Some ''liquid_direct'') evs
     else (evs, 0))"

text \<open>\<open>ON CONFLICT (event_key) DO NOTHING\<close>; the key is unique over all invoices.\<close>
definition insert_event ::
  "timestamp \<Rightarrow> uuid \<Rightarrow> evidence \<Rightarrow> payment_event list \<Rightarrow> payment_event list \<times> bool" where
  "insert_event now iid e evs =
    (if row_exists (\<lambda>p. pe_event_key p = ev_event_key e) evs then (evs, False)
     else (evs @ [event_of_evidence now iid e], True))"

definition events_of :: "uuid \<Rightarrow> payment_event list \<Rightarrow> payment_event list" where
  "events_of iid evs = filter (\<lambda>p. pe_invoice_id p = iid) evs"

definition received_sat :: "uuid \<Rightarrow> payment_event list \<Rightarrow> sat" where
  "received_sat iid evs = sum_list (map pe_amount_sat (events_of iid evs))"

text \<open>\<open>SELECT DISTINCT rail\<close>: one rail is named, anything else is mixed.\<close>
definition paid_via_of :: "uuid \<Rightarrow> payment_event list \<Rightarrow> string" where
  "paid_via_of iid evs =
    (case remdups (map pe_rail (events_of iid evs)) of [r] \<Rightarrow> r | _ \<Rightarrow> ''mixed'')"

definition status_after_payment ::
  "sat \<Rightarrow> sat \<Rightarrow> sat \<Rightarrow> invoice_status \<Rightarrow> bool \<Rightarrow> invoice_status" where
  "status_after_payment amount received tolerance current expired =
    (if amount < received then Overpaid
     else if sat_i64 (amount - received) \<le> tolerance then Paid
     else if current = Underpaid then Underpaid
     else if expired then Underpaid
     else Partially_paid)"

definition settle_invoice ::
  "timestamp \<Rightarrow> int \<Rightarrow> evidence \<Rightarrow> tolerances \<Rightarrow> payment_event list \<Rightarrow> invoice \<Rightarrow> invoice" where
  "settle_invoice now unix_now e tol evs row =
    (let received = received_sat (inv_id row) evs;
         tolerance = payment_tolerance_sat_for_amount (inv_amount_sat row) (ev_rail e) tol;
         expired = (epoch (inv_expires_at row) \<le> unix_now);
         new_status = status_after_payment (inv_amount_sat row) received tolerance (inv_status row) expired
     in row\<lparr>inv_status := new_status,
            inv_paid_via := Some (paid_via_of (inv_id row) evs),
            inv_paid_amount_sat := Some received,
            inv_settlement_status := (if new_status \<in> {Paid, Overpaid} then S_settled else S_none),
            inv_paid_at := (if new_status \<in> {Paid, Overpaid}
              then (case inv_paid_at row of None \<Rightarrow> Some now | Some t \<Rightarrow> Some t)
              else inv_paid_at row)\<rparr>)"

text \<open>The whole transaction under \<open>SELECT .. FOR UPDATE\<close>; an error rolls everything back.\<close>
definition record_invoice_payment ::
  "timestamp \<Rightarrow> int \<Rightarrow> uuid \<Rightarrow> evidence \<Rightarrow> tolerances \<Rightarrow> invoice_store
    \<Rightarrow> (nat \<times> invoice_store) db_result" where
  "record_invoice_payment now unix_now iid e tol s =
    (case validate_evidence e of
       Inl err \<Rightarrow> Inl err
     | Inr _ \<Rightarrow>
    (case get_invoice_by_id iid (is_invoices s) of
       None \<Rightarrow> Inl RowNotFound
     | Some row \<Rightarrow>
        if inv_status row = Cancelled then Inr (0, s)
        else if ev_source e = ''liquid_direct'' \<and> boltz_settlement_exists iid e (is_events s)
          then Inr (0, s)
        else if \<not> event_checks e then Inl (CheckViolation ''invoice_payment_events'')
        else
         (let (kept, pruned) = prune_direct_rows iid e (is_events s);
              (evs, inserted) = insert_event now iid e kept
          in if \<not> inserted \<and> pruned = 0 then Inr (0, s)
             else
              (let row' = settle_invoice now unix_now e tol evs row
               in if \<not> invoice_checks row' then Inl (CheckViolation ''invoices'')
                  else Inr (if inserted then 1 else 0,
                    s\<lparr>is_events := evs,
                      is_invoices := fst (update_where (\<lambda>i. inv_id i = iid) (\<lambda>_. row') (is_invoices s))\<rparr>)))))"

definition invoice_payment_event_exists :: "uuid \<Rightarrow> string \<Rightarrow> payment_event list \<Rightarrow> bool" where
  "invoice_payment_event_exists iid key evs =
    row_exists (\<lambda>p. pe_invoice_id p = iid \<and> pe_event_key p = key) evs"

subsection \<open>Status transitions outside the ledger\<close>

definition mark_invoice_in_progress :: "uuid \<Rightarrow> invoice list \<Rightarrow> invoice list \<times> nat" where
  "mark_invoice_in_progress iid = update_where
    (\<lambda>i. inv_id i = iid \<and> inv_status i = Unpaid)
    (\<lambda>i. i\<lparr>inv_status := In_progress, inv_settlement_status := S_pending\<rparr>)"

definition settlement_frozen :: "invoice \<Rightarrow> bool" where
  "settlement_frozen i \<longleftrightarrow> inv_status i \<in> {Paid, Underpaid, Overpaid, Expired, Cancelled}"

definition mark_invoice_settlement_status ::
  "uuid option \<Rightarrow> string \<Rightarrow> invoice list \<Rightarrow> (invoice list \<times> nat) db_result" where
  "mark_invoice_settlement_status oid st invs =
    (case oid of
       None \<Rightarrow> Inr (invs, 0)
     | Some iid \<Rightarrow>
        (case parse_settlement_status st of
           Inl e \<Rightarrow> Inl e
         | Inr x \<Rightarrow> Inr (update_where (\<lambda>i. inv_id i = iid \<and> \<not> settlement_frozen i)
                           (\<lambda>i. i\<lparr>inv_settlement_status := x\<rparr>) invs)))"

definition cancel_invoice ::
  "timestamp \<Rightarrow> uuid \<Rightarrow> invoice list \<Rightarrow> (nat \<times> string \<times> invoice list) db_result" where
  "cancel_invoice now iid invs =
    (let (invs', rows) = update_where (\<lambda>i. inv_id i = iid \<and> inv_status i = Unpaid)
           (\<lambda>i. i\<lparr>inv_status := Cancelled, inv_cancelled_at := Some now\<rparr>) invs
     in if rows = 1 then Inr (rows, ''cancelled'', invs')
        else (case get_invoice_by_id iid invs' of
                None \<Rightarrow> Inl RowNotFound
              | Some i \<Rightarrow> Inr (rows, invoice_status_text (inv_status i), invs')))"

definition expire_invoices_past_deadline :: "timestamp \<Rightarrow> invoice list \<Rightarrow> invoice list \<times> nat" where
  "expire_invoices_past_deadline now = update_where
    (\<lambda>i. inv_status i \<in> {Unpaid, In_progress, Partially_paid} \<and> inv_expires_at i < now)
    (\<lambda>i. i\<lparr>inv_status := (if inv_status i = Partially_paid then Underpaid else Expired)\<rparr>)"

text \<open>\<open>MAX(created_at)\<close> is NULL over no events, and a comparison with NULL is not true.\<close>
definition latest_payment_at :: "uuid \<Rightarrow> payment_event list \<Rightarrow> timestamp option" where
  "latest_payment_at iid evs =
    (case map pe_created_at (events_of iid evs) of [] \<Rightarrow> None | t # ts \<Rightarrow> Some (foldr max ts t))"

definition stale_checkout_partial :: "timestamp \<Rightarrow> int \<Rightarrow> payment_event list \<Rightarrow> invoice \<Rightarrow> bool" where
  "stale_checkout_partial now grace_secs evs i \<longleftrightarrow>
     inv_origin i = ''checkout'' \<and> inv_status i = Partially_paid
     \<and> inv_settlement_status i \<notin> {S_pending, S_claim_stuck, S_refunded}
     \<and> (case latest_payment_at (inv_id i) evs of None \<Rightarrow> False | Some t \<Rightarrow> t < now - secs grace_secs)"

definition terminalize_stale_checkout_partial_invoice ::
  "timestamp \<Rightarrow> uuid \<Rightarrow> int \<Rightarrow> payment_event list \<Rightarrow> invoice list \<Rightarrow> invoice list \<times> nat" where
  "terminalize_stale_checkout_partial_invoice now iid grace_secs evs = update_where
    (\<lambda>i. inv_id i = iid \<and> stale_checkout_partial now grace_secs evs i)
    (\<lambda>i. i\<lparr>inv_status := Underpaid\<rparr>)"

text \<open>The bulk form: the 1000 stalest, then one UPDATE over their ids.\<close>
definition terminalize_stale_checkout_partial_invoices ::
  "timestamp \<Rightarrow> int \<Rightarrow> payment_event list \<Rightarrow> invoice list \<Rightarrow> invoice list \<times> nat" where
  "terminalize_stale_checkout_partial_invoices now grace_secs evs invs =
    (let stale = take 1000 (sort_key (\<lambda>i. latest_payment_at (inv_id i) evs)
                   (filter (stale_checkout_partial now grace_secs evs) invs))
     in update_where (\<lambda>i. inv_id i \<in> inv_id ` set stale) (\<lambda>i. i\<lparr>inv_status := Underpaid\<rparr>) invs)"

end
