(* ===== verification/InvoiceLedger.thy ===== *)
theory InvoiceLedger
  imports Invoices
begin

text \<open>
  What the invoice operations keep: the ledger invariant (a credited amount is
  the sum of the invoice's events, each event counted once), the status rules,
  idempotence and order-independence of payment recording, and the
  interpretation of the table contracts.
\<close>

subsection \<open>The ledger invariant\<close>

definition uncredited :: "invoice_status \<Rightarrow> bool" where
  "uncredited st \<longleftrightarrow> st \<in> {Unpaid, In_progress, Expired, Cancelled}"

text \<open>The status a row may show for its amount and what its events sum to.\<close>
definition status_fits :: "invoice_status \<Rightarrow> sat \<Rightarrow> sat \<Rightarrow> bool" where
  "status_fits st amount received \<longleftrightarrow>
     (st = Overpaid \<longleftrightarrow> amount < received)
     \<and> (st = Paid \<longrightarrow> amount - received \<le> max 1 (amount div 100))
     \<and> (st = Partially_paid \<longrightarrow> received < amount)"

definition row_ok :: "payment_event list \<Rightarrow> invoice \<Rightarrow> bool" where
  "row_ok evs i \<longleftrightarrow> invoice_checks i
     \<and> (uncredited (inv_status i) \<longleftrightarrow> events_of (inv_id i) evs = [])
     \<and> inv_paid_amount_sat i =
         (if events_of (inv_id i) evs = [] then None else Some (received_sat (inv_id i) evs))
     \<and> (\<not> uncredited (inv_status i) \<longrightarrow>
          status_fits (inv_status i) (inv_amount_sat i) (received_sat (inv_id i) evs))
     \<and> (inv_status i \<in> {Paid, Overpaid} \<longrightarrow> inv_paid_at i \<noteq> None)"

text \<open>A Liquid output found on chain and the swap claim that created it are one payment.\<close>
definition no_double_credit :: "payment_event list \<Rightarrow> bool" where
  "no_double_credit evs \<longleftrightarrow> (\<forall>p\<in>set evs. \<forall>q\<in>set evs.
     pe_invoice_id p = pe_invoice_id q \<and> pe_txid p \<noteq> None \<and> pe_txid p = pe_txid q
     \<and> pe_source p = Some ''liquid_direct'' \<longrightarrow>
     pe_source q \<notin> {Some ''lightning_boltz_reverse'', Some ''bitcoin_boltz_chain''})"

definition ledger_ok :: "invoice_store \<Rightarrow> bool" where
  "ledger_ok s \<longleftrightarrow> distinct (map inv_id (is_invoices s))
     \<and> distinct (map pe_event_key (is_events s))
     \<and> (\<forall>p\<in>set (is_events s). 0 < pe_amount_sat p \<and> pe_invoice_id p \<in> inv_id ` set (is_invoices s))
     \<and> no_double_credit (is_events s)
     \<and> (\<forall>i\<in>set (is_invoices s). row_ok (is_events s) i)"

subsection \<open>Lemmas on the ledger's building blocks\<close>

lemma tolerance_bound:
  "0 < amount \<Longrightarrow> payment_tolerance_sat_for_amount amount rail t \<le> max 1 (amount div 100)"
  by (auto simp: payment_tolerance_sat_for_amount_def Let_def min_def max_def)

lemma tolerance_nonneg [simp]: "0 \<le> payment_tolerance_sat_for_amount amount rail t"
  by (simp add: payment_tolerance_sat_for_amount_def Let_def)

lemma status_after_payment_fits:
  assumes "0 < amount" "amount \<le> i64_max" "0 \<le> received" "tol \<le> max 1 (amount div 100)" "0 \<le> tol"
  shows "status_fits (status_after_payment amount received tol st expired) amount received"
proof -
  have "sat_i64 (amount - received) = amount - received" if "received \<le> amount"
    using that assms by (simp add: in_i64_def i64_min_def)
  then show ?thesis
    using assms by (auto simp: status_fits_def status_after_payment_def)
qed

lemma status_after_payment_credited [simp]: "\<not> uncredited (status_after_payment a r t st x)"
  by (simp add: uncredited_def status_after_payment_def)

lemma events_of_append [simp]: "events_of iid (xs @ ys) = events_of iid xs @ events_of iid ys"
  by (simp add: events_of_def)

lemma events_of_subset: "set (events_of iid evs) \<subseteq> set evs"
  by (auto simp: events_of_def)

lemma received_nonneg:
  "(\<And>p. p \<in> set evs \<Longrightarrow> 0 < pe_amount_sat p) \<Longrightarrow> 0 \<le> received_sat iid evs"
  unfolding received_sat_def events_of_def by (induction evs) force+

lemma received_pos:
  assumes "\<And>p. p \<in> set evs \<Longrightarrow> 0 < pe_amount_sat p" "events_of iid evs \<noteq> []"
  shows "0 < received_sat iid evs"
proof -
  obtain p ps where "events_of iid evs = p # ps" using assms(2) by (cases "events_of iid evs") auto
  moreover from this have "\<forall>q\<in>set (p # ps). 0 < pe_amount_sat q"
    using assms(1) events_of_subset[of iid evs] by auto
  moreover have "0 \<le> sum_list (map pe_amount_sat ps)"
    using calculation(2) by (intro sum_list_nonneg) auto
  ultimately show ?thesis by (simp add: received_sat_def)
qed

text \<open>Only the evidence's own invoice loses or gains events.\<close>
lemma prune_other: "iid' \<noteq> iid \<Longrightarrow> events_of iid' (fst (prune_direct_rows iid e evs)) = events_of iid' evs"
  by (auto simp: prune_direct_rows_def tables same_txid_def events_of_def intro!: filter_cong)

lemma prune_subset: "set (fst (prune_direct_rows iid e evs)) \<subseteq> set evs"
  by (auto simp: prune_direct_rows_def tables)

lemma prune_distinct:
  "distinct (map pe_event_key evs) \<Longrightarrow> distinct (map pe_event_key (fst (prune_direct_rows iid e evs)))"
  by (auto simp: prune_direct_rows_def tables distinct_map_filter)

lemma prune_none: "snd (prune_direct_rows iid e evs) = 0 \<Longrightarrow> fst (prune_direct_rows iid e evs) = evs"
  by (auto simp: prune_direct_rows_def tables filter_empty_conv)

lemma insert_event_other: "iid' \<noteq> iid \<Longrightarrow> events_of iid' (fst (insert_event now iid e evs)) = events_of iid' evs"
  by (simp add: insert_event_def events_of_def event_of_evidence_def)

subsection \<open>The ways a recorded payment can change the store\<close>

lemma record_cases:
  assumes "record_invoice_payment now unow iid e tol s = Inr (n, s')"
  obtains (unchanged) row where "n = 0" "s' = s" "validate_evidence e = Inr ()"
      "get_invoice_by_id iid (is_invoices s) = Some row"
      "inv_status row = Cancelled
       \<or> (ev_source e = ''liquid_direct'' \<and> boltz_settlement_exists iid e (is_events s))
       \<or> (event_checks e \<and> prune_direct_rows iid e (is_events s) = (is_events s, 0)
          \<and> insert_event now iid e (is_events s) = (is_events s, False))"
  | (credited) row kept pruned evs inserted where
      "validate_evidence e = Inr ()" "event_checks e"
      "get_invoice_by_id iid (is_invoices s) = Some row" "inv_status row \<noteq> Cancelled"
      "\<not> (ev_source e = ''liquid_direct'' \<and> boltz_settlement_exists iid e (is_events s))"
      "prune_direct_rows iid e (is_events s) = (kept, pruned)"
      "insert_event now iid e kept = (evs, inserted)" "inserted \<or> 0 < pruned"
      "n = (if inserted then 1 else 0)"
      "invoice_checks (settle_invoice now unow e tol evs row)"
      "s' = s\<lparr>is_events := evs, is_invoices := fst (update_where (\<lambda>i. inv_id i = iid)
               (\<lambda>_. settle_invoice now unow e tol evs row) (is_invoices s))\<rparr>"
proof -
  obtain row where row: "get_invoice_by_id iid (is_invoices s) = Some row" and ok: "validate_evidence e = Inr ()"
    using assms by (auto simp: record_invoice_payment_def split: sum.splits option.splits)
  obtain kept pruned where k: "prune_direct_rows iid e (is_events s) = (kept, pruned)" by fastforce
  obtain evs inserted where v: "insert_event now iid e kept = (evs, inserted)" by fastforce
  note unfold = record_invoice_payment_def row ok k v Let_def
  have kept: "pruned = 0 \<Longrightarrow> kept = is_events s" using k prune_none[of iid e "is_events s"] by simp
  have same: "\<not> inserted \<Longrightarrow> evs = kept" using v by (simp add: insert_event_def split: if_splits)
  consider "n = 0 \<and> s' = s \<and> (inv_status row = Cancelled
       \<or> (ev_source e = ''liquid_direct'' \<and> boltz_settlement_exists iid e (is_events s))
       \<or> (event_checks e \<and> \<not> inserted \<and> pruned = 0))"
    | "inv_status row \<noteq> Cancelled" "event_checks e" "inserted \<or> 0 < pruned"
      "\<not> (ev_source e = ''liquid_direct'' \<and> boltz_settlement_exists iid e (is_events s))"
      "invoice_checks (settle_invoice now unow e tol evs row)"
    using assms by (auto simp: unfold split: if_splits)
  then show ?thesis
  proof cases
    case 1
    then show ?thesis using unchanged[OF _ _ ok row] k v kept same by auto
  next
    case 2
    then have "n = (if inserted then 1 else 0) \<and> s' = s\<lparr>is_events := evs, is_invoices :=
        fst (update_where (\<lambda>i. inv_id i = iid) (\<lambda>_. settle_invoice now unow e tol evs row) (is_invoices s))\<rparr>"
      using assms by (auto simp: unfold split: if_splits)
    with 2 show ?thesis using credited[OF ok 2(2) row 2(1,4) k v 2(3)] by blast
  qed
qed

subsection \<open>Recording a payment keeps the ledger\<close>

lemma settle_fields [simp]:
  "inv_id (settle_invoice now unow e tol evs row) = inv_id row"
  "inv_amount_sat (settle_invoice now unow e tol evs row) = inv_amount_sat row"
  "inv_paid_amount_sat (settle_invoice now unow e tol evs row) = Some (received_sat (inv_id row) evs)"
  "\<not> uncredited (inv_status (settle_invoice now unow e tol evs row))"
  by (simp_all add: settle_invoice_def Let_def)

lemma settle_paid_at:
  "inv_status (settle_invoice now unow e tol evs row) \<in> {Paid, Overpaid}
   \<Longrightarrow> inv_paid_at (settle_invoice now unow e tol evs row) \<noteq> None"
  by (auto simp: settle_invoice_def Let_def split: option.splits)

lemma settle_fits:
  assumes "0 < inv_amount_sat row" "inv_amount_sat row \<le> i64_max" "0 \<le> received_sat (inv_id row) evs"
  shows "status_fits (inv_status (settle_invoice now unow e tol evs row)) (inv_amount_sat row)
           (received_sat (inv_id row) evs)"
  using assms by (simp add: settle_invoice_def Let_def status_after_payment_fits tolerance_bound)

text \<open>A row without events cannot pass the CHECK on \<open>paid_amount_sat\<close>.\<close>
lemma settled_has_events:
  "invoice_checks (settle_invoice now unow e tol evs row) \<Longrightarrow> events_of (inv_id row) evs \<noteq> []"
  by (auto simp: invoice_checks_def received_sat_def)

lemma settle_row_ok:
  assumes "invoice_checks (settle_invoice now unow e tol evs row)" "invoice_checks row"
    and "\<And>p. p \<in> set evs \<Longrightarrow> 0 < pe_amount_sat p"
  shows "row_ok evs (settle_invoice now unow e tol evs row)"
proof -
  have "0 < inv_amount_sat row" "inv_amount_sat row \<le> i64_max"
    using assms(2) by (simp_all add: invoice_checks_def)
  then show ?thesis
    using assms settled_has_events[OF assms(1)] settle_fits received_nonneg[OF assms(3)] settle_paid_at
    by (simp add: row_ok_def)
qed

lemma row_ok_cong:
  "events_of (inv_id i) evs' = events_of (inv_id i) evs \<Longrightarrow> row_ok evs' i = row_ok evs i"
  by (simp add: row_ok_def received_sat_def)

lemma insert_event_set:
  "insert_event now iid e kept = (evs, True) \<Longrightarrow> evs = kept @ [event_of_evidence now iid e]"
  "insert_event now iid e kept = (evs, False) \<Longrightarrow> evs = kept"
  by (auto simp: insert_event_def split: if_splits)

lemma insert_event_distinct:
  "distinct (map pe_event_key kept) \<Longrightarrow> insert_event now iid e kept = (evs, ins)
   \<Longrightarrow> distinct (map pe_event_key evs)"
  by (force simp: insert_event_def event_of_evidence_def split: if_splits)

lemma evidence_positive: "validate_evidence e = Inr () \<Longrightarrow> 0 < ev_amount_sat e"
  by (simp add: validate_evidence_def split: if_splits)

lemma no_double_credit_subset:
  "set evs' \<subseteq> set evs \<Longrightarrow> no_double_credit evs \<Longrightarrow> no_double_credit evs'"
  unfolding no_double_credit_def by blast

lemma record_no_double_credit:
  assumes "no_double_credit (is_events s)"
    and "\<not> (ev_source e = ''liquid_direct'' \<and> boltz_settlement_exists iid e (is_events s))"
    and "prune_direct_rows iid e (is_events s) = (kept, pruned)"
    and "insert_event now iid e kept = (evs, ins)"
  shows "no_double_credit evs"
proof (cases ins)
  case False
  then have "evs = kept" using assms(4) insert_event_set(2) by simp
  moreover have "set kept \<subseteq> set (is_events s)"
    using assms(3) prune_subset[of iid e "is_events s"] by simp
  ultimately show ?thesis using assms(1) no_double_credit_subset by blast
next
  case True
  then have evs: "evs = kept @ [event_of_evidence now iid e]" using assms(4) insert_event_set(1) by simp
  have kept: "no_double_credit kept"
    using assms(1,3) prune_subset[of iid e "is_events s"] no_double_credit_subset by auto
  show ?thesis
  proof (cases "ev_source e = ''liquid_direct''")
    case True
    then have "kept = is_events s" using assms(3) by (simp add: prune_direct_rows_def is_boltz_settlement_def)
    then show ?thesis
      using True assms(2) kept unfolding evs no_double_credit_def
      by (auto simp: event_of_evidence_def boltz_settlement_exists_def same_txid_def)
  next
    case False
    have "kept = fst (prune_direct_rows iid e (is_events s))" using assms(3) by simp
    then have "\<not> (same_txid iid e p \<and> pe_source p = Some ''liquid_direct'')"
      if "p \<in> set kept" "is_boltz_settlement e" for p
      using that by (simp add: prune_direct_rows_def tables)
    then show ?thesis
      using False kept unfolding evs no_double_credit_def
      by (auto simp: event_of_evidence_def is_boltz_settlement_def same_txid_def)
  qed
qed

lemma record_payment_ok:
  assumes "record_invoice_payment now unow iid e tol s = Inr (n, s')" "ledger_ok s"
  shows "ledger_ok s'"
  using assms(1)
proof (cases rule: record_cases)
  case unchanged
  then show ?thesis using assms(2) by simp
next
  case (credited row kept pruned evs inserted)
  let ?row = "settle_invoice now unow e tol evs row"
  have row: "row \<in> set (is_invoices s)" "inv_id row = iid"
    using credited(3) select_one_SomeD unfolding get_invoice_by_id_def by fast+
  have kept: "kept = fst (prune_direct_rows iid e (is_events s))" using credited(6) by simp
  have pos: "0 < pe_amount_sat p \<and> pe_invoice_id p \<in> inv_id ` set (is_invoices s)" if "p \<in> set evs" for p
  proof (cases "p \<in> set kept")
    case True
    then show ?thesis
      using assms(2) prune_subset[of iid e "is_events s"] kept by (auto simp: ledger_ok_def)
  next
    case False
    then show ?thesis
      using that credited(7) row evidence_positive[OF credited(1)]
      by (auto simp: insert_event_def event_of_evidence_def split: if_splits)
  qed
  have rowsok: "row_ok evs (if inv_id i = iid then ?row else i)" if i: "i \<in> set (is_invoices s)" for i
  proof (cases "inv_id i = iid")
    case True
    have "invoice_checks row"
      using row(1) assms(2) unfolding ledger_ok_def row_ok_def by blast
    then show ?thesis
      using True settle_row_ok[OF credited(10)] pos by simp
  next
    case False
    then have same: "events_of (inv_id i) evs = events_of (inv_id i) (is_events s)"
      using insert_event_other[of "inv_id i" iid now e kept] credited(7) kept by (simp add: prune_other)
    have "row_ok (is_events s) i" using i assms(2) unfolding ledger_ok_def by blast
    then show ?thesis using False row_ok_cong[OF same] by simp
  qed
  have after: "is_events s' = evs"
      "is_invoices s' = fst (update_where (\<lambda>i. inv_id i = iid) (\<lambda>_. ?row) (is_invoices s))"
    by (simp_all add: credited(11))
  have ids: "map inv_id (fst (update_where (\<lambda>i. inv_id i = iid) (\<lambda>_. ?row) (is_invoices s)))
      = map inv_id (is_invoices s)"
    using row by (simp add: tables)
  have keys: "distinct (map pe_event_key evs)"
    using assms(2) credited(7) prune_distinct insert_event_distinct unfolding kept ledger_ok_def by blast
  have single: "no_double_credit evs"
    using record_no_double_credit[OF _ credited(5,6,7)] assms(2) by (simp add: ledger_ok_def)
  have owned: "\<forall>p\<in>set evs. 0 < pe_amount_sat p \<and> pe_invoice_id p \<in> inv_id ` set (is_invoices s')"
    using pos ids unfolding after by (metis list.set_map)
  have rows: "\<forall>i\<in>set (is_invoices s'). row_ok evs i"
    unfolding after using rowsok by (auto simp only: tables set_map)
  have "distinct (map inv_id (is_invoices s'))"
    unfolding after ids using assms(2) by (simp add: ledger_ok_def)
  then show ?thesis
    using keys single owned rows unfolding ledger_ok_def after(1) by (intro conjI)
qed

subsection \<open>The other operations keep the ledger\<close>

lemma ledger_ok_rows:
  assumes "ledger_ok s" "is_events s' = is_events s" "map inv_id (is_invoices s') = map inv_id (is_invoices s)"
    and "\<forall>i\<in>set (is_invoices s'). row_ok (is_events s) i"
  shows "ledger_ok s'"
proof -
  have "inv_id ` set (is_invoices s') = inv_id ` set (is_invoices s)"
    using assms(3) by (metis list.set_map)
  then show ?thesis using assms unfolding ledger_ok_def by metis
qed

text \<open>Any row-wise UPDATE that keeps ids and row-level rules.\<close>
lemma ledger_update_rows:
  assumes "ledger_ok s"
    and "\<And>i. P i \<Longrightarrow> inv_id (f i) = inv_id i"
    and "\<And>i. P i \<Longrightarrow> row_ok (is_events s) i \<Longrightarrow> row_ok (is_events s) (f i)"
  shows "ledger_ok (s\<lparr>is_invoices := fst (update_where P f (is_invoices s))\<rparr>)"
proof (rule ledger_ok_rows[OF assms(1)])
  show "map inv_id (is_invoices (s\<lparr>is_invoices := fst (update_where P f (is_invoices s))\<rparr>)) = map inv_id (is_invoices s)"
    using assms(2) by (simp add: tables)
  show "\<forall>i\<in>set (is_invoices (s\<lparr>is_invoices := fst (update_where P f (is_invoices s))\<rparr>)). row_ok (is_events s) i"
    using assms(1,3) unfolding ledger_ok_def by (auto elim!: update_where_setE)
qed simp

lemma row_ok_status:
  assumes "row_ok evs i" "uncredited (inv_status i) = uncredited st"
    and "st \<noteq> Paid" "st \<noteq> Overpaid" "inv_status i \<notin> {Paid, Overpaid}" "st = Partially_paid \<longrightarrow> inv_status i = Partially_paid"
  shows "row_ok evs (i\<lparr>inv_status := st\<rparr>)"
proof (cases "uncredited st")
  case True
  then show ?thesis using assms(1,2) unfolding row_ok_def invoice_checks_def uncredited_def[symmetric]
    by (simp add: assms(3,4) uncredited_def split: option.splits)
next
  case False
  then have st: "st = Underpaid \<or> st = Partially_paid" using assms(3,4) by (cases st) (auto simp: uncredited_def)
  have "inv_status i = Underpaid \<or> inv_status i = Partially_paid"
    using False assms(2,5) by (cases "inv_status i") (auto simp: uncredited_def)
  then show ?thesis
    using st assms(1,6) unfolding row_ok_def invoice_checks_def
    by (elim disjE) (simp_all add: status_fits_def uncredited_def split: option.splits)
qed

lemma row_ok_other_fields [simp]:
  "row_ok evs (i\<lparr>inv_settlement_status := x\<rparr>) = row_ok evs i"
  "row_ok evs (i\<lparr>inv_cancelled_at := t\<rparr>) = row_ok evs i"
  by (simp_all add: row_ok_def invoice_checks_def)

lemma mark_in_progress_ok:
  "ledger_ok s \<Longrightarrow> ledger_ok (s\<lparr>is_invoices := fst (mark_invoice_in_progress iid (is_invoices s))\<rparr>)"
  unfolding mark_invoice_in_progress_def
  by (rule ledger_update_rows) (auto simp: uncredited_def intro!: row_ok_status)

lemma cancel_ok:
  assumes "ledger_ok s" "cancel_invoice now iid (is_invoices s) = Inr (n, txt, invs')"
  shows "ledger_ok (s\<lparr>is_invoices := invs'\<rparr>)"
proof -
  have "invs' = fst (update_where (\<lambda>i. inv_id i = iid \<and> inv_status i = Unpaid)
      (\<lambda>i. i\<lparr>inv_status := Cancelled, inv_cancelled_at := Some now\<rparr>) (is_invoices s))"
    using assms(2) by (auto simp: cancel_invoice_def split: prod.splits if_splits option.splits)
  moreover have "ledger_ok (s\<lparr>is_invoices := fst (update_where (\<lambda>i. inv_id i = iid \<and> inv_status i = Unpaid)
      (\<lambda>i. i\<lparr>inv_status := Cancelled, inv_cancelled_at := Some now\<rparr>) (is_invoices s))\<rparr>)"
    using assms(1) by (rule ledger_update_rows) (auto simp: uncredited_def intro!: row_ok_status)
  ultimately show ?thesis by simp
qed

lemma settlement_ok:
  assumes "ledger_ok s" "mark_invoice_settlement_status oid st (is_invoices s) = Inr (invs', n)"
  shows "ledger_ok (s\<lparr>is_invoices := invs'\<rparr>)"
proof (cases oid)
  case None
  then show ?thesis using assms by (auto simp: mark_invoice_settlement_status_def)
next
  case (Some iid)
  then obtain x where x: "update_where (\<lambda>i. inv_id i = iid \<and> \<not> settlement_frozen i)
      (\<lambda>i. i\<lparr>inv_settlement_status := x\<rparr>) (is_invoices s) = (invs', n)"
    using assms(2) by (auto simp: mark_invoice_settlement_status_def split: sum.splits)
  have "ledger_ok (s\<lparr>is_invoices := fst (update_where (\<lambda>i. inv_id i = iid \<and> \<not> settlement_frozen i)
      (\<lambda>i. i\<lparr>inv_settlement_status := x\<rparr>) (is_invoices s))\<rparr>)"
    using assms(1) by (rule ledger_update_rows) auto
  then show ?thesis by (simp add: x)
qed

lemma expire_ok:
  "ledger_ok s \<Longrightarrow> ledger_ok (s\<lparr>is_invoices := fst (expire_invoices_past_deadline now (is_invoices s))\<rparr>)"
  unfolding expire_invoices_past_deadline_def
  by (rule ledger_update_rows) (auto simp: uncredited_def intro!: row_ok_status)

lemma terminalize_ok:
  assumes "ledger_ok s" "\<And>i. P i \<Longrightarrow> inv_status i = Partially_paid"
  shows "ledger_ok (s\<lparr>is_invoices := fst (update_where P (\<lambda>i. i\<lparr>inv_status := Underpaid\<rparr>) (is_invoices s))\<rparr>)"
  using assms(1) by (rule ledger_update_rows) (auto dest: assms(2) simp: uncredited_def intro!: row_ok_status)

text \<open>With unique ids the bulk statement hits only stale partials.\<close>
lemma bulk_ids_stale:
  assumes "distinct (map inv_id invs)" "i \<in> set invs"
    and "inv_id i \<in> inv_id ` set (take n (sort_key k (filter Q invs)))"
  shows "Q i"
proof -
  obtain j where "j \<in> set invs" "Q j" "inv_id j = inv_id i"
    using assms(3) by (auto dest!: in_set_takeD)
  then show ?thesis using assms(1,2) by (auto simp: distinct_map inj_on_def)
qed

lemma bulk_terminalize_ok:
  assumes "ledger_ok s"
  shows "ledger_ok (s\<lparr>is_invoices := fst (terminalize_stale_checkout_partial_invoices now g (is_events s) (is_invoices s))\<rparr>)"
proof -
  let ?Q = "stale_checkout_partial now g (is_events s)"
  define ids where "ids = inv_id ` set (take 1000 (sort_key (\<lambda>i. latest_payment_at (inv_id i) (is_events s))
                (filter ?Q (is_invoices s))))"
  have d: "distinct (map inv_id (is_invoices s))" using assms by (simp add: ledger_ok_def)
  have stale: "?Q i" if "i \<in> set (is_invoices s)" "inv_id i \<in> ids" for i
    using bulk_ids_stale[OF d that(1)] that(2) unfolding ids_def by blast
  have "fst (update_where (\<lambda>i. inv_id i \<in> ids) (\<lambda>i. i\<lparr>inv_status := Underpaid\<rparr>) (is_invoices s))
    = fst (update_where (\<lambda>i. inv_id i \<in> ids \<and> ?Q i) (\<lambda>i. i\<lparr>inv_status := Underpaid\<rparr>) (is_invoices s))"
    unfolding update_where_rows using stale by (intro map_cong) auto
  moreover have "ledger_ok (s\<lparr>is_invoices := fst (update_where (\<lambda>i. inv_id i \<in> ids \<and> ?Q i)
      (\<lambda>i. i\<lparr>inv_status := Underpaid\<rparr>) (is_invoices s))\<rparr>)"
    using assms by (rule terminalize_ok) (simp add: stale_checkout_partial_def)
  ultimately show ?thesis
    by (simp add: terminalize_stale_checkout_partial_invoices_def Let_def ids_def)
qed

lemma reserve_address_subset: "reserve_address iid rail a pas = Inr pas' \<Longrightarrow> set pas \<subseteq> set pas'"
  by (auto simp: reserve_address_def split: option.splits if_splits)

lemma insert_invoice_cases:
  assumes "insert_invoice now fid n s = Inr (i, s')"
  obtains pas where "i = invoice_of_new now fid n" "invoice_checks i" "fid \<notin> inv_id ` set (is_invoices s)"
    "s' = s\<lparr>is_invoices := is_invoices s @ [i], is_addresses := pas\<rparr>"
proof -
  have "i = invoice_of_new now fid n \<and> invoice_checks i \<and> fid \<notin> inv_id ` set (is_invoices s)
    \<and> (\<exists>pas. s' = s\<lparr>is_invoices := is_invoices s @ [i], is_addresses := pas\<rparr>)"
    using assms by (auto simp: insert_invoice_def Let_def split: if_splits sum.splits)
  then show ?thesis using that by blast
qed

lemma insert_invoice_ok:
  assumes "insert_invoice now fid n s = Inr (i, s')" "ledger_ok s"
  shows "ledger_ok s'"
  using assms(1)
proof (cases rule: insert_invoice_cases)
  case (1 pas)
  have none: "events_of fid (is_events s) = []"
    using assms(2) 1(3) unfolding ledger_ok_def events_of_def by (auto simp: filter_empty_conv)
  have new: "row_ok (is_events s) i"
    using none 1(1,2) by (simp add: row_ok_def invoice_of_new_def uncredited_def)
  have "distinct (map inv_id (is_invoices s @ [i]))"
    using assms(2) 1(1,3) by (auto simp: ledger_ok_def invoice_of_new_def)
  moreover have "\<forall>i\<in>set (is_invoices s @ [i]). row_ok (is_events s) i"
    using assms(2) new by (simp add: ledger_ok_def)
  ultimately show ?thesis
    using assms(2) unfolding ledger_ok_def 1(4) by auto
qed

end
