(* ===== verification/InvoiceLifecycle.thy ===== *)
theory InvoiceLifecycle
  imports InvoiceLedger
begin

text \<open>
  The life of an invoice row over any sequence of the operations of theory
  Invoices: the step relation, the order in which statuses can follow each
  other, the interpretations of \<open>terminal_table\<close>, and the idempotence and
  commutation facts of payment recording.
\<close>

inductive ledger_step :: "invoice_store \<Rightarrow> invoice_store \<Rightarrow> bool" where
  ls_insert: "insert_invoice now fid n s = Inr (i, s') \<Longrightarrow> ledger_step s s'"
| ls_record: "record_invoice_payment now unow iid e tol s = Inr (n, s') \<Longrightarrow> ledger_step s s'"
| ls_progress: "ledger_step s (s\<lparr>is_invoices := fst (mark_invoice_in_progress iid (is_invoices s))\<rparr>)"
| ls_settlement: "mark_invoice_settlement_status oid st (is_invoices s) = Inr (invs', n)
    \<Longrightarrow> ledger_step s (s\<lparr>is_invoices := invs'\<rparr>)"
| ls_cancel: "cancel_invoice now iid (is_invoices s) = Inr (n, msg, invs')
    \<Longrightarrow> ledger_step s (s\<lparr>is_invoices := invs'\<rparr>)"
| ls_expire: "ledger_step s (s\<lparr>is_invoices := fst (expire_invoices_past_deadline now (is_invoices s))\<rparr>)"
| ls_stale: "ledger_step s (s\<lparr>is_invoices := fst (terminalize_stale_checkout_partial_invoice now iid g (is_events s) (is_invoices s))\<rparr>)"
| ls_stale_bulk: "ledger_step s (s\<lparr>is_invoices := fst (terminalize_stale_checkout_partial_invoices now g (is_events s) (is_invoices s))\<rparr>)"
| ls_observe: "upsert_invoice_payment_observation now iid o1 (is_observations s) = Inr (n, pos)
    \<Longrightarrow> ledger_step s (s\<lparr>is_observations := pos\<rparr>)"
| ls_missing: "ledger_step s (s\<lparr>is_observations :=
      fst (mark_missing_bitcoin_payment_observations_not_seen now iid seen (is_observations s))\<rparr>)"

inductive_cases ledger_stepE: "ledger_step s s'"

subsection \<open>Which status can follow which\<close>

fun stage :: "invoice_status \<Rightarrow> nat" where
  "stage Unpaid = 0"
| "stage In_progress = 1"
| "stage Expired = 2"
| "stage Cancelled = 3"
| "stage _ = 4"

definition may_become :: "invoice_status \<Rightarrow> invoice_status \<Rightarrow> bool" where
  "may_become a b \<longleftrightarrow> a = b \<or> (\<not> uncredited a \<and> \<not> uncredited b)
     \<or> (a \<noteq> Cancelled \<and> b \<noteq> Cancelled \<and> stage a < stage b) \<or> (a = Unpaid \<and> b = Cancelled)"

text \<open>What the payer was shown does not change, statuses only move along \<open>may_become\<close>,
  the first payment time stays, and a cancelled row is frozen.\<close>
definition invoice_evolves :: "invoice \<Rightarrow> invoice \<Rightarrow> bool" where
  "invoice_evolves i i' \<longleftrightarrow>
     inv_amount_sat i' = inv_amount_sat i \<and> inv_npub_owner i' = inv_npub_owner i
     \<and> inv_bitcoin_address i' = inv_bitcoin_address i \<and> inv_liquid_address i' = inv_liquid_address i
     \<and> inv_expires_at i' = inv_expires_at i \<and> inv_created_at i' = inv_created_at i
     \<and> may_become (inv_status i) (inv_status i')
     \<and> (inv_paid_at i \<noteq> None \<longrightarrow> inv_paid_at i' = inv_paid_at i)
     \<and> (inv_status i = Cancelled \<longrightarrow> i' = i)"

lemma may_become_refl [simp]: "may_become a a"
  by (simp add: may_become_def)

lemma may_become_trans: "may_become a b \<Longrightarrow> may_become b c \<Longrightarrow> may_become a c"
  by (cases a; cases b; cases c) (simp_all add: may_become_def uncredited_def)

lemma invoice_evolves_refl [simp]: "invoice_evolves i i"
  by (simp add: invoice_evolves_def)

lemma invoice_evolves_trans:
  assumes "invoice_evolves i j" "invoice_evolves j k"
  shows "invoice_evolves i k"
  using assms may_become_trans[of "inv_status i" "inv_status j" "inv_status k"]
  unfolding invoice_evolves_def by (cases "inv_paid_at i") auto

lemma settle_evolves:
  assumes "inv_status i \<noteq> Cancelled"
  shows "invoice_evolves i (settle_invoice now unow e tol evs i)"
proof -
  have "may_become (inv_status i) (status_after_payment a r t (inv_status i) x)" for a r t x
    using assms by (cases "inv_status i")
      (auto simp: may_become_def status_after_payment_def uncredited_def)
  then show ?thesis
    using assms by (auto simp: invoice_evolves_def settle_invoice_def Let_def)
qed

lemma update_invoices_evolve:
  assumes "i \<in> set invs" "P i \<Longrightarrow> inv_id (f i) = inv_id i \<and> invoice_evolves i (f i)"
  shows "\<exists>i'\<in>set (fst (update_where P f invs)). inv_id i' = inv_id i \<and> invoice_evolves i i'"
proof (cases "P i")
  case True
  then show ?thesis using assms update_where_hit[of i invs P f] by blast
next
  case False
  then show ?thesis using assms update_where_frame[of i invs P f] invoice_evolves_refl by blast
qed

text \<open>Row by row, what each of the other statements does to a status.\<close>
lemma evolves_fields [simp]:
  "invoice_evolves i (i\<lparr>inv_status := In_progress, inv_settlement_status := x\<rparr>) \<longleftrightarrow>
     may_become (inv_status i) In_progress \<and> inv_status i \<noteq> Cancelled"
  "inv_status i = Unpaid \<Longrightarrow> invoice_evolves i (i\<lparr>inv_status := Cancelled, inv_cancelled_at := t\<rparr>)"
  "\<not> settlement_frozen i \<Longrightarrow> invoice_evolves i (i\<lparr>inv_settlement_status := x\<rparr>)"
  "inv_status i \<in> {Unpaid, In_progress} \<Longrightarrow> invoice_evolves i (i\<lparr>inv_status := Expired\<rparr>)"
  "inv_status i = Partially_paid \<Longrightarrow> invoice_evolves i (i\<lparr>inv_status := Underpaid\<rparr>)"
  by (auto simp: invoice_evolves_def may_become_def uncredited_def settlement_frozen_def)

lemma record_evolves:
  assumes "record_invoice_payment now unow iid e tol s = Inr (n, s')" "ledger_ok s" "i \<in> set (is_invoices s)"
  shows "\<exists>i'\<in>set (is_invoices s'). inv_id i' = inv_id i \<and> invoice_evolves i i'"
  using assms(1)
proof (cases rule: record_cases)
  case unchanged
  then show ?thesis using assms(3) invoice_evolves_refl by blast
next
  case (credited row kept pruned evs inserted)
  have row: "row \<in> set (is_invoices s)" "inv_id row = iid"
    using credited(3) select_one_SomeD unfolding get_invoice_by_id_def by fast+
  have "distinct (map inv_id (is_invoices s))" using assms(2) by (simp add: ledger_ok_def)
  then have "i = row" if "inv_id i = iid"
    using that row assms(3) by (auto simp: distinct_map inj_on_def)
  then have "inv_id i = iid \<Longrightarrow> inv_id (settle_invoice now unow e tol evs row) = inv_id i
      \<and> invoice_evolves i (settle_invoice now unow e tol evs row)"
    using row(2) settle_evolves[OF credited(4)] by simp
  from update_invoices_evolve[OF assms(3) this] show ?thesis by (simp add: credited(11))
qed

lemma cancel_shape:
  "cancel_invoice now iid invs = Inr (n, msg, invs') \<Longrightarrow>
   invs' = fst (update_where (\<lambda>i. inv_id i = iid \<and> inv_status i = Unpaid)
      (\<lambda>i. i\<lparr>inv_status := Cancelled, inv_cancelled_at := Some now\<rparr>) invs)"
  by (auto simp: cancel_invoice_def split: prod.splits if_splits option.splits)

lemma settlement_shape:
  assumes "mark_invoice_settlement_status oid st invs = Inr (invs', n)"
  shows "invs' = invs \<or> (\<exists>iid x. invs' = fst (update_where (\<lambda>i. inv_id i = iid \<and> \<not> settlement_frozen i)
      (\<lambda>i. i\<lparr>inv_settlement_status := x\<rparr>) invs))"
  using assms by (auto simp: mark_invoice_settlement_status_def split: option.splits sum.splits)
    (metis fst_conv)

lemma ledger_ok_observations [simp]: "ledger_ok (s\<lparr>is_observations := x\<rparr>) = ledger_ok s"
  by (simp add: ledger_ok_def)

lemma ledger_step_ok: "ledger_step s s' \<Longrightarrow> ledger_ok s \<Longrightarrow> ledger_ok s'"
proof (induction rule: ledger_step.induct)
  case (ls_stale s now iid g)
  then show ?case
    unfolding terminalize_stale_checkout_partial_invoice_def
    by (intro terminalize_ok) (auto simp: stale_checkout_partial_def)
qed (simp_all add: insert_invoice_ok record_payment_ok mark_in_progress_ok settlement_ok cancel_ok expire_ok
    bulk_terminalize_ok)

lemma ledger_step_evolves:
  assumes "ledger_step s s'" "ledger_ok s" "i \<in> set (is_invoices s)"
  shows "\<exists>i'\<in>set (is_invoices s'). inv_id i' = inv_id i \<and> invoice_evolves i i'"
  using assms
proof (induction rule: ledger_step.induct)
  case (ls_insert now fid n s j s')
  from ls_insert(1) show ?case
    by (cases rule: insert_invoice_cases) (use ls_insert(3) invoice_evolves_refl in auto)
next
  case (ls_record now unow iid e tol s n s')
  then show ?case by (rule record_evolves)
next
  case (ls_progress s iid)
  then show ?case
    by (simp add: mark_invoice_in_progress_def, intro update_invoices_evolve)
      (auto simp: may_become_def)
next
  case (ls_settlement oid st s invs' n)
  from settlement_shape[OF ls_settlement(1)] show ?case
    using ls_settlement(3) invoice_evolves_refl by (auto intro!: update_invoices_evolve)
next
  case (ls_cancel now iid s n msg invs')
  show ?case
    unfolding cancel_shape[OF ls_cancel(1)]
    using ls_cancel(3) by simp (intro update_invoices_evolve, auto)
next
  case (ls_expire s now)
  then show ?case
    by (simp add: expire_invoices_past_deadline_def, intro update_invoices_evolve) auto
next
  case (ls_stale s now iid g)
  then show ?case
    by (simp add: terminalize_stale_checkout_partial_invoice_def, intro update_invoices_evolve)
      (auto simp: stale_checkout_partial_def)
next
  case (ls_stale_bulk s now g)
  have "distinct (map inv_id (is_invoices s))" using ls_stale_bulk(1) by (simp add: ledger_ok_def)
  note stale = bulk_ids_stale[OF this ls_stale_bulk(2)]
  show ?case
    unfolding terminalize_stale_checkout_partial_invoices_def Let_def
    using ls_stale_bulk(2)
    by simp (intro update_invoices_evolve conjI, auto dest!: stale simp: stale_checkout_partial_def simp del: set_sort)
qed auto

interpretation invoice_table: terminal_table is_invoices inv_id ledger_ok ledger_step invoice_evolves
  "\<lambda>i. inv_status i = Cancelled" "\<lambda>i. i"
proof (unfold_locales, goal_cases)
  case (2 r s u)
  then show ?case by (rule invoice_evolves_trans)
next
  case (5 r r')
  then show ?case by (simp add: invoice_evolves_def)
qed (auto intro: ledger_step_ok ledger_step_evolves)

subsection \<open>Idempotence of recording\<close>

lemma insert_event_has_key:
  "insert_event now iid e kept = (evs, ins) \<Longrightarrow> row_exists (\<lambda>p. pe_event_key p = ev_event_key e) evs"
  by (auto simp: insert_event_def event_of_evidence_def split: if_splits)

text \<open>After a credit nothing is left to prune and the key is taken.\<close>
lemma credited_is_saturated:
  assumes "prune_direct_rows iid e es = (kept, pruned)" "insert_event now iid e kept = (evs, ins)"
  shows "prune_direct_rows iid e evs = (evs, 0)" "insert_event now' iid e evs = (evs, False)"
proof -
  have kept: "kept = fst (prune_direct_rows iid e es)" using assms(1) by simp
  have "\<not> (same_txid iid e p \<and> pe_source p = Some ''liquid_direct'')"
    if "is_boltz_settlement e" "p \<in> set evs" for p
    using that assms(2) unfolding kept
    by (auto simp: prune_direct_rows_def tables insert_event_def event_of_evidence_def is_boltz_settlement_def
        split: if_splits)
  then show "prune_direct_rows iid e evs = (evs, 0)"
    by (auto simp: prune_direct_rows_def delete_where_def filter_empty_conv filter_id_conv)
  show "insert_event now' iid e evs = (evs, False)"
    using insert_event_has_key[OF assms(2)] by (auto simp: insert_event_def)
qed

lemma record_on_saturated:
  assumes "validate_evidence e = Inr ()" "event_checks e"
    and "get_invoice_by_id iid (is_invoices s) = Some row"
    and "prune_direct_rows iid e (is_events s) = (is_events s, 0)"
    and "insert_event now iid e (is_events s) = (is_events s, False)"
  shows "record_invoice_payment now unow iid e tol s = Inr (0, s)"
  using assms by (simp add: record_invoice_payment_def Let_def)

lemma record_twice:
  assumes "record_invoice_payment now unow iid e tol s = Inr (n, s')"
  shows "record_invoice_payment now' unow' iid e tol' s' = Inr (0, s')"
  using assms
proof (cases rule: record_cases)
  case (unchanged row)
  then show ?thesis
    by (auto simp: record_invoice_payment_def Let_def insert_event_def split: if_splits)
next
  case (credited row kept pruned evs inserted)
  let ?row = "settle_invoice now unow e tol evs row"
  have "get_invoice_by_id iid (is_invoices s') = Some ?row"
    using credited(3) select_one_SomeD[OF credited(3)[unfolded get_invoice_by_id_def]]
    unfolding credited(11) get_invoice_by_id_def by (simp add: select_one_overwrite)
  then show ?thesis
    using credited credited_is_saturated[OF credited(6,7)] record_on_saturated[of e iid s'] by simp
qed

subsection \<open>A claim and the output it created, in either order\<close>

lemma record_events_direct:
  assumes "record_invoice_payment now unow iid d tol s = Inr (n, s')" "ev_source d = ''liquid_direct''"
  shows "is_events s' = is_events s \<or> is_events s' = is_events s @ [event_of_evidence now iid d]"
  using assms(1)
proof (cases rule: record_cases)
  case (credited row kept pruned evs inserted)
  then have "kept = is_events s \<and> pruned = 0"
    using assms(2) by (simp add: prune_direct_rows_def is_boltz_settlement_def)
  then show ?thesis
    using credited by (auto simp: insert_event_def split: if_splits)
qed simp

lemma record_events_boltz:
  assumes "record_invoice_payment now unow iid b tol s = Inr (n, s')" "is_boltz_settlement b"
    and "\<not> row_exists (\<lambda>p. pe_event_key p = ev_event_key b) (is_events s)"
    and "get_invoice_by_id iid (is_invoices s) = Some row" "inv_status row \<noteq> Cancelled"
  shows "is_events s' = fst (prune_direct_rows iid b (is_events s)) @ [event_of_evidence now iid b]"
  using assms(1)
proof (cases rule: record_cases)
  case (unchanged r)
  then show ?thesis
    using assms(2-5) by (auto simp: insert_event_def is_boltz_settlement_def)
next
  case (credited r kept pruned evs inserted)
  have "kept = fst (prune_direct_rows iid b (is_events s))" using credited(6) by simp
  moreover have "\<not> row_exists (\<lambda>p. pe_event_key p = ev_event_key b) kept"
    using assms(3) prune_subset[of iid b "is_events s"] calculation by auto
  ultimately show ?thesis
    using credited(7,11) by (auto simp: insert_event_def)
qed

lemma prune_drops_direct:
  assumes "is_boltz_settlement b" "ev_source d = ''liquid_direct''" "ev_txid d = Some t" "ev_txid b = Some t"
  shows "fst (prune_direct_rows iid b (es @ [event_of_evidence now iid d])) = fst (prune_direct_rows iid b es)"
  using assms by (simp add: prune_direct_rows_def tables same_txid_def event_of_evidence_def)

lemma record_status_not_cancelled:
  assumes "record_invoice_payment now unow iid e tol s = Inr (n, s')"
    and "get_invoice_by_id iid (is_invoices s) = Some row" "inv_status row \<noteq> Cancelled"
  obtains row' where "get_invoice_by_id iid (is_invoices s') = Some row'" "inv_status row' \<noteq> Cancelled"
  using assms(1)
proof (cases rule: record_cases)
  case (unchanged r)
  then show ?thesis using assms(2,3) that by simp
next
  case (credited r kept pruned evs inserted)
  let ?row = "settle_invoice now unow e tol evs r"
  have "get_invoice_by_id iid (is_invoices s') = Some ?row"
    using credited(3) select_one_SomeD[OF credited(3)[unfolded get_invoice_by_id_def]]
    unfolding credited(11) get_invoice_by_id_def by (simp add: select_one_overwrite)
  moreover have "inv_status ?row \<noteq> Cancelled"
    using settle_fields(4)[of now unow e tol evs r] by (auto simp: uncredited_def simp del: settle_fields)
  ultimately show ?thesis using that by blast
qed

lemma direct_then_boltz_events:
  assumes "record_invoice_payment td ud iid d tol s = Inr (n1, s1)"
    and "record_invoice_payment tb ub iid b tol s1 = Inr (n2, s2)"
    and "ev_source d = ''liquid_direct''" "is_boltz_settlement b"
    and "ev_txid d = Some t" "ev_txid b = Some t" "ev_event_key d \<noteq> ev_event_key b"
    and "\<not> row_exists (\<lambda>p. pe_event_key p = ev_event_key b) (is_events s)"
    and "get_invoice_by_id iid (is_invoices s) = Some row" "inv_status row \<noteq> Cancelled"
  shows "is_events s2 = fst (prune_direct_rows iid b (is_events s)) @ [event_of_evidence tb iid b]"
proof -
  obtain row1 where row1: "get_invoice_by_id iid (is_invoices s1) = Some row1" "inv_status row1 \<noteq> Cancelled"
    using record_status_not_cancelled[OF assms(1,9,10)] by blast
  have e1: "is_events s1 = is_events s \<or> is_events s1 = is_events s @ [event_of_evidence td iid d]"
    by (rule record_events_direct[OF assms(1,3)])
  then have "\<not> row_exists (\<lambda>p. pe_event_key p = ev_event_key b) (is_events s1)"
    using assms(7,8) by (auto simp: event_of_evidence_def)
  from record_events_boltz[OF assms(2,4) this row1] show ?thesis
    using e1 prune_drops_direct[OF assms(4,3,5,6)] by auto
qed

lemma boltz_then_direct_events:
  assumes "record_invoice_payment tb ub iid b tol s = Inr (m1, r1)"
    and "record_invoice_payment td ud iid d tol r1 = Inr (m2, r2)"
    and "ev_source d = ''liquid_direct''" "is_boltz_settlement b"
    and "ev_txid d = Some t" "ev_txid b = Some t"
    and "\<not> row_exists (\<lambda>p. pe_event_key p = ev_event_key b) (is_events s)"
    and "get_invoice_by_id iid (is_invoices s) = Some row" "inv_status row \<noteq> Cancelled"
  shows "is_events r2 = fst (prune_direct_rows iid b (is_events s)) @ [event_of_evidence tb iid b]"
proof -
  have e1: "is_events r1 = fst (prune_direct_rows iid b (is_events s)) @ [event_of_evidence tb iid b]"
    by (rule record_events_boltz[OF assms(1,4,7,8,9)])
  then have "boltz_settlement_exists iid d (is_events r1)"
    using assms(4,5,6)
    by (auto simp: boltz_settlement_exists_def same_txid_def event_of_evidence_def is_boltz_settlement_def)
  from assms(2) show ?thesis
  proof (cases rule: record_cases)
    case (unchanged r)
    then show ?thesis using e1 by simp
  next
    case (credited r kept pruned evs inserted)
    then show ?thesis using \<open>boltz_settlement_exists iid d (is_events r1)\<close> assms(3) by blast
  qed
qed

end
