(* ===== verification/LedgerProperties.thy ===== *)
theory LedgerProperties
  imports InvoiceLifecycle
begin

text \<open>
  The properties of the invoice component, each with the concrete run that
  shows its hypotheses can hold.
\<close>

definition empty_ledger :: invoice_store where
  "empty_ledger = \<lparr>is_invoices = [], is_events = [], is_addresses = [], is_observations = []\<rparr>"

subsection \<open>A concrete run used by the witnesses\<close>

definition demo_txid :: string where
  "demo_txid = replicate 64 (CHR ''a'')"

text \<open>A checkout invoice over 100000 sat accepting Liquid, valid for an hour.\<close>
definition demo_new :: new_invoice where
  "demo_new = \<lparr>ni_nym_owner = Some ''alice'', ni_npub_owner = ''npub'', ni_origin = ''checkout'',
     ni_fiat_amount_minor = None, ni_fiat_currency = None, ni_amount_sat = 100000,
     ni_rate_minor_per_btc = None, ni_rate_lock_secs = 3600, ni_memo = None, ni_terminal_id = None,
     ni_memo_public = False, ni_recipient_label = None, ni_public_description = None,
     ni_invoice_number = None, ni_accept_btc = False, ni_accept_ln = True, ni_accept_liquid = True,
     ni_bitcoin_address = None, ni_liquid_address = Some ''lq1'', ni_liquid_blinding_key_hex = None,
     ni_expires_in_secs = 3600\<rparr>"

definition demo_direct :: evidence where
  "demo_direct = \<lparr>ev_rail = ''liquid'', ev_source = ''liquid_direct'', ev_event_key = ''d'',
     ev_amount_sat = 99950, ev_txid = Some demo_txid, ev_vout = Some 0,
     ev_boltz_swap_id = None, ev_address = Some ''lq1''\<rparr>"

definition demo_claim :: evidence where
  "demo_claim = \<lparr>ev_rail = ''lightning'', ev_source = ''lightning_boltz_reverse'', ev_event_key = ''b'',
     ev_amount_sat = 100000, ev_txid = Some demo_txid, ev_vout = None,
     ev_boltz_swap_id = Some ''swap'', ev_address = Some ''lq1''\<rparr>"

definition demo_invoice :: invoice where
  "demo_invoice = invoice_of_new 0 1 demo_new"

definition demo_s1 :: invoice_store where
  "demo_s1 = empty_ledger\<lparr>is_invoices := [demo_invoice],
     is_addresses := [\<lparr>pa_invoice_id = 1, pa_rail = ''liquid'', pa_address = ''lq1''\<rparr>]\<rparr>"

text \<open>After the direct output alone, and after the claim alone.\<close>
definition demo_s2 :: invoice_store where
  "demo_s2 = demo_s1\<lparr>is_invoices := [settle_invoice 10 10 demo_direct default_tolerances
       [event_of_evidence 10 1 demo_direct] demo_invoice],
     is_events := [event_of_evidence 10 1 demo_direct]\<rparr>"

lemmas demo_defs = demo_new_def demo_direct_def demo_claim_def demo_invoice_def demo_s1_def demo_s2_def
  demo_txid_def empty_ledger_def default_tolerances_def

lemma demo_insert: "insert_invoice 0 1 demo_new empty_ledger = Inr (demo_invoice, demo_s1)"
  by code_simp

lemma demo_record: "record_invoice_payment 10 10 1 demo_direct default_tolerances demo_s1 = Inr (1, demo_s2)"
  by code_simp

lemma demo_run: "ledger_step\<^sup>*\<^sup>* empty_ledger demo_s2"
  using ls_insert[OF demo_insert] ls_record[OF demo_record]
  by (meson rtranclp.rtrancl_into_rtrancl rtranclp.rtrancl_refl)

lemma empty_ledger_ok [simp]: "ledger_ok empty_ledger"
  by (simp add: ledger_ok_def empty_ledger_def no_double_credit_def)

lemma reachable_ok: "ledger_step\<^sup>*\<^sup>* empty_ledger s \<Longrightarrow> ledger_ok s"
  using invoice_table.run_good by simp

subsection \<open>Properties\<close>

text \<open>C1: In every ledger reached from the empty one by any sequence of invoice operations, an
  invoice's credited amount is exactly the sum of its payment events (and absent when there are
  none), each event key is recorded once, and a Liquid output and the swap claim that created it
  are never both credited.\<close>
theorem credited_amount_is_event_sum:
  assumes "ledger_step\<^sup>*\<^sup>* empty_ledger s" "i \<in> set (is_invoices s)"
  shows "inv_paid_amount_sat i =
      (if events_of (inv_id i) (is_events s) = [] then None else Some (received_sat (inv_id i) (is_events s)))
    \<and> distinct (map pe_event_key (is_events s)) \<and> no_double_credit (is_events s)"
proof -
  have "ledger_ok s" using assms(1) by (rule reachable_ok)
  moreover from this have "row_ok (is_events s) i" using assms(2) unfolding ledger_ok_def by blast
  ultimately show ?thesis unfolding ledger_ok_def row_ok_def by blast
qed

theorem credited_amount_is_event_sum_witness:
  "inv_paid_amount_sat (hd (is_invoices demo_s2)) = Some 99950"
proof -
  have "events_of 1 (is_events demo_s2) = [event_of_evidence 10 1 demo_direct]"
    by (simp add: demo_s2_def demo_s1_def events_of_def event_of_evidence_def)
  then show ?thesis
    using credited_amount_is_event_sum[OF demo_run, of "hd (is_invoices demo_s2)"]
    by (simp add: demo_s2_def received_sat_def event_of_evidence_def demo_direct_def demo_invoice_def invoice_of_new_def)
qed

text \<open>C2: In every reachable ledger the status tells the truth about the money: an invoice is
  overpaid exactly when more than its amount arrived, paid only when the shortfall is within one
  percent (or one satoshi), partially paid only below its amount, and it shows an uncredited
  status exactly when nothing arrived.\<close>
theorem status_tells_the_money:
  assumes "ledger_step\<^sup>*\<^sup>* empty_ledger s" "i \<in> set (is_invoices s)"
  defines "received \<equiv> received_sat (inv_id i) (is_events s)"
  shows "(uncredited (inv_status i) \<longleftrightarrow> events_of (inv_id i) (is_events s) = [])
    \<and> (inv_status i = Overpaid \<longrightarrow> inv_amount_sat i < received)
    \<and> (\<not> uncredited (inv_status i) \<and> inv_amount_sat i < received \<longrightarrow> inv_status i = Overpaid)
    \<and> (inv_status i = Paid \<longrightarrow> inv_amount_sat i - received \<le> max 1 (inv_amount_sat i div 100))
    \<and> (inv_status i = Partially_paid \<longrightarrow> received < inv_amount_sat i)"
proof -
  have "row_ok (is_events s) i"
    using reachable_ok[OF assms(1)] assms(2) unfolding ledger_ok_def by blast
  then show ?thesis
    unfolding row_ok_def status_fits_def received_def by (auto simp: uncredited_def)
qed

theorem status_tells_the_money_witness:
  "inv_amount_sat (hd (is_invoices demo_s2)) = 100000 \<and> received_sat 1 (is_events demo_s2) = 99950
   \<and> inv_status (hd (is_invoices demo_s2)) = Paid
   \<and> (100000::int) - 99950 \<le> max 1 (100000 div 100)"
proof -
  let ?i = "hd (is_invoices demo_s2)"
  have m: "?i \<in> set (is_invoices demo_s2)"
    by (simp add: demo_s2_def)
  have "inv_id ?i = 1" "inv_amount_sat ?i = 100000" "received_sat 1 (is_events demo_s2) = 99950"
    "inv_status ?i = Paid"
    by code_simp+
  then show ?thesis
    using status_tells_the_money[OF demo_run m] by simp
qed

text \<open>Recording the same payment evidence a second time, at any later moment and under any
  tolerances, changes nothing and reports zero inserted events: watcher ticks, webhook replays
  and claim retries cannot credit a payment twice.\<close>
theorem recording_is_idempotent:
  assumes "record_invoice_payment now unow iid e tol s = Inr (n, s')"
  shows "record_invoice_payment now' unow' iid e tol' s' = Inr (0, s')"
  using assms by (rule record_twice)

theorem recording_is_idempotent_witness:
  "record_invoice_payment 99 99 1 demo_direct default_tolerances demo_s2 = Inr (0, demo_s2)"
  using recording_is_idempotent[OF demo_record] by simp

subsection \<open>A claim and the output it created\<close>

text \<open>A ledger up to the time of the first payment of each invoice.\<close>
definition untimed :: "invoice_store \<Rightarrow> invoice_store" where
  "untimed s = s\<lparr>is_invoices := map (\<lambda>i. i\<lparr>inv_paid_at := None\<rparr>) (is_invoices s)\<rparr>"

abbreviation put_row :: "uuid \<Rightarrow> invoice \<Rightarrow> invoice list \<Rightarrow> invoice list" where
  "put_row iid row is \<equiv> fst (update_where (\<lambda>i. inv_id i = iid) (\<lambda>_. row) is)"

lemma put_row_twice: "inv_id r = iid \<Longrightarrow> put_row iid r' (put_row iid r is) = put_row iid r' is"
  by (simp add: tables)

lemma found_id: "get_invoice_by_id iid is = Some row \<Longrightarrow> inv_id row = iid"
  unfolding get_invoice_by_id_def by (auto dest: select_one_SomeD)

text \<open>What one recording makes of the ledger, from the row and the events it ends with.\<close>
lemma record_direct_row:
  assumes "record_invoice_payment td ud iid d tol s = Inr (n, s')" "get_invoice_by_id iid (is_invoices s) = Some row"
  obtains "s' = s"
  | evs where "s' = s\<lparr>is_events := evs, is_invoices := put_row iid (settle_invoice td ud d tol evs row) (is_invoices s)\<rparr>"
  using assms(1)
proof (cases rule: record_cases)
  case (credited r kept pruned evs inserted)
  then show ?thesis using assms(2) that(2) by simp
qed (use that(1) in simp)

lemma record_boltz_row:
  assumes "record_invoice_payment tb ub iid b tol s = Inr (n, s')" "is_boltz_settlement b"
    and "\<not> row_exists (\<lambda>p. pe_event_key p = ev_event_key b) (is_events s)"
    and "get_invoice_by_id iid (is_invoices s) = Some row" "inv_status row \<noteq> Cancelled"
  shows "s' = s\<lparr>is_events := is_events s', is_invoices := put_row iid (settle_invoice tb ub b tol (is_events s') row) (is_invoices s)\<rparr>"
  using assms(1)
proof (cases rule: record_cases)
  case (unchanged r)
  then show ?thesis using assms(2-5) by (auto simp: insert_event_def is_boltz_settlement_def)
next
  case (credited r kept pruned evs inserted)
  then show ?thesis using assms(4) by simp
qed

text \<open>Whether an earlier payment was settled on the row makes no difference to the next one but for its time.\<close>
lemma settle_again:
  assumes "ud \<le> ub" "inv_status row = Underpaid \<Longrightarrow> epoch (inv_expires_at row) \<le> ub"
  shows "(settle_invoice tb ub b tol evs (settle_invoice td ud d tol evs1 row))\<lparr>inv_paid_at := None\<rparr>
    = (settle_invoice tb ub b tol evs row)\<lparr>inv_paid_at := None\<rparr>"
  using assms by (auto simp: settle_invoice_def Let_def status_after_payment_def)

lemma untimed_put:
  "r\<lparr>inv_paid_at := None\<rparr> = r'\<lparr>inv_paid_at := None\<rparr> \<Longrightarrow>
   untimed (s\<lparr>is_events := E, is_invoices := put_row iid r is\<rparr>) = untimed (s\<lparr>is_events := E, is_invoices := put_row iid r' is\<rparr>)"
  by (simp add: untimed_def tables)

text \<open>C3: Whether the chain watcher sees a Liquid output before or after the swap claim that
  created it is recorded, the ledger ends the same: the same events (the claim is credited and the direct output is
  not), and the same invoices with the same status, amount and rail; only the time of the first payment is that of
  whichever came first.  The direct output must not be stamped later than the claim when it comes first, and
  a row that is already underpaid must have expired.\<close>
theorem claim_and_output_order_irrelevant:
  assumes "record_invoice_payment td ud iid d tol s = Inr (n1, s1)"
    and "record_invoice_payment tb ub iid b tol s1 = Inr (n2, s2)"
    and "record_invoice_payment tb ub iid b tol s = Inr (m1, r1)"
    and "record_invoice_payment td ud iid d tol r1 = Inr (m2, r2)"
    and "ev_source d = ''liquid_direct''" "is_boltz_settlement b"
    and "ev_txid d = Some t" "ev_txid b = Some t" "ev_event_key d \<noteq> ev_event_key b"
    and "\<not> row_exists (\<lambda>p. pe_event_key p = ev_event_key b) (is_events s)"
    and "get_invoice_by_id iid (is_invoices s) = Some row" "inv_status row \<noteq> Cancelled"
    and "ud \<le> ub" "inv_status row = Underpaid \<longrightarrow> epoch (inv_expires_at row) \<le> ub"
  shows "untimed s2 = untimed r2 \<and> is_events s2 = is_events r2"
proof -
  let ?E = "fst (prune_direct_rows iid b (is_events s)) @ [event_of_evidence tb iid b]"
  let ?set = "\<lambda>row. s\<lparr>is_events := ?E, is_invoices := put_row iid (settle_invoice tb ub b tol ?E row) (is_invoices s)\<rparr>"
  note E = direct_then_boltz_events[OF assms(1,2,5-12)] and E' = record_events_boltz[OF assms(3,6,10-12)]
  obtain row1 where row1: "get_invoice_by_id iid (is_invoices s1) = Some row1" "inv_status row1 \<noteq> Cancelled"
    using record_status_not_cancelled[OF assms(1,11,12)] by blast
  have "is_events s1 = is_events s \<or> is_events s1 = is_events s @ [event_of_evidence td iid d]"
    by (rule record_events_direct[OF assms(1,5)])
  then have fresh: "\<not> row_exists (\<lambda>p. pe_event_key p = ev_event_key b) (is_events s1)"
    using assms(9,10) by (auto simp: event_of_evidence_def)
  have s2: "s2 = s1\<lparr>is_events := ?E, is_invoices := put_row iid (settle_invoice tb ub b tol ?E row1) (is_invoices s1)\<rparr>"
    using record_boltz_row[OF assms(2,6) fresh row1] E by simp
  have r1: "r1 = ?set row" using record_boltz_row[OF assms(3,6,10-12)] E' by simp
  have "boltz_settlement_exists iid d (is_events r1)"
    using assms(6-8) unfolding r1
    by (auto simp: boltz_settlement_exists_def same_txid_def event_of_evidence_def is_boltz_settlement_def)
  with assms(4,5) have r2: "r2 = r1" by (cases rule: record_cases) auto
  have "untimed s2 = untimed (?set row)" using assms(1,11)
  proof (cases rule: record_direct_row)
    case 1
    then show ?thesis using s2 row1(1) assms(11) by simp
  next
    case (2 evs)
    let ?r = "settle_invoice td ud d tol evs row"
    have id: "inv_id ?r = iid" using found_id[OF assms(11)] by simp
    have "row1 = ?r"
      using row1(1) select_one_SomeD[OF assms(11)[unfolded get_invoice_by_id_def]] assms(11) id
      unfolding 2 get_invoice_by_id_def by (simp add: select_one_overwrite)
    then have "s2 = ?set ?r" using s2 id unfolding 2 by (simp add: put_row_twice)
    then show ?thesis using untimed_put[OF settle_again] assms(13,14) by simp
  qed
  then show ?thesis using E r1 r2 by simp
qed

definition demo_s3 :: invoice_store where
  "demo_s3 = demo_s2\<lparr>is_invoices := [settle_invoice 20 20 demo_claim default_tolerances
       [event_of_evidence 20 1 demo_claim] (hd (is_invoices demo_s2))],
     is_events := [event_of_evidence 20 1 demo_claim]\<rparr>"

definition demo_r1 :: invoice_store where
  "demo_r1 = demo_s1\<lparr>is_invoices := [settle_invoice 20 20 demo_claim default_tolerances
       [event_of_evidence 20 1 demo_claim] demo_invoice],
     is_events := [event_of_evidence 20 1 demo_claim]\<rparr>"

theorem claim_and_output_order_irrelevant_witness:
  "untimed demo_s3 = untimed demo_r1 \<and> map inv_paid_at (is_invoices demo_s3) = [Some 10]
   \<and> map inv_paid_at (is_invoices demo_r1) = [Some 20]"
proof -
  have "record_invoice_payment 20 20 1 demo_claim default_tolerances demo_s2 = Inr (1, demo_s3)"
    and "record_invoice_payment 20 20 1 demo_claim default_tolerances demo_s1 = Inr (1, demo_r1)"
    and "record_invoice_payment 10 10 1 demo_direct default_tolerances demo_r1 = Inr (0, demo_r1)"
    and times: "map inv_paid_at (is_invoices demo_s3) = [Some 10]" "map inv_paid_at (is_invoices demo_r1) = [Some 20]"
    by code_simp+
  from claim_and_output_order_irrelevant[OF demo_record this(1-3), of demo_txid demo_invoice] times
  show ?thesis
    by (simp add: demo_direct_def demo_claim_def is_boltz_settlement_def demo_s1_def demo_invoice_def
        invoice_of_new_def get_invoice_by_id_def empty_ledger_def)
qed

text \<open>A cancelled invoice is final: whatever operations follow, its row stays exactly as it
  was, so it is never credited, re-opened or expired.\<close>
theorem cancelled_invoice_is_final:
  assumes "ledger_step\<^sup>*\<^sup>* empty_ledger s" "ledger_step\<^sup>*\<^sup>* s s'"
    and "i \<in> set (is_invoices s)" "inv_status i = Cancelled"
  shows "i \<in> set (is_invoices s')"
  using invoice_table.run_terminal[OF assms(2) reachable_ok[OF assms(1)] assms(3,4)] by auto

definition demo_cancelled :: invoice_store where
  "demo_cancelled = demo_s1\<lparr>is_invoices :=
     [demo_invoice\<lparr>inv_status := Cancelled, inv_cancelled_at := Some 5\<rparr>]\<rparr>"

theorem cancelled_invoice_is_final_witness:
  "demo_invoice\<lparr>inv_status := Cancelled, inv_cancelled_at := Some 5\<rparr>
     \<in> set (is_invoices (demo_cancelled\<lparr>is_invoices :=
          fst (expire_invoices_past_deadline 99 (is_invoices demo_cancelled))\<rparr>))"
proof -
  have c: "cancel_invoice 5 1 (is_invoices demo_s1) = Inr (1, ''cancelled'', is_invoices demo_cancelled)"
    by code_simp
  have "demo_s1\<lparr>is_invoices := is_invoices demo_cancelled\<rparr> = demo_cancelled"
    by (simp add: demo_cancelled_def)
  then have "ledger_step demo_s1 demo_cancelled" using ls_cancel[OF c] by simp
  then have run: "ledger_step\<^sup>*\<^sup>* empty_ledger demo_cancelled"
    using ls_insert[OF demo_insert] by (meson rtranclp.rtrancl_into_rtrancl rtranclp.rtrancl_refl)
  show ?thesis
    by (rule cancelled_invoice_is_final[OF run r_into_rtranclp[of ledger_step, OF ls_expire]])
      (simp_all add: demo_cancelled_def)
qed

text \<open>C4: Once money is credited to an invoice it stays credited: the row never returns to
  unpaid, in progress, expired or cancelled, its amount and receive addresses never change, and
  the first payment time is kept.\<close>
theorem credited_invoice_stays_credited:
  assumes "ledger_step\<^sup>*\<^sup>* empty_ledger s" "ledger_step\<^sup>*\<^sup>* s s'"
    and "i \<in> set (is_invoices s)" "\<not> uncredited (inv_status i)"
  shows "\<exists>i'\<in>set (is_invoices s'). inv_id i' = inv_id i \<and> \<not> uncredited (inv_status i')
    \<and> inv_amount_sat i' = inv_amount_sat i \<and> inv_liquid_address i' = inv_liquid_address i
    \<and> inv_bitcoin_address i' = inv_bitcoin_address i
    \<and> (inv_paid_at i \<noteq> None \<longrightarrow> inv_paid_at i' = inv_paid_at i)"
proof -
  obtain i' where "i' \<in> set (is_invoices s')" "inv_id i' = inv_id i" "invoice_evolves i i'"
    using invoice_table.run_evolves[OF assms(2) reachable_ok[OF assms(1)] assms(3)] by blast
  moreover from this have "\<not> uncredited (inv_status i')"
    using assms(4) by (cases "inv_status i"; cases "inv_status i'")
      (auto simp: invoice_evolves_def may_become_def uncredited_def)
  ultimately show ?thesis by (auto simp: invoice_evolves_def intro!: bexI[of _ i'])
qed

theorem credited_invoice_stays_credited_witness:
  "\<exists>i'\<in>set (is_invoices (demo_s2\<lparr>is_invoices := fst (expire_invoices_past_deadline (secs 9999) (is_invoices demo_s2))\<rparr>)).
     inv_id i' = 1 \<and> \<not> uncredited (inv_status i')"
proof -
  have "hd (is_invoices demo_s2) \<in> set (is_invoices demo_s2)"
    "inv_id (hd (is_invoices demo_s2)) = 1" "\<not> uncredited (inv_status (hd (is_invoices demo_s2)))"
    by (simp_all add: demo_s2_def demo_invoice_def invoice_of_new_def)
  then show ?thesis
    using credited_invoice_stays_credited[OF demo_run r_into_rtranclp[of ledger_step, OF ls_expire], of "hd (is_invoices demo_s2)"]
    by fastforce
qed

end
