(* ===== verification/ReverseSwaps.thy ===== *)
theory ReverseSwaps
  imports Complex_Main Users InvoiceLifecycle
begin

text \<open>
  Reverse (Lightning) swaps: src/src/db/swaps.rs.  The \<open>status\<close> column is
  plain TEXT, so it is a string here and \<open>parsed_status\<close> can fail; the lemmas
  show that the operations only ever write rendered \<open>swap_status\<close> values.
  \<open>jitter\<close> is PostgreSQL's \<open>random()\<close>, a number in [0,1).
\<close>

datatype swap_status =
    Pending | LockupMempool | LockupConfirmed | Claiming | Claimed | ClaimFailed
  | SwapExpired | ClaimStuck | LockupRefunded

definition is_terminal :: "swap_status \<Rightarrow> bool" where
  "is_terminal st \<longleftrightarrow> st \<in> {Claimed, SwapExpired, ClaimStuck, LockupRefunded}"

definition is_claimable :: "swap_status \<Rightarrow> bool" where
  "is_claimable st \<longleftrightarrow> st \<in> {LockupMempool, LockupConfirmed, Claiming, ClaimFailed}"

fun swap_status_text :: "swap_status \<Rightarrow> string" where
  "swap_status_text Pending = ''pending''"
| "swap_status_text LockupMempool = ''lockup_mempool''"
| "swap_status_text LockupConfirmed = ''lockup_confirmed''"
| "swap_status_text Claiming = ''claiming''"
| "swap_status_text Claimed = ''claimed''"
| "swap_status_text ClaimFailed = ''claim_failed''"
| "swap_status_text SwapExpired = ''expired''"
| "swap_status_text ClaimStuck = ''claim_stuck''"
| "swap_status_text LockupRefunded = ''lockup_refunded''"

definition parse_swap_status :: "string \<Rightarrow> string + swap_status" where
  "parse_swap_status s =
    (if s = ''pending'' then Inr Pending
     else if s = ''lockup_mempool'' then Inr LockupMempool
     else if s = ''lockup_confirmed'' then Inr LockupConfirmed
     else if s = ''claiming'' then Inr Claiming
     else if s = ''claimed'' then Inr Claimed
     else if s = ''claim_failed'' then Inr ClaimFailed
     else if s = ''expired'' then Inr SwapExpired
     else if s = ''claim_stuck'' then Inr ClaimStuck
     else if s = ''lockup_refunded'' then Inr LockupRefunded
     else Inl (''unknown swap status: '' @ s))"

record swap_record =
  sr_id :: uuid
  sr_nym :: "string option"
  sr_boltz_swap_id :: string
  sr_address :: "string option"
  sr_address_index :: "int option"
  sr_amount_sat :: sat
  sr_invoice :: string
  sr_preimage_hex :: "string option"
  sr_claim_key_hex :: "string option"
  sr_boltz_response_json :: "string option"
  sr_status :: string
  sr_claim_txid :: "string option"
  sr_claim_tx_hex :: "string option"
  sr_claim_path :: "string option"
  sr_claim_attempts :: int
  sr_last_claim_error :: "string option"
  sr_last_claim_error_at :: "timestamp option"
  sr_next_claim_attempt_at :: "timestamp option"
  sr_cooperative_refused :: bool
  sr_invoice_id :: "uuid option"
  sr_created_at :: timestamp
  sr_updated_at :: timestamp

record new_swap_record =
  ns_nym :: "string option"
  ns_boltz_swap_id :: string
  ns_address :: "string option"
  ns_address_index :: "int option"
  ns_amount_sat :: sat
  ns_invoice :: string
  ns_preimage_hex :: string
  ns_claim_key_hex :: string
  ns_boltz_response_json :: string
  ns_invoice_id :: "uuid option"

definition parsed_status :: "swap_record \<Rightarrow> string + swap_status" where
  "parsed_status r = parse_swap_status (sr_status r)"

text \<open>\<open>status NOT IN ('claimed', 'expired', 'claim_stuck', 'lockup_refunded')\<close>.\<close>
definition swap_open :: "swap_record \<Rightarrow> bool" where
  "swap_open r \<longleftrightarrow> sr_status r \<notin> {''claimed'', ''expired'', ''claim_stuck'', ''lockup_refunded''}"

text \<open>The sequence: the value handed out and the next one, read \<open>as u64\<close>.\<close>
definition next_swap_key_index :: "nat \<Rightarrow> nat \<times> nat" where
  "next_swap_key_index seq = (seq, seq + 1)"

subsection \<open>Recording and looking up\<close>

definition swap_of_new :: "timestamp \<Rightarrow> uuid \<Rightarrow> new_swap_record \<Rightarrow> swap_record" where
  "swap_of_new now fresh_id n =
    \<lparr>sr_id = fresh_id, sr_nym = ns_nym n, sr_boltz_swap_id = ns_boltz_swap_id n,
     sr_address = ns_address n, sr_address_index = ns_address_index n,
     sr_amount_sat = ns_amount_sat n, sr_invoice = ns_invoice n,
     sr_preimage_hex = Some (ns_preimage_hex n), sr_claim_key_hex = Some (ns_claim_key_hex n),
     sr_boltz_response_json = Some (ns_boltz_response_json n), sr_status = ''pending'',
     sr_claim_txid = None, sr_claim_tx_hex = None, sr_claim_path = None, sr_claim_attempts = 0,
     sr_last_claim_error = None, sr_last_claim_error_at = None, sr_next_claim_attempt_at = None,
     sr_cooperative_refused = False, sr_invoice_id = ns_invoice_id n,
     sr_created_at = now, sr_updated_at = now\<rparr>"

text \<open>One transaction: the row, and the owner's used mark.  The row's owner must exist.\<close>
definition record_swap ::
  "timestamp \<Rightarrow> uuid \<Rightarrow> new_swap_record \<Rightarrow> swap_record list \<times> user list
    \<Rightarrow> (swap_record list \<times> user list) db_result" where
  "record_swap now fresh_id n s =
    (let (swaps, us) = s in
     if row_exists (\<lambda>r. sr_id r = fresh_id) swaps then Inl (UniqueViolation ''swap_records_pkey'')
     else case ns_nym n of
       None \<Rightarrow> Inr (swaps @ [swap_of_new now fresh_id n], us)
     | Some nym \<Rightarrow>
        if row_exists (\<lambda>u. u_nym u = nym) us
        then Inr (swaps @ [swap_of_new now fresh_id n], mark_user_used nym us)
        else Inl (CheckViolation ''swap_records_nym_fkey''))"

definition set_swap_address :: "uuid \<Rightarrow> string \<Rightarrow> int \<Rightarrow> swap_record list \<Rightarrow> swap_record list" where
  "set_swap_address swap_id address address_index swaps = fst (update_where
    (\<lambda>r. sr_id r = swap_id \<and> sr_address r = None)
    (\<lambda>r. r\<lparr>sr_address := Some address, sr_address_index := Some address_index\<rparr>) swaps)"

definition get_swap_by_boltz_id :: "string \<Rightarrow> swap_record list \<Rightarrow> swap_record option" where
  "get_swap_by_boltz_id bid = select_one (\<lambda>r. sr_boltz_swap_id r = bid)"

definition get_swap_by_id :: "uuid \<Rightarrow> swap_record list \<Rightarrow> swap_record option" where
  "get_swap_by_id sid = select_one (\<lambda>r. sr_id r = sid)"

subsection \<open>Status updates\<close>

definition update_swap_status ::
  "timestamp \<Rightarrow> uuid \<Rightarrow> swap_status \<Rightarrow> string option \<Rightarrow> swap_record list \<Rightarrow> swap_record list \<times> nat" where
  "update_swap_status now sid st claim_txid = update_where
    (\<lambda>r. sr_id r = sid \<and> swap_open r)
    (\<lambda>r. r\<lparr>sr_status := swap_status_text st,
           sr_claim_txid := (case claim_txid of None \<Rightarrow> sr_claim_txid r | Some t \<Rightarrow> Some t),
           sr_updated_at := now\<rparr>)"

definition mark_cooperative_refused :: "timestamp \<Rightarrow> uuid \<Rightarrow> swap_record list \<Rightarrow> swap_record list" where
  "mark_cooperative_refused now sid swaps = fst (update_where
    (\<lambda>r. sr_id r = sid \<and> \<not> sr_cooperative_refused r \<and> swap_open r)
    (\<lambda>r. r\<lparr>sr_cooperative_refused := True, sr_updated_at := now\<rparr>) swaps)"

subsection \<open>Failures and the retry schedule\<close>

datatype claim_failure_outcome = Scheduled | Stuck | NoOp

text \<open>The CASE of the schedule, in seconds, on the incremented counter.\<close>
definition backoff_secs :: "int \<Rightarrow> int" where
  "backoff_secs attempts =
    (if attempts \<le> 1 then 10
     else if attempts = 2 then 20
     else if attempts = 3 then 60
     else if attempts = 4 then 300
     else if attempts = 5 then 600
     else if attempts = 6 then 1800
     else 3600)"

text \<open>\<open>interval * (0.8 + 0.4 * random())\<close>, rounded to microseconds.\<close>
definition jittered_backoff :: "int \<Rightarrow> rat \<Rightarrow> timestamp" where
  "jittered_backoff attempts jitter =
    round (of_int (secs (backoff_secs attempts)) * (4/5 + 2/5 * jitter))"

definition bump_failure :: "timestamp \<Rightarrow> rat \<Rightarrow> string \<Rightarrow> swap_record \<Rightarrow> swap_record" where
  "bump_failure now jitter error_msg r =
    r\<lparr>sr_claim_attempts := sr_claim_attempts r + 1,
      sr_last_claim_error := Some error_msg,
      sr_last_claim_error_at := Some now,
      sr_updated_at := now,
      sr_next_claim_attempt_at := Some (now + jittered_backoff (sr_claim_attempts r + 1) jitter)\<rparr>"

definition record_claim_failure ::
  "timestamp \<Rightarrow> rat \<Rightarrow> uuid \<Rightarrow> string \<Rightarrow> int \<Rightarrow> swap_record list
    \<Rightarrow> claim_failure_outcome \<times> swap_record list" where
  "record_claim_failure now jitter sid error_msg max_attempts swaps =
    (let hit = (\<lambda>r. sr_id r = sid \<and> swap_open r);
         bumped = fst (update_where hit (bump_failure now jitter error_msg) swaps)
     in case map_option (\<lambda>r. sr_claim_attempts r + 1) (select_one hit swaps) of
          None \<Rightarrow> (NoOp, swaps)
        | Some attempts \<Rightarrow>
            if max_attempts \<le> attempts
            then (Stuck, fst (update_where hit
                    (\<lambda>r. r\<lparr>sr_status := ''claim_stuck'', sr_updated_at := now\<rparr>) bumped))
            else (Scheduled, bumped))"

definition claim_in_flight_lease :: timestamp where
  "claim_in_flight_lease = secs 120"

text \<open>The CASE both schedulers share: a live lease is kept, capped at the lease horizon.\<close>
definition nudged_attempt_at :: "timestamp \<Rightarrow> swap_record \<Rightarrow> timestamp" where
  "nudged_attempt_at now r =
    (case sr_next_claim_attempt_at r of
       None \<Rightarrow> now
     | Some t \<Rightarrow> if sr_status r = ''claiming'' \<and> now < t then min t (now + claim_in_flight_lease) else now)"

definition schedule_immediate_claim :: "timestamp \<Rightarrow> uuid \<Rightarrow> swap_record list \<Rightarrow> swap_record list \<times> nat" where
  "schedule_immediate_claim now sid = update_where
    (\<lambda>r. sr_id r = sid \<and> swap_open r)
    (\<lambda>r. r\<lparr>sr_next_claim_attempt_at := Some (nudged_attempt_at now r), sr_updated_at := now\<rparr>)"

definition schedule_script_path_retry :: "timestamp \<Rightarrow> uuid \<Rightarrow> swap_record list \<Rightarrow> swap_record list \<times> nat" where
  "schedule_script_path_retry now sid = update_where
    (\<lambda>r. sr_id r = sid \<and> swap_open r)
    (\<lambda>r. r\<lparr>sr_cooperative_refused := True,
           sr_next_claim_attempt_at := Some (nudged_attempt_at now r), sr_updated_at := now\<rparr>)"

definition clear_claim_failure_state :: "uuid \<Rightarrow> swap_record list \<Rightarrow> swap_record list" where
  "clear_claim_failure_state sid swaps = fst (update_where (\<lambda>r. sr_id r = sid)
    (\<lambda>r. r\<lparr>sr_last_claim_error := None, sr_last_claim_error_at := None,
           sr_next_claim_attempt_at := None\<rparr>) swaps)"

subsection \<open>Scans\<close>

definition list_non_terminal_swaps_oldest_first ::
  "timestamp \<Rightarrow> int \<Rightarrow> nat \<Rightarrow> swap_record list \<Rightarrow> swap_record list" where
  "list_non_terminal_swaps_oldest_first now min_age_secs cap swaps =
    take cap (sort_key sr_updated_at
      (filter (\<lambda>r. swap_open r \<and> sr_updated_at r < now - secs min_age_secs) swaps))"

definition ready_to_claim :: "timestamp \<Rightarrow> swap_record \<Rightarrow> bool" where
  "ready_to_claim now r \<longleftrightarrow>
     sr_status r \<in> {''lockup_mempool'', ''lockup_confirmed'', ''claiming'', ''claim_failed''}
     \<and> (case sr_next_claim_attempt_at r of None \<Rightarrow> True | Some t \<Rightarrow> t \<le> now)"

text \<open>\<open>ORDER BY next_claim_attempt_at NULLS FIRST\<close>: None is the least option.\<close>
definition get_ready_to_claim_swaps :: "timestamp \<Rightarrow> swap_record list \<Rightarrow> swap_record list" where
  "get_ready_to_claim_swaps now swaps = sort_key sr_next_claim_attempt_at (filter (ready_to_claim now) swaps)"

text \<open>\<open>ORDER BY created_at DESC LIMIT 1\<close> over the invoice's swaps.\<close>
definition latest_lightning_pr_for_invoice :: "uuid \<Rightarrow> swap_record list \<Rightarrow> (string \<times> sat) option" where
  "latest_lightning_pr_for_invoice iid swaps =
    (case sort_desc sr_created_at (filter (\<lambda>r. sr_invoice_id r = Some iid) swaps) of
       [] \<Rightarrow> None
     | r # _ \<Rightarrow> Some (sr_invoice r, sr_amount_sat r))"

subsection \<open>The statements the claimer runs inside its own transaction\<close>

text \<open>src/src/claimer.rs: persist the constructed transaction once.\<close>
definition persist_claim_tx ::
  "uuid \<Rightarrow> string \<Rightarrow> string \<Rightarrow> string \<Rightarrow> swap_record list \<Rightarrow> swap_record list" where
  "persist_claim_tx sid hex txid path swaps = fst (update_where
    (\<lambda>r. sr_id r = sid \<and> sr_claim_tx_hex r = None)
    (\<lambda>r. r\<lparr>sr_claim_tx_hex := Some hex, sr_claim_txid := Some txid, sr_claim_path := Some path\<rparr>) swaps)"

text \<open>src/src/claimer.rs: status to claiming, with the in-flight lease.\<close>
definition mark_claiming :: "timestamp \<Rightarrow> uuid \<Rightarrow> swap_record list \<Rightarrow> swap_record list" where
  "mark_claiming now sid swaps = fst (update_where
    (\<lambda>r. sr_id r = sid \<and> swap_open r)
    (\<lambda>r. r\<lparr>sr_status := ''claiming'',
           sr_next_claim_attempt_at := Some (now + claim_in_flight_lease), sr_updated_at := now\<rparr>) swaps)"

text \<open>src/src/claimer.rs, \<open>resolve_claim_address\<close>: both of its UPDATEs of the destination.\<close>
definition write_claim_address :: "uuid \<Rightarrow> string \<Rightarrow> int option \<Rightarrow> swap_record list \<Rightarrow> swap_record list" where
  "write_claim_address sid addr idx swaps = fst (update_where (\<lambda>r. sr_id r = sid)
    (\<lambda>r. r\<lparr>sr_address := Some addr, sr_address_index := idx\<rparr>) swaps)"

subsection \<open>The two invoice statements that read swaps\<close>

text \<open>\<open>DELETE .. WHERE status = 'unpaid' AND NOT EXISTS (swap)\<close>; child rows cascade.\<close>
definition delete_unpaid_invoice_without_swaps ::
  "uuid \<Rightarrow> swap_record list \<Rightarrow> invoice_store \<Rightarrow> nat \<times> invoice_store" where
  "delete_unpaid_invoice_without_swaps iid swaps s =
    (let (invs, rows) = delete_where (\<lambda>i. inv_id i = iid \<and> inv_status i = Unpaid
           \<and> \<not> row_exists (\<lambda>r. sr_invoice_id r = Some (inv_id i)) swaps) (is_invoices s)
     in if rows = 0 then (0, s)
        else (rows, s\<lparr>is_invoices := invs,
               is_events := filter (\<lambda>p. pe_invoice_id p \<noteq> iid) (is_events s),
               is_addresses := filter (\<lambda>a. pa_invoice_id a \<noteq> iid) (is_addresses s),
               is_observations := filter (\<lambda>p. po_invoice_id p \<noteq> iid) (is_observations s)\<rparr>))"

definition mark_invoice_settlement_status_for_swap ::
  "uuid \<Rightarrow> string \<Rightarrow> swap_record list \<Rightarrow> invoice list \<Rightarrow> (invoice list \<times> nat) db_result" where
  "mark_invoice_settlement_status_for_swap swap_id st swaps invs =
    (case parse_settlement_status st of
       Inl e \<Rightarrow> Inl e
     | Inr x \<Rightarrow> Inr (update_where
         (\<lambda>i. row_exists (\<lambda>r. sr_id r = swap_id \<and> sr_invoice_id r = Some (inv_id i)) swaps
            \<and> \<not> settlement_frozen i)
         (\<lambda>i. i\<lparr>inv_settlement_status := x\<rparr>) invs))"

subsection \<open>Statuses and the retry schedule: lemmas\<close>

lemma parse_swap_status_text [simp]: "parse_swap_status (swap_status_text st) = Inr st"
  by (cases st) (simp_all add: parse_swap_status_def)

lemma parse_swap_status_Inr: "parse_swap_status s = Inr st \<Longrightarrow> s = swap_status_text st"
  by (auto simp: parse_swap_status_def split: if_splits)

lemma swap_open_text: "sr_status r = swap_status_text st \<Longrightarrow> swap_open r \<longleftrightarrow> \<not> is_terminal st"
  by (cases st) (simp_all add: swap_open_def is_terminal_def)

lemma claimable_not_terminal: "is_claimable st \<Longrightarrow> \<not> is_terminal st"
  by (auto simp: is_claimable_def is_terminal_def)

lemma ready_open: "ready_to_claim now r \<Longrightarrow> swap_open r"
  by (auto simp: ready_to_claim_def swap_open_def)

lemma ready_claimable:
  "ready_to_claim now r \<Longrightarrow> parsed_status r = Inr st \<Longrightarrow> is_claimable st"
  by (auto simp: ready_to_claim_def parsed_status_def is_claimable_def parse_swap_status_def split: if_splits)

lemma jittered_backoff_bounds:
  assumes "0 \<le> jitter" "jitter < 1"
  shows "secs (backoff_secs n) * 4 div 5 \<le> jittered_backoff n jitter"
    and "jittered_backoff n jitter \<le> secs (backoff_secs n) * 6 div 5"
proof -
  obtain k where k: "secs (backoff_secs n) = 5 * k" "0 \<le> k"
    by (auto simp: secs_def backoff_secs_def intro: that[of "backoff_secs n * 200000"])
  have "(of_int (4 * k) :: rat) \<le> of_int (5 * k) * (4/5 + 2/5 * jitter)"
    using assms k(2) by (simp add: algebra_simps)
  then have "4 * k \<le> round (of_int (5 * k) * (4/5 + 2/5 * jitter))"
    using round_mono[of "of_int (4 * k)" "of_int (5 * k) * (4/5 + 2/5 * jitter)"]
    by (simp only: round_of_int)
  then show "secs (backoff_secs n) * 4 div 5 \<le> jittered_backoff n jitter"
    by (simp add: jittered_backoff_def k)
  have "(of_int k :: rat) * jitter \<le> of_int k * 1"
    using assms k(2) by (intro mult_left_mono) auto
  then have "of_int (5 * k) * (4/5 + 2/5 * jitter) \<le> (of_int (6 * k) :: rat)"
    by (simp add: algebra_simps)
  then have "round (of_int (5 * k) * (4/5 + 2/5 * jitter)) \<le> 6 * k"
    using round_mono[of "of_int (5 * k) * (4/5 + 2/5 * jitter)" "of_int (6 * k)"]
    by (simp only: round_of_int)
  then show "jittered_backoff n jitter \<le> secs (backoff_secs n) * 6 div 5"
    by (simp add: jittered_backoff_def k)
qed

lemma backoff_positive: "10 \<le> backoff_secs n" and backoff_capped: "backoff_secs n \<le> 3600"
  by (simp_all add: backoff_secs_def)

subsection \<open>The swap table over any run\<close>

inductive swap_step :: "swap_record list \<Rightarrow> swap_record list \<Rightarrow> bool" where
  ss_record: "record_swap now fid n (t, us) = Inr (t', us') \<Longrightarrow> swap_step t t'"
| ss_address: "swap_step t (set_swap_address sid a i t)"
| ss_status: "swap_step t (fst (update_swap_status now sid st txid t))"
| ss_refused: "swap_step t (mark_cooperative_refused now sid t)"
| ss_failure: "record_claim_failure now j sid msg mx t = (oc, t') \<Longrightarrow> swap_step t t'"
| ss_nudge: "swap_step t (fst (schedule_immediate_claim now sid t))"
| ss_script: "swap_step t (fst (schedule_script_path_retry now sid t))"
| ss_clear: "swap_step t (clear_claim_failure_state sid t)"
| ss_persist: "swap_step t (persist_claim_tx sid hex txid path t)"
| ss_claiming: "swap_step t (mark_claiming now sid t)"
| ss_destination: "swap_step t (write_claim_address sid a i t)"

inductive_cases swap_stepE: "swap_step t t'"

definition swaps_ok :: "swap_record list \<Rightarrow> bool" where
  "swaps_ok t \<longleftrightarrow> distinct (map sr_id t) \<and> (\<forall>r\<in>set t. sr_status r \<in> range swap_status_text \<and> 0 \<le> sr_claim_attempts r)"

text \<open>The swap's terms and secrets never change, a terminal status never changes, the constructed
  claim transaction is kept, script-path mode is one-way and the attempt counter only grows.\<close>
definition swap_evolves :: "swap_record \<Rightarrow> swap_record \<Rightarrow> bool" where
  "swap_evolves r r' \<longleftrightarrow>
     sr_boltz_swap_id r' = sr_boltz_swap_id r \<and> sr_amount_sat r' = sr_amount_sat r
     \<and> sr_preimage_hex r' = sr_preimage_hex r \<and> sr_claim_key_hex r' = sr_claim_key_hex r
     \<and> sr_invoice_id r' = sr_invoice_id r \<and> sr_nym r' = sr_nym r
     \<and> (\<not> swap_open r \<longrightarrow> sr_status r' = sr_status r)
     \<and> (sr_claim_tx_hex r \<noteq> None \<longrightarrow> sr_claim_tx_hex r' = sr_claim_tx_hex r \<and> sr_claim_path r' = sr_claim_path r)
     \<and> (sr_cooperative_refused r \<longrightarrow> sr_cooperative_refused r')
     \<and> sr_claim_attempts r \<le> sr_claim_attempts r'
     \<and> (sr_address r \<noteq> None \<longrightarrow> sr_address r' \<noteq> None)"

lemma swap_evolves_refl [simp]: "swap_evolves r r"
  by (simp add: swap_evolves_def)

lemma swap_open_cong: "sr_status r' = sr_status r \<Longrightarrow> swap_open r' = swap_open r"
  by (simp add: swap_open_def)

lemma swap_evolves_trans: "swap_evolves r s \<Longrightarrow> swap_evolves s u \<Longrightarrow> swap_evolves r u"
  unfolding swap_evolves_def using swap_open_cong[of s r] by auto

text \<open>The result of a failed claim, with the two updates composed.\<close>
lemma record_claim_failure_rows:
  assumes "record_claim_failure now j sid msg mx t = (oc, t')"
  shows "t' = t \<or> (\<exists>f. t' = fst (update_where (\<lambda>r. sr_id r = sid \<and> swap_open r) f t)
    \<and> (\<forall>r. f r = bump_failure now j msg r
          \<or> f r = (bump_failure now j msg r)\<lparr>sr_status := ''claim_stuck'', sr_updated_at := now\<rparr>))"
proof -
  let ?hit = "\<lambda>r. sr_id r = sid \<and> swap_open r"
  let ?stuck = "\<lambda>r. r\<lparr>sr_status := ''claim_stuck'', sr_updated_at := now\<rparr>"
  have hit: "?hit (bump_failure now j msg r) = ?hit r" for r
    by (simp add: bump_failure_def swap_open_def)
  have both: "fst (update_where ?hit ?stuck (fst (update_where ?hit (bump_failure now j msg) t)))
    = fst (update_where ?hit (\<lambda>r. ?stuck (bump_failure now j msg r)) t)"
    by (auto simp: tables hit)
  have "t' = t \<or> t' = fst (update_where ?hit (bump_failure now j msg) t)
    \<or> t' = fst (update_where ?hit (\<lambda>r. ?stuck (bump_failure now j msg r)) t)"
    using assms unfolding record_claim_failure_def Let_def both
    by (auto split: option.splits if_splits)
  then show ?thesis by blast
qed

lemma swaps_ok_update:
  assumes "swaps_ok t"
    and "\<And>r. P r \<Longrightarrow> sr_id (f r) = sr_id r \<and> (sr_status (f r) = sr_status r \<or> sr_status (f r) \<in> range swap_status_text)
           \<and> sr_claim_attempts r \<le> sr_claim_attempts (f r)"
  shows "swaps_ok (fst (update_where P f t))"
proof -
  have "map sr_id (fst (update_where P f t)) = map sr_id t" using assms(2) by (simp add: tables)
  moreover have "sr_status r' \<in> range swap_status_text \<and> 0 \<le> sr_claim_attempts r'"
    if r': "r' \<in> set (fst (update_where P f t))" for r'
  proof -
    obtain r where r: "r \<in> set t" "r' = (if P r then f r else r)"
      by (rule update_where_setE[OF r'])
    have "sr_status r \<in> range swap_status_text" "0 \<le> sr_claim_attempts r"
      using assms(1) r(1) by (auto simp: swaps_ok_def)
    then show ?thesis using assms(2)[of r] r(2) by (cases "P r") auto
  qed
  ultimately show ?thesis using assms(1) by (simp add: swaps_ok_def)
qed

lemma update_swaps_evolve:
  assumes "r \<in> set t" "P r \<Longrightarrow> sr_id (f r) = sr_id r \<and> swap_evolves r (f r)"
  shows "\<exists>r'\<in>set (fst (update_where P f t)). sr_id r' = sr_id r \<and> swap_evolves r r'"
  using assms update_where_hit[of r t P f] update_where_frame[of r t P f] swap_evolves_refl
  by (cases "P r") blast+

lemmas swap_op_defs = set_swap_address_def update_swap_status_def mark_cooperative_refused_def
  schedule_immediate_claim_def schedule_script_path_retry_def clear_claim_failure_state_def
  persist_claim_tx_def mark_claiming_def write_claim_address_def

lemma stuck_text: "''claim_stuck'' \<in> range swap_status_text" "''claiming'' \<in> range swap_status_text"
  "''pending'' \<in> range swap_status_text"
  by (auto intro: range_eqI[of _ _ ClaimStuck] range_eqI[of _ _ Claiming] range_eqI[of _ _ Pending])

lemma record_swap_rows:
  assumes "record_swap now fid n (t, us) = Inr (t', us')"
  shows "t' = t @ [swap_of_new now fid n] \<and> fid \<notin> sr_id ` set t"
  using assms by (auto simp: record_swap_def split: option.splits if_splits)

lemma swap_step_ok: "swap_step t t' \<Longrightarrow> swaps_ok t \<Longrightarrow> swaps_ok t'"
proof (induction rule: swap_step.induct)
  case (ss_record now fid n t us t' us')
  then show ?case
    using record_swap_rows[OF ss_record(1)] stuck_text by (auto simp: swaps_ok_def swap_of_new_def)
next
  case (ss_failure now j sid msg mx t oc t')
  from record_claim_failure_rows[OF ss_failure(1)] show ?case
  proof (elim disjE exE conjE)
    fix f assume f: "t' = fst (update_where (\<lambda>r. sr_id r = sid \<and> swap_open r) f t)"
      "\<forall>r. f r = bump_failure now j msg r
          \<or> f r = (bump_failure now j msg r)\<lparr>sr_status := ''claim_stuck'', sr_updated_at := now\<rparr>"
    have "sr_id (f r) = sr_id r \<and> (sr_status (f r) = sr_status r \<or> sr_status (f r) \<in> range swap_status_text)
        \<and> sr_claim_attempts r \<le> sr_claim_attempts (f r)" for r
      using f(2)[rule_format, of r] stuck_text by (auto simp: bump_failure_def)
    then show ?thesis unfolding f(1) using ss_failure(2) by (intro swaps_ok_update) auto
  qed (use ss_failure in simp)
qed (auto simp: swap_op_defs stuck_text intro!: swaps_ok_update)

lemma swap_step_evolves:
  "swap_step t t' \<Longrightarrow> r \<in> set t \<Longrightarrow> \<exists>r'\<in>set t'. sr_id r' = sr_id r \<and> swap_evolves r r'"
proof (induction rule: swap_step.induct)
  case (ss_record now fid n t us t' us')
  then show ?case using record_swap_rows[OF ss_record(1)] swap_evolves_refl by auto
next
  case (ss_failure now j sid msg mx t oc t')
  from record_claim_failure_rows[OF ss_failure(1)] show ?case
  proof (elim disjE exE conjE)
    fix f assume f: "t' = fst (update_where (\<lambda>r. sr_id r = sid \<and> swap_open r) f t)"
      "\<forall>r. f r = bump_failure now j msg r
          \<or> f r = (bump_failure now j msg r)\<lparr>sr_status := ''claim_stuck'', sr_updated_at := now\<rparr>"
    have "swap_open x \<Longrightarrow> sr_id (f x) = sr_id x \<and> swap_evolves x (f x)" for x
      using f(2)[rule_format, of x] by (auto simp: bump_failure_def swap_evolves_def)
    then show ?thesis unfolding f(1) using ss_failure(2) by (intro update_swaps_evolve) auto
  qed (use ss_failure swap_evolves_refl in blast)
qed (auto simp: swap_op_defs intro!: update_swaps_evolve, auto simp: swap_evolves_def)

interpretation swap_table: terminal_table "\<lambda>t. t" sr_id swaps_ok swap_step swap_evolves
  "\<lambda>r. \<not> swap_open r" sr_status
proof (unfold_locales, goal_cases)
  case (2 r s u)
  then show ?case by (rule swap_evolves_trans)
next
  case (5 r r')
  then show ?case using swap_open_cong[of r' r] by (simp add: swap_evolves_def)
qed (auto intro: swap_step_ok swap_step_evolves)

end
