(* ===== verification/ChainSwaps.thy ===== *)
theory ChainSwaps
  imports ReverseSwaps
begin

text \<open>
  Chain swaps (Bitcoin in, Liquid out): src/src/db/chain_swaps.rs, and the
  two statements src/src/claimer.rs runs on this table inside its claim
  transaction.  The retry schedule is the one of theory ReverseSwaps.
\<close>

datatype chain_swap_status =
    CPending | UserLockMempool | UserLockConfirmed | ServerLockMempool | ServerLockConfirmed
  | CClaiming | CClaimed | CClaimFailed | CClaimStuck | CExpired | LockupFailed | CRefunded

definition chain_is_terminal :: "chain_swap_status \<Rightarrow> bool" where
  "chain_is_terminal st \<longleftrightarrow> st \<in> {CClaimed, CClaimStuck, CExpired, LockupFailed, CRefunded}"

fun chain_swap_status_text :: "chain_swap_status \<Rightarrow> string" where
  "chain_swap_status_text CPending = ''pending''"
| "chain_swap_status_text UserLockMempool = ''user_lock_mempool''"
| "chain_swap_status_text UserLockConfirmed = ''user_lock_confirmed''"
| "chain_swap_status_text ServerLockMempool = ''server_lock_mempool''"
| "chain_swap_status_text ServerLockConfirmed = ''server_lock_confirmed''"
| "chain_swap_status_text CClaiming = ''claiming''"
| "chain_swap_status_text CClaimed = ''claimed''"
| "chain_swap_status_text CClaimFailed = ''claim_failed''"
| "chain_swap_status_text CClaimStuck = ''claim_stuck''"
| "chain_swap_status_text CExpired = ''expired''"
| "chain_swap_status_text LockupFailed = ''lockup_failed''"
| "chain_swap_status_text CRefunded = ''refunded''"

definition parse_chain_swap_status :: "string \<Rightarrow> string + chain_swap_status" where
  "parse_chain_swap_status s =
    (if s = ''pending'' then Inr CPending
     else if s = ''user_lock_mempool'' then Inr UserLockMempool
     else if s = ''user_lock_confirmed'' then Inr UserLockConfirmed
     else if s = ''server_lock_mempool'' then Inr ServerLockMempool
     else if s = ''server_lock_confirmed'' then Inr ServerLockConfirmed
     else if s = ''claiming'' then Inr CClaiming
     else if s = ''claimed'' then Inr CClaimed
     else if s = ''claim_failed'' then Inr CClaimFailed
     else if s = ''claim_stuck'' then Inr CClaimStuck
     else if s = ''expired'' then Inr CExpired
     else if s = ''lockup_failed'' then Inr LockupFailed
     else if s = ''refunded'' then Inr CRefunded
     else Inl (''unknown chain swap status: '' @ s))"

record chain_swap =
  cs_id :: uuid
  cs_invoice_id :: uuid
  cs_nym :: "string option"
  cs_boltz_swap_id :: string
  cs_from_chain :: string
  cs_to_chain :: string
  cs_lockup_address :: string
  cs_lockup_bip21 :: "string option"
  cs_user_lock_amount_sat :: sat
  cs_server_lock_amount_sat :: sat
  cs_preimage_hex :: string
  cs_claim_key_hex :: string
  cs_refund_key_hex :: string
  cs_boltz_response_json :: string
  cs_status :: string
  cs_claim_txid :: "string option"
  cs_claim_tx_hex :: "string option"
  cs_claim_attempts :: int
  cs_last_claim_error :: "string option"
  cs_last_claim_error_at :: "timestamp option"
  cs_next_claim_attempt_at :: "timestamp option"
  cs_created_at :: timestamp
  cs_updated_at :: timestamp

record new_chain_swap =
  nc_invoice_id :: uuid
  nc_nym :: "string option"
  nc_boltz_swap_id :: string
  nc_lockup_address :: string
  nc_lockup_bip21 :: "string option"
  nc_user_lock_amount_sat :: sat
  nc_server_lock_amount_sat :: sat
  nc_preimage_hex :: string
  nc_claim_key_hex :: string
  nc_refund_key_hex :: string
  nc_boltz_response_json :: string

definition chain_parsed_status :: "chain_swap \<Rightarrow> string + chain_swap_status" where
  "chain_parsed_status r = parse_chain_swap_status (cs_status r)"

text \<open>\<open>status NOT IN ('claimed', 'expired', 'lockup_failed', 'refunded', 'claim_stuck')\<close>.\<close>
definition chain_open :: "chain_swap \<Rightarrow> bool" where
  "chain_open r \<longleftrightarrow> cs_status r \<notin> {''claimed'', ''expired'', ''lockup_failed'', ''refunded'', ''claim_stuck''}"

definition chain_swap_of_new :: "timestamp \<Rightarrow> uuid \<Rightarrow> new_chain_swap \<Rightarrow> chain_swap" where
  "chain_swap_of_new now fresh_id n =
    \<lparr>cs_id = fresh_id, cs_invoice_id = nc_invoice_id n, cs_nym = nc_nym n,
     cs_boltz_swap_id = nc_boltz_swap_id n, cs_from_chain = ''BTC'', cs_to_chain = ''L-BTC'',
     cs_lockup_address = nc_lockup_address n, cs_lockup_bip21 = nc_lockup_bip21 n,
     cs_user_lock_amount_sat = nc_user_lock_amount_sat n,
     cs_server_lock_amount_sat = nc_server_lock_amount_sat n,
     cs_preimage_hex = nc_preimage_hex n, cs_claim_key_hex = nc_claim_key_hex n,
     cs_refund_key_hex = nc_refund_key_hex n, cs_boltz_response_json = nc_boltz_response_json n,
     cs_status = ''pending'', cs_claim_txid = None, cs_claim_tx_hex = None, cs_claim_attempts = 0,
     cs_last_claim_error = None, cs_last_claim_error_at = None, cs_next_claim_attempt_at = None,
     cs_created_at = now, cs_updated_at = now\<rparr>"

text \<open>The CHECK constraints the INSERT meets: positive amounts and 64-hex secrets; boltz id unique.\<close>
definition record_chain_swap ::
  "timestamp \<Rightarrow> uuid \<Rightarrow> new_chain_swap \<Rightarrow> invoice list \<Rightarrow> user list \<Rightarrow> chain_swap list
    \<Rightarrow> (chain_swap \<times> chain_swap list) db_result" where
  "record_chain_swap now fresh_id n invs us t =
    (if nc_user_lock_amount_sat n \<le> 0 \<or> nc_server_lock_amount_sat n \<le> 0
        \<or> \<not> is_hex64 (nc_preimage_hex n) \<or> \<not> is_hex64 (nc_claim_key_hex n) \<or> \<not> is_hex64 (nc_refund_key_hex n)
       then Inl (CheckViolation ''chain_swap_records'')
     else if row_exists (\<lambda>r. cs_id r = fresh_id) t then Inl (UniqueViolation ''chain_swap_records_pkey'')
     else if row_exists (\<lambda>r. cs_boltz_swap_id r = nc_boltz_swap_id n) t
       then Inl (UniqueViolation ''chain_swap_records_boltz_swap_id_key'')
     else if \<not> row_exists (\<lambda>i. inv_id i = nc_invoice_id n) invs
       then Inl (CheckViolation ''chain_swap_records_invoice_id_fkey'')
     else if (case nc_nym n of None \<Rightarrow> False | Some nym \<Rightarrow> \<not> row_exists (\<lambda>u. u_nym u = nym) us)
       then Inl (CheckViolation ''chain_swap_records_nym_fkey'')
     else Inr (chain_swap_of_new now fresh_id n, t @ [chain_swap_of_new now fresh_id n]))"

definition get_chain_swap_by_boltz_id :: "string \<Rightarrow> chain_swap list \<Rightarrow> chain_swap option" where
  "get_chain_swap_by_boltz_id bid = select_one (\<lambda>r. cs_boltz_swap_id r = bid)"

definition get_chain_swap_by_id :: "uuid \<Rightarrow> chain_swap list \<Rightarrow> chain_swap option" where
  "get_chain_swap_by_id sid = select_one (\<lambda>r. cs_id r = sid)"

definition latest_payable_chain_swap_for_invoice ::
  "uuid \<Rightarrow> sat \<Rightarrow> chain_swap list \<Rightarrow> chain_swap option" where
  "latest_payable_chain_swap_for_invoice iid amount_sat t =
    (case sort_desc cs_created_at (filter (\<lambda>r. cs_invoice_id r = iid \<and> cs_status r = ''pending''
            \<and> cs_user_lock_amount_sat r = amount_sat) t) of
       [] \<Rightarrow> None
     | r # _ \<Rightarrow> Some r)"

definition update_chain_swap_status ::
  "timestamp \<Rightarrow> uuid \<Rightarrow> chain_swap_status \<Rightarrow> string option \<Rightarrow> chain_swap list \<Rightarrow> chain_swap list \<times> nat" where
  "update_chain_swap_status now sid st claim_txid = update_where
    (\<lambda>r. cs_id r = sid \<and> chain_open r)
    (\<lambda>r. r\<lparr>cs_status := chain_swap_status_text st,
           cs_claim_txid := (case claim_txid of None \<Rightarrow> cs_claim_txid r | Some t \<Rightarrow> Some t),
           cs_updated_at := now\<rparr>)"

definition chain_ready_to_claim :: "timestamp \<Rightarrow> chain_swap \<Rightarrow> bool" where
  "chain_ready_to_claim now r \<longleftrightarrow>
     cs_status r \<in> {''server_lock_mempool'', ''server_lock_confirmed'', ''claiming'', ''claim_failed''}
     \<and> (case cs_next_claim_attempt_at r of None \<Rightarrow> True | Some t \<Rightarrow> t \<le> now)"

definition get_ready_to_claim_chain_swaps :: "timestamp \<Rightarrow> chain_swap list \<Rightarrow> chain_swap list" where
  "get_ready_to_claim_chain_swaps now t =
    sort_key cs_next_claim_attempt_at (filter (chain_ready_to_claim now) t)"

definition chain_bump_failure :: "timestamp \<Rightarrow> rat \<Rightarrow> string \<Rightarrow> chain_swap \<Rightarrow> chain_swap" where
  "chain_bump_failure now jitter error_msg r =
    r\<lparr>cs_claim_attempts := cs_claim_attempts r + 1,
      cs_last_claim_error := Some error_msg,
      cs_last_claim_error_at := Some now,
      cs_updated_at := now,
      cs_next_claim_attempt_at := Some (now + jittered_backoff (cs_claim_attempts r + 1) jitter)\<rparr>"

definition record_chain_swap_claim_failure ::
  "timestamp \<Rightarrow> rat \<Rightarrow> uuid \<Rightarrow> string \<Rightarrow> int \<Rightarrow> chain_swap list \<Rightarrow> claim_failure_outcome \<times> chain_swap list" where
  "record_chain_swap_claim_failure now jitter sid error_msg max_attempts t =
    (let hit = (\<lambda>r. cs_id r = sid \<and> chain_open r);
         bumped = fst (update_where hit (chain_bump_failure now jitter error_msg) t)
     in case map_option (\<lambda>r. cs_claim_attempts r + 1) (select_one hit t) of
          None \<Rightarrow> (NoOp, t)
        | Some attempts \<Rightarrow>
            if max_attempts \<le> attempts
            then (Stuck, fst (update_where hit
                    (\<lambda>r. r\<lparr>cs_status := ''claim_stuck'', cs_updated_at := now\<rparr>) bumped))
            else (Scheduled, bumped))"

definition clear_chain_swap_claim_failure_state :: "uuid \<Rightarrow> chain_swap list \<Rightarrow> chain_swap list" where
  "clear_chain_swap_claim_failure_state sid t = fst (update_where (\<lambda>r. cs_id r = sid)
    (\<lambda>r. r\<lparr>cs_last_claim_error := None, cs_last_claim_error_at := None,
           cs_next_claim_attempt_at := None\<rparr>) t)"

text \<open>src/src/claimer.rs, \<open>claim_chain_swap_inner\<close>: persist the constructed transaction once.\<close>
definition persist_chain_claim_tx :: "uuid \<Rightarrow> string \<Rightarrow> string \<Rightarrow> chain_swap list \<Rightarrow> chain_swap list" where
  "persist_chain_claim_tx sid hex txid t = fst (update_where
    (\<lambda>r. cs_id r = sid \<and> cs_claim_tx_hex r = None)
    (\<lambda>r. r\<lparr>cs_claim_tx_hex := Some hex, cs_claim_txid := Some txid\<rparr>) t)"

text \<open>src/src/claimer.rs, \<open>claim_chain_swap_inner\<close>: status to claiming, with the lease.\<close>
definition mark_chain_claiming :: "timestamp \<Rightarrow> uuid \<Rightarrow> chain_swap list \<Rightarrow> chain_swap list" where
  "mark_chain_claiming now sid t = fst (update_where
    (\<lambda>r. cs_id r = sid \<and> chain_open r)
    (\<lambda>r. r\<lparr>cs_status := ''claiming'',
           cs_next_claim_attempt_at := Some (now + claim_in_flight_lease), cs_updated_at := now\<rparr>) t)"

subsection \<open>Lemmas\<close>

lemma parse_chain_swap_status_text [simp]: "parse_chain_swap_status (chain_swap_status_text st) = Inr st"
  by (cases st) (simp_all add: parse_chain_swap_status_def)

lemma parse_chain_swap_status_Inr: "parse_chain_swap_status s = Inr st \<Longrightarrow> s = chain_swap_status_text st"
  by (auto simp: parse_chain_swap_status_def split: if_splits)

lemma chain_open_text: "cs_status r = chain_swap_status_text st \<Longrightarrow> chain_open r \<longleftrightarrow> \<not> chain_is_terminal st"
  by (cases st) (simp_all add: chain_open_def chain_is_terminal_def)

subsection \<open>The chain-swap table over any run\<close>

inductive chain_step :: "chain_swap list \<Rightarrow> chain_swap list \<Rightarrow> bool" where
  cst_record: "record_chain_swap now fid n invs us t = Inr (r, t') \<Longrightarrow> chain_step t t'"
| cst_status: "chain_step t (fst (update_chain_swap_status now sid st txid t))"
| cst_failure: "record_chain_swap_claim_failure now j sid msg mx t = (oc, t') \<Longrightarrow> chain_step t t'"
| cst_clear: "chain_step t (clear_chain_swap_claim_failure_state sid t)"
| cst_persist: "chain_step t (persist_chain_claim_tx sid hex txid t)"
| cst_claiming: "chain_step t (mark_chain_claiming now sid t)"

inductive_cases chain_stepE: "chain_step t t'"

definition chain_swaps_ok :: "chain_swap list \<Rightarrow> bool" where
  "chain_swaps_ok t \<longleftrightarrow> distinct (map cs_id t)
     \<and> (\<forall>r\<in>set t. cs_status r \<in> range chain_swap_status_text \<and> 0 \<le> cs_claim_attempts r
          \<and> 0 < cs_user_lock_amount_sat r)"

definition chain_evolves :: "chain_swap \<Rightarrow> chain_swap \<Rightarrow> bool" where
  "chain_evolves r r' \<longleftrightarrow>
     cs_boltz_swap_id r' = cs_boltz_swap_id r \<and> cs_invoice_id r' = cs_invoice_id r
     \<and> cs_user_lock_amount_sat r' = cs_user_lock_amount_sat r
     \<and> cs_preimage_hex r' = cs_preimage_hex r \<and> cs_claim_key_hex r' = cs_claim_key_hex r
     \<and> cs_refund_key_hex r' = cs_refund_key_hex r
     \<and> (\<not> chain_open r \<longrightarrow> cs_status r' = cs_status r)
     \<and> (cs_claim_tx_hex r \<noteq> None \<longrightarrow> cs_claim_tx_hex r' = cs_claim_tx_hex r)
     \<and> cs_claim_attempts r \<le> cs_claim_attempts r'"

lemma chain_evolves_refl [simp]: "chain_evolves r r"
  by (simp add: chain_evolves_def)

lemma chain_open_cong: "cs_status r' = cs_status r \<Longrightarrow> chain_open r' = chain_open r"
  by (simp add: chain_open_def)

lemma chain_evolves_trans: "chain_evolves r s \<Longrightarrow> chain_evolves s u \<Longrightarrow> chain_evolves r u"
  unfolding chain_evolves_def using chain_open_cong[of s r] by auto

lemma chain_failure_rows:
  assumes "record_chain_swap_claim_failure now j sid msg mx t = (oc, t')"
  shows "t' = t \<or> (\<exists>f. t' = fst (update_where (\<lambda>r. cs_id r = sid \<and> chain_open r) f t)
    \<and> (\<forall>r. f r = chain_bump_failure now j msg r
          \<or> f r = (chain_bump_failure now j msg r)\<lparr>cs_status := ''claim_stuck'', cs_updated_at := now\<rparr>))"
proof -
  let ?hit = "\<lambda>r. cs_id r = sid \<and> chain_open r"
  let ?stuck = "\<lambda>r. r\<lparr>cs_status := ''claim_stuck'', cs_updated_at := now\<rparr>"
  have hit: "?hit (chain_bump_failure now j msg r) = ?hit r" for r
    by (simp add: chain_bump_failure_def chain_open_def)
  have both: "fst (update_where ?hit ?stuck (fst (update_where ?hit (chain_bump_failure now j msg) t)))
    = fst (update_where ?hit (\<lambda>r. ?stuck (chain_bump_failure now j msg r)) t)"
    by (auto simp: tables hit)
  have "t' = t \<or> t' = fst (update_where ?hit (chain_bump_failure now j msg) t)
    \<or> t' = fst (update_where ?hit (\<lambda>r. ?stuck (chain_bump_failure now j msg r)) t)"
    using assms unfolding record_chain_swap_claim_failure_def Let_def both
    by (auto split: option.splits if_splits)
  then show ?thesis by blast
qed

lemma chain_swaps_ok_update:
  assumes "chain_swaps_ok t"
    and "\<And>r. P r \<Longrightarrow> cs_id (f r) = cs_id r
           \<and> (cs_status (f r) = cs_status r \<or> cs_status (f r) \<in> range chain_swap_status_text)
           \<and> cs_claim_attempts r \<le> cs_claim_attempts (f r)
           \<and> cs_user_lock_amount_sat (f r) = cs_user_lock_amount_sat r"
  shows "chain_swaps_ok (fst (update_where P f t))"
proof -
  have "map cs_id (fst (update_where P f t)) = map cs_id t" using assms(2) by (simp add: tables)
  moreover have "cs_status r' \<in> range chain_swap_status_text \<and> 0 \<le> cs_claim_attempts r'
      \<and> 0 < cs_user_lock_amount_sat r'"
    if r': "r' \<in> set (fst (update_where P f t))" for r'
  proof -
    obtain r where r: "r \<in> set t" "r' = (if P r then f r else r)"
      by (rule update_where_setE[OF r'])
    have "cs_status r \<in> range chain_swap_status_text" "0 \<le> cs_claim_attempts r" "0 < cs_user_lock_amount_sat r"
      using assms(1) r(1) by (auto simp: chain_swaps_ok_def)
    then show ?thesis using assms(2)[of r] r(2) by (cases "P r") auto
  qed
  ultimately show ?thesis using assms(1) by (simp add: chain_swaps_ok_def)
qed

lemma update_chain_swaps_evolve:
  assumes "r \<in> set t" "P r \<Longrightarrow> cs_id (f r) = cs_id r \<and> chain_evolves r (f r)"
  shows "\<exists>r'\<in>set (fst (update_where P f t)). cs_id r' = cs_id r \<and> chain_evolves r r'"
  using assms update_where_hit[of r t P f] update_where_frame[of r t P f] chain_evolves_refl
  by (cases "P r") blast+

lemmas chain_op_defs = update_chain_swap_status_def clear_chain_swap_claim_failure_state_def
  persist_chain_claim_tx_def mark_chain_claiming_def

lemma chain_stuck_text: "''claim_stuck'' \<in> range chain_swap_status_text"
  "''claiming'' \<in> range chain_swap_status_text" "''pending'' \<in> range chain_swap_status_text"
  by (auto intro: range_eqI[of _ _ CClaimStuck] range_eqI[of _ _ CClaiming] range_eqI[of _ _ CPending])

lemma record_chain_swap_rows:
  assumes "record_chain_swap now fid n invs us t = Inr (r, t')"
  shows "t' = t @ [chain_swap_of_new now fid n] \<and> fid \<notin> cs_id ` set t \<and> 0 < nc_user_lock_amount_sat n"
  using assms by (auto simp: record_chain_swap_def split: if_splits)

lemma chain_step_ok: "chain_step t t' \<Longrightarrow> chain_swaps_ok t \<Longrightarrow> chain_swaps_ok t'"
proof (induction rule: chain_step.induct)
  case (cst_record now fid n invs us t r t')
  then show ?case
    using record_chain_swap_rows[OF cst_record(1)] chain_stuck_text
    by (auto simp: chain_swaps_ok_def chain_swap_of_new_def)
next
  case (cst_failure now j sid msg mx t oc t')
  from chain_failure_rows[OF cst_failure(1)] show ?case
  proof (elim disjE exE conjE)
    fix f assume f: "t' = fst (update_where (\<lambda>r. cs_id r = sid \<and> chain_open r) f t)"
      "\<forall>r. f r = chain_bump_failure now j msg r
          \<or> f r = (chain_bump_failure now j msg r)\<lparr>cs_status := ''claim_stuck'', cs_updated_at := now\<rparr>"
    have "cs_id (f r) = cs_id r \<and> (cs_status (f r) = cs_status r \<or> cs_status (f r) \<in> range chain_swap_status_text)
        \<and> cs_claim_attempts r \<le> cs_claim_attempts (f r) \<and> cs_user_lock_amount_sat (f r) = cs_user_lock_amount_sat r" for r
      using f(2)[rule_format, of r] chain_stuck_text by (auto simp: chain_bump_failure_def)
    then show ?thesis unfolding f(1) using cst_failure(2) by (intro chain_swaps_ok_update) auto
  qed (use cst_failure in simp)
qed (auto simp: chain_op_defs chain_stuck_text intro!: chain_swaps_ok_update)

lemma chain_step_evolves:
  "chain_step t t' \<Longrightarrow> r \<in> set t \<Longrightarrow> \<exists>r'\<in>set t'. cs_id r' = cs_id r \<and> chain_evolves r r'"
proof (induction rule: chain_step.induct)
  case (cst_record now fid n t s t')
  then show ?case using record_chain_swap_rows[OF cst_record(1)] chain_evolves_refl by auto
next
  case (cst_failure now j sid msg mx t oc t')
  from chain_failure_rows[OF cst_failure(1)] show ?case
  proof (elim disjE exE conjE)
    fix f assume f: "t' = fst (update_where (\<lambda>r. cs_id r = sid \<and> chain_open r) f t)"
      "\<forall>r. f r = chain_bump_failure now j msg r
          \<or> f r = (chain_bump_failure now j msg r)\<lparr>cs_status := ''claim_stuck'', cs_updated_at := now\<rparr>"
    have "chain_open x \<Longrightarrow> cs_id (f x) = cs_id x \<and> chain_evolves x (f x)" for x
      using f(2)[rule_format, of x] by (auto simp: chain_bump_failure_def chain_evolves_def)
    then show ?thesis unfolding f(1) using cst_failure(2) by (intro update_chain_swaps_evolve) auto
  qed (use cst_failure chain_evolves_refl in blast)
qed (auto simp: chain_op_defs intro!: update_chain_swaps_evolve, auto simp: chain_evolves_def)

interpretation chain_table: terminal_table "\<lambda>t. t" cs_id chain_swaps_ok chain_step chain_evolves
  "\<lambda>r. \<not> chain_open r" cs_status
proof (unfold_locales, goal_cases)
  case (2 r s u)
  then show ?case by (rule chain_evolves_trans)
next
  case (5 r r')
  then show ?case using chain_open_cong[of r' r] by (simp add: chain_evolves_def)
qed (auto intro: chain_step_ok chain_step_evolves)

end
