(* ===== verification/SwapProperties.thy ===== *)
theory SwapProperties
  imports ChainSwaps
begin

text \<open>
  The properties of the user, reverse-swap and chain-swap tables, with their
  witnesses.
\<close>

definition demo_new_swap :: new_swap_record where
  "demo_new_swap = \<lparr>ns_nym = None, ns_boltz_swap_id = ''swap'', ns_address = None, ns_address_index = None,
     ns_amount_sat = 100000, ns_invoice = ''lnbc1'', ns_preimage_hex = ''aa'', ns_claim_key_hex = ''bb'',
     ns_boltz_response_json = ''{}'', ns_invoice_id = Some 1\<rparr>"

definition demo_swaps :: "swap_record list" where
  "demo_swaps = [swap_of_new 0 7 demo_new_swap]"

lemma demo_swaps_ok: "swaps_ok demo_swaps"
  using stuck_text by (simp add: swaps_ok_def demo_swaps_def swap_of_new_def)

subsection \<open>Reverse swaps\<close>

text \<open>A reverse swap in a terminal state (claimed, expired, claim_stuck, lockup_refunded)
  keeps that status whatever webhooks, reconciler actions, claim attempts or failures follow.\<close>
theorem terminal_swap_status_final:
  assumes "swap_step\<^sup>*\<^sup>* t t'" "swaps_ok t" "r \<in> set t"
    and "parsed_status r = Inr st" "is_terminal st" "r' \<in> set t'" "sr_id r' = sr_id r"
  shows "sr_status r' = sr_status r"
proof (rule swap_table.run_terminal_unique[OF assms(1-3) _ _ assms(6,7)])
  show "\<not> swap_open r"
    using swap_open_text[OF parse_swap_status_Inr[OF assms(4)[unfolded parsed_status_def]]] assms(5) by simp
  show "distinct (map sr_id t')"
    using swap_table.run_good[OF assms(1,2)] by (simp add: swaps_ok_def)
qed

definition demo_claimed :: "swap_record list" where
  "demo_claimed = fst (update_swap_status 5 7 Claimed (Some ''tx'') demo_swaps)"

theorem terminal_swap_status_final_witness:
  "sr_status (hd (fst (update_swap_status 9 7 SwapExpired None demo_claimed))) = ''claimed''"
proof -
  have ok: "swaps_ok demo_claimed"
    using swap_step_ok[OF ss_status demo_swaps_ok] by (simp add: demo_claimed_def)
  have r: "hd demo_claimed \<in> set demo_claimed" "sr_id (hd demo_claimed) = 7" "sr_status (hd demo_claimed) = ''claimed''"
    "parsed_status (hd demo_claimed) = Inr Claimed"
    by (simp_all add: demo_claimed_def demo_swaps_def update_swap_status_def tables swap_of_new_def swap_open_def
        parsed_status_def parse_swap_status_def)
  have "swap_step\<^sup>*\<^sup>* demo_claimed (fst (update_swap_status 9 7 SwapExpired None demo_claimed))"
    by (rule r_into_rtranclp[of swap_step, OF ss_status])
  moreover have "hd (fst (update_swap_status 9 7 SwapExpired None demo_claimed))
      \<in> set (fst (update_swap_status 9 7 SwapExpired None demo_claimed))"
    "sr_id (hd (fst (update_swap_status 9 7 SwapExpired None demo_claimed))) = 7"
    by (simp_all add: demo_claimed_def demo_swaps_def update_swap_status_def tables swap_of_new_def swap_open_def)
  ultimately show ?thesis
    using terminal_swap_status_final[OF _ ok r(1,4)] r(2,3) by (simp add: is_terminal_def)
qed

text \<open>Once a claim transaction has been constructed and stored for a reverse swap, every later
  state of the table still holds that same transaction, and the claim secrets are untouched: a
  retry re-broadcasts the stored transaction and never a different one.\<close>
theorem constructed_claim_is_kept:
  assumes "swap_step\<^sup>*\<^sup>* t t'" "swaps_ok t" "r \<in> set t" "sr_claim_tx_hex r = Some hex"
  shows "\<exists>r'\<in>set t'. sr_id r' = sr_id r \<and> sr_claim_tx_hex r' = Some hex
    \<and> sr_preimage_hex r' = sr_preimage_hex r \<and> sr_claim_key_hex r' = sr_claim_key_hex r"
  using swap_table.run_evolves[OF assms(1-3)] assms(4) by (auto simp: swap_evolves_def)

theorem constructed_claim_is_kept_witness:
  "\<exists>r'\<in>set (persist_claim_tx 7 ''ff'' ''other'' ''script'' (persist_claim_tx 7 ''ee'' ''tx'' ''cooperative'' demo_swaps)).
     sr_claim_tx_hex r' = Some ''ee''"
proof -
  let ?t = "persist_claim_tx 7 ''ee'' ''tx'' ''cooperative'' demo_swaps"
  have ok: "swaps_ok ?t" by (rule swap_step_ok[OF ss_persist demo_swaps_ok])
  have "hd ?t \<in> set ?t" "sr_claim_tx_hex (hd ?t) = Some ''ee''"
    by (simp_all add: persist_claim_tx_def tables demo_swaps_def swap_of_new_def)
  from constructed_claim_is_kept[OF r_into_rtranclp[of swap_step, OF ss_persist] ok this]
  show ?thesis by blast
qed

text \<open>The row of a failed claim: bumped, and stuck once the count reaches the maximum.\<close>
lemma claim_failure_row:
  assumes "distinct (map sr_id t)" "record_claim_failure now j sid msg mx t = (oc, t')"
  shows "case get_swap_by_id sid t of
      None \<Rightarrow> oc = NoOp \<and> t' = t
    | Some r \<Rightarrow>
        if \<not> swap_open r then oc = NoOp \<and> t' = t
        else oc = (if mx \<le> sr_claim_attempts r + 1 then Stuck else Scheduled)
          \<and> get_swap_by_id sid t' = Some (if mx \<le> sr_claim_attempts r + 1
              then (bump_failure now j msg r)\<lparr>sr_status := ''claim_stuck'', sr_updated_at := now\<rparr> else bump_failure now j msg r)"
proof -
  let ?hit = "\<lambda>r. sr_id r = sid \<and> swap_open r"
  let ?stuck = "\<lambda>r. r\<lparr>sr_status := ''claim_stuck'', sr_updated_at := now\<rparr>"
  have hit: "select_one ?hit t = (case get_swap_by_id sid t of None \<Rightarrow> None | Some r \<Rightarrow> if swap_open r then Some r else None)"
    unfolding get_swap_by_id_def by (rule select_one_guarded[OF assms(1)])
  have update: "get_swap_by_id sid (fst (update_where ?hit f u)) =
      (case get_swap_by_id sid u of None \<Rightarrow> None | Some r \<Rightarrow> Some (if swap_open r then f r else r))"
    if "\<And>r. sr_id (f r) = sr_id r" for f u
    unfolding get_swap_by_id_def using that by (subst select_one_update_key[where k = sr_id]) (auto split: option.splits)
  have keeps: "sr_id (bump_failure now j msg r) = sr_id r" "swap_open (bump_failure now j msg r) = swap_open r" for r
    by (simp_all add: bump_failure_def swap_open_def)
  show ?thesis
    using assms(2) by (auto simp: record_claim_failure_def Let_def hit update keeps split: option.splits if_splits)
qed

text \<open>A recorded claim failure on a live swap adds exactly one attempt, schedules the retry
  between 80 and 120 percent of the table's delay (10 s growing to one hour), and moves the row to
  claim_stuck exactly when the attempt count reaches the maximum; on a terminal or missing row
  nothing changes.\<close>
theorem claim_failure_schedules_or_sticks:
  assumes "distinct (map sr_id t)" "0 \<le> j" "j < 1"
    and "record_claim_failure now j sid msg mx t = (oc, t')"
  shows "case get_swap_by_id sid t of
      None \<Rightarrow> oc = NoOp \<and> t' = t
    | Some r \<Rightarrow>
        if \<not> swap_open r then oc = NoOp \<and> t' = t
        else (\<exists>r' due. get_swap_by_id sid t' = Some r' \<and> sr_next_claim_attempt_at r' = Some due
          \<and> now + secs (backoff_secs (sr_claim_attempts r + 1)) * 4 div 5 \<le> due
          \<and> due \<le> now + secs (backoff_secs (sr_claim_attempts r + 1)) * 6 div 5
          \<and> sr_claim_attempts r' = sr_claim_attempts r + 1
          \<and> (if mx \<le> sr_claim_attempts r + 1
             then oc = Stuck \<and> sr_status r' = ''claim_stuck''
             else oc = Scheduled \<and> sr_status r' = sr_status r))"
proof -
  have fields: "sr_claim_attempts (bump_failure now j msg r) = sr_claim_attempts r + 1"
    "sr_status (bump_failure now j msg r) = sr_status r"
    "sr_next_claim_attempt_at (bump_failure now j msg r) = Some (now + jittered_backoff (sr_claim_attempts r + 1) j)" for r
    by (simp_all add: bump_failure_def)
  show ?thesis
    using claim_failure_row[OF assms(1,4)]
      jittered_backoff_bounds[OF assms(2,3), of "sr_claim_attempts (the (get_swap_by_id sid t)) + 1"]
    by (cases "get_swap_by_id sid t") (auto simp: fields)
qed


theorem claim_failure_schedules_or_sticks_witness:
  "fst (record_claim_failure 0 0 7 ''e'' 1 demo_swaps) = Stuck"
proof -
  obtain oc t' where r: "record_claim_failure 0 0 7 ''e'' 1 demo_swaps = (oc, t')" by fastforce
  have d: "distinct (map sr_id demo_swaps)" using demo_swaps_ok by (simp add: swaps_ok_def)
  have g: "get_swap_by_id 7 demo_swaps = Some (swap_of_new 0 7 demo_new_swap)"
    by (simp add: get_swap_by_id_def demo_swaps_def swap_of_new_def)
  show ?thesis
    using claim_failure_schedules_or_sticks[OF d _ _ r] r
    by (auto simp: g swap_open_def swap_of_new_def)
qed

text \<open>The sweep hands the claimer exactly the swaps whose status is claimable and whose retry
  time is unset or past, never a terminal one, and oldest due first.\<close>
theorem sweep_selects_due_claimable_swaps:
  assumes "swaps_ok t"
  shows "set (get_ready_to_claim_swaps now t) =
      {r \<in> set t. (\<exists>st. parsed_status r = Inr st \<and> is_claimable st)
         \<and> (\<forall>due. sr_next_claim_attempt_at r = Some due \<longrightarrow> due \<le> now)}
    \<and> sorted (map sr_next_claim_attempt_at (get_ready_to_claim_swaps now t))
    \<and> (\<forall>r\<in>set (get_ready_to_claim_swaps now t). swap_open r)"
proof -
  have "ready_to_claim now r \<longleftrightarrow> (\<exists>st. parsed_status r = Inr st \<and> is_claimable st)
      \<and> (\<forall>due. sr_next_claim_attempt_at r = Some due \<longrightarrow> due \<le> now)" if r: "r \<in> set t" for r
  proof -
    obtain st where "sr_status r = swap_status_text st" using assms r unfolding swaps_ok_def by blast
    then show ?thesis
      by (cases st) (auto simp: ready_to_claim_def parsed_status_def parse_swap_status_def is_claimable_def
          split: option.splits)
  qed
  then show ?thesis
    using ready_open by (auto simp: get_ready_to_claim_swaps_def)
qed

theorem sweep_selects_due_claimable_swaps_witness:
  "\<exists>r\<in>set (get_ready_to_claim_swaps 100 (fst (update_swap_status 5 7 LockupMempool None demo_swaps))). sr_id r = 7"
proof -
  let ?t = "fst (update_swap_status 5 7 LockupMempool None demo_swaps)"
  have "hd ?t \<in> set ?t" "parsed_status (hd ?t) = Inr LockupMempool" "sr_next_claim_attempt_at (hd ?t) = None"
    "sr_id (hd ?t) = 7"
    by (simp_all add: demo_swaps_def update_swap_status_def tables swap_of_new_def swap_open_def parsed_status_def
        parse_swap_status_def)
  then show ?thesis
    using sweep_selects_due_claimable_swaps[OF swap_step_ok[OF ss_status demo_swaps_ok], of 100]
    by (auto simp: is_claimable_def intro!: bexI[of _ "hd ?t"])
qed

text \<open>The reconciler's nudges never shorten a live broadcast lease below now nor extend it
  past two minutes: a row in claiming with a future lease stays out of the sweep, and any other
  live row becomes due at once.\<close>
theorem nudge_respects_broadcast_lease:
  assumes "distinct (map sr_id t)" "get_swap_by_id sid t = Some r" "swap_open r"
  shows "\<exists>r' due. get_swap_by_id sid (fst (schedule_immediate_claim now sid t)) = Some r'
    \<and> sr_next_claim_attempt_at r' = Some due \<and> sr_status r' = sr_status r
    \<and> (case sr_next_claim_attempt_at r of
         Some lease \<Rightarrow> if sr_status r = ''claiming'' \<and> now < lease
                       then now < due \<and> due \<le> lease \<and> due \<le> now + secs 120 \<and> \<not> ready_to_claim now r'
                       else due = now
       | None \<Rightarrow> due = now)"
proof -
  let ?f = "\<lambda>r. r\<lparr>sr_next_claim_attempt_at := Some (nudged_attempt_at now r), sr_updated_at := now\<rparr>"
  have "get_swap_by_id sid (fst (schedule_immediate_claim now sid t)) = Some (?f r)"
    using assms(2,3) unfolding schedule_immediate_claim_def get_swap_by_id_def
    by (subst select_one_update_key[where k = sr_id]) auto
  then show ?thesis
    by (auto simp: nudged_attempt_at_def claim_in_flight_lease_def secs_def ready_to_claim_def split: option.splits)
qed

definition demo_leased :: "swap_record list" where
  "demo_leased = mark_claiming 0 7 demo_swaps"

theorem nudge_respects_broadcast_lease_witness:
  "\<exists>r'. get_swap_by_id 7 (fst (schedule_immediate_claim (secs 30) 7 demo_leased)) = Some r'
     \<and> \<not> ready_to_claim (secs 30) r'"
proof -
  have d: "distinct (map sr_id demo_leased)"
    by (simp add: demo_leased_def demo_swaps_def mark_claiming_def tables)
  have g: "get_swap_by_id 7 demo_leased = Some (hd demo_leased)" "swap_open (hd demo_leased)"
    "sr_status (hd demo_leased) = ''claiming''" "sr_next_claim_attempt_at (hd demo_leased) = Some (secs 120)"
    by (simp_all add: demo_leased_def demo_swaps_def mark_claiming_def tables swap_of_new_def swap_open_def
        get_swap_by_id_def claim_in_flight_lease_def)
  show ?thesis
    using nudge_respects_broadcast_lease[OF d g(1,2), of "secs 30"] g(3,4) by (auto simp: secs_def)
qed

text \<open>Rendering a swap status to the database text and parsing it back is the identity for both
  kinds of swap, parsing accepts nothing else, and a text the SQL guard lets through is exactly a
  non-terminal status.\<close>
theorem swap_status_text_roundtrip:
  "parse_swap_status (swap_status_text st) = Inr st
   \<and> (parse_swap_status s = Inr st \<longleftrightarrow> s = swap_status_text st)
   \<and> parse_chain_swap_status (chain_swap_status_text cst) = Inr cst
   \<and> (parse_chain_swap_status s = Inr cst \<longleftrightarrow> s = chain_swap_status_text cst)
   \<and> swap_open (r\<lparr>sr_status := swap_status_text st\<rparr>) = (\<not> is_terminal st)
   \<and> chain_open (c\<lparr>cs_status := chain_swap_status_text cst\<rparr>) = (\<not> chain_is_terminal cst)"
  using parse_swap_status_Inr parse_chain_swap_status_Inr swap_open_text chain_open_text by auto

text \<open>A chain swap in a terminal state (claimed, claim_stuck, expired, lockup_failed, refunded)
  keeps that status over any run of the chain-swap operations, late webhooks included.\<close>
theorem terminal_chain_swap_final:
  assumes "chain_step\<^sup>*\<^sup>* t t'" "chain_swaps_ok t" "r \<in> set t" "r' \<in> set t'" "cs_id r' = cs_id r"
    and "chain_parsed_status r = Inr st" "chain_is_terminal st"
  shows "cs_status r' = cs_status r"
proof (rule chain_table.run_terminal_unique[OF assms(1-3) _ _ assms(4,5)])
  show "\<not> chain_open r"
    using chain_open_text[OF parse_chain_swap_status_Inr[OF assms(6)[unfolded chain_parsed_status_def]]]
      assms(7) by simp
  show "distinct (map cs_id t')"
    using chain_table.run_good[OF assms(1,2)] by (simp add: chain_swaps_ok_def)
qed

definition demo_new_chain :: new_chain_swap where
  "demo_new_chain = \<lparr>nc_invoice_id = 1, nc_nym = None, nc_boltz_swap_id = ''chain'', nc_lockup_address = ''bc1'',
     nc_lockup_bip21 = None, nc_user_lock_amount_sat = 50000, nc_server_lock_amount_sat = 49000,
     nc_preimage_hex = ''aa'', nc_claim_key_hex = ''bb'', nc_refund_key_hex = ''cc'',
     nc_boltz_response_json = ''{}''\<rparr>"

definition demo_chain :: "chain_swap list" where
  "demo_chain = [(chain_swap_of_new 0 3 demo_new_chain)\<lparr>cs_status := ''claimed''\<rparr>]"

theorem terminal_chain_swap_final_witness:
  "cs_status (hd (fst (update_chain_swap_status 9 3 UserLockMempool None demo_chain))) = ''claimed''"
proof -
  have ok: "chain_swaps_ok demo_chain"
    by (auto simp: chain_swaps_ok_def demo_chain_def chain_swap_of_new_def demo_new_chain_def
        intro: range_eqI[of _ _ CClaimed])
  have r: "hd demo_chain \<in> set demo_chain" "cs_id (hd demo_chain) = 3" "cs_status (hd demo_chain) = ''claimed''"
    "chain_parsed_status (hd demo_chain) = Inr CClaimed"
    by (simp_all add: demo_chain_def chain_swap_of_new_def chain_parsed_status_def parse_chain_swap_status_def)
  have "chain_step\<^sup>*\<^sup>* demo_chain (fst (update_chain_swap_status 9 3 UserLockMempool None demo_chain))"
    by (rule r_into_rtranclp[of chain_step, OF cst_status])
  moreover have "hd (fst (update_chain_swap_status 9 3 UserLockMempool None demo_chain))
      \<in> set (fst (update_chain_swap_status 9 3 UserLockMempool None demo_chain))"
    "cs_id (hd (fst (update_chain_swap_status 9 3 UserLockMempool None demo_chain))) = 3"
    by (simp_all add: demo_chain_def update_chain_swap_status_def tables chain_swap_of_new_def chain_open_def)
  ultimately show ?thesis
    using terminal_chain_swap_final[OF _ ok r(1) _ _ r(4)] r(2,3) by (simp add: chain_is_terminal_def)
qed

end
