(* ===== verification/AddressAllocators.thy ===== *)
theory AddressAllocators
  imports Users Invoices
begin

text \<open>
  The donation-page table and the three Liquid-address allocators
  (src/src/db/donation_pages.rs and \<open>allocate_next_liquid_for_active_nym\<close> of
  src/src/db/invoices.rs).  The three Rust functions run the same loop over a
  different row, column and lock; the loop is modelled once.  \<open>derive\<close> is
  the caller's \<open>derive_address\<close> closure.  The loop index is an i32; its
  additions wrap as in a release build.
\<close>

record donation_page =
  dp_nym :: string
  dp_ct_descriptor :: "string option"
  dp_next_addr_idx :: int
  dp_pos_ct_descriptor :: "string option"
  dp_pos_next_addr_idx :: int
  dp_header :: string
  dp_description :: string
  dp_avatar_sha256 :: "string option"
  dp_og_sha256 :: "string option"
  dp_display_currency :: string
  dp_website :: "string option"
  dp_twitter :: "string option"
  dp_instagram :: "string option"
  dp_enabled :: bool
  dp_archived_at :: "timestamp option"

record upsert_page =
  up_nym :: string
  up_ct_descriptor :: "string option"
  up_header :: string
  up_description :: string
  up_display_currency :: string
  up_website :: "string option"
  up_twitter :: "string option"
  up_instagram :: "string option"
  up_enabled :: bool

definition dp_is_archived :: "donation_page \<Rightarrow> bool" where
  "dp_is_archived p \<longleftrightarrow> dp_archived_at p \<noteq> None"

definition page_of_upsert :: "upsert_page \<Rightarrow> donation_page" where
  "page_of_upsert u =
    \<lparr>dp_nym = up_nym u, dp_ct_descriptor = up_ct_descriptor u, dp_next_addr_idx = 0,
     dp_pos_ct_descriptor = None, dp_pos_next_addr_idx = 0, dp_header = up_header u,
     dp_description = up_description u, dp_avatar_sha256 = None, dp_og_sha256 = None,
     dp_display_currency = up_display_currency u, dp_website = up_website u,
     dp_twitter = up_twitter u, dp_instagram = up_instagram u, dp_enabled = up_enabled u,
     dp_archived_at = None\<rparr>"

text \<open>ON CONFLICT (nym) DO UPDATE: a missing descriptor keeps the stored one, archiving is cleared.\<close>
definition upsert_donation_page :: "upsert_page \<Rightarrow> donation_page list \<Rightarrow> donation_page list" where
  "upsert_donation_page u ps =
    (if row_exists (\<lambda>p. dp_nym p = up_nym u) ps then
       fst (update_where (\<lambda>p. dp_nym p = up_nym u)
         (\<lambda>p. p\<lparr>dp_ct_descriptor := (case up_ct_descriptor u of None \<Rightarrow> dp_ct_descriptor p | Some d \<Rightarrow> Some d),
                dp_header := up_header u, dp_description := up_description u,
                dp_display_currency := up_display_currency u, dp_website := up_website u,
                dp_twitter := up_twitter u, dp_instagram := up_instagram u,
                dp_enabled := up_enabled u, dp_archived_at := None\<rparr>) ps)
     else ps @ [page_of_upsert u])"

definition archive_donation_page ::
  "timestamp \<Rightarrow> string \<Rightarrow> donation_page list \<Rightarrow> donation_page option \<times> donation_page list" where
  "archive_donation_page now nym ps =
    (let hit = (\<lambda>p. dp_nym p = nym \<and> dp_archived_at p = None);
         upd = (\<lambda>p. p\<lparr>dp_archived_at := Some now\<rparr>)
     in (map_option upd (select_one hit ps), fst (update_where hit upd ps)))"

definition update_donation_page_image_hash ::
  "string \<Rightarrow> string \<Rightarrow> string \<Rightarrow> donation_page list
    \<Rightarrow> (donation_page option \<times> donation_page list) db_result" where
  "update_donation_page_image_hash nym kind_column new_sha256 ps =
    (let hit = (\<lambda>p. dp_nym p = nym) in
     if kind_column = ''avatar_sha256'' then
       (let upd = (\<lambda>p. p\<lparr>dp_avatar_sha256 := Some new_sha256\<rparr>)
        in Inr (map_option upd (select_one hit ps), fst (update_where hit upd ps)))
     else if kind_column = ''og_sha256'' then
       (let upd = (\<lambda>p. p\<lparr>dp_og_sha256 := Some new_sha256\<rparr>)
        in Inr (map_option upd (select_one hit ps), fst (update_where hit upd ps)))
     else Inl (ProtocolError (''invalid image kind column: '' @ kind_column)))"

definition get_donation_page_by_nym :: "string \<Rightarrow> donation_page list \<Rightarrow> donation_page option" where
  "get_donation_page_by_nym nym = select_one (\<lambda>p. dp_nym p = nym)"

subsection \<open>The allocation loop\<close>

datatype alloc_outcome = AllocFound string int | AllocErr sqlx_error | AllocExhausted int

text \<open>At most \<open>n\<close> candidates from \<open>idx\<close>; the index conversion to u32 fails below zero.\<close>
fun alloc_loop ::
  "(string \<Rightarrow> nat \<Rightarrow> string db_result) \<Rightarrow> (string \<Rightarrow> bool) \<Rightarrow> string \<Rightarrow> nat \<Rightarrow> int \<Rightarrow> alloc_outcome" where
  "alloc_loop derive in_use d 0 idx = AllocExhausted idx"
| "alloc_loop derive in_use d (Suc n) idx =
    (if idx < 0 then AllocErr (ProtocolError (''address index overflow: '' @ show_int idx))
     else case derive d (nat idx) of
       Inl e \<Rightarrow> AllocErr e
     | Inr addr \<Rightarrow>
         if \<not> in_use addr then AllocFound addr idx
         else alloc_loop derive in_use d n (as_i32 (idx + 1)))"

definition liquid_in_use :: "payment_address list \<Rightarrow> string \<Rightarrow> bool" where
  "liquid_in_use pas addr = row_exists (\<lambda>p. pa_rail p = ''liquid'' \<and> pa_address p = addr) pas"

definition allocate_next_liquid_for_active_nym ::
  "(string \<Rightarrow> nat \<Rightarrow> string db_result) \<Rightarrow> string \<Rightarrow> payment_address list \<Rightarrow> user list
    \<Rightarrow> (string \<times> int) option db_result \<times> user list" where
  "allocate_next_liquid_for_active_nym derive nym pas us =
    (let set_cursor = (\<lambda>i. fst (update_where (\<lambda>u. u_nym u = nym) (\<lambda>u. u\<lparr>u_next_addr_idx := i\<rparr>) us)) in
     case get_active_user_by_nym nym us of
       None \<Rightarrow> (Inr None, us)
     | Some u \<Rightarrow>
        (case alloc_loop derive (liquid_in_use pas) (u_ct_descriptor u) 100 (u_next_addr_idx u) of
           AllocErr e \<Rightarrow> (Inl e, us)
         | AllocFound addr i \<Rightarrow> (Inr (Some (addr, i)), set_cursor (as_i32 (i + 1)))
         | AllocExhausted i \<Rightarrow>
             (Inl (ProtocolError (''could not allocate unused Liquid address for '' @ nym @ '' after 100 attempts'')),
              set_cursor i)))"

definition allocate_next_liquid_for_donation_page ::
  "(string \<Rightarrow> nat \<Rightarrow> string db_result) \<Rightarrow> string \<Rightarrow> payment_address list \<Rightarrow> donation_page list
    \<Rightarrow> (string \<times> int \<times> string) option db_result \<times> donation_page list" where
  "allocate_next_liquid_for_donation_page derive nym pas ps =
    (let set_cursor = (\<lambda>i. fst (update_where (\<lambda>p. dp_nym p = nym) (\<lambda>p. p\<lparr>dp_next_addr_idx := i\<rparr>) ps)) in
     case select_one (\<lambda>p. dp_nym p = nym \<and> dp_archived_at p = None \<and> dp_ct_descriptor p \<noteq> None) ps of
       None \<Rightarrow> (Inr None, ps)
     | Some p \<Rightarrow>
        (let d = the (dp_ct_descriptor p) in
         case alloc_loop derive (liquid_in_use pas) d 100 (dp_next_addr_idx p) of
           AllocErr e \<Rightarrow> (Inl e, ps)
         | AllocFound addr i \<Rightarrow> (Inr (Some (addr, i, d)), set_cursor (as_i32 (i + 1)))
         | AllocExhausted i \<Rightarrow>
             (Inl (ProtocolError (''could not allocate unused Payment Page Liquid address for '' @ nym
                     @ '' after 100 attempts'')), set_cursor i)))"

definition allocate_next_liquid_for_pos_terminal ::
  "(string \<Rightarrow> nat \<Rightarrow> string db_result) \<Rightarrow> string \<Rightarrow> payment_address list \<Rightarrow> donation_page list
    \<Rightarrow> (string \<times> int \<times> string) option db_result \<times> donation_page list" where
  "allocate_next_liquid_for_pos_terminal derive nym pas ps =
    (let set_cursor = (\<lambda>i. fst (update_where (\<lambda>p. dp_nym p = nym) (\<lambda>p. p\<lparr>dp_pos_next_addr_idx := i\<rparr>) ps)) in
     case select_one (\<lambda>p. dp_nym p = nym \<and> dp_archived_at p = None \<and> dp_pos_ct_descriptor p \<noteq> None) ps of
       None \<Rightarrow> (Inr None, ps)
     | Some p \<Rightarrow>
        (let d = the (dp_pos_ct_descriptor p) in
         case alloc_loop derive (liquid_in_use pas) d 100 (dp_pos_next_addr_idx p) of
           AllocErr e \<Rightarrow> (Inl e, ps)
         | AllocFound addr i \<Rightarrow> (Inr (Some (addr, i, d)), set_cursor (as_i32 (i + 1)))
         | AllocExhausted i \<Rightarrow>
             (Inl (ProtocolError (''could not allocate unused POS Liquid address for '' @ nym
                     @ '' after 100 attempts'')), set_cursor i)))"

subsection \<open>The loop\<close>

lemma alloc_loop_found:
  assumes "alloc_loop derive in_use d n idx = AllocFound addr i" "idx + int n \<le> i32_max"
  shows "\<not> in_use addr \<and> derive d (nat i) = Inr addr \<and> 0 \<le> i \<and> idx \<le> i \<and> i < idx + int n"
  using assms
proof (induction n arbitrary: idx)
  case (Suc n)
  show ?case
  proof (cases "alloc_loop derive in_use d n (as_i32 (idx + 1)) = AllocFound addr i \<and> 0 \<le> idx")
    case True
    then have "as_i32 (idx + 1) = idx + 1" using Suc.prems(2) by (simp add: i32_min_def)
    then show ?thesis using Suc.IH[of "idx + 1"] Suc.prems(2) True by simp
  next
    case False
    then show ?thesis using Suc.prems by (auto split: sum.splits if_splits)
  qed
qed simp

lemma alloc_loop_exhausted:
  assumes "alloc_loop derive in_use d n idx = AllocExhausted i" "0 \<le> idx" "idx + int n \<le> i32_max"
  shows "i = idx + int n \<and> (\<forall>k. idx \<le> k \<and> k < idx + int n \<longrightarrow> (\<exists>a. derive d (nat k) = Inr a \<and> in_use a))"
  using assms
proof (induction n arbitrary: idx)
  case (Suc n)
  have step: "alloc_loop derive in_use d n (idx + 1) = AllocExhausted i"
    and here: "\<exists>a. derive d (nat idx) = Inr a \<and> in_use a"
    using Suc.prems by (auto simp: i32_min_def split: sum.splits if_splits)
  from Suc.IH[OF step] have rest: "i = idx + 1 + int n"
    "\<forall>k. idx + 1 \<le> k \<and> k < idx + 1 + int n \<longrightarrow> (\<exists>a. derive d (nat k) = Inr a \<and> in_use a)"
    using Suc.prems(2,3) by simp_all
  have "\<exists>a. derive d (nat k) = Inr a \<and> in_use a" if "idx \<le> k" "k < idx + int (Suc n)" for k
  proof (cases "k = idx")
    case False
    then show ?thesis using rest(2) that by auto
  qed (use here in simp)
  then show ?case using rest(1) by simp
qed auto

text \<open>A loop over the cursor column always exhausts from a non-negative start.\<close>
lemma alloc_loop_exhausted_nonneg:
  "alloc_loop derive in_use d (Suc n) idx = AllocExhausted i \<Longrightarrow> 0 \<le> idx"
  by (auto split: if_splits)

subsection \<open>The cursor of an allocator\<close>

text \<open>The index an allocator call hands out.\<close>
definition index_of :: "(string \<times> int \<times> string) option db_result \<Rightarrow> int option" where
  "index_of r = (case r of Inr (Some (a, i, d)) \<Rightarrow> Some i | _ \<Rightarrow> None)"

definition nym_index_of :: "(string \<times> int) option db_result \<Rightarrow> int option" where
  "nym_index_of r = (case r of Inr (Some (a, i)) \<Rightarrow> Some i | _ \<Rightarrow> None)"

definition page_cursor :: "string \<Rightarrow> donation_page list \<Rightarrow> int" where
  "page_cursor nym ps =
    (case select_one (\<lambda>p. dp_nym p = nym \<and> dp_archived_at p = None \<and> dp_ct_descriptor p \<noteq> None) ps of
       None \<Rightarrow> 0 | Some p \<Rightarrow> dp_next_addr_idx p)"

lemma set_page_cursor:
  "select_one (\<lambda>p. dp_nym p = nym \<and> Q p) ps = Some p \<Longrightarrow> (\<And>p. Q (f p) = Q p) \<Longrightarrow> (\<And>p. dp_nym (f p) = dp_nym p) \<Longrightarrow>
   select_one (\<lambda>p. dp_nym p = nym \<and> Q p) (fst (update_where (\<lambda>p. dp_nym p = nym) f ps)) = Some (f p)"
  by (induction ps) (auto simp: tables split: if_splits)

text \<open>The cursor after one loop, whichever row it came from.\<close>
lemma loop_cursor:
  assumes "c + 100 \<le> i32_max"
  shows "alloc_loop derive in_use d 100 c = AllocFound addr i \<Longrightarrow> c \<le> i \<and> as_i32 (i + 1) = i + 1 \<and> i + 1 \<le> c + 100"
    and "alloc_loop derive in_use d 100 c = AllocExhausted i \<Longrightarrow> i = c + 100"
proof -
  assume "alloc_loop derive in_use d 100 c = AllocFound addr i"
  from alloc_loop_found[OF this] show "c \<le> i \<and> as_i32 (i + 1) = i + 1 \<and> i + 1 \<le> c + 100"
    using assms by (simp add: i32_min_def)
next
  assume a: "alloc_loop derive in_use d 100 c = AllocExhausted i"
  then have "0 \<le> c" using alloc_loop_exhausted_nonneg[of derive in_use d 99 c i] by (simp add: numeral_eq_Suc)
  with alloc_loop_exhausted[OF a] show "i = c + 100" using assms by simp
qed

end
