(* ===== verification/PosTerminals.thy ===== *)
theory PosTerminals
  imports AddressAllocators
begin

text \<open>
  POS terminals: src/src/db/pos_terminals.rs.  A pairing is inserted with the
  hashes of a token and of a one-time code, claimed once by the merchant's
  wallet (which also pins the POS descriptor on the nym's page row), touched
  while in use, revoked by its owner, and purged when it was never claimed.
\<close>

record pos_terminal =
  pt_id :: uuid
  pt_nym :: string
  pt_npub_owner :: "string option"
  pt_label :: "string option"
  pt_token_hash :: string
  pt_pairing_code_hash :: "string option"
  pt_pairing_expires_at :: timestamp
  pt_claimed_at :: "timestamp option"
  pt_last_seen_at :: "timestamp option"
  pt_revoked_at :: "timestamp option"
  pt_created_at :: timestamp

text \<open>What the CHECK constraints on the hash and npub columns and the endpoints' \<open>is_hex64\<close> accept.\<close>
definition is_lower_hexdigit :: "char \<Rightarrow> bool" where
  "is_lower_hexdigit c \<longleftrightarrow> (let n = (of_char c :: nat) in (48 \<le> n \<and> n \<le> 57) \<or> (97 \<le> n \<and> n \<le> 102))"

definition is_lower_hex64 :: "string \<Rightarrow> bool" where
  "is_lower_hex64 s \<longleftrightarrow> length s = 64 \<and> list_all is_lower_hexdigit s"

record pos_store =
  po_terminals :: "pos_terminal list"
  po_pages :: "donation_page list"

definition terminal_claimed :: "pos_terminal \<Rightarrow> bool" where
  "terminal_claimed t \<longleftrightarrow> pt_claimed_at t \<noteq> None"

definition terminal_revoked :: "pos_terminal \<Rightarrow> bool" where
  "terminal_revoked t \<longleftrightarrow> pt_revoked_at t \<noteq> None"

definition new_terminal ::
  "timestamp \<Rightarrow> uuid \<Rightarrow> string \<Rightarrow> string \<Rightarrow> string \<Rightarrow> int \<Rightarrow> pos_terminal" where
  "new_terminal now fresh_id nym token_hash code_hash expires_in_secs =
    \<lparr>pt_id = fresh_id, pt_nym = nym, pt_npub_owner = None, pt_label = None,
     pt_token_hash = token_hash, pt_pairing_code_hash = Some code_hash,
     pt_pairing_expires_at = now + secs expires_in_secs, pt_claimed_at = None,
     pt_last_seen_at = None, pt_revoked_at = None, pt_created_at = now\<rparr>"

text \<open>The INSERT meets the primary key, the owner's foreign key, the two hash CHECKs and the
  unique index on the code of an unclaimed pairing.\<close>
definition insert_pos_pairing ::
  "timestamp \<Rightarrow> uuid \<Rightarrow> user list \<Rightarrow> string \<Rightarrow> string \<Rightarrow> string \<Rightarrow> int \<Rightarrow> pos_terminal list
    \<Rightarrow> (pos_terminal \<times> pos_terminal list) db_result" where
  "insert_pos_pairing now fresh_id us nym token_hash code_hash expires_in_secs ts =
    (if \<not> row_exists (\<lambda>u. u_nym u = nym) us then Inl (CheckViolation ''pos_terminals_nym_fkey'')
     else if \<not> is_lower_hex64 token_hash \<or> \<not> is_lower_hex64 code_hash then Inl (CheckViolation ''pos_terminals'')
     else if row_exists (\<lambda>t. pt_id t = fresh_id) ts then Inl (UniqueViolation ''pos_terminals_pkey'')
     else if row_exists (\<lambda>t. pt_pairing_code_hash t = Some code_hash \<and> \<not> terminal_claimed t) ts
       then Inl (UniqueViolation ''pos_terminals_pairing_code_hash_unclaimed_idx'')
     else (let t = new_terminal now fresh_id nym token_hash code_hash expires_in_secs
           in Inr (t, ts @ [t])))"

text \<open>\<open>INSERT .. ON CONFLICT (nym) DO NOTHING\<close> of the disabled placeholder page.\<close>
definition placeholder_page :: "string \<Rightarrow> donation_page list \<Rightarrow> donation_page list" where
  "placeholder_page nym ps =
    (if row_exists (\<lambda>p. dp_nym p = nym) ps then ps
     else ps @ [page_of_upsert
       \<lparr>up_nym = nym, up_ct_descriptor = None, up_header = nym, up_description = [],
        up_display_currency = ''USD'', up_website = None, up_twitter = None, up_instagram = None,
        up_enabled = False\<rparr>])"

text \<open>The match on the stored POS descriptor: None is the mismatch, which rolls back.\<close>
definition pin_pos_descriptor :: "string \<Rightarrow> string \<Rightarrow> donation_page list \<Rightarrow> donation_page list option" where
  "pin_pos_descriptor nym descriptor ps =
    (case select_one (\<lambda>p. dp_nym p = nym) ps of
       None \<Rightarrow> None
     | Some p \<Rightarrow>
        (case dp_pos_ct_descriptor p of
           Some existing \<Rightarrow> if existing \<noteq> descriptor then None else Some ps
         | None \<Rightarrow> Some (fst (update_where (\<lambda>p. dp_nym p = nym)
                     (\<lambda>p. p\<lparr>dp_pos_ct_descriptor := Some descriptor\<rparr>) ps))))"

text \<open>The UPDATE meets the CHECK on the npub; the one on the label holds for every label the
  endpoint lets through.\<close>
definition claim_pos_pairing ::
  "timestamp \<Rightarrow> string \<Rightarrow> string \<Rightarrow> string \<Rightarrow> string option \<Rightarrow> string \<Rightarrow> pos_store
    \<Rightarrow> (pos_terminal option \<times> pos_store) db_result" where
  "claim_pos_pairing now nym code_hash npub_owner label descriptor s =
    (case select_one (\<lambda>t. pt_nym t = nym \<and> pt_pairing_code_hash t = Some code_hash
            \<and> \<not> terminal_claimed t \<and> now < pt_pairing_expires_at t) (po_terminals s) of
       None \<Rightarrow> Inr (None, s)
     | Some pending \<Rightarrow>
        (case pin_pos_descriptor nym descriptor (placeholder_page nym (po_pages s)) of
           None \<Rightarrow> Inl (ProtocolError ''POS descriptor mismatch for nym'')
         | Some pages \<Rightarrow>
            if \<not> is_lower_hex64 npub_owner then Inl (CheckViolation ''pos_terminals'') else
            (let hit = (\<lambda>t. pt_id t = pt_id pending);
                 upd = (\<lambda>t. t\<lparr>pt_npub_owner := Some npub_owner, pt_label := label,
                               pt_claimed_at := Some now, pt_pairing_code_hash := None\<rparr>)
             in Inr (map_option upd (select_one hit (po_terminals s)),
                     \<lparr>po_terminals = fst (update_where hit upd (po_terminals s)), po_pages = pages\<rparr>))))"

definition get_pos_pairing :: "uuid \<Rightarrow> string \<Rightarrow> pos_terminal list \<Rightarrow> pos_terminal option" where
  "get_pos_pairing tid token_hash = select_one (\<lambda>t. pt_id t = tid \<and> pt_token_hash t = token_hash)"

definition get_active_terminal_by_token :: "string \<Rightarrow> string \<Rightarrow> pos_terminal list \<Rightarrow> pos_terminal option" where
  "get_active_terminal_by_token nym token_hash = select_one
    (\<lambda>t. pt_nym t = nym \<and> pt_token_hash t = token_hash \<and> terminal_claimed t \<and> \<not> terminal_revoked t)"

definition touch_terminal_seen :: "timestamp \<Rightarrow> uuid \<Rightarrow> pos_terminal list \<Rightarrow> pos_terminal list \<times> nat" where
  "touch_terminal_seen now tid = update_where
    (\<lambda>t. pt_id t = tid \<and> \<not> terminal_revoked t
       \<and> (case pt_last_seen_at t of None \<Rightarrow> True | Some seen \<Rightarrow> seen < now - secs 60))
    (\<lambda>t. t\<lparr>pt_last_seen_at := Some now\<rparr>)"

definition list_terminals_by_npub :: "string \<Rightarrow> pos_terminal list \<Rightarrow> pos_terminal list" where
  "list_terminals_by_npub npub_owner ts =
    sort_desc pt_created_at (filter (\<lambda>t. pt_npub_owner t = Some npub_owner) ts)"

definition revoke_terminal :: "timestamp \<Rightarrow> uuid \<Rightarrow> string \<Rightarrow> pos_terminal list \<Rightarrow> pos_terminal list \<times> nat" where
  "revoke_terminal now tid npub_owner = update_where
    (\<lambda>t. pt_id t = tid \<and> pt_npub_owner t = Some npub_owner \<and> \<not> terminal_revoked t)
    (\<lambda>t. t\<lparr>pt_revoked_at := (case pt_revoked_at t of None \<Rightarrow> Some now | Some r \<Rightarrow> Some r)\<rparr>)"

text \<open>Invoices of a purged terminal keep living with \<open>terminal_id\<close> NULL (the foreign key's
  ON DELETE SET NULL).\<close>
definition purge_expired_unclaimed_terminals ::
  "timestamp \<Rightarrow> int \<Rightarrow> pos_terminal list \<times> invoice list \<Rightarrow> nat \<times> pos_terminal list \<times> invoice list" where
  "purge_expired_unclaimed_terminals now grace_secs s =
    (let (ts, invs) = s;
         gone = (\<lambda>t. \<not> terminal_claimed t \<and> pt_pairing_expires_at t < now - secs grace_secs);
         ids = map pt_id (filter gone ts)
     in (length ids, fst (delete_where gone ts),
         map (\<lambda>i. case inv_terminal_id i of
                    Some t \<Rightarrow> if t \<in> set ids then i\<lparr>inv_terminal_id := None\<rparr> else i
                  | None \<Rightarrow> i) invs))"

subsection \<open>The table invariant and the contract\<close>

definition terminal_ok :: "pos_terminal \<Rightarrow> bool" where
  "terminal_ok t \<longleftrightarrow> (terminal_claimed t \<longleftrightarrow> pt_npub_owner t \<noteq> None)
     \<and> (terminal_claimed t \<longleftrightarrow> pt_pairing_code_hash t = None)
     \<and> (terminal_revoked t \<longrightarrow> terminal_claimed t)"

text \<open>Two rows never share an id, and never a pairing code (a claimed row has none).\<close>
definition terminals_apart :: "pos_terminal \<Rightarrow> pos_terminal \<Rightarrow> bool" where
  "terminals_apart t u \<longleftrightarrow> pt_id t \<noteq> pt_id u
     \<and> (pt_pairing_code_hash t = None \<or> pt_pairing_code_hash t \<noteq> pt_pairing_code_hash u)"

definition pos_ok :: "pos_store \<Rightarrow> bool" where
  "pos_ok s \<longleftrightarrow> list_all terminal_ok (po_terminals s) \<and> sorted_wrt terminals_apart (po_terminals s)
     \<and> distinct (map dp_nym (po_pages s))"

text \<open>Once claimed, a terminal keeps its owner, nym and token; once revoked, its revocation time.\<close>
definition terminal_evolves :: "pos_terminal \<Rightarrow> pos_terminal \<Rightarrow> bool" where
  "terminal_evolves t t' \<longleftrightarrow> pt_nym t' = pt_nym t \<and> pt_token_hash t' = pt_token_hash t
     \<and> (terminal_claimed t \<longrightarrow> terminal_claimed t' \<and> pt_npub_owner t' = pt_npub_owner t)
     \<and> (terminal_revoked t \<longrightarrow> pt_revoked_at t' = pt_revoked_at t)"

inductive pos_step :: "pos_store \<Rightarrow> pos_store \<Rightarrow> bool" where
  ps_pair: "insert_pos_pairing now fid us nym tok code ttl (po_terminals s) = Inr (t, ts)
    \<Longrightarrow> pos_step s (s\<lparr>po_terminals := ts\<rparr>)"
| ps_claim: "claim_pos_pairing now nym code npub label d s = Inr (r, s') \<Longrightarrow> pos_step s s'"
| ps_touch: "pos_step s (s\<lparr>po_terminals := fst (touch_terminal_seen now tid (po_terminals s))\<rparr>)"
| ps_revoke: "pos_step s (s\<lparr>po_terminals := fst (revoke_terminal now tid npub (po_terminals s))\<rparr>)"
| ps_purge: "purge_expired_unclaimed_terminals now g (po_terminals s, invs) = (k, ts, invs')
    \<Longrightarrow> pos_step s (s\<lparr>po_terminals := ts\<rparr>)"
| ps_upsert: "pos_step s (s\<lparr>po_pages := upsert_donation_page u (po_pages s)\<rparr>)"
| ps_archive: "pos_step s (s\<lparr>po_pages := snd (archive_donation_page now nym (po_pages s))\<rparr>)"
| ps_allocate: "allocate_next_liquid_for_pos_terminal derive nym pas (po_pages s) = (r, ps)
    \<Longrightarrow> pos_step s (s\<lparr>po_pages := ps\<rparr>)"

lemma terminal_evolves_refl [simp]: "terminal_evolves t t"
  by (simp add: terminal_evolves_def)

lemma terminal_evolves_trans: "terminal_evolves t u \<Longrightarrow> terminal_evolves u v \<Longrightarrow> terminal_evolves t v"
  by (auto simp: terminal_evolves_def terminal_revoked_def)

lemma apart_ids: "sorted_wrt terminals_apart ts \<Longrightarrow> distinct (map pt_id ts)"
  by (induction ts) (auto simp: terminals_apart_def)

text \<open>An update that keeps ids and either keeps or clears the pairing code.\<close>
lemma apart_update:
  assumes "sorted_wrt terminals_apart ts"
    and "\<And>t. pt_id (f t) = pt_id t \<and> (pt_pairing_code_hash (f t) = None \<or> pt_pairing_code_hash (f t) = pt_pairing_code_hash t)"
  shows "sorted_wrt terminals_apart (fst (update_where P f ts))"
proof -
  let ?f = "\<lambda>t. if P t then f t else t"
  have "terminals_apart (?f t) (?f u)" if "terminals_apart t u" for t u
    using that assms(2)[of t] assms(2)[of u] unfolding terminals_apart_def by (auto split: if_splits)
  then show ?thesis
    using assms(1) sorted_wrt_mono_rel[of ts terminals_apart "\<lambda>t u. terminals_apart (?f t) (?f u)"]
    by (simp add: tables sorted_wrt_map)
qed

lemma pages_nyms_update:
  "(\<And>p. dp_nym (f p) = dp_nym p) \<Longrightarrow> map dp_nym (fst (update_where P f ps)) = map dp_nym ps"
  by (auto simp: tables)

lemma placeholder_nyms:
  "distinct (map dp_nym ps) \<Longrightarrow> distinct (map dp_nym (placeholder_page nym ps))"
  by (auto simp: placeholder_page_def page_of_upsert_def)

lemma pin_nyms: "pin_pos_descriptor nym d ps = Some ps' \<Longrightarrow> map dp_nym ps' = map dp_nym ps"
  by (auto simp: pin_pos_descriptor_def pages_nyms_update split: option.splits if_splits)

lemma upsert_nyms: "distinct (map dp_nym ps) \<Longrightarrow> distinct (map dp_nym (upsert_donation_page u ps))"
  by (auto simp: upsert_donation_page_def page_of_upsert_def pages_nyms_update)

lemma pos_allocator_nyms:
  "allocate_next_liquid_for_pos_terminal derive nym pas ps = (r, ps') \<Longrightarrow> map dp_nym ps' = map dp_nym ps"
  by (auto simp: allocate_next_liquid_for_pos_terminal_def Let_def pages_nyms_update
      split: option.splits alloc_outcome.splits)

text \<open>A claim that succeeds: the pending row, the pinned page, the updated rows.\<close>
lemma claim_cases:
  assumes "claim_pos_pairing now nym code npub label d s = Inr (r, s')"
  obtains (none) "r = None" "s' = s"
  | (claimed) pending pages where
      "select_one (\<lambda>t. pt_nym t = nym \<and> pt_pairing_code_hash t = Some code
            \<and> \<not> terminal_claimed t \<and> now < pt_pairing_expires_at t) (po_terminals s) = Some pending"
      "pin_pos_descriptor nym d (placeholder_page nym (po_pages s)) = Some pages"
      "s' = \<lparr>po_terminals = fst (update_where (\<lambda>t. pt_id t = pt_id pending)
          (\<lambda>t. t\<lparr>pt_npub_owner := Some npub, pt_label := label, pt_claimed_at := Some now,
                 pt_pairing_code_hash := None\<rparr>) (po_terminals s)), po_pages = pages\<rparr>"
      "r \<noteq> None" "is_lower_hex64 npub"
proof (cases "select_one (\<lambda>t. pt_nym t = nym \<and> pt_pairing_code_hash t = Some code
            \<and> \<not> terminal_claimed t \<and> now < pt_pairing_expires_at t) (po_terminals s)")
  case None
  then show ?thesis using assms by (intro none) (simp_all add: claim_pos_pairing_def)
next
  case (Some pending)
  then obtain pages where pages: "pin_pos_descriptor nym d (placeholder_page nym (po_pages s)) = Some pages"
    using assms by (auto simp: claim_pos_pairing_def split: option.splits)
  have npub: "is_lower_hex64 npub"
    using assms Some pages by (auto simp: claim_pos_pairing_def split: if_splits)
  have "select_one (\<lambda>t. pt_id t = pt_id pending) (po_terminals s) \<noteq> None"
    using select_one_SomeD[OF Some] unfolding select_one_None_iff by blast
  then show ?thesis
    using assms Some pages npub by (intro claimed) (auto simp: claim_pos_pairing_def Let_def)
qed

lemma select_one_pending_unclaimed:
  assumes "sorted_wrt terminals_apart ts" "select_one P ts = Some x" "t \<in> set ts" "pt_id t = pt_id x"
  shows "t = x"
proof -
  have "x \<in> set ts" using select_one_SomeD[OF assms(2)] by blast
  with apart_ids[OF assms(1)] assms(3,4) show ?thesis by (auto simp: distinct_map inj_on_def)
qed

lemma pos_step_ok: "pos_step s s' \<Longrightarrow> pos_ok s \<Longrightarrow> pos_ok s'"
proof (induction rule: pos_step.induct)
  case (ps_pair now fid us nym tok code ttl s t ts)
  let ?t = "new_terminal now fid nym tok code ttl"
  have ts: "ts = po_terminals s @ [?t]"
    and fresh: "\<forall>u\<in>set (po_terminals s). pt_id u \<noteq> fid"
      "\<forall>u\<in>set (po_terminals s). pt_pairing_code_hash u = Some code \<longrightarrow> terminal_claimed u"
    using ps_pair(1) by (auto simp: insert_pos_pairing_def Let_def split: if_splits)
  have rows: "\<forall>u\<in>set (po_terminals s). terminal_ok u"
    using ps_pair(2) by (simp add: pos_ok_def list_all_iff)
  have "terminals_apart u ?t" if u: "u \<in> set (po_terminals s)" for u
  proof -
    have "pt_pairing_code_hash u \<noteq> Some code"
      using fresh(2) rows u unfolding terminal_ok_def by (metis option.distinct(1))
    then show ?thesis using fresh(1) u by (simp add: terminals_apart_def new_terminal_def)
  qed
  moreover have "terminal_ok ?t"
    by (simp add: terminal_ok_def terminal_claimed_def terminal_revoked_def new_terminal_def)
  ultimately show ?case using ps_pair(2) by (simp add: pos_ok_def ts sorted_wrt_append)
next
  case (ps_claim now nym code npub label d s r s')
  from ps_claim(1) show ?case
  proof (cases rule: claim_cases)
    case none
    then show ?thesis using ps_claim(2) by simp
  next
    case (claimed pending pages)
    have "distinct (map dp_nym pages)"
      using ps_claim(2) placeholder_nyms[of "po_pages s" nym] unfolding pin_nyms[OF claimed(2)] pos_ok_def by blast
    moreover have "list_all terminal_ok (po_terminals s')"
      using ps_claim(2) claimed(3)
      by (auto simp: pos_ok_def terminal_ok_def terminal_claimed_def intro!: update_where_all)
    moreover have "sorted_wrt terminals_apart (po_terminals s')"
      using ps_claim(2) claimed(3) by (auto simp: pos_ok_def intro!: apart_update)
    ultimately show ?thesis using claimed(3) by (simp add: pos_ok_def)
  qed
next
  case (ps_purge now g s invs k ts invs')
  then show ?case
    by (auto simp: pos_ok_def purge_expired_unclaimed_terminals_def Let_def tables list_all_iff sorted_wrt_filter)
next
  case (ps_allocate derive nym pas s r ps)
  then show ?case using pos_allocator_nyms[OF ps_allocate(1)] by (simp add: pos_ok_def)
next
  case (ps_archive s now nym)
  then show ?case by (simp add: pos_ok_def archive_donation_page_def Let_def pages_nyms_update)
qed (auto simp: pos_ok_def touch_terminal_seen_def revoke_terminal_def terminal_ok_def terminal_claimed_def
    terminal_revoked_def upsert_nyms intro!: apart_update update_where_all split: option.splits)

lemma update_terminals_evolve:
  assumes "t \<in> set ts" "terminal_claimed t"
    and "P t \<Longrightarrow> pt_id (f t) = pt_id t \<and> terminal_evolves t (f t)"
  shows "\<exists>t'\<in>set (filter terminal_claimed (fst (update_where P f ts))). pt_id t' = pt_id t \<and> terminal_evolves t t'"
proof (cases "P t")
  case True
  then show ?thesis
    using assms update_where_hit[of t ts P f] by (auto simp: terminal_evolves_def intro!: bexI[of _ "f t"])
next
  case False
  then show ?thesis using assms update_where_frame[of t ts P f] by auto
qed

lemma pos_step_evolves:
  "pos_step s s' \<Longrightarrow> pos_ok s \<Longrightarrow> t \<in> set (filter terminal_claimed (po_terminals s)) \<Longrightarrow>
   \<exists>t'\<in>set (filter terminal_claimed (po_terminals s')). pt_id t' = pt_id t \<and> terminal_evolves t t'"
proof (induction rule: pos_step.induct)
  case (ps_pair now fid us nym tok code ttl s t0 ts)
  then show ?case by (auto simp: insert_pos_pairing_def Let_def split: if_splits)
next
  case (ps_claim now nym code npub label d s r s')
  from ps_claim(1) show ?case
  proof (cases rule: claim_cases)
    case none
    then show ?thesis using ps_claim(3) by auto
  next
    case (claimed pending pages)
    have "pt_id t \<noteq> pt_id pending"
      using select_one_pending_unclaimed[OF _ claimed(1)] select_one_SomeD[OF claimed(1)] ps_claim(2,3)
      by (auto simp: pos_ok_def)
    then have "t \<in> set (po_terminals s')"
      using claimed(3) ps_claim(3) by (auto intro: update_where_frame)
    then show ?thesis using ps_claim(3) by (auto intro: terminal_evolves_refl)
  qed
next
  case (ps_purge now g s invs k ts invs')
  then show ?case by (auto simp: purge_expired_unclaimed_terminals_def Let_def tables)
next
  case (ps_touch s now tid)
  then show ?case
    unfolding touch_terminal_seen_def
    by simp (rule update_terminals_evolve[simplified], auto simp: terminal_evolves_def terminal_claimed_def)
next
  case (ps_revoke s now tid npub)
  then show ?case
    unfolding revoke_terminal_def
    by simp (rule update_terminals_evolve[simplified],
        auto simp: terminal_evolves_def terminal_claimed_def terminal_revoked_def)
qed auto

interpretation pos_table: terminal_table "\<lambda>s. filter terminal_claimed (po_terminals s)" pt_id pos_ok pos_step
  terminal_evolves terminal_revoked pt_revoked_at
proof (unfold_locales, goal_cases)
  case (2 t u v)
  then show ?case by (rule terminal_evolves_trans)
next
  case (3 s s')
  then show ?case by (rule pos_step_ok)
next
  case (4 s s' t)
  then show ?case by (rule pos_step_evolves)
next
  case (5 t t')
  then show ?case by (auto simp: terminal_evolves_def terminal_revoked_def)
qed simp

subsection \<open>The pinned descriptor\<close>

definition page_evolves :: "donation_page \<Rightarrow> donation_page \<Rightarrow> bool" where
  "page_evolves p p' \<longleftrightarrow> (dp_pos_ct_descriptor p \<noteq> None \<longrightarrow> dp_pos_ct_descriptor p' = dp_pos_ct_descriptor p)
     \<and> (dp_ct_descriptor p \<noteq> None \<longrightarrow> dp_ct_descriptor p' \<noteq> None)"

lemma page_evolves_refl [simp]: "page_evolves p p"
  by (simp add: page_evolves_def)

lemma page_evolves_fields [simp]:
  "page_evolves p (p\<lparr>dp_archived_at := a\<rparr>)"
  "page_evolves p (p\<lparr>dp_pos_next_addr_idx := i\<rparr>)"
  "page_evolves p (p\<lparr>dp_pos_ct_descriptor := Some d\<rparr>) \<longleftrightarrow> dp_pos_ct_descriptor p \<in> {None, Some d}"
  "page_evolves p (p\<lparr>dp_ct_descriptor := (case c of None \<Rightarrow> dp_ct_descriptor p | Some x \<Rightarrow> Some x),
      dp_header := h, dp_description := e, dp_display_currency := y, dp_website := w, dp_twitter := t,
      dp_instagram := g, dp_enabled := b, dp_archived_at := a\<rparr>)"
  by (auto simp: page_evolves_def split: option.splits)

lemma page_evolves_trans: "page_evolves p q \<Longrightarrow> page_evolves q r \<Longrightarrow> page_evolves p r"
  by (auto simp: page_evolves_def)

lemma update_pages_evolve:
  assumes "p \<in> set ps" "dp_nym (f p) = dp_nym p" "P p \<Longrightarrow> page_evolves p (f p)"
  shows "\<exists>p'\<in>set (fst (update_where P f ps)). dp_nym p' = dp_nym p \<and> page_evolves p p'"
  using assms by (intro update_where_evolves) auto

lemma pin_evolves:
  assumes "pin_pos_descriptor nym d ps = Some ps'" "p \<in> set ps" "distinct (map dp_nym ps)"
  shows "\<exists>p'\<in>set ps'. dp_nym p' = dp_nym p \<and> page_evolves p p'"
proof -
  obtain q where q: "select_one (\<lambda>p. dp_nym p = nym) ps = Some q"
    using assms(1) by (auto simp: pin_pos_descriptor_def split: option.splits)
  have same: "dp_nym p = nym \<Longrightarrow> p = q"
    using q assms(2,3) select_one_key[OF assms(3,2)] by simp
  show ?thesis
  proof (cases "dp_pos_ct_descriptor q")
    case None
    then have "ps' = fst (update_where (\<lambda>p. dp_nym p = nym) (\<lambda>p. p\<lparr>dp_pos_ct_descriptor := Some d\<rparr>) ps)"
      using assms(1) q by (simp add: pin_pos_descriptor_def)
    then show ?thesis
      using None same assms(2) by (auto intro!: update_pages_evolve)
  next
    case (Some x)
    then have "ps' = ps" using assms(1) q by (auto simp: pin_pos_descriptor_def split: if_splits)
    then show ?thesis using assms(2) by auto
  qed
qed

lemma pos_step_pages:
  "pos_step s s' \<Longrightarrow> pos_ok s \<Longrightarrow> p \<in> set (po_pages s) \<Longrightarrow>
   \<exists>p'\<in>set (po_pages s'). dp_nym p' = dp_nym p \<and> page_evolves p p'"
proof (induction rule: pos_step.induct)
  case (ps_claim now nym code npub label d s r s')
  from ps_claim(1) show ?case
  proof (cases rule: claim_cases)
    case none
    then show ?thesis using ps_claim(3) by auto
  next
    case (claimed pending pages)
    have "p \<in> set (placeholder_page nym (po_pages s))"
      using ps_claim(3) by (simp add: placeholder_page_def)
    then show ?thesis
      using pin_evolves[OF claimed(2)] placeholder_nyms[of "po_pages s" nym] claimed(3) ps_claim(2)
      by (simp add: pos_ok_def)
  qed
next
  case (ps_upsert s u)
  then show ?case
    using page_evolves_refl[of p]
    by (cases "row_exists (\<lambda>p. dp_nym p = up_nym u) (po_pages s)")
      (auto simp: upsert_donation_page_def intro!: update_pages_evolve)
next
  case (ps_archive s now nym)
  then show ?case
    by (auto simp: archive_donation_page_def Let_def intro!: update_pages_evolve)
next
  case (ps_allocate derive nym pas s r ps)
  then show ?case
    by (auto simp: allocate_next_liquid_for_pos_terminal_def Let_def
        split: option.splits alloc_outcome.splits intro!: update_pages_evolve)
qed auto

interpretation page_table: evolving_table po_pages dp_nym pos_ok pos_step page_evolves
proof (unfold_locales, goal_cases)
  case (2 p q r)
  then show ?case by (rule page_evolves_trans)
qed (auto intro: pos_step_ok pos_step_pages)

end
