(* ===== verification/Lifecycle.thy ===== *)
theory Lifecycle
  imports PosTerminals ReverseSwaps
begin

text \<open>
  \<open>purge_user\<close> of src/src/db/users.rs: one transaction over the users, the
  swaps, the reservations and the pages of a nym.
\<close>

record lifecycle_store =
  lc_users :: user_store
  lc_swaps :: "swap_record list"
  lc_pages :: "donation_page list"

datatype purge_outcome = Purged user | PurgeNotFound | InFlightSwaps nat

definition in_flight_swaps :: "string \<Rightarrow> swap_record list \<Rightarrow> nat" where
  "in_flight_swaps nym swaps =
    length (filter (\<lambda>r. sr_nym r = Some nym \<and> sr_status r \<notin> {''claimed'', ''expired''}) swaps)"

definition purge_user :: "timestamp \<Rightarrow> string \<Rightarrow> lifecycle_store \<Rightarrow> purge_outcome \<times> lifecycle_store" where
  "purge_user now npub s =
    (case get_user_by_npub npub (us_users (lc_users s)) of
       None \<Rightarrow> (PurgeNotFound, s)
     | Some u \<Rightarrow>
        (let in_flight = in_flight_swaps (u_nym u) (lc_swaps s);
             upd = (\<lambda>x. x\<lparr>u_is_active := False, u_ct_descriptor := []\<rparr>)
         in if in_flight > 0 then (InFlightSwaps in_flight, s)
            else (Purged (upd u),
              \<lparr>lc_users = \<lparr>us_users = fst (update_where (\<lambda>x. u_id x = u_id u) upd (us_users (lc_users s))),
                 us_outpoints = delete_outpoints_of (u_nym u) (us_outpoints (lc_users s))\<rparr>,
               lc_swaps = fst (delete_where (\<lambda>r. sr_nym r = Some (u_nym u)) (lc_swaps s)),
               lc_pages = snd (archive_donation_page now (u_nym u) (lc_pages s))\<rparr>)))"

text \<open>What a purge that goes through has checked and done.\<close>
lemma purge_cases:
  assumes "purge_user now npub s = (out, s')"
  obtains (refused) "s' = s" "out = PurgeNotFound \<or> (\<exists>n>0. out = InFlightSwaps n)"
  | (purged) u where "get_user_by_npub npub (us_users (lc_users s)) = Some u"
      "out = Purged (u\<lparr>u_is_active := False, u_ct_descriptor := []\<rparr>)"
      "\<forall>r\<in>set (lc_swaps s). sr_nym r = Some (u_nym u) \<longrightarrow> sr_status r \<in> {''claimed'', ''expired''}"
      "us_users (lc_users s') = fst (update_where (\<lambda>x. u_id x = u_id u)
         (\<lambda>x. x\<lparr>u_is_active := False, u_ct_descriptor := []\<rparr>) (us_users (lc_users s)))"
      "us_outpoints (lc_users s') = delete_outpoints_of (u_nym u) (us_outpoints (lc_users s))"
      "lc_swaps s' = filter (\<lambda>r. sr_nym r \<noteq> Some (u_nym u)) (lc_swaps s)"
      "lc_pages s' = snd (archive_donation_page now (u_nym u) (lc_pages s))"
proof (cases "get_user_by_npub npub (us_users (lc_users s))")
  case None
  then show ?thesis using assms by (intro refused) (auto simp: purge_user_def)
next
  case (Some u)
  show ?thesis
  proof (cases "in_flight_swaps (u_nym u) (lc_swaps s) > 0")
    case True
    then show ?thesis using assms Some by (intro refused) (auto simp: purge_user_def Let_def)
  next
    case False
    then have "\<forall>r\<in>set (lc_swaps s). sr_nym r = Some (u_nym u) \<longrightarrow> sr_status r \<in> {''claimed'', ''expired''}"
      by (auto simp: in_flight_swaps_def filter_empty_conv)
    then show ?thesis
      using assms Some False by (intro purged[of u]) (auto simp: purge_user_def Let_def tables)
  qed
qed

end
