(* ===== verification/UserProperties.thy ===== *)
theory UserProperties
  imports Lifecycle
begin

text \<open>
  The properties of users, a page's address allocation and purging,
  with their witnesses on a small store.
\<close>

definition demo_user :: user where
  "demo_user = new_user 0 1 ''alice'' ''npub'' ''desc'' ''npub''"

definition demo_users :: user_store where
  "demo_users = \<lparr>us_users = [demo_user], us_outpoints = []\<rparr>"

lemma demo_users_ok: "users_ok (us_users demo_users)"
  by (simp add: demo_users_def demo_user_def new_user_def users_ok_def)

subsection \<open>Users\<close>

text \<open>A nym never changes hands: whatever registrations, deactivations, reactivations,
  descriptor updates and allocations follow, the row under a nym belongs to the same npub, was
  created at the same time, and its address cursor has not moved back.\<close>
theorem nym_ownership_permanent:
  assumes "user_step\<^sup>*\<^sup>* s s'" "users_ok (us_users s)" "u \<in> set (us_users s)"
    and "u' \<in> set (us_users s')" "u_nym u' = u_nym u"
  shows "u_npub u' = u_npub u \<and> u_created_at u' = u_created_at u \<and> u_next_addr_idx u \<le> u_next_addr_idx u'"
proof -
  obtain v where v: "v \<in> set (us_users s')" "u_nym v = u_nym u" "user_evolves u v"
    using user_table.run_evolves[OF assms(1-3)] by blast
  have "distinct (map u_nym (us_users s'))"
    using user_table.run_good[OF assms(1,2)] by (rule users_ok_nyms)
  then have "v = u'" using v(1,2) assms(4,5) by (auto simp: distinct_map inj_on_def)
  then show ?thesis using v(3) by (simp add: user_evolves_def)
qed

theorem nym_ownership_permanent_witness:
  "u_npub (hd (snd (deactivate_user ''npub'' (us_users demo_users)))) = ''npub''"
proof -
  obtain us' where d: "deactivate_user ''npub'' (us_users demo_users) = (Some (demo_user\<lparr>u_is_active := False\<rparr>), us')"
      "us' = [demo_user\<lparr>u_is_active := False\<rparr>]"
    by (simp add: deactivate_user_def Let_def tables demo_users_def demo_user_def new_user_def)
  have "user_step\<^sup>*\<^sup>* demo_users (demo_users\<lparr>us_users := us'\<rparr>)"
    by (rule r_into_rtranclp[of user_step, OF step_deactivate[OF d(1)]])
  from nym_ownership_permanent[OF this demo_users_ok, of demo_user "hd us'"] show ?thesis
    using d by (simp add: demo_users_def demo_user_def new_user_def)
qed

text \<open>C12: In every reachable users table an npub has at most one active nym and a nym has one row.\<close>
theorem one_active_nym_per_npub:
  assumes "user_step\<^sup>*\<^sup>* s s'" "users_ok (us_users s)"
    and "u \<in> set (us_users s')" "v \<in> set (us_users s')"
    and "u_nym u = u_nym v \<or> u_npub u = u_npub v \<and> u_is_active u \<and> u_is_active v"
  shows "u = v"
proof (rule ccontr)
  assume ne: "u \<noteq> v"
  have "sorted_wrt users_apart (us_users s')"
    using user_table.run_good[OF assms(1,2)] by (simp add: users_ok_def)
  from sorted_wrt_pair[OF this assms(3,4) ne]
  show False using assms(5) by (auto simp: users_apart_def)
qed

theorem one_active_nym_per_npub_witness:
  "\<not> (\<exists>s'. user_step\<^sup>*\<^sup>* demo_users s' \<and> us_users s' = [demo_user, demo_user\<lparr>u_nym := ''bob''\<rparr>])"
  using one_active_nym_per_npub[OF _ demo_users_ok, of _ demo_user "demo_user\<lparr>u_nym := ''bob''\<rparr>"]
  by (force simp: demo_user_def new_user_def)

lemma count_lifetime_update:
  "(\<And>u. u_npub (f u) = u_npub u) \<Longrightarrow>
   count_lifetime_nyms_by_npub npub (fst (update_where P f us)) = count_lifetime_nyms_by_npub npub us"
  by (induction us) (auto simp: count_lifetime_nyms_by_npub_def tables)

text \<open>What each outcome of a registration promises: an active key is refused, a previous nym is
  reactivated without using the quota and with its reservations dropped, the quota refuses at the
  cap, and a creation takes a nym nobody ever had and stays within the cap.\<close>
theorem registration_outcomes:
  assumes "register_user_atomic now fid npub nym d v cap s = Inr (out, s')"
  shows "case out of
      KeyAlreadyRegistered n \<Rightarrow> s' = s \<and> (\<exists>u\<in>set (us_users s). u_npub u = npub \<and> u_is_active u \<and> u_nym u = n)
    | Reactivated u \<Rightarrow> u_npub u = npub \<and> u_nym u = nym \<and> u_is_active u \<and> u_ct_descriptor u = d
        \<and> count_lifetime_nyms_by_npub npub (us_users s') = count_lifetime_nyms_by_npub npub (us_users s)
        \<and> (\<forall>a\<in>set (us_outpoints s'). oa_nym a \<noteq> nym)
    | QuotaExceeded used c \<Rightarrow> s' = s \<and> c = cap \<and> used = count_lifetime_nyms_by_npub npub (us_users s) \<and> cap \<le> int used
    | Created u \<Rightarrow> u_npub u = npub \<and> u_nym u = nym \<and> (\<forall>x\<in>set (us_users s). u_nym x \<noteq> nym)
        \<and> get_user_by_npub npub (us_users s') = Some u
        \<and> int (count_lifetime_nyms_by_npub npub (us_users s')) \<le> cap"
proof (cases "get_user_by_npub npub (us_users s)")
  case (Some a)
  then have "a \<in> set (us_users s) \<and> u_npub a = npub \<and> u_is_active a"
    using select_one_SomeD by (fastforce simp: get_user_by_npub_def)
  then show ?thesis using assms Some by (auto simp: register_user_atomic_def Let_def)
next
  case None
  note no_active = this
  show ?thesis
  proof (cases "reactivatable npub nym (us_users s)")
    case (Some p)
    then have p: "u_npub p = npub" "u_nym p = nym"
      by (auto simp: reactivatable_def get_inactive_user_by_npub_def split: option.splits list.splits if_splits
          dest!: arg_cong[of _ _ set])
    show ?thesis
      using assms no_active Some p
      by (auto simp: register_user_atomic_def Let_def count_lifetime_update delete_outpoints_of_def delete_where_rows)
  next
    case None
    show ?thesis
    proof (cases "cap \<le> int (count_lifetime_nyms_by_npub npub (us_users s))")
      case True
      then show ?thesis using assms no_active None by (auto simp: register_user_atomic_def Let_def)
    next
      case False
      then obtain us' where ins: "insert_user (new_user now fid nym npub d v) (us_users s) = Inr us'"
          "out = Created (new_user now fid nym npub d v)" "s' = s\<lparr>us_users := us'\<rparr>"
        using assms no_active None by (auto simp: register_user_atomic_def Let_def map_sum_Inr_iff)
      then have us': "us' = us_users s @ [new_user now fid nym npub d v]" "\<forall>x\<in>set (us_users s). u_nym x \<noteq> nym"
        by (auto simp: insert_user_def new_user_def split: if_splits)
      have "get_user_by_npub npub us' = Some (new_user now fid nym npub d v)"
        using no_active by (simp add: us' get_user_by_npub_def select_one_append new_user_def)
      then show ?thesis
        using ins us' False by (simp add: count_lifetime_nyms_by_npub_def new_user_def)
    qed
  qed
qed

theorem registration_outcomes_witness:
  "\<exists>u s'. register_user_atomic 9 2 ''npub2'' ''bob'' ''d'' ''v'' 1 demo_users = Inr (Created u, s')
     \<and> get_user_by_npub ''npub2'' (us_users s') = Some u"
proof -
  obtain u s' where r: "register_user_atomic 9 2 ''npub2'' ''bob'' ''d'' ''v'' 1 demo_users = Inr (Created u, s')"
    by (simp add: register_user_atomic_def Let_def demo_users_def demo_user_def new_user_def get_user_by_npub_def
        reactivatable_def get_inactive_user_by_npub_def sort_desc_def count_lifetime_nyms_by_npub_def insert_user_def)
  from registration_outcomes[OF r] show ?thesis using r by auto
qed

text \<open>Reserving an address for an outpoint again returns the same index and changes nothing.\<close>
theorem reservation_idempotent:
  assumes "allocate_outpoint_address now nym outpoint pk s = Inr (i, s')"
  shows "allocate_outpoint_address now' nym outpoint pk' s' = Inr (i, s')"
  using assms
  by (auto simp: allocate_outpoint_address_def get_outpoint_address_def select_one_append split: option.splits)

theorem reservation_idempotent_witness:
  "\<exists>i s'. allocate_outpoint_address 5 ''alice'' ''txid:0'' ''pk'' demo_users = Inr (i, s')
     \<and> allocate_outpoint_address 6 ''alice'' ''txid:0'' ''pk2'' s' = Inr (i, s')"
proof -
  obtain i s' where r: "allocate_outpoint_address 5 ''alice'' ''txid:0'' ''pk'' demo_users = Inr (i, s')"
    by (simp add: allocate_outpoint_address_def get_outpoint_address_def get_active_user_by_nym_def
        demo_users_def demo_user_def new_user_def)
  from reservation_idempotent[OF r] show ?thesis using r by blast
qed

subsection \<open>Address allocation\<close>

definition demo_derive :: "string \<Rightarrow> nat \<Rightarrow> string db_result" where
  "demo_derive d i = Inr (d @ show_nat i)"

definition demo_pages :: "donation_page list" where
  "demo_pages = [(page_of_upsert \<lparr>up_nym = ''alice'', up_ct_descriptor = Some ''page'', up_header = ''hi'',
     up_description = [], up_display_currency = ''USD'', up_website = None, up_twitter = None,
     up_instagram = None, up_enabled = True\<rparr>)\<lparr>dp_pos_ct_descriptor := Some ''pos''\<rparr>]"

text \<open>The address a payment-page allocation returns is the one its descriptor derives at the
  returned index, no Liquid invoice has ever reserved it, and the stored cursor is one past it; a
  run of 100 taken addresses is an error that still moves the cursor past all of them, so a retry
  does not scan them again.\<close>
theorem page_allocation_is_fresh:
  assumes "allocate_next_liquid_for_donation_page derive nym pas ps = (r, ps')"
    and "page_cursor nym ps + 100 \<le> i32_max"
  shows "case r of
      Inr (Some (addr, i, d)) \<Rightarrow> derive d (nat i) = Inr addr \<and> \<not> liquid_in_use pas addr
        \<and> page_cursor nym ps \<le> i \<and> page_cursor nym ps' = i + 1
    | Inr None \<Rightarrow> ps' = ps
    | Inl _ \<Rightarrow> ps' = ps \<or> page_cursor nym ps' = page_cursor nym ps + 100"
proof (cases "select_one (\<lambda>p. dp_nym p = nym \<and> dp_archived_at p = None \<and> dp_ct_descriptor p \<noteq> None) ps")
  case None
  then show ?thesis using assms(1) by (auto simp: allocate_next_liquid_for_donation_page_def)
next
  case (Some p)
  then have c: "page_cursor nym ps = dp_next_addr_idx p" by (simp add: page_cursor_def)
  have moved: "page_cursor nym (fst (update_where (\<lambda>p. dp_nym p = nym) (\<lambda>p. p\<lparr>dp_next_addr_idx := i\<rparr>) ps)) = i" for i
    using Some by (simp add: page_cursor_def set_page_cursor)
  show ?thesis
  proof (cases "alloc_loop derive (liquid_in_use pas) (the (dp_ct_descriptor p)) 100 (dp_next_addr_idx p)")
    case (AllocFound addr i)
    then show ?thesis
      using assms Some moved c loop_cursor(1)[of "dp_next_addr_idx p", OF _ AllocFound]
        alloc_loop_found[OF AllocFound]
      by (auto simp: allocate_next_liquid_for_donation_page_def Let_def)
  next
    case (AllocErr e)
    then show ?thesis using assms Some by (auto simp: allocate_next_liquid_for_donation_page_def Let_def)
  next
    case (AllocExhausted i)
    then show ?thesis
      using assms Some moved c loop_cursor(2)[of "dp_next_addr_idx p", OF _ AllocExhausted]
      by (auto simp: allocate_next_liquid_for_donation_page_def Let_def)
  qed
qed

theorem page_allocation_is_fresh_witness:
  "\<exists>r ps'. allocate_next_liquid_for_donation_page demo_derive ''alice''
      [\<lparr>pa_invoice_id = 1, pa_rail = ''liquid'', pa_address = ''page0''\<rparr>] demo_pages = (r, ps')
    \<and> r = Inr (Some (''page1'', 1, ''page'')) \<and> page_cursor ''alice'' ps' = 2"
proof -
  let ?pas = "[\<lparr>pa_invoice_id = 1, pa_rail = ''liquid'', pa_address = ''page0''\<rparr>]"
  obtain r ps' where a: "allocate_next_liquid_for_donation_page demo_derive ''alice'' ?pas demo_pages = (r, ps')"
    by fastforce
  have "fst (allocate_next_liquid_for_donation_page demo_derive ''alice'' ?pas demo_pages) = Inr (Some (''page1'', 1, ''page''))"
    "page_cursor ''alice'' demo_pages + 100 \<le> i32_max" by code_simp+
  with a page_allocation_is_fresh[OF a] show ?thesis by auto
qed

subsection \<open>Purging\<close>

text \<open>Purging a user never deletes a swap that still holds the secrets of an unfinished claim:
  it is refused without any change while a swap of the nym is neither claimed nor expired; a purge
  that goes through leaves no swap, no reservation and no live page under the nym, and touches no
  other nym's swaps.\<close>
theorem purge_spares_unfinished_swaps:
  assumes "purge_user now npub s = (out, s')"
  shows "(s' = s \<and> (\<forall>u. out \<noteq> Purged u)) \<or>
    (\<exists>u. out = Purged u \<and> u_npub u = npub \<and> \<not> u_is_active u
      \<and> (\<forall>r\<in>set (lc_swaps s). r \<notin> set (lc_swaps s') \<longrightarrow> sr_status r \<in> {''claimed'', ''expired''} \<and> sr_nym r = Some (u_nym u))
      \<and> (\<forall>r\<in>set (lc_swaps s'). sr_nym r \<noteq> Some (u_nym u))
      \<and> (\<forall>a\<in>set (us_outpoints (lc_users s')). oa_nym a \<noteq> u_nym u)
      \<and> (\<forall>p\<in>set (lc_pages s'). dp_nym p = u_nym u \<longrightarrow> dp_is_archived p))"
  using assms
proof (cases rule: purge_cases)
  case (purged u)
  have "u_npub u = npub"
    using purged(1) by (auto simp: get_user_by_npub_def dest: select_one_SomeD)
  moreover have "\<forall>p\<in>set (lc_pages s'). dp_nym p = u_nym u \<longrightarrow> dp_is_archived p"
    unfolding purged(7) by (auto simp: archive_donation_page_def Let_def tables dp_is_archived_def)
  ultimately show ?thesis
    using purged by (intro disjI2 exI[of _ "u\<lparr>u_is_active := False, u_ct_descriptor := []\<rparr>"])
      (auto simp: delete_outpoints_of_def tables)
qed auto

definition demo_purge :: "string \<Rightarrow> lifecycle_store" where
  "demo_purge st = \<lparr>lc_users = demo_users,
     lc_swaps = [(swap_of_new 0 7 \<lparr>ns_nym = Some ''alice'', ns_boltz_swap_id = ''swap'', ns_address = None,
        ns_address_index = None, ns_amount_sat = 100000, ns_invoice = ''lnbc1'', ns_preimage_hex = ''aa'',
        ns_claim_key_hex = ''bb'', ns_boltz_response_json = ''{}'', ns_invoice_id = None\<rparr>)\<lparr>sr_status := st\<rparr>],
     lc_pages = demo_pages\<rparr>"

theorem purge_spares_unfinished_swaps_witness:
  "snd (purge_user 5 ''npub'' (demo_purge ''claiming'')) = demo_purge ''claiming''
   \<and> lc_swaps (snd (purge_user 5 ''npub'' (demo_purge ''claimed''))) = []"
proof -
  have "\<not> (\<exists>u. fst (purge_user 5 ''npub'' (demo_purge ''claiming'')) = Purged u)"
    "fst (purge_user 5 ''npub'' (demo_purge ''claimed'')) = Purged (demo_user\<lparr>u_is_active := False, u_ct_descriptor := []\<rparr>)"
    "lc_swaps (snd (purge_user 5 ''npub'' (demo_purge ''claimed''))) = []"
    by (simp_all add: purge_user_def demo_purge_def demo_users_def demo_user_def new_user_def get_user_by_npub_def
        in_flight_swaps_def swap_of_new_def tables Let_def)
  then show ?thesis
    using purge_spares_unfinished_swaps[OF surjective_pairing[of "purge_user 5 ''npub'' (demo_purge ''claiming'')"]]
    by (metis (no_types, lifting))
qed

end
