(* ===== verification/PosProperties.thy ===== *)
theory PosProperties
  imports UserProperties
begin

text \<open>
  The properties of the POS terminals over runs of \<open>pos_step\<close>, with their
  witnesses on a store with one pairing.
\<close>

definition demo_hex :: "char \<Rightarrow> string" where
  "demo_hex c = replicate 64 c"

definition demo_pos :: pos_store where
  "demo_pos = \<lparr>po_terminals = [new_terminal 0 5 ''alice'' (demo_hex CHR ''a'') (demo_hex CHR ''b'') 600], po_pages = demo_pages\<rparr>"

definition demo_claimed_pos :: pos_store where
  "demo_claimed_pos = \<lparr>po_terminals = [(new_terminal 0 5 ''alice'' (demo_hex CHR ''a'') (demo_hex CHR ''b'') 600)
      \<lparr>pt_npub_owner := Some (demo_hex CHR ''d''), pt_label := None, pt_claimed_at := Some 9, pt_pairing_code_hash := None\<rparr>],
    po_pages = demo_pages\<rparr>"

lemma demo_pos_ok: "pos_ok demo_pos" "pos_ok demo_claimed_pos"
  by (simp_all add: pos_ok_def demo_pos_def demo_claimed_pos_def demo_pages_def page_of_upsert_def terminal_ok_def
      terminal_claimed_def terminal_revoked_def new_terminal_def)

lemma demo_claim:
  "claim_pos_pairing 9 ''alice'' (demo_hex CHR ''b'') (demo_hex CHR ''d'') None ''pos'' demo_pos
    = Inr (Some (hd (po_terminals demo_claimed_pos)), demo_claimed_pos)"
  by (simp add: claim_pos_pairing_def demo_pos_def demo_claimed_pos_def new_terminal_def terminal_claimed_def
      is_lower_hex64_def is_lower_hexdigit_def demo_hex_def list_all_iff
      placeholder_page_def pin_pos_descriptor_def demo_pages_def page_of_upsert_def Let_def tables secs_def)

text \<open>A pairing code works once: after a claim has returned a terminal, the same code on the same
  nym claims nothing, from any wallet and at any time, and the terminal the claim returned carries
  the claimer's npub and can be looked up by its token.\<close>
theorem pairing_code_single_use:
  assumes "pos_ok s" "claim_pos_pairing now nym code npub label d s = Inr (Some t, s')"
  shows "claim_pos_pairing now2 nym code npub2 label2 d2 s' = Inr (None, s')
    \<and> t \<in> set (po_terminals s') \<and> pt_npub_owner t = Some npub
    \<and> get_active_terminal_by_token nym (pt_token_hash t) (po_terminals s') \<noteq> None"
  using assms(2)
proof (cases rule: claim_cases)
  case (claimed pending pages)
  let ?upd = "\<lambda>t. t\<lparr>pt_npub_owner := Some npub, pt_label := label, pt_claimed_at := Some now, pt_pairing_code_hash := None\<rparr>"
  have pend: "pending \<in> set (po_terminals s)" "pt_pairing_code_hash pending = Some code" "pt_nym pending = nym"
      "\<not> terminal_claimed pending"
    using select_one_SomeD[OF claimed(1)] by auto
  have dist: "distinct (map pt_id (po_terminals s))"
    using assms(1) by (simp add: pos_ok_def apart_ids)
  have t: "t = ?upd pending"
    using assms(2) claimed(1,2) select_one_key[OF dist pend(1)]
    by (simp add: claim_pos_pairing_def Let_def split: if_splits)
  have none: "pt_pairing_code_hash x \<noteq> Some code" if x: "x \<in> set (po_terminals s')" for x
  proof -
    obtain y where y: "y \<in> set (po_terminals s)" "x = (if pt_id y = pt_id pending then ?upd y else y)"
      using x claimed(3) by (auto elim: update_where_setE)
    have "y = pending" if "pt_pairing_code_hash y = Some code"
      using assms(1) sorted_wrt_pair[of terminals_apart "po_terminals s" y pending] y(1) pend that
      by (auto simp: pos_ok_def terminals_apart_def)
    then show ?thesis using y(2) by auto
  qed
  have in_s': "t \<in> set (po_terminals s')"
    using claimed(3) pend(1) t update_where_hit[of pending "po_terminals s" "\<lambda>t. pt_id t = pt_id pending" ?upd] by simp
  have "\<not> terminal_revoked pending"
    using assms(1) pend unfolding pos_ok_def list_all_iff terminal_ok_def by blast
  then have live: "pt_nym t = nym \<and> terminal_claimed t \<and> \<not> terminal_revoked t"
    using t pend(3) by (simp add: terminal_claimed_def terminal_revoked_def)
  have "claim_pos_pairing now2 nym code npub2 label2 d2 s' = Inr (None, s')"
  proof -
    have "select_one (\<lambda>x. pt_nym x = nym \<and> pt_pairing_code_hash x = Some code
        \<and> \<not> terminal_claimed x \<and> now2 < pt_pairing_expires_at x) (po_terminals s') = None"
      using none unfolding select_one_None_iff by blast
    then show ?thesis by (simp add: claim_pos_pairing_def)
  qed
  moreover have "get_active_terminal_by_token nym (pt_token_hash t) (po_terminals s') \<noteq> None"
    using in_s' live unfolding get_active_terminal_by_token_def select_one_None_iff by blast
  moreover have "pt_npub_owner t = Some npub" by (simp add: t)
  ultimately show ?thesis using in_s' by blast
qed simp

theorem pairing_code_single_use_witness:
  "claim_pos_pairing 10 ''alice'' (demo_hex CHR ''b'') (demo_hex CHR ''e'') None ''pos'' demo_claimed_pos = Inr (None, demo_claimed_pos)"
  using pairing_code_single_use[OF demo_pos_ok(1) demo_claim] by blast

text \<open>A revoked terminal stays locked out: after any further pairings, claims, touches, revocations,
  purges and page changes, no token authenticates as that terminal again.\<close>
theorem revoked_terminal_locked_out:
  assumes "pos_step\<^sup>*\<^sup>* s s'" "pos_ok s" "t \<in> set (po_terminals s)" "terminal_revoked t"
    and "get_active_terminal_by_token nym token (po_terminals s') = Some t'"
  shows "pt_id t' \<noteq> pt_id t"
proof
  assume same: "pt_id t' = pt_id t"
  have claimed: "t \<in> set (filter terminal_claimed (po_terminals s))"
    using assms(2-4) by (auto simp: pos_ok_def terminal_ok_def list_all_iff)
  have t': "t' \<in> set (filter terminal_claimed (po_terminals s'))" "\<not> terminal_revoked t'"
    using select_one_SomeD[OF assms(5)[unfolded get_active_terminal_by_token_def]] by auto
  have "distinct (map pt_id (filter terminal_claimed (po_terminals s')))"
    using pos_table.run_good[OF assms(1,2)] by (simp add: pos_ok_def apart_ids distinct_map_filter)
  from pos_table.run_terminal_unique[OF assms(1,2) claimed assms(4) this t'(1) same]
  show False using t'(2) assms(4) by (simp add: terminal_revoked_def)
qed

theorem revoked_terminal_locked_out_witness:
  "get_active_terminal_by_token ''alice'' (demo_hex CHR ''a'')
     (fst (touch_terminal_seen 99 5 (fst (revoke_terminal 20 5 (demo_hex CHR ''d'') (po_terminals demo_claimed_pos))))) = None"
proof -
  let ?s = "demo_claimed_pos\<lparr>po_terminals := fst (revoke_terminal 20 5 (demo_hex CHR ''d'') (po_terminals demo_claimed_pos))\<rparr>"
  let ?s' = "?s\<lparr>po_terminals := fst (touch_terminal_seen 99 5 (po_terminals ?s))\<rparr>"
  have ok: "pos_ok ?s" by (rule pos_step_ok[OF ps_revoke demo_pos_ok(2)])
  have t: "hd (po_terminals ?s) \<in> set (po_terminals ?s)" "terminal_revoked (hd (po_terminals ?s))"
    by (simp_all add: revoke_terminal_def tables demo_claimed_pos_def new_terminal_def terminal_revoked_def)
  have only: "\<forall>x\<in>set (po_terminals ?s'). pt_id x = pt_id (hd (po_terminals ?s))"
    by (simp add: revoke_terminal_def touch_terminal_seen_def tables demo_claimed_pos_def new_terminal_def terminal_revoked_def)
  show ?thesis
  proof (rule ccontr)
    assume "\<not> ?thesis"
    then obtain t' where t': "get_active_terminal_by_token ''alice'' (demo_hex CHR ''a'') (po_terminals ?s') = Some t'"
      by auto
    from revoked_terminal_locked_out[OF r_into_rtranclp[of pos_step, OF ps_touch] ok t t']
    show False using only select_one_SomeD[OF t'[unfolded get_active_terminal_by_token_def]] by auto
  qed
qed

text \<open>The POS descriptor of a nym is pinned by the first claim: whatever claims, page edits, archiving
  and allocations follow, the page of that nym keeps exactly that descriptor.\<close>
theorem pos_descriptor_pinned:
  assumes "pos_step\<^sup>*\<^sup>* s s'" "pos_ok s" "p \<in> set (po_pages s)" "dp_pos_ct_descriptor p = Some d"
    and "p' \<in> set (po_pages s')" "dp_nym p' = dp_nym p"
  shows "dp_pos_ct_descriptor p' = Some d"
proof -
  obtain q where q: "q \<in> set (po_pages s')" "dp_nym q = dp_nym p" "page_evolves p q"
    using page_table.run_evolves[OF assms(1-3)] by blast
  have "distinct (map dp_nym (po_pages s'))"
    using page_table.run_good[OF assms(1,2)] by (simp add: pos_ok_def)
  then have "q = p'" using q assms(5,6) by (auto simp: distinct_map inj_on_def)
  then show ?thesis using q(3) assms(4) by (simp add: page_evolves_def)
qed

theorem pos_descriptor_pinned_witness:
  "map dp_pos_ct_descriptor (snd (archive_donation_page 4 ''alice'' (po_pages demo_pos))) = [Some ''pos'']"
proof -
  let ?s' = "demo_pos\<lparr>po_pages := snd (archive_donation_page 4 ''alice'' (po_pages demo_pos))\<rparr>"
  have p: "hd (po_pages demo_pos) \<in> set (po_pages demo_pos)" "dp_pos_ct_descriptor (hd (po_pages demo_pos)) = Some ''pos''"
    by (simp_all add: demo_pos_def demo_pages_def)
  obtain p' where p': "po_pages ?s' = [p']" "dp_nym p' = dp_nym (hd (po_pages demo_pos))"
    by (simp add: archive_donation_page_def Let_def tables demo_pos_def demo_pages_def page_of_upsert_def)
  have "p' \<in> set (po_pages ?s')" using p'(1) by simp
  from pos_descriptor_pinned[OF r_into_rtranclp[of pos_step, OF ps_archive] demo_pos_ok(1) p this p'(2)]
  show ?thesis using p'(1) by simp
qed

end
