(* ===== verification/AppErrors.thy ===== *)
theory AppErrors
  imports Invoices
begin

text \<open>
  The error type of the service (src/src/error.rs): its variants, class,
  stable code, log text, and the HTTP answer (status, user-facing reason,
  structured details).  Text is the UTF-8 byte string of the source.
\<close>

datatype app_error =
    NymNotFound string
  | NymTaken
  | NymInvalid string
  | NymReserved
  | DonationPageInvalid string
  | DonationPageNotFound string
  | InvoiceNotFound string
  | TerminalNotFound string
  | PosDescriptorRequired string
  | PosDescriptorMismatch string
  | ImageInvalid string
  | MultipartInvalid string
  | ImageDimensionsTooLarge nat
  | ImagePixelsTooLarge nat
  | KeyAlreadyRegistered string string
  | NymQuotaExceeded int int
  | InvalidDescriptor string
  | AuthError string
  | ProofOfFundsRequired nat
  | ProofOfFundsInvalid string
  | UtxoNotFound
  | UtxoSpent
  | PubkeyUtxoMismatch
  | InvalidAmount string
  | BitcoinAddressAlreadyUsed
  | LiquidAddressAlreadyUsed
  | InvoicePaymentAlreadyDetected
  | RateLimitedSender
  | RateLimitedRecipient
  | RateLimitedNetwork
  | BackendThrottled
  | TooManyPendingReservations
  | PosPairingClaimRateLimited
  | ServiceUnavailable string
  | PurgeBlocked nat
  | ElectrumError string
  | BoltzError string
  | ClaimError string
  | DbError string

datatype error_class = Auth | Identity | RateLimit | Capacity | Backend | Internal

primrec error_class_of :: "app_error \<Rightarrow> error_class" where
  "error_class_of (NymNotFound a) = Identity"
| "error_class_of NymTaken = Identity"
| "error_class_of (NymInvalid a) = Identity"
| "error_class_of NymReserved = Identity"
| "error_class_of (DonationPageInvalid a) = Identity"
| "error_class_of (DonationPageNotFound a) = Identity"
| "error_class_of (InvoiceNotFound a) = Identity"
| "error_class_of (TerminalNotFound a) = Identity"
| "error_class_of (PosDescriptorRequired a) = Identity"
| "error_class_of (PosDescriptorMismatch a) = Identity"
| "error_class_of (ImageInvalid a) = Identity"
| "error_class_of (MultipartInvalid a) = Identity"
| "error_class_of (ImageDimensionsTooLarge a) = Identity"
| "error_class_of (ImagePixelsTooLarge a) = Identity"
| "error_class_of (KeyAlreadyRegistered a b) = Identity"
| "error_class_of (NymQuotaExceeded a b) = Identity"
| "error_class_of (InvalidDescriptor a) = Identity"
| "error_class_of (AuthError a) = Auth"
| "error_class_of (ProofOfFundsRequired a) = Identity"
| "error_class_of (ProofOfFundsInvalid a) = Identity"
| "error_class_of UtxoNotFound = Identity"
| "error_class_of UtxoSpent = Identity"
| "error_class_of PubkeyUtxoMismatch = Identity"
| "error_class_of (InvalidAmount a) = Identity"
| "error_class_of BitcoinAddressAlreadyUsed = Identity"
| "error_class_of LiquidAddressAlreadyUsed = Identity"
| "error_class_of InvoicePaymentAlreadyDetected = Identity"
| "error_class_of RateLimitedSender = RateLimit"
| "error_class_of RateLimitedRecipient = RateLimit"
| "error_class_of RateLimitedNetwork = RateLimit"
| "error_class_of BackendThrottled = RateLimit"
| "error_class_of TooManyPendingReservations = RateLimit"
| "error_class_of PosPairingClaimRateLimited = RateLimit"
| "error_class_of (ServiceUnavailable a) = Capacity"
| "error_class_of (PurgeBlocked a) = Capacity"
| "error_class_of (ElectrumError a) = Backend"
| "error_class_of (BoltzError a) = Backend"
| "error_class_of (ClaimError a) = Backend"
| "error_class_of (DbError a) = Internal"

primrec error_code :: "app_error \<Rightarrow> string" where
  "error_code (NymNotFound a) = ''NymNotFound''"
| "error_code NymTaken = ''NymTaken''"
| "error_code (NymInvalid a) = ''NymInvalid''"
| "error_code NymReserved = ''NymReserved''"
| "error_code (DonationPageInvalid a) = ''DonationPageInvalid''"
| "error_code (DonationPageNotFound a) = ''DonationPageNotFound''"
| "error_code (InvoiceNotFound a) = ''InvoiceNotFound''"
| "error_code (TerminalNotFound a) = ''TerminalNotFound''"
| "error_code (PosDescriptorRequired a) = ''PosDescriptorRequired''"
| "error_code (PosDescriptorMismatch a) = ''PosDescriptorMismatch''"
| "error_code (ImageInvalid a) = ''ImageInvalid''"
| "error_code (MultipartInvalid a) = ''MultipartInvalid''"
| "error_code (ImageDimensionsTooLarge a) = ''ImageDimensionsTooLarge''"
| "error_code (ImagePixelsTooLarge a) = ''ImagePixelsTooLarge''"
| "error_code (KeyAlreadyRegistered a b) = ''KeyAlreadyRegistered''"
| "error_code (NymQuotaExceeded a b) = ''NymQuotaExceeded''"
| "error_code (InvalidDescriptor a) = ''InvalidDescriptor''"
| "error_code (AuthError a) = ''AuthError''"
| "error_code (ProofOfFundsRequired a) = ''ProofOfFundsRequired''"
| "error_code (ProofOfFundsInvalid a) = ''ProofOfFundsInvalid''"
| "error_code UtxoNotFound = ''UtxoNotFound''"
| "error_code UtxoSpent = ''UtxoSpent''"
| "error_code PubkeyUtxoMismatch = ''PubkeyUtxoMismatch''"
| "error_code (InvalidAmount a) = ''InvalidAmount''"
| "error_code BitcoinAddressAlreadyUsed = ''BitcoinAddressAlreadyUsed''"
| "error_code LiquidAddressAlreadyUsed = ''LiquidAddressAlreadyUsed''"
| "error_code InvoicePaymentAlreadyDetected = ''InvoicePaymentAlreadyDetected''"
| "error_code RateLimitedSender = ''RateLimitedSender''"
| "error_code RateLimitedRecipient = ''RateLimitedRecipient''"
| "error_code RateLimitedNetwork = ''RateLimitedNetwork''"
| "error_code BackendThrottled = ''BackendThrottled''"
| "error_code TooManyPendingReservations = ''TooManyPendingReservations''"
| "error_code PosPairingClaimRateLimited = ''PosPairingClaimRateLimited''"
| "error_code (ServiceUnavailable a) = ''ServiceUnavailable''"
| "error_code (PurgeBlocked a) = ''PurgeBlocked''"
| "error_code (ElectrumError a) = ''ElectrumError''"
| "error_code (BoltzError a) = ''BoltzError''"
| "error_code (ClaimError a) = ''ClaimError''"
| "error_code (DbError a) = ''InternalError''"

text \<open>Soft rate-limit signals: the Liquid path falls back to Lightning on these.\<close>
definition is_rate_limit :: "app_error \<Rightarrow> bool" where
  "is_rate_limit e \<longleftrightarrow> error_class_of e = RateLimit"

text \<open>The \<open>Display\<close> text, which is also what the swap tables store as the last error.\<close>
primrec error_text :: "app_error \<Rightarrow> string" where
  "error_text (NymNotFound nym) = ''nym not found: '' @ nym"
| "error_text NymTaken = ''nym already taken''"
| "error_text (NymInvalid reason) = ''invalid nym: '' @ reason"
| "error_text NymReserved = ''nym is reserved''"
| "error_text (DonationPageInvalid reason) = ''donation page invalid: '' @ reason"
| "error_text (DonationPageNotFound nym) = ''no donation page for '' @ nym"
| "error_text (InvoiceNotFound ident) = ''invoice not found: '' @ ident"
| "error_text (TerminalNotFound ident) = ''terminal not found: '' @ ident"
| "error_text (PosDescriptorRequired nym) = ''POS descriptor is required for terminal invoices: '' @ nym"
| "error_text (PosDescriptorMismatch nym) = ''POS descriptor does not match the stored one for '' @ nym"
| "error_text (ImageInvalid reason) = ''image invalid: '' @ reason"
| "error_text (MultipartInvalid reason) = ''multipart invalid: '' @ reason"
| "error_text (ImageDimensionsTooLarge max_px) = ''image dimensions exceed '' @ show_nat max_px @ ''px cap''"
| "error_text (ImagePixelsTooLarge max_pixels) = ''image pixel area exceeds '' @ show_nat max_pixels @ '' pixel cap''"
| "error_text (KeyAlreadyRegistered nym domain) = ''key already has active address: '' @ nym @ ''@'' @ domain"
| "error_text (NymQuotaExceeded used cap) = ''nym quota exceeded: '' @ show_int used @ ''/'' @ show_int cap @ '' per key''"
| "error_text (InvalidDescriptor reason) = ''invalid descriptor: '' @ reason"
| "error_text (AuthError reason) = ''auth error: '' @ reason"
| "error_text (ProofOfFundsRequired min_sat) = ''proof of funds required (min '' @ show_nat min_sat @ '' sat)''"
| "error_text (ProofOfFundsInvalid r) = ''proof of funds invalid: '' @ r"
| "error_text UtxoNotFound = ''utxo not found''"
| "error_text UtxoSpent = ''utxo spent''"
| "error_text PubkeyUtxoMismatch = ''pubkey/utxo mismatch''"
| "error_text (InvalidAmount reason) = ''invalid amount: '' @ reason"
| "error_text BitcoinAddressAlreadyUsed = ''bitcoin address already used''"
| "error_text LiquidAddressAlreadyUsed = ''liquid address already used''"
| "error_text InvoicePaymentAlreadyDetected = ''payment already detected; cannot cancel''"
| "error_text RateLimitedSender = ''rate limited (sender)''"
| "error_text RateLimitedRecipient = ''rate limited (recipient)''"
| "error_text RateLimitedNetwork = ''rate limited (network)''"
| "error_text BackendThrottled = ''backend throttled''"
| "error_text TooManyPendingReservations = ''too many pending reservations''"
| "error_text PosPairingClaimRateLimited = ''pos pairing claim rate limited''"
| "error_text (ServiceUnavailable r) = ''service unavailable: '' @ r"
| "error_text (PurgeBlocked n) = ''purge blocked: '' @ show_nat n @ '' in-flight swap(s)''"
| "error_text (ElectrumError msg) = ''electrum error: '' @ msg"
| "error_text (BoltzError msg) = ''boltz error: '' @ msg"
| "error_text (ClaimError msg) = ''claim error: '' @ msg"
| "error_text (DbError msg) = ''internal error: '' @ msg"

definition en_dash :: string where "en_dash = [CHR 0xE2, CHR 0x80, CHR 0x93]"
definition em_dash :: string where "em_dash = [CHR 0xE2, CHR 0x80, CHR 0x94]"
definition times_sign :: string where "times_sign = [CHR 0xC3, CHR 0x97]"

text \<open>\<open>str::contains\<close>.\<close>
fun str_contains :: "string \<Rightarrow> string \<Rightarrow> bool" where
  "str_contains needle [] \<longleftrightarrow> needle = []"
| "str_contains needle (c # s) \<longleftrightarrow> take (length needle) (c # s) = needle \<or> str_contains needle s"

primrec error_reason :: "app_error \<Rightarrow> string" where
  "error_reason (NymNotFound a) =
    ''No Lightning Address is registered with this name.''"
| "error_reason NymTaken =
    ''This name is already registered.''"
| "error_reason (NymInvalid a) =
    ''This name contains characters that are not allowed. Names must be 1'' @ en_dash @ ''32 characters: lowercase letters, numbers, and hyphens, with no leading or trailing hyphen.''"
| "error_reason NymReserved =
    ''This name is reserved by the server. Choose a different name.''"
| "error_reason (DonationPageInvalid reason) =
    ''Donation page rejected: '' @ reason @ ''.''"
| "error_reason (DonationPageNotFound a) =
    ''No donation page exists for this name.''"
| "error_reason (InvoiceNotFound a) =
    ''Invoice not found.''"
| "error_reason (TerminalNotFound a) =
    ''Terminal not found.''"
| "error_reason (PosDescriptorRequired a) =
    ''POS settlement wallet is not provisioned for this payment page.''"
| "error_reason (PosDescriptorMismatch a) =
    ''This name already has a POS settlement wallet and the pairing request was signed for a different one. The stored wallet is never replaced.''"
| "error_reason (ImageInvalid a) =
    ''Image was rejected. Use a JPEG, PNG, or WebP file under 2 MB.''"
| "error_reason (MultipartInvalid a) =
    ''Upload form was malformed. Retry from the app.''"
| "error_reason (ImageDimensionsTooLarge max_px) =
    ''Image dimensions are too large. Maximum '' @ show_nat max_px @ times_sign @ show_nat max_px @ '' pixels.''"
| "error_reason (ImagePixelsTooLarge max_pixels) =
    ''Image dimensions are too large. Maximum '' @ show_nat max_pixels @ '' total pixels.''"
| "error_reason (KeyAlreadyRegistered nym domain) =
    ''This wallet already has an active Lightning Address: '' @ nym @ ''@'' @ domain @ ''. Deactivate it before registering a different name.''"
| "error_reason (NymQuotaExceeded used cap) =
    ''This wallet has registered the maximum of '' @ show_int cap @ '' lifetime Lightning Addresses. Reactivate one of the existing addresses, or use a different wallet.''"
| "error_reason (InvalidDescriptor reason) =
    ''The wallet descriptor was rejected: '' @ reason @ ''.''"
| "error_reason (AuthError a) =
    ''Wallet signature did not verify.''"
| "error_reason (ProofOfFundsRequired min_sat) =
    ''Proof of funds is required. The wallet must hold at least '' @ show_nat min_sat @ '' sats in a single UTXO.''"
| "error_reason (ProofOfFundsInvalid a) =
    ''Proof of funds signature did not verify.''"
| "error_reason UtxoNotFound =
    ''The UTXO referenced in the proof of funds was not found on the Liquid network. The UTXO may not be confirmed yet.''"
| "error_reason UtxoSpent =
    ''The UTXO referenced in the proof of funds has already been spent.''"
| "error_reason PubkeyUtxoMismatch =
    ''The proof-of-funds public key does not match the script of the referenced UTXO.''"
| "error_reason (InvalidAmount reason) =
    reason"
| "error_reason BitcoinAddressAlreadyUsed =
    ''This Bitcoin address is already assigned to an invoice. Generate a fresh receive address and try again.''"
| "error_reason LiquidAddressAlreadyUsed =
    ''This Liquid address is already assigned to an invoice. Generate a fresh receive address and try again.''"
| "error_reason InvoicePaymentAlreadyDetected =
    ''Payment already detected '' @ em_dash @ '' cannot cancel this invoice.''"
| "error_reason RateLimitedSender =
    ''Request rate limit exceeded for this source. Retry later.''"
| "error_reason RateLimitedRecipient =
    ''This Lightning Address has reached its request rate limit on the server. Retry later.''"
| "error_reason RateLimitedNetwork =
    ''Too many distinct wallets have used this service from this network. Retry later, or switch networks.''"
| "error_reason BackendThrottled =
    ''Liquid network backend is rate-limited. Retry later.''"
| "error_reason TooManyPendingReservations =
    ''This Lightning Address has reached the maximum number of unfulfilled payment reservations. Retry once existing reservations complete or expire.''"
| "error_reason PosPairingClaimRateLimited =
    ''Too many failed pairing attempts from this source. Retry later.''"
| "error_reason (ServiceUnavailable reason) =
    (if str_contains ''active user ceiling'' reason
       then ''The maximum number of registered users has been reached. New registrations are not being accepted.''
       else ''Service temporarily unavailable: '' @ reason @ ''.'')"
| "error_reason (PurgeBlocked n) =
    ''Deactivation is blocked: '' @ show_nat n @ '' payment(s) are still in flight. These payments must complete or expire first.''"
| "error_reason (ElectrumError a) =
    ''Liquid network is unreachable.''"
| "error_reason (BoltzError a) =
    ''Lightning swap service is unavailable.''"
| "error_reason (ClaimError a) =
    ''Swap claim failed.''"
| "error_reason (DbError a) =
    ''Internal server error.''"

datatype error_details = KeyDetails string string | QuotaDetails int int int | PendingDetails nat | MinSatDetails nat

text \<open>\<open>(cap - used).max(0)\<close> is the remaining quota.\<close>
definition error_details_of :: "app_error \<Rightarrow> error_details option" where
  "error_details_of e = (case e of
      KeyAlreadyRegistered nym domain \<Rightarrow> Some (KeyDetails nym domain)
    | NymQuotaExceeded used cap \<Rightarrow> Some (QuotaDetails used cap (max (cap - used) 0))
    | PurgeBlocked n \<Rightarrow> Some (PendingDetails n)
    | ProofOfFundsRequired min_sat \<Rightarrow> Some (MinSatDetails min_sat)
    | _ \<Rightarrow> None)"

definition error_http_status :: "app_error \<Rightarrow> nat" where
  "error_http_status e = (case e of
      AuthError r \<Rightarrow> 401
    | BitcoinAddressAlreadyUsed \<Rightarrow> 409
    | LiquidAddressAlreadyUsed \<Rightarrow> 409
    | PosDescriptorMismatch n \<Rightarrow> 409
    | ServiceUnavailable r \<Rightarrow> 503
    | PosPairingClaimRateLimited \<Rightarrow> 429
    | _ \<Rightarrow> 200)"

text \<open>\<open>From<sqlx::Error>\<close>: four constraints have their own variant.  The rendering of any other
  database error is PostgreSQL's; the model keeps what it knows of it.\<close>
definition sqlx_text :: "sqlx_error \<Rightarrow> string" where
  "sqlx_text e = (case e of
      RowNotFound \<Rightarrow> ''no rows returned by a query that expected to return at least one row''
    | UniqueViolation c \<Rightarrow> ''error returned from database: duplicate key value violates unique constraint '' @ c
    | CheckViolation c \<Rightarrow> ''error returned from database: violates check constraint '' @ c
    | ProtocolError m \<Rightarrow> ''encountered unexpected or invalid data: '' @ m)"

definition from_sqlx :: "sqlx_error \<Rightarrow> app_error" where
  "from_sqlx e = (case e of
      UniqueViolation c \<Rightarrow>
        if c = ''users_nym_key'' then NymTaken
        else if c = ''users_npub_active_key'' then KeyAlreadyRegistered [] []
        else if c = ''invoice_payment_addresses_bitcoin_address_key'' then BitcoinAddressAlreadyUsed
        else if c = ''invoice_payment_addresses_liquid_address_key'' then LiquidAddressAlreadyUsed
        else DbError (sqlx_text e)
    | _ \<Rightarrow> DbError (sqlx_text e))"

text \<open>\<open>map_err(|e| AppError::DbError(e.to_string()))\<close>, the form most callers use.\<close>
definition as_db_error :: "sqlx_error \<Rightarrow> app_error" where
  "as_db_error e = DbError (sqlx_text e)"

text \<open>The hyphenated lower-case text of a UUID.\<close>
definition hex_digit :: "nat \<Rightarrow> char" where
  "hex_digit d = char_of (if d < 10 then 48 + d else 87 + d)"

fun hex_of :: "nat \<Rightarrow> nat \<Rightarrow> string" where
  "hex_of 0 x = []"
| "hex_of (Suc n) x = hex_of n (x div 16) @ [hex_digit (x mod 16)]"

definition uuid_text :: "uuid \<Rightarrow> string" where
  "uuid_text u = (let h = hex_of 32 u in
     take 8 h @ ''-'' @ take 4 (drop 8 h) @ ''-'' @ take 4 (drop 12 h) @ ''-'' @ take 4 (drop 16 h) @ ''-'' @ drop 20 h)"

lemma rate_limit_errors_are_retryable:
  "is_rate_limit e \<Longrightarrow> error_http_status e \<in> {200, 429}"
  by (cases e) (simp_all add: is_rate_limit_def error_http_status_def)

end
