(* ===== verification/Settlement.thy ===== *)
theory Settlement
  imports ChainSwaps AppErrors
begin

text \<open>
  The settlement hooks of src/src/invoice.rs, the reconciler
  (src/src/reconciler.rs) and the claim path of src/src/claimer.rs over one
  database record.  A claim is two pieces of code around a network call: the
  transaction under the advisory lock (\<open>claim_swap_prepare\<close>) and the updates
  after the broadcast (\<open>claim_swap_finish\<close>).  Transactions, their codec,
  Electrum, Boltz and the UTXO backend are not under src/; they are arguments.
  One handler call reads the clock once.
\<close>

record settlement_db =
  sd_ledger :: invoice_store
  sd_swaps :: "swap_record list"
  sd_chain :: "chain_swap list"
  sd_users :: "user list"
  sd_webhooks :: "string list"

subsection \<open>Invoice hooks\<close>

text \<open>The body the two in-progress hooks share: a row that is already past unpaid only gets its
  settlement mark.\<close>
definition flip_in_progress :: "uuid option \<Rightarrow> invoice list \<Rightarrow> invoice list" where
  "flip_in_progress oid invs =
    (case oid of
       None \<Rightarrow> invs
     | Some iid \<Rightarrow>
        (case mark_invoice_in_progress iid invs of (invs', rows) \<Rightarrow>
          if rows > 0 then invs'
          else (case mark_invoice_settlement_status (Some iid) ''pending'' invs' of
                  Inl e \<Rightarrow> invs'
                | Inr (invs'', k) \<Rightarrow> invs'')))"

definition flip_invoice_on_lightning_in_progress :: "uuid option \<Rightarrow> invoice list \<Rightarrow> invoice list" where
  "flip_invoice_on_lightning_in_progress = flip_in_progress"

definition flip_invoice_on_bitcoin_boltz_in_progress :: "uuid option \<Rightarrow> invoice list \<Rightarrow> invoice list" where
  "flip_invoice_on_bitcoin_boltz_in_progress = flip_in_progress"

definition boltz_evidence :: "string \<Rightarrow> string \<Rightarrow> sat \<Rightarrow> string \<Rightarrow> string \<Rightarrow> evidence" where
  "boltz_evidence rail source amount_sat boltz_swap_id claim_txid =
    \<lparr>ev_rail = rail, ev_source = source, ev_event_key = source @ '':'' @ boltz_swap_id,
     ev_amount_sat = amount_sat, ev_txid = Some claim_txid, ev_vout = None,
     ev_boltz_swap_id = Some boltz_swap_id, ev_address = None\<rparr>"

text \<open>An error of the ledger is logged and dropped.\<close>
definition record_or_log ::
  "timestamp \<Rightarrow> int \<Rightarrow> uuid option \<Rightarrow> evidence \<Rightarrow> tolerances \<Rightarrow> invoice_store \<Rightarrow> invoice_store" where
  "record_or_log now unix_now oid e tol s =
    (case oid of
       None \<Rightarrow> s
     | Some iid \<Rightarrow> (case record_invoice_payment now unix_now iid e tol s of Inl err \<Rightarrow> s | Inr (n, s') \<Rightarrow> s'))"

definition flip_invoice_on_lightning_settlement ::
  "timestamp \<Rightarrow> int \<Rightarrow> uuid option \<Rightarrow> sat \<Rightarrow> string \<Rightarrow> string \<Rightarrow> tolerances \<Rightarrow> invoice_store \<Rightarrow> invoice_store" where
  "flip_invoice_on_lightning_settlement now unix_now oid amount_sat bid claim_txid tol =
    record_or_log now unix_now oid (boltz_evidence ''lightning'' ''lightning_boltz_reverse'' amount_sat bid claim_txid) tol"

definition flip_invoice_on_bitcoin_boltz_settlement ::
  "timestamp \<Rightarrow> int \<Rightarrow> uuid option \<Rightarrow> sat \<Rightarrow> string \<Rightarrow> string \<Rightarrow> tolerances \<Rightarrow> invoice_store \<Rightarrow> invoice_store" where
  "flip_invoice_on_bitcoin_boltz_settlement now unix_now oid amount_sat bid claim_txid tol =
    record_or_log now unix_now oid (boltz_evidence ''bitcoin'' ''bitcoin_boltz_chain'' amount_sat bid claim_txid) tol"

text \<open>The updates of one field of the database record.\<close>
definition on_invoices :: "(invoice list \<Rightarrow> invoice list) \<Rightarrow> settlement_db \<Rightarrow> settlement_db" where
  "on_invoices f db = db\<lparr>sd_ledger := (sd_ledger db)\<lparr>is_invoices := f (is_invoices (sd_ledger db))\<rparr>\<rparr>"

definition settle_mark :: "uuid option \<Rightarrow> string \<Rightarrow> invoice list \<Rightarrow> invoice list" where
  "settle_mark oid st invs =
    (case mark_invoice_settlement_status oid st invs of Inl e \<Rightarrow> invs | Inr (invs', n) \<Rightarrow> invs')"

subsection \<open>The reconciler\<close>

datatype reconciler_action =
    Noop | AdvanceToLockupMempool | AdvanceToLockupConfirmed | ScheduleImmediateClaim
  | ScheduleScriptPathRetry | MarkExpired | MarkLockupRefunded | NeedsManualAttention string

definition decide_action :: "swap_record \<Rightarrow> string \<Rightarrow> reconciler_action" where
  "decide_action swap boltz_status =
    (if sr_status swap \<in> {''claimed'', ''expired'', ''claim_stuck'', ''lockup_refunded''} then Noop
     else if boltz_status = ''swap.created'' then Noop
     else if boltz_status = ''transaction.mempool'' \<and> sr_status swap = ''pending'' then AdvanceToLockupMempool
     else if boltz_status = ''transaction.confirmed'' \<and> sr_status swap = ''pending'' then AdvanceToLockupConfirmed
     else if boltz_status = ''transaction.confirmed'' \<and> sr_status swap = ''lockup_mempool'' then AdvanceToLockupConfirmed
     else if boltz_status \<in> {''transaction.mempool'', ''transaction.confirmed''} then ScheduleImmediateClaim
     else if boltz_status = ''swap.expired'' then ScheduleScriptPathRetry
     else if boltz_status \<in> {''invoice.expired'', ''transaction.failed''} then MarkExpired
     else if boltz_status = ''transaction.refunded'' then MarkLockupRefunded
     else if boltz_status = ''invoice.settled'' \<and> sr_status swap = ''claimed'' then Noop
     else if boltz_status = ''invoice.settled'' then ScheduleImmediateClaim
     else Noop)"

definition apply_action ::
  "timestamp \<Rightarrow> swap_record \<Rightarrow> reconciler_action \<Rightarrow> settlement_db \<Rightarrow> settlement_db" where
  "apply_action now swap action db =
    (let sid = sr_id swap;
         advance = (\<lambda>st. on_invoices (flip_invoice_on_lightning_in_progress (sr_invoice_id swap))
           (db\<lparr>sd_swaps := fst (schedule_immediate_claim now sid
                 (fst (update_swap_status now sid st None (sd_swaps db))))\<rparr>))
     in case action of
          Noop \<Rightarrow> db
        | AdvanceToLockupMempool \<Rightarrow> advance LockupMempool
        | AdvanceToLockupConfirmed \<Rightarrow> advance LockupConfirmed
        | ScheduleImmediateClaim \<Rightarrow> db\<lparr>sd_swaps := fst (schedule_immediate_claim now sid (sd_swaps db))\<rparr>
        | ScheduleScriptPathRetry \<Rightarrow> db\<lparr>sd_swaps := fst (schedule_script_path_retry now sid (sd_swaps db))\<rparr>
        | MarkExpired \<Rightarrow> db\<lparr>sd_swaps := fst (update_swap_status now sid SwapExpired None (sd_swaps db))\<rparr>
        | MarkLockupRefunded \<Rightarrow> on_invoices (settle_mark (sr_invoice_id swap) ''refunded'')
            (db\<lparr>sd_swaps := fst (update_swap_status now sid LockupRefunded None (sd_swaps db))\<rparr>)
        | NeedsManualAttention reason \<Rightarrow> db)"

text \<open>One tick.  \<open>remote\<close> is what \<open>get_swap\<close> answers for a Boltz id, None for an error; the
  scanned rows are the snapshot of the query.\<close>
fun reconcile_rows ::
  "timestamp \<Rightarrow> (string \<Rightarrow> string option) \<Rightarrow> swap_record list \<Rightarrow> settlement_db \<Rightarrow> settlement_db" where
  "reconcile_rows now remote [] db = db"
| "reconcile_rows now remote (swap # rest) db =
    reconcile_rows now remote rest
      (case remote (sr_boltz_swap_id swap) of
         None \<Rightarrow> db
       | Some st \<Rightarrow> apply_action now swap (decide_action swap st) db)"

definition run_one_tick ::
  "timestamp \<Rightarrow> int \<Rightarrow> nat \<Rightarrow> (string \<Rightarrow> string option) \<Rightarrow> settlement_db \<Rightarrow> settlement_db" where
  "run_one_tick now min_age_secs max_per_tick remote db =
    reconcile_rows now remote (list_non_terminal_swaps_oldest_first now min_age_secs max_per_tick (sd_swaps db)) db"

subsection \<open>Transactions and the outside world\<close>

text \<open>What the claim path reads of a transaction: inputs (previous txid, vout) and output scripts.\<close>
record liquid_tx =
  lt_inputs :: "(string \<times> nat) list"
  lt_outputs :: "string list"
  lt_body :: string

datatype btc_like_tx = LiquidTx liquid_tx | BitcoinTx string

record tx_codec =
  tc_to_hex :: "btc_like_tx \<Rightarrow> string"
  tc_from_hex :: "string \<Rightarrow> string + btc_like_tx"
  tc_txid :: "btc_like_tx \<Rightarrow> string"

record utxo_backend =
  ub_tx_exists :: "string \<Rightarrow> app_error + bool"
  ub_get_raw_tx :: "string \<Rightarrow> app_error + string"
  ub_decode_tx :: "string \<Rightarrow> string + liquid_tx"
  ub_find_spending_txid :: "string \<Rightarrow> string \<Rightarrow> nat \<Rightarrow> app_error + string option"

text \<open>\<open>ce_lock\<close>: the advisory lock was free.  \<open>ce_electrum\<close>: a connection error, if any.\<close>
record claim_env =
  ce_now :: timestamp
  ce_unix :: int
  ce_jitter :: rat
  ce_lock :: bool
  ce_derive :: "string \<Rightarrow> nat \<Rightarrow> app_error + string"
  ce_build :: "string \<Rightarrow> string \<Rightarrow> string \<Rightarrow> string \<Rightarrow> string \<Rightarrow> bool \<Rightarrow> app_error + btc_like_tx"
  ce_build_chain :: "chain_swap \<Rightarrow> string \<Rightarrow> app_error + btc_like_tx"
  ce_electrum :: "string option"
  ce_broadcast :: "btc_like_tx \<Rightarrow> string option"
  ce_backend :: "utxo_backend option"

datatype claim_outcome = Broadcast | SkippedLockHeld | AlreadyTerminal

subsection \<open>Resolving the destination\<close>

text \<open>One transaction with the swap row locked: cached, from the invoice, or from the descriptor.\<close>
definition resolve_claim_address ::
  "claim_env \<Rightarrow> swap_record \<Rightarrow> settlement_db \<Rightarrow> (app_error + string) \<times> settlement_db" where
  "resolve_claim_address env swap db =
    (case get_swap_by_id (sr_id swap) (sd_swaps db) of
       None \<Rightarrow> (Inl (ClaimError (''swap_records row gone: '' @ uuid_text (sr_id swap))), db)
     | Some row \<Rightarrow>
        (case sr_address row of
           Some addr \<Rightarrow> (Inr addr, db)
         | None \<Rightarrow>
            (case sr_invoice_id row of
               Some iid \<Rightarrow>
                 (case Option.bind (get_invoice_by_id iid (is_invoices (sd_ledger db))) inv_liquid_address of
                    None \<Rightarrow> (Inl (ClaimError (''invoice '' @ uuid_text iid @ '' has no liquid_address'')), db)
                  | Some addr \<Rightarrow> (Inr addr,
                      db\<lparr>sd_swaps := write_claim_address (sr_id swap) addr None (sd_swaps db)\<rparr>))
             | None \<Rightarrow>
                (case sr_nym swap of
                   None \<Rightarrow> (Inl (ClaimError (''swap '' @ uuid_text (sr_id swap) @ '' has no nym and no invoice claim destination'')), db)
                 | Some nym \<Rightarrow>
                    (case get_user_by_nym nym (sd_users db) of
                       None \<Rightarrow> (Inl (ClaimError (''user not found: '' @ nym)), db)
                     | Some u \<Rightarrow>
                        if u_next_addr_idx u < 0 then (Inl (ClaimError ''address index overflow''), db)
                        else (case ce_derive env (u_ct_descriptor u) (nat (u_next_addr_idx u)) of
                          Inl e \<Rightarrow> (Inl e, db)
                        | Inr derived \<Rightarrow> (Inr derived,
                            db\<lparr>sd_users := fst (update_where (\<lambda>x. u_nym x = nym)
                                 (\<lambda>x. x\<lparr>u_next_addr_idx := u_next_addr_idx x + 1\<rparr>) (sd_users db)),
                               sd_swaps := write_claim_address (sr_id swap) derived (Some (u_next_addr_idx u)) (sd_swaps db)\<rparr>)))))))"

subsection \<open>Constructing and recovering\<close>

definition construct_claim_tx :: "claim_env \<Rightarrow> swap_record \<Rightarrow> string \<Rightarrow> bool \<Rightarrow> app_error + btc_like_tx" where
  "construct_claim_tx env swap addr cooperative =
    (case sr_preimage_hex swap of
       None \<Rightarrow> Inl (ClaimError ''missing preimage'')
     | Some p \<Rightarrow> (case sr_claim_key_hex swap of
         None \<Rightarrow> Inl (ClaimError ''missing claim key'')
       | Some k \<Rightarrow> (case sr_boltz_response_json swap of
           None \<Rightarrow> Inl (ClaimError ''missing boltz response'')
         | Some j \<Rightarrow> ce_build env p k j (sr_boltz_swap_id swap) addr cooperative)))"

definition ascii_lower :: "string \<Rightarrow> string" where
  "ascii_lower = map (\<lambda>c. let n = (of_char c :: nat) in if 65 \<le> n \<and> n \<le> 90 then char_of (n + 32) else c)"

definition is_cooperative_refusal :: "app_error \<Rightarrow> bool" where
  "is_cooperative_refusal err =
    (let s = ascii_lower (error_text err) in
     str_contains ''swap expired'' s \<or> str_contains ''invalid preimage'' s
     \<or> str_contains ''cooperative claim disabled'' s \<or> str_contains ''cooperative signing disabled'' s
     \<or> str_contains ''not eligible for cooperative'' s)"

definition spending_tx_matches_claim_destination :: "liquid_tx \<Rightarrow> liquid_tx \<Rightarrow> bool" where
  "spending_tx_matches_claim_destination spending claim \<longleftrightarrow>
    list_ex (\<lambda>out. out \<noteq> [] \<and> list_ex (\<lambda>o'. o' = out) (lt_outputs spending)) (lt_outputs claim)"

definition recover_claim_from_lockup_spend ::
  "utxo_backend \<Rightarrow> btc_like_tx \<Rightarrow> app_error + string option" where
  "recover_claim_from_lockup_spend b claim_tx =
    (case claim_tx of
       BitcoinTx r \<Rightarrow> Inr None
     | LiquidTx tx \<Rightarrow>
        (case lt_inputs tx of
           [] \<Rightarrow> Inl (ClaimError ''claim tx has no input for outspend recovery'')
         | (lockup_txid, vout) # rest \<Rightarrow>
            (case ub_get_raw_tx b lockup_txid of
               Inl e \<Rightarrow> Inl e
             | Inr raw \<Rightarrow>
                (case ub_decode_tx b raw of
                   Inl e \<Rightarrow> Inl (ClaimError (''decode lockup tx: '' @ e))
                 | Inr lockup \<Rightarrow>
                    if length (lt_outputs lockup) \<le> vout
                    then Inl (ClaimError (''lockup vout '' @ show_nat vout @ '' missing''))
                    else (case ub_find_spending_txid b (lt_outputs lockup ! vout) lockup_txid vout of
                       Inl e \<Rightarrow> Inl e
                     | Inr None \<Rightarrow> Inr None
                     | Inr (Some spender) \<Rightarrow>
                        (case ub_get_raw_tx b spender of
                           Inl e \<Rightarrow> Inl e
                         | Inr raw2 \<Rightarrow>
                            (case ub_decode_tx b raw2 of
                               Inl e \<Rightarrow> Inl (ClaimError (''decode spending tx: '' @ e))
                             | Inr spending \<Rightarrow>
                                if spending_tx_matches_claim_destination spending tx then Inr (Some spender)
                                else Inl (ClaimError (''lockup spent by '' @ spender
                                       @ '', but spender does not pay the claim destination'')))))))))"

text \<open>Broadcast, and the probes when it errors.  The result is the txid that pays the merchant.\<close>
definition confirm_broadcast ::
  "tx_codec \<Rightarrow> claim_env \<Rightarrow> string \<Rightarrow> btc_like_tx \<Rightarrow> app_error + string" where
  "confirm_broadcast c env what tx =
    (case ce_electrum env of
       Some e \<Rightarrow> Inl (ClaimError (''electrum connection failed: '' @ e))
     | None \<Rightarrow>
        (case ce_broadcast env tx of
           None \<Rightarrow> Inr (tc_txid c tx)
         | Some err \<Rightarrow>
            (let failed = Inl (ClaimError (what @ '' failed: '' @ err)) in
             case ce_backend env of
               None \<Rightarrow> failed
             | Some b \<Rightarrow>
                (case ub_tx_exists b (tc_txid c tx) of
                   Inl e \<Rightarrow> failed
                 | Inr True \<Rightarrow> Inr (tc_txid c tx)
                 | Inr False \<Rightarrow>
                    (case recover_claim_from_lockup_spend b tx of
                       Inr (Some spender) \<Rightarrow> Inr spender
                     | Inr None \<Rightarrow> failed
                     | Inl e \<Rightarrow> failed)))))"

end
