(* ===== verification/AllocationProperties.thy ===== *)
theory AllocationProperties
  imports UserProperties PosProperties Settlement
begin

text \<open>
  No index of a descriptor is handed out twice.  The indices come from five places: the
  allocators of invoices for a nym, a payment page and a terminal, and the claims of Lightning
  payments, through \<open>allocate_address_index\<close> and \<open>resolve_claim_address\<close>.  They run in any
  order between all the other statements that write the users and the pages tables:
  registrations, descriptor changes, purges, the chain watcher's advances, page edits,
  archivals and pairings.  A reservation (\<open>allocate_outpoint_address\<close>) takes no index: it notes the
  one the cursor stands at, by design the same for every proof until it is paid.
\<close>

subsection \<open>The sources\<close>

text \<open>The cursor columns: of a user, for the sales of a page, and for those of its terminals.\<close>
datatype address_source = Nym_source string | Page_source string | Till_source string

text \<open>A page cursor is an i32 that wraps: once negative, no address is derived from it any more.\<close>
definition progress :: "int \<Rightarrow> int" where
  "progress c = (if c < 0 then i32_max + 1 else c)"

definition cursor_of_page :: "(donation_page \<Rightarrow> int) \<Rightarrow> string \<Rightarrow> donation_page list \<Rightarrow> int" where
  "cursor_of_page col nym ps = (case get_donation_page_by_nym nym ps of None \<Rightarrow> 0 | Some p \<Rightarrow> progress (col p))"

fun cursor_level :: "address_source \<Rightarrow> user_store \<times> pos_store \<Rightarrow> int" where
  "cursor_level (Nym_source n) s = (case get_user_by_nym n (us_users (fst s)) of None \<Rightarrow> 0 | Some u \<Rightarrow> u_next_addr_idx u)"
| "cursor_level (Page_source n) s = cursor_of_page dp_next_addr_idx n (po_pages (snd s))"
| "cursor_level (Till_source n) s = cursor_of_page dp_pos_next_addr_idx n (po_pages (snd s))"

definition pages_ok :: "donation_page list \<Rightarrow> bool" where
  "pages_ok ps \<longleftrightarrow> distinct (map dp_nym ps) \<and> (\<forall>p\<in>set ps. dp_next_addr_idx p \<le> i32_max \<and> dp_pos_next_addr_idx p \<le> i32_max)"

definition taken :: "address_source \<Rightarrow> int option \<Rightarrow> (address_source \<times> int) option" where
  "taken k r = map_option (\<lambda>i. (k, i)) r"

lemma taken_iff: "Some (k, i) = taken k' r \<longleftrightarrow> k = k' \<and> r = Some i"
  by (cases r) (auto simp: taken_def)

text \<open>The index a claim takes from the cursor of its nym, when it does.\<close>
definition resolved_index :: "swap_record \<Rightarrow> settlement_db \<Rightarrow> settlement_db \<Rightarrow> (address_source \<times> int) option" where
  "resolved_index swap db db' = (case sr_nym swap of None \<Rightarrow> None | Some n \<Rightarrow>
     if sd_users db' = sd_users db then None
     else taken (Nym_source n) (map_option u_next_addr_idx (get_user_by_nym n (sd_users db))))"

text \<open>One statement on the users or the pages table, with the index it hands out.\<close>
inductive hands_out ::
  "user_store \<times> pos_store \<Rightarrow> (address_source \<times> int) option \<Rightarrow> user_store \<times> pos_store \<Rightarrow> bool" where
  ho_invoice: "allocate_next_liquid_for_active_nym derive n pas (us_users us) = (r, us') \<Longrightarrow>
     addr_cursor n (us_users us) + 100 \<le> i32_max \<Longrightarrow>
     hands_out (us, ps) (taken (Nym_source n) (nym_index_of r)) (us\<lparr>us_users := us'\<rparr>, ps)"
| ho_lightning: "allocate_address_index n (us_users us) = (r, us') \<Longrightarrow>
     hands_out (us, ps) (taken (Nym_source n) r) (us\<lparr>us_users := us'\<rparr>, ps)"
| ho_claim: "resolve_claim_address env swap db = (x, db') \<Longrightarrow> sd_users db = us_users us \<Longrightarrow>
     hands_out (us, ps) (resolved_index swap db db') (us\<lparr>us_users := sd_users db'\<rparr>, ps)"
| ho_user: "user_step us us' \<Longrightarrow> hands_out (us, ps) None (us', ps)"
| ho_page: "allocate_next_liquid_for_donation_page derive n pas (po_pages ps) = (r, rows) \<Longrightarrow>
     hands_out (us, ps) (taken (Page_source n) (index_of r)) (us, ps\<lparr>po_pages := rows\<rparr>)"
| ho_till: "allocate_next_liquid_for_pos_terminal derive n pas (po_pages ps) = (r, rows) \<Longrightarrow>
     hands_out (us, ps) (taken (Till_source n) (index_of r)) (us, ps\<lparr>po_pages := rows\<rparr>)"
| ho_image: "update_donation_page_image_hash n col sha (po_pages ps) = Inr (row, rows) \<Longrightarrow>
     hands_out (us, ps) None (us, ps\<lparr>po_pages := rows\<rparr>)"
| ho_pos: "pos_step ps ps' \<Longrightarrow> hands_out (us, ps) None (us, ps')"

subsection \<open>The users table\<close>

text \<open>What an update of the users table has to keep.\<close>
definition users_forward :: "user list \<Rightarrow> user list \<Rightarrow> bool" where
  "users_forward us us' \<longleftrightarrow> users_ok us' \<and> (\<forall>u\<in>set us. \<exists>u'\<in>set us'. u_nym u' = u_nym u \<and> u_next_addr_idx u \<le> u_next_addr_idx u')"

lemma user_by_nym: "users_ok us \<Longrightarrow> get_user_by_nym n us = Some u \<longleftrightarrow> u \<in> set us \<and> u_nym u = n"
  unfolding get_user_by_nym_def by (rule select_one_key_iff[OF users_ok_nyms])

lemma active_by_nym: "users_ok us \<Longrightarrow> get_active_user_by_nym n us = Some u \<longleftrightarrow> get_user_by_nym n us = Some u \<and> u_is_active u"
  using select_one_guarded[OF users_ok_nyms, of us n u_is_active]
  by (auto simp: get_active_user_by_nym_def get_user_by_nym_def split: option.splits)

lemma users_forward_step: "user_step s s' \<Longrightarrow> users_ok (us_users s) \<Longrightarrow> users_forward (us_users s) (us_users s')"
  using user_step_ok[of s s'] user_step_evolves[of s s'] by (fastforce simp: users_forward_def user_evolves_def)

lemma users_forward_set:
  assumes "users_ok us" "\<And>u. u \<in> set us \<Longrightarrow> P u \<Longrightarrow> u_next_addr_idx u \<le> f u" "\<And>u. P u \<Longrightarrow> 0 \<le> u_next_addr_idx u \<Longrightarrow> 0 \<le> f u"
  shows "users_forward us (fst (update_where P (\<lambda>u. u\<lparr>u_next_addr_idx := f u\<rparr>) us))"
proof -
  have "users_ok (fst (update_where P (\<lambda>u. u\<lparr>u_next_addr_idx := f u\<rparr>) us))"
    using assms(3) by (intro users_ok_quiet[OF assms(1)]) auto
  moreover have "\<exists>u'\<in>set (fst (update_where P (\<lambda>u. u\<lparr>u_next_addr_idx := f u\<rparr>) us)).
      u_nym u' = u_nym u \<and> u_next_addr_idx u \<le> u_next_addr_idx u'" if "u \<in> set us" for u
    using that assms(2) by (intro update_where_evolves) auto
  ultimately show ?thesis by (simp add: users_forward_def)
qed

lemma users_level:
  assumes "users_ok (us_users us)" "users_forward (us_users us) us'"
  shows "cursor_level k (us, ps) \<le> cursor_level k (us\<lparr>us_users := us'\<rparr>, ps)"
proof (cases k)
  case (Nym_source n)
  have ok: "users_ok us'" using assms(2) by (simp add: users_forward_def)
  show ?thesis
  proof (cases "get_user_by_nym n (us_users us)")
    case None
    have "0 \<le> u_next_addr_idx u" if "get_user_by_nym n us' = Some u" for u
      using that ok by (simp add: user_by_nym) (simp add: users_ok_def)
    then show ?thesis using None by (simp add: Nym_source split: option.split)
  next
    case (Some u)
    then obtain u' where "u' \<in> set us'" "u_nym u' = n" "u_next_addr_idx u \<le> u_next_addr_idx u'"
      using assms by (auto simp: user_by_nym users_forward_def)
    then have "get_user_by_nym n us' = Some u'" using ok by (simp add: user_by_nym)
    then show ?thesis using Some \<open>u_next_addr_idx u \<le> u_next_addr_idx u'\<close> by (simp add: Nym_source)
  qed
qed simp_all

lemma get_user_updated:
  "get_user_by_nym n us = Some u \<Longrightarrow>
   get_user_by_nym n (fst (update_where (\<lambda>x. u_nym x = n) (\<lambda>u. u\<lparr>u_next_addr_idx := f u\<rparr>) us)) = Some (u\<lparr>u_next_addr_idx := f u\<rparr>)"
  by (simp add: get_user_by_nym_def select_one_update_all)

lemma invoice_allocation:
  assumes "allocate_next_liquid_for_active_nym derive n pas us = (r, us')" "addr_cursor n us + 100 \<le> i32_max" "users_ok us"
  shows "users_forward us us'"
    "nym_index_of r = Some i \<Longrightarrow> \<exists>u. get_user_by_nym n us = Some u \<and> u_next_addr_idx u \<le> i
       \<and> get_user_by_nym n us' = Some (u\<lparr>u_next_addr_idx := i + 1\<rparr>)"
proof -
  have "users_forward us us' \<and> (\<forall>i. nym_index_of r = Some i \<longrightarrow> (\<exists>u. get_user_by_nym n us = Some u \<and> u_next_addr_idx u \<le> i
       \<and> get_user_by_nym n us' = Some (u\<lparr>u_next_addr_idx := i + 1\<rparr>)))"
  proof (cases "get_active_user_by_nym n us")
    case None
    then show ?thesis
      using assms by (auto simp: allocate_next_liquid_for_active_nym_def Let_def nym_index_of_def users_forward_def)
  next
    case (Some u)
    then have u: "get_user_by_nym n us = Some u" using assms(3) by (simp add: active_by_nym)
    have only: "v = u" if "v \<in> set us" "u_nym v = n" for v using u that user_by_nym[OF assms(3), of n v] by simp
    have c: "u_next_addr_idx u + 100 \<le> i32_max" "0 \<le> u_next_addr_idx u"
      using assms(2,3) Some u by (auto simp: addr_cursor_def user_by_nym users_ok_def)
    have forward: "users_forward us (fst (update_where (\<lambda>x. u_nym x = n) (\<lambda>x. x\<lparr>u_next_addr_idx := j\<rparr>) us))"
      if "u_next_addr_idx u \<le> j" for j
      using that c only by (intro users_forward_set[OF assms(3)]) auto
    have same: "users_forward us us" using assms(3) by (auto simp: users_forward_def)
    show ?thesis
    proof (cases "alloc_loop derive (liquid_in_use pas) (u_ct_descriptor u) 100 (u_next_addr_idx u)")
      case (AllocFound a j)
      then have eqs: "r = Inr (Some (a, j))" "us' = fst (update_where (\<lambda>x. u_nym x = n) (\<lambda>x. x\<lparr>u_next_addr_idx := j + 1\<rparr>) us)"
        using assms(1) Some loop_cursor(1)[OF c(1) AllocFound]
        by (simp_all add: allocate_next_liquid_for_active_nym_def Let_def)
      show ?thesis
        using loop_cursor(1)[OF c(1) AllocFound] forward[of "j + 1"] u get_user_updated[OF u]
        by (auto simp: eqs nym_index_of_def)
    next
      case (AllocErr e)
      then show ?thesis
        using assms(1) Some same by (auto simp: allocate_next_liquid_for_active_nym_def Let_def nym_index_of_def)
    next
      case (AllocExhausted j)
      then have eqs: "nym_index_of r = None" "us' = fst (update_where (\<lambda>x. u_nym x = n) (\<lambda>x. x\<lparr>u_next_addr_idx := j\<rparr>) us)"
        using assms(1) Some by (auto simp: allocate_next_liquid_for_active_nym_def Let_def nym_index_of_def)
      show ?thesis using loop_cursor(2)[OF c(1) AllocExhausted] forward[of j] by (simp add: eqs)
    qed
  qed
  then show "users_forward us us'"
    "nym_index_of r = Some i \<Longrightarrow> \<exists>u. get_user_by_nym n us = Some u \<and> u_next_addr_idx u \<le> i
       \<and> get_user_by_nym n us' = Some (u\<lparr>u_next_addr_idx := i + 1\<rparr>)" by blast+
qed

lemma lightning_allocation:
  assumes "allocate_address_index n us = (Some i, us')" "users_ok us"
  shows "\<exists>u. get_user_by_nym n us = Some u \<and> u_next_addr_idx u = i \<and> get_user_by_nym n us' = Some (u\<lparr>u_next_addr_idx := i + 1\<rparr>)"
proof -
  obtain u where u: "get_active_user_by_nym n us = Some u" "u_next_addr_idx u = i"
    using assms(1) by (auto simp: allocate_address_index_def Let_def get_active_user_by_nym_def)
  then have "get_user_by_nym n us = Some u" "u_is_active u" using assms(2) by (simp_all add: active_by_nym)
  then show ?thesis
    using assms(1) u(2) select_one_update_key[of u_nym "\<lambda>u. u\<lparr>u_next_addr_idx := u_next_addr_idx u + 1\<rparr>" n n u_is_active us]
    by (auto simp: allocate_address_index_def Let_def get_user_by_nym_def)
qed

lemma claim_allocation:
  assumes "resolve_claim_address env swap db = (x, db')" "users_ok (sd_users db)"
  shows "users_forward (sd_users db) (sd_users db')"
    "resolved_index swap db db' = Some (k, i) \<Longrightarrow> \<exists>n u. k = Nym_source n \<and> get_user_by_nym n (sd_users db) = Some u
       \<and> u_next_addr_idx u = i \<and> get_user_by_nym n (sd_users db') = Some (u\<lparr>u_next_addr_idx := i + 1\<rparr>)"
proof -
  have taken: "sd_users db' = sd_users db \<or> (\<exists>n. sr_nym swap = Some n \<and> get_user_by_nym n (sd_users db) \<noteq> None \<and> sd_users db'
      = fst (update_where (\<lambda>x. u_nym x = n) (\<lambda>x. x\<lparr>u_next_addr_idx := u_next_addr_idx x + 1\<rparr>) (sd_users db)))"
    using assms(1) by (auto simp: resolve_claim_address_def split: option.splits if_splits sum.splits)
  then show "users_forward (sd_users db) (sd_users db')"
    using users_forward_set[OF assms(2), of _ "\<lambda>u. u_next_addr_idx u + 1"] assms(2) by (auto simp: users_forward_def)
  show "\<exists>n u. k = Nym_source n \<and> get_user_by_nym n (sd_users db) = Some u
       \<and> u_next_addr_idx u = i \<and> get_user_by_nym n (sd_users db') = Some (u\<lparr>u_next_addr_idx := i + 1\<rparr>)"
    if handed: "resolved_index swap db db' = Some (k, i)"
  proof -
    obtain n u where n: "sr_nym swap = Some n" "sd_users db' \<noteq> sd_users db" "get_user_by_nym n (sd_users db) = Some u"
        "k = Nym_source n" "i = u_next_addr_idx u"
      using handed by (auto simp: resolved_index_def taken_def split: option.splits if_splits)
    then show ?thesis using taken get_user_updated[OF n(3)] by auto
  qed
qed

subsection \<open>The pages table\<close>

definition page_behind :: "donation_page \<Rightarrow> donation_page \<Rightarrow> bool" where
  "page_behind p p' \<longleftrightarrow> dp_nym p' = dp_nym p \<and> progress (dp_next_addr_idx p) \<le> progress (dp_next_addr_idx p')
     \<and> progress (dp_pos_next_addr_idx p) \<le> progress (dp_pos_next_addr_idx p')"

lemma page_behind_trans: "page_behind p q \<Longrightarrow> page_behind q r \<Longrightarrow> page_behind p r"
  by (auto simp: page_behind_def)

definition pages_forward :: "donation_page list \<Rightarrow> donation_page list \<Rightarrow> bool" where
  "pages_forward ps ps' \<longleftrightarrow> pages_ok ps' \<and> (\<forall>p\<in>set ps. \<exists>p'\<in>set ps'. page_behind p p')"

lemma pages_forward_refl: "pages_ok ps \<Longrightarrow> pages_forward ps ps"
  by (auto simp: pages_forward_def page_behind_def)

lemma pages_forward_trans: "pages_forward ps qs \<Longrightarrow> pages_forward qs rs \<Longrightarrow> pages_forward ps rs"
  unfolding pages_forward_def by (meson page_behind_trans)

lemma pages_forward_update:
  assumes "pages_ok ps" "\<And>p. dp_nym (f p) = dp_nym p"
    and "\<And>p. p \<in> set ps \<Longrightarrow> P p \<Longrightarrow> dp_next_addr_idx (f p) \<le> i32_max \<and> dp_pos_next_addr_idx (f p) \<le> i32_max
       \<and> progress (dp_next_addr_idx p) \<le> progress (dp_next_addr_idx (f p))
       \<and> progress (dp_pos_next_addr_idx p) \<le> progress (dp_pos_next_addr_idx (f p))"
  shows "pages_forward ps (fst (update_where P f ps))"
  unfolding pages_forward_def
proof (intro conjI ballI)
  show "pages_ok (fst (update_where P f ps))"
    using assms by (auto simp: pages_ok_def pages_nyms_update) (auto simp: tables)
next
  fix p assume p: "p \<in> set ps"
  show "\<exists>p'\<in>set (fst (update_where P f ps)). page_behind p p'"
    using update_where_evolves[of p ps dp_nym f P page_behind] p assms(2) assms(3)[OF p] by (auto simp: page_behind_def)
qed

lemma pages_forward_insert: "pages_ok ps \<Longrightarrow> \<not> row_exists (\<lambda>p. dp_nym p = up_nym u) ps \<Longrightarrow> pages_forward ps (ps @ [page_of_upsert u])"
  by (auto simp: pages_forward_def pages_ok_def page_behind_def page_of_upsert_def i32_max_def tables)

text \<open>The two page allocators run one loop; what it does to the cursor it started from.\<close>
lemma loop_progress:
  assumes "c \<le> i32_max"
  shows "alloc_loop derive in_use d n c = AllocFound a i \<Longrightarrow>
      progress c \<le> i \<and> i < progress (as_i32 (i + 1)) \<and> as_i32 (i + 1) \<le> i32_max"
    and "alloc_loop derive in_use d n c = AllocExhausted i \<Longrightarrow> progress c \<le> progress i \<and> i \<le> i32_max"
proof -
  have bound: "as_i32 (k + 1) \<le> i32_max" for k by (simp add: as_i32_def i32_max_def)
  have succ: "k < progress (as_i32 (k + 1))" if "k \<le> i32_max" "0 \<le> k" for k
  proof (cases "k = i32_max")
    case True
    then show ?thesis by (simp add: progress_def as_i32_def i32_max_def)
  next
    case False
    then show ?thesis using that by (simp add: progress_def i32_min_def)
  qed
  have "(alloc_loop derive in_use d n c = AllocFound a i \<longrightarrow>
      progress c \<le> i \<and> i < progress (as_i32 (i + 1)) \<and> as_i32 (i + 1) \<le> i32_max)
    \<and> (alloc_loop derive in_use d n c = AllocExhausted i \<longrightarrow> progress c \<le> progress i \<and> i \<le> i32_max)"
    using assms
  proof (induction n arbitrary: c)
    case (Suc n)
    show ?case
    proof (cases "0 \<le> c")
      case True
      then have "progress c \<le> progress (as_i32 (c + 1))" using succ[OF Suc.prems True] by (simp add: progress_def)
      then show ?thesis
        using Suc.IH[OF bound, of c] succ[OF Suc.prems True] True bound Suc.prems
        by (auto simp: progress_def split: sum.splits)
    qed simp
  qed simp
  then show "alloc_loop derive in_use d n c = AllocFound a i \<Longrightarrow>
      progress c \<le> i \<and> i < progress (as_i32 (i + 1)) \<and> as_i32 (i + 1) \<le> i32_max"
    and "alloc_loop derive in_use d n c = AllocExhausted i \<Longrightarrow> progress c \<le> progress i \<and> i \<le> i32_max" by blast+
qed

lemma page_by_nym: "pages_ok ps \<Longrightarrow> get_donation_page_by_nym n ps = Some p \<longleftrightarrow> p \<in> set ps \<and> dp_nym p = n"
  unfolding get_donation_page_by_nym_def pages_ok_def by (intro select_one_key_iff) blast

lemma get_page_updated:
  "get_donation_page_by_nym n ps = Some p \<Longrightarrow> (\<And>p. dp_nym (f p) = dp_nym p) \<Longrightarrow>
   get_donation_page_by_nym n (fst (update_where (\<lambda>p. dp_nym p = n) f ps)) = Some (f p)"
  by (simp add: get_donation_page_by_nym_def select_one_update_all)

lemma page_level:
  assumes "pages_ok ps" "pages_forward ps ps'" "col = dp_next_addr_idx \<or> col = dp_pos_next_addr_idx"
  shows "cursor_of_page col n ps \<le> cursor_of_page col n ps'"
proof (cases "get_donation_page_by_nym n ps")
  case None
  then show ?thesis by (simp add: cursor_of_page_def progress_def i32_max_def split: option.split)
next
  case (Some p)
  then obtain p' where "p' \<in> set ps'" "dp_nym p' = n" "progress (col p) \<le> progress (col p')"
    using assms by (fastforce simp: page_by_nym pages_forward_def page_behind_def)
  moreover have "pages_ok ps'" using assms(2) by (simp add: pages_forward_def)
  ultimately show ?thesis using Some by (simp add: cursor_of_page_def page_by_nym[THEN iffD2])
qed

lemma guarded_page:
  assumes "pages_ok ps" "select_one (\<lambda>p. dp_nym p = n \<and> dp_archived_at p = None \<and> Q p) ps = Some p"
  shows "get_donation_page_by_nym n ps = Some p" "p \<in> set ps" "dp_nym p = n"
    "q \<in> set ps \<Longrightarrow> dp_nym q = n \<Longrightarrow> q = p"
proof -
  show "p \<in> set ps" "dp_nym p = n" using select_one_SomeD[OF assms(2)] by blast+
  then show p: "get_donation_page_by_nym n ps = Some p" using assms(1) by (simp add: page_by_nym)
  show "q \<in> set ps \<Longrightarrow> dp_nym q = n \<Longrightarrow> q = p" using p page_by_nym[OF assms(1), of n q] by simp
qed

text \<open>Moving one of the two cursors of a page.\<close>
lemma moved_cursor:
  assumes "pages_ok ps" "get_donation_page_by_nym n ps = Some p"
    and "col = dp_next_addr_idx \<and> set_col = (\<lambda>j p. p\<lparr>dp_next_addr_idx := j\<rparr>)
      \<or> col = dp_pos_next_addr_idx \<and> set_col = (\<lambda>j p. p\<lparr>dp_pos_next_addr_idx := j\<rparr>)"
    and "progress (col p) \<le> progress j" "j \<le> i32_max"
  shows "pages_forward ps (fst (update_where (\<lambda>p. dp_nym p = n) (set_col j) ps))
    \<and> cursor_of_page col n ps = progress (col p)
    \<and> cursor_of_page col n (fst (update_where (\<lambda>p. dp_nym p = n) (set_col j) ps)) = progress j"
proof -
  have fields: "dp_nym (set_col j q) = dp_nym q" "col (set_col j q) = j" for q using assms(3) by auto
  have only: "q = p" if "q \<in> set ps" "dp_nym q = n" for q using assms(2) that page_by_nym[OF assms(1), of n q] by simp
  have "pages_forward ps (fst (update_where (\<lambda>p. dp_nym p = n) (set_col j) ps))"
    using assms(1,3,4,5) only fields(1) by (intro pages_forward_update) (auto simp: pages_ok_def)
  then show ?thesis using assms(2) get_page_updated[OF assms(2) fields(1)] fields(2) by (simp add: cursor_of_page_def)
qed

text \<open>Both allocators: the table moves forward, and an index lies between the old and the new cursor.\<close>
lemma page_allocation:
  assumes "allocate_next_liquid_for_donation_page derive n pas ps = (r, ps')" "pages_ok ps"
  shows "pages_forward ps ps' \<and> (index_of r = Some i \<longrightarrow>
      cursor_of_page dp_next_addr_idx n ps \<le> i \<and> i < cursor_of_page dp_next_addr_idx n ps')"
proof (cases "select_one (\<lambda>p. dp_nym p = n \<and> dp_archived_at p = None \<and> dp_ct_descriptor p \<noteq> None) ps")
  case None
  then show ?thesis using assms by (auto simp: allocate_next_liquid_for_donation_page_def Let_def index_of_def pages_forward_refl)
next
  case (Some p)
  note p = guarded_page(1)[OF assms(2) Some]
  have c: "dp_next_addr_idx p \<le> i32_max" using guarded_page(2)[OF assms(2) Some] assms(2) by (simp add: pages_ok_def)
  note moved = moved_cursor[OF assms(2) p, of dp_next_addr_idx "\<lambda>j p. p\<lparr>dp_next_addr_idx := j\<rparr>"]
  show ?thesis
  proof (cases "alloc_loop derive (liquid_in_use pas) (the (dp_ct_descriptor p)) 100 (dp_next_addr_idx p)")
    case (AllocFound a j)
    have eqs: "r = Inr (Some (a, j, the (dp_ct_descriptor p)))"
      "ps' = fst (update_where (\<lambda>p. dp_nym p = n) (\<lambda>p. p\<lparr>dp_next_addr_idx := as_i32 (j + 1)\<rparr>) ps)"
      using assms(1) Some AllocFound by (simp_all add: allocate_next_liquid_for_donation_page_def Let_def)
    show ?thesis using loop_progress(1)[OF c AllocFound] moved[of "as_i32 (j + 1)"] by (auto simp: eqs index_of_def)
  next
    case (AllocErr e)
    then show ?thesis
      using assms Some by (auto simp: allocate_next_liquid_for_donation_page_def Let_def index_of_def pages_forward_refl)
  next
    case (AllocExhausted j)
    have eqs: "index_of r = None" "ps' = fst (update_where (\<lambda>p. dp_nym p = n) (\<lambda>p. p\<lparr>dp_next_addr_idx := j\<rparr>) ps)"
      using assms(1) Some AllocExhausted by (auto simp: allocate_next_liquid_for_donation_page_def Let_def index_of_def)
    show ?thesis using loop_progress(2)[OF c AllocExhausted] moved[of j] by (simp add: eqs)
  qed
qed

lemma till_allocation:
  assumes "allocate_next_liquid_for_pos_terminal derive n pas ps = (r, ps')" "pages_ok ps"
  shows "pages_forward ps ps' \<and> (index_of r = Some i \<longrightarrow>
      cursor_of_page dp_pos_next_addr_idx n ps \<le> i \<and> i < cursor_of_page dp_pos_next_addr_idx n ps')"
proof (cases "select_one (\<lambda>p. dp_nym p = n \<and> dp_archived_at p = None \<and> dp_pos_ct_descriptor p \<noteq> None) ps")
  case None
  then show ?thesis using assms by (auto simp: allocate_next_liquid_for_pos_terminal_def Let_def index_of_def pages_forward_refl)
next
  case (Some p)
  note p = guarded_page(1)[OF assms(2) Some]
  have c: "dp_pos_next_addr_idx p \<le> i32_max" using guarded_page(2)[OF assms(2) Some] assms(2) by (simp add: pages_ok_def)
  note moved = moved_cursor[OF assms(2) p, of dp_pos_next_addr_idx "\<lambda>j p. p\<lparr>dp_pos_next_addr_idx := j\<rparr>"]
  show ?thesis
  proof (cases "alloc_loop derive (liquid_in_use pas) (the (dp_pos_ct_descriptor p)) 100 (dp_pos_next_addr_idx p)")
    case (AllocFound a j)
    have eqs: "r = Inr (Some (a, j, the (dp_pos_ct_descriptor p)))"
      "ps' = fst (update_where (\<lambda>p. dp_nym p = n) (\<lambda>p. p\<lparr>dp_pos_next_addr_idx := as_i32 (j + 1)\<rparr>) ps)"
      using assms(1) Some AllocFound by (simp_all add: allocate_next_liquid_for_pos_terminal_def Let_def)
    show ?thesis using loop_progress(1)[OF c AllocFound] moved[of "as_i32 (j + 1)"] by (auto simp: eqs index_of_def)
  next
    case (AllocErr e)
    then show ?thesis
      using assms Some by (auto simp: allocate_next_liquid_for_pos_terminal_def Let_def index_of_def pages_forward_refl)
  next
    case (AllocExhausted j)
    have eqs: "index_of r = None" "ps' = fst (update_where (\<lambda>p. dp_nym p = n) (\<lambda>p. p\<lparr>dp_pos_next_addr_idx := j\<rparr>) ps)"
      using assms(1) Some AllocExhausted by (auto simp: allocate_next_liquid_for_pos_terminal_def Let_def index_of_def)
    show ?thesis using loop_progress(2)[OF c AllocExhausted] moved[of j] by (simp add: eqs)
  qed
qed

lemma upsert_forward: "pages_ok ps \<Longrightarrow> pages_forward ps (upsert_donation_page u ps)"
  unfolding upsert_donation_page_def
  by (simp add: pages_forward_insert)
    (auto simp: pages_ok_def intro!: pages_forward_update)

lemma claim_forward:
  assumes "claim_pos_pairing now nym code npub label d s = Inr (r, s')" "pages_ok (po_pages s)"
  shows "pages_forward (po_pages s) (po_pages s')"
  using assms(1)
proof (cases rule: claim_cases)
  case none
  then show ?thesis by (simp add: pages_forward_refl[OF assms(2)])
next
  case (claimed pending pages)
  have placed: "pages_forward (po_pages s) (placeholder_page nym (po_pages s))"
    using pages_forward_refl[OF assms(2)] pages_forward_insert[OF assms(2)] by (simp add: placeholder_page_def)
  then have ok: "pages_ok (placeholder_page nym (po_pages s))" by (simp add: pages_forward_def)
  have "pages_forward (placeholder_page nym (po_pages s)) pages"
    using claimed(2) pages_forward_refl[OF ok] ok
    by (auto simp: pin_pos_descriptor_def pages_ok_def intro!: pages_forward_update split: option.splits if_splits)
  then show ?thesis using pages_forward_trans[OF placed] claimed(3) by simp
qed

lemma pos_forward: "pos_step s s' \<Longrightarrow> pages_ok (po_pages s) \<Longrightarrow> pages_forward (po_pages s) (po_pages s')"
proof (induction rule: pos_step.induct)
  case (ps_claim now nym code npub label d s r s')
  then show ?case by (rule claim_forward)
next
  case (ps_allocate derive nym pas s r ps)
  then show ?case using till_allocation by simp
next
  case (ps_archive s now nym)
  then show ?case
    unfolding archive_donation_page_def Let_def by (auto simp: pages_ok_def intro!: pages_forward_update)
qed (simp_all add: pages_forward_refl upsert_forward)

lemma image_forward:
  "update_donation_page_image_hash n col sha ps = Inr (row, ps') \<Longrightarrow> pages_ok ps \<Longrightarrow> pages_forward ps ps'"
  by (auto simp: update_donation_page_image_hash_def Let_def pages_ok_def intro!: pages_forward_update split: if_splits)

subsection \<open>No index twice\<close>

definition cursors_ok :: "user_store \<times> pos_store \<Rightarrow> bool" where
  "cursors_ok s \<longleftrightarrow> users_ok (us_users (fst s)) \<and> pages_ok (po_pages (snd s))"

text \<open>What one statement does to the two tables.\<close>
lemma hands_out_forward:
  assumes "hands_out s r t" "cursors_ok s"
  shows "users_forward (us_users (fst s)) (us_users (fst t)) \<and> pages_forward (po_pages (snd s)) (po_pages (snd t))"
  using assms
proof (induction rule: hands_out.induct)
  case (ho_lightning n us r us' ps)
  then show ?case
    using users_forward_step[OF step_allocate[OF ho_lightning(1)]] by (simp add: cursors_ok_def pages_forward_refl)
qed (auto simp: cursors_ok_def pages_forward_refl users_forward_step pos_forward
    users_forward_def[of us us for us] dest: invoice_allocation(1) claim_allocation(1) page_allocation
    till_allocation image_forward)

interpretation liquid: index_source cursors_ok cursor_level hands_out
proof (unfold_locales, goal_cases)
  case (1 s r t)
  then show ?case using hands_out_forward[OF 1] by (simp add: cursors_ok_def users_forward_def pages_forward_def)
next
  case (2 s r t k)
  note forward = hands_out_forward[OF 2]
  show ?case
  proof (cases k)
    case (Nym_source n)
    then show ?thesis
      using users_level[of "fst s" "us_users (fst t)" k "snd s"] forward 2(2) by (simp add: cursors_ok_def)
  qed (use forward 2(2) in \<open>simp_all add: page_level cursors_ok_def\<close>)
next
  case (3 s k i t)
  from 3 have ok: "cursors_ok s" by blast
  from 3(1) show ?case
  proof (cases rule: hands_out.cases)
    case (ho_invoice derive n pas us r us' ps)
    then have "k = Nym_source n" "nym_index_of r = Some i" by (simp_all add: taken_iff)
    then show ?thesis
      using ok ho_invoice invoice_allocation(2)[OF ho_invoice(4,5), of i] by (auto simp: cursors_ok_def)
  next
    case (ho_lightning n us r us' ps)
    then have "k = Nym_source n" "r = Some i" by (simp_all add: taken_iff)
    then show ?thesis
      using ok ho_lightning lightning_allocation[of n "us_users us" i us'] by (auto simp: cursors_ok_def)
  next
    case (ho_claim env swap db x db' us ps)
    have "users_ok (sd_users db)" using ok ho_claim by (simp add: cursors_ok_def)
    then obtain n u where "k = Nym_source n" "get_user_by_nym n (sd_users db) = Some u"
       "u_next_addr_idx u = i" "get_user_by_nym n (sd_users db') = Some (u\<lparr>u_next_addr_idx := i + 1\<rparr>)"
      using claim_allocation(2)[OF ho_claim(4) _ ho_claim(2)[symmetric]] by blast
    then show ?thesis using ho_claim(1,3,5) by simp
  next
    case (ho_page derive n pas ps r rows us)
    then have "k = Page_source n" "index_of r = Some i" by (simp_all add: taken_iff)
    then show ?thesis using ok ho_page(1,3) page_allocation[OF ho_page(4), of i] by (simp add: cursors_ok_def)
  next
    case (ho_till derive n pas ps r rows us)
    then have "k = Till_source n" "index_of r = Some i" by (simp_all add: taken_iff)
    then show ?thesis using ok ho_till(1,3) till_allocation[OF ho_till(4), of i] by (simp add: cursors_ok_def)
  qed
qed


text \<open>Alice sells over her nym, the watcher sees a payment at index 5, a Lightning claim and a sale of each of her page
  and her terminal follow.\<close>
definition demo_cursors :: "user_store \<times> pos_store" where
  "demo_cursors = (demo_users, \<lparr>po_terminals = [], po_pages = demo_pages\<rparr>)"

definition demo_indices :: "(address_source \<times> int) list" where
  "demo_indices = [(Nym_source ''alice'', 0), (Nym_source ''alice'', 6), (Page_source ''alice'', 0), (Till_source ''alice'', 0)]"

lemma demo_cursors_ok: "cursors_ok demo_cursors"
  using demo_users_ok by (simp add: cursors_ok_def demo_cursors_def pages_ok_def demo_pages_def page_of_upsert_def i32_max_def)

lemma demo_trace: "\<exists>t. index_trace hands_out demo_cursors demo_indices t"
proof -
  let ?us = "\<lambda>i. demo_users\<lparr>us_users := [demo_user\<lparr>u_next_addr_idx := i\<rparr>]\<rparr>"
  let ?ps = "\<lambda>i j. \<lparr>po_terminals = [], po_pages = [(hd demo_pages)\<lparr>dp_next_addr_idx := i, dp_pos_next_addr_idx := j\<rparr>]\<rparr>"
  note demo = demo_users_def demo_user_def new_user_def demo_pages_def page_of_upsert_def
  have start: "demo_cursors = (?us 0, ?ps 0 0)"
    by (simp add: demo_cursors_def demo)
  have "hands_out (?us 0, ?ps 0 0) (taken (Nym_source ''alice'') (nym_index_of (Inr (Some (''desc0'', 0))))) (?us 0\<lparr>us_users := us_users (?us 1)\<rparr>, ?ps 0 0)"
    by (rule ho_invoice[where derive = demo_derive and pas = "[]"]) code_simp+
  then have 1: "hands_out (?us 0, ?ps 0 0) (Some (Nym_source ''alice'', 0)) (?us 1, ?ps 0 0)"
    by (simp add: taken_def nym_index_of_def)
  have "hands_out (?us 1, ?ps 0 0) None (?us 1\<lparr>us_users := advance_next_addr_idx ''alice'' 5 (us_users (?us 1))\<rparr>, ?ps 0 0)"
    by (intro ho_user step_advance) (simp_all add: i32_max_def)
  then have 2: "hands_out (?us 1, ?ps 0 0) None (?us 6, ?ps 0 0)"
    by (simp add: advance_next_addr_idx_def tables demo i32_min_def i32_max_def)
  have "hands_out (?us 6, ?ps 0 0) (taken (Nym_source ''alice'') (Some 6)) (?us 6\<lparr>us_users := us_users (?us 7)\<rparr>, ?ps 0 0)"
    by (rule ho_lightning) code_simp
  then have 3: "hands_out (?us 6, ?ps 0 0) (Some (Nym_source ''alice'', 6)) (?us 7, ?ps 0 0)" by (simp add: taken_def)
  have "hands_out (?us 7, ?ps 0 0) (taken (Page_source ''alice'') (index_of (Inr (Some (''page0'', 0, ''page''))))) (?us 7, ?ps 0 0\<lparr>po_pages := po_pages (?ps 1 0)\<rparr>)"
    by (rule ho_page[where derive = demo_derive and pas = "[]"]) code_simp
  then have 4: "hands_out (?us 7, ?ps 0 0) (Some (Page_source ''alice'', 0)) (?us 7, ?ps 1 0)"
    by (simp add: taken_def index_of_def)
  have "hands_out (?us 7, ?ps 1 0) (taken (Till_source ''alice'') (index_of (Inr (Some (''pos0'', 0, ''pos''))))) (?us 7, ?ps 1 0\<lparr>po_pages := po_pages (?ps 1 1)\<rparr>)"
    by (rule ho_till[where derive = demo_derive and pas = "[]"]) code_simp
  then have 5: "hands_out (?us 7, ?ps 1 0) (Some (Till_source ''alice'', 0)) (?us 7, ?ps 1 1)"
    by (simp add: taken_def index_of_def)
  have "index_trace hands_out demo_cursors demo_indices (?us 7, ?ps 1 1)"
    unfolding start demo_indices_def
    by (rule trace_index[where hand = hands_out, OF 1], rule trace_quiet[where hand = hands_out, OF 2], rule trace_index[where hand = hands_out, OF 3], rule trace_index[where hand = hands_out, OF 4],
        rule trace_index[where hand = hands_out, OF 5], rule trace_start[of hands_out])
  then show ?thesis ..
qed


end
