(* ===== verification/Claimer.thy ===== *)
theory Claimer
  imports Settlement
begin

text \<open>
  The claim of a reverse swap and of a chain swap (src/src/claimer.rs:
  \<open>claim_swap\<close>, \<open>claim_swap_inner\<close>, \<open>claim_chain_swap\<close>,
  \<open>claim_chain_swap_inner\<close>), the background sweep, and the step relation in
  which claims of several tasks interleave around their broadcasts.
\<close>

datatype 'r claim_step = Finished claim_outcome | Prepared 'r btc_like_tx

subsection \<open>Reverse swaps\<close>

text \<open>Steps 1 to 5 of the comment on \<open>claim_swap\<close>: lock, reload, resolve, construct or reload the
  stored transaction, persist, mark claiming.  An error rolls the transaction back; what
  \<open>resolve_claim_address\<close> and \<open>mark_cooperative_refused\<close> committed on their own stays.\<close>
definition claim_swap_prepare ::
  "tx_codec \<Rightarrow> claim_env \<Rightarrow> uuid \<Rightarrow> settlement_db \<Rightarrow> (app_error + swap_record claim_step) \<times> settlement_db" where
  "claim_swap_prepare c env sid db =
    (if \<not> ce_lock env then (Inr (Finished SkippedLockHeld), db)
     else case get_swap_by_id sid (sd_swaps db) of
       None \<Rightarrow> (Inl (ClaimError (''swap not found: '' @ uuid_text sid)), db)
     | Some swap \<Rightarrow>
        (case parsed_status swap of
           Inl e \<Rightarrow> (Inl (DbError e), db)
         | Inr st \<Rightarrow>
            if is_terminal st then (Inr (Finished AlreadyTerminal), db)
            else (case resolve_claim_address env swap db of
              (Inl e, db1) \<Rightarrow> (Inl e, db1)
            | (Inr addr, db1) \<Rightarrow>
               (case sr_claim_tx_hex swap of
                  Some hex \<Rightarrow>
                    (case tc_from_hex c hex of
                       Inl e \<Rightarrow> (Inl (ClaimError (''decode persisted claim_tx: '' @ e)), db1)
                     | Inr tx \<Rightarrow> (Inr (Prepared swap tx),
                         db1\<lparr>sd_swaps := mark_claiming (ce_now env) sid (sd_swaps db1)\<rparr>))
                | None \<Rightarrow>
                    (let cooperative = \<not> sr_cooperative_refused swap in
                     case construct_claim_tx env swap addr cooperative of
                       Inl e \<Rightarrow> (Inl e,
                         if cooperative \<and> is_cooperative_refusal e
                         then db1\<lparr>sd_swaps := mark_cooperative_refused (ce_now env) sid (sd_swaps db1)\<rparr>
                         else db1)
                     | Inr tx \<Rightarrow> (Inr (Prepared swap tx),
                         db1\<lparr>sd_swaps := mark_claiming (ce_now env) sid
                           (persist_claim_tx sid (tc_to_hex c tx) (tc_txid c tx)
                              (if cooperative then ''cooperative'' else ''script'') (sd_swaps db1))\<rparr>)))))) "

text \<open>After the broadcast: Claimed, the invoice's settlement mark, the failure fields, the ledger.\<close>
definition claim_swap_finish ::
  "claim_env \<Rightarrow> tolerances \<Rightarrow> swap_record \<Rightarrow> string \<Rightarrow> settlement_db \<Rightarrow> settlement_db" where
  "claim_swap_finish env tol swap txid db =
    (let swaps1 = fst (update_swap_status (ce_now env) (sr_id swap) Claimed (Some txid) (sd_swaps db));
         db1 = on_invoices (settle_mark (sr_invoice_id swap) ''settled'') (db\<lparr>sd_swaps := swaps1\<rparr>);
         db2 = db1\<lparr>sd_swaps := clear_claim_failure_state (sr_id swap) (sd_swaps db1)\<rparr>
     in db2\<lparr>sd_ledger := flip_invoice_on_lightning_settlement (ce_now env) (ce_unix env) (sr_invoice_id swap)
              (sr_amount_sat swap) (sr_boltz_swap_id swap) txid tol (sd_ledger db2)\<rparr>)"

definition claim_swap_inner ::
  "tx_codec \<Rightarrow> claim_env \<Rightarrow> tolerances \<Rightarrow> uuid \<Rightarrow> settlement_db \<Rightarrow> (app_error + claim_outcome) \<times> settlement_db" where
  "claim_swap_inner c env tol sid db =
    (case claim_swap_prepare c env sid db of
       (Inl e, db1) \<Rightarrow> (Inl e, db1)
     | (Inr (Finished oc), db1) \<Rightarrow> (Inr oc, db1)
     | (Inr (Prepared swap tx), db1) \<Rightarrow>
        (case confirm_broadcast c env ''broadcast'' tx of
           Inl e \<Rightarrow> (Inl e, db1)
         | Inr txid \<Rightarrow> (Inr Broadcast, claim_swap_finish env tol swap txid db1)))"

text \<open>The wrapper's error branch; reaching the cap marks the invoice claim_stuck.\<close>
definition claim_swap_failed :: "claim_env \<Rightarrow> int \<Rightarrow> uuid \<Rightarrow> app_error \<Rightarrow> settlement_db \<Rightarrow> settlement_db" where
  "claim_swap_failed env max_attempts sid e db =
    (case record_claim_failure (ce_now env) (ce_jitter env) sid (error_text e) max_attempts (sd_swaps db) of
       (oc, swaps) \<Rightarrow>
        (let db1 = db\<lparr>sd_swaps := swaps\<rparr> in
         if oc = Stuck then
           (case mark_invoice_settlement_status_for_swap sid ''claim_stuck'' swaps (is_invoices (sd_ledger db1)) of
              Inl err \<Rightarrow> db1
            | Inr (invs, k) \<Rightarrow> on_invoices (\<lambda>_. invs) db1)
         else db1))"

definition claim_swap ::
  "tx_codec \<Rightarrow> claim_env \<Rightarrow> tolerances \<Rightarrow> int \<Rightarrow> uuid \<Rightarrow> settlement_db
    \<Rightarrow> (app_error + claim_outcome) \<times> settlement_db" where
  "claim_swap c env tol max_attempts sid db =
    (case claim_swap_inner c env tol sid db of
       (Inl e, db1) \<Rightarrow> (Inl e, claim_swap_failed env max_attempts sid e db1)
     | (Inr oc, db1) \<Rightarrow> (Inr oc, db1))"

subsection \<open>Chain swaps\<close>

definition chain_claimable :: "chain_swap_status \<Rightarrow> bool" where
  "chain_claimable st \<longleftrightarrow> st \<in> {ServerLockMempool, ServerLockConfirmed, CClaiming, CClaimFailed}"

definition claim_chain_swap_prepare ::
  "tx_codec \<Rightarrow> claim_env \<Rightarrow> uuid \<Rightarrow> settlement_db \<Rightarrow> (app_error + chain_swap claim_step) \<times> settlement_db" where
  "claim_chain_swap_prepare c env sid db =
    (if \<not> ce_lock env then (Inr (Finished SkippedLockHeld), db)
     else case get_chain_swap_by_id sid (sd_chain db) of
       None \<Rightarrow> (Inl (ClaimError (''chain swap not found: '' @ uuid_text sid)), db)
     | Some swap \<Rightarrow>
        (case chain_parsed_status swap of
           Inl e \<Rightarrow> (Inl (DbError e), db)
         | Inr st \<Rightarrow>
            if chain_is_terminal st then (Inr (Finished AlreadyTerminal), db)
            else if \<not> chain_claimable st then (Inr (Finished AlreadyTerminal), db)
            else (case get_invoice_by_id (cs_invoice_id swap) (is_invoices (sd_ledger db)) of
              None \<Rightarrow> (Inl (ClaimError (''invoice not found: '' @ uuid_text (cs_invoice_id swap))), db)
            | Some row \<Rightarrow>
               (case inv_liquid_address row of
                  None \<Rightarrow> (Inl (ClaimError (''invoice '' @ uuid_text (cs_invoice_id swap)
                             @ '' has no liquid_address for chain-swap claim'')), db)
                | Some addr \<Rightarrow>
                   (case cs_claim_tx_hex swap of
                      Some hex \<Rightarrow>
                        (case tc_from_hex c hex of
                           Inl e \<Rightarrow> (Inl (ClaimError (''decode persisted chain claim_tx: '' @ e)), db)
                         | Inr tx \<Rightarrow> (Inr (Prepared swap tx),
                             db\<lparr>sd_chain := mark_chain_claiming (ce_now env) sid (sd_chain db)\<rparr>))
                    | None \<Rightarrow>
                        (case ce_build_chain env swap addr of
                           Inl e \<Rightarrow> (Inl e, db)
                         | Inr tx \<Rightarrow> (Inr (Prepared swap tx),
                             db\<lparr>sd_chain := mark_chain_claiming (ce_now env) sid
                               (persist_chain_claim_tx sid (tc_to_hex c tx) (tc_txid c tx) (sd_chain db))\<rparr>)))))))"

definition claim_chain_swap_finish ::
  "claim_env \<Rightarrow> tolerances \<Rightarrow> chain_swap \<Rightarrow> string \<Rightarrow> settlement_db \<Rightarrow> settlement_db" where
  "claim_chain_swap_finish env tol swap txid db =
    (let chain1 = fst (update_chain_swap_status (ce_now env) (cs_id swap) CClaimed (Some txid) (sd_chain db));
         chain2 = clear_chain_swap_claim_failure_state (cs_id swap) chain1;
         db1 = on_invoices (settle_mark (Some (cs_invoice_id swap)) ''settled'') (db\<lparr>sd_chain := chain2\<rparr>)
     in db1\<lparr>sd_ledger := flip_invoice_on_bitcoin_boltz_settlement (ce_now env) (ce_unix env) (Some (cs_invoice_id swap))
              (cs_user_lock_amount_sat swap) (cs_boltz_swap_id swap) txid tol (sd_ledger db1)\<rparr>)"

definition claim_chain_swap_inner ::
  "tx_codec \<Rightarrow> claim_env \<Rightarrow> tolerances \<Rightarrow> uuid \<Rightarrow> settlement_db \<Rightarrow> (app_error + claim_outcome) \<times> settlement_db" where
  "claim_chain_swap_inner c env tol sid db =
    (case claim_chain_swap_prepare c env sid db of
       (Inl e, db1) \<Rightarrow> (Inl e, db1)
     | (Inr (Finished oc), db1) \<Rightarrow> (Inr oc, db1)
     | (Inr (Prepared swap tx), db1) \<Rightarrow>
        (case confirm_broadcast c env ''broadcast chain claim'' tx of
           Inl e \<Rightarrow> (Inl e, db1)
         | Inr txid \<Rightarrow> (Inr Broadcast, claim_chain_swap_finish env tol swap txid db1)))"

definition claim_chain_swap_failed :: "claim_env \<Rightarrow> int \<Rightarrow> uuid \<Rightarrow> app_error \<Rightarrow> settlement_db \<Rightarrow> settlement_db" where
  "claim_chain_swap_failed env max_attempts sid e db =
    (case record_chain_swap_claim_failure (ce_now env) (ce_jitter env) sid (error_text e) max_attempts (sd_chain db) of
       (oc, chain) \<Rightarrow>
        (let db1 = db\<lparr>sd_chain := chain\<rparr> in
         if oc = Stuck then
           (case get_chain_swap_by_id sid chain of
              None \<Rightarrow> db1
            | Some row \<Rightarrow> on_invoices (settle_mark (Some (cs_invoice_id row)) ''claim_stuck'') db1)
         else db1))"

definition claim_chain_swap ::
  "tx_codec \<Rightarrow> claim_env \<Rightarrow> tolerances \<Rightarrow> int \<Rightarrow> uuid \<Rightarrow> settlement_db
    \<Rightarrow> (app_error + claim_outcome) \<times> settlement_db" where
  "claim_chain_swap c env tol max_attempts sid db =
    (case claim_chain_swap_inner c env tol sid db of
       (Inl e, db1) \<Rightarrow> (Inl e, claim_chain_swap_failed env max_attempts sid e db1)
     | (Inr oc, db1) \<Rightarrow> (Inr oc, db1))"

text \<open>One pass of the background sweep: the ready reverse swaps, then the ready chain swaps.\<close>
definition claim_sweep :: "tx_codec \<Rightarrow> claim_env \<Rightarrow> tolerances \<Rightarrow> int \<Rightarrow> settlement_db \<Rightarrow> settlement_db" where
  "claim_sweep c env tol max_attempts db =
    (let db1 = fold (\<lambda>r d. snd (claim_swap c env tol max_attempts (sr_id r) d))
                 (get_ready_to_claim_swaps (ce_now env) (sd_swaps db)) db
     in fold (\<lambda>r d. snd (claim_chain_swap c env tol max_attempts (cs_id r) d))
          (get_ready_to_claim_chain_swaps (ce_now env) (sd_chain db1)) db1)"

subsection \<open>Tasks interleave around their broadcasts\<close>

text \<open>A task between its prepare and its finish holds the snapshot it loaded and the transaction.\<close>
record settlement_state =
  ss_db :: settlement_db
  ss_flight :: "(swap_record \<times> btc_like_tx) list"
  ss_chain_flight :: "(chain_swap \<times> btc_like_tx) list"

definition direct_source :: "evidence \<Rightarrow> bool" where
  "direct_source e \<longleftrightarrow> ev_source e \<in> {''liquid_direct'', ''bitcoin_direct''}"

inductive settlement_step :: "tx_codec \<Rightarrow> settlement_state \<Rightarrow> settlement_state \<Rightarrow> bool" for c where
  se_prepare: "claim_swap_prepare c env sid (ss_db s) = (Inr (Prepared swap tx), db)
    \<Longrightarrow> settlement_step c s (s\<lparr>ss_db := db, ss_flight := (swap, tx) # ss_flight s\<rparr>)"
| se_no_claim: "claim_swap_prepare c env sid (ss_db s) = (r, db) \<Longrightarrow> (\<forall>swap tx. r \<noteq> Inr (Prepared swap tx))
    \<Longrightarrow> settlement_step c s (s\<lparr>ss_db := db\<rparr>)"
| se_finish: "(swap, tx) \<in> set (ss_flight s) \<Longrightarrow> confirm_broadcast c env ''broadcast'' tx = Inr txid
    \<Longrightarrow> settlement_step c s (s\<lparr>ss_db := claim_swap_finish env tol swap txid (ss_db s),
          ss_flight := remove1 (swap, tx) (ss_flight s)\<rparr>)"
| se_failed: "settlement_step c s (s\<lparr>ss_db := claim_swap_failed env mx sid e (ss_db s)\<rparr>)"
| se_prepare_chain: "claim_chain_swap_prepare c env sid (ss_db s) = (Inr (Prepared swap tx), db)
    \<Longrightarrow> settlement_step c s (s\<lparr>ss_db := db, ss_chain_flight := (swap, tx) # ss_chain_flight s\<rparr>)"
| se_finish_chain: "(swap, tx) \<in> set (ss_chain_flight s)
    \<Longrightarrow> confirm_broadcast c env ''broadcast chain claim'' tx = Inr txid
    \<Longrightarrow> settlement_step c s (s\<lparr>ss_db := claim_chain_swap_finish env tol swap txid (ss_db s),
          ss_chain_flight := remove1 (swap, tx) (ss_chain_flight s)\<rparr>)"
| se_failed_chain: "settlement_step c s (s\<lparr>ss_db := claim_chain_swap_failed env mx sid e (ss_db s)\<rparr>)"
| se_drop: "set fl \<subseteq> set (ss_flight s) \<Longrightarrow> set cfl \<subseteq> set (ss_chain_flight s)
    \<Longrightarrow> settlement_step c s (s\<lparr>ss_flight := fl, ss_chain_flight := cfl\<rparr>)"
| se_reconcile: "settlement_step c s (s\<lparr>ss_db := apply_action now swap a (ss_db s)\<rparr>)"
| se_status: "settlement_step c s (s\<lparr>ss_db := (ss_db s)
    \<lparr>sd_swaps := fst (update_swap_status now sid st None (sd_swaps (ss_db s)))\<rparr>\<rparr>)"
| se_refuse: "settlement_step c s (s\<lparr>ss_db := (ss_db s)
    \<lparr>sd_swaps := mark_cooperative_refused now sid (sd_swaps (ss_db s))\<rparr>\<rparr>)"
| se_chain_status: "settlement_step c s (s\<lparr>ss_db := (ss_db s)
    \<lparr>sd_chain := fst (update_chain_swap_status now sid cst None (sd_chain (ss_db s)))\<rparr>\<rparr>)"
| se_flip: "settlement_step c s (s\<lparr>ss_db := on_invoices (flip_in_progress oid) (ss_db s)\<rparr>)"
| se_mark: "settlement_step c s (s\<lparr>ss_db := on_invoices (settle_mark oid m) (ss_db s)\<rparr>)"
| se_event_id: "settlement_step c s (s\<lparr>ss_db := (ss_db s)\<lparr>sd_webhooks := w\<rparr>\<rparr>)"
| se_record_swap: "record_swap now fid n (sd_swaps (ss_db s), sd_users (ss_db s)) = Inr (swaps, us)
    \<Longrightarrow> settlement_step c s (s\<lparr>ss_db := (ss_db s)\<lparr>sd_swaps := swaps, sd_users := us\<rparr>\<rparr>)"
| se_record_chain: "record_chain_swap now fid nc (is_invoices (sd_ledger (ss_db s))) (sd_users (ss_db s)) (sd_chain (ss_db s)) = Inr (r, chain)
    \<Longrightarrow> settlement_step c s (s\<lparr>ss_db := (ss_db s)\<lparr>sd_chain := chain\<rparr>\<rparr>)"
| se_direct: "direct_source e \<Longrightarrow> record_invoice_payment now unix_now iid e tol (sd_ledger (ss_db s)) = Inr (n, led)
    \<Longrightarrow> settlement_step c s (s\<lparr>ss_db := (ss_db s)\<lparr>sd_ledger := led\<rparr>\<rparr>)"

inductive_cases settlement_stepE: "settlement_step c s s'"

end
