(* ===== verification/ClaimSafety.thy ===== *)
theory ClaimSafety
  imports Claimer
begin

text \<open>
  The invariant of \<open>settlement_step\<close>: the swap tables stay well formed, a task
  in flight holds the transaction its row stores, and every Boltz payment
  event is backed by a swap of that invoice and amount whose claim
  transaction was constructed.
\<close>

named_theorems quiet_intros \<open>operations that credit no swap\<close>

definition boltz_events :: "settlement_db \<Rightarrow> payment_event set" where
  "boltz_events db = {e \<in> set (is_events (sd_ledger db)).
     pe_source e \<in> {Some ''lightning_boltz_reverse'', Some ''bitcoin_boltz_chain''}}"

text \<open>The tables only move forward and no Boltz payment is credited.\<close>
definition quiet :: "settlement_db \<Rightarrow> settlement_db \<Rightarrow> bool" where
  "quiet db db' \<longleftrightarrow> swap_step\<^sup>*\<^sup>* (sd_swaps db) (sd_swaps db') \<and> chain_step\<^sup>*\<^sup>* (sd_chain db) (sd_chain db')
     \<and> boltz_events db' \<subseteq> boltz_events db"

lemma quiet_refl [simp, quiet_intros]: "quiet db db"
  by (simp add: quiet_def)

lemma quiet_trans: "quiet a b \<Longrightarrow> quiet b c \<Longrightarrow> quiet a c"
  unfolding quiet_def by (meson rtranclp_trans subset_trans)

lemma quiet_invoices [quiet_intros]: "quiet db (on_invoices f db)"
  by (simp add: quiet_def on_invoices_def boltz_events_def)

lemma quiet_swaps [quiet_intros]: "swap_step (sd_swaps db) t \<Longrightarrow> quiet db (db\<lparr>sd_swaps := t\<rparr>)"
  by (auto simp: quiet_def boltz_events_def intro: r_into_rtranclp)

lemma quiet_swaps2:
  "swap_step (sd_swaps db) t \<Longrightarrow> swap_step t u \<Longrightarrow> quiet db (db\<lparr>sd_swaps := u\<rparr>)"
  by (auto simp: quiet_def boltz_events_def intro: rtranclp.rtrancl_into_rtrancl)

lemma quiet_chain [quiet_intros]: "chain_step (sd_chain db) t \<Longrightarrow> quiet db (db\<lparr>sd_chain := t\<rparr>)"
  by (auto simp: quiet_def boltz_events_def intro: r_into_rtranclp)

lemma quiet_chain2:
  "chain_step (sd_chain db) t \<Longrightarrow> chain_step t u \<Longrightarrow> quiet db (db\<lparr>sd_chain := u\<rparr>)"
  by (auto simp: quiet_def boltz_events_def intro: rtranclp.rtrancl_into_rtrancl)

lemma quiet_cong:
  "sd_swaps db'' = sd_swaps db' \<Longrightarrow> sd_chain db'' = sd_chain db' \<Longrightarrow> sd_ledger db'' = sd_ledger db'
    \<Longrightarrow> quiet db db' \<Longrightarrow> quiet db db''"
  by (simp add: quiet_def boltz_events_def)

lemmas swap_steps = ss_status ss_refused ss_nudge ss_script ss_clear ss_persist ss_claiming ss_destination

subsection \<open>Which operations are quiet\<close>

lemma quiet_resolve: "resolve_claim_address env swap db = (r, db') \<Longrightarrow> quiet db db'"
proof -
  have u: "quiet db (db\<lparr>sd_users := us, sd_swaps := write_claim_address sid a i (sd_swaps db)\<rparr>)" for us sid a i
    by (rule quiet_cong[OF _ _ _ quiet_swaps[OF ss_destination]]) simp_all
  assume "resolve_claim_address env swap db = (r, db')"
  then show ?thesis
    by (auto simp: resolve_claim_address_def intro: u quiet_intros swap_steps
        split: option.splits if_splits sum.splits)
qed

lemma quiet_claiming:
  "quiet db (db\<lparr>sd_swaps := mark_claiming now sid (persist_claim_tx sid' h t p (sd_swaps db))\<rparr>)"
  by (rule quiet_swaps2[OF ss_persist ss_claiming])

text \<open>The branches of a preparation that do and do not reach a broadcast.\<close>
lemma prepare_cases:
  assumes "claim_swap_prepare c env sid db = (r, db')"
  obtains (early) "db' = db" "\<forall>swap tx. r \<noteq> Inr (Prepared swap tx)"
  | (error) e db1 swap r1 where "r = Inl e" "resolve_claim_address env swap db = (r1, db1)"
      "db' = db1 \<or> db' = db1\<lparr>sd_swaps := mark_cooperative_refused (ce_now env) sid (sd_swaps db1)\<rparr>"
  | (reload) swap tx addr db1 hex where "r = Inr (Prepared swap tx)" "get_swap_by_id sid (sd_swaps db) = Some swap"
      "resolve_claim_address env swap db = (Inr addr, db1)" "sr_claim_tx_hex swap = Some hex" "tc_from_hex c hex = Inr tx"
      "db' = db1\<lparr>sd_swaps := mark_claiming (ce_now env) sid (sd_swaps db1)\<rparr>" "swap_open swap"
  | (construct) swap tx addr db1 path where "r = Inr (Prepared swap tx)" "get_swap_by_id sid (sd_swaps db) = Some swap"
      "resolve_claim_address env swap db = (Inr addr, db1)" "sr_claim_tx_hex swap = None"
      "construct_claim_tx env swap addr (\<not> sr_cooperative_refused swap) = Inr tx"
      "db' = db1\<lparr>sd_swaps := mark_claiming (ce_now env) sid
               (persist_claim_tx sid (tc_to_hex c tx) (tc_txid c tx) path (sd_swaps db1))\<rparr>" "swap_open swap"
proof (cases "ce_lock env \<and> (\<exists>swap st. get_swap_by_id sid (sd_swaps db) = Some swap
    \<and> parsed_status swap = Inr st \<and> \<not> is_terminal st)")
  case False
  then show ?thesis
    using assms by (intro early) (auto simp: claim_swap_prepare_def split: option.splits sum.splits if_splits)
next
  case True
  then obtain swap st where s: "ce_lock env" "get_swap_by_id sid (sd_swaps db) = Some swap"
    "parsed_status swap = Inr st" "\<not> is_terminal st" by blast
  have open_row: "swap_open swap"
    using swap_open_text[OF parse_swap_status_Inr[OF s(3)[unfolded parsed_status_def]]] s(4) by simp
  obtain r1 db1 where r1: "resolve_claim_address env swap db = (r1, db1)" by fastforce
  note start = claim_swap_prepare_def s r1 Let_def
  show ?thesis
  proof (cases r1)
    case (Inl e)
    then show ?thesis using assms r1 s by (intro error[of e swap r1 db1]) (simp_all add: start)
  next
    case (Inr addr)
    show ?thesis
    proof (cases "sr_claim_tx_hex swap")
      case (Some hex)
      show ?thesis
      proof (cases "tc_from_hex c hex")
        case (Inl e)
        then show ?thesis using assms r1 s Inr Some by (intro error[OF _ r1]) (auto simp: start)
      next
        case (Inr tx)
        then show ?thesis
          using assms r1 s \<open>r1 = Inr addr\<close> Some open_row by (intro reload[of swap tx addr db1 hex]) (auto simp: start)
      qed
    next
      case None
      show ?thesis
      proof (cases "construct_claim_tx env swap addr (\<not> sr_cooperative_refused swap)")
        case (Inl e)
        then show ?thesis
          using assms r1 s \<open>r1 = Inr addr\<close> None by (intro error[OF _ r1]) (auto simp: start split: if_splits)
      next
        case (Inr tx)
        then show ?thesis
          using assms r1 s \<open>r1 = Inr addr\<close> None open_row
          by (intro construct[of swap tx addr db1 "if sr_cooperative_refused swap then ''script'' else ''cooperative''"])
            (auto simp: start)
      qed
    qed
  qed
qed

lemma quiet_prepare:
  assumes "claim_swap_prepare c env sid db = (r, db')"
  shows "quiet db db'"
  using assms
proof (cases rule: prepare_cases)
  case (error e db1 swap r1)
  then show ?thesis using quiet_resolve[OF error(2)] quiet_swaps[OF ss_refused] quiet_trans by blast
next
  case (reload swap tx addr db1 hex)
  then show ?thesis using quiet_resolve[OF reload(3)] quiet_swaps[OF ss_claiming] quiet_trans by blast
next
  case (construct swap tx addr db1 path)
  then show ?thesis using quiet_resolve[OF construct(3)] quiet_claiming quiet_trans by blast
qed simp

lemma quiet_failed [quiet_intros]: "quiet db (claim_swap_failed env mx sid e db)"
proof -
  obtain oc t where f: "record_claim_failure (ce_now env) (ce_jitter env) sid (error_text e) mx (sd_swaps db) = (oc, t)"
    by fastforce
  have "quiet db (db\<lparr>sd_swaps := t\<rparr>)" by (rule quiet_swaps[OF ss_failure[OF f]])
  then show ?thesis
    using quiet_trans[OF _ quiet_invoices] by (auto simp: claim_swap_failed_def f Let_def split: sum.splits)
qed

lemma quiet_failed_chain [quiet_intros]: "quiet db (claim_chain_swap_failed env mx sid e db)"
proof -
  obtain oc t where f: "record_chain_swap_claim_failure (ce_now env) (ce_jitter env) sid (error_text e) mx (sd_chain db) = (oc, t)"
    by fastforce
  have "quiet db (db\<lparr>sd_chain := t\<rparr>)" by (rule quiet_chain[OF cst_failure[OF f]])
  then show ?thesis
    using quiet_trans[OF _ quiet_invoices] by (auto simp: claim_chain_swap_failed_def f Let_def split: option.splits)
qed

lemma quiet_action [quiet_intros]: "quiet db (apply_action now swap a db)"
proof (cases a)
  case AdvanceToLockupMempool
  then show ?thesis
    unfolding apply_action_def Let_def
    by (auto intro!: quiet_trans[OF quiet_swaps2[OF ss_status ss_nudge] quiet_invoices])
next
  case AdvanceToLockupConfirmed
  then show ?thesis
    unfolding apply_action_def Let_def
    by (auto intro!: quiet_trans[OF quiet_swaps2[OF ss_status ss_nudge] quiet_invoices])
next
  case MarkLockupRefunded
  then show ?thesis
    unfolding apply_action_def Let_def by (auto intro!: quiet_trans[OF quiet_swaps[OF ss_status] quiet_invoices])
qed (auto simp: apply_action_def Let_def intro!: quiet_intros swap_steps)

lemma chain_prepare_cases:
  assumes "claim_chain_swap_prepare c env sid db = (r, db')"
  obtains (early) "db' = db" "\<forall>swap tx. r \<noteq> Inr (Prepared swap tx)"
  | (reload) swap tx hex where "r = Inr (Prepared swap tx)" "get_chain_swap_by_id sid (sd_chain db) = Some swap"
      "cs_claim_tx_hex swap = Some hex" "tc_from_hex c hex = Inr tx"
      "db' = db\<lparr>sd_chain := mark_chain_claiming (ce_now env) sid (sd_chain db)\<rparr>"
  | (construct) swap tx where "r = Inr (Prepared swap tx)" "get_chain_swap_by_id sid (sd_chain db) = Some swap"
      "cs_claim_tx_hex swap = None"
      "db' = db\<lparr>sd_chain := mark_chain_claiming (ce_now env) sid
               (persist_chain_claim_tx sid (tc_to_hex c tx) (tc_txid c tx) (sd_chain db))\<rparr>"
  using assms
  by (auto simp: claim_chain_swap_prepare_def split: option.splits sum.splits if_splits)

lemma quiet_prepare_chain:
  assumes "claim_chain_swap_prepare c env sid db = (r, db')"
  shows "quiet db db'"
  using assms
proof (cases rule: chain_prepare_cases)
  case (reload swap tx hex)
  then show ?thesis using quiet_chain[OF cst_claiming] by blast
next
  case (construct swap tx)
  then show ?thesis using quiet_chain2[OF cst_persist cst_claiming] by blast
qed simp

subsection \<open>The invariant\<close>

text \<open>The row of a task in flight stores its transaction, as the bytes it was encoded to or decoded from.\<close>
definition stores_tx :: "tx_codec \<Rightarrow> string option \<Rightarrow> btc_like_tx \<Rightarrow> bool" where
  "stores_tx c stored tx = (case stored of None \<Rightarrow> False | Some h \<Rightarrow> h = tc_to_hex c tx \<or> tc_from_hex c h = Inr tx)"

definition backed_flight :: "tx_codec \<Rightarrow> settlement_db \<Rightarrow> swap_record \<times> btc_like_tx \<Rightarrow> bool" where
  "backed_flight c db f \<longleftrightarrow> (\<exists>r\<in>set (sd_swaps db). sr_id r = sr_id (fst f) \<and> swap_evolves (fst f) r
     \<and> stores_tx c (sr_claim_tx_hex r) (snd f))"

definition backed_chain_flight :: "tx_codec \<Rightarrow> settlement_db \<Rightarrow> chain_swap \<times> btc_like_tx \<Rightarrow> bool" where
  "backed_chain_flight c db f \<longleftrightarrow> (\<exists>r\<in>set (sd_chain db). cs_id r = cs_id (fst f) \<and> chain_evolves (fst f) r
     \<and> stores_tx c (cs_claim_tx_hex r) (snd f))"

text \<open>The swap behind a Boltz payment event: same invoice, same amount, claim transaction constructed.\<close>
definition backed_event :: "settlement_db \<Rightarrow> payment_event \<Rightarrow> bool" where
  "backed_event db e \<longleftrightarrow>
    (\<exists>r\<in>set (sd_swaps db). pe_boltz_swap_id e = Some (sr_boltz_swap_id r) \<and> sr_invoice_id r = Some (pe_invoice_id e)
       \<and> sr_amount_sat r = pe_amount_sat e \<and> sr_claim_tx_hex r \<noteq> None)
    \<or> (\<exists>r\<in>set (sd_chain db). pe_boltz_swap_id e = Some (cs_boltz_swap_id r) \<and> cs_invoice_id r = pe_invoice_id e
       \<and> cs_user_lock_amount_sat r = pe_amount_sat e \<and> cs_claim_tx_hex r \<noteq> None)"

lemma backed_event_swap:
  "r \<in> set (sd_swaps db) \<Longrightarrow> pe_boltz_swap_id e = Some (sr_boltz_swap_id r) \<Longrightarrow> sr_invoice_id r = Some (pe_invoice_id e)
   \<Longrightarrow> sr_amount_sat r = pe_amount_sat e \<Longrightarrow> sr_claim_tx_hex r \<noteq> None \<Longrightarrow> backed_event db e"
  unfolding backed_event_def by blast

lemma backed_event_chain:
  "r \<in> set (sd_chain db) \<Longrightarrow> pe_boltz_swap_id e = Some (cs_boltz_swap_id r) \<Longrightarrow> cs_invoice_id r = pe_invoice_id e
   \<Longrightarrow> cs_user_lock_amount_sat r = pe_amount_sat e \<Longrightarrow> cs_claim_tx_hex r \<noteq> None \<Longrightarrow> backed_event db e"
  unfolding backed_event_def by blast

lemma backed_eventE:
  assumes "backed_event db e"
  obtains (swap) r where "r \<in> set (sd_swaps db)" "pe_boltz_swap_id e = Some (sr_boltz_swap_id r)"
      "sr_invoice_id r = Some (pe_invoice_id e)" "sr_amount_sat r = pe_amount_sat e" "sr_claim_tx_hex r \<noteq> None"
  | (chain) r where "r \<in> set (sd_chain db)" "pe_boltz_swap_id e = Some (cs_boltz_swap_id r)"
      "cs_invoice_id r = pe_invoice_id e" "cs_user_lock_amount_sat r = pe_amount_sat e" "cs_claim_tx_hex r \<noteq> None"
  using assms unfolding backed_event_def by blast

definition tables_ok :: "settlement_db \<Rightarrow> bool" where
  "tables_ok db \<longleftrightarrow> swaps_ok (sd_swaps db) \<and> chain_swaps_ok (sd_chain db)"

definition settlement_ok :: "tx_codec \<Rightarrow> settlement_state \<Rightarrow> bool" where
  "settlement_ok c s \<longleftrightarrow> tables_ok (ss_db s)
     \<and> (\<forall>f\<in>set (ss_flight s). backed_flight c (ss_db s) f)
     \<and> (\<forall>f\<in>set (ss_chain_flight s). backed_chain_flight c (ss_db s) f)
     \<and> (\<forall>e\<in>boltz_events (ss_db s). backed_event (ss_db s) e)"

lemma settlement_okI:
  "tables_ok (ss_db s) \<Longrightarrow> (\<And>f. f \<in> set (ss_flight s) \<Longrightarrow> backed_flight c (ss_db s) f)
   \<Longrightarrow> (\<And>f. f \<in> set (ss_chain_flight s) \<Longrightarrow> backed_chain_flight c (ss_db s) f)
   \<Longrightarrow> (\<And>e. e \<in> boltz_events (ss_db s) \<Longrightarrow> backed_event (ss_db s) e) \<Longrightarrow> settlement_ok c s"
  by (simp add: settlement_ok_def)

lemma stores_tx_Some: "stores_tx c h tx \<Longrightarrow> h \<noteq> None"
  by (cases h) (simp_all add: stores_tx_def)

lemma stores_tx_kept: "stores_tx c h tx \<Longrightarrow> (h \<noteq> None \<longrightarrow> h' = h) \<Longrightarrow> stores_tx c h' tx"
  using stores_tx_Some by metis

text \<open>Everything but the credit itself survives a step that moves the tables forward.\<close>
lemma quiet_backed:
  assumes "swap_step\<^sup>*\<^sup>* (sd_swaps db) (sd_swaps db')" "chain_step\<^sup>*\<^sup>* (sd_chain db) (sd_chain db')" "tables_ok db"
  shows "tables_ok db'"
    and "backed_flight c db f \<Longrightarrow> backed_flight c db' f"
    and "backed_chain_flight c db g \<Longrightarrow> backed_chain_flight c db' g"
    and "backed_event db e \<Longrightarrow> backed_event db' e"
proof -
  have ok: "swaps_ok (sd_swaps db)" "chain_swaps_ok (sd_chain db)" using assms(3) by (simp_all add: tables_ok_def)
  show "tables_ok db'"
    using swap_table.run_good[OF assms(1) ok(1)] chain_table.run_good[OF assms(2) ok(2)] by (simp add: tables_ok_def)
  show "backed_flight c db f \<Longrightarrow> backed_flight c db' f"
  proof -
    assume "backed_flight c db f"
    then obtain r where r: "r \<in> set (sd_swaps db)" "sr_id r = sr_id (fst f)" "swap_evolves (fst f) r"
      "stores_tx c (sr_claim_tx_hex r) (snd f)" unfolding backed_flight_def by blast
    obtain r' where r': "r' \<in> set (sd_swaps db')" "sr_id r' = sr_id r" "swap_evolves r r'"
      using swap_table.run_evolves[OF assms(1) ok(1) r(1)] by blast
    have "stores_tx c (sr_claim_tx_hex r') (snd f)"
      using stores_tx_kept[OF r(4)] r'(3) by (auto simp: swap_evolves_def)
    with r r' show "backed_flight c db' f"
      unfolding backed_flight_def using swap_evolves_trans by (metis (no_types))
  qed
  show "backed_chain_flight c db g \<Longrightarrow> backed_chain_flight c db' g"
  proof -
    assume "backed_chain_flight c db g"
    then obtain r where r: "r \<in> set (sd_chain db)" "cs_id r = cs_id (fst g)" "chain_evolves (fst g) r"
      "stores_tx c (cs_claim_tx_hex r) (snd g)" unfolding backed_chain_flight_def by blast
    obtain r' where r': "r' \<in> set (sd_chain db')" "cs_id r' = cs_id r" "chain_evolves r r'"
      using chain_table.run_evolves[OF assms(2) ok(2) r(1)] by blast
    have "stores_tx c (cs_claim_tx_hex r') (snd g)"
      using stores_tx_kept[OF r(4)] r'(3) by (auto simp: chain_evolves_def)
    with r r' show "backed_chain_flight c db' g"
      unfolding backed_chain_flight_def using chain_evolves_trans by (metis (no_types))
  qed
  show "backed_event db e \<Longrightarrow> backed_event db' e"
  proof -
    assume "backed_event db e"
    then show "backed_event db' e"
    proof (cases rule: backed_eventE)
      case (swap r)
      obtain r' where "r' \<in> set (sd_swaps db')" "swap_evolves r r'"
        using swap_table.run_evolves[OF assms(1) ok(1) swap(1)] by blast
      then show ?thesis using swap by (intro backed_event_swap[of r']) (simp_all add: swap_evolves_def)
    next
      case (chain r)
      obtain r' where "r' \<in> set (sd_chain db')" "chain_evolves r r'"
        using chain_table.run_evolves[OF assms(2) ok(2) chain(1)] by blast
      then show ?thesis using chain by (intro backed_event_chain[of r']) (simp_all add: chain_evolves_def)
    qed
  qed
qed

text \<open>A quiet step with no new task keeps the invariant.\<close>
lemma quiet_ok:
  assumes "settlement_ok c s" "quiet (ss_db s) db"
    and "set fl \<subseteq> set (ss_flight s)" "set cfl \<subseteq> set (ss_chain_flight s)"
  shows "settlement_ok c \<lparr>ss_db = db, ss_flight = fl, ss_chain_flight = cfl\<rparr>"
proof -
  have runs: "swap_step\<^sup>*\<^sup>* (sd_swaps (ss_db s)) (sd_swaps db)" "chain_step\<^sup>*\<^sup>* (sd_chain (ss_db s)) (sd_chain db)"
    and ev: "boltz_events db \<subseteq> boltz_events (ss_db s)"
    using assms(2) by (simp_all add: quiet_def)
  have ok: "tables_ok (ss_db s)" using assms(1) by (simp add: settlement_ok_def)
  note kept = quiet_backed[OF runs ok]
  show ?thesis
    using assms(1,3,4) ev kept unfolding settlement_ok_def by simp blast
qed

subsection \<open>Crediting\<close>

lemma record_new_events:
  assumes "record_invoice_payment now u iid e tol s = Inr (n, s')"
  shows "set (is_events s') \<subseteq> insert (event_of_evidence now iid e) (set (is_events s))"
  using assms
proof (cases rule: record_cases)
  case (credited row kept pruned evs inserted)
  have "set kept \<subseteq> set (is_events s)"
    using credited(6) by (auto simp: prune_direct_rows_def delete_where_def split: if_splits)
  moreover have "set evs \<subseteq> insert (event_of_evidence now iid e) (set kept)"
    using credited(7) by (auto simp: insert_event_def split: if_splits)
  ultimately show ?thesis using credited(11) by auto
qed auto

lemma record_or_log_events:
  "set (is_events (record_or_log now u oid e tol s)) \<subseteq>
     (case oid of None \<Rightarrow> {} | Some iid \<Rightarrow> {event_of_evidence now iid e}) \<union> set (is_events s)"
  using record_new_events[of now u _ e tol s] by (fastforce simp: record_or_log_def split: option.splits sum.splits)

text \<open>What a finish leaves of the ledger: the recorded credit over unchanged events.\<close>
lemma finish_ledger:
  "\<exists>l. is_events l = is_events (sd_ledger db) \<and> sd_ledger (claim_swap_finish env tol swap txid db)
     = record_or_log (ce_now env) (ce_unix env) (sr_invoice_id swap)
         (boltz_evidence ''lightning'' ''lightning_boltz_reverse'' (sr_amount_sat swap) (sr_boltz_swap_id swap) txid) tol l"
  unfolding claim_swap_finish_def Let_def flip_invoice_on_lightning_settlement_def
  by (rule exI[of _ "(sd_ledger db)\<lparr>is_invoices := settle_mark (sr_invoice_id swap) ''settled'' (is_invoices (sd_ledger db))\<rparr>"])
    (simp add: on_invoices_def)

lemma finish_chain_ledger:
  "\<exists>l. is_events l = is_events (sd_ledger db) \<and> sd_ledger (claim_chain_swap_finish env tol swap txid db)
     = record_or_log (ce_now env) (ce_unix env) (Some (cs_invoice_id swap))
         (boltz_evidence ''bitcoin'' ''bitcoin_boltz_chain'' (cs_user_lock_amount_sat swap) (cs_boltz_swap_id swap) txid) tol l"
  unfolding claim_chain_swap_finish_def Let_def flip_invoice_on_bitcoin_boltz_settlement_def
  by (rule exI[of _ "(sd_ledger db)\<lparr>is_invoices := settle_mark (Some (cs_invoice_id swap)) ''settled'' (is_invoices (sd_ledger db))\<rparr>"])
    (simp add: on_invoices_def)

lemma finish_events:
  "boltz_events (claim_swap_finish env tol swap txid db) \<subseteq> boltz_events db \<union>
     (case sr_invoice_id swap of None \<Rightarrow> {} | Some iid \<Rightarrow>
       {event_of_evidence (ce_now env) iid (boltz_evidence ''lightning'' ''lightning_boltz_reverse''
          (sr_amount_sat swap) (sr_boltz_swap_id swap) txid)})"
proof -
  obtain l where l: "is_events l = is_events (sd_ledger db)" "sd_ledger (claim_swap_finish env tol swap txid db)
     = record_or_log (ce_now env) (ce_unix env) (sr_invoice_id swap)
         (boltz_evidence ''lightning'' ''lightning_boltz_reverse'' (sr_amount_sat swap) (sr_boltz_swap_id swap) txid) tol l"
    using finish_ledger by blast
  show ?thesis
    using record_or_log_events[of "ce_now env" "ce_unix env" "sr_invoice_id swap"
        "boltz_evidence ''lightning'' ''lightning_boltz_reverse'' (sr_amount_sat swap) (sr_boltz_swap_id swap) txid" tol l]
    unfolding boltz_events_def l by blast
qed

lemma finish_tables:
  "swap_step\<^sup>*\<^sup>* (sd_swaps db) (sd_swaps (claim_swap_finish env tol swap txid db))"
  "sd_chain (claim_swap_finish env tol swap txid db) = sd_chain db"
proof -
  let ?t = "fst (update_swap_status (ce_now env) (sr_id swap) Claimed (Some txid) (sd_swaps db))"
  have "swap_step (sd_swaps db) ?t" "swap_step ?t (clear_claim_failure_state (sr_id swap) ?t)"
    by (rule ss_status, rule ss_clear)
  then show "swap_step\<^sup>*\<^sup>* (sd_swaps db) (sd_swaps (claim_swap_finish env tol swap txid db))"
    unfolding claim_swap_finish_def Let_def on_invoices_def by simp
qed (simp add: claim_swap_finish_def Let_def on_invoices_def)

lemma finish_chain_events:
  "boltz_events (claim_chain_swap_finish env tol swap txid db) \<subseteq> insert
     (event_of_evidence (ce_now env) (cs_invoice_id swap) (boltz_evidence ''bitcoin'' ''bitcoin_boltz_chain''
        (cs_user_lock_amount_sat swap) (cs_boltz_swap_id swap) txid)) (boltz_events db)"
proof -
  obtain l where l: "is_events l = is_events (sd_ledger db)" "sd_ledger (claim_chain_swap_finish env tol swap txid db)
     = record_or_log (ce_now env) (ce_unix env) (Some (cs_invoice_id swap))
         (boltz_evidence ''bitcoin'' ''bitcoin_boltz_chain'' (cs_user_lock_amount_sat swap) (cs_boltz_swap_id swap) txid) tol l"
    using finish_chain_ledger by blast
  show ?thesis
    using record_or_log_events[of "ce_now env" "ce_unix env" "Some (cs_invoice_id swap)"
        "boltz_evidence ''bitcoin'' ''bitcoin_boltz_chain'' (cs_user_lock_amount_sat swap) (cs_boltz_swap_id swap) txid" tol l]
    unfolding boltz_events_def l option.case by blast
qed

lemma finish_chain_tables:
  "chain_step\<^sup>*\<^sup>* (sd_chain db) (sd_chain (claim_chain_swap_finish env tol swap txid db))"
  "sd_swaps (claim_chain_swap_finish env tol swap txid db) = sd_swaps db"
proof -
  let ?t = "fst (update_chain_swap_status (ce_now env) (cs_id swap) CClaimed (Some txid) (sd_chain db))"
  have "chain_step (sd_chain db) ?t" "chain_step ?t (clear_chain_swap_claim_failure_state (cs_id swap) ?t)"
    by (rule cst_status, rule cst_clear)
  then show "chain_step\<^sup>*\<^sup>* (sd_chain db) (sd_chain (claim_chain_swap_finish env tol swap txid db))"
    unfolding claim_chain_swap_finish_def Let_def on_invoices_def by simp
qed (simp add: claim_chain_swap_finish_def Let_def on_invoices_def)

lemma backed_credit:
  assumes "backed_flight c db (swap, tx)" "sr_invoice_id swap = Some iid"
  shows "backed_event db (event_of_evidence now iid (boltz_evidence rail src (sr_amount_sat swap) (sr_boltz_swap_id swap) txid))"
proof -
  obtain r where "r \<in> set (sd_swaps db)" "swap_evolves swap r" "sr_claim_tx_hex r \<noteq> None"
    using assms(1) stores_tx_Some unfolding backed_flight_def by (auto dest: stores_tx_Some)
  then show ?thesis
    using assms(2) by (intro backed_event_swap[of r]) (simp_all add: swap_evolves_def event_of_evidence_def boltz_evidence_def)
qed

lemma backed_chain_credit:
  assumes "backed_chain_flight c db (swap, tx)"
  shows "backed_event db (event_of_evidence now (cs_invoice_id swap)
    (boltz_evidence rail src (cs_user_lock_amount_sat swap) (cs_boltz_swap_id swap) txid))"
proof -
  obtain r where "r \<in> set (sd_chain db)" "chain_evolves swap r" "cs_claim_tx_hex r \<noteq> None"
    using assms(1) stores_tx_Some unfolding backed_chain_flight_def by (auto dest: stores_tx_Some)
  then show ?thesis
    by (intro backed_event_chain[of r]) (simp_all add: chain_evolves_def event_of_evidence_def boltz_evidence_def)
qed

subsection \<open>Every step keeps the invariant\<close>

lemma mark_claiming_row:
  assumes "r \<in> set t" "sr_id r = sid"
  shows "\<exists>r'\<in>set (mark_claiming now sid t). sr_id r' = sid \<and> swap_evolves r r' \<and> sr_claim_tx_hex r' = sr_claim_tx_hex r"
  unfolding mark_claiming_def using assms
  by (intro bexI[of _ "if sr_id r = sid \<and> swap_open r then r\<lparr>sr_status := ''claiming'',
        sr_next_claim_attempt_at := Some (now + claim_in_flight_lease), sr_updated_at := now\<rparr> else r"])
    (auto simp: swap_evolves_def update_where_frame update_where_hit intro: update_where_frame update_where_hit)

lemma resolve_keeps_tx:
  assumes "resolve_claim_address env swap db = (x, db1)" "r \<in> set (sd_swaps db)"
  shows "\<exists>r'\<in>set (sd_swaps db1). sr_id r' = sr_id r \<and> swap_evolves r r' \<and> sr_claim_tx_hex r' = sr_claim_tx_hex r"
proof -
  have w: "\<exists>r'\<in>set (write_claim_address sid a i (sd_swaps db)). sr_id r' = sr_id r \<and> swap_evolves r r'
      \<and> sr_claim_tx_hex r' = sr_claim_tx_hex r" for sid a i
    unfolding write_claim_address_def using assms(2)
    by (intro update_where_evolves[where R = "\<lambda>r r'. swap_evolves r r' \<and> sr_claim_tx_hex r' = sr_claim_tx_hex r"])
      (auto simp: swap_evolves_def swap_open_def)
  have "sd_swaps db1 = sd_swaps db \<or> (\<exists>sid a i. sd_swaps db1 = write_claim_address sid a i (sd_swaps db))"
    using assms(1) by (auto simp: resolve_claim_address_def split: option.splits if_splits sum.splits) blast+
  then show ?thesis
  proof (elim disjE exE)
    assume "sd_swaps db1 = sd_swaps db"
    then show ?thesis using assms(2) swap_evolves_refl[of r] by auto
  next
    fix sid a i assume "sd_swaps db1 = write_claim_address sid a i (sd_swaps db)"
    then show ?thesis using w[of sid a i] by simp
  qed
qed

lemma prepare_backed:
  assumes "claim_swap_prepare c env sid db = (Inr (Prepared swap tx), db')"
  shows "backed_flight c db' (swap, tx)"
  using assms
proof (cases rule: prepare_cases)
  case (reload swap' tx' addr db1 hex)
  have s: "swap \<in> set (sd_swaps db)" "sr_id swap = sid"
    using reload(1,2) by (auto simp: get_swap_by_id_def dest: select_one_SomeD)
  obtain r1 where r1: "r1 \<in> set (sd_swaps db1)" "sr_id r1 = sid" "swap_evolves swap r1" "sr_claim_tx_hex r1 = Some hex"
    using resolve_keeps_tx[OF reload(3) s(1)] reload(1,4) s(2) by auto
  obtain r2 where "r2 \<in> set (sd_swaps db')" "sr_id r2 = sid" "swap_evolves r1 r2" "sr_claim_tx_hex r2 = Some hex"
    using mark_claiming_row[OF r1(1,2), of "ce_now env"] reload(6) r1(4) by auto
  then show ?thesis
    using swap_evolves_trans[OF r1(3)] s reload(1,5) unfolding backed_flight_def by (auto simp: stores_tx_def)
next
  case (construct swap' tx' addr db1 path)
  let ?f = "\<lambda>r. r\<lparr>sr_claim_tx_hex := Some (tc_to_hex c tx), sr_claim_txid := Some (tc_txid c tx), sr_claim_path := Some path\<rparr>"
  have s: "swap \<in> set (sd_swaps db)" "sr_id swap = sid"
    using construct(1,2) by (auto simp: get_swap_by_id_def dest: select_one_SomeD)
  obtain r1 where r1: "r1 \<in> set (sd_swaps db1)" "sr_id r1 = sid" "swap_evolves swap r1" "sr_claim_tx_hex r1 = None"
    using resolve_keeps_tx[OF construct(3) s(1)] construct(1,4) s(2) by auto
  have "?f r1 \<in> set (persist_claim_tx sid (tc_to_hex c tx) (tc_txid c tx) path (sd_swaps db1))"
    unfolding persist_claim_tx_def
    using update_where_hit[OF r1(1), of "\<lambda>r. sr_id r = sid \<and> sr_claim_tx_hex r = None" ?f] r1(2,4) by simp
  from mark_claiming_row[OF this, of sid "ce_now env"] r1(2) construct(1,6)
  obtain r2 where r2: "r2 \<in> set (sd_swaps db')" "sr_id r2 = sid" "swap_evolves (?f r1) r2"
      "sr_claim_tx_hex r2 = Some (tc_to_hex c tx)" by auto
  have "swap_evolves r1 (?f r1)" using r1(4) by (simp add: swap_evolves_def swap_open_def)
  from swap_evolves_trans[OF r1(3) swap_evolves_trans[OF this r2(3)]] r2 s show ?thesis
    unfolding backed_flight_def by (auto simp: stores_tx_def intro!: bexI[of _ r2])
qed (use assms in simp_all)

lemma mark_chain_claiming_row:
  assumes "r \<in> set t" "cs_id r = sid"
  shows "\<exists>r'\<in>set (mark_chain_claiming now sid t). cs_id r' = sid \<and> chain_evolves r r' \<and> cs_claim_tx_hex r' = cs_claim_tx_hex r"
  unfolding mark_chain_claiming_def assms(2)[symmetric] using assms
  by (intro update_where_evolves[where R = "\<lambda>r r'. chain_evolves r r' \<and> cs_claim_tx_hex r' = cs_claim_tx_hex r"])
    (auto simp: chain_evolves_def)

lemma prepare_chain_backed:
  assumes "claim_chain_swap_prepare c env sid db = (Inr (Prepared swap tx), db')"
  shows "backed_chain_flight c db' (swap, tx)"
  using assms
proof (cases rule: chain_prepare_cases)
  case (reload swap' tx' hex)
  have s: "swap \<in> set (sd_chain db)" "cs_id swap = sid"
    using reload(1,2) by (auto simp: get_chain_swap_by_id_def dest: select_one_SomeD)
  obtain r2 where "r2 \<in> set (sd_chain db')" "cs_id r2 = sid" "chain_evolves swap r2" "cs_claim_tx_hex r2 = Some hex"
    using mark_chain_claiming_row[OF s, of "ce_now env"] reload(1,3,5) by auto
  then show ?thesis
    using s reload(1,4) unfolding backed_chain_flight_def by (auto simp: stores_tx_def)
next
  case (construct swap' tx')
  let ?f = "\<lambda>r. r\<lparr>cs_claim_tx_hex := Some (tc_to_hex c tx), cs_claim_txid := Some (tc_txid c tx)\<rparr>"
  have s: "swap \<in> set (sd_chain db)" "cs_id swap = sid" "cs_claim_tx_hex swap = None"
    using construct(1-3) by (auto simp: get_chain_swap_by_id_def dest: select_one_SomeD)
  have "?f swap \<in> set (persist_chain_claim_tx sid (tc_to_hex c tx) (tc_txid c tx) (sd_chain db))"
    unfolding persist_chain_claim_tx_def
    using update_where_hit[OF s(1), of "\<lambda>r. cs_id r = sid \<and> cs_claim_tx_hex r = None" ?f] s(2,3) by simp
  from mark_chain_claiming_row[OF this, of sid "ce_now env"] s(2) construct(1,4)
  obtain r2 where r2: "r2 \<in> set (sd_chain db')" "cs_id r2 = sid" "chain_evolves (?f swap) r2"
      "cs_claim_tx_hex r2 = Some (tc_to_hex c tx)" by auto
  have "chain_evolves swap (?f swap)" using s(3) by (simp add: chain_evolves_def chain_open_def)
  from chain_evolves_trans[OF this r2(3)] r2 s show ?thesis
    unfolding backed_chain_flight_def by (auto simp: stores_tx_def intro!: bexI[of _ r2])
qed (use assms in simp_all)

lemma direct_events:
  assumes "direct_source e" "record_invoice_payment now u iid e tol (sd_ledger db) = Inr (n, led)"
  shows "boltz_events (db\<lparr>sd_ledger := led\<rparr>) \<subseteq> boltz_events db"
  using record_new_events[OF assms(2)] assms(1)
  by (auto simp: boltz_events_def direct_source_def event_of_evidence_def)

lemma quiet_ledger:
  "boltz_events (db\<lparr>sd_ledger := led\<rparr>) \<subseteq> boltz_events db \<Longrightarrow> quiet db (db\<lparr>sd_ledger := led\<rparr>)"
  by (simp add: quiet_def)

text \<open>A finish credits the task's own swap.\<close>
lemma finish_ok:
  assumes "settlement_ok c s" "(swap, tx) \<in> set (ss_flight s)"
  shows "settlement_ok c (s\<lparr>ss_db := claim_swap_finish env tol swap txid (ss_db s),
      ss_flight := remove1 (swap, tx) (ss_flight s)\<rparr>)"
proof -
  let ?db = "claim_swap_finish env tol swap txid (ss_db s)"
  have ok: "tables_ok (ss_db s)" and backed: "backed_flight c (ss_db s) (swap, tx)"
    and events: "\<forall>e\<in>boltz_events (ss_db s). backed_event (ss_db s) e"
    using assms by (auto simp: settlement_ok_def)
  have run: "chain_step\<^sup>*\<^sup>* (sd_chain (ss_db s)) (sd_chain ?db)" by (simp add: finish_tables(2))
  note kept = quiet_backed[OF finish_tables(1) run ok]
  show ?thesis
  proof (rule settlement_okI, goal_cases)
    case (2 f)
    then have "f \<in> set (ss_flight s)" using set_remove1_subset by fastforce
    then show ?case using assms(1) kept(2) by (auto simp: settlement_ok_def)
  next
    case (3 f)
    then show ?case using assms(1) kept(3) by (auto simp: settlement_ok_def)
  next
    case (4 e)
    then consider "e \<in> boltz_events (ss_db s)"
      | iid where "sr_invoice_id swap = Some iid" "e = event_of_evidence (ce_now env) iid
          (boltz_evidence ''lightning'' ''lightning_boltz_reverse'' (sr_amount_sat swap) (sr_boltz_swap_id swap) txid)"
      using finish_events[of env tol swap txid "ss_db s"] by (auto split: option.splits)
    then show ?case
    proof cases
      case 1
      then show ?thesis using events kept(4) by simp
    next
      case 2
      then show ?thesis using backed_credit[OF kept(2)[OF backed] 2(1)] by simp
    qed
  qed (use kept(1) in simp)
qed

lemma finish_chain_ok:
  assumes "settlement_ok c s" "(swap, tx) \<in> set (ss_chain_flight s)"
  shows "settlement_ok c (s\<lparr>ss_db := claim_chain_swap_finish env tol swap txid (ss_db s),
      ss_chain_flight := remove1 (swap, tx) (ss_chain_flight s)\<rparr>)"
proof -
  let ?db = "claim_chain_swap_finish env tol swap txid (ss_db s)"
  have ok: "tables_ok (ss_db s)" and backed: "backed_chain_flight c (ss_db s) (swap, tx)"
    and events: "\<forall>e\<in>boltz_events (ss_db s). backed_event (ss_db s) e"
    using assms by (auto simp: settlement_ok_def)
  have run: "swap_step\<^sup>*\<^sup>* (sd_swaps (ss_db s)) (sd_swaps ?db)" by (simp add: finish_chain_tables(2))
  note kept = quiet_backed[OF run finish_chain_tables(1) ok]
  show ?thesis
  proof (rule settlement_okI, goal_cases)
    case (2 f)
    then show ?case using assms(1) kept(2) by (auto simp: settlement_ok_def)
  next
    case (3 f)
    then have "f \<in> set (ss_chain_flight s)" using set_remove1_subset by fastforce
    then show ?case using assms(1) kept(3) by (auto simp: settlement_ok_def)
  next
    case (4 e)
    then consider "e \<in> boltz_events (ss_db s)"
      | "e = event_of_evidence (ce_now env) (cs_invoice_id swap)
          (boltz_evidence ''bitcoin'' ''bitcoin_boltz_chain'' (cs_user_lock_amount_sat swap) (cs_boltz_swap_id swap) txid)"
      using finish_chain_events[of env tol swap txid "ss_db s"] by auto
    then show ?case
    proof cases
      case 1
      then show ?thesis using events kept(4) by simp
    next
      case 2
      then show ?thesis using backed_chain_credit[OF kept(3)[OF backed]] by simp
    qed
  qed (use kept(1) in simp)
qed

text \<open>A quiet step that adds one backed task.\<close>
lemma quiet_new_task:
  assumes "settlement_ok c s" "quiet (ss_db s) db"
  shows "backed_flight c db f \<Longrightarrow> settlement_ok c (s\<lparr>ss_db := db, ss_flight := f # ss_flight s\<rparr>)"
    and "backed_chain_flight c db g \<Longrightarrow> settlement_ok c (s\<lparr>ss_db := db, ss_chain_flight := g # ss_chain_flight s\<rparr>)"
proof -
  have "settlement_ok c (s\<lparr>ss_db := db\<rparr>)"
    using quiet_ok[OF assms, of "ss_flight s" "ss_chain_flight s"] by (cases s) simp
  then show "backed_flight c db f \<Longrightarrow> settlement_ok c (s\<lparr>ss_db := db, ss_flight := f # ss_flight s\<rparr>)"
    "backed_chain_flight c db g \<Longrightarrow> settlement_ok c (s\<lparr>ss_db := db, ss_chain_flight := g # ss_chain_flight s\<rparr>)"
    by (simp_all add: settlement_ok_def)
qed

lemma quiet_same_tasks: "settlement_ok c s \<Longrightarrow> quiet (ss_db s) db \<Longrightarrow> settlement_ok c (s\<lparr>ss_db := db\<rparr>)"
  using quiet_ok[of c s db "ss_flight s" "ss_chain_flight s"] by (cases s) simp

lemma settlement_step_ok: "settlement_step c s s' \<Longrightarrow> settlement_ok c s \<Longrightarrow> settlement_ok c s'"
proof (induction rule: settlement_step.induct)
  case (se_prepare env sid s swap tx db)
  then show ?case by (intro quiet_new_task(1)) (auto intro: quiet_prepare prepare_backed)
next
  case (se_no_claim env sid s r db)
  then show ?case by (auto intro: quiet_same_tasks quiet_prepare)
next
  case (se_finish swap tx s env txid tol)
  then show ?case by (intro finish_ok)
next
  case (se_prepare_chain env sid s swap tx db)
  then show ?case by (intro quiet_new_task(2)) (auto intro: quiet_prepare_chain prepare_chain_backed)
next
  case (se_finish_chain swap tx s env txid tol)
  then show ?case by (intro finish_chain_ok)
next
  case (se_drop fl s cfl)
  then show ?case using quiet_ok[OF se_drop(3) quiet_refl se_drop(1,2)] by (cases s) simp
next
  case (se_event_id s w)
  have "quiet (ss_db s) ((ss_db s)\<lparr>sd_webhooks := w\<rparr>)" by (simp add: quiet_def boltz_events_def)
  then show ?case using se_event_id by (rule quiet_same_tasks[rotated])
next
  case (se_record_swap now fid n s swaps us)
  have "quiet (ss_db s) ((ss_db s)\<lparr>sd_swaps := swaps, sd_users := us\<rparr>)"
    by (rule quiet_cong[OF _ _ _ quiet_swaps[OF ss_record[OF se_record_swap(1)]]]) simp_all
  then show ?case using se_record_swap(2) by (rule quiet_same_tasks[rotated])
next
  case (se_direct e now unix_now iid tol s n led)
  then show ?case by (intro quiet_same_tasks quiet_ledger direct_events)
qed (auto intro!: quiet_same_tasks intro: quiet_intros swap_steps cst_status cst_record)

lemma settlement_run_ok: "(settlement_step c)\<^sup>*\<^sup>* s s' \<Longrightarrow> settlement_ok c s \<Longrightarrow> settlement_ok c s'"
  by (induction rule: rtranclp_induct) (auto intro: settlement_step_ok)

end
