(* ===== verification/Webhooks.thy ===== *)
theory Webhooks
  imports ClaimSafety
begin

text \<open>
  The Boltz webhook of src/src/claimer.rs: the URL secret, the idempotent
  dispatcher, the handlers of reverse and chain swaps; and the proof that
  every entry point (webhook, sweep, reconciler tick) is a run of
  \<open>settlement_step\<close>.  \<open>gate\<close> is the verdict of the per-IP rate limit,
  \<open>parse\<close> the JSON decoder.
\<close>

subsection \<open>The URL secret\<close>

datatype url_secret_match = SecretCurrent | SecretPrevious | SecretNone

text \<open>\<open>ct_eq\<close> of the subtle crate decides byte equality.\<close>
definition secret_eq :: "string \<Rightarrow> string \<Rightarrow> bool" where
  "secret_eq a b = (if b = [] \<or> length a \<noteq> length b then False else a = b)"

definition match_url_secret_pair :: "string \<Rightarrow> string \<Rightarrow> string \<Rightarrow> url_secret_match" where
  "match_url_secret_pair presented current previous =
    (if secret_eq presented current then SecretCurrent
     else if secret_eq presented previous then SecretPrevious
     else SecretNone)"

definition url_secret_matches_pair :: "string \<Rightarrow> string \<Rightarrow> string \<Rightarrow> bool" where
  "url_secret_matches_pair presented current previous \<longleftrightarrow>
    match_url_secret_pair presented current previous \<noteq> SecretNone"

subsection \<open>Handlers\<close>

text \<open>\<open>INSERT .. ON CONFLICT DO NOTHING\<close>: was this the first delivery?\<close>
definition try_record_webhook_event :: "string \<Rightarrow> string list \<Rightarrow> bool \<times> string list" where
  "try_record_webhook_event event_id evs = (if event_id \<in> set evs then (False, evs) else (True, evs @ [event_id]))"

definition chain_swap_status_from_boltz_status :: "string \<Rightarrow> chain_swap_status option" where
  "chain_swap_status_from_boltz_status s =
    (if s = ''swap.created'' then None
     else if s = ''transaction.mempool'' then Some UserLockMempool
     else if s = ''transaction.confirmed'' then Some UserLockConfirmed
     else if s = ''transaction.server.mempool'' then Some ServerLockMempool
     else if s = ''transaction.server.confirmed'' then Some ServerLockConfirmed
     else if s = ''swap.expired'' then Some CExpired
     else if s = ''transaction.zeroconf.rejected'' \<or> s = ''transaction.lockupFailed'' \<or> s = ''transaction.failed''
       then Some LockupFailed
     else if s = ''transaction.refunded'' then Some CRefunded
     else None)"

text \<open>The webhook's single claim attempt; its result is only logged.\<close>
definition try_claim_with_retry ::
  "tx_codec \<Rightarrow> claim_env \<Rightarrow> tolerances \<Rightarrow> int \<Rightarrow> uuid \<Rightarrow> settlement_db \<Rightarrow> settlement_db" where
  "try_claim_with_retry c env tol mx sid db = snd (claim_swap c env tol mx sid db)"

definition try_claim_chain_swap_with_retry ::
  "tx_codec \<Rightarrow> claim_env \<Rightarrow> tolerances \<Rightarrow> int \<Rightarrow> uuid \<Rightarrow> settlement_db \<Rightarrow> settlement_db" where
  "try_claim_chain_swap_with_retry c env tol mx sid db = snd (claim_chain_swap c env tol mx sid db)"

definition handle_chain_swap_webhook ::
  "tx_codec \<Rightarrow> claim_env \<Rightarrow> tolerances \<Rightarrow> int \<Rightarrow> chain_swap \<Rightarrow> string \<Rightarrow> settlement_db
    \<Rightarrow> (app_error + unit) \<times> settlement_db" where
  "handle_chain_swap_webhook c env tol mx swap boltz_status db =
    (case chain_parsed_status swap of
       Inl e \<Rightarrow> (Inl (DbError e), db)
     | Inr st \<Rightarrow>
        if chain_is_terminal st then (Inr (), db)
        else if boltz_status = ''transaction.claimed''
          then (Inr (), try_claim_chain_swap_with_retry c env tol mx (cs_id swap) db)
        else (case chain_swap_status_from_boltz_status boltz_status of
          None \<Rightarrow> (Inr (), db)
        | Some next_st \<Rightarrow>
           (let db1 = db\<lparr>sd_chain := fst (update_chain_swap_status (ce_now env) (cs_id swap) next_st None (sd_chain db))\<rparr>;
                db2 = (if next_st \<in> {UserLockMempool, UserLockConfirmed, ServerLockMempool, ServerLockConfirmed}
                       then on_invoices (flip_invoice_on_bitcoin_boltz_in_progress (Some (cs_invoice_id swap))) db1
                       else db1)
            in (Inr (),
                if next_st \<in> {ServerLockMempool, ServerLockConfirmed}
                then try_claim_chain_swap_with_retry c env tol mx (cs_id swap) db2 else db2))))"

text \<open>The reverse-swap arm of \<open>dispatch_webhook\<close>.\<close>
definition handle_swap_webhook ::
  "tx_codec \<Rightarrow> claim_env \<Rightarrow> tolerances \<Rightarrow> int \<Rightarrow> swap_record \<Rightarrow> string \<Rightarrow> settlement_db
    \<Rightarrow> (app_error + unit) \<times> settlement_db" where
  "handle_swap_webhook c env tol mx swap boltz_status db =
    (let sid = sr_id swap;
         set_status = (\<lambda>st d. d\<lparr>sd_swaps := fst (update_swap_status (ce_now env) sid st None (sd_swaps d))\<rparr>)
     in case parsed_status swap of
       Inl e \<Rightarrow> (Inl (DbError e), db)
     | Inr st \<Rightarrow>
        if is_terminal st then (Inr (), db)
        else if boltz_status = ''transaction.mempool'' \<or> boltz_status = ''transaction.confirmed'' then
          (Inr (), try_claim_with_retry c env tol mx sid
             (on_invoices (flip_invoice_on_lightning_in_progress (sr_invoice_id swap))
               (set_status (if boltz_status = ''transaction.mempool'' then LockupMempool else LockupConfirmed) db)))
        else if boltz_status = ''invoice.settled'' then (Inr (), db)
        else if boltz_status = ''swap.expired'' then
          (Inr (), db\<lparr>sd_swaps := mark_cooperative_refused (ce_now env) sid (sd_swaps db)\<rparr>)
        else if boltz_status = ''transaction.failed'' then (Inr (), set_status SwapExpired db)
        else if boltz_status = ''invoice.expired'' then (Inr (), set_status SwapExpired db)
        else if boltz_status = ''transaction.refunded'' then
          (Inr (), on_invoices (settle_mark (sr_invoice_id swap) ''refunded'') (set_status LockupRefunded db))
        else (Inr (), db))"

definition dispatch_webhook ::
  "tx_codec \<Rightarrow> claim_env \<Rightarrow> tolerances \<Rightarrow> int \<Rightarrow> app_error option \<Rightarrow> (string \<Rightarrow> string + string \<times> string) \<Rightarrow> string
    \<Rightarrow> settlement_db \<Rightarrow> (app_error + unit) \<times> settlement_db" where
  "dispatch_webhook c env tol mx gate parse body db =
    (case gate of
       Some e \<Rightarrow> (Inl e, db)
     | None \<Rightarrow>
        (case parse body of
           Inl e \<Rightarrow> (Inl (ClaimError (''invalid webhook payload: '' @ e)), db)
         | Inr (bid, status) \<Rightarrow>
            (case try_record_webhook_event (bid @ '':'' @ status) (sd_webhooks db) of
               (first, evs) \<Rightarrow>
                 if \<not> first then (Inr (), db)
                 else (let db1 = db\<lparr>sd_webhooks := evs\<rparr> in
                   case get_swap_by_boltz_id bid (sd_swaps db1) of
                     Some swap \<Rightarrow> handle_swap_webhook c env tol mx swap status db1
                   | None \<Rightarrow>
                      (case get_chain_swap_by_boltz_id bid (sd_chain db1) of
                         Some swap \<Rightarrow> handle_chain_swap_webhook c env tol mx swap status db1
                       | None \<Rightarrow> (Inr (), db1))))))"

text \<open>The authenticated route: None is the bare 404 of a route miss.\<close>
definition webhook_with_secret ::
  "tx_codec \<Rightarrow> claim_env \<Rightarrow> tolerances \<Rightarrow> int \<Rightarrow> string \<Rightarrow> string \<Rightarrow> app_error option
    \<Rightarrow> (string \<Rightarrow> string + string \<times> string) \<Rightarrow> string \<Rightarrow> string \<Rightarrow> settlement_db
    \<Rightarrow> (app_error + unit) option \<times> settlement_db" where
  "webhook_with_secret c env tol mx current previous gate parse secret body db =
    (case match_url_secret_pair secret current previous of
       SecretNone \<Rightarrow> (None, db)
     | _ \<Rightarrow> apfst Some (dispatch_webhook c env tol mx gate parse body db))"

definition webhook_unauthenticated ::
  "tx_codec \<Rightarrow> claim_env \<Rightarrow> tolerances \<Rightarrow> int \<Rightarrow> string \<Rightarrow> app_error option
    \<Rightarrow> (string \<Rightarrow> string + string \<times> string) \<Rightarrow> string \<Rightarrow> settlement_db
    \<Rightarrow> (app_error + unit) option \<times> settlement_db" where
  "webhook_unauthenticated c env tol mx current gate parse body db =
    (if current \<noteq> [] then (None, db)
     else apfst Some (dispatch_webhook c env tol mx gate parse body db))"

subsection \<open>Every entry point is a run of the step relation\<close>

text \<open>The database moves while the other tasks in flight stay as they are.\<close>
definition db_run :: "tx_codec \<Rightarrow> settlement_db \<Rightarrow> settlement_db \<Rightarrow> bool" where
  "db_run c db db' \<longleftrightarrow> (\<forall>fl cfl. (settlement_step c)\<^sup>*\<^sup>*
     \<lparr>ss_db = db, ss_flight = fl, ss_chain_flight = cfl\<rparr> \<lparr>ss_db = db', ss_flight = fl, ss_chain_flight = cfl\<rparr>)"

lemma db_run_refl [simp]: "db_run c db db"
  by (simp add: db_run_def)

lemma db_run_trans [trans]: "db_run c db db1 \<Longrightarrow> db_run c db1 db2 \<Longrightarrow> db_run c db db2"
  unfolding db_run_def by (meson rtranclp_trans)

lemma db_run_step:
  assumes "\<And>fl cfl. settlement_step c \<lparr>ss_db = db, ss_flight = fl, ss_chain_flight = cfl\<rparr>
      \<lparr>ss_db = db', ss_flight = fl, ss_chain_flight = cfl\<rparr>"
  shows "db_run c db db'"
  unfolding db_run_def using assms by (blast intro: r_into_rtranclp)

lemma run_failed: "db_run c db (claim_swap_failed env mx sid e db)"
  by (rule db_run_step) (use se_failed[of c "\<lparr>ss_db = db, ss_flight = _, ss_chain_flight = _\<rparr>"] in simp)

lemma run_failed_chain: "db_run c db (claim_chain_swap_failed env mx sid e db)"
  by (rule db_run_step) (use se_failed_chain[of c "\<lparr>ss_db = db, ss_flight = _, ss_chain_flight = _\<rparr>"] in simp)

lemma run_action: "db_run c db (apply_action now swap a db)"
  by (rule db_run_step) (use se_reconcile[of c "\<lparr>ss_db = db, ss_flight = _, ss_chain_flight = _\<rparr>"] in simp)

lemma run_status: "db_run c db (db\<lparr>sd_swaps := fst (update_swap_status now sid st None (sd_swaps db))\<rparr>)"
  by (rule db_run_step) (use se_status[of c "\<lparr>ss_db = db, ss_flight = _, ss_chain_flight = _\<rparr>"] in simp)

lemma run_refuse: "db_run c db (db\<lparr>sd_swaps := mark_cooperative_refused now sid (sd_swaps db)\<rparr>)"
  by (rule db_run_step) (use se_refuse[of c "\<lparr>ss_db = db, ss_flight = _, ss_chain_flight = _\<rparr>"] in simp)

lemma run_chain_status: "db_run c db (db\<lparr>sd_chain := fst (update_chain_swap_status now sid st None (sd_chain db))\<rparr>)"
  by (rule db_run_step) (use se_chain_status[of c "\<lparr>ss_db = db, ss_flight = _, ss_chain_flight = _\<rparr>"] in simp)

lemma run_flip: "db_run c db (on_invoices (flip_in_progress oid) db)"
  by (rule db_run_step) (use se_flip[of c "\<lparr>ss_db = db, ss_flight = _, ss_chain_flight = _\<rparr>"] in simp)

lemma run_mark: "db_run c db (on_invoices (settle_mark oid st) db)"
  by (rule db_run_step) (use se_mark[of c "\<lparr>ss_db = db, ss_flight = _, ss_chain_flight = _\<rparr>"] in simp)

lemma run_event_id: "db_run c db (db\<lparr>sd_webhooks := w\<rparr>)"
  by (rule db_run_step) (use se_event_id[of c "\<lparr>ss_db = db, ss_flight = _, ss_chain_flight = _\<rparr>"] in simp)

lemma run_claim:
  assumes "claim_swap_inner c env tol sid db = (r, db')"
  shows "db_run c db db'"
proof -
  obtain p db1 where p: "claim_swap_prepare c env sid db = (p, db1)" by fastforce
  show ?thesis
  proof (cases "\<exists>swap tx. p = Inr (Prepared swap tx)")
    case False
    then have "db' = db1"
      using assms by (auto simp: claim_swap_inner_def p split: sum.splits claim_step.splits)
    moreover have "db_run c db db1"
      by (rule db_run_step) (use se_no_claim[of c env sid "\<lparr>ss_db = db, ss_flight = _, ss_chain_flight = _\<rparr>" p db1] p False in auto)
    ultimately show ?thesis by simp
  next
    case True
    then obtain swap tx where p': "claim_swap_prepare c env sid db = (Inr (Prepared swap tx), db1)" using p by blast
    have first: "settlement_step c \<lparr>ss_db = db, ss_flight = fl, ss_chain_flight = cfl\<rparr>
        \<lparr>ss_db = db1, ss_flight = (swap, tx) # fl, ss_chain_flight = cfl\<rparr>" for fl cfl
      using se_prepare[of c env sid "\<lparr>ss_db = db, ss_flight = fl, ss_chain_flight = cfl\<rparr>", simplified, OF p'] .
    have second: "settlement_step c \<lparr>ss_db = db1, ss_flight = (swap, tx) # fl, ss_chain_flight = cfl\<rparr>
        \<lparr>ss_db = db', ss_flight = fl, ss_chain_flight = cfl\<rparr>" for fl cfl
    proof (cases "confirm_broadcast c env ''broadcast'' tx")
      case (Inl e)
      then have "db' = db1" using assms by (simp add: claim_swap_inner_def p')
      then show ?thesis
        using se_drop[of fl "\<lparr>ss_db = db1, ss_flight = (swap, tx) # fl, ss_chain_flight = cfl\<rparr>" cfl c] by auto
    next
      case (Inr txid)
      then have "db' = claim_swap_finish env tol swap txid db1" using assms by (simp add: claim_swap_inner_def p')
      then show ?thesis
        using se_finish[of swap tx "\<lparr>ss_db = db1, ss_flight = (swap, tx) # fl, ss_chain_flight = cfl\<rparr>" c env txid tol] Inr
        by simp
    qed
    show ?thesis
      unfolding db_run_def using first second by (meson converse_rtranclp_into_rtranclp r_into_rtranclp)
  qed
qed

lemma run_claim_chain:
  assumes "claim_chain_swap_inner c env tol sid db = (r, db')"
  shows "db_run c db db'"
proof -
  obtain p db1 where p: "claim_chain_swap_prepare c env sid db = (p, db1)" by fastforce
  show ?thesis
  proof (cases "\<exists>swap tx. p = Inr (Prepared swap tx)")
    case False
    then have "db' = db1"
      using assms by (auto simp: claim_chain_swap_inner_def p split: sum.splits claim_step.splits)
    moreover have "db1 = db" using p by (cases rule: chain_prepare_cases) (use False in auto)
    ultimately show ?thesis by simp
  next
    case True
    then obtain swap tx where p': "claim_chain_swap_prepare c env sid db = (Inr (Prepared swap tx), db1)" using p by blast
    have first: "settlement_step c \<lparr>ss_db = db, ss_flight = fl, ss_chain_flight = cfl\<rparr>
        \<lparr>ss_db = db1, ss_flight = fl, ss_chain_flight = (swap, tx) # cfl\<rparr>" for fl cfl
      using se_prepare_chain[of c env sid "\<lparr>ss_db = db, ss_flight = fl, ss_chain_flight = cfl\<rparr>", simplified, OF p'] .
    have second: "settlement_step c \<lparr>ss_db = db1, ss_flight = fl, ss_chain_flight = (swap, tx) # cfl\<rparr>
        \<lparr>ss_db = db', ss_flight = fl, ss_chain_flight = cfl\<rparr>" for fl cfl
    proof (cases "confirm_broadcast c env ''broadcast chain claim'' tx")
      case (Inl e)
      then have "db' = db1" using assms by (simp add: claim_chain_swap_inner_def p')
      then show ?thesis
        using se_drop[of fl "\<lparr>ss_db = db1, ss_flight = fl, ss_chain_flight = (swap, tx) # cfl\<rparr>" cfl c] by auto
    next
      case (Inr txid)
      then have "db' = claim_chain_swap_finish env tol swap txid db1" using assms by (simp add: claim_chain_swap_inner_def p')
      then show ?thesis
        using se_finish_chain[of swap tx "\<lparr>ss_db = db1, ss_flight = fl, ss_chain_flight = (swap, tx) # cfl\<rparr>" c env txid tol] Inr
        by simp
    qed
    show ?thesis
      unfolding db_run_def using first second by (meson converse_rtranclp_into_rtranclp r_into_rtranclp)
  qed
qed

lemma run_claim_swap: "db_run c db (snd (claim_swap c env tol mx sid db))"
  using run_claim[of c env tol sid db] run_failed[of c] db_run_trans
  by (auto simp: claim_swap_def split: prod.splits sum.splits)

lemma run_claim_chain_swap: "db_run c db (snd (claim_chain_swap c env tol mx sid db))"
  using run_claim_chain[of c env tol sid db] run_failed_chain[of c] db_run_trans
  by (auto simp: claim_chain_swap_def split: prod.splits sum.splits)

lemma db_run_fold: "(\<And>x d. db_run c d (f x d)) \<Longrightarrow> db_run c db (fold f xs db)"
  by (induction xs arbitrary: db) (auto intro: db_run_trans)

lemma run_sweep: "db_run c db (claim_sweep c env tol mx db)"
  unfolding claim_sweep_def Let_def
  by (intro db_run_trans[OF db_run_fold db_run_fold] run_claim_swap run_claim_chain_swap)

lemma run_reconcile_rows: "db_run c db (reconcile_rows now remote rows db)"
  by (induction rows arbitrary: db) (auto intro: db_run_trans run_action split: option.splits)

lemma run_tick: "db_run c db (run_one_tick now age cap remote db)"
  unfolding run_one_tick_def by (rule run_reconcile_rows)

lemmas webhook_runs = run_status run_refuse run_chain_status run_flip run_mark run_claim_swap run_claim_chain_swap

lemma run_swap_webhook: "db_run c db (snd (handle_swap_webhook c env tol mx swap st db))"
proof -
  have lockup: "db_run c db (try_claim_with_retry c env tol mx sid (on_invoices (flip_invoice_on_lightning_in_progress oid)
      (db\<lparr>sd_swaps := fst (update_swap_status now sid2 st2 None (sd_swaps db))\<rparr>)))" for sid oid now sid2 st2
    unfolding try_claim_with_retry_def flip_invoice_on_lightning_in_progress_def
    by (rule db_run_trans[OF run_status db_run_trans[OF run_flip run_claim_swap]])
  have refund: "db_run c db (on_invoices (settle_mark oid m)
      (db\<lparr>sd_swaps := fst (update_swap_status now sid2 st2 None (sd_swaps db))\<rparr>))" for oid now sid2 st2 m
    by (rule db_run_trans[OF run_status run_mark])
  show ?thesis
    by (auto simp: handle_swap_webhook_def Let_def lockup refund run_status run_refuse split: sum.splits)
qed

lemma run_chain_webhook: "db_run c db (snd (handle_chain_swap_webhook c env tol mx swap st db))"
proof -
  let ?upd = "\<lambda>nst. db\<lparr>sd_chain := fst (update_chain_swap_status (ce_now env) (cs_id swap) nst None (sd_chain db))\<rparr>"
  have flip: "db_run c db (on_invoices (flip_invoice_on_bitcoin_boltz_in_progress oid) (?upd nst))" for oid nst
    unfolding flip_invoice_on_bitcoin_boltz_in_progress_def by (rule db_run_trans[OF run_chain_status run_flip])
  show ?thesis
    using db_run_trans[OF flip run_claim_chain_swap] db_run_trans[OF run_chain_status run_claim_chain_swap]
    by (auto simp: handle_chain_swap_webhook_def Let_def try_claim_chain_swap_with_retry_def flip run_chain_status
        run_claim_chain_swap split: sum.splits option.splits)
qed

lemma run_dispatch: "db_run c db (snd (dispatch_webhook c env tol mx gate parse body db))"
  using db_run_trans[OF run_event_id run_swap_webhook] db_run_trans[OF run_event_id run_chain_webhook]
  by (auto simp: dispatch_webhook_def Let_def run_event_id split: option.splits sum.splits prod.splits)

end
