(* ===== verification/ClaimProperties.thy ===== *)
theory ClaimProperties
  imports Webhooks LedgerProperties
begin

text \<open>
  The properties of the claim path, the webhook and the reconciler, with
  their witnesses on a database of one invoice and one funded swap.
\<close>

subsection \<open>A small world\<close>

definition demo_codec :: tx_codec where
  "demo_codec = \<lparr>tc_to_hex = (\<lambda>tx. case tx of BitcoinTx b \<Rightarrow> b | LiquidTx l \<Rightarrow> lt_body l),
     tc_from_hex = (\<lambda>h. Inr (BitcoinTx h)), tc_txid = (\<lambda>tx. replicate 64 CHR ''a'')\<rparr>"

definition demo_env :: claim_env where
  "demo_env = \<lparr>ce_now = secs 1000, ce_unix = 1000, ce_jitter = 0, ce_lock = True,
     ce_derive = (\<lambda>d i. Inr (d @ show_nat i)), ce_build = (\<lambda>p k j b a coop. Inr (BitcoinTx ''tx'')),
     ce_build_chain = (\<lambda>s a. Inr (BitcoinTx ''chaintx'')), ce_electrum = None, ce_broadcast = (\<lambda>tx. None),
     ce_backend = None\<rparr>"

definition demo_row :: swap_record where
  "demo_row = \<lparr>sr_id = 7, sr_nym = Some ''alice'', sr_boltz_swap_id = ''swap'', sr_address = None, sr_address_index = None,
     sr_amount_sat = 100000, sr_invoice = ''lnbc'', sr_preimage_hex = Some ''aa'', sr_claim_key_hex = Some ''bb'',
     sr_boltz_response_json = Some ''{}'', sr_status = ''lockup_mempool'', sr_claim_txid = None, sr_claim_tx_hex = None,
     sr_claim_path = None, sr_claim_attempts = 0, sr_last_claim_error = None, sr_last_claim_error_at = None,
     sr_next_claim_attempt_at = None, sr_cooperative_refused = False, sr_invoice_id = Some 1,
     sr_created_at = 0, sr_updated_at = 0\<rparr>"

definition demo_chain_row :: chain_swap where
  "demo_chain_row = \<lparr>cs_id = 8, cs_invoice_id = 1, cs_nym = None, cs_boltz_swap_id = ''chain'', cs_from_chain = ''BTC'',
     cs_to_chain = ''L-BTC'', cs_lockup_address = ''bc1'', cs_lockup_bip21 = None, cs_user_lock_amount_sat = 5000,
     cs_server_lock_amount_sat = 4900, cs_preimage_hex = ''aa'', cs_claim_key_hex = ''bb'', cs_refund_key_hex = ''cc'',
     cs_boltz_response_json = ''{}'', cs_status = ''server_lock_confirmed'', cs_claim_txid = None, cs_claim_tx_hex = None,
     cs_claim_attempts = 0, cs_last_claim_error = None, cs_last_claim_error_at = None,
     cs_next_claim_attempt_at = None, cs_created_at = 0, cs_updated_at = 0\<rparr>"

definition demo_db :: settlement_db where
  "demo_db = \<lparr>sd_ledger = demo_s1,
     sd_swaps = [demo_row], sd_chain = [demo_chain_row],
     sd_users = [new_user 0 1 ''alice'' ''npub'' ''desc'' ''npub''], sd_webhooks = []\<rparr>"

definition demo_state :: settlement_state where
  "demo_state = \<lparr>ss_db = demo_db, ss_flight = [], ss_chain_flight = []\<rparr>"

lemma demo_state_ok: "settlement_ok demo_codec demo_state"
proof -
  have "''lockup_mempool'' \<in> range swap_status_text" "''server_lock_confirmed'' \<in> range chain_swap_status_text"
    using rangeI[of swap_status_text LockupMempool] rangeI[of chain_swap_status_text ServerLockConfirmed] by simp_all
  then show ?thesis
    by (simp add: settlement_ok_def demo_state_def demo_db_def tables_ok_def swaps_ok_def chain_swaps_ok_def
        demo_row_def demo_chain_row_def boltz_events_def demo_s1_def empty_ledger_def)
qed

subsection \<open>Credit and claim\<close>

text \<open>C7: No Boltz credit without a claim: however webhooks, sweeps, reconciler ticks, failing and
  crashing claim tasks and direct payments interleave, every payment event from a Lightning or
  chain swap names a swap of that very invoice with that very amount whose claim transaction was
  constructed and stored; a lockup, an expiry or a refund alone never credits an invoice.\<close>
theorem boltz_credit_is_backed:
  assumes "(settlement_step c)\<^sup>*\<^sup>* s s'" "settlement_ok c s"
    and "e \<in> set (is_events (sd_ledger (ss_db s')))"
    and "pe_source e = Some ''lightning_boltz_reverse'' \<or> pe_source e = Some ''bitcoin_boltz_chain''"
  shows "(\<exists>r\<in>set (sd_swaps (ss_db s')). pe_boltz_swap_id e = Some (sr_boltz_swap_id r)
        \<and> sr_invoice_id r = Some (pe_invoice_id e) \<and> sr_amount_sat r = pe_amount_sat e \<and> sr_claim_tx_hex r \<noteq> None)
    \<or> (\<exists>r\<in>set (sd_chain (ss_db s')). pe_boltz_swap_id e = Some (cs_boltz_swap_id r)
        \<and> cs_invoice_id r = pe_invoice_id e \<and> cs_user_lock_amount_sat r = pe_amount_sat e \<and> cs_claim_tx_hex r \<noteq> None)"
proof -
  have "e \<in> boltz_events (ss_db s')" using assms(3,4) by (auto simp: boltz_events_def)
  then have "backed_event (ss_db s') e"
    using settlement_run_ok[OF assms(1,2)] by (simp add: settlement_ok_def)
  then show ?thesis by (simp only: backed_event_def)
qed

definition demo_event :: payment_event where
  "demo_event = event_of_evidence (secs 1000) 1
     (boltz_evidence ''lightning'' ''lightning_boltz_reverse'' 100000 ''swap'' (replicate 64 CHR ''a''))"

definition demo_claimed_db :: settlement_db where
  "demo_claimed_db = snd (claim_swap demo_codec demo_env default_tolerances 5 7 demo_db)"

lemma demo_claim_run:
  "claim_swap demo_codec demo_env default_tolerances 5 7 demo_db = (Inr Broadcast, demo_claimed_db)"
  "demo_event \<in> set (is_events (sd_ledger demo_claimed_db))"
proof -
  have "case claim_swap demo_codec demo_env default_tolerances 5 7 demo_db of (r, db) \<Rightarrow>
      r = Inr Broadcast \<and> demo_event \<in> set (is_events (sd_ledger db))" by code_simp
  then show "claim_swap demo_codec demo_env default_tolerances 5 7 demo_db = (Inr Broadcast, demo_claimed_db)"
    "demo_event \<in> set (is_events (sd_ledger demo_claimed_db))"
    by (auto simp: demo_claimed_db_def split: prod.splits)
qed

text \<open>The claim of the demo swap credits its invoice, and the credit is backed.\<close>
theorem boltz_credit_is_backed_witness:
  "demo_event \<in> set (is_events (sd_ledger demo_claimed_db))
   \<and> ((\<exists>r\<in>set (sd_swaps demo_claimed_db). pe_boltz_swap_id demo_event = Some (sr_boltz_swap_id r)
        \<and> sr_invoice_id r = Some (pe_invoice_id demo_event) \<and> sr_amount_sat r = pe_amount_sat demo_event
        \<and> sr_claim_tx_hex r \<noteq> None)
    \<or> (\<exists>r\<in>set (sd_chain demo_claimed_db). pe_boltz_swap_id demo_event = Some (cs_boltz_swap_id r)
        \<and> cs_invoice_id r = pe_invoice_id demo_event \<and> cs_user_lock_amount_sat r = pe_amount_sat demo_event
        \<and> cs_claim_tx_hex r \<noteq> None))"
proof -
  let ?s = "demo_state\<lparr>ss_db := demo_claimed_db\<rparr>"
  have run: "(settlement_step demo_codec)\<^sup>*\<^sup>* demo_state ?s"
    using run_claim_swap[of demo_codec demo_db demo_env default_tolerances 5 7]
    by (simp add: db_run_def demo_state_def demo_claimed_db_def)
  have src: "pe_source demo_event = Some ''lightning_boltz_reverse''"
    by (simp add: demo_event_def event_of_evidence_def boltz_evidence_def)
  have db: "ss_db ?s = demo_claimed_db" by simp
  have "demo_event \<in> set (is_events (sd_ledger (ss_db ?s)))" unfolding db by (rule demo_claim_run(2))
  note backed = boltz_credit_is_backed[OF run demo_state_ok this disjI1[OF src], unfolded db]
  show ?thesis by (rule conjI[OF demo_claim_run(2) backed])
qed

lemma stores_tx_unique:
  assumes "stores_tx c h tx1" "stores_tx c h tx2"
    and "tc_from_hex c (tc_to_hex c tx1) = Inr tx1" "tc_from_hex c (tc_to_hex c tx2) = Inr tx2"
  shows "tx1 = tx2"
proof (cases h)
  case (Some x)
  then have "x = tc_to_hex c tx1 \<or> tc_from_hex c x = Inr tx1" "x = tc_to_hex c tx2 \<or> tc_from_hex c x = Inr tx2"
    using assms(1,2) by (simp_all add: stores_tx_def)
  then have "tc_from_hex c x = Inr tx1" "tc_from_hex c x = Inr tx2" using assms(3,4) by metis+
  then show ?thesis by simp
qed (use assms(1) in \<open>simp add: stores_tx_def\<close>)

text \<open>C8: Two tasks that claim the same reverse swap at the same time broadcast one and the same
  transaction, provided encoding a transaction and decoding it back gives it again.\<close>
theorem concurrent_claims_share_transaction:
  assumes "(settlement_step c)\<^sup>*\<^sup>* s s'" "settlement_ok c s"
    and "(swap1, tx1) \<in> set (ss_flight s')" "(swap2, tx2) \<in> set (ss_flight s')" "sr_id swap1 = sr_id swap2"
    and "tc_from_hex c (tc_to_hex c tx1) = Inr tx1" "tc_from_hex c (tc_to_hex c tx2) = Inr tx2"
  shows "tx1 = tx2"
proof -
  have ok: "settlement_ok c s'" by (rule settlement_run_ok[OF assms(1,2)])
  have "backed_flight c (ss_db s') (swap1, tx1)" "backed_flight c (ss_db s') (swap2, tx2)"
    using ok assms(3,4) unfolding settlement_ok_def by blast+
  then obtain r1 r2 where r: "r1 \<in> set (sd_swaps (ss_db s'))" "sr_id r1 = sr_id swap1" "stores_tx c (sr_claim_tx_hex r1) tx1"
      "r2 \<in> set (sd_swaps (ss_db s'))" "sr_id r2 = sr_id swap2" "stores_tx c (sr_claim_tx_hex r2) tx2"
    unfolding backed_flight_def fst_conv snd_conv by blast
  have "distinct (map sr_id (sd_swaps (ss_db s')))"
    using ok by (simp add: settlement_ok_def tables_ok_def swaps_ok_def)
  then have "r1 = r2" using r assms(5) by (auto simp: distinct_map inj_on_def)
  then show ?thesis using stores_tx_unique[OF r(3) _ assms(6,7)] r(6) by simp
qed

text \<open>Two sweeps of the demo swap, the second with a different builder.\<close>
theorem concurrent_claims_share_transaction_witness:
  "\<exists>swap1 swap2 db1 db2. claim_swap_prepare demo_codec demo_env 7 demo_db = (Inr (Prepared swap1 (BitcoinTx ''tx'')), db1)
    \<and> claim_swap_prepare demo_codec (demo_env\<lparr>ce_build := \<lambda>p k j b a coop. Inr (BitcoinTx ''other'')\<rparr>) 7 db1
        = (Inr (Prepared swap2 (BitcoinTx ''tx'')), db2)"
proof -
  let ?env2 = "demo_env\<lparr>ce_build := \<lambda>p k j b a coop. Inr (BitcoinTx ''other'')\<rparr>"
  have "case claim_swap_prepare demo_codec demo_env 7 demo_db of
      (Inr (Prepared sw tx), db) \<Rightarrow> sr_id sw = 7 \<and> tx = BitcoinTx ''tx'' | _ \<Rightarrow> False" by code_simp
  then obtain swap1 db1 where p1: "claim_swap_prepare demo_codec demo_env 7 demo_db = (Inr (Prepared swap1 (BitcoinTx ''tx'')), db1)"
      "sr_id swap1 = 7"
    by (auto split: prod.splits sum.splits claim_step.splits)
  have "case claim_swap_prepare demo_codec ?env2 7 (snd (claim_swap_prepare demo_codec demo_env 7 demo_db)) of
      (Inr (Prepared sw (BitcoinTx h)), db) \<Rightarrow> sr_id sw = 7 | _ \<Rightarrow> False" by code_simp
  then obtain swap2 tx2 db2 where p2: "claim_swap_prepare demo_codec ?env2 7 db1 = (Inr (Prepared swap2 tx2), db2)"
      "sr_id swap2 = 7" "\<exists>h. tx2 = BitcoinTx h"
    using p1(1) by (auto split: prod.splits sum.splits claim_step.splits btc_like_tx.splits)
  let ?s1 = "demo_state\<lparr>ss_db := db1, ss_flight := [(swap1, BitcoinTx ''tx'')]\<rparr>"
  let ?s2 = "?s1\<lparr>ss_db := db2, ss_flight := [(swap2, tx2), (swap1, BitcoinTx ''tx'')]\<rparr>"
  have "settlement_step demo_codec demo_state ?s1"
    using se_prepare[of demo_codec demo_env 7 demo_state swap1 "BitcoinTx ''tx''" db1] p1 by (simp add: demo_state_def)
  moreover have "settlement_step demo_codec ?s1 ?s2"
    using se_prepare[of demo_codec ?env2 7 ?s1 swap2 tx2 db2] p2 by (simp add: demo_state_def)
  ultimately have run: "(settlement_step demo_codec)\<^sup>*\<^sup>* demo_state ?s2" by auto
  have "BitcoinTx ''tx'' = tx2"
    by (rule concurrent_claims_share_transaction[OF run demo_state_ok, of swap1 _ swap2])
      (use p1(2) p2(2,3) in \<open>auto simp: demo_codec_def\<close>)
  then show ?thesis using p1 p2 by blast
qed

text \<open>The rows after a preparation, and after a finish.\<close>
lemma resolve_ids: "resolve_claim_address env sw db = (x, db1) \<Longrightarrow> map sr_id (sd_swaps db1) = map sr_id (sd_swaps db)"
  by (auto simp: resolve_claim_address_def write_claim_address_def tables split: option.splits if_splits sum.splits)

lemma prepare_ids:
  assumes "claim_swap_prepare c env sid db = (p, db1)"
  shows "map sr_id (sd_swaps db1) = map sr_id (sd_swaps db)"
  using assms
proof (cases rule: prepare_cases)
  case (error e db2 swap r1)
  then show ?thesis using resolve_ids[OF error(2)] by (auto simp: mark_cooperative_refused_def update_where_map)
next
  case (reload swap tx addr db2 hex)
  then show ?thesis using resolve_ids[OF reload(3)] by (auto simp: mark_claiming_def update_where_map)
next
  case (construct swap tx addr db2 path)
  then show ?thesis using resolve_ids[OF construct(3)] by (auto simp: mark_claiming_def persist_claim_tx_def update_where_map)
qed simp

lemma resolve_open:
  assumes "resolve_claim_address env sw db = (x, db1)" "r \<in> set (sd_swaps db)" "swap_open r"
  shows "\<exists>r'\<in>set (sd_swaps db1). sr_id r' = sr_id r \<and> swap_open r'"
proof -
  have "map (\<lambda>r. (sr_id r, sr_status r)) (sd_swaps db1) = map (\<lambda>r. (sr_id r, sr_status r)) (sd_swaps db)"
    using assms(1)
    by (auto simp: resolve_claim_address_def write_claim_address_def tables split: option.splits if_splits sum.splits)
  then have "(sr_id r, sr_status r) \<in> set (map (\<lambda>r. (sr_id r, sr_status r)) (sd_swaps db1))"
    using assms(2) by simp
  then show ?thesis using assms(3) by (auto simp: swap_open_def)
qed

lemma prepare_open_row:
  assumes "claim_swap_prepare c env sid db = (Inr (Prepared sw tx), db1)"
  shows "\<exists>row\<in>set (sd_swaps db1). sr_id row = sid \<and> swap_open row \<and> sr_id sw = sid"
proof -
  have mark: "\<exists>r'\<in>set (mark_claiming now sid t). sr_id r' = sid \<and> swap_open r'"
    if "r \<in> set t" "sr_id r = sid" "swap_open r" for now t r
    unfolding mark_claiming_def using that
    by (intro update_where_evolves[where R = "\<lambda>_ r'. swap_open r'" and key = sr_id, of r, unfolded that(2)])
      (auto simp: swap_open_def)
  have persist: "\<exists>r'\<in>set (persist_claim_tx sid h i q t). sr_id r' = sid \<and> swap_open r'"
    if "r \<in> set t" "sr_id r = sid" "swap_open r" for t r h i q
    unfolding persist_claim_tx_def using that
    by (intro update_where_evolves[where R = "\<lambda>_ r'. swap_open r'" and key = sr_id, of r, unfolded that(2)])
      (auto simp: swap_open_def)
  show ?thesis
    using assms
  proof (cases rule: prepare_cases)
    case (reload swap tx' addr db2 hex)
    have s: "sw \<in> set (sd_swaps db)" "sr_id sw = sid" "swap_open sw"
      using reload by (auto simp: get_swap_by_id_def dest: select_one_SomeD)
    then show ?thesis using resolve_open[OF reload(3) s(1,3)] mark reload(6) by auto
  next
    case (construct swap tx' addr db2 path)
    have s: "sw \<in> set (sd_swaps db)" "sr_id sw = sid" "swap_open sw"
      using construct by (auto simp: get_swap_by_id_def dest: select_one_SomeD)
    obtain r1 where "r1 \<in> set (sd_swaps db2)" "sr_id r1 = sid" "swap_open r1"
      using resolve_open[OF construct(3) s(1,3)] s(2) by auto
    from persist[OF this] obtain r2 where "r2 \<in> set (persist_claim_tx sid (tc_to_hex c tx') (tc_txid c tx') path (sd_swaps db2))"
      "sr_id r2 = sid" "swap_open r2" by blast
    from mark[OF this] show ?thesis using construct(6) s(2) by auto
  qed auto
qed

lemma claim_swap_finish_swaps:
  "sd_swaps (claim_swap_finish env tol sw txid db) = fst (update_where (\<lambda>r. sr_id r = sr_id sw)
     (\<lambda>r. r\<lparr>sr_last_claim_error := None, sr_last_claim_error_at := None, sr_next_claim_attempt_at := None\<rparr>)
     (fst (update_where (\<lambda>r. sr_id r = sr_id sw \<and> swap_open r)
       (\<lambda>r. r\<lparr>sr_status := ''claimed'', sr_claim_txid := Some txid, sr_updated_at := ce_now env\<rparr>) (sd_swaps db))))"
  by (simp add: claim_swap_finish_def Let_def on_invoices_def clear_claim_failure_state_def update_swap_status_def)

text \<open>C9: The outcome of one claim of a reverse swap: Broadcast leaves the row claimed, with the txid of
  the transaction that pays and no retry pending; a held lock or a terminal row leaves the database
  untouched; an error never adds a payment event.\<close>
theorem claim_swap_outcomes:
  assumes "claim_swap c env tol mx sid db = (r, db')" "distinct (map sr_id (sd_swaps db))"
  shows "case r of
      Inr Broadcast \<Rightarrow> (\<exists>row tx txid. get_swap_by_id sid (sd_swaps db') = Some row \<and> sr_status row = ''claimed''
        \<and> confirm_broadcast c env ''broadcast'' tx = Inr txid \<and> sr_claim_txid row = Some txid
        \<and> sr_next_claim_attempt_at row = None \<and> sr_last_claim_error row = None)
    | Inr _ \<Rightarrow> db' = db
    | Inl e \<Rightarrow> is_events (sd_ledger db') = is_events (sd_ledger db)"
proof -
  obtain p db1 where p: "claim_swap_prepare c env sid db = (p, db1)" by fastforce
  have quiet_events: "is_events (sd_ledger db1) = is_events (sd_ledger db)"
    using p by (cases rule: prepare_cases)
      (auto simp: resolve_claim_address_def split: option.splits if_splits sum.splits)
  have failed_events: "is_events (sd_ledger (claim_swap_failed env mx sid e d)) = is_events (sd_ledger d)" for e d
    by (auto simp: claim_swap_failed_def Let_def on_invoices_def split: prod.splits sum.splits)
  consider (no) "\<forall>sw tx. p \<noteq> Inr (Prepared sw tx)" | (yes) sw tx where "p = Inr (Prepared sw tx)" by blast
  then show ?thesis
  proof cases
    case no
    show ?thesis
    proof (cases p)
      case (Inl e)
      then show ?thesis
        using assms(1) p quiet_events failed_events by (auto simp: claim_swap_def claim_swap_inner_def)
    next
      case (Inr st)
      then obtain oc where oc: "p = Inr (Finished oc)" using no by (cases st) auto
      have same: "db1 = db" using p by (cases rule: prepare_cases) (use oc in auto)
      moreover have "oc \<noteq> Broadcast"
        using p oc by (auto simp: claim_swap_prepare_def Let_def split: if_splits option.splits sum.splits prod.splits)
      ultimately show ?thesis
        using assms(1) p oc by (cases oc) (auto simp: claim_swap_def claim_swap_inner_def)
    qed
  next
    case (yes sw tx)
    show ?thesis
    proof (cases "confirm_broadcast c env ''broadcast'' tx")
      case (Inl e)
      then show ?thesis
        using assms(1) p yes quiet_events failed_events by (auto simp: claim_swap_def claim_swap_inner_def)
    next
      case (Inr txid)
      then have r: "r = Inr Broadcast" "db' = claim_swap_finish env tol sw txid db1"
        using assms(1) p yes by (auto simp: claim_swap_def claim_swap_inner_def)
      obtain row where row: "row \<in> set (sd_swaps db1)" "sr_id row = sid" "swap_open row" "sr_id sw = sid"
        using prepare_open_row[OF p[unfolded yes]] by blast
      have "distinct (map sr_id (sd_swaps db1))"
        using prepare_ids[OF p] assms(2) by simp
      then have "get_swap_by_id sid (sd_swaps db1) = Some row"
        using select_one_key row(1,2) by (fastforce simp: get_swap_by_id_def)
      then have "get_swap_by_id sid (sd_swaps db') = Some (row\<lparr>sr_status := ''claimed'', sr_claim_txid := Some txid,
          sr_updated_at := ce_now env, sr_last_claim_error := None, sr_last_claim_error_at := None,
          sr_next_claim_attempt_at := None\<rparr>)"
        using row(3,4) by (simp add: r claim_swap_finish_swaps get_swap_by_id_def
            select_one_update_all[where k = sr_id] select_one_update_key[where k = sr_id])
      then show ?thesis using r(1) Inr by auto
    qed
  qed
qed

theorem claim_swap_outcomes_witness:
  "\<exists>row. get_swap_by_id 7 (sd_swaps demo_claimed_db) = Some row \<and> sr_status row = ''claimed''
     \<and> sr_next_claim_attempt_at row = None"
proof -
  from claim_swap_outcomes[OF demo_claim_run(1)] show ?thesis by (auto simp: demo_db_def)
qed

text \<open>The claim destination of a swap is decided once: resolving it again, from any later snapshot of
  the row, with any clock and any derivation, returns the same address and changes nothing.\<close>
theorem claim_destination_fixed:
  assumes "resolve_claim_address env swap db = (Inr addr, db')" "sr_id swap2 = sr_id swap"
  shows "resolve_claim_address env2 swap2 db' = (Inr addr, db')"
proof -
  obtain row where row: "get_swap_by_id (sr_id swap) (sd_swaps db) = Some row"
    using assms(1) by (auto simp: resolve_claim_address_def split: option.splits)
  have w: "get_swap_by_id (sr_id swap) (write_claim_address (sr_id swap) a i (sd_swaps db))
      = Some (row\<lparr>sr_address := Some a, sr_address_index := i\<rparr>)" for a i
    using row by (simp add: get_swap_by_id_def write_claim_address_def select_one_update_all[where k = sr_id])
  have "\<exists>row'. get_swap_by_id (sr_id swap) (sd_swaps db') = Some row' \<and> sr_address row' = Some addr"
    using assms(1) row w
    by (auto simp: resolve_claim_address_def split: option.splits if_splits sum.splits)
  then show ?thesis using assms(2) by (auto simp: resolve_claim_address_def)
qed

theorem claim_destination_fixed_witness:
  "\<exists>addr db'. resolve_claim_address demo_env (demo_row\<lparr>sr_invoice_id := None\<rparr>)
      (demo_db\<lparr>sd_swaps := [demo_row\<lparr>sr_invoice_id := None\<rparr>]\<rparr>) = (Inr addr, db')
    \<and> resolve_claim_address (demo_env\<lparr>ce_derive := \<lambda>d i. Inr ''elsewhere''\<rparr>) demo_row db' = (Inr addr, db')"
proof -
  let ?r = "demo_row\<lparr>sr_invoice_id := None\<rparr>"
  obtain addr db' where r: "resolve_claim_address demo_env ?r (demo_db\<lparr>sd_swaps := [?r]\<rparr>) = (Inr addr, db')"
    by (simp add: resolve_claim_address_def get_swap_by_id_def demo_row_def demo_db_def get_user_by_nym_def new_user_def demo_env_def)
  from claim_destination_fixed[OF r, of demo_row] show ?thesis using r by auto
qed

text \<open>C11: A txid the claim accepts as success is the claim transaction's own (accepted by Electrum, or
  seen on chain after an error), or that of a transaction the backend found spending the claim's first
  input and that pays one of the claim's non-empty output scripts.\<close>
theorem confirmed_txid_pays_the_claim:
  assumes "confirm_broadcast c env what tx = Inr txid"
  shows "(txid = tc_txid c tx \<and> (ce_broadcast env tx = None \<or> (\<exists>b. ce_backend env = Some b \<and> ub_tx_exists b txid = Inr True)))
    \<or> (\<exists>b l raw spending. ce_backend env = Some b \<and> tx = LiquidTx l \<and> ub_get_raw_tx b txid = Inr raw
        \<and> ub_decode_tx b raw = Inr spending \<and> lt_inputs l \<noteq> []
        \<and> (\<exists>script. ub_find_spending_txid b script (fst (hd (lt_inputs l))) (snd (hd (lt_inputs l))) = Inr (Some txid))
        \<and> (\<exists>out\<in>set (lt_outputs l). out \<noteq> [] \<and> out \<in> set (lt_outputs spending)))"
proof (cases "ce_broadcast env tx")
  case None
  then show ?thesis using assms by (auto simp: confirm_broadcast_def split: option.splits)
next
  case (Some err)
  then obtain b where b: "ce_backend env = Some b"
    using assms by (auto simp: confirm_broadcast_def Let_def split: option.splits)
  show ?thesis
  proof (cases "ub_tx_exists b (tc_txid c tx) = Inr True")
    case True
    then show ?thesis using assms Some b by (auto simp: confirm_broadcast_def Let_def split: option.splits)
  next
    case False
    then have "recover_claim_from_lockup_spend b tx = Inr (Some txid)"
      using assms Some b
      by (auto simp: confirm_broadcast_def Let_def split: option.splits sum.splits bool.splits)
    then obtain l raw spending i rest script where l: "tx = LiquidTx l" "lt_inputs l = i # rest"
        "ub_find_spending_txid b script (fst i) (snd i) = Inr (Some txid)" "ub_get_raw_tx b txid = Inr raw"
        "ub_decode_tx b raw = Inr spending" "spending_tx_matches_claim_destination spending l"
      by (auto simp: recover_claim_from_lockup_spend_def
          split: btc_like_tx.splits list.splits sum.splits option.splits if_splits prod.splits)
    then show ?thesis
      using b by (intro disjI2) (auto simp: spending_tx_matches_claim_destination_def list_ex_iff)
  qed
qed

definition demo_liquid_tx :: liquid_tx where
  "demo_liquid_tx = \<lparr>lt_inputs = [(''lock'', 0)], lt_outputs = [''script''], lt_body = ''raw''\<rparr>"

definition demo_backend :: utxo_backend where
  "demo_backend = \<lparr>ub_tx_exists = (\<lambda>t. Inr False), ub_get_raw_tx = (\<lambda>t. Inr t), ub_decode_tx = (\<lambda>r. Inr demo_liquid_tx),
     ub_find_spending_txid = (\<lambda>s t v. Inr (Some ''spender''))\<rparr>"

theorem confirmed_txid_pays_the_claim_witness:
  "confirm_broadcast demo_codec (demo_env\<lparr>ce_broadcast := \<lambda>t. Some ''missing inputs'', ce_backend := Some demo_backend\<rparr>)
     ''broadcast'' (LiquidTx demo_liquid_tx) = Inr ''spender''
   \<and> (\<exists>out\<in>set (lt_outputs demo_liquid_tx). out \<noteq> [])"
proof -
  let ?env = "demo_env\<lparr>ce_broadcast := \<lambda>t. Some ''missing inputs'', ce_backend := Some demo_backend\<rparr>"
  have c: "confirm_broadcast demo_codec ?env ''broadcast'' (LiquidTx demo_liquid_tx) = Inr ''spender''" by code_simp
  from confirmed_txid_pays_the_claim[OF c] c show ?thesis by (auto simp: demo_env_def demo_backend_def)
qed

subsection \<open>Webhook and reconciler\<close>

lemma on_invoices_frame [simp]:
  "sd_webhooks (on_invoices f db) = sd_webhooks db" "sd_swaps (on_invoices f db) = sd_swaps db"
  "sd_chain (on_invoices f db) = sd_chain db" "sd_users (on_invoices f db) = sd_users db"
  "is_events (sd_ledger (on_invoices f db)) = is_events (sd_ledger db)"
  by (simp_all add: on_invoices_def)

lemma claim_keeps_ids [simp]:
  "sd_webhooks (snd (claim_swap c env tol mx sid db)) = sd_webhooks db"
  "sd_webhooks (snd (claim_chain_swap c env tol mx sid db)) = sd_webhooks db"
proof -
  have f: "sd_webhooks (claim_swap_failed env mx sid e d) = sd_webhooks d" for e d
    by (simp add: claim_swap_failed_def Let_def split: prod.splits sum.splits)
  have g: "sd_webhooks (claim_chain_swap_failed env mx sid e d) = sd_webhooks d" for e d
    by (simp add: claim_chain_swap_failed_def Let_def split: prod.splits option.splits)
  have fin: "sd_webhooks (claim_swap_finish env tol sw txid d) = sd_webhooks d"
    "sd_webhooks (claim_chain_swap_finish env tol cs txid d) = sd_webhooks d" for sw cs txid d
    by (simp_all add: claim_swap_finish_def claim_chain_swap_finish_def Let_def)
  have res: "resolve_claim_address env sw d = (x, d') \<Longrightarrow> sd_webhooks d' = sd_webhooks d" for sw d x d'
    by (auto simp: resolve_claim_address_def split: option.splits if_splits sum.splits)
  have prep: "claim_swap_prepare c env sid d = (x, d') \<Longrightarrow> sd_webhooks d' = sd_webhooks d" for d x d'
    by (erule prepare_cases) (auto dest: res)
  have prepc: "claim_chain_swap_prepare c env sid d = (x, d') \<Longrightarrow> sd_webhooks d' = sd_webhooks d" for d x d'
    by (erule chain_prepare_cases) auto
  show "sd_webhooks (snd (claim_swap c env tol mx sid db)) = sd_webhooks db"
    by (auto simp: claim_swap_def claim_swap_inner_def f fin split: prod.splits sum.splits claim_step.splits dest!: prep)
  show "sd_webhooks (snd (claim_chain_swap c env tol mx sid db)) = sd_webhooks db"
    by (auto simp: claim_chain_swap_def claim_chain_swap_inner_def g fin split: prod.splits sum.splits claim_step.splits dest!: prepc)
qed

lemma swap_webhook_keeps_ids: "sd_webhooks (snd (handle_swap_webhook c env tol mx sw st d)) = sd_webhooks d"
  by (auto simp: handle_swap_webhook_def Let_def try_claim_with_retry_def split: sum.splits)

lemma chain_webhook_keeps_ids: "sd_webhooks (snd (handle_chain_swap_webhook c env tol mx cs st d)) = sd_webhooks d"
  by (auto simp: handle_chain_swap_webhook_def Let_def try_claim_chain_swap_with_retry_def split: sum.splits option.splits)

lemma apply_action_frame [simp]:
  "is_events (sd_ledger (apply_action now sw a db)) = is_events (sd_ledger db)"
  "sd_chain (apply_action now sw a db) = sd_chain db"
  "sd_users (apply_action now sw a db) = sd_users db"
  "map sr_claim_tx_hex (sd_swaps (apply_action now sw a db)) = map sr_claim_tx_hex (sd_swaps db)"
  by (cases a; simp add: apply_action_def Let_def update_where_map schedule_immediate_claim_def update_swap_status_def
      schedule_script_path_retry_def)+

text \<open>Delivering a webhook again is answered with success and does nothing, whatever the first
  delivery did, and also when the first delivery itself returned an error: the event id is taken
  before the work is done.\<close>
theorem webhook_redelivery_is_noop:
  assumes "dispatch_webhook c env tol mx None parse body db = (r, db')" "parse body = Inr (bid, st)"
  shows "dispatch_webhook c2 env2 tol2 mx2 None parse body db' = (Inr (), db')"
proof -
  have keep: "sd_webhooks (snd (handle_swap_webhook c env tol mx sw st d)) = sd_webhooks d"
    "sd_webhooks (snd (handle_chain_swap_webhook c env tol mx cs st d)) = sd_webhooks d" for sw cs d
    by (rule swap_webhook_keeps_ids chain_webhook_keeps_ids)+
  have "bid @ '':'' @ st \<in> set (sd_webhooks db')"
  proof (cases "bid @ '':'' @ st \<in> set (sd_webhooks db)")
    case True
    then show ?thesis using assms by (auto simp: dispatch_webhook_def try_record_webhook_event_def)
  next
    case False
    then have "sd_webhooks db' = sd_webhooks db @ [bid @ '':'' @ st]"
      using assms keep
      by (auto simp: dispatch_webhook_def try_record_webhook_event_def Let_def split: option.splits dest!: arg_cong[of _ _ snd])
    then show ?thesis by simp
  qed
  then show ?thesis by (simp add: dispatch_webhook_def assms(2) try_record_webhook_event_def)
qed

theorem webhook_redelivery_is_noop_witness:
  "\<exists>r db'. dispatch_webhook demo_codec demo_env default_tolerances 5 None (\<lambda>b. Inr (''swap'', b)) ''transaction.confirmed'' demo_db = (r, db')
     \<and> dispatch_webhook demo_codec demo_env default_tolerances 5 None (\<lambda>b. Inr (''swap'', b)) ''transaction.confirmed'' db' = (Inr (), db')"
proof -
  obtain r db' where d: "dispatch_webhook demo_codec demo_env default_tolerances 5 None (\<lambda>b. Inr (''swap'', b))
      ''transaction.confirmed'' demo_db = (r, db')" by fastforce
  from webhook_redelivery_is_noop[OF d] show ?thesis using d by blast
qed

text \<open>The authenticated webhook runs only for a non-empty path secret equal to the current or the
  previous configured one; anything else gets the bare 404 and touches nothing.\<close>
theorem webhook_needs_a_configured_secret:
  "webhook_with_secret c env tol mx current previous gate parse secret body db =
     (if secret \<noteq> [] \<and> secret \<in> {current, previous}
      then apfst Some (dispatch_webhook c env tol mx gate parse body db) else (None, db))"
  by (auto simp: webhook_with_secret_def match_url_secret_pair_def secret_eq_def)

text \<open>C10: Every entry point that touches swaps (webhook dispatch, background sweep, reconciler tick) is a run
  of the interleaving step relation, so the invariants of that relation hold for the code's handlers.\<close>
theorem entry_points_refine_steps:
  "db_run c db (snd (dispatch_webhook c env tol mx gate parse body db))
   \<and> db_run c db (claim_sweep c env tol mx db)
   \<and> db_run c db (run_one_tick now age cap remote db)"
  using run_dispatch run_sweep run_tick by blast

text \<open>The reconciler never claims and never credits: a tick leaves the payment events, the chain
  swaps, the users and every stored claim transaction as they are, whatever Boltz answers.\<close>
theorem reconciler_never_credits:
  "is_events (sd_ledger (run_one_tick now age cap remote db)) = is_events (sd_ledger db)
   \<and> sd_chain (run_one_tick now age cap remote db) = sd_chain db
   \<and> sd_users (run_one_tick now age cap remote db) = sd_users db
   \<and> map sr_claim_tx_hex (sd_swaps (run_one_tick now age cap remote db)) = map sr_claim_tx_hex (sd_swaps db)"
proof -
  have "is_events (sd_ledger (reconcile_rows now remote rows d)) = is_events (sd_ledger d)
   \<and> sd_chain (reconcile_rows now remote rows d) = sd_chain d
   \<and> sd_users (reconcile_rows now remote rows d) = sd_users d
   \<and> map sr_claim_tx_hex (sd_swaps (reconcile_rows now remote rows d)) = map sr_claim_tx_hex (sd_swaps d)" for rows d
    by (induction rows arbitrary: d) (auto simp: apply_action_frame split: option.splits)
  then show ?thesis by (simp only: run_one_tick_def)
qed

text \<open>A late user-lock webhook parks a chain swap whose server lock was already seen: a delivery of
  transaction.mempool or transaction.confirmed on a swap in server_lock_mempool,
  server_lock_confirmed or claiming puts the row back to a user-lock status, and from then on no
  sweep selects it and no claim attempt touches the database.\<close>
theorem late_user_lock_parks_chain_swap:
  assumes "distinct (map cs_id (sd_chain db))" "get_chain_swap_by_id sid (sd_chain db) = Some swap"
    and "cs_status swap \<in> {''server_lock_mempool'', ''server_lock_confirmed'', ''claiming''}"
    and "st \<in> {''transaction.mempool'', ''transaction.confirmed''}"
    and "handle_chain_swap_webhook c env tol mx swap st db = (r, db')"
  shows "r = Inr () \<and> (\<forall>row\<in>set (get_ready_to_claim_chain_swaps later (sd_chain db')). cs_id row \<noteq> sid)
    \<and> snd (claim_chain_swap c2 env2 tol2 mx2 sid db') = db'"
proof -
  have sid: "cs_id swap = sid" using assms(2) by (auto simp: get_chain_swap_by_id_def dest: select_one_SomeD)
  have "chain_open swap" using assms(3) by (auto simp: chain_open_def)
  obtain nst where nst: "chain_swap_status_from_boltz_status st = Some nst" "nst \<in> {UserLockMempool, UserLockConfirmed}"
    using assms(4) by (auto simp: chain_swap_status_from_boltz_status_def)
  have live: "\<exists>s. chain_parsed_status swap = Inr s \<and> \<not> chain_is_terminal s"
    using assms(3) by (auto simp: chain_parsed_status_def parse_chain_swap_status_def chain_is_terminal_def)
  have chain': "sd_chain db' = fst (update_chain_swap_status (ce_now env) sid nst None (sd_chain db))" and r: "r = Inr ()"
    using assms(4,5) live nst sid by (auto simp: handle_chain_swap_webhook_def Let_def on_invoices_def)
  have row': "get_chain_swap_by_id sid (sd_chain db') = Some (swap\<lparr>cs_status := chain_swap_status_text nst, cs_updated_at := ce_now env\<rparr>)"
    using assms(2) \<open>chain_open swap\<close>
    by (simp add: chain' update_chain_swap_status_def get_chain_swap_by_id_def select_one_update_key[where k = cs_id])
  have ids: "distinct (map cs_id (sd_chain db'))"
    using assms(1) by (simp add: chain' update_chain_swap_status_def update_where_map)
  have "cs_id row \<noteq> sid" if row: "row \<in> set (get_ready_to_claim_chain_swaps later (sd_chain db'))" for row
  proof
    assume "cs_id row = sid"
    moreover have "row \<in> set (sd_chain db')" "chain_ready_to_claim later row"
      using row by (simp_all add: get_ready_to_claim_chain_swaps_def)
    ultimately have "get_chain_swap_by_id sid (sd_chain db') = Some row"
      using select_one_key[OF ids] by (fastforce simp: get_chain_swap_by_id_def)
    then show False
      using row' \<open>chain_ready_to_claim later row\<close> nst(2) by (auto simp: chain_ready_to_claim_def)
  qed
  moreover have "snd (claim_chain_swap c2 env2 tol2 mx2 sid db') = db'"
  proof -
    have "chain_parsed_status (swap\<lparr>cs_status := chain_swap_status_text nst, cs_updated_at := ce_now env\<rparr>) = Inr nst"
      by (simp add: chain_parsed_status_def)
    moreover have "\<not> chain_claimable nst" using nst(2) by (auto simp: chain_claimable_def)
    ultimately show ?thesis
      using row' by (simp add: claim_chain_swap_def claim_chain_swap_inner_def claim_chain_swap_prepare_def)
  qed
  ultimately show ?thesis using r by blast
qed

theorem late_user_lock_parks_chain_swap_witness:
  "get_ready_to_claim_chain_swaps (secs 99999)
     (sd_chain (snd (handle_chain_swap_webhook demo_codec demo_env default_tolerances 5 demo_chain_row
        ''transaction.confirmed'' demo_db))) = []
   \<and> get_ready_to_claim_chain_swaps (secs 99999) (sd_chain demo_db) = [demo_chain_row]"
proof -
  let ?w = "handle_chain_swap_webhook demo_codec demo_env default_tolerances 5 demo_chain_row ''transaction.confirmed'' demo_db"
  obtain r db' where w: "?w = (r, db')" by fastforce
  have "distinct (map cs_id (sd_chain demo_db))" "get_chain_swap_by_id 8 (sd_chain demo_db) = Some demo_chain_row"
    "cs_status demo_chain_row \<in> {''server_lock_mempool'', ''server_lock_confirmed'', ''claiming''}"
    by (simp_all add: demo_db_def get_chain_swap_by_id_def demo_chain_row_def)
  from late_user_lock_parks_chain_swap[OF this _ w, of "secs 99999"]
  have no8: "\<forall>row\<in>set (get_ready_to_claim_chain_swaps (secs 99999) (sd_chain db')). cs_id row \<noteq> 8" by simp
  have "map cs_id (sd_chain (snd ?w)) = [8]" by code_simp
  then have "\<forall>row\<in>set (sd_chain db'). cs_id row = 8" using w by auto
  with no8 have "set (get_ready_to_claim_chain_swaps (secs 99999) (sd_chain db')) = {}"
    by (auto simp: get_ready_to_claim_chain_swaps_def)
  then show ?thesis
    using w by (simp add: demo_db_def get_ready_to_claim_chain_swaps_def chain_ready_to_claim_def demo_chain_row_def)
qed

end
