(* ===== verification/Auth.thy ===== *)
theory Auth
  imports AppErrors
begin

text \<open>
  Signed wallet actions: src/src/auth.rs.  Byte strings are char lists; the
  curve, the hash and the hex parsers of the secp256k1 and sha2 crates are the
  fields of \<open>sig_scheme\<close>.
\<close>

record ('pk, 'sg) sig_scheme =
  sg_pubkey :: "string \<Rightarrow> 'pk option"
  sg_sha256 :: "string \<Rightarrow> string"
  sg_signature :: "string \<Rightarrow> 'sg option"
  sg_verify :: "'sg \<Rightarrow> string \<Rightarrow> 'pk \<Rightarrow> bool"

definition la_auth_ts_window_secs :: nat where "la_auth_ts_window_secs = 300"

definition la_sig_domain_tag :: string where "la_sig_domain_tag = ''bullpay-la-v2''"

definition verify_signature ::
  "('pk, 'sg) sig_scheme \<Rightarrow> string \<Rightarrow> string \<Rightarrow> string \<Rightarrow> app_error + unit" where
  "verify_signature c npub_hex message signature_hex =
    (case sg_pubkey c npub_hex of
       None \<Rightarrow> Inl (AuthError ''invalid npub'')
     | Some pk \<Rightarrow>
        (case sg_signature c signature_hex of
           None \<Rightarrow> Inl (AuthError ''invalid signature format'')
         | Some sg \<Rightarrow>
             if sg_verify c sg (sg_sha256 c message) pk then Inr ()
             else Inl (AuthError ''signature verification failed'')))"

definition nul :: char where "nul = CHR 0x00"

definition build_la_v2_message :: "string \<Rightarrow> string \<Rightarrow> string \<Rightarrow> string list \<Rightarrow> nat \<Rightarrow> string" where
  "build_la_v2_message action npub_hex nym_or_empty payload_fields timestamp =
    la_sig_domain_tag @ [nul] @ action @ [nul] @ npub_hex @ [nul] @ nym_or_empty @ [nul]
    @ concat (map (\<lambda>field. field @ [nul]) payload_fields) @ show_nat timestamp"

text \<open>\<open>u64::abs_diff\<close>.\<close>
definition abs_diff :: "nat \<Rightarrow> nat \<Rightarrow> nat" where
  "abs_diff a b = (if a \<le> b then b - a else a - b)"

definition check_ts_freshness :: "nat \<Rightarrow> nat \<Rightarrow> app_error + unit" where
  "check_ts_freshness now ts =
    (if abs_diff now ts > la_auth_ts_window_secs then Inl (AuthError ''timestamp outside allowed window'') else Inr ())"

definition verify_la_v2 ::
  "('pk, 'sg) sig_scheme \<Rightarrow> nat \<Rightarrow> string \<Rightarrow> string \<Rightarrow> string \<Rightarrow> string list \<Rightarrow> nat \<Rightarrow> string \<Rightarrow> app_error + unit" where
  "verify_la_v2 c now action npub_hex nym_or_empty payload_fields timestamp signature_hex =
    (case check_ts_freshness now timestamp of
       Inl e \<Rightarrow> Inl e
     | Inr _ \<Rightarrow> verify_signature c npub_hex
         (build_la_v2_message action npub_hex nym_or_empty payload_fields timestamp) signature_hex)"

subsection \<open>Decimal text\<close>

definition digit :: "char \<Rightarrow> bool" where
  "digit ch \<longleftrightarrow> 48 \<le> (of_char ch :: nat) \<and> (of_char ch :: nat) \<le> 57"

lemma show_nat_digits: "\<forall>ch\<in>set (show_nat n). digit ch"
proof (induction n rule: show_nat.induct)
  case (1 n)
  then show ?case by (subst show_nat.simps) (auto simp: digit_def)
qed

lemma show_nat_nonempty [simp]: "show_nat n \<noteq> []" "[] \<noteq> show_nat n"
  by (subst show_nat.simps, simp)+

lemma show_nat_inj: "show_nat m = show_nat n \<Longrightarrow> m = n"
proof (induction m arbitrary: n rule: show_nat.induct)
  case (1 m)
  have eq: "(if m < 10 then [char_of (48 + m)] else show_nat (m div 10) @ [char_of (48 + m mod 10)])
      = (if n < 10 then [char_of (48 + n)] else show_nat (n div 10) @ [char_of (48 + n mod 10)])"
    using "1.prems" by (metis show_nat.simps)
  have small: "k < 10 \<Longrightarrow> l < 10 \<Longrightarrow> (char_of (48 + k) :: char) = char_of (48 + l) \<Longrightarrow> k = l" for k l :: nat
    by (drule arg_cong[of _ _ "of_char :: char \<Rightarrow> nat"]) simp
  consider "m < 10" "n < 10" | "m < 10" "\<not> n < 10" | "\<not> m < 10" "n < 10" | "\<not> m < 10" "\<not> n < 10" by blast
  then show ?case
  proof cases
    case 1
    then show ?thesis using eq small by simp
  next
    case 2
    then show ?thesis using eq by simp
  next
    case 3
    then show ?thesis using eq by simp
  next
    case 4
    then have "m div 10 = n div 10" "m mod 10 = n mod 10"
      using eq "1.IH"[OF 4(1)] small[of "m mod 10" "n mod 10"] by auto
    then show ?thesis by (metis div_mult_mod_eq)
  qed
qed

subsection \<open>The message determines its fields\<close>

definition nul_free :: "string \<Rightarrow> bool" where
  "nul_free s \<longleftrightarrow> nul \<notin> set s"

lemma nul_free_show [simp]: "nul_free (show_nat n)"
  using show_nat_digits[of n] by (auto simp: nul_free_def nul_def digit_def)

lemma split_at_nul:
  assumes "x @ nul # r = y @ nul # s" "nul_free x" "nul_free y"
  shows "x = y \<and> r = s"
  using assms
proof (induction x arbitrary: y)
  case Nil
  then show ?case by (cases y) (auto simp: nul_free_def)
next
  case (Cons a x)
  then show ?case by (cases y) (auto simp: nul_free_def)
qed

lemma nul_free_no_sep: "nul_free t \<Longrightarrow> t \<noteq> x @ nul # r"
  by (auto simp: nul_free_def)

lemma split_fields:
  assumes "concat (map (\<lambda>f. f @ [nul]) fs) @ t = concat (map (\<lambda>f. f @ [nul]) gs) @ u"
    and "\<forall>f\<in>set fs. nul_free f" "\<forall>g\<in>set gs. nul_free g" "nul_free t" "nul_free u"
  shows "fs = gs \<and> t = u"
  using assms
proof (induction fs arbitrary: gs)
  case Nil
  then show ?case by (cases gs) (use nul_free_no_sep in auto)
next
  case (Cons f fs)
  show ?case
  proof (cases gs)
    case Nil
    then show ?thesis using Cons.prems nul_free_no_sep[of u] by auto
  next
    case (Cons g gs')
    then have "f = g \<and> concat (map (\<lambda>f. f @ [nul]) fs) @ t = concat (map (\<lambda>f. f @ [nul]) gs') @ u"
      using Cons.prems by (intro split_at_nul) auto
    then show ?thesis using Cons.IH[of gs'] Cons.prems Cons by auto
  qed
qed

lemma build_injective:
  assumes "build_la_v2_message a p n fs t = build_la_v2_message a' p' n' fs' t'"
    and "nul_free a" "nul_free p" "nul_free n" "\<forall>f\<in>set fs. nul_free f"
    and "nul_free a'" "nul_free p'" "nul_free n'" "\<forall>f\<in>set fs'. nul_free f"
  shows "a = a' \<and> p = p' \<and> n = n' \<and> fs = fs' \<and> t = t'"
proof -
  let ?rest = "\<lambda>fs t. concat (map (\<lambda>f. f @ [nul]) fs) @ show_nat t"
  have "a @ nul # (p @ nul # (n @ nul # ?rest fs t)) = a' @ nul # (p' @ nul # (n' @ nul # ?rest fs' t'))"
    using assms(1) by (simp add: build_la_v2_message_def)
  from split_at_nul[OF this assms(2,6)]
  have 1: "a = a'" "p @ nul # (n @ nul # ?rest fs t) = p' @ nul # (n' @ nul # ?rest fs' t')" by simp_all
  from split_at_nul[OF 1(2) assms(3,7)]
  have 2: "p = p'" "n @ nul # ?rest fs t = n' @ nul # ?rest fs' t'" by simp_all
  from split_at_nul[OF 2(2) assms(4,8)]
  have 3: "n = n'" "?rest fs t = ?rest fs' t'" by simp_all
  have "fs = fs' \<and> show_nat t = show_nat t'"
    by (rule split_fields[OF 3(2) assms(5,9)]) simp_all
  then show ?thesis using 1(1) 2(1) 3(1) show_nat_inj by blast
qed

end
