(* ===== verification/Access.thy ===== *)
theory Access
  imports Auth
begin

text \<open>
  Who is calling: src/src/ip_whitelist.rs, src/src/certification.rs,
  src/src/reserved_nyms.rs and src/src/validators.rs.  Network prefixes
  (ipnet), address and key libraries and header decoding are arguments.
  Trimming and case folding are those of ASCII text.
\<close>

datatype ip_addr = V4 nat nat nat nat | V6 "nat list"

subsection \<open>Text helpers\<close>

definition ascii_space :: "char \<Rightarrow> bool" where
  "ascii_space ch \<longleftrightarrow> (let n = (of_char ch :: nat) in (9 \<le> n \<and> n \<le> 13) \<or> n = 32)"

definition trim :: "string \<Rightarrow> string" where
  "trim s = rev (dropWhile ascii_space (rev (dropWhile ascii_space s)))"

text \<open>\<open>str::split\<close> on a character.\<close>
fun split_on :: "char \<Rightarrow> string \<Rightarrow> string list" where
  "split_on sep [] = [[]]"
| "split_on sep (ch # s) =
    (if ch = sep then [] # split_on sep s
     else (case split_on sep s of [] \<Rightarrow> [[ch]] | w # ws \<Rightarrow> (ch # w) # ws))"

lemma split_on_nonempty [simp]: "split_on sep s \<noteq> []"
  by (induction s) (auto split: list.splits)

lemma split_on_free: "sep \<notin> set t \<Longrightarrow> split_on sep t = [t]"
  by (induction t) auto

lemma split_on_append: "split_on sep (pre @ sep # t) = split_on sep pre @ split_on sep t"
  by (induction pre) (auto split: list.splits)

text \<open>What a client writes to the left of the last separator does not matter.\<close>
lemma last_split_on: "sep \<notin> set t \<Longrightarrow> last (split_on sep (pre @ sep # t)) = t"
  by (simp add: split_on_append split_on_free)

subsection \<open>IP whitelist\<close>

text \<open>\<open>parse_net\<close> is \<open>IpNet::from_str\<close>, \<open>parse_ip\<close> is \<open>IpAddr::from_str\<close>, \<open>of_ip\<close> is \<open>IpNet::from\<close>.\<close>
record 'net net_lib =
  nl_parse_net :: "string \<Rightarrow> string + 'net"
  nl_parse_ip :: "string \<Rightarrow> string + ip_addr"
  nl_of_ip :: "ip_addr \<Rightarrow> 'net"
  nl_contains :: "'net \<Rightarrow> ip_addr \<Rightarrow> bool"

text \<open>\<open>{:?}\<close> of a string that needs no escaping.\<close>
definition debug_str :: "string \<Rightarrow> string" where
  "debug_str s = [CHR 0x22] @ s @ [CHR 0x22]"

fun parse_entries :: "'net net_lib \<Rightarrow> string \<Rightarrow> string \<Rightarrow> string list \<Rightarrow> string + 'net list" where
  "parse_entries l cidr_msg ip_msg [] = Inr []"
| "parse_entries l cidr_msg ip_msg (entry # rest) =
    (let s = trim entry in
     if s = [] then parse_entries l cidr_msg ip_msg rest
     else case (if CHR ''/'' \<in> set s
                then (case nl_parse_net l s of Inl e \<Rightarrow> Inl (cidr_msg @ debug_str s @ '': '' @ e) | Inr n \<Rightarrow> Inr n)
                else (case nl_parse_ip l s of Inl e \<Rightarrow> Inl (ip_msg @ debug_str s @ '': '' @ e) | Inr a \<Rightarrow> Inr (nl_of_ip l a))) of
       Inl e \<Rightarrow> Inl e
     | Inr n \<Rightarrow> map_sum id (\<lambda>ns. n # ns) (parse_entries l cidr_msg ip_msg rest))"

definition whitelist_parse :: "'net net_lib \<Rightarrow> string list \<Rightarrow> string + 'net list" where
  "whitelist_parse l = parse_entries l ''invalid CIDR '' ''invalid IP ''"

definition whitelist_contains :: "'net net_lib \<Rightarrow> 'net list \<Rightarrow> ip_addr \<Rightarrow> bool" where
  "whitelist_contains l nets ip = list_ex (\<lambda>n. nl_contains l n ip) nets"

text \<open>\<open>{:02x}\<close> of an octet.\<close>
definition hex2 :: "nat \<Rightarrow> string" where
  "hex2 n = [hex_digit (n div 16), hex_digit (n mod 16)]"

fun source_key :: "ip_addr \<Rightarrow> string" where
  "source_key (V4 a b c d) = ''v4:/32:'' @ show_nat a @ ''.'' @ show_nat b @ ''.'' @ show_nat c @ ''.'' @ show_nat d"
| "source_key (V6 os) = ''v6:/56:'' @ hex2 (os ! 0) @ hex2 (os ! 1) @ '':'' @ hex2 (os ! 2) @ hex2 (os ! 3) @ '':''
     @ hex2 (os ! 4) @ hex2 (os ! 5) @ '':'' @ hex2 (os ! 6) @ ''00::''"

definition resolve_caller_ip ::
  "'net net_lib \<Rightarrow> ip_addr option \<Rightarrow> string option \<Rightarrow> bool \<Rightarrow> ip_addr option" where
  "resolve_caller_ip l peer forwarded_for trust_forwarded_for =
    (if trust_forwarded_for then
       (case forwarded_for of
          None \<Rightarrow> peer
        | Some xff \<Rightarrow>
           (case nl_parse_ip l (trim (last (split_on CHR '','' xff))) of Inr ip \<Rightarrow> Some ip | Inl e \<Rightarrow> peer))
     else peer)"

text \<open>\<open>headers\<close> is the decoded header lookup.\<close>
definition caller_ip ::
  "'net net_lib \<Rightarrow> ip_addr option \<Rightarrow> (string \<Rightarrow> string option) \<Rightarrow> bool \<Rightarrow> ip_addr option" where
  "caller_ip l peer headers trust = resolve_caller_ip l peer (headers ''x-forwarded-for'') trust"

subsection \<open>Certification bypass\<close>

datatype certification_scope = RegistrationSetup | MetadataLookup | InvoiceCreate | InvoiceStatus | LiveMoneyOffer

fun scope_text :: "certification_scope \<Rightarrow> string" where
  "scope_text RegistrationSetup = ''registration_setup''"
| "scope_text MetadataLookup = ''metadata_lookup''"
| "scope_text InvoiceCreate = ''invoice_create''"
| "scope_text InvoiceStatus = ''invoice_status''"
| "scope_text LiveMoneyOffer = ''live_money_offer''"

definition parse_scope :: "string \<Rightarrow> string + certification_scope" where
  "parse_scope s =
    (if s = ''registration_setup'' then Inr RegistrationSetup
     else if s = ''metadata_lookup'' then Inr MetadataLookup
     else if s = ''invoice_create'' then Inr InvoiceCreate
     else if s = ''invoice_status'' then Inr InvoiceStatus
     else if s = ''live_money_offer'' then Inr LiveMoneyOffer
     else Inl (''unknown certification scope: '' @ s))"

record 'net certification_allowlist =
  ca_enabled :: bool
  ca_sources :: "'net list"
  ca_token :: string
  ca_scopes :: "certification_scope list"

record certification_decision =
  cd_allowed :: bool
  cd_source_allowed :: bool
  cd_token_valid :: bool
  cd_scope_enabled :: bool
  cd_caller_ip :: "ip_addr option"

fun parse_scopes :: "string list \<Rightarrow> string + certification_scope list" where
  "parse_scopes [] = Inr []"
| "parse_scopes (s # ss) =
    (case parse_scope (trim s) of
       Inl e \<Rightarrow> Inl e
     | Inr sc \<Rightarrow> map_sum id (\<lambda>r. sc # r) (parse_scopes ss))"

definition certification_parse ::
  "'net net_lib \<Rightarrow> bool \<Rightarrow> string list \<Rightarrow> string \<Rightarrow> string list \<Rightarrow> string + 'net certification_allowlist" where
  "certification_parse l enabled source_allowlist token scopes =
    (case parse_entries l ''invalid certification CIDR '' ''invalid certification IP '' source_allowlist of
       Inl e \<Rightarrow> Inl e
     | Inr nets \<Rightarrow>
        (case parse_scopes scopes of
           Inl e \<Rightarrow> Inl e
         | Inr scs \<Rightarrow> Inr \<lparr>ca_enabled = enabled, ca_sources = nets, ca_token = token, ca_scopes = scs\<rparr>))"

definition header_token_valid :: "'net certification_allowlist \<Rightarrow> (string \<Rightarrow> string option) \<Rightarrow> bool" where
  "header_token_valid a headers =
    (case headers ''x-bullnym-certification-token'' of
       None \<Rightarrow> False
     | Some v \<Rightarrow> if length v \<noteq> length (ca_token a) then False else v = ca_token a)"

definition decide ::
  "'net net_lib \<Rightarrow> 'net certification_allowlist \<Rightarrow> certification_scope \<Rightarrow> ip_addr option
    \<Rightarrow> (string \<Rightarrow> string option) \<Rightarrow> bool \<Rightarrow> certification_decision" where
  "decide l a scope peer headers trust =
    (let ip = caller_ip l peer headers trust;
         source_allowed = ca_enabled a \<and> (case ip of None \<Rightarrow> False | Some i \<Rightarrow> whitelist_contains l (ca_sources a) i);
         scope_enabled = ca_enabled a \<and> scope \<in> set (ca_scopes a);
         token_valid = ca_enabled a \<and> header_token_valid a headers
     in \<lparr>cd_allowed = source_allowed \<and> scope_enabled \<and> token_valid, cd_source_allowed = source_allowed,
         cd_token_valid = token_valid, cd_scope_enabled = scope_enabled, cd_caller_ip = ip\<rparr>)"

text \<open>The bypass gate of the handlers; the audit line is not modelled.\<close>
definition allows_scope ::
  "'net net_lib \<Rightarrow> 'net certification_allowlist \<Rightarrow> bool \<Rightarrow> certification_scope \<Rightarrow> ip_addr option
    \<Rightarrow> (string \<Rightarrow> string option) \<Rightarrow> bool" where
  "allows_scope l a trust scope peer headers = cd_allowed (decide l a scope peer headers trust)"

record preflight_response =
  pf_enabled :: bool
  pf_source_allowed :: bool
  pf_token_valid :: bool
  pf_requested :: "string list"
  pf_configured :: "string list"
  pf_missing :: "string list"
  pf_ready :: bool

text \<open>\<open>str\<close>'s order is the lexicographic one on bytes.\<close>
fun str_le :: "string \<Rightarrow> string \<Rightarrow> bool" where
  "str_le [] t = True"
| "str_le (a # s) [] = False"
| "str_le (a # s) (b # t) = (if a = b then str_le s t else (of_char a :: nat) < of_char b)"

fun insert_str :: "string \<Rightarrow> string list \<Rightarrow> string list" where
  "insert_str s [] = [s]"
| "insert_str s (t # ts) = (if str_le s t then s # t # ts else t # insert_str s ts)"

definition configured_scopes :: "'net certification_allowlist \<Rightarrow> string list" where
  "configured_scopes a = foldr insert_str (map scope_text (remdups (ca_scopes a))) []"

text \<open>The loop over the requested scopes: source flag, token flag, missing scopes.\<close>
fun preflight_scopes ::
  "(certification_scope \<Rightarrow> certification_decision) \<Rightarrow> string list \<Rightarrow> bool \<Rightarrow> bool \<Rightarrow> string list
    \<Rightarrow> app_error + (bool \<times> bool \<times> string list)" where
  "preflight_scopes dec [] src tok missing = Inr (src, tok, missing)"
| "preflight_scopes dec (name # rest) src tok missing =
    (case parse_scope name of
       Inl e \<Rightarrow> Inl (InvalidAmount e)
     | Inr scope \<Rightarrow>
        (let d = dec scope in
         preflight_scopes dec rest (src \<or> cd_source_allowed d) (tok \<or> cd_token_valid d)
           (if cd_scope_enabled d then missing else missing @ [name])))"

definition preflight ::
  "'net net_lib \<Rightarrow> 'net certification_allowlist \<Rightarrow> bool \<Rightarrow> ip_addr option \<Rightarrow> (string \<Rightarrow> string option)
    \<Rightarrow> string option \<Rightarrow> app_error + preflight_response" where
  "preflight l a trust peer headers scopes =
    (let dec = (\<lambda>scope. decide l a scope peer headers trust);
         requested = filter (\<lambda>s. s \<noteq> []) (map trim (split_on CHR '','' (case scopes of None \<Rightarrow> [] | Some s \<Rightarrow> s)))
     in case preflight_scopes dec requested False False [] of
          Inl e \<Rightarrow> Inl e
        | Inr (src, tok, missing) \<Rightarrow>
           (let src' = (if requested = [] then cd_source_allowed (dec RegistrationSetup) else src);
                tok' = (if requested = [] then cd_token_valid (dec RegistrationSetup) else tok);
                may_inspect = src' \<and> tok'
            in Inr \<lparr>pf_enabled = ca_enabled a, pf_source_allowed = src', pf_token_valid = tok',
                    pf_requested = requested, pf_configured = (if may_inspect then configured_scopes a else []),
                    pf_missing = missing,
                    pf_ready = ca_enabled a \<and> may_inspect \<and> requested \<noteq> [] \<and> missing = []\<rparr>))"

subsection \<open>Reserved nyms and address validators\<close>

definition reserved_nyms :: "string list" where
  "reserved_nyms = [''register'', ''health'', ''ready'', ''version'', ''webhook'', ''lnurlp'', ''api'', ''img'',
     ''donation-page'', ''well-known'', ''admin'', ''static'', ''assets'', ''favicon'', ''robots'', ''sitemap'',
     ''about'', ''terms'', ''privacy'', ''support'', ''help'', ''login'', ''logout'', ''signup'', ''settings'',
     ''account'', ''dashboard'', ''test'', ''i'', ''invoice'', ''invoices'']"

definition is_reserved :: "string \<Rightarrow> bool" where
  "is_reserved nym \<longleftrightarrow> nym \<in> set reserved_nyms"

text \<open>\<open>parse\<close> is the bitcoin crate's parser, \<open>mainnet\<close> its network check, \<open>render\<close> its printer.\<close>
definition canonical_btc_mainnet_address ::
  "(string \<Rightarrow> string + 'addr) \<Rightarrow> ('addr \<Rightarrow> bool) \<Rightarrow> ('addr \<Rightarrow> string) \<Rightarrow> string \<Rightarrow> app_error + string" where
  "canonical_btc_mainnet_address parse mainnet render addr =
    (case parse addr of
       Inl e \<Rightarrow> Inl (InvalidAmount (''bitcoin_address: '' @ e))
     | Inr a \<Rightarrow>
        if mainnet a then Inr (render a)
        else Inl (InvalidAmount ''bitcoin_address: expected mainnet (bc1.../1.../3...)''))"

record ('addr, 'bk) liquid_lib =
  ll_parse :: "string \<Rightarrow> string + 'addr"
  ll_is_liquid :: "'addr \<Rightarrow> bool"
  ll_params_text :: "'addr \<Rightarrow> string"
  ll_blinding :: "'addr \<Rightarrow> 'bk option"
  ll_render :: "'addr \<Rightarrow> string"
  ll_secret :: "string \<Rightarrow> 'bk option"

definition canonical_liquid_mainnet_address :: "('addr, 'bk) liquid_lib \<Rightarrow> string \<Rightarrow> app_error + string" where
  "canonical_liquid_mainnet_address l addr =
    (case ll_parse l addr of
       Inl e \<Rightarrow> Inl (InvalidAmount (''liquid_address: '' @ e))
     | Inr a \<Rightarrow>
        if \<not> ll_is_liquid l a
        then Inl (InvalidAmount (''liquid_address: expected liquid mainnet (LBTC), got params='' @ ll_params_text l a))
        else if ll_blinding l a = None
        then Inl (InvalidAmount ''liquid_address: must be confidential (blinded)'')
        else Inr (ll_render l a))"

text \<open>\<open>ll_secret\<close> maps a secret key's hex to the public key it has.\<close>
definition validate_liquid_blinding_key_matches_address ::
  "('addr, 'bk) liquid_lib \<Rightarrow> string \<Rightarrow> string \<Rightarrow> app_error + unit" where
  "validate_liquid_blinding_key_matches_address l addr blinding_key_hex =
    (case ll_parse l addr of
       Inl e \<Rightarrow> Inl (InvalidAmount (''liquid_address: '' @ e))
     | Inr a \<Rightarrow>
        (case ll_blinding l a of
           None \<Rightarrow> Inl (InvalidAmount ''liquid_address: must be confidential (blinded)'')
         | Some expected \<Rightarrow>
            (case ll_secret l blinding_key_hex of
               None \<Rightarrow> Inl (InvalidAmount ''liquid_blinding_key_hex: invalid secret key'')
             | Some actual \<Rightarrow>
                if actual \<noteq> expected
                then Inl (InvalidAmount ''liquid_blinding_key_hex does not match liquid_address'')
                else Inr ())))"

end
