(* ===== verification/Budget.thy ===== *)
theory Budget
  imports Prelude
begin

text \<open>
  The contract of a rate limiter: every admission is paid from a credit that
  only the passing of the horizon could renew, so over a legal run it admits at
  most what the credit was at the start.  The in-memory window, the Postgres
  counter and the token bucket (RateLimit) interpret it, each with the credit
  that belongs to it.
\<close>

text \<open>How many requests of a run are admitted.\<close>
fun admissions :: "('q \<Rightarrow> 's \<Rightarrow> bool \<times> 's) \<Rightarrow> 'q list \<Rightarrow> 's \<Rightarrow> nat" where
  "admissions serve [] s = 0"
| "admissions serve (q # qs) s =
    (case serve q s of (ok, s') \<Rightarrow> (if ok then 1 else 0) + admissions serve qs s')"

fun legal_run :: "('q \<Rightarrow> 's \<Rightarrow> bool) \<Rightarrow> ('q \<Rightarrow> 's \<Rightarrow> bool \<times> 's) \<Rightarrow> 'q list \<Rightarrow> 's \<Rightarrow> bool" where
  "legal_run legal serve [] s = True"
| "legal_run legal serve (q # qs) s = (legal q s \<and> legal_run legal serve qs (snd (serve q s)))"

locale budget =
  fixes serve :: "'q \<Rightarrow> 's \<Rightarrow> bool \<times> 's"
    and legal :: "'q \<Rightarrow> 's \<Rightarrow> bool"
    and sound :: "'s \<Rightarrow> bool"
    and credit :: "'s \<Rightarrow> nat"
  assumes serve_sound: "sound s \<Longrightarrow> legal q s \<Longrightarrow> sound (snd (serve q s))"
    and refusal_free: "sound s \<Longrightarrow> legal q s \<Longrightarrow> credit (snd (serve q s)) \<le> credit s"
    and admission_paid: "sound s \<Longrightarrow> legal q s \<Longrightarrow> fst (serve q s) \<Longrightarrow> credit (snd (serve q s)) < credit s"
begin

lemma admissions_within_credit:
  "sound s \<Longrightarrow> legal_run legal serve qs s \<Longrightarrow> admissions serve qs s \<le> credit s"
proof (induction qs arbitrary: s)
  case (Cons q qs)
  obtain ok s' where s': "serve q s = (ok, s')" by fastforce
  have "admissions serve qs s' \<le> credit s'"
    using Cons.IH[of s'] Cons.prems serve_sound[of s q] s' by simp
  then show ?case
    using refusal_free[of s q] admission_paid[of s q] Cons.prems s' by (cases ok) auto
qed simp

lemma run_sound: "sound s \<Longrightarrow> legal_run legal serve qs s \<Longrightarrow> sound (fold (\<lambda>q. snd \<circ> serve q) qs s)"
  by (induction qs arbitrary: s) (auto simp: serve_sound)

end

end
