(* ===== verification/RateLimit.thy ===== *)
theory RateLimit
  imports Access Users Budget "HOL-Library.AList"
begin

text \<open>
  The rate limiters: src/src/rate_limit.rs and src/src/db/rate_limits.rs.
  Per-source axes are sliding windows in memory (one deque of instants per
  bucket), per-pubkey and distinct-key axes are counted in Postgres under an
  advisory lock (one operation here), Electrum calls go through two token
  buckets.  Time is in microseconds; the monotonic clock does not underflow.
  Counts stay far below the u32 the code casts them to.
\<close>

record rate_limit_config =
  rc_ip_whitelist :: "string list"
  rc_trust_forwarded_for :: bool
  rc_per_ip_limit :: nat
  rc_per_ip_window_secs :: nat
  rc_per_pubkey_limit :: nat
  rc_per_pubkey_window_secs :: nat
  rc_distinct_nyms_per_ip_limit :: nat
  rc_distinct_nyms_per_ipv6_56_limit :: nat
  rc_distinct_nyms_per_outpoint_limit :: nat
  rc_distinct_nyms_window_secs :: nat
  rc_max_pending_reservations_per_nym :: nat
  rc_recycle_pending_older_than_days :: nat
  rc_lightning_rate_per_minute :: nat
  rc_global_electrum_rate_per_sec :: nat
  rc_register_rate_limit :: nat
  rc_register_rate_window_secs :: nat
  rc_register_distinct_npubs_per_ip_limit :: nat
  rc_register_distinct_npubs_per_ip_window_secs :: nat
  rc_max_active_users :: nat
  rc_metadata_rate_limit :: nat
  rc_metadata_rate_window_secs :: nat
  rc_metadata_distinct_nyms_per_ip_limit :: nat
  rc_metadata_distinct_nyms_per_ip_window_secs :: nat
  rc_lookup_distinct_npubs_per_ip_limit :: nat
  rc_lookup_distinct_npubs_per_ip_window_secs :: nat
  rc_chain_watcher_electrum_rate_per_sec :: nat
  rc_chain_watcher_active_user_tick_secs :: nat
  rc_chain_watcher_idle_user_tick_secs :: nat
  rc_chain_watcher_active_window_secs :: nat
  rc_webhook_rate_limit :: nat
  rc_webhook_rate_window_secs :: nat
  rc_lightning_per_source_limit :: nat
  rc_lightning_per_source_window_secs :: nat
  rc_donation_html_rate_limit :: nat
  rc_donation_html_rate_window_secs :: nat
  rc_donation_manifest_rate_limit :: nat
  rc_donation_manifest_rate_window_secs :: nat
  rc_donation_image_uploads_per_npub_per_hour :: nat
  rc_donation_image_uploads_per_source_per_min :: nat
  rc_invoice_status_per_source_per_min :: nat
  rc_invoice_create_per_source_per_min :: nat
  rc_invoice_create_per_npub_per_hour :: nat
  rc_pos_invoice_create_per_terminal_per_5min :: nat
  rc_pos_pairing_create_per_source_per_hour :: nat
  rc_pos_pairing_claim_failures_per_source_per_hour :: nat
  rc_pos_pairing_poll_per_source_per_5min :: nat

subsection \<open>In-memory sliding windows\<close>

type_synonym sliding = "(string \<times> int list) list"

datatype inmem_outcome = Allowed | Limited nat

definition deque_of :: "string \<Rightarrow> sliding \<Rightarrow> int list" where
  "deque_of key m = (case map_of m key of None \<Rightarrow> [] | Some d \<Rightarrow> d)"

text \<open>The deque is in time order, so dropping from the front drops everything too old.\<close>
definition prune_old :: "int \<Rightarrow> int list \<Rightarrow> int list" where
  "prune_old cutoff d = dropWhile (\<lambda>t. t < cutoff) d"

definition check_and_record :: "int \<Rightarrow> string \<Rightarrow> nat \<Rightarrow> int \<Rightarrow> sliding \<Rightarrow> inmem_outcome \<times> sliding" where
  "check_and_record now key limit window m =
    (let d = prune_old (now - window) (deque_of key m) in
     if limit \<le> length d then (Limited (length d), AList.update key d m)
     else (Allowed, AList.update key (d @ [now]) m))"

definition peek_count :: "int \<Rightarrow> string \<Rightarrow> int \<Rightarrow> sliding \<Rightarrow> nat \<times> sliding" where
  "peek_count now key window m =
    (let d = prune_old (now - window) (deque_of key m) in (length d, AList.update key d m))"

definition record_hit :: "int \<Rightarrow> string \<Rightarrow> int \<Rightarrow> sliding \<Rightarrow> nat \<times> sliding" where
  "record_hit now key window m =
    (let d = prune_old (now - window) (deque_of key m) @ [now] in (length d, AList.update key d m))"

definition sweep_idle :: "int \<Rightarrow> int \<Rightarrow> sliding \<Rightarrow> nat \<times> sliding" where
  "sweep_idle now max_age m =
    (let kept = filter (\<lambda>(k, d). d \<noteq> [] \<and> now - max_age \<le> last d) m in (length m - length kept, kept))"

subsection \<open>Postgres counters\<close>

text \<open>Rows of \<open>rate_limit_events\<close> and \<open>nym_access_events\<close>.\<close>
type_synonym rate_events = "(string \<times> timestamp) list"
type_synonym nym_events = "(string \<times> string \<times> timestamp) list"

definition record_and_count_rate_limit_atomic ::
  "timestamp \<Rightarrow> string \<Rightarrow> int \<Rightarrow> rate_events \<Rightarrow> nat \<times> rate_events" where
  "record_and_count_rate_limit_atomic now bucket window_secs evs =
    (let evs' = evs @ [(bucket, now)] in
     (length (filter (\<lambda>(b, t). b = bucket \<and> now - secs (as_i32 window_secs) < t) evs'), evs'))"

definition record_and_count_distinct_nyms_atomic ::
  "timestamp \<Rightarrow> string \<Rightarrow> string \<Rightarrow> int \<Rightarrow> nym_events \<Rightarrow> nat \<times> nym_events" where
  "record_and_count_distinct_nyms_atomic now source nym window_secs evs =
    (let evs' = evs @ [(source, nym, now)] in
     (card (set (map (\<lambda>(s, n, t). n) (filter (\<lambda>(s, n, t). s = source \<and> now - secs (as_i32 window_secs) < t) evs'))), evs'))"

definition count_active_users :: "user list \<Rightarrow> nat" where
  "count_active_users us = length (filter u_is_active us)"

subsection \<open>Token bucket\<close>

record token_bucket =
  tb_capacity :: nat
  tb_tokens :: nat
  tb_last_refill :: int
  tb_refill_per_sec :: nat

definition token_bucket_new :: "int \<Rightarrow> nat \<Rightarrow> token_bucket" where
  "token_bucket_new now rate =
    \<lparr>tb_capacity = max rate 1, tb_tokens = max rate 1, tb_last_refill = now, tb_refill_per_sec = max rate 1\<rparr>"

definition u32_max :: nat where "u32_max = 4294967295"

definition refill :: "int \<Rightarrow> token_bucket \<Rightarrow> token_bucket" where
  "refill now b =
    (let elapsed = now - tb_last_refill b in
     if secs 1 \<le> elapsed then
       (let add = min u32_max (nat (elapsed div secs 1) mod (u32_max + 1) * tb_refill_per_sec b)
        in b\<lparr>tb_tokens := min (min u32_max (tb_tokens b + add)) (tb_capacity b), tb_last_refill := now\<rparr>)
     else b)"

definition try_consume :: "int \<Rightarrow> token_bucket \<Rightarrow> bool \<times> token_bucket" where
  "try_consume now b =
    (let b' = refill now b in
     if 0 < tb_tokens b' then (True, b'\<lparr>tb_tokens := tb_tokens b' - 1\<rparr>) else (False, b'))"

subsection \<open>The limiter\<close>

record limiter =
  rl_cfg :: rate_limit_config
  rl_inmem :: sliding
  rl_events :: rate_events
  rl_nyms :: nym_events
  rl_electrum :: token_bucket
  rl_watcher_electrum :: token_bucket

definition inmem_sliding_check ::
  "int \<Rightarrow> string \<Rightarrow> nat \<Rightarrow> nat \<Rightarrow> app_error \<Rightarrow> limiter \<Rightarrow> (app_error + unit) \<times> limiter" where
  "inmem_sliding_check now bucket limit window_secs on_limit l =
    (if limit = 0 then (Inr (), l)
     else case check_and_record now bucket limit (secs (int window_secs)) (rl_inmem l) of
       (Allowed, m) \<Rightarrow> (Inr (), l\<lparr>rl_inmem := m\<rparr>)
     | (Limited n, m) \<Rightarrow> (Inl on_limit, l\<lparr>rl_inmem := m\<rparr>))"

definition inmem_sliding_peek ::
  "int \<Rightarrow> string \<Rightarrow> nat \<Rightarrow> nat \<Rightarrow> app_error \<Rightarrow> limiter \<Rightarrow> (app_error + unit) \<times> limiter" where
  "inmem_sliding_peek now bucket limit window_secs on_limit l =
    (if limit = 0 then (Inr (), l)
     else case peek_count now bucket (secs (int window_secs)) (rl_inmem l) of
       (n, m) \<Rightarrow> (if limit \<le> n then Inl on_limit else Inr (), l\<lparr>rl_inmem := m\<rparr>))"

definition inmem_sliding_record :: "int \<Rightarrow> string \<Rightarrow> nat \<Rightarrow> nat \<Rightarrow> limiter \<Rightarrow> limiter" where
  "inmem_sliding_record now bucket limit window_secs l =
    (if limit = 0 then l
     else l\<lparr>rl_inmem := snd (record_hit now bucket (secs (int window_secs)) (rl_inmem l))\<rparr>)"

definition atomic_sliding_window_check ::
  "timestamp \<Rightarrow> string \<Rightarrow> nat \<Rightarrow> nat \<Rightarrow> app_error \<Rightarrow> limiter \<Rightarrow> (app_error + unit) \<times> limiter" where
  "atomic_sliding_window_check now bucket limit window_secs on_limit l =
    (if limit = 0 then (Inr (), l)
     else case record_and_count_rate_limit_atomic now bucket (int window_secs) (rl_events l) of
       (n, evs) \<Rightarrow> (if limit < n then Inl on_limit else Inr (), l\<lparr>rl_events := evs\<rparr>))"

definition distinct_nyms_check ::
  "timestamp \<Rightarrow> string \<Rightarrow> string \<Rightarrow> nat \<Rightarrow> nat \<Rightarrow> app_error \<Rightarrow> limiter \<Rightarrow> (app_error + unit) \<times> limiter" where
  "distinct_nyms_check now source nym limit window_secs on_limit l =
    (if limit = 0 then (Inr (), l)
     else case record_and_count_distinct_nyms_atomic now source nym (int window_secs) (rl_nyms l) of
       (n, evs) \<Rightarrow> (if limit < n then Inl on_limit else Inr (), l\<lparr>rl_nyms := evs\<rparr>))"

subsection \<open>The axes\<close>

text \<open>\<open>to_lowercase\<close> on ASCII text.\<close>
definition ascii_lowercase :: "string \<Rightarrow> string" where
  "ascii_lowercase = map (\<lambda>ch. let n = (of_char ch :: nat) in if 65 \<le> n \<and> n \<le> 90 then char_of (n + 32) else ch)"

definition check_per_ip :: "int \<Rightarrow> ip_addr \<Rightarrow> limiter \<Rightarrow> (app_error + unit) \<times> limiter" where
  "check_per_ip now ip l =
    inmem_sliding_check now (source_key ip)
      (rc_per_ip_limit (rl_cfg l)) (rc_per_ip_window_secs (rl_cfg l)) RateLimitedSender l"

definition check_per_pubkey :: "int \<Rightarrow> string \<Rightarrow> limiter \<Rightarrow> (app_error + unit) \<times> limiter" where
  "check_per_pubkey now pubkey_hex l =
    atomic_sliding_window_check now (''pubkey:'' @ pubkey_hex)
      (rc_per_pubkey_limit (rl_cfg l)) (rc_per_pubkey_window_secs (rl_cfg l)) RateLimitedSender l"

definition check_distinct_nyms_per_ip :: "int \<Rightarrow> ip_addr \<Rightarrow> string \<Rightarrow> limiter \<Rightarrow> (app_error + unit) \<times> limiter" where
  "check_distinct_nyms_per_ip now ip nym l =
    distinct_nyms_check now (source_key ip)
      nym (case ip of V4 _ _ _ _ \<Rightarrow> rc_distinct_nyms_per_ip_limit (rl_cfg l) | V6 _ \<Rightarrow> rc_distinct_nyms_per_ipv6_56_limit (rl_cfg l)) (rc_distinct_nyms_window_secs (rl_cfg l)) RateLimitedNetwork l"

definition check_distinct_nyms_per_outpoint :: "int \<Rightarrow> string \<Rightarrow> string \<Rightarrow> limiter \<Rightarrow> (app_error + unit) \<times> limiter" where
  "check_distinct_nyms_per_outpoint now outpoint nym l =
    distinct_nyms_check now (''outpoint:'' @ outpoint)
      nym (rc_distinct_nyms_per_outpoint_limit (rl_cfg l)) (rc_distinct_nyms_window_secs (rl_cfg l)) RateLimitedNetwork l"

definition check_lightning_per_nym :: "int \<Rightarrow> string \<Rightarrow> limiter \<Rightarrow> (app_error + unit) \<times> limiter" where
  "check_lightning_per_nym now nym l =
    atomic_sliding_window_check now (''nym:'' @ nym)
      (rc_lightning_rate_per_minute (rl_cfg l)) 60 RateLimitedRecipient l"

definition check_register_per_ip :: "int \<Rightarrow> ip_addr \<Rightarrow> limiter \<Rightarrow> (app_error + unit) \<times> limiter" where
  "check_register_per_ip now ip l =
    inmem_sliding_check now (''register:'' @ source_key ip)
      (rc_register_rate_limit (rl_cfg l)) (rc_register_rate_window_secs (rl_cfg l)) RateLimitedSender l"

definition check_register_distinct_npubs_per_ip :: "int \<Rightarrow> ip_addr \<Rightarrow> string \<Rightarrow> limiter \<Rightarrow> (app_error + unit) \<times> limiter" where
  "check_register_distinct_npubs_per_ip now ip npub_hex l =
    distinct_nyms_check now (''register:'' @ source_key ip)
      npub_hex (rc_register_distinct_npubs_per_ip_limit (rl_cfg l)) (rc_register_distinct_npubs_per_ip_window_secs (rl_cfg l)) RateLimitedNetwork l"

definition check_metadata_per_ip :: "int \<Rightarrow> ip_addr \<Rightarrow> limiter \<Rightarrow> (app_error + unit) \<times> limiter" where
  "check_metadata_per_ip now ip l =
    inmem_sliding_check now (''meta:'' @ source_key ip)
      (rc_metadata_rate_limit (rl_cfg l)) (rc_metadata_rate_window_secs (rl_cfg l)) RateLimitedSender l"

definition check_metadata_distinct_nyms_per_ip :: "int \<Rightarrow> ip_addr \<Rightarrow> string \<Rightarrow> limiter \<Rightarrow> (app_error + unit) \<times> limiter" where
  "check_metadata_distinct_nyms_per_ip now ip nym l =
    distinct_nyms_check now (''meta:'' @ source_key ip)
      nym (rc_metadata_distinct_nyms_per_ip_limit (rl_cfg l)) (rc_metadata_distinct_nyms_per_ip_window_secs (rl_cfg l)) RateLimitedNetwork l"

definition check_webhook_per_ip :: "int \<Rightarrow> ip_addr \<Rightarrow> limiter \<Rightarrow> (app_error + unit) \<times> limiter" where
  "check_webhook_per_ip now ip l =
    inmem_sliding_check now (''webhook:'' @ source_key ip)
      (rc_webhook_rate_limit (rl_cfg l)) (rc_webhook_rate_window_secs (rl_cfg l)) RateLimitedSender l"

definition check_lightning_per_source :: "int \<Rightarrow> ip_addr \<Rightarrow> limiter \<Rightarrow> (app_error + unit) \<times> limiter" where
  "check_lightning_per_source now ip l =
    inmem_sliding_check now (''lightning:'' @ source_key ip)
      (rc_lightning_per_source_limit (rl_cfg l)) (rc_lightning_per_source_window_secs (rl_cfg l)) RateLimitedSender l"

definition check_donation_html_per_source :: "int \<Rightarrow> ip_addr \<Rightarrow> limiter \<Rightarrow> (app_error + unit) \<times> limiter" where
  "check_donation_html_per_source now ip l =
    inmem_sliding_check now (''donation_html:'' @ source_key ip)
      (rc_donation_html_rate_limit (rl_cfg l)) (rc_donation_html_rate_window_secs (rl_cfg l)) RateLimitedSender l"

definition check_donation_manifest_per_source :: "int \<Rightarrow> ip_addr \<Rightarrow> limiter \<Rightarrow> (app_error + unit) \<times> limiter" where
  "check_donation_manifest_per_source now ip l =
    inmem_sliding_check now (''donation_manifest:'' @ source_key ip)
      (rc_donation_manifest_rate_limit (rl_cfg l)) (rc_donation_manifest_rate_window_secs (rl_cfg l)) RateLimitedSender l"

definition check_donation_image_uploads_per_npub :: "int \<Rightarrow> string \<Rightarrow> limiter \<Rightarrow> (app_error + unit) \<times> limiter" where
  "check_donation_image_uploads_per_npub now npub_hex l =
    atomic_sliding_window_check now (''donation_image_npub:'' @ npub_hex)
      (rc_donation_image_uploads_per_npub_per_hour (rl_cfg l)) 3600 RateLimitedSender l"

definition check_donation_image_uploads_per_source :: "int \<Rightarrow> ip_addr \<Rightarrow> limiter \<Rightarrow> (app_error + unit) \<times> limiter" where
  "check_donation_image_uploads_per_source now ip l =
    inmem_sliding_check now (''donation_image_src:'' @ source_key ip)
      (rc_donation_image_uploads_per_source_per_min (rl_cfg l)) 60 RateLimitedSender l"

definition check_invoice_create_per_source :: "int \<Rightarrow> ip_addr \<Rightarrow> limiter \<Rightarrow> (app_error + unit) \<times> limiter" where
  "check_invoice_create_per_source now ip l =
    inmem_sliding_check now (''invoice_create:'' @ source_key ip)
      (rc_invoice_create_per_source_per_min (rl_cfg l)) 60 RateLimitedSender l"

definition check_invoice_create_per_npub :: "int \<Rightarrow> string \<Rightarrow> limiter \<Rightarrow> (app_error + unit) \<times> limiter" where
  "check_invoice_create_per_npub now npub_hex l =
    inmem_sliding_check now (''invoice_create_npub:'' @ ascii_lowercase npub_hex)
      (rc_invoice_create_per_npub_per_hour (rl_cfg l)) 3600 RateLimitedSender l"

definition check_pos_invoice_create_per_terminal :: "int \<Rightarrow> uuid \<Rightarrow> limiter \<Rightarrow> (app_error + unit) \<times> limiter" where
  "check_pos_invoice_create_per_terminal now terminal_id l =
    inmem_sliding_check now (''pos_invoice_create:'' @ uuid_text terminal_id)
      (rc_pos_invoice_create_per_terminal_per_5min (rl_cfg l)) 300 RateLimitedSender l"

definition check_invoice_status_per_source :: "int \<Rightarrow> ip_addr \<Rightarrow> limiter \<Rightarrow> (app_error + unit) \<times> limiter" where
  "check_invoice_status_per_source now ip l =
    inmem_sliding_check now (''invoice_status:'' @ source_key ip)
      (rc_invoice_status_per_source_per_min (rl_cfg l)) 60 RateLimitedSender l"

definition check_pos_pairing_create_per_source :: "int \<Rightarrow> ip_addr \<Rightarrow> limiter \<Rightarrow> (app_error + unit) \<times> limiter" where
  "check_pos_pairing_create_per_source now ip l =
    inmem_sliding_check now (''pos_pair_create:'' @ source_key ip)
      (rc_pos_pairing_create_per_source_per_hour (rl_cfg l)) 3600 RateLimitedSender l"

definition check_pos_pairing_claim_failure_per_source :: "int \<Rightarrow> ip_addr \<Rightarrow> limiter \<Rightarrow> (app_error + unit) \<times> limiter" where
  "check_pos_pairing_claim_failure_per_source now ip l =
    inmem_sliding_peek now (''pos_pair_claim_fail:'' @ source_key ip)
      (rc_pos_pairing_claim_failures_per_source_per_hour (rl_cfg l)) 3600 PosPairingClaimRateLimited l"

definition record_pos_pairing_claim_failure_per_source :: "int \<Rightarrow> ip_addr \<Rightarrow> limiter \<Rightarrow> limiter" where
  "record_pos_pairing_claim_failure_per_source now ip l =
    inmem_sliding_record now (''pos_pair_claim_fail:'' @ source_key ip)
      (rc_pos_pairing_claim_failures_per_source_per_hour (rl_cfg l)) 3600 l"

definition check_pos_pairing_poll_per_source :: "int \<Rightarrow> ip_addr \<Rightarrow> limiter \<Rightarrow> (app_error + unit) \<times> limiter" where
  "check_pos_pairing_poll_per_source now ip l =
    inmem_sliding_check now (''pos_pair_poll:'' @ source_key ip)
      (rc_pos_pairing_poll_per_source_per_5min (rl_cfg l)) 300 RateLimitedSender l"

definition check_lookup_distinct_npubs_per_ip :: "int \<Rightarrow> ip_addr \<Rightarrow> string \<Rightarrow> limiter \<Rightarrow> (app_error + unit) \<times> limiter" where
  "check_lookup_distinct_npubs_per_ip now ip npub_hex l =
    distinct_nyms_check now (''lookup:'' @ source_key ip)
      npub_hex (rc_lookup_distinct_npubs_per_ip_limit (rl_cfg l)) (rc_lookup_distinct_npubs_per_ip_window_secs (rl_cfg l)) RateLimitedNetwork l"

definition check_max_active_users :: "user list \<Rightarrow> limiter \<Rightarrow> app_error + unit" where
  "check_max_active_users us l =
    (let mx = rc_max_active_users (rl_cfg l); active = count_active_users us in
     if mx = 0 then Inr ()
     else if mx \<le> active
       then Inl (ServiceUnavailable (''active user ceiling reached ('' @ show_nat active @ '' >= '' @ show_nat mx @ '')''))
     else Inr ())"

definition check_pending_reservations :: "string \<Rightarrow> outpoint_address list \<Rightarrow> limiter \<Rightarrow> app_error + unit" where
  "check_pending_reservations nym oas l =
    (if rc_max_pending_reservations_per_nym (rl_cfg l) \<le> count_unfulfilled_reservations nym oas
     then Inl TooManyPendingReservations else Inr ())"

definition check_electrum :: "int \<Rightarrow> limiter \<Rightarrow> (app_error + unit) \<times> limiter" where
  "check_electrum now l =
    (case try_consume now (rl_electrum l) of
       (ok, b) \<Rightarrow> (if ok then Inr () else Inl BackendThrottled, l\<lparr>rl_electrum := b\<rparr>))"

definition check_electrum_watcher :: "int \<Rightarrow> limiter \<Rightarrow> (app_error + unit) \<times> limiter" where
  "check_electrum_watcher now l =
    (case try_consume now (rl_watcher_electrum l) of
       (ok, b) \<Rightarrow> (if ok then Inr () else Inl BackendThrottled, l\<lparr>rl_watcher_electrum := b\<rparr>))"

text \<open>The webhook's gate: a whitelisted or unknown caller is not counted.\<close>
definition webhook_gate ::
  "int \<Rightarrow> 'net net_lib \<Rightarrow> 'net list \<Rightarrow> ip_addr option \<Rightarrow> limiter \<Rightarrow> (app_error + unit) \<times> limiter" where
  "webhook_gate now lib whitelist ip l =
    (case ip of
       None \<Rightarrow> (Inr (), l)
     | Some i \<Rightarrow> if whitelist_contains lib whitelist i then (Inr (), l) else check_webhook_per_ip now i l)"

subsection \<open>The in-memory window as a budget\<close>

text \<open>What reaches the shared map: a check on some bucket, or the idle sweep.\<close>
datatype window_event = Hit int string nat int | Sweep int int

fun event_time :: "window_event \<Rightarrow> int" where
  "event_time (Hit now key limit window) = now"
| "event_time (Sweep now max_age) = now"

text \<open>The verdict counts when the event is a check on \<open>key\<close> at \<open>a\<close> or later; the
  first component of the state is the clock.\<close>
fun serve_window :: "string \<Rightarrow> int \<Rightarrow> window_event \<Rightarrow> int \<times> sliding \<Rightarrow> bool \<times> (int \<times> sliding)" where
  "serve_window key a (Hit now k limit window) (clock, m) =
    (case check_and_record now k limit window m of
       (r, m') \<Rightarrow> (k = key \<and> a \<le> now \<and> r = Allowed, (now, m')))"
| "serve_window key a (Sweep now max_age) (clock, m) = (False, (now, snd (sweep_idle now max_age m)))"

fun window_legal :: "string \<Rightarrow> nat \<Rightarrow> int \<Rightarrow> int \<Rightarrow> window_event \<Rightarrow> int \<times> sliding \<Rightarrow> bool" where
  "window_legal key limit window a (Hit now k l w) (clock, m) =
    (clock \<le> now \<and> now \<le> a + window \<and> (k = key \<longrightarrow> l = limit \<and> w = window))"
| "window_legal key limit window a (Sweep now max_age) (clock, m) =
    (clock \<le> now \<and> now \<le> a + window \<and> window \<le> max_age)"

definition window_sound :: "string \<Rightarrow> int \<times> sliding \<Rightarrow> bool" where
  "window_sound key s \<longleftrightarrow> distinct (map fst (snd s)) \<and> sorted (deque_of key (snd s))
     \<and> (\<forall>t\<in>set (deque_of key (snd s)). t \<le> fst s)"

definition window_credit :: "string \<Rightarrow> nat \<Rightarrow> int \<Rightarrow> int \<times> sliding \<Rightarrow> nat" where
  "window_credit key limit a s = limit - length (filter (\<lambda>t. a \<le> t) (deque_of key (snd s)))"

lemma deque_of_update: "deque_of key (AList.update k d m) = (if k = key then d else deque_of key m)"
  by (simp add: deque_of_def update_conv')

lemma prune_old_recent: "c \<le> a \<Longrightarrow> filter (\<lambda>t. a \<le> t) (prune_old c d) = filter (\<lambda>t. a \<le> t) d"
  by (induction d) (auto simp: prune_old_def)

lemma prune_old_sorted: "sorted d \<Longrightarrow> sorted (prune_old c d)"
  by (simp add: prune_old_def sorted_dropWhile)

lemma prune_old_set: "t \<in> set (prune_old c d) \<Longrightarrow> t \<in> set d"
  unfolding prune_old_def by (rule set_dropWhileD)

lemma deque_of_sweep:
  assumes "distinct (map fst m)" "sorted (deque_of key m)" "now - max_age \<le> a"
  shows "deque_of key (snd (sweep_idle now max_age m)) = deque_of key m
     \<or> deque_of key (snd (sweep_idle now max_age m)) = [] \<and> filter (\<lambda>t. a \<le> t) (deque_of key m) = []"
proof (cases "map_of m key")
  case None
  then have "map_of (filter (\<lambda>(k, d). d \<noteq> [] \<and> now - max_age \<le> last d) m) key = None"
    by (auto simp: map_of_eq_None_iff image_iff)
  then show ?thesis using None by (simp add: deque_of_def sweep_idle_def Let_def)
next
  case (Some d)
  have mem: "(key, d) \<in> set m" using Some by (rule map_of_SomeD)
  show ?thesis
  proof (cases "d \<noteq> [] \<and> now - max_age \<le> last d")
    case True
    then have "map_of (filter (\<lambda>(k, d). d \<noteq> [] \<and> now - max_age \<le> last d) m) key = Some d"
      using mem assms(1) by (intro map_of_is_SomeI) (auto simp: distinct_map_filter)
    then show ?thesis using Some by (simp add: deque_of_def sweep_idle_def Let_def)
  next
    case False
    have "map_of (filter (\<lambda>(k, d). d \<noteq> [] \<and> now - max_age \<le> last d) m) key = None"
      using False mem assms(1) Some by (auto simp: map_of_eq_None_iff dest: eq_key_imp_eq_value)
    moreover have "t < a" if "t \<in> set d" for t
    proof -
      have "t \<le> last d"
        using that assms(2) Some sorted_append[of "butlast d" "[last d]"]
        by (cases d rule: rev_cases) (auto simp: deque_of_def sorted_append)
      then show ?thesis using False that assms(3) by (cases d) auto
    qed
    ultimately show ?thesis using Some
      by (auto simp: deque_of_def sweep_idle_def Let_def filter_empty_conv linorder_not_le)
  qed
qed

lemma sweep_keys: "distinct (map fst m) \<Longrightarrow> distinct (map fst (snd (sweep_idle now max_age m)))"
  by (simp add: sweep_idle_def Let_def distinct_map_filter)

text \<open>One check, as far as the deque of \<open>key\<close> is concerned.\<close>
lemma check_and_record_cases:
  assumes "check_and_record now k limit window m = (r, m')"
  obtains (Limited) "limit \<le> length (prune_old (now - window) (deque_of k m))" "r \<noteq> Allowed"
      "m' = AList.update k (prune_old (now - window) (deque_of k m)) m"
  | (Allowed) "length (prune_old (now - window) (deque_of k m)) < limit" "r = Allowed"
      "m' = AList.update k (prune_old (now - window) (deque_of k m) @ [now]) m"
  using assms by (auto simp: check_and_record_def Let_def split: if_splits)

lemma serve_window_sound:
  assumes "window_sound key s" "window_legal key limit window a q s"
  shows "window_sound key (snd (serve_window key a q s))"
proof (cases q)
  case (Hit now k l w)
  obtain r m' where c: "check_and_record now k l w (snd s) = (r, m')" by fastforce
  then show ?thesis using assms Hit
    by (cases s; cases rule: check_and_record_cases[OF c])
      (force simp: window_sound_def deque_of_update sorted_append prune_old_sorted
        intro: distinct_update dest!: prune_old_set)+
next
  case (Sweep now max_age)
  then show ?thesis using assms deque_of_sweep[of "snd s" key now max_age a] sweep_keys
    by (cases s) (force simp: window_sound_def)
qed

lemma serve_window_pays:
  assumes "window_sound key s" "window_legal key limit window a q s"
  shows "window_credit key limit a (snd (serve_window key a q s)) \<le> window_credit key limit a s"
    and "fst (serve_window key a q s) \<Longrightarrow>
      window_credit key limit a (snd (serve_window key a q s)) < window_credit key limit a s"
proof -
  let ?goal = "window_credit key limit a (snd (serve_window key a q s)) \<le> window_credit key limit a s
    \<and> (fst (serve_window key a q s) \<longrightarrow>
        window_credit key limit a (snd (serve_window key a q s)) < window_credit key limit a s)"
  have ?goal
  proof (cases q)
    case (Hit now k l w)
    obtain r m' where c: "check_and_record now k l w (snd s) = (r, m')" by fastforce
    let ?d = "prune_old (now - w) (deque_of k (snd s))"
    show ?thesis
    proof (cases "k = key")
      case True
      then have lw: "l = limit" "w = window" "now - w \<le> a" using assms(2) Hit by (cases s; simp)+
      have same: "filter (\<lambda>t. a \<le> t) ?d = filter (\<lambda>t. a \<le> t) (deque_of key (snd s))"
        using True lw(3) by (simp add: prune_old_recent)
      have "length (filter (\<lambda>t. a \<le> t) ?d) \<le> length ?d" by simp
      then show ?thesis using Hit True lw same c
        by (cases s; cases rule: check_and_record_cases[OF c])
          (auto simp: window_credit_def deque_of_update)
    next
      case False
      then show ?thesis using Hit c
        by (cases s; cases rule: check_and_record_cases[OF c])
          (auto simp: window_credit_def deque_of_update)
    qed
  next
    case (Sweep now max_age)
    then show ?thesis using assms deque_of_sweep[of "snd s" key now max_age a]
      by (cases s) (auto simp: window_sound_def window_credit_def)
  qed
  then show "window_credit key limit a (snd (serve_window key a q s)) \<le> window_credit key limit a s"
    and "fst (serve_window key a q s) \<Longrightarrow>
      window_credit key limit a (snd (serve_window key a q s)) < window_credit key limit a s" by blast+
qed

interpretation window: budget "serve_window key a" "window_legal key limit window a" "window_sound key"
  "window_credit key limit a" for key limit window a
  by unfold_locales (blast intro: serve_window_sound serve_window_pays)+

subsection \<open>The Postgres counter as a budget\<close>

fun serve_events ::
  "string \<Rightarrow> nat \<Rightarrow> int \<Rightarrow> int \<Rightarrow> string \<times> int \<Rightarrow> rate_events \<Rightarrow> bool \<times> rate_events" where
  "serve_events bucket limit window a (b, now) evs =
    (case record_and_count_rate_limit_atomic now b window evs of
       (n, evs') \<Rightarrow> (b = bucket \<and> a \<le> now \<and> n \<le> limit, evs'))"

fun events_legal :: "int \<Rightarrow> int \<Rightarrow> string \<times> int \<Rightarrow> rate_events \<Rightarrow> bool" where
  "events_legal window a (b, now) evs \<longleftrightarrow> now < a + secs (as_i32 window)"

definition events_credit :: "string \<Rightarrow> nat \<Rightarrow> int \<Rightarrow> rate_events \<Rightarrow> nat" where
  "events_credit bucket limit a evs = limit - length (filter (\<lambda>(b, t). b = bucket \<and> a \<le> t) evs)"

lemma length_filter_le_filter: "(\<And>x. P x \<Longrightarrow> Q x) \<Longrightarrow> length (filter P xs) \<le> length (filter Q xs)"
  by (induction xs) auto

lemma serve_events_pays:
  assumes "events_legal window a q evs"
  shows "events_credit bucket limit a (snd (serve_events bucket limit window a q evs)) \<le> events_credit bucket limit a evs"
    and "fst (serve_events bucket limit window a q evs) \<Longrightarrow>
      events_credit bucket limit a (snd (serve_events bucket limit window a q evs)) < events_credit bucket limit a evs"
proof -
  obtain b now where q: "q = (b, now)" by fastforce
  show "events_credit bucket limit a (snd (serve_events bucket limit window a q evs)) \<le> events_credit bucket limit a evs"
    by (simp add: q events_credit_def record_and_count_rate_limit_atomic_def Let_def)
  assume ok: "fst (serve_events bucket limit window a q evs)"
  have "length (filter (\<lambda>(b, t). b = bucket \<and> a \<le> t) evs)
      \<le> length (filter (\<lambda>(b, t). b = bucket \<and> now - secs (as_i32 window) < t) evs)"
    using assms q by (intro length_filter_le_filter) auto
  then show "events_credit bucket limit a (snd (serve_events bucket limit window a q evs)) < events_credit bucket limit a evs"
    using ok assms by (auto simp: q events_credit_def record_and_count_rate_limit_atomic_def Let_def split: if_splits)
qed

interpretation counter: budget "serve_events bucket limit window a" "events_legal window a" "\<lambda>evs. True"
  "events_credit bucket limit a" for bucket limit window a
  by unfold_locales (blast intro: serve_events_pays)+

subsection \<open>The token bucket as a budget\<close>

text \<open>What the bucket holds and may still receive before \<open>horizon\<close>.\<close>
definition token_credit :: "int \<Rightarrow> token_bucket \<Rightarrow> nat" where
  "token_credit horizon b =
    tb_tokens b + tb_refill_per_sec b * nat ((horizon - tb_last_refill b) div secs 1)"

definition token_legal :: "int \<Rightarrow> int \<Rightarrow> token_bucket \<Rightarrow> bool" where
  "token_legal horizon now b \<longleftrightarrow> now \<le> horizon"

lemma secs_pos [simp]: "0 < secs 1"
  by (simp add: secs_def)

lemma whole_seconds_split:
  assumes "l \<le> n" "n \<le> h"
  shows "nat ((n - l) div secs 1) + nat ((h - n) div secs 1) \<le> nat ((h - l) div secs 1)"
proof -
  have "(n - l) div secs 1 + (h - n) div secs 1 \<le> ((n - l) + (h - n)) div secs 1"
    by (simp add: div_add1_eq secs_def)
  moreover have "0 \<le> (n - l) div secs 1" "0 \<le> (h - n) div secs 1"
    using assms by (simp_all add: pos_imp_zdiv_nonneg_iff)
  ultimately show ?thesis by simp
qed

lemma refill_credit:
  assumes "now \<le> horizon"
  shows "token_credit horizon (refill now b) \<le> token_credit horizon b"
proof (cases "secs 1 \<le> now - tb_last_refill b")
  case True
  let ?e = "nat ((now - tb_last_refill b) div secs 1)" and ?r = "tb_refill_per_sec b"
  have "tb_tokens (refill now b) \<le> tb_tokens b + ?e mod (u32_max + 1) * ?r"
    using True by (simp add: refill_def Let_def)
  also have "\<dots> \<le> tb_tokens b + ?e * ?r" by (simp add: mult_le_mono1)
  finally have tokens: "tb_tokens (refill now b) \<le> tb_tokens b + ?e * ?r" .
  have past: "tb_last_refill b \<le> now" using True by (simp add: secs_def)
  have whole: "?e + nat ((horizon - now) div secs 1) \<le> nat ((horizon - tb_last_refill b) div secs 1)"
    using whole_seconds_split[OF past assms] .
  have kept: "tb_refill_per_sec (refill now b) = ?r" "tb_last_refill (refill now b) = now"
    using True by (simp_all add: refill_def Let_def)
  have "token_credit horizon (refill now b) \<le> tb_tokens b + ?e * ?r + ?r * nat ((horizon - now) div secs 1)"
    using tokens by (simp add: token_credit_def kept)
  also have "\<dots> = tb_tokens b + ?r * (?e + nat ((horizon - now) div secs 1))"
    by (simp only: add_mult_distrib2 mult.commute add.assoc)
  also have "\<dots> \<le> token_credit horizon b"
    unfolding token_credit_def by (rule add_left_mono, rule mult_le_mono2, rule whole)
  finally show ?thesis .
next
  case False
  then show ?thesis by (simp add: refill_def Let_def)
qed

interpretation tokens: budget try_consume "token_legal horizon" "\<lambda>b. True" "token_credit horizon" for horizon
proof unfold_locales
  fix b now assume "token_legal horizon now b"
  then have r: "token_credit horizon (refill now b) \<le> token_credit horizon b"
    by (simp add: token_legal_def refill_credit)
  then show "token_credit horizon (snd (try_consume now b)) \<le> token_credit horizon b"
    by (auto simp: try_consume_def Let_def token_credit_def)
  show "fst (try_consume now b) \<Longrightarrow> token_credit horizon (snd (try_consume now b)) < token_credit horizon b"
    using r by (auto simp: try_consume_def Let_def token_credit_def split: if_splits)
qed simp

end
