(* ===== verification/AccessProperties.thy ===== *)
theory AccessProperties
  imports RateLimit
begin

text \<open>
  What the gates in front of the handlers guarantee: how much a source can get
  through the limiters, which sources share a bucket, and what a signed wallet
  action says.
\<close>

subsection \<open>Limits\<close>

text \<open>C14: Starting from an empty limiter, whatever requests on whatever buckets and
  whatever idle sweeps happen in the order of the monotonic clock, the checks
  on one bucket let through at most its limit between any instant \<open>a\<close> and \<open>a\<close>
  plus its window, as long as the sweep's idle age is not shorter than the window.\<close>
theorem window_limit_holds:
  assumes "legal_run (window_legal key limit window a) (serve_window key a) events (start, [])"
  shows "admissions (serve_window key a) events (start, []) \<le> limit"
proof -
  have "window_sound key (start, [])" by (simp add: window_sound_def deque_of_def)
  then show ?thesis
    using window.admissions_within_credit assms by (force simp: window_credit_def)
qed

lemma window_limit_holds_witness:
  "admissions (serve_window ''v4:/32:1.2.3.4'' 5)
     [Hit 5 ''v4:/32:1.2.3.4'' 1 10, Hit 6 ''x'' 9 9, Hit 7 ''v4:/32:1.2.3.4'' 1 10, Sweep 9 30]
     (0, []) \<le> 1"
  by (rule window_limit_holds[where limit = 1 and window = 10])
    (simp add: check_and_record_def deque_of_def prune_old_def Let_def)

text \<open>Between its creation and any later instant, the Electrum token bucket lets
  through at most its capacity plus one refill for every whole second elapsed;
  a configured rate of zero counts as one.\<close>
theorem token_bucket_limit_holds:
  assumes "legal_run (token_legal horizon) try_consume instants (token_bucket_new start rate)"
  shows "admissions try_consume instants (token_bucket_new start rate)
    \<le> max rate 1 + max rate 1 * nat ((horizon - start) div secs 1)"
proof -
  have "admissions try_consume instants (token_bucket_new start rate)
      \<le> token_credit horizon (token_bucket_new start rate)"
    by (rule tokens.admissions_within_credit[OF TrueI assms])
  also have "\<dots> = max rate 1 + max rate 1 * nat ((horizon - start) div secs 1)"
    by (simp add: token_credit_def token_bucket_new_def)
  finally show ?thesis .
qed

lemma token_bucket_limit_holds_witness:
  "admissions try_consume [0, 5, 1000000] (token_bucket_new 0 0)
    \<le> max (0 :: nat) 1 + max 0 1 * nat ((1000000 - 0) div secs 1)"
  by (rule token_bucket_limit_holds) (simp add: token_legal_def)

text \<open>On the Postgres axes, every bucket that exists beside it and every refused
  attempt included, the checks on one bucket let through at most its limit in
  any half-open window.\<close>
theorem counter_limit_holds:
  assumes "legal_run (events_legal window a) (serve_events bucket limit window a) attempts stored"
  shows "admissions (serve_events bucket limit window a) attempts stored \<le> limit"
  using counter.admissions_within_credit[OF TrueI assms] by (simp add: events_credit_def)

lemma counter_limit_holds_witness:
  "admissions (serve_events ''nym:alice'' 1 60 0) [(''nym:alice'', 0), (''nym:bob'', 1), (''nym:alice'', 2)] [] \<le> 1"
  by (rule counter_limit_holds) (simp add: secs_def as_i32_def)

subsection \<open>Sources\<close>

text \<open>An address as the standard library has it: octets, sixteen of them in a V6 one.\<close>
fun ip_ok :: "ip_addr \<Rightarrow> bool" where
  "ip_ok (V4 a b c d) \<longleftrightarrow> a < 256 \<and> b < 256 \<and> c < 256 \<and> d < 256"
| "ip_ok (V6 os) \<longleftrightarrow> length os = 16 \<and> list_all (\<lambda>x. x < 256) os"

fun same_source :: "ip_addr \<Rightarrow> ip_addr \<Rightarrow> bool" where
  "same_source (V4 a b c d) (V4 a' b' c' d') \<longleftrightarrow> a = a' \<and> b = b' \<and> c = c' \<and> d = d'"
| "same_source (V6 os) (V6 os') \<longleftrightarrow> take 7 os = take 7 os'"
| "same_source x y \<longleftrightarrow> False"

lemma hex_digit_inj:
  assumes "m < 16" "n < 16" "hex_digit m = hex_digit n"
  shows "m = n"
proof -
  have code: "(of_char (hex_digit k) :: nat) = (if k < 10 then 48 + k else 87 + k)" if "k < 16" for k
    using that by (simp add: hex_digit_def)
  have "(if m < 10 then 48 + m else 87 + m) = (if n < 10 then 48 + n else 87 + n)"
    unfolding code[OF assms(1), symmetric] code[OF assms(2), symmetric] by (simp only: assms(3))
  then show ?thesis using assms(1,2) by (simp split: if_splits)
qed

lemma hex2_inj:
  assumes "m < 256" "n < 256"
  shows "hex2 m = hex2 n \<longleftrightarrow> m = n"
proof
  assume "hex2 m = hex2 n"
  then have "m div 16 = n div 16" "m mod 16 = n mod 16"
    using assms hex_digit_inj by (auto simp: hex2_def)
  then show "m = n" by (metis div_mult_mod_eq)
qed simp

lemma digits_before_dot:
  assumes "show_nat m @ ''.'' @ r = show_nat n @ ''.'' @ s"
  shows "m = n \<and> r = s"
proof -
  have free: "CHR ''.'' \<notin> set (show_nat k)" for k
    using show_nat_digits[of k] by (auto simp: digit_def)
  have "takeWhile (\<lambda>c. c \<noteq> CHR ''.'') (show_nat k @ CHR ''.'' # t) = show_nat k" for k t
    using free[of k] by (subst takeWhile_append2) auto
  from this[of m r] this[of n s] have "show_nat m = show_nat n" using assms by simp
  then show ?thesis using assms show_nat_inj by auto
qed

lemma seven: "length os = 16 \<Longrightarrow> take 7 os = [os ! 0, os ! 1, os ! 2, os ! 3, os ! 4, os ! 5, os ! 6]"
  by (intro nth_equalityI) (auto simp: less_Suc_eq numeral_eq_Suc)

text \<open>Two callers share a rate-limit bucket exactly when they have the same IPv4
  address or IPv6 addresses in the same /56; a V4 and a V6 caller never do.\<close>
theorem source_keys_collide_iff:
  assumes "ip_ok x" "ip_ok y"
  shows "source_key x = source_key y \<longleftrightarrow> same_source x y"
proof (cases x; cases y)
  fix a b c d a' b' c' d' assume xy: "x = V4 a b c d" "y = V4 a' b' c' d'"
  show ?thesis
  proof
    assume "source_key x = source_key y"
    then have "show_nat a @ ''.'' @ show_nat b @ ''.'' @ show_nat c @ ''.'' @ show_nat d
        = show_nat a' @ ''.'' @ show_nat b' @ ''.'' @ show_nat c' @ ''.'' @ show_nat d'"
      by (simp add: xy)
    then show "same_source x y"
      using digits_before_dot show_nat_inj by (metis same_source.simps(1) xy)
  qed (simp add: xy)
next
  fix os os' assume xy: "x = V6 os" "y = V6 os'"
  then have l: "length os = 16" "length os' = 16" "list_all (\<lambda>x. x < 256) os" "list_all (\<lambda>x. x < 256) os'"
    using assms by simp_all
  then have h: "hex2 (os ! i) = hex2 (os' ! i) \<longleftrightarrow> os ! i = os' ! i" if "i < 16" for i
    using that by (simp add: hex2_inj list_all_length)
  have len: "length (hex2 n) = 2" for n by (simp add: hex2_def)
  show ?thesis by (auto simp: xy seven l h len)
qed simp_all

lemma source_keys_collide_iff_witness:
  "(source_key (V4 10 0 0 1) = source_key (V4 10 0 0 2)) \<longleftrightarrow> same_source (V4 10 0 0 1) (V4 10 0 0 2)"
  by (rule source_keys_collide_iff) simp_all

subsection \<open>Signed actions\<close>

text \<open>C15: A signed wallet action is accepted only within 300 seconds of its timestamp and
  only if the signature verifies under the caller's key over the hash of the
  one message of this action; and two actions with the same message have the
  same name, key, nym, fields and timestamp, so a signature cannot be moved to
  another action, provided no component contains the NUL separator.\<close>
theorem signed_action_is_specific:
  assumes "verify_la_v2 c now action npub nym payload ts signature = Inr ()"
    and "nul_free action" "nul_free npub" "nul_free nym" "list_all nul_free payload"
  shows "abs_diff now ts \<le> 300
    \<and> (\<exists>pk sg. sg_pubkey c npub = Some pk \<and> sg_signature c signature = Some sg
        \<and> sg_verify c sg (sg_sha256 c (build_la_v2_message action npub nym payload ts)) pk)
    \<and> (\<forall>action' npub' nym' payload' ts'.
        nul_free action' \<and> nul_free npub' \<and> nul_free nym' \<and> list_all nul_free payload'
        \<and> build_la_v2_message action' npub' nym' payload' ts' = build_la_v2_message action npub nym payload ts
        \<longrightarrow> (action', npub', nym', payload', ts') = (action, npub, nym, payload, ts))"
proof (intro conjI allI impI)
  show "abs_diff now ts \<le> 300"
    using assms(1) by (auto simp: verify_la_v2_def check_ts_freshness_def la_auth_ts_window_secs_def split: if_splits)
  show "\<exists>pk sg. sg_pubkey c npub = Some pk \<and> sg_signature c signature = Some sg
      \<and> sg_verify c sg (sg_sha256 c (build_la_v2_message action npub nym payload ts)) pk"
    using assms(1)
    by (auto simp: verify_la_v2_def check_ts_freshness_def verify_signature_def split: if_splits option.splits)
  fix action' npub' nym' payload' ts'
  assume "nul_free action' \<and> nul_free npub' \<and> nul_free nym' \<and> list_all nul_free payload'
    \<and> build_la_v2_message action' npub' nym' payload' ts' = build_la_v2_message action npub nym payload ts"
  then show "(action', npub', nym', payload', ts') = (action, npub, nym, payload, ts)"
    using assms(2-5) by (auto simp: list_all_iff dest: build_injective)
qed

definition demo_sig :: "(string, string) sig_scheme" where
  "demo_sig = \<lparr>sg_pubkey = Some, sg_sha256 = rev, sg_signature = Some, sg_verify = (\<lambda>s d p. s = p @ d)\<rparr>"

lemma signed_action_is_specific_witness:
  "abs_diff 1000 900 \<le> 300
   \<and> build_la_v2_message ''invoice-create'' ''ab'' ''alice'' [''5''] 900
      \<noteq> build_la_v2_message ''invoice-cancel'' ''ab'' ''alice'' [''5''] 900"
proof -
  let ?sig = "''ab'' @ rev (build_la_v2_message ''invoice-create'' ''ab'' ''alice'' [''5''] 900)"
  have v: "verify_la_v2 demo_sig 1000 ''invoice-create'' ''ab'' ''alice'' [''5''] 900 ?sig = Inr ()"
    by (simp add: verify_la_v2_def check_ts_freshness_def abs_diff_def la_auth_ts_window_secs_def
        verify_signature_def demo_sig_def)
  have f: "nul_free ''invoice-create''" "nul_free ''ab''" "nul_free ''alice''" "list_all nul_free [''5'']"
    "nul_free ''invoice-cancel''"
    by (simp_all add: nul_free_def nul_def)
  note accepted = signed_action_is_specific[OF v f(1-4)]
  have "build_la_v2_message ''invoice-cancel'' ''ab'' ''alice'' [''5''] 900
      \<noteq> build_la_v2_message ''invoice-create'' ''ab'' ''alice'' [''5''] 900"
  proof
    assume same: "build_la_v2_message ''invoice-cancel'' ''ab'' ''alice'' [''5''] 900
      = build_la_v2_message ''invoice-create'' ''ab'' ''alice'' [''5''] 900"
    have "(''invoice-cancel'', ''ab'', ''alice'', [''5''], 900 :: nat) = (''invoice-create'', ''ab'', ''alice'', [''5''], 900)"
      by (rule accepted[THEN conjunct2, THEN conjunct2, rule_format]) (intro conjI f same)
    then show False by simp
  qed
  then show ?thesis using accepted[THEN conjunct1] by (simp only: eq_commute simp_thms)
qed

end
