(* ===== verification/BitcoinWatcher.thy ===== *)
theory BitcoinWatcher
  imports InvoiceLifecycle RateLimit
begin

text \<open>
  The on-chain Bitcoin watcher: src/src/bitcoin_watcher.rs.  What the
  mempool.space API answers is an argument, one reply per request; the process
  and database clocks are read once per invoice.  Tokio's ticking, logging and
  the shutdown race are not modelled beyond the cancellation flag read before
  every invoice.
\<close>

record invoice_for_btc_poll =
  bp_id :: uuid
  bp_bitcoin_address :: string
  bp_amount_sat :: sat

record mempool_vout =
  mv_scriptpubkey_address :: "string option"
  mv_value :: int

record mempool_tx =
  mt_txid :: string
  mt_vout :: "mempool_vout list"
  mt_confirmed :: bool
  mt_block_height :: "nat option"

record bitcoin_watcher_config =
  bw_confirmations_required :: nat
  bw_active_window_secs :: int

text \<open>A request fails to be sent, or answers with a status and a body that may not decode.\<close>
datatype 'b http_reply = Request_failed | Replied nat "'b option"

definition http_success :: "nat \<Rightarrow> bool" where
  "http_success status \<longleftrightarrow> 200 \<le> status \<and> status < 300"

subsection \<open>Reading the chain\<close>

fun parse_digits :: "nat \<Rightarrow> string \<Rightarrow> nat option" where
  "parse_digits acc [] = Some acc"
| "parse_digits acc (ch # s) =
    (if digit ch then
       (let n = 10 * acc + (of_char ch - 48) in if u32_max < n then None else parse_digits n s)
     else None)"

text \<open>\<open>str::parse::<u32>\<close>: a leading plus is allowed.\<close>
definition parse_u32 :: "string \<Rightarrow> nat option" where
  "parse_u32 s = (let t = (case s of ch # r \<Rightarrow> if ch = CHR ''+'' then r else s | [] \<Rightarrow> s)
     in if t = [] then None else parse_digits 0 t)"

definition fetch_tip_height :: "string http_reply \<Rightarrow> nat option" where
  "fetch_tip_height reply =
    (case reply of
       Request_failed \<Rightarrow> None
     | Replied status body \<Rightarrow>
        if \<not> http_success status then None
        else (case body of None \<Rightarrow> None | Some b \<Rightarrow> parse_u32 (trim b)))"

record btc_observation =
  bo_event_key :: string
  bo_txid :: string
  bo_vout :: int
  bo_amount_sat :: int
  bo_confirmations :: nat
  bo_block_height :: "nat option"
  bo_last_seen_state :: string

text \<open>\<open>tip.saturating_sub(height).saturating_add(1)\<close> on u32.\<close>
definition confirmations_at :: "nat \<Rightarrow> nat \<Rightarrow> nat" where
  "confirmations_at tip height = min u32_max ((tip - height) + 1)"

definition bitcoin_direct_observations_for_tx ::
  "mempool_tx \<Rightarrow> string \<Rightarrow> nat \<Rightarrow> nat \<Rightarrow> btc_observation list" where
  "bitcoin_direct_observations_for_tx tx address tip confirmations_required =
    (let observe = (\<lambda>(confs, height, state).
           concat (map (\<lambda>(vout, out).
             if mv_scriptpubkey_address out \<noteq> Some address \<or> mv_value out = 0 then []
             else if i32_max < int vout then []
             else [\<lparr>bo_event_key = bitcoin_direct_key (mt_txid tx) (int vout), bo_txid = mt_txid tx,
                    bo_vout = int vout, bo_amount_sat = mv_value out, bo_confirmations = confs,
                    bo_block_height = height, bo_last_seen_state = state\<rparr>])
             (enumerate 0 (mt_vout tx))))
     in if mt_confirmed tx then
          (case mt_block_height tx of
             None \<Rightarrow> []
           | Some height \<Rightarrow>
              (let confs = confirmations_at tip height
               in observe (confs, Some height,
                    if confirmations_required \<le> confs then ''counted'' else ''awaiting_confirmations'')))
        else observe (0, None, ''seen_unconfirmed''))"

subsection \<open>One invoice\<close>

text \<open>\<open>u64 as i64\<close>.\<close>
definition as_i64 :: "int \<Rightarrow> int" where
  "as_i64 x = (x + 9223372036854775808) mod 18446744073709551616 - 9223372036854775808"

definition upsert_bitcoin_observation ::
  "timestamp \<Rightarrow> invoice_for_btc_poll \<Rightarrow> btc_observation \<Rightarrow> invoice_store \<Rightarrow> invoice_store" where
  "upsert_bitcoin_observation now iv ob s =
    (case upsert_invoice_payment_observation now (bp_id iv)
       \<lparr>no_rail = ''bitcoin'', no_source = ''bitcoin_direct'', no_event_key = bo_event_key ob,
        no_txid = bo_txid ob, no_vout = bo_vout ob, no_address = bp_bitcoin_address iv,
        no_amount_sat = as_i64 (bo_amount_sat ob), no_confirmations = as_i32 (int (bo_confirmations ob)),
        no_block_height = map_option (\<lambda>h. as_i32 (int h)) (bo_block_height ob),
        no_last_seen_state = bo_last_seen_state ob\<rparr> (is_observations s) of
       Inl e \<Rightarrow> s
     | Inr (n, pos) \<Rightarrow> s\<lparr>is_observations := pos\<rparr>)"

definition btc_evidence :: "invoice_for_btc_poll \<Rightarrow> string \<Rightarrow> int \<Rightarrow> int \<Rightarrow> evidence" where
  "btc_evidence iv txid received vout =
    \<lparr>ev_rail = ''bitcoin'', ev_source = ''bitcoin_direct'', ev_event_key = bitcoin_direct_key txid vout,
     ev_amount_sat = as_i64 received, ev_txid = Some txid, ev_vout = Some vout, ev_boltz_swap_id = None,
     ev_address = Some (bp_bitcoin_address iv)\<rparr>"

definition record_confirmed_output ::
  "timestamp \<Rightarrow> int \<Rightarrow> tolerances \<Rightarrow> invoice_for_btc_poll \<Rightarrow> string \<Rightarrow> int \<Rightarrow> int \<Rightarrow> invoice_store
    \<Rightarrow> bool \<times> invoice_store" where
  "record_confirmed_output now unow tol iv txid received vout s =
    (if i32_max < vout then (False, s)
     else case record_invoice_payment now unow (bp_id iv) (btc_evidence iv txid received vout) tol s of
       Inl e \<Rightarrow> (False, s)
     | Inr (n, s') \<Rightarrow>
        (if 0 < n then True
         else invoice_payment_event_exists (bp_id iv) (bitcoin_direct_key txid vout) (is_events s'), s'))"

definition observe_output ::
  "timestamp \<Rightarrow> int \<Rightarrow> tolerances \<Rightarrow> invoice_for_btc_poll \<Rightarrow> btc_observation
    \<Rightarrow> invoice_store \<times> bool \<times> string list \<Rightarrow> invoice_store \<times> bool \<times> string list" where
  "observe_output now unow tol iv ob st =
    (case st of (s, saw_mempool, seen) \<Rightarrow>
      (let seen' = seen @ [bo_event_key ob] in
       if bo_last_seen_state ob = ''counted'' then
         (case record_confirmed_output now unow tol iv (bo_txid ob) (bo_amount_sat ob) (bo_vout ob) s of
            (ok, s') \<Rightarrow> (if ok then upsert_bitcoin_observation now iv ob s' else s', saw_mempool, seen'))
       else (upsert_bitcoin_observation now iv ob s, True, seen')))"

definition mark_mempool_seen :: "uuid \<Rightarrow> invoice_store \<Rightarrow> invoice_store" where
  "mark_mempool_seen iid s =
    (case mark_invoice_in_progress iid (is_invoices s) of
       (invs, rows) \<Rightarrow>
         if 0 < rows then s\<lparr>is_invoices := invs\<rparr>
         else (case mark_invoice_settlement_status (Some iid) ''pending'' invs of
                 Inl e \<Rightarrow> s\<lparr>is_invoices := invs\<rparr>
               | Inr (invs', n) \<Rightarrow> s\<lparr>is_invoices := invs'\<rparr>))"

definition check_invoice ::
  "bitcoin_watcher_config \<Rightarrow> tolerances \<Rightarrow> timestamp \<Rightarrow> int \<Rightarrow> invoice_for_btc_poll \<Rightarrow> nat
    \<Rightarrow> mempool_tx list http_reply \<Rightarrow> invoice_store \<Rightarrow> invoice_store" where
  "check_invoice cfg tol now unow iv tip reply s =
    (case reply of
       Request_failed \<Rightarrow> s
     | Replied status body \<Rightarrow>
        if status = 429 then s
        else if status = 404 \<or> status = 400 then s
        else if \<not> http_success status then s
        else (case body of
            None \<Rightarrow> s
          | Some txs \<Rightarrow>
             (let obs = concat (map (\<lambda>tx. bitcoin_direct_observations_for_tx tx (bp_bitcoin_address iv) tip
                           (bw_confirmations_required cfg)) txs);
                  (s1, saw_mempool, seen) = fold (observe_output now unow tol iv) obs (s, False, []);
                  s2 = s1\<lparr>is_observations := fst (mark_missing_bitcoin_payment_observations_not_seen now
                          (bp_id iv) seen (is_observations s1))\<rparr>
              in if saw_mempool then mark_mempool_seen (bp_id iv) s2 else s2)))"

subsection \<open>One tick\<close>

definition watchable_bitcoin :: "bool \<Rightarrow> int \<Rightarrow> timestamp \<Rightarrow> invoice \<Rightarrow> bool" where
  "watchable_bitcoin is_active window now i \<longleftrightarrow>
     inv_status i \<in> {Unpaid, In_progress, Partially_paid} \<and> inv_accept_btc i
     \<and> inv_bitcoin_address i \<noteq> None
     \<and> (if is_active then now - secs window < inv_created_at i else inv_created_at i \<le> now - secs window)
     \<and> now < inv_expires_at i"

definition fetch_invoices :: "bool \<Rightarrow> int \<Rightarrow> timestamp \<Rightarrow> invoice list \<Rightarrow> invoice_for_btc_poll list" where
  "fetch_invoices is_active window now invs =
    take 1000 (map (\<lambda>i. \<lparr>bp_id = inv_id i, bp_bitcoin_address = the (inv_bitcoin_address i),
        bp_amount_sat = max (inv_amount_sat i - (case inv_paid_amount_sat i of None \<Rightarrow> 0 | Some p \<Rightarrow> p)) 0\<rparr>)
      (sort_desc inv_created_at (filter (watchable_bitcoin is_active window now) invs)))"

text \<open>What the loop meets at its \<open>k\<close>-th invoice.\<close>
record btc_round =
  br_cancelled :: bool
  br_instant :: int
  br_now :: timestamp
  br_unow :: int
  br_reply :: "mempool_tx list http_reply"

fun poll_invoices ::
  "bitcoin_watcher_config \<Rightarrow> tolerances \<Rightarrow> nat \<Rightarrow> (nat \<Rightarrow> btc_round) \<Rightarrow> nat
    \<Rightarrow> invoice_for_btc_poll list \<Rightarrow> token_bucket \<Rightarrow> invoice_store \<Rightarrow> token_bucket \<times> invoice_store" where
  "poll_invoices cfg tol tip env k [] b s = (b, s)"
| "poll_invoices cfg tol tip env k (iv # ivs) b s =
    (if br_cancelled (env k) then (b, s)
     else case try_consume (br_instant (env k)) b of
       (ok, b') \<Rightarrow>
         if \<not> ok then (b', s)
         else poll_invoices cfg tol tip env (Suc k) ivs b'
                (check_invoice cfg tol (br_now (env k)) (br_unow (env k)) iv tip (br_reply (env k)) s))"

definition btc_poll_tier ::
  "bitcoin_watcher_config \<Rightarrow> tolerances \<Rightarrow> bool \<Rightarrow> timestamp \<Rightarrow> string http_reply \<Rightarrow> (nat \<Rightarrow> btc_round)
    \<Rightarrow> token_bucket \<Rightarrow> invoice_store \<Rightarrow> token_bucket \<times> invoice_store" where
  "btc_poll_tier cfg tol is_active now tip_reply env b s =
    (let ivs = fetch_invoices is_active (bw_active_window_secs cfg) now (is_invoices s) in
     if ivs = [] then (b, s)
     else case fetch_tip_height tip_reply of
       None \<Rightarrow> (b, s)
     | Some tip \<Rightarrow> poll_invoices cfg tol tip env 0 ivs b s)"

subsection \<open>Every tick is a run of ledger operations\<close>

text \<open>What a watcher may do to the store: a run of ledger operations that credits
  only evidence satisfying \<open>P\<close>.\<close>
inductive watched :: "(uuid \<Rightarrow> evidence \<Rightarrow> bool) \<Rightarrow> invoice_store \<Rightarrow> invoice_store \<Rightarrow> bool"
  for P :: "uuid \<Rightarrow> evidence \<Rightarrow> bool" where
  w_refl: "watched P s s"
| w_quiet: "watched P s t \<Longrightarrow> ledger_step t u \<Longrightarrow> is_events u = is_events t \<Longrightarrow> watched P s u"
| w_credit: "watched P s t \<Longrightarrow> record_invoice_payment now unow iid e tol t = Inr (n, u) \<Longrightarrow> P iid e
    \<Longrightarrow> watched P s u"

lemma watched_trans: "watched P t u \<Longrightarrow> watched P s t \<Longrightarrow> watched P s u"
  by (induction rule: watched.induct) (auto intro: watched.intros)

lemma watched_mono: "watched P s t \<Longrightarrow> (\<And>iid e. P iid e \<Longrightarrow> Q iid e) \<Longrightarrow> watched Q s t"
  by (induction rule: watched.induct) (auto intro: watched.intros)

lemma watched_run: "watched P s t \<Longrightarrow> ledger_step\<^sup>*\<^sup>* s t"
  by (induction rule: watched.induct) (auto intro: rtranclp.rtrancl_into_rtrancl ls_record)

lemma w_step: "ledger_step s t \<Longrightarrow> is_events t = is_events s \<Longrightarrow> watched P s t"
  by (rule w_quiet[OF w_refl])

lemma credit_new_event:
  assumes "record_invoice_payment now unow iid e tol s = Inr (n, s')" "p \<in> set (is_events s')" "p \<notin> set (is_events s)"
  shows "p = event_of_evidence now iid e \<and> validate_evidence e = Inr ()"
  using assms(1)
proof (cases rule: record_cases)
  case (credited row kept pruned evs inserted)
  have "p \<notin> set kept"
    using assms(3) prune_subset[of iid e "is_events s"] credited(6) by auto
  then show ?thesis
    using assms(2) credited(1,7,11) by (auto simp: insert_event_def split: if_splits)
qed (use assms in simp)

lemma watched_new_event:
  assumes "watched P s t" "p \<in> set (is_events t)" "p \<notin> set (is_events s)"
  shows "\<exists>now iid e. p = event_of_evidence now iid e \<and> P iid e \<and> validate_evidence e = Inr ()"
  using assms
proof (induction rule: watched.induct)
  case (w_quiet s t u)
  then show ?case by simp
next
  case (w_credit s t now unow iid e tol n u)
  then show ?case using credit_new_event[OF w_credit(2)] by blast
qed simp

lemma upsert_watched: "watched P s (upsert_bitcoin_observation now iv ob s)"
  unfolding upsert_bitcoin_observation_def
  by (auto split: sum.splits intro!: w_step ls_observe w_refl)

lemma confirmed_output_watched:
  assumes "record_confirmed_output now unow tol iv txid received vout s = (ok, s')"
    and "P (bp_id iv) (btc_evidence iv txid received vout)"
  shows "watched P s s'"
  using assms by (auto simp: record_confirmed_output_def split: if_splits sum.splits intro: w_refl w_credit[OF w_refl])

lemma observe_output_watched:
  assumes "observe_output now unow tol iv ob (s, saw, seen) = (s', saw', seen')"
    and "bo_last_seen_state ob = ''counted'' \<Longrightarrow> P (bp_id iv) (btc_evidence iv (bo_txid ob) (bo_amount_sat ob) (bo_vout ob))"
  shows "watched P s s'"
proof (cases "bo_last_seen_state ob = ''counted''")
  case True
  obtain ok t where t: "record_confirmed_output now unow tol iv (bo_txid ob) (bo_amount_sat ob) (bo_vout ob) s = (ok, t)"
    by fastforce
  then have "watched P s t" using confirmed_output_watched assms(2) True by blast
  then show ?thesis
    using assms(1) True t upsert_watched[of P t now iv ob] watched_trans
    by (auto simp: observe_output_def Let_def split: if_splits)
next
  case False
  then show ?thesis using assms(1) upsert_watched by (auto simp: observe_output_def Let_def)
qed

lemma observe_all_watched:
  assumes "fold (observe_output now unow tol iv) obs (s, saw, seen) = (s', saw', seen')"
    and "\<And>ob. ob \<in> set obs \<Longrightarrow> bo_last_seen_state ob = ''counted''
      \<Longrightarrow> P (bp_id iv) (btc_evidence iv (bo_txid ob) (bo_amount_sat ob) (bo_vout ob))"
  shows "watched P s s'"
  using assms
proof (induction obs arbitrary: s saw seen)
  case Nil
  then show ?case by (simp add: w_refl)
next
  case (Cons ob obs)
  obtain t saw1 seen1 where t: "observe_output now unow tol iv ob (s, saw, seen) = (t, saw1, seen1)"
    by (metis prod_cases3)
  have "watched P s t" using observe_output_watched[OF t] Cons.prems(2) by simp
  moreover have "watched P t s'" using Cons.IH[of t saw1 seen1] Cons.prems t by simp
  ultimately show ?case using watched_trans by blast
qed

lemma mempool_seen_watched: "watched P s (mark_mempool_seen iid s)"
proof -
  let ?t = "s\<lparr>is_invoices := fst (mark_invoice_in_progress iid (is_invoices s))\<rparr>"
  have t: "watched P s ?t" by (rule w_step[OF ls_progress]) simp
  obtain invs rows where m: "mark_invoice_in_progress iid (is_invoices s) = (invs, rows)" by fastforce
  show ?thesis
  proof (cases "0 < rows")
    case True
    then show ?thesis using t m by (simp add: mark_mempool_seen_def)
  next
    case False
    show ?thesis
    proof (cases "mark_invoice_settlement_status (Some iid) ''pending'' invs")
      case (Inl e)
      then show ?thesis using t m False by (simp add: mark_mempool_seen_def)
    next
      case (Inr r)
      obtain invs' n where r: "r = (invs', n)" by fastforce
      have "ledger_step ?t (?t\<lparr>is_invoices := invs'\<rparr>)"
        using Inr r m by (intro ls_settlement[where oid = "Some iid" and st = "''pending''" and n = n]) simp
      then have "watched P s (?t\<lparr>is_invoices := invs'\<rparr>)" by (rule w_quiet[OF t]) simp
      then show ?thesis using Inr r m False by (simp add: mark_mempool_seen_def)
    qed
  qed
qed

text \<open>What an invoice check may credit: an output of a transaction the API
  reported, to the invoice's address, deep enough in the chain.\<close>
definition deep_output :: "bitcoin_watcher_config \<Rightarrow> nat \<Rightarrow> mempool_tx list \<Rightarrow> evidence \<Rightarrow> bool" where
  "deep_output cfg tip txs e \<longleftrightarrow> (\<exists>tx vout out height. tx \<in> set txs \<and> vout < length (mt_vout tx) \<and> out = mt_vout tx ! vout
     \<and> mv_scriptpubkey_address out = ev_address e \<and> ev_amount_sat e = as_i64 (mv_value out)
     \<and> mt_confirmed tx \<and> mt_block_height tx = Some height
     \<and> bw_confirmations_required cfg \<le> confirmations_at tip height
     \<and> ev_txid e = Some (mt_txid tx) \<and> ev_vout e = Some (int vout)
     \<and> ev_event_key e = bitcoin_direct_key (mt_txid tx) (int vout))"

lemma counted_is_deep:
  assumes "ob \<in> set (bitcoin_direct_observations_for_tx tx addr tip req)" "bo_last_seen_state ob = ''counted''"
  obtains vout height where "vout < length (mt_vout tx)" "mv_scriptpubkey_address (mt_vout tx ! vout) = Some addr"
    "mt_confirmed tx" "mt_block_height tx = Some height" "req \<le> confirmations_at tip height"
    "bo_txid ob = mt_txid tx" "bo_vout ob = int vout" "bo_amount_sat ob = mv_value (mt_vout tx ! vout)"
proof -
  have "\<exists>vout height. vout < length (mt_vout tx) \<and> mv_scriptpubkey_address (mt_vout tx ! vout) = Some addr
    \<and> mt_confirmed tx \<and> mt_block_height tx = Some height \<and> req \<le> confirmations_at tip height
    \<and> bo_txid ob = mt_txid tx \<and> bo_vout ob = int vout \<and> bo_amount_sat ob = mv_value (mt_vout tx ! vout)"
    using assms
    by (cases "mt_block_height tx")
      (auto simp: bitcoin_direct_observations_for_tx_def Let_def in_set_enumerate_eq split: if_splits)
  then show ?thesis using that by blast
qed

lemma reported_output_is_deep:
  assumes "ob \<in> set (concat (map (\<lambda>tx. bitcoin_direct_observations_for_tx tx (bp_bitcoin_address iv) tip
      (bw_confirmations_required cfg)) txs))"
    and "bo_last_seen_state ob = ''counted''"
  shows "deep_output cfg tip txs (btc_evidence iv (bo_txid ob) (bo_amount_sat ob) (bo_vout ob))"
proof -
  obtain tx where tx: "tx \<in> set txs" "ob \<in> set (bitcoin_direct_observations_for_tx tx (bp_bitcoin_address iv) tip
      (bw_confirmations_required cfg))"
    using assms(1) by auto
  show ?thesis
    by (rule counted_is_deep[OF tx(2) assms(2)])
      (use tx(1) in \<open>auto simp: deep_output_def btc_evidence_def intro!: bexI\<close>)
qed

definition btc_credit_ok ::
  "bitcoin_watcher_config \<Rightarrow> nat \<Rightarrow> mempool_tx list http_reply \<Rightarrow> invoice_for_btc_poll \<Rightarrow> uuid \<Rightarrow> evidence \<Rightarrow> bool" where
  "btc_credit_ok cfg tip reply iv iid e \<longleftrightarrow> iid = bp_id iv \<and> ev_source e = ''bitcoin_direct''
     \<and> ev_address e = Some (bp_bitcoin_address iv)
     \<and> (\<exists>status txs. reply = Replied status (Some txs) \<and> deep_output cfg tip txs e)"

lemma check_invoice_watched:
  "watched (btc_credit_ok cfg tip reply iv) s (check_invoice cfg tol now unow iv tip reply s)"
proof (cases "\<exists>status txs. reply = Replied status (Some txs) \<and> http_success status")
  case False
  then have "check_invoice cfg tol now unow iv tip reply s = s"
    by (auto simp: check_invoice_def split: http_reply.splits option.splits)
  then show ?thesis by (simp add: w_refl)
next
  case True
  then obtain status txs where r: "reply = Replied status (Some txs)" "http_success status" by blast
  let ?P = "btc_credit_ok cfg tip reply iv"
  let ?obs = "concat (map (\<lambda>tx. bitcoin_direct_observations_for_tx tx (bp_bitcoin_address iv) tip
      (bw_confirmations_required cfg)) txs)"
  obtain s1 saw seen where f: "fold (observe_output now unow tol iv) ?obs (s, False, []) = (s1, saw, seen)"
    by (metis prod_cases3)
  have one: "watched ?P s s1"
    by (rule observe_all_watched[OF f])
      (use r reported_output_is_deep in \<open>auto simp: btc_credit_ok_def btc_evidence_def\<close>)
  define s2 where "s2 = s1\<lparr>is_observations := fst (mark_missing_bitcoin_payment_observations_not_seen now
      (bp_id iv) seen (is_observations s1))\<rparr>"
  have two: "watched ?P s s2"
    unfolding s2_def by (rule w_quiet[OF one ls_missing]) simp
  have three: "watched ?P s (mark_mempool_seen (bp_id iv) s2)"
    using watched_trans[OF mempool_seen_watched two] .
  have "check_invoice cfg tol now unow iv tip reply s = (if saw then mark_mempool_seen (bp_id iv) s2 else s2)"
    using r by (simp add: check_invoice_def f s2_def http_success_def del: map_concat)
  then show ?thesis using two three by simp
qed

text \<open>What a whole tick may credit: an output reported for an invoice of the
  tick's selection.\<close>
definition tick_credit_ok ::
  "bitcoin_watcher_config \<Rightarrow> nat \<Rightarrow> (nat \<Rightarrow> btc_round) \<Rightarrow> invoice_for_btc_poll list \<Rightarrow> uuid \<Rightarrow> evidence \<Rightarrow> bool" where
  "tick_credit_ok cfg tip env ivs iid e \<longleftrightarrow>
     (\<exists>iv k. iv \<in> set ivs \<and> btc_credit_ok cfg tip (br_reply (env k)) iv iid e)"

lemma poll_invoices_watched:
  "poll_invoices cfg tol tip env k ivs b s = (b', s') \<Longrightarrow> watched (tick_credit_ok cfg tip env ivs) s s'"
proof (induction ivs arbitrary: k b s)
  case (Cons iv ivs)
  show ?case
  proof (cases "\<not> br_cancelled (env k) \<and> fst (try_consume (br_instant (env k)) b)")
    case False
    then show ?thesis using Cons.prems by (auto simp: w_refl split: if_splits prod.splits)
  next
    case True
    let ?t = "check_invoice cfg tol (br_now (env k)) (br_unow (env k)) iv tip (br_reply (env k)) s"
    obtain b1 where b1: "try_consume (br_instant (env k)) b = (True, b1)"
      using True by (metis (full_types) prod.collapse)
    have "poll_invoices cfg tol tip env (Suc k) ivs b1 ?t = (b', s')"
      using Cons.prems True b1 by simp
    from watched_mono[OF Cons.IH[OF this], of "tick_credit_ok cfg tip env (iv # ivs)"]
    have "watched (tick_credit_ok cfg tip env (iv # ivs)) ?t s'" by (auto simp: tick_credit_ok_def)
    moreover have "watched (tick_credit_ok cfg tip env (iv # ivs)) s ?t"
      by (rule watched_mono[OF check_invoice_watched]) (auto simp: tick_credit_ok_def)
    ultimately show ?thesis using watched_trans by blast
  qed
qed (simp add: w_refl)

lemma poll_tier_watched:
  assumes "btc_poll_tier cfg tol act now tip_reply env b s = (b', s')"
  obtains (still) "s' = s"
  | (polled) tip where "fetch_tip_height tip_reply = Some tip"
      "watched (tick_credit_ok cfg tip env (fetch_invoices act (bw_active_window_secs cfg) now (is_invoices s))) s s'"
proof (cases "fetch_tip_height tip_reply")
  case None
  then show ?thesis using assms still by (auto simp: btc_poll_tier_def Let_def split: if_splits)
next
  case (Some tip)
  show ?thesis
    by (rule polled[OF Some]) (use assms Some in \<open>auto simp: btc_poll_tier_def Let_def w_refl
      intro: poll_invoices_watched split: if_splits\<close>)
qed

lemma fetched_is_watchable:
  assumes "iv \<in> set (fetch_invoices act window now invs)"
  shows "\<exists>i\<in>set invs. watchable_bitcoin act window now i \<and> bp_id iv = inv_id i
    \<and> inv_bitcoin_address i = Some (bp_bitcoin_address iv)"
proof -
  obtain i where i: "i \<in> set invs" "watchable_bitcoin act window now i" "bp_id iv = inv_id i"
    "bp_bitcoin_address iv = the (inv_bitcoin_address i)"
    using assms unfolding fetch_invoices_def by (auto dest!: in_set_takeD simp: sort_desc_def)
  from i(2) have "inv_bitcoin_address i \<noteq> None" by (simp add: watchable_bitcoin_def)
  with i show ?thesis by auto
qed

text \<open>A run credits no invoice outside \<open>P\<close>.\<close>
lemma record_events_of_other:
  assumes "record_invoice_payment now unow iid e tol s = Inr (n, s')" "iid' \<noteq> iid"
  shows "events_of iid' (is_events s') = events_of iid' (is_events s)"
  using assms(1)
proof (cases rule: record_cases)
  case (credited row kept pruned evs inserted)
  have "kept = fst (prune_direct_rows iid e (is_events s))" "evs = fst (insert_event now iid e kept)"
    using credited(6,7) by simp_all
  then show ?thesis
    using credited(11) prune_other[OF assms(2)] insert_event_other[OF assms(2)] by simp
qed simp

lemma watched_events_of:
  assumes "watched P s t" "\<And>e. \<not> P iid e"
  shows "events_of iid (is_events t) = events_of iid (is_events s)"
  using assms
proof (induction rule: watched.induct)
  case (w_credit s t now unow iid' e tol n u)
  then have "iid \<noteq> iid'" by blast
  then show ?case using record_events_of_other[OF w_credit(2)] w_credit by simp
qed simp_all

end
