(* ===== verification/ChainWatcher.thy ===== *)
theory ChainWatcher
  imports BitcoinWatcher
begin

text \<open>
  The Liquid chain watcher: src/src/chain_watcher.rs.  One tick scans the
  lookahead window of every listed nym and then the addresses of open
  invoices.  The Electrum backend, the transaction codec, unblinding and
  descriptor derivation are arguments, asked afresh at every step of a scan;
  Tokio's ticking and the logging are not modelled.
\<close>

datatype lbtc_asset = Liquid_btc | Other_asset string

record ('script, 'out) liquid_chain =
  lc_address_script :: "string \<Rightarrow> string + 'script"
  lc_derive_script :: "string \<Rightarrow> nat \<Rightarrow> app_error + 'script"
  lc_secret_key :: "string \<Rightarrow> string + string"
  lc_history_txids :: "'script \<Rightarrow> app_error + string list"
  lc_has_history :: "'script \<Rightarrow> app_error + bool"
  lc_get_raw_tx :: "string \<Rightarrow> app_error + string"
  lc_decode_outputs :: "string \<Rightarrow> string + 'out list"
  lc_out_script :: "'out \<Rightarrow> 'script"
  lc_unblind :: "'out \<Rightarrow> string \<Rightarrow> string + (lbtc_asset \<times> nat)"

subsection \<open>Invoice addresses\<close>

definition liquid_direct_key :: "string \<Rightarrow> nat \<Rightarrow> string" where
  "liquid_direct_key txid vout = ''liquid_direct:'' @ txid @ '':'' @ show_nat vout"

definition liquid_evidence :: "string \<Rightarrow> string \<Rightarrow> nat \<Rightarrow> int \<Rightarrow> evidence" where
  "liquid_evidence address txid vout amount =
    \<lparr>ev_rail = ''liquid'', ev_source = ''liquid_direct'', ev_event_key = liquid_direct_key txid vout,
     ev_amount_sat = amount, ev_txid = Some txid, ev_vout = Some (int vout), ev_boltz_swap_id = None,
     ev_address = Some address\<rparr>"

text \<open>The output loop: an output of another script, one that does not unblind and one of
  another asset are skipped; a value or index out of range ends the scan.\<close>
fun scan_outputs ::
  "('script, 'out) liquid_chain \<Rightarrow> tolerances \<Rightarrow> timestamp \<Rightarrow> int \<Rightarrow> uuid \<Rightarrow> string \<Rightarrow> 'script \<Rightarrow> string
    \<Rightarrow> string \<Rightarrow> (nat \<times> 'out) list \<Rightarrow> nat \<Rightarrow> invoice_store \<Rightarrow> (app_error + nat) \<times> invoice_store" where
  "scan_outputs lc tol now unow iid addr script key txid [] n s = (Inr n, s)"
| "scan_outputs lc tol now unow iid addr script key txid ((vout, out) # outs) n s =
    (if lc_out_script lc out \<noteq> script then scan_outputs lc tol now unow iid addr script key txid outs n s
     else case lc_unblind lc out key of
       Inl e \<Rightarrow> scan_outputs lc tol now unow iid addr script key txid outs n s
     | Inr (asset, value) \<Rightarrow>
        if asset \<noteq> Liquid_btc then scan_outputs lc tol now unow iid addr script key txid outs n s
        else if i64_max < int value then (Inl (InvalidAmount ''Liquid output amount overflow''), s)
        else if i32_max < int vout then (Inl (InvalidAmount ''Liquid output vout overflow''), s)
        else (case record_invoice_payment now unow iid (liquid_evidence addr txid vout (int value)) tol s of
                Inl e \<Rightarrow> scan_outputs lc tol now unow iid addr script key txid outs n s
              | Inr (rows, s') \<Rightarrow>
                  scan_outputs lc tol now unow iid addr script key txid outs (if 0 < rows then n + 1 else n) s'))"

fun scan_txids ::
  "('script, 'out) liquid_chain \<Rightarrow> tolerances \<Rightarrow> timestamp \<Rightarrow> int \<Rightarrow> uuid \<Rightarrow> string \<Rightarrow> 'script \<Rightarrow> string
    \<Rightarrow> string list \<Rightarrow> nat \<Rightarrow> invoice_store \<Rightarrow> (app_error + nat) \<times> invoice_store" where
  "scan_txids lc tol now unow iid addr script key [] n s = (Inr n, s)"
| "scan_txids lc tol now unow iid addr script key (txid # txids) n s =
    (case lc_get_raw_tx lc txid of
       Inl e \<Rightarrow> (Inl e, s)
     | Inr raw \<Rightarrow>
        (case lc_decode_outputs lc raw of
           Inl e \<Rightarrow> (Inl (ElectrumError (''liquid tx decode: '' @ e)), s)
         | Inr outs \<Rightarrow>
            (case scan_outputs lc tol now unow iid addr script key txid (enumerate 0 outs) n s of
               (Inl e, s') \<Rightarrow> (Inl e, s')
             | (Inr n', s') \<Rightarrow> scan_txids lc tol now unow iid addr script key txids n' s')))"

definition record_liquid_events_for_script ::
  "('script, 'out) liquid_chain \<Rightarrow> tolerances \<Rightarrow> timestamp \<Rightarrow> int \<Rightarrow> uuid \<Rightarrow> string \<Rightarrow> 'script \<Rightarrow> string
    \<Rightarrow> invoice_store \<Rightarrow> (app_error + nat) \<times> invoice_store" where
  "record_liquid_events_for_script lc tol now unow iid addr script blinding_key_hex s =
    (case lc_secret_key lc blinding_key_hex of
       Inl e \<Rightarrow> (Inl (InvalidAmount (''stored Liquid blinding key invalid: '' @ e)), s)
     | Inr key \<Rightarrow>
        (case lc_history_txids lc script of
           Inl e \<Rightarrow> (Inl e, s)
         | Inr txids \<Rightarrow> if txids = [] then (Inr 0, s)
             else scan_txids lc tol now unow iid addr script key txids 0 s))"

text \<open>What one step of a scan meets.\<close>
record ('script, 'out) scan_round =
  sr_cancelled :: bool
  sr_instant :: int
  sr_now :: timestamp
  sr_unow :: int
  sr_chain :: "('script, 'out) liquid_chain"

fun poll_addresses ::
  "tolerances \<Rightarrow> (nat \<Rightarrow> ('script, 'out) scan_round) \<Rightarrow> nat \<Rightarrow> (uuid \<times> string \<times> sat \<times> string) list
    \<Rightarrow> limiter \<Rightarrow> invoice_store \<Rightarrow> limiter \<times> invoice_store" where
  "poll_addresses tol env k [] l s = (l, s)"
| "poll_addresses tol env k ((iid, addr, remaining, key) # rest) l s =
    (let r = env k in
     if sr_cancelled r then (l, s)
     else case check_electrum_watcher (sr_instant r) l of
       (Inl e, l') \<Rightarrow> (l', s)
     | (Inr _, l') \<Rightarrow>
        (case lc_address_script (sr_chain r) addr of
           Inl e \<Rightarrow> poll_addresses tol env (Suc k) rest l' s
         | Inr script \<Rightarrow>
             poll_addresses tol env (Suc k) rest l'
               (snd (record_liquid_events_for_script (sr_chain r) tol (sr_now r) (sr_unow r) iid addr script key s))))"

definition poll_invoice_addresses ::
  "tolerances \<Rightarrow> (nat \<Rightarrow> ('script, 'out) scan_round) \<Rightarrow> timestamp \<Rightarrow> limiter \<Rightarrow> invoice_store
    \<Rightarrow> limiter \<times> invoice_store" where
  "poll_invoice_addresses tol env now l s =
    poll_addresses tol env 0 (list_unpaid_invoices_with_liquid_address now (is_invoices s)) l s"

subsection \<open>Nym cursors\<close>

text \<open>The offsets of one nym's window, from \<open>offset\<close>, \<open>left\<close> of them.\<close>
fun scan_window ::
  "(nat \<Rightarrow> ('script, 'out) scan_round) \<Rightarrow> string \<Rightarrow> string \<Rightarrow> nat \<Rightarrow> nat \<Rightarrow> nat \<Rightarrow> limiter \<Rightarrow> user_store
    \<Rightarrow> limiter \<times> user_store" where
  "scan_window env nym ct_descriptor base offset 0 l s = (l, s)"
| "scan_window env nym ct_descriptor base offset (Suc left) l s =
    (let idx = base + offset in
     if u32_max < idx then (l, s)
     else case lc_derive_script (sr_chain (env offset)) ct_descriptor idx of
       Inl e \<Rightarrow> (l, s)
     | Inr script \<Rightarrow>
        (case check_electrum_watcher (sr_instant (env offset)) l of
           (Inl e, l') \<Rightarrow> (l', s)
         | (Inr _, l') \<Rightarrow>
            (case lc_has_history (sr_chain (env offset)) script of
               Inr True \<Rightarrow> (l', s\<lparr>us_users := advance_next_addr_idx nym (int idx) (us_users s),
                                 us_outpoints := fst (mark_reservations_fulfilled_at_idx nym (int idx) (us_outpoints s))\<rparr>)
             | Inr False \<Rightarrow> scan_window env nym ct_descriptor base (Suc offset) left l' s
             | Inl e \<Rightarrow> (l', s))))"

fun poll_nyms ::
  "(nat \<Rightarrow> nat \<Rightarrow> ('script, 'out) scan_round) \<Rightarrow> nat \<Rightarrow> nat \<Rightarrow> (string \<times> string \<times> int) list \<Rightarrow> limiter
    \<Rightarrow> user_store \<Rightarrow> limiter \<times> user_store" where
  "poll_nyms env lookahead k [] l s = (l, s)"
| "poll_nyms env lookahead k ((nym, ct_descriptor, next_addr_idx) # rest) l s =
    (if sr_cancelled (env k 0) then (l, s)
     else if next_addr_idx < 0 then poll_nyms env lookahead (Suc k) rest l s
     else case scan_window (env k) nym ct_descriptor (nat next_addr_idx) 0 (Suc lookahead) l s of
       (l', s') \<Rightarrow> poll_nyms env lookahead (Suc k) rest l' s')"

text \<open>The two arms of the select loop: which nyms are scanned, then every open invoice.\<close>
definition chain_watcher_tick ::
  "tolerances \<Rightarrow> nat \<Rightarrow> bool \<Rightarrow> int \<Rightarrow> (nat \<Rightarrow> nat \<Rightarrow> ('script, 'out) scan_round)
    \<Rightarrow> (nat \<Rightarrow> ('script, 'out) scan_round) \<Rightarrow> timestamp \<Rightarrow> limiter \<Rightarrow> user_store \<Rightarrow> invoice_store
    \<Rightarrow> limiter \<times> user_store \<times> invoice_store" where
  "chain_watcher_tick tol lookahead is_active active_window nym_env inv_env now l us s =
    (let nyms = (if is_active then list_recently_active_nyms_for_watcher now active_window (us_users us)
                 else list_active_nyms_for_watcher (us_users us));
         (l1, us') = poll_nyms nym_env lookahead 0 nyms l us;
         (l2, s') = poll_invoice_addresses tol inv_env now l1 s
     in (l2, us', s'))"

subsection \<open>A scan is a run of ledger operations\<close>

text \<open>What a Liquid scan may credit: an LBTC output paying the invoice's script that
  its blinding key opens, with the value it opens to.\<close>
definition opened_output ::
  "('script, 'out) liquid_chain \<Rightarrow> string \<Rightarrow> string \<Rightarrow> evidence \<Rightarrow> bool" where
  "opened_output lc addr key_hex e \<longleftrightarrow> ev_source e = ''liquid_direct'' \<and> ev_address e = Some addr
     \<and> (\<exists>script key txids txid raw outs vout value. lc_address_script lc addr = Inr script
        \<and> lc_secret_key lc key_hex = Inr key \<and> lc_history_txids lc script = Inr txids \<and> txid \<in> set txids
        \<and> lc_get_raw_tx lc txid = Inr raw \<and> lc_decode_outputs lc raw = Inr outs
        \<and> vout < length outs \<and> lc_out_script lc (outs ! vout) = script
        \<and> lc_unblind lc (outs ! vout) key = Inr (Liquid_btc, value) \<and> ev_amount_sat e = int value
        \<and> ev_txid e = Some txid \<and> ev_vout e = Some (int vout) \<and> ev_event_key e = liquid_direct_key txid vout)"

lemma scan_outputs_watched:
  assumes "scan_outputs lc tol now unow iid addr script key txid outs n s = (r, s')"
    and "\<forall>vout out value. (vout, out) \<in> set outs \<and> lc_out_script lc out = script
      \<and> lc_unblind lc out key = Inr (Liquid_btc, value) \<longrightarrow> P iid (liquid_evidence addr txid vout (int value))"
  shows "watched P s s'"
  using assms
proof (induction outs arbitrary: n s)
  case (Cons vo outs)
  obtain vout out where vo: "vo = (vout, out)" by fastforce
  have tail: "watched P t s'"
    if "scan_outputs lc tol now unow iid addr script key txid outs m t = (r, s')" for m t
    using Cons.IH[OF that] Cons.prems(2) by auto
  consider (skip) m where "scan_outputs lc tol now unow iid addr script key txid outs m s = (r, s')"
    | (stop) "s' = s"
    | (credit) v rows t m where "lc_out_script lc out = script" "lc_unblind lc out key = Inr (Liquid_btc, v)"
        "record_invoice_payment now unow iid (liquid_evidence addr txid vout (int v)) tol s = Inr (rows, t)"
        "scan_outputs lc tol now unow iid addr script key txid outs m t = (r, s')"
    using Cons.prems(1) by (auto simp: vo split: if_splits sum.splits prod.splits)
  then show ?case
  proof cases
    case skip
    then show ?thesis using tail by blast
  next
    case stop
    then show ?thesis by (simp add: w_refl)
  next
    case (credit v rows t m)
    have "P iid (liquid_evidence addr txid vout (int v))"
      using Cons.prems(2) credit(1,2) vo by auto
    then have "watched P s t" by (rule w_credit[OF w_refl credit(3)])
    then show ?thesis using watched_trans[OF tail[OF credit(4)]] by blast
  qed
qed (simp add: w_refl)

lemma scan_txids_watched:
  assumes "scan_txids lc tol now unow iid addr script key txids n s = (r, s')"
    and "\<forall>txid raw outs vout value. txid \<in> set txids \<and> lc_get_raw_tx lc txid = Inr raw
      \<and> lc_decode_outputs lc raw = Inr outs \<and> vout < length outs \<and> lc_out_script lc (outs ! vout) = script
      \<and> lc_unblind lc (outs ! vout) key = Inr (Liquid_btc, value)
      \<longrightarrow> P iid (liquid_evidence addr txid vout (int value))"
  shows "watched P s s'"
  using assms
proof (induction txids arbitrary: n s)
  case (Cons txid txids)
  show ?case
  proof (cases "\<exists>raw outs. lc_get_raw_tx lc txid = Inr raw \<and> lc_decode_outputs lc raw = Inr outs")
    case False
    then show ?thesis using Cons.prems(1) by (auto simp: w_refl split: sum.splits)
  next
    case True
    then obtain raw outs where raw: "lc_get_raw_tx lc txid = Inr raw" "lc_decode_outputs lc raw = Inr outs" by blast
    obtain q t where t: "scan_outputs lc tol now unow iid addr script key txid (enumerate 0 outs) n s = (q, t)"
      by fastforce
    have one: "watched P s t"
      by (rule scan_outputs_watched[OF t]) (use Cons.prems(2) raw in \<open>auto simp: in_set_enumerate_eq\<close>)
    show ?thesis
    proof (cases q)
      case (Inl e)
      then show ?thesis using Cons.prems(1) raw t one by simp
    next
      case (Inr m)
      have "watched P t s'"
        by (rule Cons.IH[of m t]) (use Cons.prems raw t Inr in auto)
      then show ?thesis using one watched_trans by blast
    qed
  qed
qed (simp add: w_refl)

definition liquid_credit_ok ::
  "('script, 'out) liquid_chain \<Rightarrow> uuid \<Rightarrow> string \<Rightarrow> string \<Rightarrow> uuid \<Rightarrow> evidence \<Rightarrow> bool" where
  "liquid_credit_ok lc iid addr key_hex iid' e \<longleftrightarrow> iid' = iid \<and> opened_output lc addr key_hex e"

lemma record_liquid_watched:
  assumes "lc_address_script lc addr = Inr script"
  shows "watched (liquid_credit_ok lc iid addr key_hex) s
    (snd (record_liquid_events_for_script lc tol now unow iid addr script key_hex s))"
proof (cases "\<exists>key txids. lc_secret_key lc key_hex = Inr key \<and> lc_history_txids lc script = Inr txids")
  case False
  then have "snd (record_liquid_events_for_script lc tol now unow iid addr script key_hex s) = s"
    by (auto simp: record_liquid_events_for_script_def split: sum.splits)
  then show ?thesis by (simp add: w_refl)
next
  case True
  then obtain key txids where kt: "lc_secret_key lc key_hex = Inr key" "lc_history_txids lc script = Inr txids" by blast
  obtain r t where t: "scan_txids lc tol now unow iid addr script key txids 0 s = (r, t)" by fastforce
  have "watched (liquid_credit_ok lc iid addr key_hex) s t"
    by (rule scan_txids_watched[OF t])
      (use assms kt in \<open>auto simp: liquid_credit_ok_def opened_output_def liquid_evidence_def\<close>)
  then show ?thesis using kt t by (auto simp: record_liquid_events_for_script_def w_refl)
qed

text \<open>The selection of an invoice scan, and what the scan may credit.\<close>
definition liquid_tick_credit_ok ::
  "(nat \<Rightarrow> ('script, 'out) scan_round) \<Rightarrow> (uuid \<times> string \<times> sat \<times> string) list \<Rightarrow> uuid \<Rightarrow> evidence \<Rightarrow> bool" where
  "liquid_tick_credit_ok env rows iid e \<longleftrightarrow>
     (\<exists>addr remaining key k. (iid, addr, remaining, key) \<in> set rows \<and> opened_output (sr_chain (env k)) addr key e)"

lemma poll_addresses_watched:
  "poll_addresses tol env k rows l s = (l', s') \<Longrightarrow> watched (liquid_tick_credit_ok env rows) s s'"
proof (induction rows arbitrary: k l s)
  case (Cons row rows)
  obtain iid addr remaining key where row: "row = (iid, addr, remaining, key)" by (metis prod_cases4)
  let ?P = "liquid_tick_credit_ok env (row # rows)"
  have tail: "watched ?P t s'" if "poll_addresses tol env m rows l1 t = (l', s')" for m l1 t
    by (rule watched_mono[OF Cons.IH[OF that]]) (auto simp: liquid_tick_credit_ok_def)
  show ?case
  proof (cases "\<exists>script l1. \<not> sr_cancelled (env k) \<and> check_electrum_watcher (sr_instant (env k)) l = (Inr (), l1)
      \<and> lc_address_script (sr_chain (env k)) addr = Inr script")
    case False
    then show ?thesis using Cons.prems tail
      by (auto simp: row w_refl Let_def split: if_splits prod.splits sum.splits)
  next
    case True
    then obtain script l1 where sc: "\<not> sr_cancelled (env k)"
      "check_electrum_watcher (sr_instant (env k)) l = (Inr (), l1)"
      "lc_address_script (sr_chain (env k)) addr = Inr script" by blast
    let ?t = "snd (record_liquid_events_for_script (sr_chain (env k)) tol (sr_now (env k)) (sr_unow (env k))
        iid addr script key s)"
    have "watched ?P s ?t"
      by (rule watched_mono[OF record_liquid_watched[OF sc(3)]])
        (auto simp: liquid_tick_credit_ok_def liquid_credit_ok_def row)
    moreover have "poll_addresses tol env (Suc k) rows l1 ?t = (l', s')"
      using Cons.prems sc by (simp add: row Let_def)
    then have "watched ?P ?t s'" by (rule tail)
    ultimately show ?thesis using watched_trans by blast
  qed
qed (simp add: w_refl)

subsection \<open>A scan moves cursors only forward\<close>

text \<open>A cursor moves only past an index whose script has history.\<close>
lemma scan_window_step:
  assumes "scan_window env nym d base offset left l s = (l', s')"
  obtains (still) "s' = s"
  | (paid) idx where "base + offset \<le> idx" "idx < base + offset + left" "idx \<le> u32_max"
      "\<exists>k script. lc_derive_script (sr_chain (env k)) d idx = Inr script
        \<and> lc_has_history (sr_chain (env k)) script = Inr True"
      "s' = s\<lparr>us_users := advance_next_addr_idx nym (int idx) (us_users s),
              us_outpoints := fst (mark_reservations_fulfilled_at_idx nym (int idx) (us_outpoints s))\<rparr>"
proof -
  have "s' = s \<or> (\<exists>idx. base + offset \<le> idx \<and> idx < base + offset + left \<and> idx \<le> u32_max
      \<and> (\<exists>k script. lc_derive_script (sr_chain (env k)) d idx = Inr script
          \<and> lc_has_history (sr_chain (env k)) script = Inr True)
      \<and> s' = s\<lparr>us_users := advance_next_addr_idx nym (int idx) (us_users s),
              us_outpoints := fst (mark_reservations_fulfilled_at_idx nym (int idx) (us_outpoints s))\<rparr>)"
    using assms
  proof (induction left arbitrary: offset l)
    case (Suc left)
    let ?idx = "base + offset" and ?c = "sr_chain (env offset)"
    show ?case
    proof (cases "\<exists>script l1. ?idx \<le> u32_max \<and> lc_derive_script ?c d ?idx = Inr script
        \<and> check_electrum_watcher (sr_instant (env offset)) l = (Inr (), l1)
        \<and> (lc_has_history ?c script = Inr True \<or> lc_has_history ?c script = Inr False)")
      case False
      then show ?thesis using Suc.prems by (auto simp: Let_def split: if_splits sum.splits prod.splits bool.splits)
    next
      case True
      then obtain script l1 where sc: "?idx \<le> u32_max" "lc_derive_script ?c d ?idx = Inr script"
        "check_electrum_watcher (sr_instant (env offset)) l = (Inr (), l1)"
        "lc_has_history ?c script = Inr True \<or> lc_has_history ?c script = Inr False" by blast
      show ?thesis
      proof (cases "lc_has_history ?c script = Inr True")
        case True
        have "s' = s\<lparr>us_users := advance_next_addr_idx nym (int ?idx) (us_users s),
              us_outpoints := fst (mark_reservations_fulfilled_at_idx nym (int ?idx) (us_outpoints s))\<rparr>"
          using Suc.prems sc True by simp
        then show ?thesis using sc True by (intro disjI2 exI[of _ ?idx]) auto
      next
        case False
        then have f: "lc_has_history ?c script = Inr False" using sc(4) by blast
        have "scan_window env nym d base (Suc offset) left l1 s = (l', s')"
          using Suc.prems sc f by simp
        from Suc.IH[OF this] show ?thesis
        proof (elim disjE exE conjE)
          fix idx k script
          assume "base + Suc offset \<le> idx" "idx < base + Suc offset + left" and m: "idx \<le> u32_max"
            "lc_derive_script (sr_chain (env k)) d idx = Inr script"
            "lc_has_history (sr_chain (env k)) script = Inr True"
            "s' = s\<lparr>us_users := advance_next_addr_idx nym (int idx) (us_users s),
              us_outpoints := fst (mark_reservations_fulfilled_at_idx nym (int idx) (us_outpoints s))\<rparr>"
          then have "base + offset \<le> idx" "idx < base + offset + Suc left" by simp_all
          with m show ?thesis by blast
        qed simp
      qed
    qed
  qed simp
  then show ?thesis using still paid by blast
qed

text \<open>A scan of nyms whose windows stay below the top of the column's type is a run
  of user operations.\<close>
lemma poll_nyms_run:
  assumes "poll_nyms env lookahead k nyms l s = (l', s')"
    and "list_all (\<lambda>(nym, d, i). i + int lookahead < i32_max) nyms"
  shows "user_step\<^sup>*\<^sup>* s s'"
  using assms
proof (induction nyms arbitrary: k l s)
  case (Cons row nyms)
  obtain nym d i where row: "row = (nym, d, i)" by (metis prod_cases3)
  show ?case
  proof (cases "sr_cancelled (env k 0) \<or> i < 0")
    case True
    then show ?thesis using Cons row by (auto split: if_splits)
  next
    case False
    obtain l1 t where w: "scan_window (env k) nym d (nat i) 0 (Suc lookahead) l s = (l1, t)" by fastforce
    have "user_step\<^sup>*\<^sup>* s t"
      using w
    proof (cases rule: scan_window_step)
      case still
      then show ?thesis by simp
    next
      case (paid idx)
      let ?u = "s\<lparr>us_users := advance_next_addr_idx nym (int idx) (us_users s)\<rparr>"
      have "i + int lookahead < i32_max" using Cons.prems(2) row by simp
      then have "int idx < i32_max" using paid(1,2) False by linarith
      then have "user_step s ?u" by (intro step_advance) simp_all
      moreover have "user_step ?u t"
        using step_fulfilled_at[of ?u nym "int idx"] paid(5) by simp
      ultimately show ?thesis by (meson r_into_rtranclp rtranclp_trans)
    qed
    moreover have "user_step\<^sup>*\<^sup>* t s'"
      by (rule Cons.IH[of "Suc k" l1]) (use Cons.prems row False w in simp_all)
    ultimately show ?thesis by (rule rtranclp_trans)
  qed
qed simp

end
