(* ===== verification/Gc.thy ===== *)
theory Gc
  imports RateLimit InvoiceLifecycle PosTerminals
begin

text \<open>
  The background collector: src/src/gc.rs.  One tick prunes the counters of
  the rate limiter, recycles reservations nobody paid, expires invoices,
  purges pairings nobody claimed and closes stale checkout partials.  A
  statement that fails is logged and counts zero; the model has no failing
  statements here.
\<close>

record gc_config =
  gc_tick_secs :: int
  gc_retention_secs :: int
  gc_checkout_partial_terminal_grace_secs :: int
  gc_pos_pairing_purge_grace_secs :: int
  gc_outpoint_pending_ttl_secs :: int

definition default_gc_config :: gc_config where
  "default_gc_config = \<lparr>gc_tick_secs = 600, gc_retention_secs = 86400,
     gc_checkout_partial_terminal_grace_secs = 900, gc_pos_pairing_purge_grace_secs = 900,
     gc_outpoint_pending_ttl_secs = 3600\<rparr>"

definition prune_rate_limit_events :: "timestamp \<Rightarrow> int \<Rightarrow> rate_events \<Rightarrow> rate_events \<times> nat" where
  "prune_rate_limit_events now retention_secs evs = delete_where (\<lambda>(b, t). t < now - secs retention_secs) evs"

definition prune_nym_access_events :: "timestamp \<Rightarrow> int \<Rightarrow> nym_events \<Rightarrow> nym_events \<times> nat" where
  "prune_nym_access_events now retention_secs evs = delete_where (\<lambda>(s, n, t). t < now - secs retention_secs) evs"

record gc_state =
  gs_limiter :: limiter
  gs_users :: user_store
  gs_invoices :: invoice_store
  gs_pos :: pos_store

definition gc_tick :: "gc_config \<Rightarrow> timestamp \<Rightarrow> gc_state \<Rightarrow> nat list \<times> gc_state" where
  "gc_tick cfg now s =
    (let (rl, n1) = prune_rate_limit_events now (gc_retention_secs cfg) (rl_events (gs_limiter s));
         (na, n2) = prune_nym_access_events now (gc_retention_secs cfg) (rl_nyms (gs_limiter s));
         (oas, n3) = prune_outpoint_addresses now (gc_outpoint_pending_ttl_secs cfg) (us_outpoints (gs_users s));
         (invs, n4) = expire_invoices_past_deadline now (is_invoices (gs_invoices s));
         (n5, ts, invs1) = purge_expired_unclaimed_terminals now (gc_pos_pairing_purge_grace_secs cfg)
            (po_terminals (gs_pos s), invs);
         (invs', n6) = terminalize_stale_checkout_partial_invoices now
            (gc_checkout_partial_terminal_grace_secs cfg) (is_events (gs_invoices s)) invs1
     in ([n1, n2, n3, n4, n5, n6],
         s\<lparr>gs_limiter := (gs_limiter s)\<lparr>rl_events := rl, rl_nyms := na\<rparr>,
           gs_users := (gs_users s)\<lparr>us_outpoints := oas\<rparr>,
           gs_invoices := (gs_invoices s)\<lparr>is_invoices := invs'\<rparr>,
           gs_pos := (gs_pos s)\<lparr>po_terminals := ts\<rparr>\<rparr>))"

end
