(* ===== verification/WatcherProperties.thy ===== *)
theory WatcherProperties
  imports ChainWatcher Gc LedgerProperties
begin

text \<open>
  What the background tasks guarantee: the two chain watchers act on the
  ledger only through its operations and credit only what they saw on chain,
  and the collector never changes what a limiter would have answered.
\<close>

text \<open>Whatever the mempool API, the Electrum backend, the descriptor library, the
  rate limiter and a shutdown do, a tick of either watcher changes the invoice
  store only through a sequence of ledger operations, so every invariant of
  the ledger survives it.\<close>
theorem watcher_ticks_refine_ledger:
  "ledger_step\<^sup>*\<^sup>* s (snd (btc_poll_tier cfg tol act now tip_reply env b s))
   \<and> ledger_step\<^sup>*\<^sup>* t (snd (snd (chain_watcher_tick tol lookahead act2 window nym_env inv_env now2 l us t)))"
proof
  obtain b' s' where r: "btc_poll_tier cfg tol act now tip_reply env b s = (b', s')" by fastforce
  have "ledger_step\<^sup>*\<^sup>* s s'"
    using r by (cases rule: poll_tier_watched) (auto intro: watched_run)
  then show "ledger_step\<^sup>*\<^sup>* s (snd (btc_poll_tier cfg tol act now tip_reply env b s))" by (simp add: r)
  obtain l1 us' where n: "poll_nyms nym_env lookahead 0
      (if act2 then list_recently_active_nyms_for_watcher now2 window (us_users us)
       else list_active_nyms_for_watcher (us_users us)) l us = (l1, us')" by fastforce
  obtain l2 t' where p: "poll_invoice_addresses tol inv_env now2 l1 t = (l2, t')" by fastforce
  then have "ledger_step\<^sup>*\<^sup>* t t'"
    using poll_addresses_watched watched_run unfolding poll_invoice_addresses_def by blast
  then show "ledger_step\<^sup>*\<^sup>* t (snd (snd (chain_watcher_tick tol lookahead act2 window nym_env inv_env now2 l us t)))"
    using n p by (simp add: chain_watcher_tick_def)
qed

subsection \<open>Credits come from the chain\<close>

text \<open>C16: A payment event the Bitcoin watcher adds belongs to an open, unexpired invoice of
  the tick's tier that accepts Bitcoin, and is an output to that invoice's own
  address, of a transaction the API reported as confirmed at least as deep as
  configured below the fetched tip, with the amount and outpoint reported.\<close>
theorem bitcoin_credit_is_deep_output:
  assumes "btc_poll_tier cfg tol act now tip_reply env b s = (b', s')"
    and "p \<in> set (is_events s')" "p \<notin> set (is_events s)"
  shows "\<exists>i\<in>set (is_invoices s). watchable_bitcoin act (bw_active_window_secs cfg) now i
    \<and> pe_invoice_id p = inv_id i \<and> pe_address p = inv_bitcoin_address i \<and> 0 < pe_amount_sat p
    \<and> (\<exists>tip k status txs tx vout height. fetch_tip_height tip_reply = Some tip
        \<and> br_reply (env k) = Replied status (Some txs) \<and> tx \<in> set txs \<and> vout < length (mt_vout tx)
        \<and> mv_scriptpubkey_address (mt_vout tx ! vout) = pe_address p
        \<and> pe_amount_sat p = as_i64 (mv_value (mt_vout tx ! vout))
        \<and> pe_txid p = Some (mt_txid tx) \<and> pe_vout p = Some (int vout)
        \<and> mt_confirmed tx \<and> mt_block_height tx = Some height
        \<and> bw_confirmations_required cfg \<le> confirmations_at tip height)"
  using assms(1)
proof (cases rule: poll_tier_watched)
  case still
  then show ?thesis using assms by simp
next
  case (polled tip)
  obtain n iid e where e: "p = event_of_evidence n iid e"
    "tick_credit_ok cfg tip env (fetch_invoices act (bw_active_window_secs cfg) now (is_invoices s)) iid e"
    "validate_evidence e = Inr ()"
    using watched_new_event[OF polled(2) assms(2,3)] by blast
  then obtain iv k where iv: "iv \<in> set (fetch_invoices act (bw_active_window_secs cfg) now (is_invoices s))"
    "btc_credit_ok cfg tip (br_reply (env k)) iv iid e" by (auto simp: tick_credit_ok_def)
  obtain status txs where deep: "iid = bp_id iv" "ev_address e = Some (bp_bitcoin_address iv)"
    "br_reply (env k) = Replied status (Some txs)" "deep_output cfg tip txs e"
    using iv(2) by (auto simp: btc_credit_ok_def)
  obtain i where i: "i \<in> set (is_invoices s)" "watchable_bitcoin act (bw_active_window_secs cfg) now i"
    "bp_id iv = inv_id i" "inv_bitcoin_address i = Some (bp_bitcoin_address iv)"
    using fetched_is_watchable[OF iv(1)] by blast
  have p: "pe_invoice_id p = inv_id i" "pe_address p = inv_bitcoin_address i" "0 < pe_amount_sat p"
    "pe_address p = ev_address e" "pe_amount_sat p = ev_amount_sat e" "pe_txid p = ev_txid e" "pe_vout p = ev_vout e"
    using e(1) deep(1,2) i(3,4) evidence_positive[OF e(3)] by (simp_all add: event_of_evidence_def)
  show ?thesis
  proof (intro bexI[of _ i] conjI)
    from deep(3,4) polled(1)
    show "\<exists>tip k status txs tx vout height. fetch_tip_height tip_reply = Some tip
        \<and> br_reply (env k) = Replied status (Some txs) \<and> tx \<in> set txs \<and> vout < length (mt_vout tx)
        \<and> mv_scriptpubkey_address (mt_vout tx ! vout) = pe_address p
        \<and> pe_amount_sat p = as_i64 (mv_value (mt_vout tx ! vout))
        \<and> pe_txid p = Some (mt_txid tx) \<and> pe_vout p = Some (int vout)
        \<and> mt_confirmed tx \<and> mt_block_height tx = Some height
        \<and> bw_confirmations_required cfg \<le> confirmations_at tip height"
      unfolding deep_output_def p(4-7) by blast
  qed (use i p in simp_all)
qed

definition demo_btc_invoice :: invoice where
  "demo_btc_invoice = demo_invoice\<lparr>inv_accept_btc := True, inv_bitcoin_address := Some ''bc1qtarget0000''\<rparr>"

definition demo_btc_store :: invoice_store where
  "demo_btc_store = demo_s1\<lparr>is_invoices := [demo_btc_invoice]\<rparr>"

definition demo_mempool_tx :: mempool_tx where
  "demo_mempool_tx = \<lparr>mt_txid = demo_txid,
     mt_vout = [\<lparr>mv_scriptpubkey_address = Some ''bc1qtarget0000'', mv_value = 100000\<rparr>],
     mt_confirmed = True, mt_block_height = Some 99\<rparr>"

definition demo_round :: "nat \<Rightarrow> btc_round" where
  "demo_round k = \<lparr>br_cancelled = False, br_instant = 0, br_now = 7, br_unow = 0,
     br_reply = Replied 200 (Some [demo_mempool_tx])\<rparr>"

definition demo_btc_event :: payment_event where
  "demo_btc_event = event_of_evidence 7 1
     (btc_evidence \<lparr>bp_id = 1, bp_bitcoin_address = ''bc1qtarget0000'', bp_amount_sat = 0\<rparr> demo_txid 100000 0)"

definition demo_btc_tick :: "token_bucket \<times> invoice_store" where
  "demo_btc_tick = btc_poll_tier \<lparr>bw_confirmations_required = 2, bw_active_window_secs = 60\<rparr> default_tolerances
     True 7 (Replied 200 (Some '' 100'')) demo_round (token_bucket_new 0 5) demo_btc_store"

lemmas demo_btc_defs = demo_btc_store_def demo_btc_invoice_def demo_defs invoice_of_new_def

lemma demo_fetched: "fetch_invoices True 60 7 (is_invoices demo_btc_store)
    = [\<lparr>bp_id = 1, bp_bitcoin_address = ''bc1qtarget0000'', bp_amount_sat = 100000\<rparr>]"
  by (simp add: fetch_invoices_def sort_desc_def watchable_bitcoin_def demo_btc_defs secs_def)

lemma demo_tip: "fetch_tip_height (Replied 200 (Some '' 100'')) = Some 100"
  by (simp add: fetch_tip_height_def http_success_def trim_def ascii_space_def parse_u32_def digit_def u32_max_def)

lemma demo_observed: "bitcoin_direct_observations_for_tx demo_mempool_tx ''bc1qtarget0000'' 100 2
    = [\<lparr>bo_event_key = bitcoin_direct_key demo_txid 0, bo_txid = demo_txid, bo_vout = 0, bo_amount_sat = 100000,
        bo_confirmations = 2, bo_block_height = Some 99, bo_last_seen_state = ''counted''\<rparr>]"
  by (simp add: bitcoin_direct_observations_for_tx_def demo_mempool_tx_def confirmations_at_def u32_max_def i32_max_def)

definition demo_btc_after :: invoice_store where
  "demo_btc_after = demo_btc_store\<lparr>is_invoices := [settle_invoice 7 0
       (btc_evidence \<lparr>bp_id = 1, bp_bitcoin_address = ''bc1qtarget0000'', bp_amount_sat = 100000\<rparr> demo_txid 100000 0)
       default_tolerances [demo_btc_event] demo_btc_invoice], is_events := [demo_btc_event]\<rparr>"

lemma demo_credit:
  "record_invoice_payment 7 0 1 (btc_evidence \<lparr>bp_id = 1, bp_bitcoin_address = ''bc1qtarget0000'', bp_amount_sat = 100000\<rparr>
      demo_txid 100000 0) default_tolerances demo_btc_store = Inr (1, demo_btc_after)"
  by code_simp

lemma events_of_upsert [simp]: "is_events (upsert_bitcoin_observation now iv ob s) = is_events s"
  by (simp add: upsert_bitcoin_observation_def split: sum.split)

lemma demo_btc_tick_events: "is_events (snd demo_btc_tick) = [demo_btc_event]"
proof -
  have "0 < tb_tokens (refill 0 (token_bucket_new 0 5))"
    by (simp add: refill_def token_bucket_new_def secs_def)
  then show ?thesis
    by (simp add: demo_btc_tick_def btc_poll_tier_def demo_fetched demo_tip demo_round_def try_consume_def Let_def
        check_invoice_def http_success_def demo_observed observe_output_def record_confirmed_output_def i32_max_def
        demo_credit[simplified] demo_btc_after_def)
qed

lemma bitcoin_credit_is_deep_output_witness:
  "pe_invoice_id demo_btc_event = inv_id demo_btc_invoice
   \<and> pe_address demo_btc_event = inv_bitcoin_address demo_btc_invoice
   \<and> watchable_bitcoin True 60 7 demo_btc_invoice"
proof -
  have "demo_btc_event \<in> set (is_events (snd demo_btc_tick))" "demo_btc_event \<notin> set (is_events demo_btc_store)"
    using demo_btc_tick_events by (simp_all add: demo_btc_store_def demo_s1_def empty_ledger_def)
  from bitcoin_credit_is_deep_output[OF prod.collapse[of demo_btc_tick, unfolded demo_btc_tick_def, symmetric]
      this[unfolded demo_btc_tick_def]]
  show ?thesis by (auto simp: demo_btc_store_def)
qed

text \<open>C17: A payment event the Liquid watcher adds belongs to an open, unexpired invoice that
  accepts Liquid, and is an LBTC output paying the script of that invoice's own
  address which the invoice's blinding key opens to exactly the credited value.\<close>
theorem liquid_credit_is_opened_output:
  assumes "poll_invoice_addresses tol env now l s = (l', s')"
    and "p \<in> set (is_events s')" "p \<notin> set (is_events s)"
  shows "\<exists>i\<in>set (is_invoices s). watchable_liquid now i \<and> pe_invoice_id p = inv_id i
    \<and> (\<exists>k key script addr txid raw outs vout value. let lc = sr_chain (env k) in
        inv_liquid_address i = Some addr \<and> inv_liquid_blinding_key_hex i = Some key
        \<and> lc_address_script lc addr = Inr script \<and> lc_get_raw_tx lc txid = Inr raw
        \<and> lc_decode_outputs lc raw = Inr outs \<and> vout < length outs \<and> lc_out_script lc (outs ! vout) = script
        \<and> (\<exists>sk. lc_secret_key lc key = Inr sk \<and> lc_unblind lc (outs ! vout) sk = Inr (Liquid_btc, value))
        \<and> pe_amount_sat p = int value \<and> pe_txid p = Some txid \<and> pe_vout p = Some (int vout))"
proof -
  let ?rows = "list_unpaid_invoices_with_liquid_address now (is_invoices s)"
  have "watched (liquid_tick_credit_ok env ?rows) s s'"
    using assms(1) poll_addresses_watched unfolding poll_invoice_addresses_def by blast
  then obtain n iid e where e: "p = event_of_evidence n iid e" "liquid_tick_credit_ok env ?rows iid e"
    using watched_new_event assms(2,3) by blast
  then obtain addr remaining key k where row: "(iid, addr, remaining, key) \<in> set ?rows"
    and opened: "opened_output (sr_chain (env k)) addr key e" by (auto simp: liquid_tick_credit_ok_def)
  obtain i where i: "i \<in> set (is_invoices s)" "watchable_liquid now i" "inv_id i = iid"
    "the (inv_liquid_address i) = addr" "the (inv_liquid_blinding_key_hex i) = key"
    using row unfolding list_unpaid_invoices_with_liquid_address_def by (auto dest!: in_set_takeD)
  then have addr: "inv_liquid_address i = Some addr" "inv_liquid_blinding_key_hex i = Some key"
    by (auto simp: watchable_liquid_def)
  have p: "pe_invoice_id p = inv_id i" "pe_amount_sat p = ev_amount_sat e" "pe_txid p = ev_txid e" "pe_vout p = ev_vout e"
    using e(1) i(3) by (simp_all add: event_of_evidence_def)
  show ?thesis
  proof (intro bexI[of _ i] conjI)
    from opened show "\<exists>k key script addr txid raw outs vout value. let lc = sr_chain (env k) in
        inv_liquid_address i = Some addr \<and> inv_liquid_blinding_key_hex i = Some key
        \<and> lc_address_script lc addr = Inr script \<and> lc_get_raw_tx lc txid = Inr raw
        \<and> lc_decode_outputs lc raw = Inr outs \<and> vout < length outs \<and> lc_out_script lc (outs ! vout) = script
        \<and> (\<exists>sk. lc_secret_key lc key = Inr sk \<and> lc_unblind lc (outs ! vout) sk = Inr (Liquid_btc, value))
        \<and> pe_amount_sat p = int value \<and> pe_txid p = Some txid \<and> pe_vout p = Some (int vout)"
      unfolding opened_output_def Let_def p addr by blast
  qed (use i p in simp_all)
qed

definition demo_lq_invoice :: invoice where
  "demo_lq_invoice = demo_invoice\<lparr>inv_liquid_blinding_key_hex := Some ''key''\<rparr>"

text \<open>A chain whose scripts are the addresses and whose outputs are (script, value).\<close>
definition demo_chain :: "(string, string \<times> nat) liquid_chain" where
  "demo_chain = \<lparr>lc_address_script = Inr, lc_derive_script = (\<lambda>d i. Inr d), lc_secret_key = Inr,
     lc_history_txids = (\<lambda>s. Inr [demo_txid]), lc_has_history = (\<lambda>s. Inr True), lc_get_raw_tx = Inr,
     lc_decode_outputs = (\<lambda>raw. Inr [(''other'', 5), (''lq1'', 40)]), lc_out_script = fst,
     lc_unblind = (\<lambda>out key. Inr (Liquid_btc, snd out))\<rparr>"

definition demo_scan :: "nat \<Rightarrow> (string, string \<times> nat) scan_round" where
  "demo_scan k = \<lparr>sr_cancelled = False, sr_instant = 0, sr_now = 7, sr_unow = 0, sr_chain = demo_chain\<rparr>"

definition demo_lq_store :: invoice_store where
  "demo_lq_store = demo_s1\<lparr>is_invoices := [demo_lq_invoice]\<rparr>"

definition demo_lq_event :: payment_event where
  "demo_lq_event = event_of_evidence 7 1 (liquid_evidence ''lq1'' demo_txid 1 40)"

definition demo_lq_after :: invoice_store where
  "demo_lq_after = demo_lq_store\<lparr>is_invoices := [settle_invoice 7 0 (liquid_evidence ''lq1'' demo_txid 1 40)
       default_tolerances [demo_lq_event] demo_lq_invoice], is_events := [demo_lq_event]\<rparr>"

lemma demo_lq_credit:
  "record_invoice_payment 7 0 1 (liquid_evidence ''lq1'' demo_txid 1 40) default_tolerances demo_lq_store
    = Inr (1, demo_lq_after)"
  by code_simp

definition demo_limiter :: limiter where
  "demo_limiter = undefined\<lparr>rl_watcher_electrum := token_bucket_new 0 5\<rparr>"

definition demo_lq_tick :: "limiter \<times> invoice_store" where
  "demo_lq_tick = poll_invoice_addresses default_tolerances demo_scan 7 demo_limiter demo_lq_store"

lemma demo_lq_tick_events: "is_events (snd demo_lq_tick) = [demo_lq_event]"
proof -
  have rows: "list_unpaid_invoices_with_liquid_address 7 (is_invoices demo_lq_store) = [(1, ''lq1'', 100000, ''key'')]"
    by (simp add: list_unpaid_invoices_with_liquid_address_def watchable_liquid_def demo_lq_store_def demo_lq_invoice_def
        demo_defs invoice_of_new_def secs_def)
  have "0 < tb_tokens (refill 0 (token_bucket_new 0 5))"
    by (simp add: refill_def token_bucket_new_def secs_def)
  then show ?thesis
    by (simp add: demo_lq_tick_def poll_invoice_addresses_def rows demo_scan_def demo_chain_def Let_def demo_limiter_def
        check_electrum_watcher_def try_consume_def record_liquid_events_for_script_def i64_max_def i32_max_def
        demo_lq_credit[simplified] demo_lq_after_def)
qed

lemma liquid_credit_is_opened_output_witness:
  "pe_invoice_id demo_lq_event = inv_id demo_lq_invoice \<and> pe_amount_sat demo_lq_event = 40"
proof -
  have "demo_lq_event \<in> set (is_events (snd demo_lq_tick))" "demo_lq_event \<notin> set (is_events demo_lq_store)"
    using demo_lq_tick_events by (simp_all add: demo_lq_store_def demo_s1_def empty_ledger_def)
  from liquid_credit_is_opened_output[OF prod.collapse[of demo_lq_tick, unfolded demo_lq_tick_def, symmetric]
      this[unfolded demo_lq_tick_def]]
  show ?thesis
    by (auto simp: demo_lq_store_def demo_lq_event_def event_of_evidence_def liquid_evidence_def)
qed

text \<open>Once an invoice's deadline has passed, no tick of either watcher credits it any
  more, whatever has confirmed on chain: a payment seen in the mempool before
  the deadline and confirmed after it is not recorded.\<close>
theorem late_confirmation_never_credited:
  assumes "distinct (map inv_id (is_invoices s))" "i \<in> set (is_invoices s)" "inv_expires_at i \<le> now"
  shows "events_of (inv_id i) (is_events (snd (btc_poll_tier cfg tol act now tip_reply env b s)))
      = events_of (inv_id i) (is_events s)
    \<and> events_of (inv_id i) (is_events (snd (poll_invoice_addresses tol scans now l s)))
      = events_of (inv_id i) (is_events s)"
proof
  have same: "j = i" if "j \<in> set (is_invoices s)" "inv_id j = inv_id i" for j
    using that assms(1,2) by (auto simp: distinct_map inj_on_def)
  obtain b' s' where r: "btc_poll_tier cfg tol act now tip_reply env b s = (b', s')" by fastforce
  then have "events_of (inv_id i) (is_events s') = events_of (inv_id i) (is_events s)"
  proof (cases rule: poll_tier_watched)
    case (polled tip)
    show ?thesis
    proof (rule watched_events_of[OF polled(2)], rule notI)
      fix e assume "tick_credit_ok cfg tip env (fetch_invoices act (bw_active_window_secs cfg) now (is_invoices s)) (inv_id i) e"
      then obtain iv where iv: "iv \<in> set (fetch_invoices act (bw_active_window_secs cfg) now (is_invoices s))"
        "bp_id iv = inv_id i" by (auto simp: tick_credit_ok_def btc_credit_ok_def)
      from fetched_is_watchable[OF iv(1)] obtain j where j: "j \<in> set (is_invoices s)"
        "watchable_bitcoin act (bw_active_window_secs cfg) now j" "bp_id iv = inv_id j" by blast
      have "inv_id j = inv_id i" using iv(2) unfolding j(3) .
      then have "j = i" by (rule same[OF j(1)])
      then show False using j(2) assms(3) by (simp add: watchable_bitcoin_def)
    qed
  qed simp
  then show "events_of (inv_id i) (is_events (snd (btc_poll_tier cfg tol act now tip_reply env b s)))
      = events_of (inv_id i) (is_events s)" by (simp add: r)
  let ?rows = "list_unpaid_invoices_with_liquid_address now (is_invoices s)"
  obtain l' t where t: "poll_invoice_addresses tol scans now l s = (l', t)" by fastforce
  then have w: "watched (liquid_tick_credit_ok scans ?rows) s t"
    using poll_addresses_watched unfolding poll_invoice_addresses_def by blast
  have "events_of (inv_id i) (is_events t) = events_of (inv_id i) (is_events s)"
  proof (rule watched_events_of[OF w], rule notI)
    fix e assume "liquid_tick_credit_ok scans ?rows (inv_id i) e"
    then obtain a r k where "(inv_id i, a, r, k) \<in> set ?rows" by (auto simp: liquid_tick_credit_ok_def)
    then obtain j where j: "j \<in> set (is_invoices s)" "watchable_liquid now j" "inv_id j = inv_id i"
      unfolding list_unpaid_invoices_with_liquid_address_def by (auto dest!: in_set_takeD)
    then have "j = i" by (intro same)
    then show False using j(2) assms(3) by (simp add: watchable_liquid_def)
  qed
  then show "events_of (inv_id i) (is_events (snd (poll_invoice_addresses tol scans now l s)))
      = events_of (inv_id i) (is_events s)" by (simp add: t)
qed

lemma late_confirmation_never_credited_witness:
  "events_of 1 (is_events (snd (btc_poll_tier \<lparr>bw_confirmations_required = 2, bw_active_window_secs = 60\<rparr>
     default_tolerances False (secs 3600) (Replied 200 (Some ''100'')) demo_round (token_bucket_new 0 5)
     demo_btc_store))) = []"
proof -
  have d: "distinct (map inv_id (is_invoices demo_btc_store))" "demo_btc_invoice \<in> set (is_invoices demo_btc_store)"
    "inv_expires_at demo_btc_invoice \<le> secs 3600" and e: "inv_id demo_btc_invoice = 1" "is_events demo_btc_store = []"
    by (simp_all add: demo_btc_store_def demo_btc_invoice_def demo_invoice_def invoice_of_new_def demo_new_def
        demo_s1_def empty_ledger_def secs_def)
  show ?thesis
    using late_confirmation_never_credited[OF d, THEN conjunct1] unfolding e by (simp add: events_of_def)
qed

subsection \<open>The collector and the limiters\<close>

lemma count_after_prune:
  assumes "as_i32 window_secs \<le> retention_secs" "now \<le> later"
  shows "filter (\<lambda>(b, t). b = bucket \<and> later - secs (as_i32 window_secs) < t)
      (fst (prune_rate_limit_events now retention_secs evs))
    = filter (\<lambda>(b, t). b = bucket \<and> later - secs (as_i32 window_secs) < t) evs"
  using assms by (auto simp: prune_rate_limit_events_def tables secs_def intro!: filter_cong)

lemma names_after_prune:
  assumes "as_i32 window_secs \<le> retention_secs" "now \<le> later"
  shows "filter (\<lambda>(s, n, t). s = source \<and> later - secs (as_i32 window_secs) < t)
      (fst (prune_nym_access_events now retention_secs evs))
    = filter (\<lambda>(s, n, t). s = source \<and> later - secs (as_i32 window_secs) < t) evs"
  using assms by (auto simp: prune_nym_access_events_def tables secs_def intro!: filter_cong)

text \<open>A collector tick never changes what a Postgres-backed limiter would have answered
  at that moment or later, as long as no window is longer than the retention.\<close>
theorem collection_keeps_verdicts:
  assumes "as_i32 window_secs \<le> retention_secs" "now \<le> later"
  shows "fst (record_and_count_rate_limit_atomic later bucket window_secs
        (fst (prune_rate_limit_events now retention_secs evs)))
      = fst (record_and_count_rate_limit_atomic later bucket window_secs evs)
    \<and> fst (record_and_count_distinct_nyms_atomic later source nym window_secs
        (fst (prune_nym_access_events now retention_secs nevs)))
      = fst (record_and_count_distinct_nyms_atomic later source nym window_secs nevs)"
  unfolding record_and_count_rate_limit_atomic_def record_and_count_distinct_nyms_atomic_def Let_def fst_conv
    filter_append count_after_prune[OF assms] names_after_prune[OF assms] by simp

lemma collection_keeps_verdicts_witness:
  "fst (record_and_count_rate_limit_atomic (secs 90000) ''nym:alice'' 60
      (fst (prune_rate_limit_events (secs 90000) 86400 [(''nym:alice'', 0), (''nym:alice'', secs 89990)])))
    = fst (record_and_count_rate_limit_atomic (secs 90000) ''nym:alice'' 60
        [(''nym:alice'', 0), (''nym:alice'', secs 89990)])"
  by (rule collection_keeps_verdicts[THEN conjunct1]) (simp_all add: as_i32_def)

end
