(* ===== verification/Pricer.thy ===== *)
theory Pricer
  imports Access
begin

text \<open>
  Fiat rates: src/src/pricer.rs.  The JSON-RPC exchange with the upstream
  pricer is an argument (what the POST comes back with); the HTTP client, its
  timeout and the log lines are not modelled.  Integers are those of the
  source: rates are i64, precisions u8, instants microseconds.
\<close>

datatype pricer_error = Transport string | Decode string | Rpc string

fun pricer_error_text :: "pricer_error \<Rightarrow> string" where
  "pricer_error_text (Transport m) = ''pricer transport: '' @ m"
| "pricer_error_text (Decode m) = ''pricer decode: '' @ m"
| "pricer_error_text (Rpc m) = ''pricer rpc: '' @ m"

record pricer_config =
  pc_url :: string
  pc_cache_ttl_secs :: int
  pc_supported_currencies :: "string list"

record currency_view =
  cv_code :: string
  cv_precision :: nat

record rate_view =
  rv_currency :: string
  rv_minor_per_btc :: int
  rv_precision :: nat
  rv_fetched_at_unix :: int
  rv_last_known_rate :: bool

record cached_rate =
  cr_minor_per_btc :: int
  cr_precision :: nat
  cr_fetched_at :: int
  cr_fetched_at_unix :: int

record rate_element =
  re_to_currency :: string
  re_index_price :: int
  re_precision :: nat

text \<open>The decoded reply: a result and an error, each perhaps absent.\<close>
datatype pricer_reply = Failed pricer_error | Answer "rate_element option" "string option"

subsection \<open>Currencies\<close>

text \<open>\<open>to_uppercase\<close> on ASCII text.\<close>
definition ascii_uppercase :: "string \<Rightarrow> string" where
  "ascii_uppercase = map (\<lambda>ch. let n = (of_char ch :: nat) in if 97 \<le> n \<and> n \<le> 122 then char_of (n - 32) else ch)"

definition normalize_currency_code :: "string \<Rightarrow> string" where
  "normalize_currency_code currency = ascii_uppercase (trim currency)"

definition currency_precision :: "string \<Rightarrow> nat" where
  "currency_precision currency =
    (if normalize_currency_code currency \<in> {''COP'', ''CRC''} then 0 else 2)"

definition max_minor_per_btc :: "string \<Rightarrow> int option" where
  "max_minor_per_btc currency =
    (let c = normalize_currency_code currency in
     if c \<in> {''USD'', ''CAD'', ''EUR''} then Some 1000000000
     else if c = ''CRC'' then Some 5000000000
     else if c = ''MXN'' then Some 20000000000
     else if c = ''COP'' then Some 50000000000
     else if c = ''INR'' then Some 100000000000
     else if c = ''ARS'' then Some 5000000000000
     else None)"

text \<open>\<open>Vec::dedup\<close>: neighbours only, which after the sort is all of them.\<close>
fun dedup :: "string list \<Rightarrow> string list" where
  "dedup (x # y # ys) = (if x = y then dedup (y # ys) else x # dedup (y # ys))"
| "dedup xs = xs"

definition normalize_supported_currencies :: "string list \<Rightarrow> currency_view list" where
  "normalize_supported_currencies currencies =
    map (\<lambda>code. \<lparr>cv_code = code, cv_precision = currency_precision code\<rparr>)
      (dedup (foldr insert_str (filter (\<lambda>c. c \<noteq> []) (map normalize_currency_code currencies)) []))"

datatype pricer_init_error = BadScheme string | MissingRateCeiling string | BuildError string

definition starts_with :: "string \<Rightarrow> string \<Rightarrow> bool" where
  "starts_with p s \<longleftrightarrow> take (length p) s = p"

text \<open>\<open>lowercase\<close> of a URL and the HTTP client's construction are arguments.\<close>
definition pricer_new ::
  "(string \<Rightarrow> string) \<Rightarrow> string option \<Rightarrow> pricer_config \<Rightarrow> pricer_init_error + currency_view list" where
  "pricer_new lowercase build_error cfg =
    (let lower = lowercase (pc_url cfg);
         supported = normalize_supported_currencies (pc_supported_currencies cfg)
     in if \<not> starts_with ''http://'' lower \<and> \<not> starts_with ''https://'' lower then Inl (BadScheme (pc_url cfg))
        else case List.find (\<lambda>c. max_minor_per_btc (cv_code c) = None) supported of
          Some c \<Rightarrow> Inl (MissingRateCeiling (cv_code c))
        | None \<Rightarrow> (case build_error of Some e \<Rightarrow> Inl (BuildError e) | None \<Rightarrow> Inr supported))"

definition is_supported_currency :: "currency_view list \<Rightarrow> string \<Rightarrow> bool" where
  "is_supported_currency supported currency =
    list_ex (\<lambda>c. cv_code c = normalize_currency_code currency) supported"

subsection \<open>One rate\<close>

text \<open>\<open>10_i64.checked_pow\<close>.\<close>
definition checked_pow10 :: "nat \<Rightarrow> int option" where
  "checked_pow10 k = (if k \<le> 18 then Some (10 ^ k) else None)"

definition rescale_minor_units :: "int \<Rightarrow> nat \<Rightarrow> nat \<Rightarrow> int option" where
  "rescale_minor_units value from_precision to_precision =
    (if from_precision = to_precision then Some value
     else if from_precision < to_precision then
       (case checked_pow10 (to_precision - from_precision) of
          None \<Rightarrow> None
        | Some factor \<Rightarrow> checked_i64 (value * factor))
     else
       (case checked_pow10 (from_precision - to_precision) of
          None \<Rightarrow> None
        | Some factor \<Rightarrow>
           (let quotient = tdiv value factor; remainder = value - quotient * factor
            in Some (quotient + (if factor div 2 \<le> remainder then 1 else 0)))))"

definition minor_per_btc_from_element :: "rate_element \<Rightarrow> pricer_error + int" where
  "minor_per_btc_from_element e =
    (let server_precision = currency_precision (re_to_currency e)
     in case rescale_minor_units (re_index_price e) (re_precision e) server_precision of
          Some v \<Rightarrow> Inr v
        | None \<Rightarrow> Inl (Decode (''indexPrice '' @ show_int (re_index_price e) @ '' for '' @ re_to_currency e
            @ '' cannot be rescaled from precision '' @ show_nat (re_precision e) @ '' to ''
            @ show_nat server_precision)))"

definition validate_rate :: "string \<Rightarrow> int \<Rightarrow> string + unit" where
  "validate_rate currency minor_per_btc =
    (if minor_per_btc < 1 then Inl ''below minimum 1''
     else case max_minor_per_btc currency of
       None \<Rightarrow> Inl ''currency has no configured ceiling''
     | Some mx \<Rightarrow> if mx < minor_per_btc then Inl (''above currency ceiling '' @ show_int mx) else Inr ())"

definition fetch_from_upstream :: "int \<Rightarrow> pricer_reply \<Rightarrow> pricer_error + rate_view" where
  "fetch_from_upstream now_unix reply =
    (case reply of
       Failed e \<Rightarrow> Inl e
     | Answer result (Some message) \<Rightarrow> Inl (Rpc message)
     | Answer None None \<Rightarrow> Inl (Decode ''missing result'')
     | Answer (Some e) None \<Rightarrow>
        (case minor_per_btc_from_element e of
           Inl err \<Rightarrow> Inl err
         | Inr minor \<Rightarrow>
            (case validate_rate (re_to_currency e) minor of
               Inl reason \<Rightarrow> Inl (Decode (''indexPrice '' @ show_int (re_index_price e) @ '' for ''
                  @ re_to_currency e @ '' rejected: '' @ reason))
             | Inr _ \<Rightarrow> Inr \<lparr>rv_currency = normalize_currency_code (re_to_currency e), rv_minor_per_btc = minor,
                  rv_precision = currency_precision (re_to_currency e), rv_fetched_at_unix = now_unix,
                  rv_last_known_rate = False\<rparr>)))"

subsection \<open>The cache\<close>

type_synonym rate_cache = "string \<Rightarrow> cached_rate option"

definition cached_view :: "string \<Rightarrow> bool \<Rightarrow> cached_rate \<Rightarrow> rate_view" where
  "cached_view currency stale entry =
    \<lparr>rv_currency = currency, rv_minor_per_btc = cr_minor_per_btc entry, rv_precision = cr_precision entry,
     rv_fetched_at_unix = cr_fetched_at_unix entry, rv_last_known_rate = stale\<rparr>"

text \<open>\<open>now\<close> is the monotonic clock; \<open>reply\<close> is what the POST would come back with.\<close>
definition get_rate ::
  "pricer_config \<Rightarrow> int \<Rightarrow> int \<Rightarrow> pricer_reply \<Rightarrow> string \<Rightarrow> rate_cache \<Rightarrow> rate_view option \<times> rate_cache" where
  "get_rate cfg now now_unix reply currency cache =
    (let currency = normalize_currency_code currency;
         refresh =
           (case fetch_from_upstream now_unix reply of
              Inr view \<Rightarrow> (Some view, cache(currency \<mapsto>
                \<lparr>cr_minor_per_btc = rv_minor_per_btc view, cr_precision = rv_precision view, cr_fetched_at = now,
                 cr_fetched_at_unix = rv_fetched_at_unix view\<rparr>))
            | Inl e \<Rightarrow> (map_option (cached_view currency True) (cache currency), cache))
     in case cache currency of
          Some entry \<Rightarrow>
            if now - cr_fetched_at entry < secs (pc_cache_ttl_secs cfg)
            then (Some (cached_view currency False entry), cache) else refresh
        | None \<Rightarrow> refresh)"

text \<open>\<open>GET /rate\<close>: a missing rate is shown as zero.\<close>
definition rate_handler ::
  "pricer_config \<Rightarrow> int \<Rightarrow> int \<Rightarrow> pricer_reply \<Rightarrow> string \<Rightarrow> rate_cache \<Rightarrow> (int \<times> bool) \<times> rate_cache" where
  "rate_handler cfg now now_unix reply currency cache =
    (case get_rate cfg now now_unix reply (normalize_currency_code currency) cache of
       (Some v, cache') \<Rightarrow> ((rv_minor_per_btc v, rv_last_known_rate v), cache')
     | (None, cache') \<Rightarrow> ((0, False), cache'))"

subsection \<open>Rounding and bounds\<close>

lemma checked_pow10_pos: "checked_pow10 k = Some f \<Longrightarrow> 0 < k \<Longrightarrow> 10 \<le> f \<and> even f"
proof -
  assume "checked_pow10 k = Some f" "0 < k"
  then obtain m where "k = Suc m" "f = 10 * 10 ^ m"
    by (cases k) (auto simp: checked_pow10_def split: if_splits)
  then show ?thesis by simp
qed

text \<open>A coarser rate is the nearest one, halves up.\<close>
lemma rescale_rounds:
  assumes "rescale_minor_units value from_p to_p = Some r" "to_p < from_p" "0 \<le> value"
  shows "\<exists>factor. checked_pow10 (from_p - to_p) = Some factor
    \<and> - factor \<le> 2 * (value - r * factor) \<and> 2 * (value - r * factor) < factor"
proof -
  obtain f where f: "checked_pow10 (from_p - to_p) = Some f"
    "r = value div f + (if f div 2 \<le> value - value div f * f then 1 else 0)"
    using assms checked_pow10_pos by (fastforce simp: rescale_minor_units_def Let_def split: option.splits)
  have pos: "10 \<le> f" "even f" using checked_pow10_pos[OF f(1)] assms(2) by simp_all
  have "value - value div f * f = value mod f" by (simp add: minus_div_mult_eq_mod)
  moreover have "0 \<le> value mod f" "value mod f < f" using pos by simp_all
  moreover have "2 * (f div 2) = f" using pos(2) by simp
  moreover have "r * f = value div f * f + (if f div 2 \<le> value - value div f * f then f else 0)"
    unfolding f(2) by (simp add: distrib_right)
  ultimately have "- f \<le> 2 * (value - r * f)" "2 * (value - r * f) < f" by (auto split: if_splits)
  then show ?thesis using f(1) by auto
qed

text \<open>Which upstream answer a rate comes from.\<close>
definition quoted_by :: "pricer_reply \<Rightarrow> int \<Rightarrow> bool" where
  "quoted_by reply minor \<longleftrightarrow> (\<exists>e ceiling. reply = Answer (Some e) None
     \<and> minor_per_btc_from_element e = Inr minor \<and> max_minor_per_btc (re_to_currency e) = Some ceiling
     \<and> 1 \<le> minor \<and> minor \<le> ceiling)"

lemma fetched_is_quoted: "fetch_from_upstream unow reply = Inr v \<Longrightarrow> quoted_by reply (rv_minor_per_btc v)"
  by (auto simp: fetch_from_upstream_def quoted_by_def validate_rate_def
      split: pricer_reply.splits option.splits sum.splits if_splits)

record rate_request =
  rq_now :: int
  rq_unix :: int
  rq_reply :: pricer_reply
  rq_currency :: string

text \<open>The answers to a sequence of requests, each with what the upstream would say then.\<close>
fun serve_rates :: "pricer_config \<Rightarrow> rate_request list \<Rightarrow> rate_cache \<Rightarrow> rate_view option list" where
  "serve_rates cfg [] cache = []"
| "serve_rates cfg (q # qs) cache =
    (case get_rate cfg (rq_now q) (rq_unix q) (rq_reply q) (rq_currency q) cache of
       (r, cache') \<Rightarrow> r # serve_rates cfg qs cache')"

definition cache_quoted :: "pricer_reply set \<Rightarrow> rate_cache \<Rightarrow> bool" where
  "cache_quoted R cache \<longleftrightarrow> (\<forall>c e. cache c = Some e \<longrightarrow> (\<exists>reply\<in>R. quoted_by reply (cr_minor_per_btc e)))"

lemma cache_quoted_mono: "cache_quoted R cache \<Longrightarrow> cache_quoted (insert q R) cache"
  unfolding cache_quoted_def by blast

lemma cache_quoted_upd:
  "cache_quoted R cache \<Longrightarrow> q \<in> R \<Longrightarrow> quoted_by q (cr_minor_per_btc e) \<Longrightarrow> cache_quoted R (cache(c \<mapsto> e))"
  unfolding cache_quoted_def by auto

lemma cache_quotedD: "cache_quoted R cache \<Longrightarrow> cache c = Some e \<Longrightarrow> \<exists>q\<in>R. quoted_by q (cr_minor_per_btc e)"
  unfolding cache_quoted_def by blast

lemma get_rate_quoted:
  assumes "get_rate cfg now unow reply currency cache = (r, cache')" "cache_quoted R cache"
  shows "cache_quoted (insert reply R) cache'"
    and "r = Some v \<Longrightarrow> \<exists>q\<in>insert reply R. quoted_by q (rv_minor_per_btc v)"
proof -
  note keep = cache_quoted_mono[OF assms(2), of reply]
  have "cache_quoted (insert reply R) cache' \<and> (r = Some v \<longrightarrow> (\<exists>q\<in>insert reply R. quoted_by q (rv_minor_per_btc v)))"
  proof (cases "fetch_from_upstream unow reply")
    case (Inl e)
    then have "cache' = cache" "r = Some v \<Longrightarrow> \<exists>c stale e. cache c = Some e \<and> v = cached_view c stale e"
      using assms(1) by (auto simp: get_rate_def Let_def split: option.splits if_splits)
    moreover have "rv_minor_per_btc (cached_view c stale e) = cr_minor_per_btc e" for c stale e
      by (simp add: cached_view_def)
    ultimately show ?thesis using keep cache_quotedD[OF keep] by metis
  next
    case (Inr w)
    show ?thesis using assms(1) Inr fetched_is_quoted[OF Inr] keep
      by (auto simp: get_rate_def Let_def cached_view_def split: option.splits if_splits
          intro!: cache_quoted_upd dest: cache_quotedD)
  qed
  then show "cache_quoted (insert reply R) cache'"
    and "r = Some v \<Longrightarrow> \<exists>q\<in>insert reply R. quoted_by q (rv_minor_per_btc v)" by blast+
qed

lemma serve_rates_quoted:
  "cache_quoted R cache \<Longrightarrow> Some v \<in> set (serve_rates cfg qs cache)
   \<Longrightarrow> \<exists>q\<in>R \<union> rq_reply ` set qs. quoted_by q (rv_minor_per_btc v)"
proof (induction qs arbitrary: R cache)
  case (Cons q qs)
  obtain r cache' where g: "get_rate cfg (rq_now q) (rq_unix q) (rq_reply q) (rq_currency q) cache = (r, cache')"
    by fastforce
  note step = get_rate_quoted[OF g Cons.prems(1)]
  from Cons.prems(2) consider "r = Some v" | "Some v \<in> set (serve_rates cfg qs cache')" by (auto simp: g)
  then show ?case
  proof cases
    case 1
    then show ?thesis using step(2) by auto
  next
    case 2
    then show ?thesis using Cons.IH[OF step(1) 2] by auto
  qed
qed simp

text \<open>Every rate the pricer serves, fresh, cached or last-known, after any requests and
  any upstream behaviour, is one an upstream answer of the run quoted, rescaled
  to this server's minor units, at least 1 and within the ceiling of the
  currency that answer named.\<close>
theorem served_rates_are_quoted:
  assumes "Some v \<in> set (serve_rates cfg qs (\<lambda>c. None))"
  shows "\<exists>q\<in>set qs. \<exists>e ceiling. rq_reply q = Answer (Some e) None
    \<and> rescale_minor_units (re_index_price e) (re_precision e) (currency_precision (re_to_currency e))
        = Some (rv_minor_per_btc v)
    \<and> max_minor_per_btc (re_to_currency e) = Some ceiling
    \<and> 1 \<le> rv_minor_per_btc v \<and> rv_minor_per_btc v \<le> ceiling"
proof -
  have "cache_quoted {} (\<lambda>c. None)" by (simp add: cache_quoted_def)
  from serve_rates_quoted[OF this assms] obtain q where q: "q \<in> set qs" "quoted_by (rq_reply q) (rv_minor_per_btc v)"
    by auto
  then show ?thesis
    by (intro bexI[OF _ q(1)])
      (auto simp: quoted_by_def minor_per_btc_from_element_def Let_def split: option.splits)
qed

definition demo_pricer :: pricer_config where
  "demo_pricer = \<lparr>pc_url = ''https://pricer'', pc_cache_ttl_secs = 60, pc_supported_currencies = [''usd'', ''COP'']\<rparr>"

definition demo_quote :: "int \<Rightarrow> pricer_reply \<Rightarrow> rate_request" where
  "demo_quote t reply = \<lparr>rq_now = secs t, rq_unix = t, rq_reply = reply, rq_currency = '' cop ''\<rparr>"

definition demo_cop :: rate_element where
  "demo_cop = \<lparr>re_to_currency = ''COP'', re_index_price = 41150, re_precision = 2\<rparr>"

definition demo_stale :: rate_view where
  "demo_stale = \<lparr>rv_currency = ''COP'', rv_minor_per_btc = 412, rv_precision = 0, rv_fetched_at_unix = 0,
     rv_last_known_rate = True\<rparr>"

lemma demo_codes: "normalize_currency_code '' cop '' = ''COP''" "normalize_currency_code ''COP'' = ''COP''"
  by code_simp+

lemma demo_rates:
  "serve_rates demo_pricer [demo_quote 0 (Answer (Some demo_cop) None), demo_quote 90 (Failed (Transport ''down''))]
     (\<lambda>c. None) = [Some (demo_stale\<lparr>rv_last_known_rate := False\<rparr>), Some demo_stale]"
  by (simp add: demo_quote_def demo_stale_def demo_cop_def demo_pricer_def get_rate_def Let_def
      demo_codes fetch_from_upstream_def
      minor_per_btc_from_element_def currency_precision_def rescale_minor_units_def checked_pow10_def
      validate_rate_def max_minor_per_btc_def cached_view_def secs_def)

lemma served_rates_are_quoted_witness:
  "1 \<le> rv_minor_per_btc demo_stale"
proof -
  have "Some demo_stale \<in> set (serve_rates demo_pricer
      [demo_quote 0 (Answer (Some demo_cop) None), demo_quote 90 (Failed (Transport ''down''))] (\<lambda>c. None))"
    unfolding demo_rates by simp
  from served_rates_are_quoted[OF this] show ?thesis by blast
qed

text \<open>The answer's currency is not compared with the one asked for: a quote in
  another currency is cached and served under the requested code.\<close>
lemma foreign_quote_is_served:
  assumes "fetch_from_upstream unow (Answer (Some e) None) = Inr v"
    and "cache (normalize_currency_code currency) = None"
    and "get_rate cfg now unow (Answer (Some e) None) currency cache = (r, cache')"
    and "normalize_currency_code (normalize_currency_code currency) = normalize_currency_code currency"
    and "0 < pc_cache_ttl_secs cfg"
  shows "\<exists>w. get_rate cfg now unow reply (normalize_currency_code currency) cache' = (Some w, cache')
    \<and> rv_currency w = normalize_currency_code currency \<and> rv_minor_per_btc w = rv_minor_per_btc v"
  using assms by (auto simp: get_rate_def Let_def cached_view_def secs_def)

end
