(* ===== verification/Utxo.thy ===== *)
theory Utxo
  imports BitcoinWatcher
begin

text \<open>
  Proof of funds and the Electrum backend: src/src/utxo.rs, and descriptor
  derivation: src/src/descriptor.rs.  The curve, the hashes, the transaction
  codec, the descriptor library and each server's connection are arguments;
  the JSON of a reply is the list of the entries the code reads from it.
\<close>

subsection \<open>Descriptors\<close>

record 'd descriptor_lib =
  dl_parse :: "string \<Rightarrow> string + 'd"
  dl_address :: "'d \<Rightarrow> nat \<Rightarrow> string + string"
  dl_address_script :: "string \<Rightarrow> string + string"
  dl_blinding :: "'d \<Rightarrow> string \<Rightarrow> string option"

definition derive_address :: "'d descriptor_lib \<Rightarrow> string \<Rightarrow> nat \<Rightarrow> app_error + string" where
  "derive_address l ct_descriptor index =
    (case dl_parse l ct_descriptor of
       Inl e \<Rightarrow> Inl (InvalidDescriptor e)
     | Inr d \<Rightarrow>
        (case dl_address l d index of
           Inl e \<Rightarrow> Inl (InvalidDescriptor (''address derivation failed: '' @ e))
         | Inr a \<Rightarrow> Inr a))"

definition derive_blinding_key_hex :: "'d descriptor_lib \<Rightarrow> string \<Rightarrow> string \<Rightarrow> app_error + string" where
  "derive_blinding_key_hex l ct_descriptor liquid_address =
    (case dl_parse l ct_descriptor of
       Inl e \<Rightarrow> Inl (InvalidDescriptor e)
     | Inr d \<Rightarrow>
        (case dl_address_script l liquid_address of
           Inl e \<Rightarrow> Inl (InvalidDescriptor (''liquid address parse failed: '' @ e))
         | Inr script \<Rightarrow>
            (case dl_blinding l d script of
               None \<Rightarrow> Inl (InvalidDescriptor ''descriptor cannot derive blinding key'')
             | Some k \<Rightarrow> Inr k)))"

definition validate_descriptor :: "'d descriptor_lib \<Rightarrow> string \<Rightarrow> nat \<Rightarrow> app_error + unit" where
  "validate_descriptor l ct_descriptor max_len =
    (if max_len < length ct_descriptor
     then Inl (InvalidDescriptor (''descriptor exceeds maximum length of '' @ show_nat max_len))
     else map_sum id (\<lambda>_. ()) (derive_address l ct_descriptor 0))"

subsection \<open>Ownership proofs\<close>

record ('pk, 'sg) ownership_lib =
  ol_sha256 :: "string \<Rightarrow> string"
  ol_pubkey :: "string \<Rightarrow> string + 'pk"
  ol_hex :: "string \<Rightarrow> string + string"
  ol_sig_der :: "string \<Rightarrow> string + 'sg"
  ol_verify :: "string \<Rightarrow> 'sg \<Rightarrow> 'pk \<Rightarrow> bool"
  ol_p2wpkh :: "'pk \<Rightarrow> string"

definition ownership_message :: "string \<Rightarrow> string \<Rightarrow> string \<Rightarrow> string" where
  "ownership_message tag nym outpoint = tag @ nym @ outpoint"

definition ownership_message_digest ::
  "('pk, 'sg) ownership_lib \<Rightarrow> string \<Rightarrow> string \<Rightarrow> string \<Rightarrow> string" where
  "ownership_message_digest l tag nym outpoint = ol_sha256 l (ownership_message tag nym outpoint)"

definition verify_ownership_sig ::
  "('pk, 'sg) ownership_lib \<Rightarrow> string \<Rightarrow> string \<Rightarrow> string \<Rightarrow> string \<Rightarrow> string \<Rightarrow> app_error + 'pk" where
  "verify_ownership_sig l tag nym outpoint pubkey_hex sig_der_hex =
    (case ol_pubkey l pubkey_hex of
       Inl e \<Rightarrow> Inl (ProofOfFundsInvalid (''pubkey parse: '' @ e))
     | Inr pk \<Rightarrow>
        (case ol_hex l sig_der_hex of
           Inl e \<Rightarrow> Inl (ProofOfFundsInvalid (''sig hex: '' @ e))
         | Inr bytes \<Rightarrow>
            (case ol_sig_der l bytes of
               Inl e \<Rightarrow> Inl (ProofOfFundsInvalid (''sig der: '' @ e))
             | Inr sg \<Rightarrow>
                if ol_verify l (ownership_message_digest l tag nym outpoint) sg pk then Inr pk
                else Inl (ProofOfFundsInvalid ''signature verification failed''))))"

definition script_matches_pubkey :: "('pk, 'sg) ownership_lib \<Rightarrow> string \<Rightarrow> 'pk \<Rightarrow> bool" where
  "script_matches_pubkey l script pk \<longleftrightarrow> script = ol_p2wpkh l pk"

record parsed_outpoint =
  op_txid_hex :: string
  op_vout :: nat

text \<open>\<open>str::split_once\<close>.\<close>
fun split_once :: "char \<Rightarrow> string \<Rightarrow> (string \<times> string) option" where
  "split_once sep [] = None"
| "split_once sep (ch # s) =
    (if ch = sep then Some ([], s) else map_option (\<lambda>(a, b). (ch # a, b)) (split_once sep s))"

definition parse_outpoint :: "string \<Rightarrow> app_error + parsed_outpoint" where
  "parse_outpoint s =
    (case split_once CHR '':'' s of
       None \<Rightarrow> Inl (ProofOfFundsInvalid ''outpoint must be txid:vout'')
     | Some (txid, vout) \<Rightarrow>
        if \<not> is_hex64 txid then Inl (ProofOfFundsInvalid ''outpoint txid must be 64 hex chars'')
        else (case parse_u32 vout of
                None \<Rightarrow> Inl (ProofOfFundsInvalid ''outpoint vout must be u32'')
              | Some v \<Rightarrow> Inr \<lparr>op_txid_hex = txid, op_vout = v\<rparr>))"

subsection \<open>The raw-transaction cache\<close>

text \<open>Entries are (txid, (inserted, bytes)), one per txid.  The eviction takes the first
  oldest entry; the map's iteration order among equals is not modelled.\<close>
type_synonym tx_cache = "(string \<times> int \<times> string) list"

definition cache_get :: "int \<Rightarrow> string \<Rightarrow> int \<Rightarrow> tx_cache \<Rightarrow> string option \<times> tx_cache" where
  "cache_get now key ttl c =
    (case map_of c key of
       Some (inserted, bytes) \<Rightarrow>
         if now - inserted \<le> ttl then (Some bytes, c) else (None, AList.delete key c)
     | None \<Rightarrow> (None, AList.delete key c))"

fun oldest :: "tx_cache \<Rightarrow> (string \<times> int) option" where
  "oldest [] = None"
| "oldest ((k, t, b) # c) =
    (case oldest c of None \<Rightarrow> Some (k, t) | Some (k', t') \<Rightarrow> if t \<le> t' then Some (k, t) else Some (k', t'))"

definition cache_insert :: "int \<Rightarrow> string \<Rightarrow> string \<Rightarrow> nat \<Rightarrow> tx_cache \<Rightarrow> tx_cache" where
  "cache_insert now key bytes max_entries c =
    (let c' = (if max_entries \<le> length c
               then (case oldest c of Some (k, t) \<Rightarrow> AList.delete k c | None \<Rightarrow> c) else c)
     in AList.update key (now, bytes) c')"

subsection \<open>Reconnecting\<close>

datatype electrum_error = Protocol string | Message string

fun electrum_error_text :: "electrum_error \<Rightarrow> string" where
  "electrum_error_text (Protocol e) = e"
| "electrum_error_text (Message e) = e"

record conn_state =
  cs_connected :: bool
  cs_url_idx :: nat

text \<open>Startup: the first server that connects, or none.\<close>
definition electrum_connect :: "(nat \<Rightarrow> bool) \<Rightarrow> nat \<Rightarrow> app_error + conn_state" where
  "electrum_connect reachable urls =
    (if urls = 0 then Inl (ElectrumError ''liquid_urls is empty'')
     else case List.find reachable [0..<urls] of
       Some i \<Rightarrow> Inr \<lparr>cs_connected = True, cs_url_idx = i\<rparr>
     | None \<Rightarrow> Inr \<lparr>cs_connected = False, cs_url_idx = 0\<rparr>)"

text \<open>The inner loop, \<open>left\<close> steps around the ring; \<open>connect\<close> is asked per step and server.\<close>
fun reconnect ::
  "(nat \<Rightarrow> nat \<Rightarrow> electrum_error option) \<Rightarrow> nat \<Rightarrow> nat \<Rightarrow> nat \<Rightarrow> electrum_error option
    \<Rightarrow> conn_state \<times> electrum_error option" where
  "reconnect connect urls 0 idx err = (\<lparr>cs_connected = False, cs_url_idx = idx\<rparr>, err)"
| "reconnect connect urls (Suc left) idx err =
    (case connect left idx of
       None \<Rightarrow> (\<lparr>cs_connected = True, cs_url_idx = idx\<rparr>, err)
     | Some e \<Rightarrow> reconnect connect urls left ((idx + 1) mod urls) (Some e))"

text \<open>The attempts; \<open>perform\<close> is the operation over the live connection: an answer, a
  protocol error of a healthy server, or a transport error.\<close>
fun run_attempts ::
  "(nat \<Rightarrow> nat \<Rightarrow> nat \<Rightarrow> electrum_error option) \<Rightarrow> (nat \<Rightarrow> nat \<Rightarrow> electrum_error + 'a) \<Rightarrow> nat \<Rightarrow> nat
    \<Rightarrow> conn_state \<Rightarrow> electrum_error option \<Rightarrow> (electrum_error + 'a) \<times> conn_state" where
  "run_attempts connect perform urls 0 st err =
    (Inl (case err of Some e \<Rightarrow> e | None \<Rightarrow> Message ''electrum retries exhausted''), st)"
| "run_attempts connect perform urls (Suc left) st err =
    (let (st1, err1) = (if cs_connected st then (st, err)
                        else reconnect (connect left) urls urls (cs_url_idx st) err)
     in if \<not> cs_connected st1
        then (Inl (case err1 of Some e \<Rightarrow> e | None \<Rightarrow> Message ''no electrum urls reachable''), st1)
        else (case perform left (cs_url_idx st1) of
                Inr v \<Rightarrow> (Inr v, st1)
              | Inl (Protocol p) \<Rightarrow> (Inl (Protocol p), st1)
              | Inl e \<Rightarrow> run_attempts connect perform urls left
                  \<lparr>cs_connected = False, cs_url_idx = (cs_url_idx st1 + 1) mod urls\<rparr> (Some e)))"

definition run_op_blocking ::
  "(nat \<Rightarrow> nat \<Rightarrow> nat \<Rightarrow> electrum_error option) \<Rightarrow> (nat \<Rightarrow> nat \<Rightarrow> electrum_error + 'a) \<Rightarrow> nat
    \<Rightarrow> conn_state \<Rightarrow> (electrum_error + 'a) \<times> conn_state" where
  "run_op_blocking connect perform urls st = run_attempts connect perform urls (max urls 2) st None"

subsection \<open>The backend\<close>

record electrum_client =
  el_urls :: nat
  el_state :: conn_state
  el_cache :: tx_cache
  el_cache_ttl :: int
  el_cache_max :: nat

text \<open>What the servers would answer: \<open>None\<close> for a reply that is not a JSON array, and an
  entry without the field the code reads as \<open>None\<close>.\<close>
record electrum_world =
  ew_connect :: "nat \<Rightarrow> nat \<Rightarrow> nat \<Rightarrow> electrum_error option"
  ew_raw_tx :: "string \<Rightarrow> nat \<Rightarrow> nat \<Rightarrow> electrum_error + string"
  ew_unspent :: "string \<Rightarrow> nat \<Rightarrow> nat \<Rightarrow> electrum_error + (string option \<times> nat option) list option"
  ew_history :: "string \<Rightarrow> nat \<Rightarrow> nat \<Rightarrow> electrum_error + string option list option"
  ew_txid_ok :: "string \<Rightarrow> string option"

definition ec_get_raw_tx ::
  "electrum_world \<Rightarrow> int \<Rightarrow> string \<Rightarrow> electrum_client \<Rightarrow> (app_error + string) \<times> electrum_client" where
  "ec_get_raw_tx w now txid_hex c =
    (case cache_get now txid_hex (el_cache_ttl c) (el_cache c) of
       (Some bytes, cache) \<Rightarrow> (Inr bytes, c\<lparr>el_cache := cache\<rparr>)
     | (None, cache) \<Rightarrow>
        (let c1 = c\<lparr>el_cache := cache\<rparr> in
         case ew_txid_ok w txid_hex of
           Some e \<Rightarrow> (Inl (ProofOfFundsInvalid (''txid parse: '' @ e)), c1)
         | None \<Rightarrow>
            (case run_op_blocking (ew_connect w) (ew_raw_tx w txid_hex) (el_urls c) (el_state c) of
               (Inl (Protocol p), st) \<Rightarrow> (Inl UtxoNotFound, c1\<lparr>el_state := st\<rparr>)
             | (Inl e, st) \<Rightarrow>
                 (Inl (ElectrumError (''transaction_get_raw: '' @ electrum_error_text e)), c1\<lparr>el_state := st\<rparr>)
             | (Inr bytes, st) \<Rightarrow>
                 (Inr bytes, c1\<lparr>el_state := st, el_cache := cache_insert now txid_hex bytes (el_cache_max c) cache\<rparr>))))"

definition ec_is_unspent ::
  "electrum_world \<Rightarrow> string \<Rightarrow> string \<Rightarrow> nat \<Rightarrow> electrum_client \<Rightarrow> (app_error + bool) \<times> electrum_client" where
  "ec_is_unspent w script txid_hex vout c =
    (case run_op_blocking (ew_connect w) (ew_unspent w script) (el_urls c) (el_state c) of
       (Inl e, st) \<Rightarrow> (Inl (ElectrumError (''scripthash.listunspent: '' @ electrum_error_text e)), c\<lparr>el_state := st\<rparr>)
     | (Inr None, st) \<Rightarrow>
         (Inl (ElectrumError ''scripthash.listunspent: expected JSON array response''), c\<lparr>el_state := st\<rparr>)
     | (Inr (Some utxos), st) \<Rightarrow>
         (Inr (list_ex (\<lambda>(h, p). h = Some txid_hex \<and> p = Some vout) utxos), c\<lparr>el_state := st\<rparr>))"

definition ec_history ::
  "electrum_world \<Rightarrow> string \<Rightarrow> electrum_client \<Rightarrow> (app_error + string option list) \<times> electrum_client" where
  "ec_history w script c =
    (case run_op_blocking (ew_connect w) (ew_history w script) (el_urls c) (el_state c) of
       (Inl e, st) \<Rightarrow> (Inl (ElectrumError (''scripthash.get_history: '' @ electrum_error_text e)), c\<lparr>el_state := st\<rparr>)
     | (Inr None, st) \<Rightarrow>
         (Inl (ElectrumError ''scripthash.get_history: expected JSON array response''), c\<lparr>el_state := st\<rparr>)
     | (Inr (Some h), st) \<Rightarrow> (Inr h, c\<lparr>el_state := st\<rparr>))"

definition ec_has_history ::
  "electrum_world \<Rightarrow> string \<Rightarrow> electrum_client \<Rightarrow> (app_error + bool) \<times> electrum_client" where
  "ec_has_history w script c =
    (case ec_history w script c of (Inl e, c') \<Rightarrow> (Inl e, c') | (Inr h, c') \<Rightarrow> (Inr (h \<noteq> []), c'))"

fun history_entries :: "string option list \<Rightarrow> app_error + string list" where
  "history_entries [] = Inr []"
| "history_entries (None # h) = Inl (ElectrumError ''scripthash.get_history: entry missing tx_hash'')"
| "history_entries (Some t # h) = map_sum id (\<lambda>ts. t # ts) (history_entries h)"

definition ec_history_txids ::
  "electrum_world \<Rightarrow> string \<Rightarrow> electrum_client \<Rightarrow> (app_error + string list) \<times> electrum_client" where
  "ec_history_txids w script c =
    (case ec_history w script c of (Inl e, c') \<Rightarrow> (Inl e, c') | (Inr h, c') \<Rightarrow> (history_entries h, c'))"

text \<open>A decoded transaction: its id and the outpoints it spends.\<close>
definition transaction_spends_outpoint :: "string \<times> (string \<times> nat) list \<Rightarrow> string \<Rightarrow> nat \<Rightarrow> bool" where
  "transaction_spends_outpoint tx txid_hex vout = list_ex (\<lambda>(t, v). t = txid_hex \<and> v = vout) (snd tx)"

fun find_spender ::
  "electrum_world \<Rightarrow> (string \<Rightarrow> string + (string \<times> (string \<times> nat) list)) \<Rightarrow> int \<Rightarrow> string \<Rightarrow> nat
    \<Rightarrow> string list \<Rightarrow> electrum_client \<Rightarrow> (app_error + string option) \<times> electrum_client" where
  "find_spender w decode now txid_hex vout [] c = (Inr None, c)"
| "find_spender w decode now txid_hex vout (t # ts) c =
    (case ec_get_raw_tx w now t c of
       (Inl e, c') \<Rightarrow> (Inl e, c')
     | (Inr raw, c') \<Rightarrow>
        (case decode raw of
           Inl e \<Rightarrow> (Inl (ElectrumError (''liquid tx decode: '' @ e)), c')
         | Inr tx \<Rightarrow>
            if transaction_spends_outpoint tx txid_hex vout then (Inr (Some (fst tx)), c')
            else find_spender w decode now txid_hex vout ts c'))"

definition ec_find_spending_txid ::
  "electrum_world \<Rightarrow> (string \<Rightarrow> string + (string \<times> (string \<times> nat) list)) \<Rightarrow> int \<Rightarrow> string \<Rightarrow> string \<Rightarrow> nat
    \<Rightarrow> electrum_client \<Rightarrow> (app_error + string option) \<times> electrum_client" where
  "ec_find_spending_txid w decode now script txid_hex vout c =
    (case ec_history_txids w script c of
       (Inl e, c') \<Rightarrow> (Inl e, c')
     | (Inr ts, c') \<Rightarrow> find_spender w decode now txid_hex vout ts c')"

definition tx_exists ::
  "electrum_world \<Rightarrow> int \<Rightarrow> string \<Rightarrow> electrum_client \<Rightarrow> (app_error + bool) \<times> electrum_client" where
  "tx_exists w now txid_hex c =
    (case ec_get_raw_tx w now txid_hex c of
       (Inr raw, c') \<Rightarrow> (Inr True, c')
     | (Inl e, c') \<Rightarrow> (if e = UtxoNotFound then Inr False else Inl e, c'))"

text \<open>\<open>sha\<close> is the digest's bytes, \<open>encode\<close> hex.\<close>
definition electrum_scripthash_hex :: "(string \<Rightarrow> string) \<Rightarrow> (string \<Rightarrow> string) \<Rightarrow> string \<Rightarrow> string" where
  "electrum_scripthash_hex sha encode script = encode (rev (sha script))"

end
