(* ===== verification/UtxoProperties.thy ===== *)
theory UtxoProperties
  imports Utxo
begin

text \<open>
  What the Electrum retry loop and the outpoint parser guarantee.
\<close>

subsection \<open>Retries\<close>

text \<open>A server that a fresh connection reaches and that answers.\<close>
definition answering :: "(nat \<Rightarrow> electrum_error option) \<Rightarrow> (nat \<Rightarrow> electrum_error + 'a) \<Rightarrow> nat \<Rightarrow> bool" where
  "answering c f i \<longleftrightarrow> c i = None \<and> (\<forall>e. f i \<noteq> Inl (Message e))"

lemma reconnect_finds:
  assumes "c ((idx + d) mod n) = None" "d < left" "idx < n"
  shows "\<exists>k err'. k \<le> d \<and> c ((idx + k) mod n) = None
    \<and> reconnect (\<lambda>_. c) n left idx err = (\<lparr>cs_connected = True, cs_url_idx = (idx + k) mod n\<rparr>, err')"
  using assms
proof (induction left arbitrary: idx d err)
  case (Suc left)
  show ?case
  proof (cases "c idx")
    case None
    then show ?thesis using Suc.prems(3) by (intro exI[of _ 0] exI[of _ err]) simp
  next
    case (Some e)
    then obtain d' where d: "d = Suc d'" using Suc.prems by (cases d) auto
    have "c (((idx + 1) mod n + d') mod n) = None" using Suc.prems(1) d by (simp add: mod_add_left_eq)
    moreover have "d' < left" "(idx + 1) mod n < n" using Suc.prems d by simp_all
    ultimately obtain k err' where k: "k \<le> d'" "c (((idx + 1) mod n + k) mod n) = None"
      "reconnect (\<lambda>_. c) n left ((idx + 1) mod n) (Some e)
        = (\<lparr>cs_connected = True, cs_url_idx = ((idx + 1) mod n + k) mod n\<rparr>, err')"
      using Suc.IH[of "(idx + 1) mod n" d' "Some e"] by blast
    moreover have "((idx + 1) mod n + k) mod n = (idx + Suc k) mod n" by (simp add: mod_add_left_eq)
    ultimately show ?thesis using Some d by (intro exI[of _ "Suc k"] exI[of _ err']) simp
  qed
qed simp

lemma attempts_answer:
  assumes "answering c f ((idx + d) mod n)" "d < left" "left \<le> n \<or> d = 0" "idx < n" "d < n"
  shows "\<exists>j<n. answering c f j \<and> fst (run_attempts (\<lambda>_ _. c) (\<lambda>_. f) n left
    \<lparr>cs_connected = False, cs_url_idx = idx\<rparr> err) = f j"
  using assms
proof (induction left arbitrary: idx d err)
  case (Suc left)
  have "c ((idx + d) mod n) = None" using Suc.prems(1) by (simp add: answering_def)
  from reconnect_finds[of c idx d n n err, OF this Suc.prems(5,4)] obtain k err' where k: "k \<le> d" "c ((idx + k) mod n) = None"
    "reconnect (\<lambda>_. c) n n idx err = (\<lparr>cs_connected = True, cs_url_idx = (idx + k) mod n\<rparr>, err')" by blast
  let ?j = "(idx + k) mod n"
  have j: "?j < n" using Suc.prems(4) by simp
  show ?case
  proof (cases "\<exists>e. f ?j = Inl (Message e)")
    case False
    then have "answering c f ?j" using k(2) by (simp add: answering_def)
    moreover have "fst (run_attempts (\<lambda>_ _. c) (\<lambda>_. f) n (Suc left)
        \<lparr>cs_connected = False, cs_url_idx = idx\<rparr> err) = f ?j"
      using False k(3) by (auto simp: Let_def split: sum.split electrum_error.split)
    ultimately show ?thesis using j by blast
  next
    case True
    then obtain e where e: "f ?j = Inl (Message e)" by blast
    have "k \<noteq> d" using Suc.prems(1) e by (auto simp: answering_def)
    then obtain d' where d: "d = k + Suc d'" using k(1) by (metis add_Suc_right le_add_diff_inverse less_imp_Suc_add nat_less_le)
    have next_idx: "((?j + 1) mod n + d') mod n = (idx + d) mod n"
      unfolding d by (simp add: mod_simps algebra_simps)
    have "fst (run_attempts (\<lambda>_ _. c) (\<lambda>_. f) n (Suc left) \<lparr>cs_connected = False, cs_url_idx = idx\<rparr> err)
      = fst (run_attempts (\<lambda>_ _. c) (\<lambda>_. f) n left
          \<lparr>cs_connected = False, cs_url_idx = (?j + 1) mod n\<rparr> (Some (Message e)))"
      using e k(3) by (simp add: Let_def)
    moreover have "\<exists>j<n. answering c f j \<and> fst (run_attempts (\<lambda>_ _. c) (\<lambda>_. f) n left
        \<lparr>cs_connected = False, cs_url_idx = (?j + 1) mod n\<rparr> (Some (Message e))) = f j"
      by (rule Suc.IH[of _ d']) (use Suc.prems d next_idx in \<open>auto\<close>)
    ultimately show ?thesis by simp
  qed
qed simp

text \<open>C18: With no live connection, an Electrum call returns what some server of the list
  answers, result or protocol error, whenever any server of the list can be
  reached and answers; it fails only when none does.\<close>
theorem electrum_call_answers:
  assumes "i < urls" "answering c f i" "\<not> cs_connected st" "cs_url_idx st < urls"
  shows "\<exists>j<urls. answering c f j \<and> fst (run_op_blocking (\<lambda>_ _. c) (\<lambda>_. f) urls st) = f j"
proof -
  let ?idx = "cs_url_idx st"
  define d where "d = (i + (urls - ?idx)) mod urls"
  have d: "d < urls" using assms(1) unfolding d_def by simp
  have "(?idx + d) mod urls = (?idx + (i + (urls - ?idx))) mod urls" unfolding d_def by (simp add: mod_add_right_eq)
  also have "?idx + (i + (urls - ?idx)) = i + urls" using assms(4) by simp
  finally have "(?idx + d) mod urls = i" using assms(1) by simp
  then have "answering c f ((?idx + d) mod urls)" using assms(2) by simp
  moreover have "st = \<lparr>cs_connected = False, cs_url_idx = ?idx\<rparr>" using assms(3) by (cases st) simp
  moreover have "d < max urls 2" "max urls 2 \<le> urls \<or> d = 0" using d by auto
  ultimately show ?thesis
    using attempts_answer[of c f ?idx d urls "max urls 2" None] assms(4) d unfolding run_op_blocking_def by simp
qed

lemma electrum_call_answers_witness:
  "\<exists>j<3. answering (\<lambda>i. if i = 1 then Some (Message ''refused'') else None)
      (\<lambda>i. if i = 2 then Inr ''tx'' else Inl (Message ''eof'')) j
    \<and> fst (run_op_blocking (\<lambda>_ _ i. if i = 1 then Some (Message ''refused'') else None)
        (\<lambda>_ i. if i = 2 then Inr ''tx'' else Inl (Message ''eof'')) 3 \<lparr>cs_connected = False, cs_url_idx = 0\<rparr>)
      = (if j = 2 then Inr ''tx'' else Inl (Message ''eof''))"
  by (rule electrum_call_answers[of 2]) (simp_all add: answering_def)

text \<open>A stale connection spends the only attempt its server gets: with two servers, the
  other one down for the operation, a call over a stale connection fails
  although reconnecting would have succeeded.\<close>
lemma stale_server_not_retried:
  "fst (run_op_blocking (\<lambda>_ _ _. None)
      (\<lambda>attempts_left i. if i = 0 \<and> attempts_left = 0 then Inr ''tx'' else Inl (Message ''eof''))
      2 \<lparr>cs_connected = True, cs_url_idx = 0\<rparr>) = Inl (Message ''eof'')"
  by (simp add: run_op_blocking_def eval_nat_numeral Let_def)

subsection \<open>Outpoints\<close>

lemma split_once_first: "sep \<notin> set a \<Longrightarrow> split_once sep (a @ sep # b) = Some (a, b)"
  by (induction a) auto

text \<open>An outpoint has several accepted spellings: with a leading plus or leading zeros
  in the index it parses to the same outpoint, while the reservation table and
  the limiters are keyed by the spelling, so each spelling of one coin gets its
  own reservation.\<close>
theorem outpoint_spellings_reserve_again:
  assumes "is_hex64 txid" "parse_u32 vout = Some v" "vout \<noteq> []" "hd vout \<noteq> CHR ''+''"
    and "get_active_user_by_nym nym (us_users s) = Some u"
    and "get_outpoint_address nym (txid @ '':'' @ vout) (us_outpoints s) = Some a"
    and "get_outpoint_address nym (txid @ '':0'' @ vout) (us_outpoints s) = None"
    and "allocate_outpoint_address now nym (txid @ '':0'' @ vout) pk s = Inr (i, s')"
  shows "parse_outpoint (txid @ '':0'' @ vout) = parse_outpoint (txid @ '':'' @ vout)
    \<and> count_unfulfilled_reservations nym (us_outpoints s') = Suc (count_unfulfilled_reservations nym (us_outpoints s))"
proof
  have colon: "CHR '':'' \<notin> set txid"
    using assms(1) by (auto simp: is_hex64_def list_all_iff is_ascii_hexdigit_def Let_def)
  have "parse_u32 (CHR ''0'' # vout) = parse_u32 vout"
    using assms(2-4) by (cases vout) (auto simp: parse_u32_def digit_def u32_max_def split: if_splits)
  then show "parse_outpoint (txid @ '':0'' @ vout) = parse_outpoint (txid @ '':'' @ vout)"
    using split_once_first[OF colon, of vout] split_once_first[OF colon, of "CHR ''0'' # vout"]
    by (simp add: parse_outpoint_def)
  show "count_unfulfilled_reservations nym (us_outpoints s')
      = Suc (count_unfulfilled_reservations nym (us_outpoints s))"
    using assms(5,7,8) by (auto simp: allocate_outpoint_address_def count_unfulfilled_reservations_def)
qed

definition demo_outpoint_user :: user where
  "demo_outpoint_user = \<lparr>u_id = 1, u_nym = ''bob'', u_npub = ''k'', u_verification_npub = ''k'',
     u_ct_descriptor = ''d'', u_next_addr_idx = 4, u_is_active = True, u_created_at = 0,
     u_has_been_used = True, u_last_callback_at = None\<rparr>"

definition demo_reserved :: user_store where
  "demo_reserved = \<lparr>us_users = [demo_outpoint_user],
     us_outpoints = [\<lparr>oa_nym = ''bob'', oa_outpoint = replicate 64 CHR ''a'' @ '':'' @ ''5'', oa_addr_index = 3,
       oa_pubkey = Some ''pk'', oa_fulfilled = False, oa_created_at = 0\<rparr>]\<rparr>"

lemma outpoint_spellings_reserve_again_witness:
  "\<exists>s'. allocate_outpoint_address 7 ''bob'' (replicate 64 CHR ''a'' @ '':0'' @ ''5'') ''pk'' demo_reserved = Inr (4, s')
    \<and> count_unfulfilled_reservations ''bob'' (us_outpoints s') = 2"
proof -
  let ?t = "replicate 64 CHR ''a''"
  define a where "a = hd (us_outpoints demo_reserved)"
  have user: "get_active_user_by_nym ''bob'' (us_users demo_reserved) = Some demo_outpoint_user"
    by (simp add: demo_reserved_def demo_outpoint_user_def get_active_user_by_nym_def select_one_def)
  have kept: "get_outpoint_address ''bob'' (?t @ '':'' @ ''5'') (us_outpoints demo_reserved) = Some a"
    by (simp add: a_def demo_reserved_def get_outpoint_address_def select_one_def)
  have free: "get_outpoint_address ''bob'' (?t @ '':0'' @ ''5'') (us_outpoints demo_reserved) = None"
    by (simp add: demo_reserved_def get_outpoint_address_def select_one_def)
  obtain s' where s': "allocate_outpoint_address 7 ''bob'' (?t @ '':0'' @ ''5'') ''pk'' demo_reserved = Inr (4, s')"
    using user free by (simp add: allocate_outpoint_address_def demo_outpoint_user_def)
  have hex: "is_hex64 ?t"
    by (simp add: is_hex64_def is_ascii_hexdigit_def Let_def list_all_iff)
  have vout: "parse_u32 ''5'' = Some 5"
    by (simp add: parse_u32_def digit_def u32_max_def)
  have "count_unfulfilled_reservations ''bob'' (us_outpoints s')
      = Suc (count_unfulfilled_reservations ''bob'' (us_outpoints demo_reserved))"
    using outpoint_spellings_reserve_again[OF hex vout _ _ user kept free s'] by simp
  then show ?thesis
    using s' by (simp add: count_unfulfilled_reservations_def demo_reserved_def)
qed

end
