(* ===== verification/Boltz.thy ===== *)
theory Boltz
  imports AppErrors
begin

text \<open>
  Creating swaps at Boltz: src/src/boltz.rs.  Key derivation, preimages, the
  HTTP client and the check of a chain swap's scripts are those of the
  boltz_client crate, the fields of \<open>boltz_lib\<close>; keys and preimages are hex text.
\<close>

text \<open>The states of the two swap kinds the webhook subscribes to.\<close>
datatype rev_swap_state =
    R_TransactionMempool | R_TransactionConfirmed | R_InvoiceSettled | R_SwapExpired | R_TransactionFailed

datatype chain_swap_state =
    C_Created | C_TransactionZeroConfRejected | C_TransactionMempool | C_TransactionConfirmed
  | C_TransactionServerMempool | C_TransactionServerConfirmed | C_TransactionClaimed
  | C_TransactionLockupFailed | C_SwapExpired | C_TransactionFailed | C_TransactionRefunded

record reverse_request =
  rv_from :: string
  rv_to :: string
  rv_claim_public_key :: string
  rv_invoice_amount :: nat
  rv_preimage_hash :: string
  rv_description :: "string option"
  rv_description_hash :: "string option"
  rv_webhook :: "(string \<times> rev_swap_state list) option"

record reverse_response =
  rr_id :: string
  rr_invoice :: "string option"
  rr_json :: "string + string"

record chain_request =
  cq_from :: string
  cq_to :: string
  cq_preimage_hash :: string
  cq_claim_public_key :: string
  cq_refund_public_key :: string
  cq_user_lock_amount :: nat
  cq_webhook :: "(string \<times> chain_swap_state list) option"

record chain_response =
  cr_id :: string
  cr_lockup_address :: string
  cr_lockup_bip21 :: "string option"
  cr_lockup_amount :: nat
  cr_claim_amount :: nat
  cr_json :: "string + string"

record boltz_lib =
  bz_webhook_url :: "string option"
  bz_derive_swapkey :: "nat \<Rightarrow> string + string"
  bz_public_key :: "string \<Rightarrow> string"
  bz_preimage :: "string \<Rightarrow> string option"
  bz_preimage_sha256 :: "string \<Rightarrow> string"
  bz_post_reverse :: "reverse_request \<Rightarrow> string + reverse_response"
  bz_post_chain :: "chain_request \<Rightarrow> string + chain_response"
  bz_validate_chain :: "chain_response \<Rightarrow> string \<Rightarrow> string \<Rightarrow> string + unit"

record swap_result =
  sw_swap_id :: string
  sw_invoice :: string
  sw_preimage_hex :: string
  sw_claim_public_key :: string
  sw_claim_key_hex :: string
  sw_response :: reverse_response

record chain_swap_result =
  cw_swap_id :: string
  cw_lockup_address :: string
  cw_lockup_bip21 :: "string option"
  cw_user_lock_amount_sat :: nat
  cw_server_lock_amount_sat :: nat
  cw_preimage_hex :: string
  cw_claim_key_hex :: string
  cw_refund_key_hex :: string
  cw_response :: chain_response

definition reverse_webhook_states :: "rev_swap_state list" where
  "reverse_webhook_states = [R_TransactionMempool, R_TransactionConfirmed, R_InvoiceSettled,
     R_SwapExpired, R_TransactionFailed]"

definition chain_webhook_states :: "chain_swap_state list" where
  "chain_webhook_states = [C_Created, C_TransactionZeroConfRejected, C_TransactionMempool,
     C_TransactionConfirmed, C_TransactionServerMempool, C_TransactionServerConfirmed,
     C_TransactionClaimed, C_TransactionLockupFailed, C_SwapExpired, C_TransactionFailed,
     C_TransactionRefunded]"

definition create_reverse_swap ::
  "boltz_lib \<Rightarrow> nat \<Rightarrow> nat \<Rightarrow> string option \<Rightarrow> string option \<Rightarrow> app_error + swap_result" where
  "create_reverse_swap b swap_key_index amount_sat description description_hash =
    (case bz_derive_swapkey b swap_key_index of
       Inl e \<Rightarrow> Inl (BoltzError (''key derivation failed: '' @ e))
     | Inr keypair \<Rightarrow>
        (case bz_post_reverse b
           \<lparr>rv_from = ''BTC'', rv_to = ''L-BTC'', rv_claim_public_key = bz_public_key b keypair,
            rv_invoice_amount = amount_sat, rv_preimage_hash = bz_preimage_sha256 b keypair,
            rv_description = description, rv_description_hash = description_hash,
            rv_webhook = map_option (\<lambda>url. (url, reverse_webhook_states)) (bz_webhook_url b)\<rparr> of
           Inl e \<Rightarrow> Inl (BoltzError e)
         | Inr response \<Rightarrow>
            (case rr_invoice response of
               None \<Rightarrow> Inl (BoltzError ''no invoice returned'')
             | Some invoice \<Rightarrow> Inr
                 \<lparr>sw_swap_id = rr_id response, sw_invoice = invoice,
                  sw_preimage_hex = (case bz_preimage b keypair of None \<Rightarrow> [] | Some p \<Rightarrow> p),
                  sw_claim_public_key = bz_public_key b keypair, sw_claim_key_hex = keypair,
                  sw_response = response\<rparr>)))"

definition create_btc_to_lbtc_chain_swap ::
  "boltz_lib \<Rightarrow> nat \<Rightarrow> nat \<Rightarrow> nat \<Rightarrow> app_error + chain_swap_result" where
  "create_btc_to_lbtc_chain_swap b claim_key_index refund_key_index amount_sat =
    (case bz_derive_swapkey b claim_key_index of
       Inl e \<Rightarrow> Inl (BoltzError (''claim key derivation failed: '' @ e))
     | Inr claim \<Rightarrow>
    (case bz_derive_swapkey b refund_key_index of
       Inl e \<Rightarrow> Inl (BoltzError (''refund key derivation failed: '' @ e))
     | Inr refund \<Rightarrow>
    (case bz_post_chain b
       \<lparr>cq_from = ''BTC'', cq_to = ''L-BTC'', cq_preimage_hash = bz_preimage_sha256 b claim,
        cq_claim_public_key = bz_public_key b claim, cq_refund_public_key = bz_public_key b refund,
        cq_user_lock_amount = amount_sat,
        cq_webhook = map_option (\<lambda>url. (url, chain_webhook_states)) (bz_webhook_url b)\<rparr> of
       Inl e \<Rightarrow> Inl (BoltzError e)
     | Inr response \<Rightarrow>
        (case bz_validate_chain b response (bz_public_key b claim) (bz_public_key b refund) of
           Inl e \<Rightarrow> Inl (BoltzError (''invalid chain swap response: '' @ e))
         | Inr _ \<Rightarrow> Inr
             \<lparr>cw_swap_id = cr_id response, cw_lockup_address = cr_lockup_address response,
              cw_lockup_bip21 = cr_lockup_bip21 response, cw_user_lock_amount_sat = cr_lockup_amount response,
              cw_server_lock_amount_sat = cr_claim_amount response,
              cw_preimage_hex = (case bz_preimage b claim of None \<Rightarrow> [] | Some p \<Rightarrow> p),
              cw_claim_key_hex = claim, cw_refund_key_hex = refund, cw_response = response\<rparr>))))"

lemma create_reverse_swap_errors:
  "create_reverse_swap b i n d h = Inl e \<Longrightarrow> error_class_of e = Backend"
  by (auto simp: create_reverse_swap_def split: sum.splits option.splits)

end
