(* ===== verification/Service.thy ===== *)
theory Service
  imports Lifecycle ChainSwaps InvoiceLifecycle RateLimit Utxo Pricer
begin

text \<open>
  The state behind the HTTP handlers (\<open>AppState\<close> of src/src/lib.rs) and how a
  handler is put together.  A handler is a function from the state to a
  result, an error or a value, and the state it leaves: what the code did before
  it returned early stays done.  Every database call is one atomic step; a
  handler runs its steps without another one in between, at one reading of the
  clock.  Reading a header, a path or a JSON body is not modelled: a request
  is the record of what was read.
\<close>

subsection \<open>Handlers\<close>

type_synonym ('s, 'e, 'a) handler = "'s \<Rightarrow> ('e + 'a) \<times> 's"

definition pure :: "'a \<Rightarrow> ('s, 'e, 'a) handler" where
  "pure a = (\<lambda>s. (Inr a, s))"

definition fail :: "'e \<Rightarrow> ('s, 'e, 'a) handler" where
  "fail e = (\<lambda>s. (Inl e, s))"

text \<open>The \<open>?\<close> operator.\<close>
definition andThen :: "('s, 'e, 'a) handler \<Rightarrow> ('a \<Rightarrow> ('s, 'e, 'b) handler) \<Rightarrow> ('s, 'e, 'b) handler" where
  "andThen m f = (\<lambda>s. case m s of (Inl e, s') \<Rightarrow> (Inl e, s') | (Inr a, s') \<Rightarrow> f a s')"

definition gets :: "('s \<Rightarrow> 'a) \<Rightarrow> ('s, 'e, 'a) handler" where
  "gets f = (\<lambda>s. (Inr (f s), s))"

definition modifies :: "('s \<Rightarrow> 's) \<Rightarrow> ('s, 'e, unit) handler" where
  "modifies f = (\<lambda>s. (Inr (), f s))"

text \<open>A check that reads the state and leaves it.\<close>
definition check :: "('s \<Rightarrow> 'e + 'a) \<Rightarrow> ('s, 'e, 'a) handler" where
  "check f = (\<lambda>s. (f s, s))"

definition result :: "'e + 'a \<Rightarrow> ('s, 'e, 'a) handler" where
  "result r = (\<lambda>s. (r, s))"

definition unless :: "bool \<Rightarrow> ('s, 'e, unit) handler \<Rightarrow> ('s, 'e, unit) handler" where
  "unless b m = (if b then pure () else m)"

definition require :: "bool \<Rightarrow> 'e \<Rightarrow> ('s, 'e, unit) handler" where
  "require b e = (if b then pure () else fail e)"

text \<open>\<open>ok_or_else\<close>.\<close>
definition some_or :: "'e \<Rightarrow> 'a option \<Rightarrow> ('s, 'e, 'a) handler" where
  "some_or e x = (case x of None \<Rightarrow> fail e | Some a \<Rightarrow> pure a)"

definition map_err :: "('e \<Rightarrow> 'f) \<Rightarrow> ('s, 'e, 'a) handler \<Rightarrow> ('s, 'f, 'a) handler" where
  "map_err g m = (\<lambda>s. case m s of (r, s') \<Rightarrow> (map_sum g id r, s'))"

lemmas handler_defs = pure_def fail_def gets_def check_def modifies_def result_def unless_def require_def some_or_def

lemma andThen_ok:
  "andThen m f s = (Inr b, s'') \<longleftrightarrow> (\<exists>a s'. m s = (Inr a, s') \<and> f a s' = (Inr b, s''))"
  by (auto simp: andThen_def split: prod.splits sum.splits)

lemma andThen_err:
  "andThen m f s = (Inl e, s'') \<longleftrightarrow> m s = (Inl e, s'') \<or> (\<exists>a s'. m s = (Inr a, s') \<and> f a s' = (Inl e, s''))"
  by (auto simp: andThen_def split: prod.splits sum.splits)

lemma map_err_ok [simp]: "map_err g m s = (Inr a, s') \<longleftrightarrow> m s = (Inr a, s')"
  by (auto simp: map_err_def map_sum_Inr_iff split: prod.splits)

lemma pure_iff [simp]: "pure a s = (r, s') \<longleftrightarrow> r = Inr a \<and> s' = s"
  by (auto simp: pure_def)

lemma fail_iff [simp]: "fail e s = (r, s') \<longleftrightarrow> r = Inl e \<and> s' = s"
  by (auto simp: fail_def)

lemma gets_iff [simp]: "gets f s = (r, s') \<longleftrightarrow> r = Inr (f s) \<and> s' = s"
  by (auto simp: gets_def)

lemma result_iff [simp]: "result x s = (r, s') \<longleftrightarrow> x = r \<and> s' = s"
  by (auto simp: result_def)

lemma check_iff [simp]: "check f s = (r, s') \<longleftrightarrow> f s = r \<and> s' = s"
  by (auto simp: check_def)

lemma modifies_iff [simp]: "modifies f s = (r, s') \<longleftrightarrow> r = Inr () \<and> s' = f s"
  by (auto simp: modifies_def)

lemma require_ok [simp]: "require b e s = (Inr u, s') \<longleftrightarrow> b \<and> s' = s"
  by (auto simp: require_def)

lemma some_or_ok [simp]: "some_or e x s = (Inr a, s') \<longleftrightarrow> x = Some a \<and> s' = s"
  by (auto simp: some_or_def split: option.splits)

subsection \<open>What a handler may do to the state\<close>

text \<open>\<open>changes R m\<close>: whatever state \<open>m\<close> starts in, and however it returns, it leaves one related to it.\<close>
definition changes :: "('s \<Rightarrow> 's \<Rightarrow> bool) \<Rightarrow> ('s, 'e, 'a) handler \<Rightarrow> bool" where
  "changes R m \<longleftrightarrow> (\<forall>s. R s (snd (m s)))"

text \<open>The contract of a relation that handlers are proved to stay within: composition
  is then by structure alone.\<close>
locale effect =
  fixes R :: "'s \<Rightarrow> 's \<Rightarrow> bool"
  assumes refl: "R s s"
    and trans: "R s t \<Longrightarrow> R t u \<Longrightarrow> R s u"
begin

lemma eff_pure: "changes R (pure a)" by (simp add: changes_def pure_def refl)
lemma eff_fail: "changes R (fail e)" by (simp add: changes_def fail_def refl)
lemma eff_gets: "changes R (gets f)" by (simp add: changes_def gets_def refl)
lemma eff_result: "changes R (result r)" by (simp add: changes_def result_def refl)
lemma eff_check: "changes R (check f)" by (simp add: changes_def check_def refl)
lemma eff_require: "changes R (require b e)" by (simp add: require_def eff_pure eff_fail)
lemma eff_some_or: "changes R (some_or e x)" by (simp add: some_or_def eff_pure eff_fail split: option.splits)
lemma eff_unless: "changes R m \<Longrightarrow> changes R (unless b m)" by (simp add: unless_def eff_pure)
lemma eff_modifies: "(\<And>s. R s (f s)) \<Longrightarrow> changes R (modifies f)" by (simp add: changes_def modifies_def)

lemma eff_map_err: "changes R m \<Longrightarrow> changes R (map_err g m)"
  by (simp add: changes_def map_err_def split_beta)

text \<open>The continuation may use that the first handler did return that value.\<close>
lemma eff_andThen_known:
  assumes "changes R m" "\<And>a s s'. m s = (Inr a, s') \<Longrightarrow> changes R (f a)"
  shows "changes R (andThen m f)"
  unfolding changes_def
proof
  fix s
  obtain r s' where m: "m s = (r, s')" by fastforce
  have "R s s'" using assms(1) m by (auto simp: changes_def dest: spec[of _ s])
  moreover have "R s' (snd (f a s'))" if "r = Inr a" for a
    using assms(2)[of s a s'] m that by (simp add: changes_def)
  ultimately show "R s (snd (andThen m f s))"
    using m trans by (auto simp: andThen_def split: sum.splits)
qed

lemma eff_andThen: "changes R m \<Longrightarrow> (\<And>a. changes R (f a)) \<Longrightarrow> changes R (andThen m f)"
  by (rule eff_andThen_known)

lemmas eff_basic = eff_pure eff_fail eff_gets eff_check eff_result eff_require eff_some_or eff_unless eff_map_err
lemmas eff = eff_basic eff_andThen
lemmas eff_known = eff_basic eff_andThen_known

end

lemma changesD: "changes R m \<Longrightarrow> m s = (r, s') \<Longrightarrow> R s s'"
  by (auto simp: changes_def dest: spec[of _ s])

lemma changes_at: "changes R m \<Longrightarrow> R s (snd (m s))"
  by (simp add: changes_def)

subsection \<open>Which errors a handler returns\<close>

definition raises :: "('e \<Rightarrow> bool) \<Rightarrow> ('s, 'e, 'a) handler \<Rightarrow> bool" where
  "raises P m \<longleftrightarrow> (\<forall>s e s'. m s = (Inl e, s') \<longrightarrow> P e)"

named_theorems errors \<open>rules for the errors of composed handlers\<close>

lemma raises_pure [errors]: "raises P (pure a)" by (simp add: raises_def)
lemma raises_fail [errors]: "P e \<Longrightarrow> raises P (fail e)" by (simp add: raises_def)
lemma raises_gets [errors]: "raises P (gets f)" by (simp add: raises_def)
lemma raises_modifies [errors]: "raises P (modifies f)" by (simp add: raises_def)
lemma raises_check [errors]: "(\<And>s e. f s = Inl e \<Longrightarrow> P e) \<Longrightarrow> raises P (check f)" by (auto simp: raises_def)
lemma raises_result [errors]: "(\<And>e. r = Inl e \<Longrightarrow> P e) \<Longrightarrow> raises P (result r)" by (auto simp: raises_def)
lemma raises_require [errors]: "(\<not> b \<Longrightarrow> P e) \<Longrightarrow> raises P (require b e)" by (auto simp: raises_def require_def)
lemma raises_some_or [errors]: "(x = None \<Longrightarrow> P e) \<Longrightarrow> raises P (some_or e x)"
  by (auto simp: raises_def some_or_def split: option.splits)
lemma raises_unless [errors]: "(\<not> b \<Longrightarrow> raises P m) \<Longrightarrow> raises P (unless b m)"
  by (simp add: unless_def raises_pure)

lemma raises_andThen [errors]:
  assumes "raises P m" "\<And>a s s'. m s = (Inr a, s') \<Longrightarrow> raises P (f a)"
  shows "raises P (andThen m f)"
  unfolding raises_def
proof (intro allI impI)
  fix s e s'' assume "andThen m f s = (Inl e, s'')"
  then consider "m s = (Inl e, s'')" | a s' where "m s = (Inr a, s')" "f a s' = (Inl e, s'')"
    by (auto simp: andThen_err)
  then show "P e" using assms unfolding raises_def by cases blast+
qed

lemma map_sum_Inl_iff: "map_sum f g x = Inl b \<longleftrightarrow> (\<exists>a. x = Inl a \<and> b = f a)"
  by (cases x) auto

lemma raises_map_err [errors]: "raises (\<lambda>e. P (g e)) m \<Longrightarrow> raises P (map_err g m)"
  unfolding raises_def map_err_def by (auto split: prod.splits simp: map_sum_Inl_iff)

subsection \<open>The service\<close>

text \<open>\<open>AppState\<close>: the tables, the swap key sequence, the limiter and the rate cache.\<close>
record service =
  sv_limiter :: limiter
  sv_users :: user_store
  sv_swaps :: "swap_record list"
  sv_chain :: "chain_swap list"
  sv_pos :: pos_store
  sv_ledger :: invoice_store
  sv_key_seq :: nat
  sv_rates :: rate_cache

definition limited :: "(limiter \<Rightarrow> ('e + 'a) \<times> limiter) \<Rightarrow> (service, 'e, 'a) handler" where
  "limited f = (\<lambda>s. case f (sv_limiter s) of (r, l) \<Rightarrow> (r, s\<lparr>sv_limiter := l\<rparr>))"

text \<open>What a request carries: the peer, its decoded headers, the clock (microseconds and
  Unix seconds) and the identifiers the database would generate.\<close>
record request =
  rq_peer :: "ip_addr option"
  rq_headers :: "string \<Rightarrow> string option"
  rq_now :: timestamp
  rq_unix :: nat
  rq_fresh_id :: uuid

text \<open>The part of the configuration the gates read.\<close>
record 'net gates =
  ga_net :: "'net net_lib"
  ga_whitelist :: "'net list"
  ga_certification :: "'net certification_allowlist"
  ga_trust_forwarded_for :: bool

definition request_ip :: "'net gates \<Rightarrow> request \<Rightarrow> ip_addr option" where
  "request_ip g rq = caller_ip (ga_net g) (rq_peer rq) (rq_headers rq) (ga_trust_forwarded_for g)"

definition certified :: "'net gates \<Rightarrow> certification_scope \<Rightarrow> request \<Rightarrow> bool" where
  "certified g scope rq =
    allows_scope (ga_net g) (ga_certification g) (ga_trust_forwarded_for g) scope (rq_peer rq) (rq_headers rq)"

definition whitelisted :: "'net gates \<Rightarrow> ip_addr \<Rightarrow> bool" where
  "whitelisted g ip = whitelist_contains (ga_net g) (ga_whitelist g) ip"

interpretation only_limiter: effect "\<lambda>s s'. \<exists>l. s' = s\<lparr>sv_limiter := l\<rparr>"
proof unfold_locales
  fix s :: "'a service_scheme"
  show "\<exists>l. s = s\<lparr>sv_limiter := l\<rparr>" by (rule exI[of _ "sv_limiter s"]) simp
qed auto

lemma limited_changes: "changes (\<lambda>s s'. \<exists>l. s' = s\<lparr>sv_limiter := l\<rparr>) (limited f)"
  by (auto simp: changes_def limited_def split: prod.splits)

end
