(* ===== verification/Lnurl.thy ===== *)
theory Lnurl
  imports Service Boltz
begin

text \<open>
  The Lightning Address endpoints: src/src/lnurl.rs and src/src/nostr.rs.
  Building the HTTP response from its record is not modelled; the certification
  audit line and the logging are not either.
\<close>

subsection \<open>JSON text\<close>

text \<open>\<open>serde_json\<close>'s string escapes.\<close>
definition json_char :: "char \<Rightarrow> string" where
  "json_char ch =
    (let n = (of_char ch :: nat) in
     if n = 34 then [CHR 0x5C, CHR 0x22]
     else if n = 92 then [CHR 0x5C, CHR 0x5C]
     else if n = 8 then [CHR 0x5C, CHR ''b'']
     else if n = 9 then [CHR 0x5C, CHR ''t'']
     else if n = 10 then [CHR 0x5C, CHR ''n'']
     else if n = 12 then [CHR 0x5C, CHR ''f'']
     else if n = 13 then [CHR 0x5C, CHR ''r'']
     else if n < 32 then [CHR 0x5C] @ ''u00'' @ hex2 n
     else [ch])"

definition json_string :: "string \<Rightarrow> string" where
  "json_string s = [CHR 0x22] @ concat (map json_char s) @ [CHR 0x22]"

fun join :: "string \<Rightarrow> string list \<Rightarrow> string" where
  "join sep [] = []"
| "join sep [s] = s"
| "join sep (s # t # ts) = s @ sep @ join sep (t # ts)"

definition json_array :: "string list \<Rightarrow> string" where
  "json_array xs = ''['' @ join '','' xs @ '']''"

definition build_metadata :: "string \<Rightarrow> string \<Rightarrow> string" where
  "build_metadata nym domain =
    (let identifier = nym @ ''@'' @ domain; plain = ''Sats for '' @ nym
     in json_array (map (\<lambda>row. json_array (map json_string row))
          [[''text/identifier'', identifier], [''text/plain'', plain]]))"

subsection \<open>The environment\<close>

text \<open>\<open>lq_get_raw_tx\<close> and \<open>lq_is_unspent\<close> are the configured \<open>UtxoBackend\<close>,
  \<open>lq_output_scripts\<close> decodes a transaction to the scripts of its outputs.\<close>
record utxo_view =
  lq_get_raw_tx :: "string \<Rightarrow> app_error + string"
  lq_output_scripts :: "string \<Rightarrow> string + string list"
  lq_is_unspent :: "string \<Rightarrow> string \<Rightarrow> nat \<Rightarrow> app_error + bool"

record ('net, 'd, 'pk, 'sg) lnurl_env =
  le_domain :: string
  le_min_sendable_msat :: nat
  le_max_sendable_msat :: nat
  le_min_proof_value_sat :: nat
  le_message_tag :: string
  le_gates :: "'net gates"
  le_descriptors :: "'d descriptor_lib"
  le_ownership :: "('pk, 'sg) ownership_lib"
  le_backend :: "utxo_view option"
  le_boltz :: boltz_lib
  le_sha256_hex :: "string \<Rightarrow> string"

subsection \<open>Metadata\<close>

record lnurl_pay_metadata =
  lm_callback :: string
  lm_max_sendable :: nat
  lm_min_sendable :: nat
  lm_metadata :: string
  lm_tag :: string
  lm_comment_allowed :: nat
  lm_payment_methods :: "string list"

definition gate_metadata_per_ip ::
  "'net gates \<Rightarrow> request \<Rightarrow> string option \<Rightarrow> (service, app_error, unit) handler" where
  "gate_metadata_per_ip g rq nym =
    (case request_ip g rq of
       None \<Rightarrow> pure ()
     | Some ip \<Rightarrow>
        if whitelisted g ip then pure ()
        else if certified g MetadataLookup rq then pure ()
        else andThen (limited (check_metadata_per_ip (rq_now rq) ip)) (\<lambda>_.
          case nym of
            None \<Rightarrow> pure ()
          | Some n \<Rightarrow> limited (check_metadata_distinct_nyms_per_ip (rq_now rq) ip n)))"

definition active_user :: "string \<Rightarrow> (service, app_error, user) handler" where
  "active_user nym =
    andThen (gets (\<lambda>s. get_active_user_by_nym nym (us_users (sv_users s)))) (some_or (NymNotFound nym))"

definition metadata ::
  "('net, 'd, 'pk, 'sg) lnurl_env \<Rightarrow> request \<Rightarrow> string \<Rightarrow> (service, app_error, lnurl_pay_metadata) handler" where
  "metadata env rq nym =
    andThen (gate_metadata_per_ip (le_gates env) rq (Some nym)) (\<lambda>_.
    andThen (active_user nym) (\<lambda>_. pure
      \<lparr>lm_callback = ''https://'' @ le_domain env @ ''/lnurlp/callback/'' @ nym,
       lm_max_sendable = le_max_sendable_msat env, lm_min_sendable = le_min_sendable_msat env,
       lm_metadata = build_metadata nym (le_domain env), lm_tag = ''payRequest'', lm_comment_allowed = 144,
       lm_payment_methods = [''L-BTC'']\<rparr>))"

text \<open>NIP-05: one name and its verification key.\<close>
definition nostr_json ::
  "('net, 'd, 'pk, 'sg) lnurl_env \<Rightarrow> request \<Rightarrow> string \<Rightarrow> (service, app_error, string \<times> string) handler" where
  "nostr_json env rq name =
    andThen (gate_metadata_per_ip (le_gates env) rq (Some name)) (\<lambda>_.
    andThen (active_user name) (\<lambda>u. pure (u_nym u, u_verification_npub u)))"

subsection \<open>The callback\<close>

record callback_params =
  cp_amount :: nat
  cp_payment_method :: "string option"
  cp_outpoint :: "string option"
  cp_pubkey :: "string option"
  cp_sig :: "string option"

definition take_proof :: "callback_params \<Rightarrow> (string \<times> string \<times> string) option" where
  "take_proof p =
    (case (cp_outpoint p, cp_pubkey p, cp_sig p) of
       (Some outpoint, Some pubkey, Some sig) \<Rightarrow> Some (outpoint, pubkey, sig)
     | _ \<Rightarrow> None)"

definition requests_method :: "string option \<Rightarrow> string \<Rightarrow> bool" where
  "requests_method payment_method target =
    (case payment_method of
       None \<Rightarrow> False
     | Some s \<Rightarrow> list_ex (\<lambda>m. trim m = target) (split_on CHR '','' s))"

record lightning_response =
  lr_pr :: string
  lr_disposable :: bool
  lr_success_tag :: string
  lr_success_message :: string

datatype callback_response = Liquid_address string | Lightning_invoice lightning_response

datatype liquid_outcome = SoftRateLimited | Hard app_error

definition rl_gate :: "(service, app_error, 'a) handler \<Rightarrow> (service, liquid_outcome, 'a) handler" where
  "rl_gate = map_err (\<lambda>e. if is_rate_limit e then SoftRateLimited else Hard e)"

definition liquid_response_addr_index :: "int \<Rightarrow> int option \<Rightarrow> app_error + nat" where
  "liquid_response_addr_index current_next_addr_idx reserved_addr_index =
    (let addr_index = (case reserved_addr_index of None \<Rightarrow> current_next_addr_idx | Some i \<Rightarrow> i)
     in if addr_index < 0 then Inl (DbError ''address index overflow'') else Inr (nat addr_index))"

definition touch_callback :: "request \<Rightarrow> string \<Rightarrow> (service, 'e, unit) handler" where
  "touch_callback rq nym = modifies (\<lambda>s. s\<lparr>sv_users := (sv_users s)
     \<lparr>us_users := touch_user_callback (rq_now rq) nym (us_users (sv_users s))\<rparr>\<rparr>)"

definition reserve_outpoint ::
  "request \<Rightarrow> string \<Rightarrow> string \<Rightarrow> string \<Rightarrow> (service, app_error, int) handler" where
  "reserve_outpoint rq nym outpoint pubkey = (\<lambda>s.
    case allocate_outpoint_address (rq_now rq) nym outpoint pubkey (sv_users s) of
      Inl e \<Rightarrow> (Inl (from_sqlx e), s)
    | Inr (i, us) \<Rightarrow> (Inr i, s\<lparr>sv_users := us\<rparr>))"

text \<open>What is checked of an outpoint that has no reservation yet, then its reservation.\<close>
definition prove_and_reserve ::
  "('net, 'd, 'pk, 'sg) lnurl_env \<Rightarrow> request \<Rightarrow> string \<Rightarrow> ip_addr option \<Rightarrow> 'pk \<Rightarrow> string \<Rightarrow> string
    \<Rightarrow> (service, liquid_outcome, int) handler" where
  "prove_and_reserve env rq nym ip pk outpoint pubkey =
    andThen (case ip of
               None \<Rightarrow> pure ()
             | Some i \<Rightarrow> rl_gate (limited (check_distinct_nyms_per_ip (rq_now rq) i nym))) (\<lambda>_.
    andThen (rl_gate (limited (check_distinct_nyms_per_outpoint (rq_now rq) outpoint nym))) (\<lambda>_.
    andThen (rl_gate (check (\<lambda>s. check_pending_reservations nym (us_outpoints (sv_users s)) (sv_limiter s)))) (\<lambda>_.
    andThen (map_err Hard (result (parse_outpoint outpoint))) (\<lambda>parsed.
    andThen (some_or (Hard (ElectrumError ''no blockchain backend configured'')) (le_backend env)) (\<lambda>backend.
    andThen (rl_gate (limited (check_electrum (rq_now rq)))) (\<lambda>_.
    andThen (map_err Hard (result (lq_get_raw_tx backend (op_txid_hex parsed)))) (\<lambda>raw.
    andThen (map_err Hard (result (map_sum (\<lambda>e. ElectrumError (''tx decode: '' @ e)) id (lq_output_scripts backend raw))))
      (\<lambda>outs.
    andThen (require (op_vout parsed < length outs) (Hard UtxoNotFound)) (\<lambda>_.
    let script = outs ! op_vout parsed in
    andThen (require (script_matches_pubkey (le_ownership env) script pk) (Hard PubkeyUtxoMismatch)) (\<lambda>_.
    andThen (map_err Hard (result (lq_is_unspent backend script (op_txid_hex parsed) (op_vout parsed)))) (\<lambda>unspent.
    andThen (require unspent (Hard UtxoSpent)) (\<lambda>_.
      map_err Hard (reserve_outpoint rq nym outpoint pubkey)))))))))))))"

definition reserved_index ::
  "('net, 'd, 'pk, 'sg) lnurl_env \<Rightarrow> request \<Rightarrow> string \<Rightarrow> callback_params \<Rightarrow> ip_addr option
    \<Rightarrow> (service, liquid_outcome, int) handler" where
  "reserved_index env rq nym params ip =
    andThen (some_or (Hard (ProofOfFundsRequired (le_min_proof_value_sat env))) (take_proof params))
      (\<lambda>(outpoint, pubkey, sig).
    andThen (map_err Hard (result (verify_ownership_sig (le_ownership env) (le_message_tag env) nym outpoint pubkey sig)))
      (\<lambda>pk.
    andThen (rl_gate (limited (check_per_pubkey (rq_now rq) pubkey))) (\<lambda>_.
    andThen (gets (\<lambda>s. get_outpoint_address nym outpoint (us_outpoints (sv_users s)))) (\<lambda>cached.
      case cached of
        Some c \<Rightarrow> pure (oa_addr_index c)
      | None \<Rightarrow> prove_and_reserve env rq nym ip pk outpoint pubkey))))"

definition serve_liquid ::
  "('net, 'd, 'pk, 'sg) lnurl_env \<Rightarrow> request \<Rightarrow> string \<Rightarrow> user \<Rightarrow> callback_params \<Rightarrow> ip_addr option \<Rightarrow> bool
    \<Rightarrow> (service, liquid_outcome, callback_response) handler" where
  "serve_liquid env rq nym user params ip is_whitelisted =
    andThen (if is_whitelisted then pure None
             else andThen (reserved_index env rq nym params ip) (\<lambda>i. pure (Some i))) (\<lambda>reserved.
    andThen (map_err Hard (result (liquid_response_addr_index (u_next_addr_idx user) reserved))) (\<lambda>addr_index.
    andThen (map_err Hard (result (derive_address (le_descriptors env) (u_ct_descriptor user) addr_index))) (\<lambda>address.
    andThen (touch_callback rq nym) (\<lambda>_. pure (Liquid_address address)))))"

definition take_key_index :: "(service, 'e, nat) handler" where
  "take_key_index = (\<lambda>s. case next_swap_key_index (sv_key_seq s) of (i, seq) \<Rightarrow> (Inr i, s\<lparr>sv_key_seq := seq\<rparr>))"

definition store_swap :: "request \<Rightarrow> new_swap_record \<Rightarrow> (service, app_error, unit) handler" where
  "store_swap rq n = (\<lambda>s.
    case record_swap (rq_now rq) (rq_fresh_id rq) n (sv_swaps s, us_users (sv_users s)) of
      Inl e \<Rightarrow> (Inl (DbError (''failed to record swap '' @ ns_boltz_swap_id n @ '': '' @ sqlx_text e)), s)
    | Inr (swaps, us) \<Rightarrow> (Inr (), s\<lparr>sv_swaps := swaps, sv_users := (sv_users s)\<lparr>us_users := us\<rparr>\<rparr>))"

definition create_lightning_swap ::
  "('net, 'd, 'pk, 'sg) lnurl_env \<Rightarrow> request \<Rightarrow> string \<Rightarrow> nat
    \<Rightarrow> (service, app_error, lightning_response \<times> string) handler" where
  "create_lightning_swap env rq nym amount_sat =
    andThen take_key_index (\<lambda>swap_key_index.
    andThen (result (create_reverse_swap (le_boltz env) swap_key_index amount_sat None
               (Some (le_sha256_hex env (build_metadata nym (le_domain env)))))) (\<lambda>sw.
    andThen (result (map_sum (\<lambda>e. BoltzError (''failed to serialize boltz response: '' @ e)) id
               (rr_json (sw_response sw)))) (\<lambda>json.
    andThen (store_swap rq
      \<lparr>ns_nym = Some nym, ns_boltz_swap_id = sw_swap_id sw, ns_address = None, ns_address_index = None,
       ns_amount_sat = as_i64 (int amount_sat), ns_invoice = sw_invoice sw, ns_preimage_hex = sw_preimage_hex sw,
       ns_claim_key_hex = sw_claim_key_hex sw, ns_boltz_response_json = json, ns_invoice_id = None\<rparr>) (\<lambda>_.
    andThen (touch_callback rq nym) (\<lambda>_. pure
      (\<lparr>lr_pr = sw_invoice sw, lr_disposable = False, lr_success_tag = ''message'',
        lr_success_message = ''Payment received to '' @ nym @ ''@'' @ le_domain env\<rparr>, sw_swap_id sw))))))"

definition serve_lightning ::
  "('net, 'd, 'pk, 'sg) lnurl_env \<Rightarrow> request \<Rightarrow> string \<Rightarrow> nat \<Rightarrow> ip_addr option \<Rightarrow> bool
    \<Rightarrow> (service, app_error, callback_response) handler" where
  "serve_lightning env rq nym amount_sat ip is_whitelisted =
    andThen (if is_whitelisted then pure ()
             else case ip of None \<Rightarrow> pure () | Some i \<Rightarrow> limited (check_lightning_per_source (rq_now rq) i)) (\<lambda>_.
    andThen (create_lightning_swap env rq nym amount_sat) (\<lambda>(resp, swap_id). pure (Lightning_invoice resp)))"

text \<open>The match on the Liquid outcome: only a rate limit falls through to Lightning.\<close>
definition soft_fallback ::
  "(service, liquid_outcome, 'a) handler \<Rightarrow> (service, app_error, 'a) handler \<Rightarrow> (service, app_error, 'a) handler" where
  "soft_fallback liquid lightning = (\<lambda>s. case liquid s of
      (Inr resp, s') \<Rightarrow> (Inr resp, s')
    | (Inl (Hard e), s') \<Rightarrow> (Inl e, s')
    | (Inl SoftRateLimited, s') \<Rightarrow> lightning s')"

definition callback ::
  "('net, 'd, 'pk, 'sg) lnurl_env \<Rightarrow> request \<Rightarrow> string \<Rightarrow> callback_params
    \<Rightarrow> (service, app_error, callback_response) handler" where
  "callback env rq nym params =
    andThen (require (le_min_sendable_msat env \<le> cp_amount params)
      (InvalidAmount (''minimum is '' @ show_nat (le_min_sendable_msat env) @ '' msat''))) (\<lambda>_.
    andThen (require (cp_amount params \<le> le_max_sendable_msat env)
      (InvalidAmount (''maximum is '' @ show_nat (le_max_sendable_msat env) @ '' msat''))) (\<lambda>_.
    andThen (require (cp_amount params mod 1000 = 0)
      (InvalidAmount ''amount must be a multiple of 1000 msat'')) (\<lambda>_.
    let amount_sat = cp_amount params div 1000 in
    andThen (active_user nym) (\<lambda>user.
    let ip = request_ip (le_gates env) rq;
        is_whitelisted = (case ip of None \<Rightarrow> False | Some i \<Rightarrow> whitelisted (le_gates env) i) in
    andThen (if is_whitelisted then pure ()
             else case ip of None \<Rightarrow> pure () | Some i \<Rightarrow> limited (check_per_ip (rq_now rq) i)) (\<lambda>_.
      if requests_method (cp_payment_method params) ''L-BTC'' then
        soft_fallback (serve_liquid env rq nym user params ip is_whitelisted)
          (serve_lightning env rq nym amount_sat ip is_whitelisted)
      else serve_lightning env rq nym amount_sat ip is_whitelisted)))))"

end
