(* ===== verification/Registration.thy ===== *)
theory Registration
  imports Lnurl
begin

text \<open>
  Registering, updating and giving up a Lightning Address, and reading its
  state: src/src/registration.rs.
\<close>

record ('net, 'd, 'xk, 'xs) register_env =
  re_domain :: string
  re_max_descriptor_len :: nat
  re_max_lifetime_nyms_per_npub :: int
  re_gates :: "'net gates"
  re_descriptors :: "'d descriptor_lib"
  re_signing :: "('xk, 'xs) sig_scheme"

definition gate_register_per_ip ::
  "('net, 'd, 'xk, 'xs) register_env \<Rightarrow> request \<Rightarrow> (service, app_error, ip_addr option) handler" where
  "gate_register_per_ip env rq =
    (let ip = request_ip (re_gates env) rq in
     andThen (case ip of
         None \<Rightarrow> pure ()
       | Some i \<Rightarrow>
          if \<not> whitelisted (re_gates env) i \<and> \<not> certified (re_gates env) RegistrationSetup rq
          then limited (check_register_per_ip (rq_now rq) i) else pure ()) (\<lambda>_. pure ip))"

subsection \<open>Input formats\<close>

definition nym_alnum :: "char \<Rightarrow> bool" where
  "nym_alnum ch \<longleftrightarrow> (let n = (of_char ch :: nat) in (97 \<le> n \<and> n \<le> 122) \<or> (48 \<le> n \<and> n \<le> 57))"

text \<open>\<open>^(?:[a-z0-9]|[a-z0-9][a-z0-9\-]{0,30}[a-z0-9])$\<close>.\<close>
definition nym_regex :: "string \<Rightarrow> bool" where
  "nym_regex s \<longleftrightarrow> s \<noteq> [] \<and> length s \<le> 32 \<and> nym_alnum (hd s) \<and> nym_alnum (last s)
     \<and> list_all (\<lambda>ch. nym_alnum ch \<or> ch = CHR ''-'') s"

text \<open>\<open>^[0-9a-fA-F]{64}$\<close>.\<close>
definition nostr_pubkey_hex_regex :: "string \<Rightarrow> bool" where
  "nostr_pubkey_hex_regex s \<longleftrightarrow> is_hex64 s"

record quota_view =
  qv_used :: int
  qv_cap :: int
  qv_remaining :: int

definition quota_view_new :: "int \<Rightarrow> int \<Rightarrow> quota_view" where
  "quota_view_new used cap = \<lparr>qv_used = used, qv_cap = cap, qv_remaining = max (cap - used) 0\<rparr>"

subsection \<open>Register\<close>

record register_request =
  rg_nym :: string
  rg_ct_descriptor :: string
  rg_verification_npub :: "string option"
  rg_npub :: string
  rg_signature :: string
  rg_timestamp :: nat

record register_response =
  rs_nym :: string
  rs_lightning_address :: string
  rs_nip05 :: string
  rs_quota :: quota_view

definition register_fields :: "register_request \<Rightarrow> string list" where
  "register_fields r =
    (case rg_verification_npub r of
       Some v \<Rightarrow> [rg_ct_descriptor r, v]
     | None \<Rightarrow> [rg_ct_descriptor r])"

definition register_user :: "request \<Rightarrow> register_request \<Rightarrow> string \<Rightarrow> int
    \<Rightarrow> (service, app_error, register_outcome) handler" where
  "register_user rq r verification_npub cap = (\<lambda>s.
    case register_user_atomic (rq_now rq) (rq_fresh_id rq) (rg_npub r) (rg_nym r) (rg_ct_descriptor r)
        verification_npub cap (sv_users s) of
      Inl e \<Rightarrow> (Inl (from_sqlx e), s)
    | Inr (out, us) \<Rightarrow> (Inr out, s\<lparr>sv_users := us\<rparr>))"

definition quota_of :: "('net, 'd, 'xk, 'xs) register_env \<Rightarrow> string \<Rightarrow> (service, app_error, quota_view) handler" where
  "quota_of env npub = gets (\<lambda>s. quota_view_new
     (int (count_lifetime_nyms_by_npub npub (us_users (sv_users s)))) (re_max_lifetime_nyms_per_npub env))"

definition register_ok ::
  "('net, 'd, 'xk, 'xs) register_env \<Rightarrow> register_request \<Rightarrow> register_outcome
    \<Rightarrow> (service, app_error, register_response) handler" where
  "register_ok env r out =
    (let address = rg_nym r @ ''@'' @ re_domain env;
         created = andThen (quota_of env (rg_npub r)) (\<lambda>q. pure
           \<lparr>rs_nym = rg_nym r, rs_lightning_address = address, rs_nip05 = address, rs_quota = q\<rparr>)
     in case out of
          Created u \<Rightarrow> created
        | Reactivated u \<Rightarrow> created
        | register_outcome.KeyAlreadyRegistered nym \<Rightarrow> fail (app_error.KeyAlreadyRegistered nym (re_domain env))
        | QuotaExceeded used cap \<Rightarrow> fail (NymQuotaExceeded (int used) cap))"

definition register ::
  "('net, 'd, 'xk, 'xs) register_env \<Rightarrow> request \<Rightarrow> register_request
    \<Rightarrow> (service, app_error, register_response) handler" where
  "register env rq r =
    andThen (gate_register_per_ip env rq) (\<lambda>ip.
    let is_whitelisted = (case ip of None \<Rightarrow> False | Some i \<Rightarrow> whitelisted (re_gates env) i);
        is_certification_allowed = certified (re_gates env) RegistrationSetup rq;
        verification_npub = (case rg_verification_npub r of None \<Rightarrow> rg_npub r | Some v \<Rightarrow> v) in
    andThen (unless is_whitelisted (check (\<lambda>s. check_max_active_users (us_users (sv_users s)) (sv_limiter s)))) (\<lambda>_.
    andThen (require (nym_regex (rg_nym r)) (NymInvalid
      ''must be 1-32 chars, lowercase alphanumeric and hyphens, cannot start/end with hyphen'')) (\<lambda>_.
    andThen (require (\<not> is_reserved (rg_nym r)) NymReserved) (\<lambda>_.
    andThen (result (validate_descriptor (re_descriptors env) (rg_ct_descriptor r) (re_max_descriptor_len env))) (\<lambda>_.
    andThen (require (nostr_pubkey_hex_regex verification_npub)
      (AuthError ''verification_npub must be a 64-character hex public key'')) (\<lambda>_.
    andThen (unless (is_whitelisted \<or> is_certification_allowed)
      (case ip of
         None \<Rightarrow> pure ()
       | Some i \<Rightarrow> limited (check_register_distinct_npubs_per_ip (rq_now rq) i (rg_npub r)))) (\<lambda>_.
    andThen (result (verify_la_v2 (re_signing env) (rq_unix rq) ''register'' (rg_npub r) (rg_nym r)
      (register_fields r) (rg_timestamp r) (rg_signature r))) (\<lambda>_.
    andThen (register_user rq r verification_npub (re_max_lifetime_nyms_per_npub env))
      (register_ok env r)))))))))"

subsection \<open>Update\<close>

record update_request =
  ud_npub :: string
  ud_nym :: string
  ud_ct_descriptor :: string
  ud_signature :: string
  ud_timestamp :: nat

text \<open>The (npub, nym) pair must be the registration on file.\<close>
definition claimed_registration :: "string \<Rightarrow> string \<Rightarrow> (service, app_error, unit) handler" where
  "claimed_registration npub nym =
    andThen (gets (\<lambda>s. get_user_by_npub npub (us_users (sv_users s)))) (\<lambda>c.
    andThen (some_or (NymNotFound ''no registration found for this key'') c) (\<lambda>current.
      require (u_nym current = nym) (AuthError ''signer's claimed nym does not match the registration on file'')))"

definition set_descriptor :: "string \<Rightarrow> string \<Rightarrow> (service, app_error, user) handler" where
  "set_descriptor npub ct_descriptor = (\<lambda>s.
    case update_user_descriptor npub ct_descriptor (sv_users s) of
      (None, us) \<Rightarrow> (Inl (NymNotFound ''no registration found for this key''), s\<lparr>sv_users := us\<rparr>)
    | (Some u, us) \<Rightarrow> (Inr u, s\<lparr>sv_users := us\<rparr>))"

text \<open>The response is the nym and its address.\<close>
definition update_registration ::
  "('net, 'd, 'xk, 'xs) register_env \<Rightarrow> request \<Rightarrow> update_request \<Rightarrow> (service, app_error, string \<times> string) handler" where
  "update_registration env rq r =
    andThen (gate_register_per_ip env rq) (\<lambda>_.
    andThen (result (verify_la_v2 (re_signing env) (rq_unix rq) ''update'' (ud_npub r) (ud_nym r)
      [ud_ct_descriptor r] (ud_timestamp r) (ud_signature r))) (\<lambda>_.
    andThen (result (validate_descriptor (re_descriptors env) (ud_ct_descriptor r) (re_max_descriptor_len env))) (\<lambda>_.
    andThen (claimed_registration (ud_npub r) (ud_nym r)) (\<lambda>_.
    andThen (set_descriptor (ud_npub r) (ud_ct_descriptor r)) (\<lambda>u.
      pure (u_nym u, u_nym u @ ''@'' @ re_domain env))))))"

subsection \<open>Delete\<close>

record delete_request =
  dr_npub :: string
  dr_nym :: string
  dr_signature :: string
  dr_purge :: bool
  dr_timestamp :: nat

definition purge_registration :: "request \<Rightarrow> string \<Rightarrow> (service, app_error, unit) handler" where
  "purge_registration rq npub = (\<lambda>s.
    case purge_user (rq_now rq) npub
        \<lparr>lc_users = sv_users s, lc_swaps = sv_swaps s, lc_pages = po_pages (sv_pos s)\<rparr> of
      (out, lc) \<Rightarrow>
        (case out of
           Purged u \<Rightarrow> Inr ()
         | PurgeNotFound \<Rightarrow> Inl (NymNotFound ''no registration found for this key'')
         | InFlightSwaps n \<Rightarrow> Inl (PurgeBlocked n),
         s\<lparr>sv_users := lc_users lc, sv_swaps := lc_swaps lc, sv_pos := (sv_pos s)\<lparr>po_pages := lc_pages lc\<rparr>\<rparr>))"

definition deactivate_registration :: "string \<Rightarrow> (service, app_error, unit) handler" where
  "deactivate_registration npub = (\<lambda>s.
    case deactivate_user npub (us_users (sv_users s)) of
      (out, us) \<Rightarrow>
        (case out of None \<Rightarrow> Inl (NymNotFound ''no registration found for this key'') | Some u \<Rightarrow> Inr (),
         s\<lparr>sv_users := (sv_users s)\<lparr>us_users := us\<rparr>\<rparr>))"

definition delete_registration ::
  "('net, 'd, 'xk, 'xs) register_env \<Rightarrow> request \<Rightarrow> delete_request \<Rightarrow> (service, app_error, quota_view) handler" where
  "delete_registration env rq r =
    andThen (gate_register_per_ip env rq) (\<lambda>_.
    andThen (result (verify_la_v2 (re_signing env) (rq_unix rq) (if dr_purge r then ''purge'' else ''delete'')
      (dr_npub r) (dr_nym r) [] (dr_timestamp r) (dr_signature r))) (\<lambda>_.
    andThen (claimed_registration (dr_npub r) (dr_nym r)) (\<lambda>_.
    andThen (if dr_purge r then purge_registration rq (dr_npub r) else deactivate_registration (dr_npub r)) (\<lambda>_.
      quota_of env (dr_npub r)))))"

subsection \<open>Lookup\<close>

record lookup_response =
  lk_nym :: string
  lk_active :: bool
  lk_lightning_address :: "string option"
  lk_quota :: quota_view
  lk_previous_nyms :: "(string \<times> timestamp) list"

definition lookup_by_npub ::
  "('net, 'd, 'xk, 'xs) register_env \<Rightarrow> request \<Rightarrow> string \<Rightarrow> (service, app_error, lookup_response) handler" where
  "lookup_by_npub env rq npub =
    andThen (gate_register_per_ip env rq) (\<lambda>ip.
    andThen (case ip of
        None \<Rightarrow> pure ()
      | Some i \<Rightarrow>
         if \<not> whitelisted (re_gates env) i \<and> \<not> certified (re_gates env) RegistrationSetup rq
         then limited (check_lookup_distinct_npubs_per_ip (rq_now rq) i npub) else pure ()) (\<lambda>_.
    andThen (gets (\<lambda>s. lookup_status_by_npub npub (us_users (sv_users s)))) (\<lambda>(active_nym, previous_nyms, used).
      let quota = quota_view_new (int used) (re_max_lifetime_nyms_per_npub env) in
      case active_nym of
        Some nym \<Rightarrow> pure \<lparr>lk_nym = nym, lk_active = True, lk_lightning_address = Some (nym @ ''@'' @ re_domain env),
            lk_quota = quota, lk_previous_nyms = previous_nyms\<rparr>
      | None \<Rightarrow>
         (case previous_nyms of
            (nym, t) # rest \<Rightarrow> pure \<lparr>lk_nym = nym, lk_active = False, lk_lightning_address = None, lk_quota = quota,
                lk_previous_nyms = previous_nyms\<rparr>
          | [] \<Rightarrow> fail (NymNotFound ''no registration for this key'')))))"

subsection \<open>Reservations\<close>

record reservation_item =
  ri_outpoint :: string
  ri_addr_index :: int
  ri_fulfilled :: bool

definition reservations_message :: "string \<Rightarrow> nat \<Rightarrow> string" where
  "reservations_message nym ts = ''reservations:'' @ nym @ '':'' @ show_nat ts"

definition list_reservations ::
  "('net, 'd, 'xk, 'xs) register_env \<Rightarrow> request \<Rightarrow> string \<Rightarrow> nat \<Rightarrow> string \<Rightarrow> string
    \<Rightarrow> (service, app_error, reservation_item list \<times> int) handler" where
  "list_reservations env rq nym ts_param sig npub =
    andThen (result (check_ts_freshness (rq_unix rq) ts_param)) (\<lambda>_.
    andThen (result (verify_signature (re_signing env) npub (reservations_message nym ts_param) sig)) (\<lambda>_.
    andThen (active_user nym) (\<lambda>user.
    andThen (require (u_npub user = npub) (AuthError ''signer does not own this nym'')) (\<lambda>_.
    andThen (gets (\<lambda>s. list_reservations_for_nym nym (us_outpoints (sv_users s)))) (\<lambda>rows. pure
      (map (\<lambda>a. \<lparr>ri_outpoint = oa_outpoint a, ri_addr_index = oa_addr_index a, ri_fulfilled = oa_fulfilled a\<rparr>) rows,
       u_next_addr_idx user))))))"

end
