(* ===== verification/ServiceProperties.thy ===== *)
theory ServiceProperties
  imports Registration UtxoProperties
begin

text \<open>
  What the account endpoints (Lightning Address and registration) promise when
  requests are served one after another.
\<close>

subsection \<open>What a request may do to the users\<close>

text \<open>The part of a key's rows that only the key may change.\<close>
definition owner_view :: "string \<Rightarrow> user list \<Rightarrow> (string \<times> string \<times> string \<times> bool) list" where
  "owner_view k us = map (\<lambda>u. (u_nym u, u_ct_descriptor u, u_verification_npub u, u_is_active u))
     (filter (\<lambda>u. u_npub u = k) us)"

text \<open>The users table moves by its own operations, a new reservation is one that was
  \<open>made\<close>, and the rows of a key that has not \<open>signed\<close> stay as they are.\<close>
definition account_effect :: "(outpoint_address \<Rightarrow> bool) \<Rightarrow> (string \<Rightarrow> bool) \<Rightarrow> service \<Rightarrow> service \<Rightarrow> bool" where
  "account_effect made signed s s' \<longleftrightarrow>
     user_step\<^sup>*\<^sup>* (sv_users s) (sv_users s')
     \<and> (\<forall>a\<in>set (us_outpoints (sv_users s')). a \<in> set (us_outpoints (sv_users s)) \<or> made a)
     \<and> (\<forall>k. users_ok (us_users (sv_users s)) \<longrightarrow> \<not> signed k \<longrightarrow>
          owner_view k (us_users (sv_users s')) = owner_view k (us_users (sv_users s)))"

interpretation account: effect "account_effect made signed" for made signed
proof unfold_locales
  fix s t u
  assume a: "account_effect made signed s t" "account_effect made signed t u"
  have "users_ok (us_users (sv_users s)) \<Longrightarrow> users_ok (us_users (sv_users t))"
    using a(1) user_table.run_good by (auto simp: account_effect_def)
  then show "account_effect made signed s u"
    using a by (auto simp: account_effect_def intro: rtranclp_trans)
qed (auto simp: account_effect_def)

lemma account_effect_mono:
  assumes "account_effect made signed s s'" "\<And>a. made a \<Longrightarrow> made' a" "\<And>k. signed k \<Longrightarrow> signed' k"
  shows "account_effect made' signed' s s'"
  using assms by (auto simp: account_effect_def)

lemma effect_same: "sv_users s' = sv_users s \<Longrightarrow> account_effect made signed s s'"
  by (simp add: account_effect_def)

lemma effect_step:
  assumes "user_step (sv_users s) (sv_users s')"
    and "\<forall>a\<in>set (us_outpoints (sv_users s')). a \<in> set (us_outpoints (sv_users s)) \<or> made a"
    and "\<And>k. users_ok (us_users (sv_users s)) \<Longrightarrow> \<not> signed k \<Longrightarrow>
      owner_view k (us_users (sv_users s')) = owner_view k (us_users (sv_users s))"
  shows "account_effect made signed s s'"
  using assms by (auto simp: account_effect_def)

text \<open>A step of one key's owner.\<close>
lemma effect_owner_step:
  assumes "signed n" "user_step (sv_users s) (sv_users s')"
    and "set (us_outpoints (sv_users s')) \<subseteq> set (us_outpoints (sv_users s))"
    and "\<And>k. users_ok (us_users (sv_users s)) \<Longrightarrow> k \<noteq> n \<Longrightarrow>
      owner_view k (us_users (sv_users s')) = owner_view k (us_users (sv_users s))"
  shows "account_effect made signed s s'"
proof (rule effect_step[OF assms(2)])
  fix k assume "users_ok (us_users (sv_users s))" "\<not> signed k"
  then show "owner_view k (us_users (sv_users s')) = owner_view k (us_users (sv_users s))"
    using assms(1,4) by metis
qed (use assms(3) in blast)

lemma owner_view_update:
  assumes "\<And>u. u \<in> set us \<Longrightarrow> P u \<Longrightarrow> u_npub (f u) = u_npub u \<and>
     (u_npub u \<noteq> k \<or> (u_nym (f u) = u_nym u \<and> u_ct_descriptor (f u) = u_ct_descriptor u
        \<and> u_verification_npub (f u) = u_verification_npub u \<and> u_is_active (f u) = u_is_active u))"
  shows "owner_view k (fst (update_where P f us)) = owner_view k us"
  using assms by (induction us) (auto simp: owner_view_def tables)

lemma owner_view_insert: "insert_user u us = Inr us' \<Longrightarrow> u_npub u \<noteq> k \<Longrightarrow> owner_view k us' = owner_view k us"
  by (auto simp: insert_user_def owner_view_def split: if_splits)

subsection \<open>The building blocks\<close>

lemma run_limited: "changes (account_effect made signed) (limited f)"
  by (auto simp: changes_def limited_def split_beta intro: effect_same)

lemma run_touch: "changes (account_effect made signed) (touch_callback rq nym)"
proof -
  have "owner_view k (touch_user_callback now nym us) = owner_view k us" for k now us
    unfolding touch_user_callback_def by (rule owner_view_update) simp
  then show ?thesis
    unfolding touch_callback_def by (intro account.eff_modifies effect_step) (simp_all add: step_touch)
qed

lemma run_key_index: "changes (account_effect made signed) take_key_index"
  by (auto simp: changes_def take_key_index_def split_beta intro: effect_same)

lemma owner_view_used: "owner_view k (mark_user_used nym us) = owner_view k us"
  unfolding mark_user_used_def by (rule owner_view_update) simp

lemma run_store_swap: "changes (account_effect made signed) (store_swap rq n)"
proof -
  have "us' = us \<or> us' = mark_user_used (the (ns_nym n)) us"
    if "record_swap now fid n (swaps, us) = Inr (swaps', us')" for now fid swaps us swaps' us'
    using that by (auto simp: record_swap_def split: if_splits option.splits)
  then have "account_effect made signed s (snd (store_swap rq n s))" for s
    by (cases "record_swap (rq_now rq) (rq_fresh_id rq) n (sv_swaps s, us_users (sv_users s))")
      (fastforce simp: store_swap_def owner_view_used intro: effect_same effect_step step_used)+
  then show ?thesis by (simp add: changes_def)
qed

lemma run_reserve:
  assumes "\<And>i now. made \<lparr>oa_nym = nym, oa_outpoint = outp, oa_addr_index = i, oa_pubkey = Some pk,
      oa_fulfilled = False, oa_created_at = now\<rparr>"
  shows "changes (account_effect made signed) (reserve_outpoint rq nym outp pk)"
proof -
  have "account_effect made signed s (snd (reserve_outpoint rq nym outp pk s))" for s
  proof (cases "allocate_outpoint_address (rq_now rq) nym outp pk (sv_users s)")
    case (Inr p)
    then obtain i us where p: "allocate_outpoint_address (rq_now rq) nym outp pk (sv_users s) = Inr (i, us)"
      by (cases p) auto
    show ?thesis
      by (rule effect_step) (use p step_reserve[OF p] assms in
        \<open>auto simp: reserve_outpoint_def allocate_outpoint_address_def owner_view_used split: option.splits\<close>)
  qed (simp add: reserve_outpoint_def effect_same)
  then show ?thesis by (simp add: changes_def)
qed

lemma run_register:
  assumes "signed (rg_npub r)"
  shows "changes (account_effect made signed) (register_user rq r v cap)"
proof -
  have "account_effect made signed s (snd (register_user rq r v cap s))" for s
  proof (cases "register_user_atomic (rq_now rq) (rq_fresh_id rq) (rg_npub r) (rg_nym r) (rg_ct_descriptor r) v cap
      (sv_users s)")
    case (Inr p)
    then obtain out us where p: "register_user_atomic (rq_now rq) (rq_fresh_id rq) (rg_npub r) (rg_nym r)
        (rg_ct_descriptor r) v cap (sv_users s) = Inr (out, us)"
      by (cases p) auto
    have view: "owner_view k (us_users us) = owner_view k (us_users (sv_users s))" if "k \<noteq> rg_npub r" for k
      using p that
      by (auto simp: register_user_atomic_def Let_def map_sum_Inr_iff new_user_def split: option.splits if_splits
          intro!: owner_view_update dest: owner_view_insert[of _ _ _ k])
    have outs: "set (us_outpoints us) \<subseteq> set (us_outpoints (sv_users s))"
      using p by (auto simp: register_user_atomic_def Let_def map_sum_Inr_iff delete_outpoints_of_def tables
          split: option.splits if_splits)
    show ?thesis
      by (rule effect_owner_step[where n = "rg_npub r"])
        (use p step_register[OF p] view outs assms in \<open>simp_all add: register_user_def\<close>)
  qed (simp add: register_user_def effect_same)
  then show ?thesis by (simp add: changes_def)
qed

lemma run_descriptor:
  assumes "signed npub"
  shows "changes (account_effect made signed) (set_descriptor npub d)"
proof -
  have "account_effect made signed s (snd (set_descriptor npub d s))" for s
  proof (cases "update_user_descriptor npub d (sv_users s)")
    case (Pair r us)
    have "owner_view k (us_users us) = owner_view k (us_users (sv_users s))" if "k \<noteq> npub" for k
      using Pair that by (auto simp: update_user_descriptor_def Let_def split: option.splits intro!: owner_view_update)
    moreover have "set (us_outpoints us) \<subseteq> set (us_outpoints (sv_users s))"
      using Pair by (auto simp: update_user_descriptor_def Let_def delete_outpoints_of_def tables split: option.splits)
    ultimately show ?thesis
      by (intro effect_owner_step[where n = npub])
        (use step_update[OF Pair] Pair assms in \<open>simp_all add: set_descriptor_def split: option.splits\<close>)
  qed
  then show ?thesis by (simp add: changes_def)
qed

lemma run_deactivate:
  assumes "signed npub"
  shows "changes (account_effect made signed) (deactivate_registration npub)"
proof -
  have "account_effect made signed s (snd (deactivate_registration npub s))" for s
  proof (cases "deactivate_user npub (us_users (sv_users s))")
    case (Pair r us)
    have "owner_view k us = owner_view k (us_users (sv_users s))" if "k \<noteq> npub" for k
      using Pair that by (auto simp: deactivate_user_def Let_def intro!: owner_view_update)
    then show ?thesis
      by (intro effect_owner_step[where n = npub])
        (use step_deactivate[OF Pair] Pair assms in \<open>simp_all add: deactivate_registration_def\<close>)
  qed
  then show ?thesis by (simp add: changes_def)
qed

lemma run_purge:
  assumes "signed npub"
  shows "changes (account_effect made signed) (purge_registration rq npub)"
proof -
  have "account_effect made signed s (snd (purge_registration rq npub s))" for s
  proof (cases "get_user_by_npub npub (us_users (sv_users s))")
    case (Some u)
    have u: "u \<in> set (us_users (sv_users s))" "u_npub u = npub"
      using select_one_SomeD[OF Some[unfolded get_user_by_npub_def]] by auto
    have "owner_view k (fst (update_where (\<lambda>x. u_id x = u_id u) (\<lambda>x. x\<lparr>u_is_active := False, u_ct_descriptor := []\<rparr>)
        (us_users (sv_users s)))) = owner_view k (us_users (sv_users s))"
      if "users_ok (us_users (sv_users s))" "k \<noteq> npub" for k
    proof (rule owner_view_update)
      fix x assume x: "x \<in> set (us_users (sv_users s))" "u_id x = u_id u"
      have "x = u"
        using sorted_wrt_pair[of users_apart "us_users (sv_users s)" x u] that(1) x u(1)
        by (auto simp: users_ok_def users_apart_def)
      then show "u_npub (x\<lparr>u_is_active := False, u_ct_descriptor := []\<rparr>) = u_npub x \<and> (u_npub x \<noteq> k \<or>
          (u_nym (x\<lparr>u_is_active := False, u_ct_descriptor := []\<rparr>) = u_nym x
           \<and> u_ct_descriptor (x\<lparr>u_is_active := False, u_ct_descriptor := []\<rparr>) = u_ct_descriptor x
           \<and> u_verification_npub (x\<lparr>u_is_active := False, u_ct_descriptor := []\<rparr>) = u_verification_npub x
           \<and> u_is_active (x\<lparr>u_is_active := False, u_ct_descriptor := []\<rparr>) = u_is_active x))"
        using that(2) u(2) by simp
    qed
    moreover have "in_flight_swaps (u_nym u) (sv_swaps s) > 0 \<Longrightarrow>
        account_effect made signed s (snd (purge_registration rq npub s))"
      using Some by (simp add: purge_registration_def purge_user_def Let_def effect_same)
    ultimately show ?thesis
      using Some step_purge[OF Some] assms
      by (cases "in_flight_swaps (u_nym u) (sv_swaps s) > 0")
        (auto simp: purge_registration_def purge_user_def Let_def delete_outpoints_of_def tables
          intro!: effect_owner_step[where n = npub])
  qed (simp add: purge_registration_def purge_user_def effect_same)
  then show ?thesis by (simp add: changes_def)
qed

lemmas run_steps = run_limited run_touch run_key_index run_store_swap

subsection \<open>The Lightning Address endpoints\<close>

text \<open>The outpoint is an unspent output, on the configured backend, that pays the key.\<close>
definition owned_unspent :: "('net, 'd, 'pk, 'sg) lnurl_env \<Rightarrow> string \<Rightarrow> 'pk \<Rightarrow> bool" where
  "owned_unspent env outpoint pk \<longleftrightarrow> (\<exists>be parsed raw scripts.
     le_backend env = Some be \<and> parse_outpoint outpoint = Inr parsed
     \<and> lq_get_raw_tx be (op_txid_hex parsed) = Inr raw \<and> lq_output_scripts be raw = Inr scripts
     \<and> op_vout parsed < length scripts
     \<and> script_matches_pubkey (le_ownership env) (scripts ! op_vout parsed) pk
     \<and> lq_is_unspent be (scripts ! op_vout parsed) (op_txid_hex parsed) (op_vout parsed) = Inr True)"

text \<open>A reservation this callback may make: its key signed for the nym and the outpoint,
  and owns the outpoint.\<close>
definition proven_reservation ::
  "('net, 'd, 'pk, 'sg) lnurl_env \<Rightarrow> string \<Rightarrow> callback_params \<Rightarrow> outpoint_address \<Rightarrow> bool" where
  "proven_reservation env nym params a \<longleftrightarrow> oa_nym a = nym
     \<and> (\<exists>pubkey sig pk. take_proof params = Some (oa_outpoint a, pubkey, sig) \<and> oa_pubkey a = Some pubkey
        \<and> verify_ownership_sig (le_ownership env) (le_message_tag env) nym (oa_outpoint a) pubkey sig = Inr pk
        \<and> owned_unspent env (oa_outpoint a) pk)"

lemma run_gate_metadata: "changes (account_effect made signed) (gate_metadata_per_ip g rq nym)"
  unfolding gate_metadata_per_ip_def
  by (auto intro!: account.eff run_steps split: option.split)

lemma run_active_user: "changes (account_effect made signed) (active_user nym)"
  unfolding active_user_def by (intro account.eff)

lemma run_metadata: "changes (account_effect made signed) (metadata env rq nym)"
  unfolding metadata_def by (intro account.eff run_gate_metadata run_active_user)

lemma run_nostr: "changes (account_effect made signed) (nostr_json env rq nym)"
  unfolding nostr_json_def by (intro account.eff run_gate_metadata run_active_user)

lemma run_prove:
  assumes "\<And>i now. owned_unspent env outp pk \<Longrightarrow> made \<lparr>oa_nym = nym, oa_outpoint = outp, oa_addr_index = i,
      oa_pubkey = Some pubkey, oa_fulfilled = False, oa_created_at = now\<rparr>"
  shows "changes (account_effect made signed) (prove_and_reserve env rq nym ip pk outp pubkey)"
  unfolding prove_and_reserve_def rl_gate_def Let_def
  by (auto intro!: account.eff_known run_steps run_reserve assms simp: owned_unspent_def map_sum_Inr_iff
      split: option.split)

lemma run_reserved_index:
  "changes (account_effect (proven_reservation env nym params) signed) (reserved_index env rq nym params ip)"
  unfolding reserved_index_def rl_gate_def
  by (auto intro!: account.eff_known run_steps run_prove simp: proven_reservation_def
      split: option.split prod.split)

lemma run_serve_liquid:
  "changes (account_effect (proven_reservation env nym params) signed) (serve_liquid env rq nym u params ip w)"
  unfolding serve_liquid_def
  by (auto intro!: account.eff run_steps run_reserved_index)

lemma run_create_lightning: "changes (account_effect made signed) (create_lightning_swap env rq nym amount)"
  unfolding create_lightning_swap_def by (intro account.eff run_steps)

lemma run_serve_lightning: "changes (account_effect made signed) (serve_lightning env rq nym amount ip w)"
  unfolding serve_lightning_def
  by (auto intro!: account.eff run_steps run_create_lightning split: option.split)

lemma run_soft_fallback:
  assumes "changes (account_effect made signed) m" "changes (account_effect made signed) n"
  shows "changes (account_effect made signed) (soft_fallback m n)"
  unfolding changes_def
proof
  fix s
  obtain r s' where m: "m s = (r, s')" by fastforce
  have "account_effect made signed s s'" using changesD[OF assms(1) m] .
  moreover have "account_effect made signed s' (snd (n s'))" using assms(2) by (simp add: changes_def)
  ultimately show "account_effect made signed s (snd (soft_fallback m n s))"
    using m by (auto simp: soft_fallback_def intro: account.trans split: sum.split liquid_outcome.split)
qed

lemma run_callback: "changes (account_effect (proven_reservation env nym params) signed) (callback env rq nym params)"
  unfolding callback_def Let_def
  by (auto intro!: account.eff run_steps run_active_user run_soft_fallback run_serve_liquid run_serve_lightning
      split: option.split)

subsection \<open>Registration\<close>

text \<open>A request with a fresh signature, over its own fields, by the key.\<close>
definition signed_action ::
  "('net, 'd, 'xk, 'xs) register_env \<Rightarrow> request \<Rightarrow> string \<Rightarrow> string \<Rightarrow> string \<Rightarrow> string list \<Rightarrow> nat \<Rightarrow> string \<Rightarrow> bool" where
  "signed_action env rq action key nym payload t sg \<longleftrightarrow>
     verify_la_v2 (re_signing env) (rq_unix rq) action key nym payload t sg = Inr ()"

lemma run_gate_register: "changes (account_effect made signed) (gate_register_per_ip env rq)"
  unfolding gate_register_per_ip_def Let_def
  by (auto intro!: account.eff run_steps split: option.split)

lemma run_quota: "changes (account_effect made signed) (quota_of env npub)"
  unfolding quota_of_def by (intro account.eff)

lemma run_register_request:
  "changes (account_effect made (\<lambda>k. k = rg_npub r \<and>
     signed_action env rq ''register'' k (rg_nym r) (register_fields r) (rg_timestamp r) (rg_signature r))) (register env rq r)"
  unfolding register_def register_ok_def Let_def
  by (auto intro!: account.eff_known run_steps run_gate_register run_quota run_register simp: signed_action_def
      split: option.split register_outcome.split)

lemma run_claimed: "changes (account_effect made signed) (claimed_registration npub nym)"
  unfolding claimed_registration_def by (intro account.eff)

lemma run_update_request:
  "changes (account_effect made (\<lambda>k. k = ud_npub r \<and>
     signed_action env rq ''update'' k (ud_nym r) [ud_ct_descriptor r] (ud_timestamp r) (ud_signature r)))
     (update_registration env rq r)"
  unfolding update_registration_def
  by (auto intro!: account.eff_known run_steps run_gate_register run_claimed run_descriptor simp: signed_action_def)

lemma run_delete_request:
  "changes (account_effect made (\<lambda>k. k = dr_npub r \<and>
     signed_action env rq (if dr_purge r then ''purge'' else ''delete'') k (dr_nym r) [] (dr_timestamp r) (dr_signature r)))
     (delete_registration env rq r)"
  unfolding delete_registration_def
  by (auto intro!: account.eff_known run_steps run_gate_register run_claimed run_quota run_purge run_deactivate
      simp: signed_action_def)

lemma run_lookup: "changes (account_effect made signed) (lookup_by_npub env rq npub)"
  unfolding lookup_by_npub_def Let_def
  by (auto intro!: account.eff run_steps run_gate_register split: option.split prod.split list.split)

lemma run_reservations: "changes (account_effect made signed) (list_reservations env rq nym t sg npub)"
  unfolding list_reservations_def by (intro account.eff run_active_user)

subsection \<open>Serving requests\<close>

datatype account_request =
    Get_metadata string
  | Get_nostr_json string
  | Get_callback string callback_params
  | Post_register register_request
  | Put_register update_request
  | Delete_register delete_request
  | Get_lookup string
  | Get_reservations string nat string string

fun serve ::
  "('net, 'd, 'pk, 'sg) lnurl_env \<Rightarrow> ('net, 'd, 'xk, 'xs) register_env \<Rightarrow> request \<times> account_request
    \<Rightarrow> service \<Rightarrow> service" where
  "serve le re (rq, Get_metadata nym) s = snd (metadata le rq nym s)"
| "serve le re (rq, Get_nostr_json name) s = snd (nostr_json le rq name s)"
| "serve le re (rq, Get_callback nym params) s = snd (callback le rq nym params s)"
| "serve le re (rq, Post_register r) s = snd (register re rq r s)"
| "serve le re (rq, Put_register r) s = snd (update_registration re rq r s)"
| "serve le re (rq, Delete_register r) s = snd (delete_registration re rq r s)"
| "serve le re (rq, Get_lookup npub) s = snd (lookup_by_npub re rq npub s)"
| "serve le re (rq, Get_reservations nym t sg npub) s = snd (list_reservations re rq nym t sg npub s)"

fun signed_by :: "('net, 'd, 'xk, 'xs) register_env \<Rightarrow> string \<Rightarrow> request \<times> account_request \<Rightarrow> bool" where
  "signed_by re k (rq, Post_register r) \<longleftrightarrow> k = rg_npub r \<and>
     signed_action re rq ''register'' k (rg_nym r) (register_fields r) (rg_timestamp r) (rg_signature r)"
| "signed_by re k (rq, Put_register r) \<longleftrightarrow> k = ud_npub r \<and>
     signed_action re rq ''update'' k (ud_nym r) [ud_ct_descriptor r] (ud_timestamp r) (ud_signature r)"
| "signed_by re k (rq, Delete_register r) \<longleftrightarrow> k = dr_npub r \<and>
     signed_action re rq (if dr_purge r then ''purge'' else ''delete'') k (dr_nym r) [] (dr_timestamp r) (dr_signature r)"
| "signed_by re k q \<longleftrightarrow> False"

fun proves :: "('net, 'd, 'pk, 'sg) lnurl_env \<Rightarrow> outpoint_address \<Rightarrow> request \<times> account_request \<Rightarrow> bool" where
  "proves le a (rq, Get_callback nym params) \<longleftrightarrow> proven_reservation le nym params a"
| "proves le a q \<longleftrightarrow> False"

lemma serve_effect: "account_effect (\<lambda>a. proves le a q) (\<lambda>k. signed_by re k q) s (serve le re q s)"
proof -
  obtain rq a where "q = (rq, a)" by fastforce
  then show ?thesis
    by (cases a) (simp_all add: changes_at[OF run_metadata] changes_at[OF run_nostr] changes_at[OF run_callback]
      changes_at[OF run_register_request] changes_at[OF run_update_request] changes_at[OF run_delete_request]
      changes_at[OF run_lookup] changes_at[OF run_reservations])
qed

lemma serve_all_effect:
  assumes "set qs \<subseteq> Q"
  shows "account_effect (\<lambda>a. \<exists>q\<in>Q. proves le a q) (\<lambda>k. \<exists>q\<in>Q. signed_by re k q) s (fold (serve le re) qs s)"
  using assms
proof (induction qs arbitrary: s)
  case (Cons q qs)
  then have q: "q \<in> Q" by simp
  have "account_effect (\<lambda>a. \<exists>q\<in>Q. proves le a q) (\<lambda>k. \<exists>q\<in>Q. signed_by re k q) s (serve le re q s)"
    by (rule account_effect_mono[OF serve_effect]) (use q in blast)+
  from account.trans[OF this Cons.IH] Cons.prems show ?case by simp
qed (simp add: account.refl)

text \<open>Whatever account requests are served, accepted or refused, the users table they leave
  is reached by the table's own operations, so every invariant of the table
  holds between requests; in particular no key has two active nyms.\<close>
theorem account_requests_refine_user_steps:
  "user_step\<^sup>*\<^sup>* (sv_users s) (sv_users (fold (serve le re) qs s))"
  using serve_all_effect[of qs "set qs"] by (auto simp: account_effect_def)

text \<open>C19: Nobody but a key's holder can register, redirect, rename, deactivate or purge its nyms:
  if serving requests has changed a row of a key, then one of the requests
  carried a signature by that key, fresh when it was served, over that
  action, nym and payload.\<close>
theorem only_the_key_changes_its_registration:
  assumes "users_ok (us_users (sv_users s))"
    and "owner_view k (us_users (sv_users (fold (serve le re) qs s))) \<noteq> owner_view k (us_users (sv_users s))"
  shows "\<exists>q\<in>set qs. signed_by re k q"
  using serve_all_effect[of qs "set qs" le re s] assms by (auto simp: account_effect_def)

text \<open>C20: Every Liquid address reserved while serving requests was reserved for an outpoint that
  the configured backend reported unspent and paying the very key that signed
  for that nym and outpoint.\<close>
theorem reservations_are_proven:
  assumes "a \<in> set (us_outpoints (sv_users (fold (serve le re) qs s)))"
    and "a \<notin> set (us_outpoints (sv_users s))"
  shows "\<exists>rq nym params. (rq, Get_callback nym params) \<in> set qs \<and> proven_reservation le nym params a"
proof -
  obtain q where q: "q \<in> set qs" "proves le a q"
    using serve_all_effect[of qs "set qs" le re s] assms by (auto simp: account_effect_def)
  then show ?thesis by (cases "(le, a, q)" rule: proves.cases) auto
qed

subsection \<open>Rate limits on the Liquid path\<close>

text \<open>What may go wrong in a callback without a limit being at fault.\<close>
definition no_limit_errors :: "('net, 'd, 'pk, 'sg) lnurl_env \<Rightarrow> bool" where
  "no_limit_errors env \<longleftrightarrow> (\<forall>be x e. le_backend env = Some be \<longrightarrow>
     (lq_get_raw_tx be x = Inl e \<longrightarrow> \<not> is_rate_limit e)
     \<and> (\<forall>t v. lq_is_unspent be x t v = Inl e \<longrightarrow> \<not> is_rate_limit e))"

text \<open>A soft outcome, or a hard one that is not a limit.\<close>
definition liquid_error :: "liquid_outcome \<Rightarrow> bool" where
  "liquid_error o' \<longleftrightarrow> (\<forall>e. o' = Hard e \<longrightarrow> \<not> is_rate_limit e)"

lemma raises_rl_gate [errors]: "raises liquid_error (rl_gate m)"
  unfolding rl_gate_def by (rule raises_map_err) (auto simp: raises_def liquid_error_def)

lemma backend_errors:
  assumes "no_limit_errors env" "le_backend env = Some be"
  shows "lq_get_raw_tx be x = Inl e \<Longrightarrow> \<not> is_rate_limit e"
    and "lq_is_unspent be y t v = Inl e \<Longrightarrow> \<not> is_rate_limit e"
  using assms by (auto simp: no_limit_errors_def)

lemma proof_errors:
  "verify_ownership_sig l tag nym outp pk sg = Inl e \<Longrightarrow> \<not> is_rate_limit e"
  "parse_outpoint outp = Inl e \<Longrightarrow> \<not> is_rate_limit e"
  "derive_address dl d i = Inl e \<Longrightarrow> \<not> is_rate_limit e"
  "liquid_response_addr_index cur r = Inl e \<Longrightarrow> \<not> is_rate_limit e"
  by (auto simp: verify_ownership_sig_def parse_outpoint_def derive_address_def liquid_response_addr_index_def
      is_rate_limit_def Let_def split: sum.splits if_splits option.splits prod.splits)

lemma from_sqlx_no_limit: "\<not> is_rate_limit (from_sqlx e)"
  by (cases e) (simp_all add: from_sqlx_def is_rate_limit_def)

lemma raises_reserve: "raises (\<lambda>e. \<not> is_rate_limit e) (reserve_outpoint rq nym outp pk)"
  by (auto simp: raises_def reserve_outpoint_def from_sqlx_no_limit split: sum.splits prod.splits)

lemma raises_prove:
  assumes "no_limit_errors env"
  shows "raises liquid_error (prove_and_reserve env rq nym ip pk outp pubkey)"
  unfolding prove_and_reserve_def Let_def
  by (auto intro!: errors simp: liquid_error_def map_sum_Inl_iff is_rate_limit_def[of "ElectrumError e" for e]
      is_rate_limit_def[of UtxoNotFound] is_rate_limit_def[of PubkeyUtxoMismatch] is_rate_limit_def[of UtxoSpent]
      dest: backend_errors[OF assms] proof_errors intro: raises_reserve split: option.split)

lemma raises_reserved_index:
  assumes "no_limit_errors env"
  shows "raises liquid_error (reserved_index env rq nym params ip)"
  unfolding reserved_index_def
  by (auto intro!: errors raises_prove[OF assms] simp: liquid_error_def is_rate_limit_def[of "ProofOfFundsRequired n" for n]
      dest: proof_errors split: option.split prod.split)

lemma raises_serve_liquid:
  assumes "no_limit_errors env"
  shows "raises liquid_error (serve_liquid env rq nym u params ip w)"
  unfolding serve_liquid_def touch_callback_def
  by (auto intro!: errors raises_reserved_index[OF assms] simp: liquid_error_def dest: proof_errors)

text \<open>The two per-source gates of a caller that is not whitelisted.\<close>
definition source_limit :: "'net gates \<Rightarrow> request \<Rightarrow> app_error \<Rightarrow> bool" where
  "source_limit g rq e \<longleftrightarrow> is_rate_limit e \<longrightarrow>
     e = RateLimitedSender \<and> (\<exists>ip. request_ip g rq = Some ip \<and> \<not> whitelisted g ip)"

lemma inmem_error: "inmem_sliding_check now b n w e l = (Inl e', l') \<Longrightarrow> e' = e"
  by (auto simp: inmem_sliding_check_def split: if_splits prod.splits inmem_outcome.splits)

lemma raises_source_gate:
  assumes "request_ip g rq = Some ip" "\<not> whitelisted g ip"
  shows "raises (source_limit g rq) (limited (check_per_ip now ip))"
    and "raises (source_limit g rq) (limited (check_lightning_per_source now ip))"
  using assms by (auto simp: raises_def limited_def source_limit_def check_per_ip_def check_lightning_per_source_def
      split: prod.splits dest: inmem_error)

lemma raises_create_lightning: "raises (source_limit g rq) (create_lightning_swap env rq' nym amount)"
proof -
  have store: "raises (source_limit g rq) (store_swap rq' n)" for n
    by (auto simp: raises_def store_swap_def source_limit_def is_rate_limit_def split: sum.splits prod.splits)
  have key: "raises (source_limit g rq) take_key_index"
    by (simp add: raises_def take_key_index_def split_beta)
  show ?thesis
    unfolding create_lightning_swap_def touch_callback_def
    by (auto intro!: errors store key simp: source_limit_def is_rate_limit_def map_sum_Inl_iff
        dest: create_reverse_swap_errors)
qed

lemma raises_serve_lightning:
  assumes "w \<or> (\<forall>i. ip = Some i \<longrightarrow> request_ip g rq = Some i \<and> \<not> whitelisted g i)"
  shows "raises (source_limit g rq) (serve_lightning env rq' nym amount ip w)"
  unfolding serve_lightning_def
  by (use assms in \<open>auto intro!: errors raises_create_lightning raises_source_gate split: option.split\<close>)

lemma raises_soft_fallback:
  assumes "raises liquid_error m" "raises (source_limit g rq) n"
  shows "raises (source_limit g rq) (soft_fallback m n)"
  unfolding raises_def
proof (intro allI impI)
  fix s e s' assume e: "soft_fallback m n s = (Inl e, s')"
  obtain r t where m: "m s = (r, t)" by fastforce
  show "source_limit g rq e"
  proof (cases r)
    case (Inr a)
    then show ?thesis using e m by (simp add: soft_fallback_def)
  next
    case (Inl o')
    show ?thesis
    proof (cases o')
      case SoftRateLimited
      then have "n t = (Inl e, s')" using e m Inl by (simp add: soft_fallback_def)
      then show ?thesis using assms(2) unfolding raises_def by blast
    next
      case (Hard e')
      then have "liquid_error (Hard e)" "e' = e"
        using e m Inl assms(1) unfolding raises_def by (auto simp: soft_fallback_def)
      then show ?thesis by (simp add: liquid_error_def source_limit_def)
    qed
  qed
qed

lemma raises_callback:
  assumes "no_limit_errors env"
  shows "raises (source_limit (le_gates env) rq) (callback env rq nym params)"
  unfolding callback_def active_user_def Let_def
  by (auto intro!: errors raises_soft_fallback raises_serve_liquid[OF assms] raises_serve_lightning raises_source_gate
      simp: source_limit_def[of _ _ "InvalidAmount m" for m] source_limit_def[of _ _ "NymNotFound m" for m] is_rate_limit_def
      split: option.split)

text \<open>A rate limit on the Liquid path never reaches the payer: provided the blockchain backend
  itself reports no limit, a callback answers with a rate-limit error only
  when a per-source limit refused a caller that is not whitelisted, and then it
  is the per-source error; the pubkey, network, outpoint, pending-reservation
  and Electrum limits fall back to Lightning.\<close>
theorem liquid_limits_fall_back:
  assumes "callback env rq nym params s = (Inl e, s')" "is_rate_limit e" "no_limit_errors env"
  shows "e = RateLimitedSender \<and> (\<exists>ip. request_ip (le_gates env) rq = Some ip \<and> \<not> whitelisted (le_gates env) ip)"
  using raises_callback[OF assms(3), of rq nym params] assms(1,2) by (auto simp: raises_def source_limit_def)

text \<open>Once an outpoint has a reservation, anyone who signs for it with any key gets its
  address index: the key is not compared with the stored one, the backend is
  not asked who owns the outpoint or whether it is spent, and none of the
  network, outpoint or pending limits is consulted.\<close>
theorem cached_reservation_needs_no_ownership:
  assumes "take_proof params = Some (outpoint, pubkey, sg)"
    and "verify_ownership_sig (le_ownership env) (le_message_tag env) nym outpoint pubkey sg = Inr pk"
    and "check_per_pubkey (rq_now rq) pubkey (sv_limiter s) = (Inr (), l)"
    and "get_outpoint_address nym outpoint (us_outpoints (sv_users s)) = Some a"
  shows "reserved_index env rq nym params ip s = (Inr (oa_addr_index a), s\<lparr>sv_limiter := l\<rparr>)"
  using assms by (simp add: reserved_index_def andThen_def some_or_def rl_gate_def map_err_def result_def limited_def
      gets_def pure_def)

subsection \<open>A small service\<close>

definition demo_net :: "ip_addr net_lib" where
  "demo_net = \<lparr>nl_parse_net = (\<lambda>t. Inl t), nl_parse_ip = (\<lambda>t. Inl t), nl_of_ip = (\<lambda>a. a), nl_contains = (=)\<rparr>"

definition demo_gates :: "ip_addr gates" where
  "demo_gates = \<lparr>ga_net = demo_net, ga_whitelist = [],
     ga_certification = \<lparr>ca_enabled = False, ca_sources = [], ca_token = [], ca_scopes = []\<rparr>,
     ga_trust_forwarded_for = False\<rparr>"

definition demo_descriptors :: "string descriptor_lib" where
  "demo_descriptors = \<lparr>dl_parse = Inr, dl_address = (\<lambda>d i. Inr (d @ show_nat i)), dl_address_script = Inr,
     dl_blinding = (\<lambda>d a. None)\<rparr>"

text \<open>A scheme whose signature is the message, and a chain with one output, to the key.\<close>
definition demo_ownership :: "(string, string) ownership_lib" where
  "demo_ownership = \<lparr>ol_sha256 = id, ol_pubkey = Inr, ol_hex = Inr, ol_sig_der = Inr,
     ol_verify = (\<lambda>m g k. g = k @ m), ol_p2wpkh = id\<rparr>"

definition demo_view :: utxo_view where
  "demo_view = \<lparr>lq_get_raw_tx = Inr, lq_output_scripts = (\<lambda>t. Inr [''k'']), lq_is_unspent = (\<lambda>x t v. Inr True)\<rparr>"

definition demo_lnurl :: "(ip_addr, string, string, string) lnurl_env" where
  "demo_lnurl = \<lparr>le_domain = ''d'', le_min_sendable_msat = 1000, le_max_sendable_msat = 9000,
     le_min_proof_value_sat = 0, le_message_tag = ''t'', le_gates = demo_gates, le_descriptors = demo_descriptors,
     le_ownership = demo_ownership, le_backend = Some demo_view, le_boltz = undefined, le_sha256_hex = id\<rparr>"

definition demo_signing :: "(string, string) sig_scheme" where
  "demo_signing = \<lparr>sg_pubkey = Some, sg_sha256 = id, sg_signature = Some, sg_verify = (\<lambda>g m k. g = k @ m)\<rparr>"

definition demo_register :: "(ip_addr, string, string, string) register_env" where
  "demo_register = \<lparr>re_domain = ''d'', re_max_descriptor_len = 9, re_max_lifetime_nyms_per_npub = 3,
     re_gates = demo_gates, re_descriptors = demo_descriptors, re_signing = demo_signing\<rparr>"

definition demo_account :: user where
  "demo_account = \<lparr>u_id = 1, u_nym = ''bob'', u_npub = ''n'', u_verification_npub = ''n'', u_ct_descriptor = ''x'',
     u_next_addr_idx = 4, u_is_active = True, u_created_at = 0, u_has_been_used = False, u_last_callback_at = None\<rparr>"

definition demo_limits :: limiter where
  "demo_limits = undefined\<lparr>rl_cfg := undefined\<lparr>rc_per_ip_limit := 1, rc_per_ip_window_secs := 60,
       rc_per_pubkey_limit := 0, rc_distinct_nyms_per_outpoint_limit := 0,
       rc_max_pending_reservations_per_nym := 5\<rparr>,
     rl_inmem := [(source_key (V4 1 2 3 4), [0])], rl_electrum := token_bucket_new 0 5\<rparr>"

definition demo_service :: service where
  "demo_service = undefined\<lparr>sv_limiter := demo_limits, sv_users := \<lparr>us_users = [demo_account], us_outpoints = []\<rparr>\<rparr>"

definition demo_request :: "ip_addr option \<Rightarrow> request" where
  "demo_request ip = \<lparr>rq_peer = ip, rq_headers = (\<lambda>h. None), rq_now = 1000, rq_unix = 50, rq_fresh_id = 7\<rparr>"

lemma demo_service_ok: "users_ok (us_users (sv_users demo_service))"
  by (simp add: users_ok_def demo_service_def demo_account_def)

lemma demo_no_ip: "request_ip demo_gates (demo_request ip) = ip"
  by (simp add: request_ip_def demo_gates_def demo_request_def caller_ip_def resolve_caller_ip_def)

definition demo_delete :: delete_request where
  "demo_delete = \<lparr>dr_npub = ''n'', dr_nym = ''bob'',
     dr_signature = ''n'' @ build_la_v2_message ''delete'' ''n'' ''bob'' [] 50, dr_purge = False, dr_timestamp = 50\<rparr>"

lemma only_the_key_changes_its_registration_witness:
  "owner_view ''n'' (us_users (sv_users (serve demo_lnurl demo_register (demo_request None, Delete_register demo_delete)
     demo_service))) \<noteq> owner_view ''n'' (us_users (sv_users demo_service))
   \<and> signed_by demo_register ''n'' (demo_request None, Delete_register demo_delete)"
proof -
  let ?q = "(demo_request None, Delete_register demo_delete)"
  have gate: "gate_register_per_ip demo_register (demo_request None) demo_service = (Inr None, demo_service)"
    by (simp add: gate_register_per_ip_def demo_register_def demo_no_ip andThen_def pure_def)
  have sig: "verify_la_v2 demo_signing 50 ''delete'' ''n'' ''bob'' [] 50
      (''n'' @ build_la_v2_message ''delete'' ''n'' ''bob'' [] 50) = Inr ()"
    by (simp add: verify_la_v2_def check_ts_freshness_def abs_diff_def la_auth_ts_window_secs_def
        verify_signature_def demo_signing_def)
  have "sv_users (serve demo_lnurl demo_register ?q demo_service)
      = \<lparr>us_users = [demo_account\<lparr>u_is_active := False\<rparr>], us_outpoints = []\<rparr>"
    using gate sig
    by (simp add: delete_registration_def andThen_def demo_delete_def claimed_registration_def
        deactivate_registration_def deactivate_user_def quota_of_def handler_defs demo_register_def demo_request_def
        get_user_by_npub_def select_one_def demo_service_def demo_account_def tables)
  then have changed: "owner_view ''n'' (us_users (sv_users (serve demo_lnurl demo_register ?q demo_service)))
      \<noteq> owner_view ''n'' (us_users (sv_users demo_service))"
    by (simp add: owner_view_def demo_service_def demo_account_def)
  have "\<exists>q\<in>set [?q]. signed_by demo_register ''n'' q"
    by (rule only_the_key_changes_its_registration[OF demo_service_ok, of _ demo_lnurl])
      (use changed in \<open>simp del: serve.simps\<close>)
  then show ?thesis using changed by (simp del: serve.simps signed_by.simps)
qed

definition demo_callback :: callback_params where
  "demo_callback = \<lparr>cp_amount = 2000, cp_payment_method = Some ''L-BTC'',
     cp_outpoint = Some (replicate 64 CHR ''a'' @ '':'' @ ''0''), cp_pubkey = Some ''k'',
     cp_sig = Some (''k'' @ ''t'' @ ''bob'' @ replicate 64 CHR ''a'' @ '':'' @ ''0'')\<rparr>"

lemma liquid_limits_fall_back_witness:
  "\<exists>s'. callback demo_lnurl (demo_request (Some (V4 1 2 3 4))) ''bob'' demo_callback demo_service
      = (Inl RateLimitedSender, s')
   \<and> \<not> whitelisted demo_gates (V4 1 2 3 4)"
proof -
  have ip: "request_ip (le_gates demo_lnurl) (demo_request (Some (V4 1 2 3 4))) = Some (V4 1 2 3 4)"
    "\<not> whitelisted (le_gates demo_lnurl) (V4 1 2 3 4)"
    by (simp_all add: demo_lnurl_def demo_no_ip) (simp add: whitelisted_def demo_gates_def whitelist_contains_def)
  have gate: "\<exists>s'. limited (check_per_ip 1000 (V4 1 2 3 4)) demo_service = (Inl RateLimitedSender, s')"
    by (simp add: limited_def check_per_ip_def inmem_sliding_check_def check_and_record_def demo_service_def
        demo_limits_def deque_of_def prune_old_def secs_def Let_def)
  then obtain s' where e: "callback demo_lnurl (demo_request (Some (V4 1 2 3 4))) ''bob'' demo_callback demo_service
      = (Inl RateLimitedSender, s')"
    using ip
    by (auto simp: callback_def andThen_def demo_callback_def demo_lnurl_def active_user_def handler_defs
        get_active_user_by_nym_def select_one_def demo_service_def demo_account_def demo_request_def Let_def)
  have "no_limit_errors demo_lnurl"
    by (simp add: no_limit_errors_def demo_lnurl_def demo_view_def)
  from liquid_limits_fall_back[OF e _ this] show ?thesis
    using e ip(1) by (auto simp: is_rate_limit_def demo_lnurl_def)
qed

text \<open>What the callback's proof says, evaluated once.\<close>
lemma demo_proof:
  "take_proof demo_callback = Some (replicate 64 CHR ''a'' @ '':'' @ ''0'', ''k'',
     ''k'' @ ''t'' @ ''bob'' @ replicate 64 CHR ''a'' @ '':'' @ ''0'')"
  "verify_ownership_sig (le_ownership demo_lnurl) (le_message_tag demo_lnurl) ''bob''
     (replicate 64 CHR ''a'' @ '':'' @ ''0'') ''k''
     (''k'' @ ''t'' @ ''bob'' @ replicate 64 CHR ''a'' @ '':'' @ ''0'') = Inr ''k''"
  by (simp_all add: take_proof_def demo_callback_def verify_ownership_sig_def demo_lnurl_def demo_ownership_def
      ownership_message_digest_def ownership_message_def)

definition demo_cached :: service where
  "demo_cached = demo_service\<lparr>sv_users := \<lparr>us_users = [demo_account],
     us_outpoints = [\<lparr>oa_nym = ''bob'', oa_outpoint = replicate 64 CHR ''a'' @ '':'' @ ''0'', oa_addr_index = 3,
       oa_pubkey = Some ''owner'', oa_fulfilled = False, oa_created_at = 0\<rparr>]\<rparr>\<rparr>"

lemma cached_reservation_needs_no_ownership_witness:
  "fst (reserved_index (demo_lnurl\<lparr>le_backend := None\<rparr>) (demo_request None) ''bob'' demo_callback None demo_cached)
   = Inr 3"
proof -
  let ?o = "replicate 64 CHR ''a'' @ '':'' @ ''0''"
  have found: "get_outpoint_address ''bob'' ?o (us_outpoints (sv_users demo_cached))
      = Some (hd (us_outpoints (sv_users demo_cached)))"
    by (simp add: demo_cached_def get_outpoint_address_def select_one_def)
  have free: "check_per_pubkey (rq_now (demo_request None)) ''k'' (sv_limiter demo_cached) = (Inr (), demo_limits)"
    by (simp add: check_per_pubkey_def atomic_sliding_window_check_def demo_cached_def demo_service_def demo_limits_def)
  have sig: "verify_ownership_sig (le_ownership (demo_lnurl\<lparr>le_backend := None\<rparr>))
      (le_message_tag (demo_lnurl\<lparr>le_backend := None\<rparr>)) ''bob'' ?o ''k'' (''k'' @ ''t'' @ ''bob'' @ ?o) = Inr ''k''"
    using demo_proof(2) by simp
  show ?thesis
    using cached_reservation_needs_no_ownership[OF demo_proof(1) sig free found, of None]
    by (simp add: demo_cached_def)
qed

lemma reservations_are_proven_witness:
  "\<exists>a. us_outpoints (sv_users (serve demo_lnurl demo_register (demo_request None, Get_callback ''bob'' demo_callback)
      demo_service)) = [a] \<and> proven_reservation demo_lnurl ''bob'' demo_callback a"
proof -
  let ?o = "replicate 64 CHR ''a'' @ '':'' @ ''0''"
  let ?q = "(demo_request None, Get_callback ''bob'' demo_callback)"
  have parsed: "parse_outpoint ?o = Inr \<lparr>op_txid_hex = replicate 64 CHR ''a'', op_vout = 0\<rparr>"
    using split_once_first[of "CHR '':''" "replicate 64 CHR ''a''" "''0''"]
    by (simp add: parse_outpoint_def is_hex64_def is_ascii_hexdigit_def list_all_iff parse_u32_def digit_def
        u32_max_def)
  have none: "get_outpoint_address ''bob'' ?o (us_outpoints (sv_users demo_service)) = None"
    by (simp add: demo_service_def get_outpoint_address_def select_one_def)
  have pubkey: "\<exists>l. limited (check_per_pubkey 1000 ''k'') demo_service = (Inr (), demo_service)"
    by (simp add: limited_def check_per_pubkey_def atomic_sliding_window_check_def demo_service_def demo_limits_def)
  have outp: "limited (check_distinct_nyms_per_outpoint 1000 ?o ''bob'') demo_service = (Inr (), demo_service)"
    by (simp add: limited_def check_distinct_nyms_per_outpoint_def distinct_nyms_check_def demo_service_def demo_limits_def)
  have pending: "check_pending_reservations ''bob'' (us_outpoints (sv_users demo_service)) (sv_limiter demo_service) = Inr ()"
    by (simp add: check_pending_reservations_def demo_service_def demo_limits_def count_unfulfilled_reservations_def)
  obtain l where elec: "limited (check_electrum 1000) demo_service = (Inr (), demo_service\<lparr>sv_limiter := l\<rparr>)"
    by (simp add: limited_def check_electrum_def try_consume_def refill_def token_bucket_new_def secs_def
        demo_service_def demo_limits_def)
  obtain s' a where made: "prove_and_reserve demo_lnurl (demo_request None) ''bob'' None ''k'' ?o ''k'' demo_service
      = (Inr 4, s')" "us_outpoints (sv_users s') = [a]"
    using parsed none outp pending elec
    by (simp add: prove_and_reserve_def andThen_def rl_gate_def map_err_def handler_defs demo_lnurl_def demo_view_def
        script_matches_pubkey_def demo_ownership_def reserve_outpoint_def allocate_outpoint_address_def
        demo_request_def demo_service_def demo_account_def get_active_user_by_nym_def select_one_def)
  have "reserved_index demo_lnurl (demo_request None) ''bob'' demo_callback None demo_service = (Inr 4, s')"
    using made(1) none pubkey demo_proof
    by (simp add: reserved_index_def andThen_def rl_gate_def map_err_def handler_defs demo_request_def)
  then obtain r t where liquid: "serve_liquid demo_lnurl (demo_request None) ''bob'' demo_account demo_callback None False
      demo_service = (Inr r, t)" "us_outpoints (sv_users t) = [a]"
    using made(2)
    by (simp add: serve_liquid_def andThen_def map_err_def handler_defs liquid_response_addr_index_def
        derive_address_def demo_lnurl_def demo_descriptors_def touch_callback_def)
  have "request_ip (le_gates demo_lnurl) (demo_request None) = None"
    by (simp add: demo_lnurl_def demo_no_ip)
  then have "callback demo_lnurl (demo_request None) ''bob'' demo_callback demo_service = (Inr r, t)"
    using liquid(1)
    by (simp add: callback_def andThen_def handler_defs soft_fallback_def active_user_def demo_callback_def
        demo_lnurl_def requests_method_def trim_def ascii_space_def get_active_user_by_nym_def select_one_def
        demo_service_def demo_account_def)
  then have t: "sv_users (fold (serve demo_lnurl demo_register) [?q] demo_service) = sv_users t" by simp
  have "a \<in> set (us_outpoints (sv_users (fold (serve demo_lnurl demo_register) [?q] demo_service)))"
    "a \<notin> set (us_outpoints (sv_users demo_service))"
    unfolding t by (simp_all add: liquid(2) demo_service_def)
  from reservations_are_proven[OF this] show ?thesis
    using liquid(2) t by auto
qed

end
