(* ===== verification/Offers.thy ===== *)
theory Offers
  imports Lnurl
begin

text \<open>
  The payment offers of an invoice: the second half of src/src/invoice.rs.  What is
  still owed on an invoice, the Lightning offer (a Boltz reverse swap bound to the
  invoice), the Bitcoin offer (a Boltz chain swap), the BIP21 link of the latter and
  the text Boltz puts into the BOLT11.  The BOLT11 parser and the address libraries
  are arguments.
\<close>

subsection \<open>The environment\<close>

text \<open>\<open>bl_parse\<close>, \<open>bl_mainnet\<close> and \<open>bl_render\<close> are those of the bitcoin crate.\<close>
record 'ba btc_lib =
  bl_parse :: "string \<Rightarrow> string + 'ba"
  bl_mainnet :: "'ba \<Rightarrow> bool"
  bl_render :: "'ba \<Rightarrow> string"

text \<open>\<open>ie_would_expire\<close> parses a BOLT11 and answers whether it would be expired at a Unix time.\<close>
record ('net, 'd, 'ba, 'la, 'bk, 'xk, 'xs) invoice_env =
  ie_domain :: string
  ie_min_sendable_msat :: nat
  ie_max_sendable_msat :: nat
  ie_tolerances :: tolerances
  ie_partial_grace_secs :: int
  ie_gates :: "'net gates"
  ie_signing :: "('xk, 'xs) sig_scheme"
  ie_descriptors :: "'d descriptor_lib"
  ie_bitcoin :: "'ba btc_lib"
  ie_liquid :: "('la, 'bk) liquid_lib"
  ie_boltz :: boltz_lib
  ie_would_expire :: "string \<Rightarrow> (nat \<Rightarrow> bool) option"
  ie_sha256_hex :: "string \<Rightarrow> string"
  ie_parse_uuid :: "string \<Rightarrow> uuid option"
  ie_pricer :: pricer_config
  ie_currencies :: "currency_view list"

subsection \<open>What is owed\<close>

definition max_wallet_expires_secs :: int where "max_wallet_expires_secs = 604800"
definition list_limit_max :: int where "list_limit_max = 100"
definition checkout_default_expires_secs :: int where "checkout_default_expires_secs = 604800"
definition sat_per_btc :: int where "sat_per_btc = 100000000"
definition bolt11_refresh_margin_secs :: nat where "bolt11_refresh_margin_secs = 120"

definition remaining_amount_sat :: "invoice \<Rightarrow> sat" where
  "remaining_amount_sat i =
    max (sat_i64 (inv_amount_sat i - (case inv_paid_amount_sat i of None \<Rightarrow> 0 | Some p \<Rightarrow> p))) 0"

fun minimum :: "int list \<Rightarrow> int option" where
  "minimum [] = None"
| "minimum (x # xs) = (case minimum xs of None \<Rightarrow> Some x | Some y \<Rightarrow> Some (min x y))"

definition invoice_tolerance_sat :: "invoice \<Rightarrow> tolerances \<Rightarrow> sat" where
  "invoice_tolerance_sat i t =
    (let accepted = (if inv_accept_btc i then [tol_btc_sat t] else [])
           @ (if inv_accept_liquid i then [tol_liquid_sat t] else [])
           @ (if inv_accept_ln i then [tol_lightning_sat t] else []);
         rail_tolerance = (case minimum accepted of None \<Rightarrow> tol_lightning_sat t | Some m \<Rightarrow> m)
     in min rail_tolerance (max (tdiv (inv_amount_sat i) 100) 1))"

definition bolt11_is_reusable_at ::
  "('net, 'd, 'ba, 'la, 'bk, 'xk, 'xs) invoice_env \<Rightarrow> string \<Rightarrow> int \<Rightarrow> bool" where
  "bolt11_is_reusable_at env pr now_unix =
    (if now_unix < 0 then False
     else case ie_would_expire env pr of
       None \<Rightarrow> False
     | Some would_expire \<Rightarrow>
         \<not> would_expire (min 18446744073709551615 (nat now_unix + bolt11_refresh_margin_secs)))"

definition invoice_payment_rails_are_payable :: "invoice \<Rightarrow> bool" where
  "invoice_payment_rails_are_payable i \<longleftrightarrow> inv_status i \<in> {Unpaid, Partially_paid}
     \<and> inv_settlement_status i \<notin> {S_pending, S_claim_stuck, S_refunded}"

subsection \<open>Text for the payer\<close>

definition lightning_swap_nym :: "invoice \<Rightarrow> string option" where
  "lightning_swap_nym i = inv_nym_owner i"

definition invoice_public_url :: "string \<Rightarrow> string option \<Rightarrow> uuid \<Rightarrow> string" where
  "invoice_public_url domain nym_owner invoice_id =
    (case nym_owner of
       Some nym \<Rightarrow> ''https://'' @ domain @ ''/'' @ nym @ ''/i/'' @ uuid_text invoice_id
     | None \<Rightarrow> ''https://'' @ domain @ ''/invoice/'' @ uuid_text invoice_id)"

record boltz_description =
  bd_description :: "string option"
  bd_description_hash :: "string option"

definition is_ascii :: "string \<Rightarrow> bool" where
  "is_ascii s \<longleftrightarrow> list_all (\<lambda>ch. (of_char ch :: nat) < 128) s"

definition boltz_description_for_url ::
  "('net, 'd, 'ba, 'la, 'bk, 'xk, 'xs) invoice_env \<Rightarrow> string \<Rightarrow> boltz_description" where
  "boltz_description_for_url env url =
    (if is_ascii url \<and> length url \<le> 100 then \<lparr>bd_description = Some url, bd_description_hash = None\<rparr>
     else \<lparr>bd_description = None, bd_description_hash = Some (ie_sha256_hex env url)\<rparr>)"

definition boltz_description_for_invoice ::
  "('net, 'd, 'ba, 'la, 'bk, 'xk, 'xs) invoice_env \<Rightarrow> string \<Rightarrow> invoice \<Rightarrow> boltz_description" where
  "boltz_description_for_invoice env url i =
    (case (if inv_memo_public i then inv_memo i else None) of
       Some memo \<Rightarrow>
         if is_ascii memo \<and> length memo \<le> 100 then \<lparr>bd_description = Some memo, bd_description_hash = None\<rparr>
         else boltz_description_for_url env url
     | None \<Rightarrow> boltz_description_for_url env url)"

definition upper_hex_digit :: "nat \<Rightarrow> char" where
  "upper_hex_digit n = (if n < 10 then char_of (48 + n) else char_of (55 + n))"

definition unreserved :: "char \<Rightarrow> bool" where
  "unreserved ch \<longleftrightarrow> (let n = (of_char ch :: nat)
     in (65 \<le> n \<and> n \<le> 90) \<or> (97 \<le> n \<and> n \<le> 122) \<or> (48 \<le> n \<and> n \<le> 57) \<or> ch \<in> set ''-._~'')"

definition percent_encode_byte :: "char \<Rightarrow> string" where
  "percent_encode_byte ch =
    (if unreserved ch then [ch]
     else (let n = (of_char ch :: nat) in [CHR ''%'', upper_hex_digit (n div 16), upper_hex_digit (n mod 16)]))"

definition percent_encode_query_value :: "string \<Rightarrow> string" where
  "percent_encode_query_value s = concat (map percent_encode_byte s)"

definition query_key :: "string \<Rightarrow> string" where
  "query_key part = (case split_once CHR ''='' part of None \<Rightarrow> part | Some (k, v) \<Rightarrow> k)"

definition bip21_params :: "string \<Rightarrow> string list" where
  "bip21_params query = filter (\<lambda>part. part \<noteq> []) (split_on CHR ''&'' query)"

definition append_bip21_message :: "string \<Rightarrow> string \<Rightarrow> string" where
  "append_bip21_message bip21 message =
    (let encoded = percent_encode_query_value message;
         (base, query) = (case split_once CHR ''?'' bip21 of None \<Rightarrow> (bip21, None) | Some (b, q) \<Rightarrow> (b, Some q));
         params = (case query of None \<Rightarrow> []
                   | Some q \<Rightarrow> filter (\<lambda>part. query_key part \<noteq> ''message'') (bip21_params q))
     in base @ ''?'' @ join ''&'' (params @ [''message='' @ encoded]))"

subsection \<open>Creating the offers\<close>

definition lightning_offer_record :: "string option \<Rightarrow> nat \<Rightarrow> uuid \<Rightarrow> swap_result \<Rightarrow> string \<Rightarrow> new_swap_record" where
  "lightning_offer_record swap_nym amount_sat invoice_id sw json =
    \<lparr>ns_nym = swap_nym, ns_boltz_swap_id = sw_swap_id sw, ns_address = None, ns_address_index = None,
     ns_amount_sat = as_i64 (int amount_sat), ns_invoice = sw_invoice sw, ns_preimage_hex = sw_preimage_hex sw,
     ns_claim_key_hex = sw_claim_key_hex sw, ns_boltz_response_json = json, ns_invoice_id = Some invoice_id\<rparr>"

definition create_lightning_offer ::
  "('net, 'd, 'ba, 'la, 'bk, 'xk, 'xs) invoice_env \<Rightarrow> request \<Rightarrow> uuid \<Rightarrow> string option \<Rightarrow> nat \<Rightarrow> invoice
    \<Rightarrow> (service, app_error, string) handler" where
  "create_lightning_offer env rq swap_row_id swap_nym amount_sat i =
    andThen take_key_index (\<lambda>swap_key_index.
    let public_url = invoice_public_url (ie_domain env) (inv_nym_owner i) (inv_id i);
        description = boltz_description_for_invoice env public_url i in
    andThen (result (create_reverse_swap (ie_boltz env) swap_key_index amount_sat
               (bd_description description) (bd_description_hash description))) (\<lambda>sw.
    andThen (result (map_sum (\<lambda>e. BoltzError (''failed to serialize boltz response: '' @ e)) id
               (rr_json (sw_response sw)))) (\<lambda>json.
    andThen (store_swap (rq\<lparr>rq_fresh_id := swap_row_id\<rparr>) (lightning_offer_record swap_nym amount_sat (inv_id i) sw json)) (\<lambda>_.
    andThen (case swap_nym of None \<Rightarrow> pure () | Some nym \<Rightarrow> touch_callback rq nym) (\<lambda>_.
      pure (sw_invoice sw))))))"

record bitcoin_chain_offer =
  bo_lockup_address :: string
  bo_lockup_bip21 :: "string option"

definition store_chain_swap :: "request \<Rightarrow> uuid \<Rightarrow> new_chain_swap \<Rightarrow> (service, app_error, unit) handler" where
  "store_chain_swap rq fresh_id n = (\<lambda>s.
    case record_chain_swap (rq_now rq) fresh_id n (is_invoices (sv_ledger s)) (us_users (sv_users s)) (sv_chain s) of
      Inl e \<Rightarrow> (Inl (DbError (''failed to record chain swap '' @ nc_boltz_swap_id n @ '': '' @ sqlx_text e)), s)
    | Inr (r, t) \<Rightarrow> (Inr (), s\<lparr>sv_chain := t\<rparr>))"

definition create_bitcoin_chain_offer ::
  "('net, 'd, 'ba, 'la, 'bk, 'xk, 'xs) invoice_env \<Rightarrow> request \<Rightarrow> uuid \<Rightarrow> string option \<Rightarrow> nat \<Rightarrow> invoice
    \<Rightarrow> (service, app_error, bitcoin_chain_offer option) handler" where
  "create_bitcoin_chain_offer env rq chain_row_id swap_nym amount_sat i =
    (if inv_liquid_address i = None then pure None else
     andThen take_key_index (\<lambda>claim_key_index.
     andThen take_key_index (\<lambda>refund_key_index.
     andThen (result (create_btc_to_lbtc_chain_swap (ie_boltz env) claim_key_index refund_key_index amount_sat)) (\<lambda>cw.
     let public_url = invoice_public_url (ie_domain env) (inv_nym_owner i) (inv_id i);
         lockup_bip21 = map_option (\<lambda>b. append_bip21_message b public_url) (cw_lockup_bip21 cw) in
     andThen (result (map_sum (\<lambda>e. BoltzError (''failed to serialize chain-swap response: '' @ e)) id
               (cr_json (cw_response cw)))) (\<lambda>json.
     andThen (store_chain_swap rq chain_row_id
       \<lparr>nc_invoice_id = inv_id i, nc_nym = swap_nym, nc_boltz_swap_id = cw_swap_id cw,
        nc_lockup_address = cw_lockup_address cw, nc_lockup_bip21 = lockup_bip21,
        nc_user_lock_amount_sat = as_i64 (int (cw_user_lock_amount_sat cw)),
        nc_server_lock_amount_sat = as_i64 (int (cw_server_lock_amount_sat cw)),
        nc_preimage_hex = cw_preimage_hex cw, nc_claim_key_hex = cw_claim_key_hex cw,
        nc_refund_key_hex = cw_refund_key_hex cw, nc_boltz_response_json = json\<rparr>) (\<lambda>_.
       pure (Some \<lparr>bo_lockup_address = cw_lockup_address cw, bo_lockup_bip21 = lockup_bip21\<rparr>)))))))"

subsection \<open>Re-using the latest offer\<close>

text \<open>The latest offer, when it still asks for this amount and is far enough from expiring.\<close>
definition reusable_offer ::
  "('net, 'd, 'ba, 'la, 'bk, 'xk, 'xs) invoice_env \<Rightarrow> int \<Rightarrow> uuid \<Rightarrow> sat \<Rightarrow> service \<Rightarrow> string option" where
  "reusable_offer env now iid amount_sat s =
    (case latest_lightning_pr_for_invoice iid (sv_swaps s) of
       None \<Rightarrow> None
     | Some (pr, pr_amount_sat) \<Rightarrow>
         if pr_amount_sat = amount_sat \<and> bolt11_is_reusable_at env pr now then Some pr else None)"

text \<open>What runs under the invoice's advisory lock: look again, then create.\<close>
definition refresh_offer_locked ::
  "('net, 'd, 'ba, 'la, 'bk, 'xk, 'xs) invoice_env \<Rightarrow> request \<Rightarrow> uuid \<Rightarrow> invoice
    \<Rightarrow> (service, app_error, string option) handler" where
  "refresh_offer_locked env rq swap_row_id i =
    andThen (gets (reusable_offer env (int (rq_unix rq)) (inv_id i) (remaining_amount_sat i))) (\<lambda>latest.
      case latest of
        Some pr \<Rightarrow> pure (Some pr)
      | None \<Rightarrow>
         andThen (create_lightning_offer env rq swap_row_id (lightning_swap_nym i) (nat (remaining_amount_sat i)) i)
           (\<lambda>pr. pure (Some pr)))"

definition ensure_reusable_lightning_offer ::
  "('net, 'd, 'ba, 'la, 'bk, 'xk, 'xs) invoice_env \<Rightarrow> request \<Rightarrow> uuid \<Rightarrow> invoice
    \<Rightarrow> (service, app_error, string option) handler" where
  "ensure_reusable_lightning_offer env rq swap_row_id i =
    (if inv_status i \<notin> {Unpaid, Partially_paid} \<or> \<not> inv_accept_ln i then pure None
     else if remaining_amount_sat i \<le> 0 then pure None
     else andThen (gets (reusable_offer env (int (rq_unix rq)) (inv_id i) (remaining_amount_sat i))) (\<lambda>latest.
       case latest of
         Some pr \<Rightarrow> pure (Some pr)
       | None \<Rightarrow>
          if epoch (inv_expires_at i) \<le> int (rq_unix rq) then pure None
          else refresh_offer_locked env rq swap_row_id i))"

definition latest_reusable_lightning_offer ::
  "('net, 'd, 'ba, 'la, 'bk, 'xk, 'xs) invoice_env \<Rightarrow> request \<Rightarrow> invoice \<Rightarrow> (service, app_error, string option) handler" where
  "latest_reusable_lightning_offer env rq i =
    (if inv_status i \<notin> {Unpaid, Partially_paid} \<or> \<not> inv_accept_ln i then pure None
     else if remaining_amount_sat i \<le> 0 \<or> epoch (inv_expires_at i) \<le> int (rq_unix rq) then pure None
     else gets (reusable_offer env (int (rq_unix rq)) (inv_id i) (remaining_amount_sat i)))"

end
