(* ===== verification/InvoiceApi.thy ===== *)
theory InvoiceApi
  imports Offers
begin

text \<open>
  The invoice endpoints: the handlers of src/src/invoice.rs over the state of theory
  Service.  The payment page is the record its template is filled from; turning it
  into HTML, the response headers and the 410 route are not modelled.
\<close>

subsection \<open>Gates\<close>

text \<open>A per-source limit that allowlisted and certified callers skip.\<close>
definition gate_source ::
  "'net gates \<Rightarrow> certification_scope \<Rightarrow> request \<Rightarrow> (int \<Rightarrow> ip_addr \<Rightarrow> limiter \<Rightarrow> (app_error + unit) \<times> limiter)
    \<Rightarrow> (service, app_error, unit) handler" where
  "gate_source g scope rq axis =
    (case request_ip g rq of
       None \<Rightarrow> pure ()
     | Some ip \<Rightarrow>
         if \<not> whitelisted g ip \<and> \<not> certified g scope rq then limited (axis (rq_now rq) ip) else pure ())"

text \<open>Is this caller subject to the limits?\<close>
definition subject_to_limits :: "'net gates \<Rightarrow> certification_scope \<Rightarrow> request \<Rightarrow> bool" where
  "subject_to_limits g scope rq \<longleftrightarrow>
     \<not> (case request_ip g rq of None \<Rightarrow> False | Some ip \<Rightarrow> whitelisted g ip) \<and> \<not> certified g scope rq"

definition parse_invoice_id ::
  "('net, 'd, 'ba, 'la, 'bk, 'xk, 'xs) invoice_env \<Rightarrow> string \<Rightarrow> app_error + uuid" where
  "parse_invoice_id env s = (case ie_parse_uuid env s of None \<Rightarrow> Inl (InvoiceNotFound s) | Some i \<Rightarrow> Inr i)"

definition load_invoice :: "string \<Rightarrow> uuid \<Rightarrow> (service, app_error, invoice) handler" where
  "load_invoice id_str iid =
    andThen (gets (\<lambda>s. get_invoice_by_id iid (is_invoices (sv_ledger s)))) (some_or (InvoiceNotFound id_str))"

subsection \<open>The amount of a request\<close>

record create_anonymous_request =
  ca_amount_sat :: "int option"
  ca_fiat_amount_minor :: "int option"
  ca_fiat_currency :: "string option"

text \<open>The pricer's reply, if it is asked, comes with the request.\<close>
definition current_rate ::
  "('net, 'd, 'ba, 'la, 'bk, 'xk, 'xs) invoice_env \<Rightarrow> request \<Rightarrow> pricer_reply \<Rightarrow> string
    \<Rightarrow> (service, app_error, rate_view option) handler" where
  "current_rate env rq reply currency = (\<lambda>s.
    case get_rate (ie_pricer env) (rq_now rq) (int (rq_unix rq)) reply currency (sv_rates s) of
      (v, cache) \<Rightarrow> (Inr v, s\<lparr>sv_rates := cache\<rparr>))"

definition min_sat :: "('net, 'd, 'ba, 'la, 'bk, 'xk, 'xs) invoice_env \<Rightarrow> int" where
  "min_sat env = as_i64 (int (ie_min_sendable_msat env div 1000))"

definition max_sat :: "('net, 'd, 'ba, 'la, 'bk, 'xk, 'xs) invoice_env \<Rightarrow> int" where
  "max_sat env = as_i64 (int (ie_max_sendable_msat env div 1000))"

definition max_fiat_minor :: int where "max_fiat_minor = 1000000000"

definition sat_amount ::
  "('net, 'd, 'ba, 'la, 'bk, 'xk, 'xs) invoice_env \<Rightarrow> int \<Rightarrow> app_error + int" where
  "sat_amount env sat =
    (if sat \<le> 0 then Inl (InvalidAmount ''amount_sat must be > 0'')
     else if sat < min_sat env then Inl (InvalidAmount (''minimum is '' @ show_int (min_sat env) @ '' sat''))
     else if max_sat env < sat then Inl (InvalidAmount (''maximum is '' @ show_int (max_sat env) @ '' sat''))
     else Inr sat)"

definition fiat_to_sat ::
  "('net, 'd, 'ba, 'la, 'bk, 'xk, 'xs) invoice_env \<Rightarrow> int \<Rightarrow> int \<Rightarrow> app_error + int" where
  "fiat_to_sat env minor minor_per_btc =
    (let amount_sat = tdiv (minor * sat_per_btc) minor_per_btc in
     if amount_sat \<le> 0
       then Inl (InvalidAmount ''computed amount_sat <= 0 (rate too high or fiat amount too small)'')
     else if amount_sat < min_sat env
       then Inl (InvalidAmount (''computed amount '' @ show_int amount_sat @ '' sat below minimum ''
              @ show_int (min_sat env) @ '' sat''))
     else if max_sat env < amount_sat
       then Inl (InvalidAmount (''computed amount '' @ show_int amount_sat @ '' sat above maximum ''
              @ show_int (max_sat env) @ '' sat''))
     else Inr amount_sat)"

definition fiat_amount ::
  "('net, 'd, 'ba, 'la, 'bk, 'xk, 'xs) invoice_env \<Rightarrow> request \<Rightarrow> pricer_reply \<Rightarrow> int \<Rightarrow> string
    \<Rightarrow> (service, app_error, int \<times> (int \<times> string \<times> int) option) handler" where
  "fiat_amount env rq reply minor currency0 =
    (let currency = normalize_currency_code currency0 in
     andThen (require (is_supported_currency (ie_currencies env) currency) (InvalidAmount
       (''unsupported fiat_currency '' @ currency @ ''; fetch /api/v1/supported-currencies''))) (\<lambda>_.
     andThen (require (0 < minor) (InvalidAmount ''fiat_amount_minor must be > 0'')) (\<lambda>_.
     andThen (require (minor \<le> max_fiat_minor)
       (InvalidAmount (''fiat_amount_minor exceeds '' @ show_int max_fiat_minor))) (\<lambda>_.
     andThen (current_rate env rq reply currency) (\<lambda>r.
     andThen (some_or (ServiceUnavailable ''pricer unavailable for invoice creation'') r) (\<lambda>rate.
     andThen (require (\<not> rv_last_known_rate rate)
       (ServiceUnavailable ''pricer is returning stale rate; cannot create new invoice'')) (\<lambda>_.
     andThen (result (fiat_to_sat env minor (rv_minor_per_btc rate))) (\<lambda>amount_sat.
       pure (amount_sat, Some (minor, currency, rv_minor_per_btc rate))))))))))"

definition parse_create_request ::
  "('net, 'd, 'ba, 'la, 'bk, 'xk, 'xs) invoice_env \<Rightarrow> request \<Rightarrow> pricer_reply \<Rightarrow> create_anonymous_request
    \<Rightarrow> (service, app_error, int \<times> (int \<times> string \<times> int) option) handler" where
  "parse_create_request env rq reply r =
    (let has_sat = ca_amount_sat r \<noteq> None;
         has_fiat = ca_fiat_amount_minor r \<noteq> None \<or> ca_fiat_currency r \<noteq> None in
     andThen (require (\<not> (has_sat \<and> has_fiat))
       (InvalidAmount ''specify amount_sat OR (fiat_amount_minor + fiat_currency), not both'')) (\<lambda>_.
     andThen (require (has_sat \<or> has_fiat)
       (InvalidAmount ''missing amount_sat or (fiat_amount_minor + fiat_currency)'')) (\<lambda>_.
     case ca_amount_sat r of
       Some sat \<Rightarrow> andThen (result (sat_amount env sat)) (\<lambda>sat. pure (sat, None))
     | None \<Rightarrow>
        andThen (some_or (InvalidAmount ''missing fiat_amount_minor'') (ca_fiat_amount_minor r)) (\<lambda>minor.
        andThen (some_or (InvalidAmount ''missing fiat_currency'') (ca_fiat_currency r)) (\<lambda>currency.
          fiat_amount env rq reply minor currency)))))"

subsection \<open>Storing an invoice\<close>

text \<open>The identifiers the database generates for one creation, and the pricer's reply.\<close>
record creation_inputs =
  ci_invoice_id :: uuid
  ci_swap_id :: uuid
  ci_chain_id :: uuid
  ci_rate_reply :: pricer_reply

definition store_invoice :: "request \<Rightarrow> uuid \<Rightarrow> new_invoice \<Rightarrow> (service, app_error, invoice) handler" where
  "store_invoice rq fresh_id n = (\<lambda>s.
    case insert_invoice (rq_now rq) fresh_id n (sv_ledger s) of
      Inl e \<Rightarrow> (Inl (from_sqlx e), s)
    | Inr (i, l) \<Rightarrow> (Inr i, s\<lparr>sv_ledger := l\<rparr>))"

text \<open>The rows of chain swaps go with their invoice.\<close>
definition discard_invoice :: "uuid \<Rightarrow> (service, app_error, unit) handler" where
  "discard_invoice iid = modifies (\<lambda>s.
     case delete_unpaid_invoice_without_swaps iid (sv_swaps s) (sv_ledger s) of
       (rows, l) \<Rightarrow> s\<lparr>sv_ledger := l, sv_chain := (if rows = 0 then sv_chain s
         else fst (delete_where (\<lambda>r. cs_invoice_id r = iid) (sv_chain s)))\<rparr>)"

text \<open>A failure the caller goes on after.\<close>
definition attempt :: "('s, 'e, 'a) handler \<Rightarrow> ('s, 'f, 'e + 'a) handler" where
  "attempt m = (\<lambda>s. case m s of (r, s') \<Rightarrow> (Inr r, s'))"

subsection \<open>Checkout invoices\<close>

text \<open>The \<open>derive\<close> closure of the three allocators.\<close>
definition derive_for ::
  "('net, 'd, 'ba, 'la, 'bk, 'xk, 'xs) invoice_env \<Rightarrow> string \<Rightarrow> nat \<Rightarrow> string db_result" where
  "derive_for env ct_descriptor idx =
    map_sum (\<lambda>e. ProtocolError (''derive_address: '' @ error_text e)) id
      (derive_address (ie_descriptors env) ct_descriptor idx)"

definition allocate_for_pos ::
  "('net, 'd, 'ba, 'la, 'bk, 'xk, 'xs) invoice_env \<Rightarrow> string \<Rightarrow> (service, app_error, (string \<times> int \<times> string) option) handler"
  where
  "allocate_for_pos env nym = (\<lambda>s.
    case allocate_next_liquid_for_pos_terminal (derive_for env) nym (is_addresses (sv_ledger s)) (po_pages (sv_pos s)) of
      (r, ps) \<Rightarrow> (map_sum from_sqlx id r, s\<lparr>sv_pos := (sv_pos s)\<lparr>po_pages := ps\<rparr>\<rparr>))"

definition allocate_for_page ::
  "('net, 'd, 'ba, 'la, 'bk, 'xk, 'xs) invoice_env \<Rightarrow> string \<Rightarrow> (service, app_error, (string \<times> int \<times> string) option) handler"
  where
  "allocate_for_page env nym = (\<lambda>s.
    case allocate_next_liquid_for_donation_page (derive_for env) nym (is_addresses (sv_ledger s)) (po_pages (sv_pos s)) of
      (r, ps) \<Rightarrow> (map_sum from_sqlx id r, s\<lparr>sv_pos := (sv_pos s)\<lparr>po_pages := ps\<rparr>\<rparr>))"

definition allocate_for_nym ::
  "('net, 'd, 'ba, 'la, 'bk, 'xk, 'xs) invoice_env \<Rightarrow> string \<Rightarrow> (service, app_error, (string \<times> int) option) handler" where
  "allocate_for_nym env nym = (\<lambda>s.
    case allocate_next_liquid_for_active_nym (derive_for env) nym (is_addresses (sv_ledger s)) (us_users (sv_users s)) of
      (r, us) \<Rightarrow> (map_sum from_sqlx id r, s\<lparr>sv_users := (sv_users s)\<lparr>us_users := us\<rparr>\<rparr>))"

text \<open>The settlement address of a checkout and the descriptor it comes from.\<close>
definition allocate_checkout_address ::
  "('net, 'd, 'ba, 'la, 'bk, 'xk, 'xs) invoice_env \<Rightarrow> string \<Rightarrow> uuid option \<Rightarrow> user
    \<Rightarrow> (service, app_error, string \<times> string) handler" where
  "allocate_checkout_address env nym terminal_id owner =
    (if terminal_id \<noteq> None then
       andThen (allocate_for_pos env nym) (\<lambda>r.
       andThen (some_or (PosDescriptorRequired nym) r) (\<lambda>(address, index, d). pure (address, d)))
     else
       andThen (allocate_for_page env nym) (\<lambda>r.
         case r of
           Some (address, index, d) \<Rightarrow> pure (address, d)
         | None \<Rightarrow>
            andThen (allocate_for_nym env nym) (\<lambda>r.
            andThen (some_or (DonationPageNotFound nym) r) (\<lambda>(address, index).
              pure (address, u_ct_descriptor owner)))))"

record checkout_options =
  co_terminal_id :: "uuid option"
  co_memo :: "string option"

definition checkout_owner :: "string \<Rightarrow> uuid option \<Rightarrow> (service, app_error, user) handler" where
  "checkout_owner nym terminal_id =
    andThen (gets (\<lambda>s. get_donation_page_by_nym nym (po_pages (sv_pos s)))) (\<lambda>p.
    andThen (some_or (DonationPageNotFound nym) p) (\<lambda>page.
    andThen (require (\<not> (dp_is_archived page \<or> (\<not> dp_enabled page \<and> terminal_id = None)))
      (DonationPageNotFound nym)) (\<lambda>_.
    andThen (gets (\<lambda>s. get_active_user_by_nym nym (us_users (sv_users s)))) (some_or (DonationPageNotFound nym)))))"

definition checkout_invoice ::
  "string \<Rightarrow> user \<Rightarrow> checkout_options \<Rightarrow> int \<Rightarrow> (int \<times> string \<times> int) option \<Rightarrow> string \<Rightarrow> string \<Rightarrow> new_invoice" where
  "checkout_invoice nym owner opts amount_sat fiat liquid_address blinding =
    \<lparr>ni_nym_owner = Some nym, ni_npub_owner = u_npub owner, ni_origin = ''checkout'',
     ni_fiat_amount_minor = map_option fst fiat, ni_fiat_currency = map_option (\<lambda>f. fst (snd f)) fiat,
     ni_amount_sat = amount_sat, ni_rate_minor_per_btc = map_option (\<lambda>f. snd (snd f)) fiat,
     ni_rate_lock_secs = checkout_default_expires_secs, ni_memo = co_memo opts, ni_terminal_id = co_terminal_id opts,
     ni_memo_public = co_memo opts \<noteq> None, ni_recipient_label = None, ni_public_description = None,
     ni_invoice_number = None, ni_accept_btc = False, ni_accept_ln = True, ni_accept_liquid = True,
     ni_bitcoin_address = None, ni_liquid_address = Some liquid_address,
     ni_liquid_blinding_key_hex = Some blinding, ni_expires_in_secs = checkout_default_expires_secs\<rparr>"

record create_invoice_response =
  ic_invoice_id :: uuid
  ic_lightning_pr :: string
  ic_liquid_address :: string
  ic_bitcoin_chain_address :: "string option"
  ic_bitcoin_chain_bip21 :: "string option"
  ic_expires_at_unix :: int

text \<open>The eager Lightning offer; without one the fresh invoice is taken back.\<close>
definition eager_lightning_offer ::
  "('net, 'd, 'ba, 'la, 'bk, 'xk, 'xs) invoice_env \<Rightarrow> request \<Rightarrow> uuid \<Rightarrow> string \<Rightarrow> nat \<Rightarrow> invoice
    \<Rightarrow> (service, app_error, string) handler" where
  "eager_lightning_offer env rq swap_row_id nym amount_sat i =
    andThen (attempt (create_lightning_offer env rq swap_row_id (Some nym) amount_sat i)) (\<lambda>r.
      case r of
        Inr pr \<Rightarrow> pure pr
      | Inl e \<Rightarrow> andThen (discard_invoice (inv_id i)) (\<lambda>_. fail e))"

definition create_checkout_invoice_inner ::
  "('net, 'd, 'ba, 'la, 'bk, 'xk, 'xs) invoice_env \<Rightarrow> request \<Rightarrow> creation_inputs \<Rightarrow> string \<Rightarrow> create_anonymous_request
    \<Rightarrow> checkout_options \<Rightarrow> (service, app_error, create_invoice_response) handler" where
  "create_checkout_invoice_inner env rq fresh nym r opts =
    andThen (if co_terminal_id opts = None
             then gate_source (ie_gates env) InvoiceCreate rq check_invoice_create_per_source else pure ()) (\<lambda>_.
    andThen (parse_create_request env rq (ci_rate_reply fresh) r) (\<lambda>(amount_sat, fiat).
    andThen (checkout_owner nym (co_terminal_id opts)) (\<lambda>owner.
    andThen (allocate_checkout_address env nym (co_terminal_id opts) owner) (\<lambda>(liquid_address, descriptor).
    andThen (result (derive_blinding_key_hex (ie_descriptors env) descriptor liquid_address)) (\<lambda>blinding.
    andThen (store_invoice rq (ci_invoice_id fresh)
      (checkout_invoice nym owner opts amount_sat fiat liquid_address blinding)) (\<lambda>i.
    andThen (eager_lightning_offer env rq (ci_swap_id fresh) nym (nat amount_sat) i) (\<lambda>lightning_pr.
    andThen (attempt (create_bitcoin_chain_offer env rq (ci_chain_id fresh) (Some nym) (nat amount_sat) i)) (\<lambda>c.
    let chain_offer = (case c of Inl e \<Rightarrow> None | Inr offer \<Rightarrow> offer) in pure
      \<lparr>ic_invoice_id = inv_id i, ic_lightning_pr = lightning_pr, ic_liquid_address = liquid_address,
       ic_bitcoin_chain_address = map_option bo_lockup_address chain_offer,
       ic_bitcoin_chain_bip21 = (case chain_offer of None \<Rightarrow> None | Some offer \<Rightarrow> bo_lockup_bip21 offer),
       ic_expires_at_unix = epoch (inv_expires_at i)\<rparr>))))))))"

definition create_anonymous ::
  "('net, 'd, 'ba, 'la, 'bk, 'xk, 'xs) invoice_env \<Rightarrow> request \<Rightarrow> creation_inputs \<Rightarrow> string \<Rightarrow> create_anonymous_request
    \<Rightarrow> (service, app_error, create_invoice_response) handler" where
  "create_anonymous env rq fresh nym r =
    create_checkout_invoice_inner env rq fresh nym r \<lparr>co_terminal_id = None, co_memo = None\<rparr>"

text \<open>Characters are counted on their first UTF-8 byte; control characters are
  the C0 and C1 sets and DEL.\<close>
definition char_count :: "string \<Rightarrow> nat" where
  "char_count s = length (filter (\<lambda>ch. (of_char ch :: nat) < 128 \<or> 192 \<le> (of_char ch :: nat)) s)"

fun has_control :: "string \<Rightarrow> bool" where
  "has_control [] = False"
| "has_control (c # s) = (let n = (of_char c :: nat) in
     n < 32 \<or> n = 127
     \<or> (n = 194 \<and> (case s of [] \<Rightarrow> False | d # _ \<Rightarrow> 128 \<le> (of_char d :: nat) \<and> (of_char d :: nat) < 160))
     \<or> has_control s)"

definition pos_memo_max :: nat where "pos_memo_max = 280"

definition validate_pos_memo :: "string option \<Rightarrow> app_error + string option" where
  "validate_pos_memo memo =
    (case memo of
       None \<Rightarrow> Inr None
     | Some m \<Rightarrow>
         if has_control m then Inl (InvalidAmount ''memo must not contain control characters'')
         else if pos_memo_max < char_count m
           then Inl (InvalidAmount (''memo too long (max '' @ show_nat pos_memo_max @ '' chars)''))
         else if m = [] then Inr None
         else Inr (Some m))"

end
