(* ===== verification/InvoiceViews.thy ===== *)
theory InvoiceViews
  imports InvoiceApi
begin

text \<open>
  The invoice endpoints of src/src/invoice.rs that a payer reads: the payment page, the
  status poll and the Lightning offer on demand.
\<close>

subsection \<open>The payment page\<close>

definition pad_left :: "nat \<Rightarrow> string \<Rightarrow> string" where
  "pad_left width s = replicate (width - length s) CHR ''0'' @ s"

definition format_fiat_major :: "int \<Rightarrow> string \<Rightarrow> string" where
  "format_fiat_major minor currency =
    (let p = currency_precision currency in
     if p = 0 then show_int minor @ '' '' @ currency
     else (let divisor = 10 ^ p; major = tdiv minor divisor; frac = \<bar>minor - divisor * major\<bar>
           in show_int major @ ''.'' @ pad_left p (show_int frac) @ '' '' @ currency))"

text \<open>The three \<open>replace\<close> calls on the JSON text.\<close>
definition js_safe_char :: "char \<Rightarrow> string" where
  "js_safe_char ch =
    (if ch = CHR ''<'' then [CHR 0x5C] @ ''u003c''
     else if ch = CHR ''>'' then [CHR 0x5C] @ ''u003e''
     else if ch = CHR ''&'' then [CHR 0x5C] @ ''u0026''
     else [ch])"

definition js_string_literal :: "string option \<Rightarrow> string" where
  "js_string_literal value =
    concat (map js_safe_char (json_string (case value of None \<Rightarrow> [] | Some s \<Rightarrow> s)))"

record invoice_page =
  pg_nym :: string
  pg_is_unlinked :: bool
  pg_invoice_id :: string
  pg_domain :: string
  pg_status :: invoice_status
  pg_settlement_status :: settlement_status
  pg_amount_sat :: sat
  pg_remaining_amount_sat :: sat
  pg_fiat_display :: "string option"
  pg_public_description :: "string option"
  pg_recipient_name :: "string option"
  pg_invoice_number :: "string option"
  pg_memo :: "string option"
  pg_accept_btc :: bool
  pg_accept_ln :: bool
  pg_accept_liquid :: bool
  pg_bitcoin_chain_address :: "string option"
  pg_bitcoin_address_js :: string
  pg_bitcoin_chain_address_js :: string
  pg_bitcoin_chain_bip21_js :: string
  pg_liquid_address_js :: string
  pg_liquid_btc_asset_id :: string

definition liquid_btc_asset_id :: string where
  "liquid_btc_asset_id = ''6f0279e9ed041c3d710a9f57d0c02928416460c4b722ae3457a11eec381c526d''"

definition payable_chain_offer :: "invoice \<Rightarrow> service \<Rightarrow> chain_swap option" where
  "payable_chain_offer i s =
    (if invoice_payment_rails_are_payable i
     then latest_payable_chain_swap_for_invoice (inv_id i) (remaining_amount_sat i) (sv_chain s) else None)"

definition render_invoice_template ::
  "('net, 'd, 'ba, 'la, 'bk, 'xk, 'xs) invoice_env \<Rightarrow> invoice \<Rightarrow> (service, app_error, invoice_page) handler" where
  "render_invoice_template env i =
    andThen (gets (payable_chain_offer i)) (\<lambda>offer.
    let is_unlinked = (inv_nym_owner i = None);
        chain_address = map_option cs_lockup_address offer;
        chain_bip21 = (case offer of None \<Rightarrow> None | Some r \<Rightarrow> cs_lockup_bip21 r)
    in pure
      \<lparr>pg_nym = (case inv_nym_owner i of None \<Rightarrow> [] | Some n \<Rightarrow> n), pg_is_unlinked = is_unlinked,
       pg_invoice_id = uuid_text (inv_id i), pg_domain = ie_domain env, pg_status = inv_status i,
       pg_settlement_status = inv_settlement_status i, pg_amount_sat = inv_amount_sat i,
       pg_remaining_amount_sat = remaining_amount_sat i,
       pg_fiat_display = (case (inv_fiat_amount_minor i, inv_fiat_currency i) of
            (Some minor, Some cur) \<Rightarrow> Some (format_fiat_major minor cur) | _ \<Rightarrow> None),
       pg_public_description = inv_public_description i, pg_recipient_name = inv_recipient_label i,
       pg_invoice_number = inv_invoice_number i,
       pg_memo = (if inv_memo_public i \<and> \<not> is_unlinked then inv_memo i else None),
       pg_accept_btc = inv_accept_btc i, pg_accept_ln = inv_accept_ln i, pg_accept_liquid = inv_accept_liquid i,
       pg_bitcoin_chain_address = chain_address, pg_bitcoin_address_js = js_string_literal (inv_bitcoin_address i),
       pg_bitcoin_chain_address_js = js_string_literal chain_address,
       pg_bitcoin_chain_bip21_js = js_string_literal chain_bip21,
       pg_liquid_address_js = js_string_literal (inv_liquid_address i),
       pg_liquid_btc_asset_id = liquid_btc_asset_id\<rparr>)"

definition render_payment ::
  "('net, 'd, 'ba, 'la, 'bk, 'xk, 'xs) invoice_env \<Rightarrow> string \<Rightarrow> string \<Rightarrow> (service, app_error, invoice_page) handler" where
  "render_payment env nym id_str =
    andThen (result (parse_invoice_id env id_str)) (\<lambda>iid.
    andThen (load_invoice id_str iid) (\<lambda>i.
    andThen (require (inv_nym_owner i = Some nym) (InvoiceNotFound id_str)) (\<lambda>_.
      render_invoice_template env i)))"

definition render_unlinked_payment ::
  "('net, 'd, 'ba, 'la, 'bk, 'xk, 'xs) invoice_env \<Rightarrow> string \<Rightarrow> (service, app_error, invoice_page) handler" where
  "render_unlinked_payment env id_str =
    andThen (result (parse_invoice_id env id_str)) (\<lambda>iid.
    andThen (load_invoice id_str iid) (render_invoice_template env))"

subsection \<open>The status poll\<close>

record invoice_status_response =
  st_status :: invoice_status
  st_memo :: "string option"
  st_pricing_mode :: pricing_mode
  st_settlement_status :: settlement_status
  st_amount_sat :: sat
  st_fiat_amount_minor :: "int option"
  st_fiat_currency :: "string option"
  st_remaining_amount_sat :: sat
  st_payment_tolerance_sat :: sat
  st_rate_minor_per_btc :: "int option"
  st_rate_locks_until_unix :: int
  st_expires_at_unix :: int
  st_paid_via :: "string option"
  st_paid_at_unix :: "int option"
  st_paid_amount_sat :: "sat option"
  st_lightning_pr :: "string option"
  st_liquid_address :: "string option"
  st_bitcoin_address :: "string option"
  st_observations :: "payment_observation list"
  st_bitcoin_chain_address :: "string option"
  st_bitcoin_chain_bip21 :: "string option"
  st_accept_btc :: bool
  st_accept_ln :: bool
  st_accept_liquid :: bool

definition terminalize_stale ::
  "('net, 'd, 'ba, 'la, 'bk, 'xk, 'xs) invoice_env \<Rightarrow> request \<Rightarrow> uuid \<Rightarrow> (service, 'e, unit) handler" where
  "terminalize_stale env rq iid = modifies (\<lambda>s. s\<lparr>sv_ledger := (sv_ledger s)\<lparr>is_invoices :=
     fst (terminalize_stale_checkout_partial_invoice (rq_now rq) iid (ie_partial_grace_secs env)
       (is_events (sv_ledger s)) (is_invoices (sv_ledger s)))\<rparr>\<rparr>)"

definition invoice_status_endpoint ::
  "('net, 'd, 'ba, 'la, 'bk, 'xk, 'xs) invoice_env \<Rightarrow> request \<Rightarrow> string
    \<Rightarrow> (service, app_error, invoice_status_response) handler" where
  "invoice_status_endpoint env rq id_str =
    andThen (gate_source (ie_gates env) InvoiceStatus rq check_invoice_status_per_source) (\<lambda>_.
    andThen (result (parse_invoice_id env id_str)) (\<lambda>iid.
    andThen (terminalize_stale env rq iid) (\<lambda>_.
    andThen (load_invoice id_str iid) (\<lambda>i.
    andThen (latest_reusable_lightning_offer env rq i) (\<lambda>lightning_pr.
    andThen (gets (payable_chain_offer i)) (\<lambda>offer.
    andThen (gets (\<lambda>s. list_invoice_payment_observations (inv_id i) 10 (is_observations (sv_ledger s)))) (\<lambda>obs. pure
      \<lparr>st_status = inv_status i, st_memo = (if inv_memo_public i then inv_memo i else None),
       st_pricing_mode = inv_pricing_mode i, st_settlement_status = inv_settlement_status i,
       st_amount_sat = inv_amount_sat i, st_fiat_amount_minor = inv_fiat_amount_minor i,
       st_fiat_currency = inv_fiat_currency i, st_remaining_amount_sat = remaining_amount_sat i,
       st_payment_tolerance_sat = invoice_tolerance_sat i (ie_tolerances env),
       st_rate_minor_per_btc = inv_rate_minor_per_btc i, st_rate_locks_until_unix = epoch (inv_rate_locks_until i),
       st_expires_at_unix = epoch (inv_expires_at i), st_paid_via = inv_paid_via i,
       st_paid_at_unix = map_option epoch (inv_paid_at i), st_paid_amount_sat = inv_paid_amount_sat i,
       st_lightning_pr = lightning_pr, st_liquid_address = inv_liquid_address i,
       st_bitcoin_address = inv_bitcoin_address i, st_observations = obs,
       st_bitcoin_chain_address = map_option cs_lockup_address offer,
       st_bitcoin_chain_bip21 = (case offer of None \<Rightarrow> None | Some r \<Rightarrow> cs_lockup_bip21 r),
       st_accept_btc = inv_accept_btc i, st_accept_ln = inv_accept_ln i, st_accept_liquid = inv_accept_liquid i\<rparr>)))))))"

subsection \<open>The Lightning offer on demand\<close>

definition fetch_lightning_offer ::
  "('net, 'd, 'ba, 'la, 'bk, 'xk, 'xs) invoice_env \<Rightarrow> request \<Rightarrow> uuid \<Rightarrow> string \<Rightarrow> (service, app_error, string) handler" where
  "fetch_lightning_offer env rq swap_row_id id_str =
    andThen (gate_source (ie_gates env) LiveMoneyOffer rq check_lightning_per_source) (\<lambda>_.
    andThen (result (parse_invoice_id env id_str)) (\<lambda>iid.
    andThen (load_invoice id_str iid) (\<lambda>i.
    andThen (require (inv_status i \<in> {Unpaid, Partially_paid}) (InvalidAmount
      (''invoice is '' @ invoice_status_text (inv_status i) @ '' (not payable); no Lightning offer available''))) (\<lambda>_.
    andThen (require (inv_accept_ln i) (InvalidAmount ''invoice does not accept Lightning'')) (\<lambda>_.
    andThen (ensure_reusable_lightning_offer env rq swap_row_id i) (\<lambda>pr.
      some_or (InvalidAmount ''invoice expired; no Lightning offer available'') pr))))))"

end
