(* ===== verification/WalletInvoices.thy ===== *)
theory WalletInvoices
  imports InvoiceViews
begin

text \<open>
  The invoice endpoints a merchant's wallet signs for: create, cancel and list
  (src/src/invoice.rs).
\<close>

definition invoice_action_create :: string where "invoice_action_create = ''invoice-create''"
definition invoice_action_cancel :: string where "invoice_action_cancel = ''invoice-cancel''"
definition invoice_action_list :: string where "invoice_action_list = ''invoice-list''"

definition assert_nym_owner :: "string \<Rightarrow> string \<Rightarrow> (service, app_error, user) handler" where
  "assert_nym_owner nym npub =
    andThen (gets (\<lambda>s. get_user_by_npub npub (us_users (sv_users s)))) (\<lambda>u.
    andThen (some_or (AuthError ''no active registration for this key'') u) (\<lambda>user.
    andThen (require (u_nym user = nym) (AuthError ''signer does not own this nym'')) (\<lambda>_. pure user)))"

subsection \<open>Create\<close>

record create_signed_request =
  wr_npub :: string
  wr_amount_sat :: "int option"
  wr_fiat_amount_minor :: "int option"
  wr_fiat_currency :: "string option"
  wr_public_description :: "string option"
  wr_recipient_label :: "string option"
  wr_invoice_number :: "string option"
  wr_accept_btc :: bool
  wr_accept_ln :: bool
  wr_accept_liquid :: bool
  wr_bitcoin_address :: "string option"
  wr_liquid_address :: "string option"
  wr_liquid_blinding_key_hex :: "string option"
  wr_expires_at_unix :: "int option"
  wr_timestamp :: nat
  wr_signature :: string

definition text_or_empty :: "string option \<Rightarrow> string" where
  "text_or_empty v = (case v of None \<Rightarrow> [] | Some s \<Rightarrow> s)"

definition int_or_empty :: "int option \<Rightarrow> string" where
  "int_or_empty v = (case v of None \<Rightarrow> [] | Some n \<Rightarrow> show_int n)"

definition bool_text :: "bool \<Rightarrow> string" where
  "bool_text b = (if b then ''true'' else ''false'')"

definition create_payload_fields :: "create_signed_request \<Rightarrow> string list" where
  "create_payload_fields r =
    [int_or_empty (wr_amount_sat r), int_or_empty (wr_fiat_amount_minor r), text_or_empty (wr_fiat_currency r),
     text_or_empty (wr_public_description r), text_or_empty (wr_recipient_label r), text_or_empty (wr_invoice_number r),
     bool_text (wr_accept_btc r), bool_text (wr_accept_ln r), bool_text (wr_accept_liquid r),
     text_or_empty (wr_bitcoin_address r), text_or_empty (wr_liquid_address r),
     text_or_empty (wr_liquid_blinding_key_hex r), int_or_empty (wr_expires_at_unix r)]"

definition cancel_payload_fields :: "string \<Rightarrow> string list" where
  "cancel_payload_fields invoice_id = [invoice_id]"

definition list_payload_fields :: "string \<Rightarrow> string \<Rightarrow> string \<Rightarrow> string list" where
  "list_payload_fields page page_size status_filter_or_empty = [page, page_size, status_filter_or_empty]"

definition text_within :: "string \<Rightarrow> nat \<Rightarrow> string option \<Rightarrow> app_error + unit" where
  "text_within name cap v =
    (case v of
       None \<Rightarrow> Inr ()
     | Some s \<Rightarrow> if cap < length s
         then Inl (InvalidAmount (name @ '' too long (max '' @ show_nat cap @ '' chars)'')) else Inr ())"

text \<open>The canonical payout addresses of a request.\<close>
definition canonical_addresses ::
  "('net, 'd, 'ba, 'la, 'bk, 'xk, 'xs) invoice_env \<Rightarrow> create_signed_request
    \<Rightarrow> (service, app_error, string option \<times> string option) handler" where
  "canonical_addresses env r =
    andThen (case wr_bitcoin_address r of
        None \<Rightarrow> pure None
      | Some addr \<Rightarrow> andThen (result (canonical_btc_mainnet_address (bl_parse (ie_bitcoin env))
          (bl_mainnet (ie_bitcoin env)) (bl_render (ie_bitcoin env)) addr)) (\<lambda>a. pure (Some a))) (\<lambda>btc.
    case wr_liquid_address r of
      None \<Rightarrow> pure (btc, None)
    | Some addr \<Rightarrow>
        andThen (result (canonical_liquid_mainnet_address (ie_liquid env) addr)) (\<lambda>canonical.
        andThen (if wr_accept_liquid r
                 then andThen (some_or (InvalidAmount ''accept_liquid=true requires liquid_blinding_key_hex'')
                        (wr_liquid_blinding_key_hex r)) (\<lambda>key.
                      result (validate_liquid_blinding_key_matches_address (ie_liquid env) canonical key))
                 else pure ()) (\<lambda>_. pure (btc, Some canonical))))"

definition invoice_lifetime :: "int \<Rightarrow> int option \<Rightarrow> app_error + int" where
  "invoice_lifetime now expires_at_unix =
    (case expires_at_unix of
       None \<Rightarrow> Inr max_wallet_expires_secs
     | Some t \<Rightarrow>
         if t < now + 60 then Inl (InvalidAmount ''expires_at_unix must be at least 60 seconds in the future'')
         else if now + max_wallet_expires_secs < t
           then Inl (InvalidAmount (''expires_at_unix beyond '' @ show_int max_wallet_expires_secs @ ''s cap''))
         else Inr (t - now))"

text \<open>The checks before the signature is verified.\<close>
definition validate_create_signed ::
  "('net, 'd, 'ba, 'la, 'bk, 'xk, 'xs) invoice_env \<Rightarrow> request \<Rightarrow> create_signed_request
    \<Rightarrow> (service, app_error, string option \<times> string option \<times> int) handler" where
  "validate_create_signed env rq r =
    andThen (result (text_within ''public_description'' 1000 (wr_public_description r))) (\<lambda>_.
    andThen (result (text_within ''recipient_name'' 100 (wr_recipient_label r))) (\<lambda>_.
    andThen (result (text_within ''invoice_number'' 50 (wr_invoice_number r))) (\<lambda>_.
    andThen (require (wr_accept_btc r \<or> wr_accept_ln r \<or> wr_accept_liquid r)
      (InvalidAmount ''at least one of accept_btc / accept_ln / accept_liquid must be true'')) (\<lambda>_.
    andThen (require (wr_accept_btc r \<longrightarrow> wr_bitcoin_address r \<noteq> None)
      (InvalidAmount ''accept_btc=true requires bitcoin_address'')) (\<lambda>_.
    andThen (require (wr_accept_ln r \<or> wr_accept_liquid r \<longrightarrow> wr_liquid_address r \<noteq> None)
      (InvalidAmount ''accept_ln/accept_liquid=true requires liquid_address'')) (\<lambda>_.
    andThen (canonical_addresses env r) (\<lambda>(btc, liquid).
    andThen (result (invoice_lifetime (int (rq_unix rq)) (wr_expires_at_unix r))) (\<lambda>expires_in_secs.
      pure (btc, liquid, expires_in_secs)))))))))"

definition wallet_invoice ::
  "string option \<Rightarrow> create_signed_request \<Rightarrow> string option \<Rightarrow> string option \<Rightarrow> int \<Rightarrow> int
    \<Rightarrow> (int \<times> string \<times> int) option \<Rightarrow> new_invoice" where
  "wallet_invoice linked_nym r btc liquid expires_in_secs amount_sat fiat =
    \<lparr>ni_nym_owner = linked_nym, ni_npub_owner = wr_npub r, ni_origin = ''wallet'',
     ni_fiat_amount_minor = map_option fst fiat, ni_fiat_currency = map_option (\<lambda>f. fst (snd f)) fiat,
     ni_amount_sat = amount_sat, ni_rate_minor_per_btc = map_option (\<lambda>f. snd (snd f)) fiat,
     ni_rate_lock_secs = expires_in_secs, ni_memo = None, ni_terminal_id = None, ni_memo_public = False,
     ni_recipient_label = wr_recipient_label r, ni_public_description = wr_public_description r,
     ni_invoice_number = wr_invoice_number r, ni_accept_btc = wr_accept_btc r, ni_accept_ln = wr_accept_ln r,
     ni_accept_liquid = wr_accept_liquid r, ni_bitcoin_address = btc, ni_liquid_address = liquid,
     ni_liquid_blinding_key_hex = wr_liquid_blinding_key_hex r, ni_expires_in_secs = expires_in_secs\<rparr>"

definition create_invoice_inner ::
  "('net, 'd, 'ba, 'la, 'bk, 'xk, 'xs) invoice_env \<Rightarrow> request \<Rightarrow> creation_inputs \<Rightarrow> string option
    \<Rightarrow> create_signed_request \<Rightarrow> (service, app_error, uuid \<times> string) handler" where
  "create_invoice_inner env rq fresh linked_nym r =
    andThen (gate_source (ie_gates env) InvoiceCreate rq check_metadata_per_ip) (\<lambda>_.
    andThen (validate_create_signed env rq r) (\<lambda>(btc, liquid, expires_in_secs).
    andThen (result (verify_la_v2 (ie_signing env) (rq_unix rq) invoice_action_create (wr_npub r)
      (text_or_empty linked_nym) (create_payload_fields r) (wr_timestamp r) (wr_signature r))) (\<lambda>_.
    andThen (case linked_nym of
        None \<Rightarrow> pure ()
      | Some nym \<Rightarrow> andThen (assert_nym_owner nym (wr_npub r)) (\<lambda>_. pure ())) (\<lambda>_.
    andThen (if subject_to_limits (ie_gates env) InvoiceCreate rq
             then limited (check_invoice_create_per_npub (rq_now rq) (wr_npub r)) else pure ()) (\<lambda>_.
    andThen (parse_create_request env rq (ci_rate_reply fresh)
      \<lparr>ca_amount_sat = wr_amount_sat r, ca_fiat_amount_minor = wr_fiat_amount_minor r,
       ca_fiat_currency = wr_fiat_currency r\<rparr>) (\<lambda>(amount_sat, fiat).
    andThen (store_invoice rq (ci_invoice_id fresh)
      (wallet_invoice linked_nym r btc liquid expires_in_secs amount_sat fiat)) (\<lambda>i.
    andThen (if inv_accept_ln i
             then andThen (attempt (create_lightning_offer env rq (ci_swap_id fresh) (lightning_swap_nym i)
                    (nat amount_sat) i)) (\<lambda>_. pure ())
             else pure ()) (\<lambda>_.
      pure (inv_id i, invoice_public_url (ie_domain env) linked_nym (inv_id i))))))))))"

definition create_signed_linked ::
  "('net, 'd, 'ba, 'la, 'bk, 'xk, 'xs) invoice_env \<Rightarrow> request \<Rightarrow> creation_inputs \<Rightarrow> string
    \<Rightarrow> create_signed_request \<Rightarrow> (service, app_error, uuid \<times> string) handler" where
  "create_signed_linked env rq fresh nym r = create_invoice_inner env rq fresh (Some nym) r"

definition create_signed_unlinked ::
  "('net, 'd, 'ba, 'la, 'bk, 'xk, 'xs) invoice_env \<Rightarrow> request \<Rightarrow> creation_inputs
    \<Rightarrow> create_signed_request \<Rightarrow> (service, app_error, uuid \<times> string) handler" where
  "create_signed_unlinked env rq fresh r = create_invoice_inner env rq fresh None r"

subsection \<open>Cancel\<close>

record cancel_request =
  cx_npub :: string
  cx_timestamp :: nat
  cx_signature :: string

definition cancel_row :: "request \<Rightarrow> uuid \<Rightarrow> (service, app_error, string) handler" where
  "cancel_row rq iid = (\<lambda>s.
    case cancel_invoice (rq_now rq) iid (is_invoices (sv_ledger s)) of
      Inl e \<Rightarrow> (Inl (from_sqlx e), s)
    | Inr (rows, final_status, invs) \<Rightarrow>
        (Inr final_status, s\<lparr>sv_ledger := (sv_ledger s)\<lparr>is_invoices := invs\<rparr>\<rparr>))"

definition cancel_invoice_inner ::
  "('net, 'd, 'ba, 'la, 'bk, 'xk, 'xs) invoice_env \<Rightarrow> request \<Rightarrow> string option \<Rightarrow> string \<Rightarrow> cancel_request
    \<Rightarrow> (service, app_error, uuid \<times> string) handler" where
  "cancel_invoice_inner env rq linked_nym id_str r =
    andThen (gate_source (ie_gates env) MetadataLookup rq check_metadata_per_ip) (\<lambda>_.
    andThen (result (parse_invoice_id env id_str)) (\<lambda>iid.
    andThen (result (verify_la_v2 (ie_signing env) (rq_unix rq) invoice_action_cancel (cx_npub r)
      (text_or_empty linked_nym) (cancel_payload_fields id_str) (cx_timestamp r) (cx_signature r))) (\<lambda>_.
    andThen (case linked_nym of
        None \<Rightarrow> pure ()
      | Some nym \<Rightarrow> andThen (assert_nym_owner nym (cx_npub r)) (\<lambda>_. pure ())) (\<lambda>_.
    andThen (load_invoice id_str iid) (\<lambda>i.
    andThen (require (inv_npub_owner i = cx_npub r) (InvoiceNotFound id_str)) (\<lambda>_.
    andThen (require (case linked_nym of None \<Rightarrow> True | Some nym \<Rightarrow> inv_nym_owner i = Some nym)
      (InvoiceNotFound id_str)) (\<lambda>_.
    andThen (cancel_row rq iid) (\<lambda>final_status. pure (iid, final_status)))))))))"

definition cancel_linked ::
  "('net, 'd, 'ba, 'la, 'bk, 'xk, 'xs) invoice_env \<Rightarrow> request \<Rightarrow> string \<Rightarrow> string \<Rightarrow> cancel_request
    \<Rightarrow> (service, app_error, uuid \<times> string) handler" where
  "cancel_linked env rq nym id_str r = cancel_invoice_inner env rq (Some nym) id_str r"

definition cancel_unlinked ::
  "('net, 'd, 'ba, 'la, 'bk, 'xk, 'xs) invoice_env \<Rightarrow> request \<Rightarrow> string \<Rightarrow> cancel_request
    \<Rightarrow> (service, app_error, uuid \<times> string) handler" where
  "cancel_unlinked env rq id_str r = cancel_invoice_inner env rq None id_str r"

subsection \<open>List\<close>

record list_signed_query =
  lq_npub :: string
  lq_timestamp :: nat
  lq_signature :: string
  lq_page :: int
  lq_page_size :: int
  lq_status :: "string option"

record invoice_list_item =
  it_id :: uuid
  it_nym_owner :: "string option"
  it_origin :: string
  it_status :: invoice_status
  it_pricing_mode :: pricing_mode
  it_settlement_status :: settlement_status
  it_amount_sat :: sat
  it_remaining_amount_sat :: sat
  it_fiat_amount_minor :: "int option"
  it_fiat_currency :: "string option"
  it_public_description :: "string option"
  it_memo :: "string option"
  it_terminal_id :: "uuid option"
  it_recipient_label :: "string option"
  it_invoice_number :: "string option"
  it_accept_btc :: bool
  it_accept_ln :: bool
  it_accept_liquid :: bool
  it_bitcoin_address :: "string option"
  it_liquid_address :: "string option"
  it_created_at_unix :: int
  it_expires_at_unix :: int
  it_paid_via :: "string option"
  it_paid_at_unix :: "int option"
  it_paid_amount_sat :: "sat option"

definition list_item :: "invoice \<Rightarrow> invoice_list_item" where
  "list_item i =
    \<lparr>it_id = inv_id i, it_nym_owner = inv_nym_owner i, it_origin = inv_origin i, it_status = inv_status i,
     it_pricing_mode = inv_pricing_mode i, it_settlement_status = inv_settlement_status i,
     it_amount_sat = inv_amount_sat i, it_remaining_amount_sat = remaining_amount_sat i,
     it_fiat_amount_minor = inv_fiat_amount_minor i, it_fiat_currency = inv_fiat_currency i,
     it_public_description = inv_public_description i, it_memo = inv_memo i, it_terminal_id = inv_terminal_id i,
     it_recipient_label = inv_recipient_label i, it_invoice_number = inv_invoice_number i,
     it_accept_btc = inv_accept_btc i, it_accept_ln = inv_accept_ln i, it_accept_liquid = inv_accept_liquid i,
     it_bitcoin_address = inv_bitcoin_address i, it_liquid_address = inv_liquid_address i,
     it_created_at_unix = epoch (inv_created_at i), it_expires_at_unix = epoch (inv_expires_at i),
     it_paid_via = inv_paid_via i, it_paid_at_unix = map_option epoch (inv_paid_at i),
     it_paid_amount_sat = inv_paid_amount_sat i\<rparr>"

record list_invoices_response =
  li_invoices :: "invoice_list_item list"
  li_page :: int
  li_page_size :: int
  li_has_more :: bool

definition known_statuses :: "string list" where
  "known_statuses = [''unpaid'', ''in_progress'', ''partially_paid'', ''paid'', ''underpaid'', ''overpaid'',
     ''expired'', ''cancelled'']"

definition status_filter :: "string option \<Rightarrow> app_error + string option" where
  "status_filter status =
    (case status of
       None \<Rightarrow> Inr None
     | Some s \<Rightarrow>
         if s = [] then Inr None
         else if s \<in> set known_statuses then Inr (Some s)
         else Inl (InvalidAmount (''status must be one of unpaid|in_progress|partially_paid|paid|underpaid|overpaid|expired|cancelled, or empty (got ''
                @ [CHR 0x27] @ s @ [CHR 0x27] @ '')'')))"

definition list_signed ::
  "('net, 'd, 'ba, 'la, 'bk, 'xk, 'xs) invoice_env \<Rightarrow> request \<Rightarrow> list_signed_query
    \<Rightarrow> (service, app_error, list_invoices_response) handler" where
  "list_signed env rq q =
    andThen (gate_source (ie_gates env) MetadataLookup rq check_metadata_per_ip) (\<lambda>_.
    andThen (require (1 \<le> lq_page q) (InvalidAmount ''page must be >= 1'')) (\<lambda>_.
    andThen (require (lq_page q \<le> 1000) (InvalidAmount ''page must be <= 1000'')) (\<lambda>_.
    andThen (require (1 \<le> lq_page_size q) (InvalidAmount ''pageSize must be >= 1'')) (\<lambda>_.
    let page_size = min (lq_page_size q) list_limit_max in
    andThen (result (status_filter (lq_status q))) (\<lambda>filter_by.
    andThen (result (verify_la_v2 (ie_signing env) (rq_unix rq) invoice_action_list (lq_npub q) []
      (list_payload_fields (show_int (lq_page q)) (show_int page_size) (text_or_empty filter_by))
      (lq_timestamp q) (lq_signature q))) (\<lambda>_.
    andThen (gets (\<lambda>s. list_invoices_by_npub (lq_npub q) filter_by (lq_page q) page_size
      (is_invoices (sv_ledger s)))) (\<lambda>rows. pure
      \<lparr>li_invoices = map list_item rows, li_page = lq_page q, li_page_size = page_size,
       li_has_more = page_size \<le> int (length rows)\<rparr>)))))))"

end
