(* ===== verification/OfferProperties.thy ===== *)
theory OfferProperties
  imports WalletInvoices ServiceProperties
begin

text \<open>
  What the payer reads: the values of the payment page's script, the BIP21 link of the
  Bitcoin offer, and the Lightning offer that concurrent requests agree on.
\<close>

subsection \<open>Values in the page's script\<close>

text \<open>A script engine reading a double-quoted literal: the reference that
  \<open>js_string_literal\<close> is measured against.\<close>
definition hex_value :: "char \<Rightarrow> nat option" where
  "hex_value ch = (let n = (of_char ch :: nat) in
     if 48 \<le> n \<and> n \<le> 57 then Some (n - 48)
     else if 97 \<le> n \<and> n \<le> 102 then Some (n - 87)
     else if 65 \<le> n \<and> n \<le> 70 then Some (n - 55)
     else None)"

definition plain_escape :: "char \<Rightarrow> char option" where
  "plain_escape ch =
    (if ch \<in> {CHR 0x22, CHR 0x5C, CHR ''/''} then Some ch
     else if ch = CHR ''b'' then Some (char_of (8::nat)) else if ch = CHR ''t'' then Some (char_of (9::nat))
     else if ch = CHR ''n'' then Some (char_of (10::nat)) else if ch = CHR ''f'' then Some (char_of (12::nat))
     else if ch = CHR ''r'' then Some (char_of (13::nat)) else None)"

fun js_read_body :: "string \<Rightarrow> string option" where
  "js_read_body [] = None"
| "js_read_body (c # s) =
    (if c = CHR 0x22 then (if s = [] then Some [] else None)
     else if c = CHR 0x5C then
       (case s of
          [] \<Rightarrow> None
        | e # t \<Rightarrow>
           if e = CHR ''u'' then
             (case t of
                z # z' # x # y # r \<Rightarrow>
                  (case (hex_value z, hex_value z', hex_value x, hex_value y) of
                     (Some 0, Some 0, Some a, Some b) \<Rightarrow>
                        if a < 8 then map_option ((#) (char_of (16 * a + b))) (js_read_body r) else None
                   | _ \<Rightarrow> None)
              | _ \<Rightarrow> None)
           else (case plain_escape e of None \<Rightarrow> None | Some d \<Rightarrow> map_option ((#) d) (js_read_body t)))
     else if (of_char c :: nat) < 32 then None
     else map_option ((#) c) (js_read_body s))"

definition js_read :: "string \<Rightarrow> string option" where
  "js_read s = (case s of [] \<Rightarrow> None | c # t \<Rightarrow> if c = CHR 0x22 then js_read_body t else None)"

lemma of_char_digits: "n < 16 \<Longrightarrow> (of_char (hex_digit n) :: nat) = (if n < 10 then 48 + n else 87 + n)"
  "n < 16 \<Longrightarrow> (of_char (upper_hex_digit n) :: nat) = (if n < 10 then 48 + n else 55 + n)"
  by (simp_all add: hex_digit_def upper_hex_digit_def)

lemma hex_value_digit: "n < 16 \<Longrightarrow> hex_value (hex_digit n) = Some n"
  "n < 16 \<Longrightarrow> hex_value (upper_hex_digit n) = Some n"
  by (cases "n < 10", simp_all only: hex_value_def Let_def of_char_digits if_True if_False) simp_all

lemma hex_digit_plain:
  assumes "n < 16"
  shows "js_safe_char (hex_digit n) = [hex_digit n]"
proof -
  have "hex_digit n \<noteq> ch" if "hex_value ch = None" for ch
    using that hex_value_digit(1)[OF assms] by auto
  then have "hex_digit n \<noteq> CHR ''<''" "hex_digit n \<noteq> CHR ''>''" "hex_digit n \<noteq> CHR ''&''"
    by (simp_all add: hex_value_def)
  then show ?thesis by (simp add: js_safe_char_def)
qed

lemma of_char_eq: "(n::nat) < 256 \<Longrightarrow> of_char ch = n \<longleftrightarrow> ch = char_of n"
  by auto

lemma escaped_chars: "char_of (34::nat) = CHR 0x22" "char_of (92::nat) = CHR 0x5C"
  "char_of (60::nat) = CHR ''<''" "char_of (62::nat) = CHR ''>''" "char_of (38::nat) = CHR ''&''"
  by (simp_all add: char_of_eq_iff)

lemma js_read_control:
  assumes "n < 32"
  shows "js_read_body (CHR 0x5C # ''u00'' @ hex2 n @ r) = map_option ((#) (char_of n)) (js_read_body r)"
proof -
  have "hex_value (hex_digit (n div 16)) = Some (n div 16)" "hex_value (hex_digit (n mod 16)) = Some (n mod 16)"
    using assms by (simp_all add: hex_value_digit)
  moreover have "hex_value CHR ''0'' = Some 0" by (simp add: hex_value_def)
  moreover have "n div 16 < 8" "16 * (n div 16) + n mod 16 = n" using assms by simp_all
  ultimately show ?thesis by (simp add: hex2_def)
qed

text \<open>Reading back one character, whatever follows it.\<close>
lemma js_read_char:
  "js_read_body (concat (map js_safe_char (json_char ch)) @ r) = map_option ((#) ch) (js_read_body r)"
proof -
  let ?n = "of_char ch :: nat"
  consider "?n \<in> {34, 92, 8, 9, 10, 12, 13}" | "?n < 32" "?n \<notin> {8, 9, 10, 12, 13}" | "32 \<le> ?n" "?n \<notin> {34, 92}"
    by force
  then show ?thesis
  proof cases
    case 1
    then show ?thesis
      by (auto simp: of_char_eq json_char_def js_safe_char_def plain_escape_def escaped_chars)
  next
    case 2
    then have "json_char ch = [CHR 0x5C] @ ''u00'' @ hex2 ?n" by (simp add: json_char_def Let_def)
    moreover have "concat (map js_safe_char (hex2 ?n)) = hex2 ?n" using 2(1) by (simp add: hex2_def hex_digit_plain)
    ultimately have "concat (map js_safe_char (json_char ch)) = CHR 0x5C # ''u00'' @ hex2 ?n"
      by (simp only: map_append concat_append) (simp add: js_safe_char_def)
    then show ?thesis using js_read_control[OF 2(1), of r] by simp
  next
    case 3
    then have "json_char ch = [ch]" "ch \<noteq> CHR 0x22" "ch \<noteq> CHR 0x5C" by (auto simp: json_char_def)
    then show ?thesis
      using 3(1)
      by (cases "ch \<in> {CHR ''<'', CHR ''>'', CHR ''&''}")
        (auto simp: js_safe_char_def hex_value_def escaped_chars char_of_eq_iff)
  qed
qed

lemma js_read_chars: "js_read_body (concat (map js_safe_char (concat (map json_char s))) @ [CHR 0x22]) = Some s"
  by (induction s) (simp_all add: js_read_char)

lemma js_literal_inert: "ch \<in> {CHR ''<'', CHR ''>'', CHR ''&''} \<Longrightarrow> ch \<notin> set (js_string_literal v)"
  by (auto simp: js_string_literal_def js_safe_char_def split: if_splits)

text \<open>What a merchant or Boltz put into an address or link reaches the page's script
  unchanged and cannot leave the script: the literal reads back as the value,
  and it contains no angle bracket or ampersand.\<close>
theorem script_value_reads_back:
  "js_read (js_string_literal v) = Some (case v of None \<Rightarrow> [] | Some s \<Rightarrow> s)
   \<and> set (js_string_literal v) \<inter> {CHR ''<'', CHR ''>'', CHR ''&''} = {}"
proof
  show "js_read (js_string_literal v) = Some (case v of None \<Rightarrow> [] | Some s \<Rightarrow> s)"
    by (simp add: js_read_def js_string_literal_def json_string_def js_safe_char_def[of "CHR 0x22"] js_read_chars)
qed (use js_literal_inert in blast)

subsection \<open>The BIP21 link\<close>

fun percent_decode :: "string \<Rightarrow> string option" where
  "percent_decode [] = Some []"
| "percent_decode (c # s) =
    (if c = CHR ''%'' then
       (case s of
          x # y # r \<Rightarrow>
            (case (hex_value x, hex_value y) of
               (Some a, Some b) \<Rightarrow> map_option ((#) (char_of (16 * a + b))) (percent_decode r)
             | _ \<Rightarrow> None)
        | _ \<Rightarrow> None)
     else map_option ((#) c) (percent_decode s))"

lemma percent_decode_byte:
  "percent_decode (percent_encode_byte ch @ r) = map_option ((#) ch) (percent_decode r)"
proof -
  have "\<not> unreserved CHR ''%''" by (simp add: unreserved_def)
  moreover have "(of_char ch :: nat) div 16 < 16" using nat_of_char_less_256[of ch] by (simp add: less_mult_imp_div_less)
  ultimately show ?thesis by (auto simp: percent_encode_byte_def Let_def hex_value_digit(2))
qed

lemma percent_decode_encode: "percent_decode (percent_encode_query_value s) = Some s"
  by (induction s) (simp_all add: percent_encode_query_value_def percent_decode_byte)

lemma percent_encode_free: "CHR ''&'' \<notin> set (percent_encode_query_value s)"
proof -
  have "hex_value CHR ''&'' = None" by (simp add: hex_value_def)
  then have digit: "n < 16 \<Longrightarrow> CHR ''&'' \<noteq> upper_hex_digit n" for n
    using hex_value_digit(2)[of n] by (metis option.distinct(1))
  have "\<not> unreserved CHR ''&''" by (simp add: unreserved_def)
  moreover have "(of_char ch :: nat) div 16 < 16" for ch
    using nat_of_char_less_256[of ch] by (simp add: less_mult_imp_div_less)
  ultimately have "CHR ''&'' \<notin> set (percent_encode_byte ch)" for ch
    using digit[of "of_char ch div 16"] digit[of "of_char ch mod 16"]
    by (cases "ch = CHR ''&''") (simp_all add: percent_encode_byte_def Let_def)
  then show ?thesis by (auto simp: percent_encode_query_value_def)
qed

lemma split_on_parts: "p \<in> set (split_on sep s) \<Longrightarrow> sep \<notin> set p"
  by (induction sep s arbitrary: p rule: split_on.induct) (auto split: if_splits list.splits)

lemma split_on_join:
  assumes "ps \<noteq> []" "\<And>p. p \<in> set ps \<Longrightarrow> sep \<notin> set p"
  shows "split_on sep (join [sep] ps) = ps"
  using assms
proof (induction "[sep]" ps rule: join.induct)
  case (3 s t ts)
  then show ?case using split_on_append[of sep s "join [sep] (t # ts)"] by (simp add: split_on_free)
qed (simp_all add: split_on_free)

lemma split_once_None: "split_once sep s = None \<longleftrightarrow> sep \<notin> set s"
  by (induction s) auto

lemma split_once_base: "split_once sep s = Some (a, b) \<Longrightarrow> sep \<notin> set a"
  by (induction s arbitrary: a) (auto split: if_splits)

text \<open>How a wallet takes a link apart.\<close>
definition read_link :: "string \<Rightarrow> string \<times> string list" where
  "read_link link = (case split_once CHR ''?'' link of None \<Rightarrow> (link, []) | Some (base, q) \<Rightarrow> (base, bip21_params q))"

text \<open>The Bitcoin link shown to a payer keeps the address and, in order, every parameter
  of Boltz's link other than messages; it carries one message, which decodes
  to the invoice's URL.\<close>
theorem bitcoin_link_carries_the_invoice:
  "read_link (append_bip21_message link url) =
     (fst (read_link link), filter (\<lambda>p. query_key p \<noteq> ''message'') (snd (read_link link))
        @ [''message='' @ percent_encode_query_value url])
   \<and> percent_decode (percent_encode_query_value url) = Some url"
proof
  let ?enc = "''message='' @ percent_encode_query_value url"
  let ?base = "fst (read_link link)"
  let ?ps = "filter (\<lambda>p. query_key p \<noteq> ''message'') (snd (read_link link)) @ [?enc]"
  have whole: "append_bip21_message link url = ?base @ CHR ''?'' # join ''&'' ?ps"
    by (auto simp: append_bip21_message_def read_link_def Let_def split: option.split)
  have base: "CHR ''?'' \<notin> set ?base"
    by (auto simp: read_link_def split_once_None split: option.split dest: split_once_base)
  have free: "CHR ''&'' \<notin> set p \<and> p \<noteq> []" if "p \<in> set ?ps" for p
    using that percent_encode_free[of url]
    by (auto simp: read_link_def bip21_params_def split: option.splits dest: split_on_parts)
  have "filter (\<lambda>p. p \<noteq> []) ?ps = ?ps" using free by (intro filter_True) blast
  then have "bip21_params (join ''&'' ?ps) = ?ps"
    using split_on_join[of ?ps "CHR ''&''"] free unfolding bip21_params_def by simp
  then show "read_link (append_bip21_message link url) = (?base, ?ps)"
    unfolding whole using split_once_first[OF base, of "join ''&'' ?ps"] by (simp add: read_link_def)
qed (rule percent_decode_encode)

subsection \<open>One Lightning offer for concurrent requests\<close>

lemma sort_key_newest:
  assumes "\<And>r. r \<in> set t \<Longrightarrow> (f r :: int) < f x"
  shows "sort_desc f (t @ [x]) = x # sort_desc f t"
proof -
  have "insort_key (\<lambda>r. - f r) x u = x # u" if "\<And>r. r \<in> set u \<Longrightarrow> f r < f x" for u
    using that by (cases u) (auto simp: less_imp_le)
  moreover have "sort_key (\<lambda>r. - f r) (t @ [x]) = insort_key (\<lambda>r. - f r) x (sort_key (\<lambda>r. - f r) t)"
    using assms
  proof (induction t)
    case (Cons a t)
    have "insort_key (\<lambda>r. - f r) a (x # u) = x # insort_key (\<lambda>r. - f r) a u" for u
      using Cons.prems[of a] by simp
    moreover have "insort_key (\<lambda>r. - f r) x (sort_key (\<lambda>r. - f r) t) = x # sort_key (\<lambda>r. - f r) t"
      "insort_key (\<lambda>r. - f r) x (sort_key (\<lambda>r. - f r) (a # t)) = x # sort_key (\<lambda>r. - f r) (a # t)"
      using Cons.prems calculation by (auto simp: set_insort_key intro!: \<open>\<And>u. (\<And>r. r \<in> set u \<Longrightarrow> f r < f x) \<Longrightarrow> insort_key (\<lambda>r. - f r) x u = x # u\<close>)
    ultimately show ?case using Cons by simp
  qed simp
  ultimately show ?thesis using assms unfolding sort_desc_def by (metis set_sort)
qed

lemma store_swap_rows: "store_swap rq n s = (Inr u, s') \<Longrightarrow>
    sv_swaps s' = sv_swaps s @ [swap_of_new (rq_now rq) (rq_fresh_id rq) n]"
  by (auto simp: store_swap_def record_swap_def split: sum.splits prod.splits if_splits option.splits)

lemma touch_swaps [simp]: "touch_callback rq nym s = (r, s') \<Longrightarrow> sv_swaps s' = sv_swaps s"
  by (auto simp: touch_callback_def)

lemma andThen_okE:
  assumes "andThen m f s = (Inr b, s'')"
  obtains a s' where "m s = (Inr a, s')" "f a s' = (Inr b, s'')"
  using assms by (auto simp: andThen_ok)

text \<open>What a created offer leaves in the table.\<close>
lemma created_offer_row:
  assumes "create_lightning_offer env rq sid nym amount i s = (Inr pr, s')"
  shows "\<exists>sw json. pr = sw_invoice sw
    \<and> sv_swaps s' = sv_swaps s @ [swap_of_new (rq_now rq) sid (lightning_offer_record nym amount (inv_id i) sw json)]"
proof -
  have "\<exists>sw json s1. store_swap (rq\<lparr>rq_fresh_id := sid\<rparr>) (lightning_offer_record nym amount (inv_id i) sw json)
      (s\<lparr>sv_key_seq := Suc (sv_key_seq s)\<rparr>) = (Inr (), s1) \<and> pr = sw_invoice sw \<and> sv_swaps s' = sv_swaps s1"
    using assms unfolding create_lightning_offer_def Let_def
  proof (elim andThen_okE, goal_cases)
    case (1 k s0 sw s1 json s2 u s3 v s4)
    then have "s2 = s\<lparr>sv_key_seq := Suc (sv_key_seq s)\<rparr>" "sv_swaps s' = sv_swaps s3" "pr = sw_invoice sw"
      by (auto simp: take_key_index_def next_swap_key_index_def split: option.splits)
    then show ?case using 1(4) by (intro exI[of _ sw] exI[of _ json] exI[of _ s3]) simp
  qed
  then show ?thesis using store_swap_rows by fastforce
qed

lemma as_i64_in: "in_i64 x \<Longrightarrow> as_i64 x = x"
  by (simp add: as_i64_def in_i64_def i64_min_def i64_max_def)

lemma remaining_range: "0 \<le> remaining_amount_sat i" "as_i64 (int (nat (remaining_amount_sat i))) = remaining_amount_sat i"
proof -
  show "0 \<le> remaining_amount_sat i" by (simp add: remaining_amount_sat_def)
  moreover have "in_i64 (remaining_amount_sat i)"
    by (simp add: remaining_amount_sat_def sat_i64_def in_i64_def i64_min_def i64_max_def)
  ultimately show "as_i64 (int (nat (remaining_amount_sat i))) = remaining_amount_sat i"
    using as_i64_in by (simp only: int_nat_eq if_True)
qed

text \<open>Two requests that both found no reusable Lightning offer and wait for the invoice's
  lock end with the same BOLT11: whoever comes second finds what the first left,
  opens no swap and changes nothing.\<close>
theorem lightning_refreshes_share_one_swap:
  assumes "refresh_offer_locked env rq sid i s = (Inr (Some pr), s')"
    and "\<And>r. r \<in> set (sv_swaps s) \<Longrightarrow> sr_invoice_id r = Some (inv_id i) \<Longrightarrow> sr_created_at r < rq_now rq"
    and "bolt11_is_reusable_at env pr (int (rq_unix rq'))"
  shows "refresh_offer_locked env rq' sid' i s' = (Inr (Some pr), s')"
proof -
  have "reusable_offer env (int (rq_unix rq')) (inv_id i) (remaining_amount_sat i) s' = Some pr"
  proof (cases "reusable_offer env (int (rq_unix rq)) (inv_id i) (remaining_amount_sat i) s")
    case None
    then have "create_lightning_offer env rq sid (lightning_swap_nym i) (nat (remaining_amount_sat i)) i s = (Inr pr, s')"
      using assms(1) by (auto simp: refresh_offer_locked_def andThen_ok)
    from created_offer_row[OF this] obtain sw json where pr: "pr = sw_invoice sw"
      and rows: "sv_swaps s' = sv_swaps s @ [swap_of_new (rq_now rq) sid (lightning_offer_record (lightning_swap_nym i)
        (nat (remaining_amount_sat i)) (inv_id i) sw json)]" by blast
    let ?n = "lightning_offer_record (lightning_swap_nym i) (nat (remaining_amount_sat i)) (inv_id i) sw json"
    have "latest_lightning_pr_for_invoice (inv_id i) (sv_swaps s') = Some (pr, remaining_amount_sat i)"
      using pr rows sort_key_newest[of "filter (\<lambda>r. sr_invoice_id r = Some (inv_id i)) (sv_swaps s)" sr_created_at
          "swap_of_new (rq_now rq) sid ?n"] assms(2) remaining_range(2)[of i]
      by (simp add: latest_lightning_pr_for_invoice_def swap_of_new_def lightning_offer_record_def)
    then show ?thesis using assms(3) by (simp add: reusable_offer_def)
  next
    case (Some pr')
    then have "pr' = pr" "s' = s" using assms(1) by (auto simp: refresh_offer_locked_def andThen_ok)
    then show ?thesis
      using Some assms(3) by (auto simp: reusable_offer_def split: option.splits prod.splits if_splits)
  qed
  then show ?thesis by (simp add: refresh_offer_locked_def andThen_def gets_def pure_def)
qed

subsection \<open>A small invoice service\<close>

text \<open>A Boltz that answers every request and a BOLT11 that never expires.\<close>
definition demo_boltz :: boltz_lib where
  "demo_boltz = \<lparr>bz_webhook_url = None, bz_derive_swapkey = (\<lambda>i. Inr (replicate 64 CHR ''a'')), bz_public_key = id,
     bz_preimage = Some, bz_preimage_sha256 = id,
     bz_post_reverse = (\<lambda>q. Inr \<lparr>rr_id = ''swap'', rr_invoice = Some ''lnbc'', rr_json = Inr ''{}''\<rparr>),
     bz_post_chain = (\<lambda>q. Inr \<lparr>cr_id = ''chain'', cr_lockup_address = ''bc1'', cr_lockup_bip21 = None,
        cr_lockup_amount = cq_user_lock_amount q, cr_claim_amount = cq_user_lock_amount q, cr_json = Inr ''{}''\<rparr>),
     bz_validate_chain = (\<lambda>r a b. Inr ())\<rparr>"

definition demo_invoices :: "(ip_addr, string, string, string, string, string, string) invoice_env" where
  "demo_invoices = \<lparr>ie_domain = ''d'', ie_min_sendable_msat = 1000, ie_max_sendable_msat = 9000000,
     ie_tolerances = default_tolerances, ie_partial_grace_secs = 60, ie_gates = demo_gates, ie_signing = demo_signing,
     ie_descriptors = demo_descriptors\<lparr>dl_blinding := (\<lambda>d a. Some a)\<rparr>,
     ie_bitcoin = \<lparr>bl_parse = Inr, bl_mainnet = (\<lambda>a. True), bl_render = id\<rparr>,
     ie_liquid = \<lparr>ll_parse = Inr, ll_is_liquid = (\<lambda>a. True), ll_params_text = id, ll_blinding = Some, ll_render = id,
        ll_secret = Some\<rparr>,
     ie_boltz = demo_boltz, ie_would_expire = (\<lambda>pr. Some (\<lambda>t. False)), ie_sha256_hex = id,
     ie_parse_uuid = (\<lambda>t. if t = ''7'' then Some 7 else None), ie_pricer = demo_pricer, ie_currencies = []\<rparr>"

definition demo_new_invoice :: new_invoice where
  "demo_new_invoice = \<lparr>ni_nym_owner = None, ni_npub_owner = ''n'', ni_origin = ''wallet'', ni_fiat_amount_minor = None,
     ni_fiat_currency = None, ni_amount_sat = 500, ni_rate_minor_per_btc = None, ni_rate_lock_secs = 600, ni_memo = None,
     ni_terminal_id = None, ni_memo_public = False, ni_recipient_label = None, ni_public_description = None,
     ni_invoice_number = None, ni_accept_btc = False, ni_accept_ln = True, ni_accept_liquid = False,
     ni_bitcoin_address = None, ni_liquid_address = Some ''lq1'', ni_liquid_blinding_key_hex = None,
     ni_expires_in_secs = 600\<rparr>"

definition demo_unpaid :: invoice where
  "demo_unpaid = invoice_of_new 0 7 demo_new_invoice"

definition demo_shop :: service where
  "demo_shop = demo_service\<lparr>sv_swaps := [], sv_chain := [], sv_key_seq := 0,
     sv_ledger := \<lparr>is_invoices = [demo_unpaid], is_events = [], is_addresses = [], is_observations = []\<rparr>\<rparr>"

lemma demo_offer: "\<exists>s'. refresh_offer_locked demo_invoices (demo_request None) 9 demo_unpaid demo_shop
    = (Inr (Some ''lnbc''), s')"
proof -
  have "bz_derive_swapkey demo_boltz i = Inr (replicate 64 CHR ''a'')"
    "bz_post_reverse demo_boltz q = Inr \<lparr>rr_id = ''swap'', rr_invoice = Some ''lnbc'', rr_json = Inr ''{}''\<rparr>" for i q
    by (simp_all add: demo_boltz_def)
  then show ?thesis
    by (simp add: refresh_offer_locked_def reusable_offer_def andThen_def handler_defs latest_lightning_pr_for_invoice_def
        demo_shop_def sort_desc_def create_lightning_offer_def take_key_index_def next_swap_key_index_def Let_def
        create_reverse_swap_def demo_invoices_def store_swap_def record_swap_def lightning_offer_record_def
        lightning_swap_nym_def demo_unpaid_def invoice_of_new_def demo_new_invoice_def tables)
qed

lemma lightning_refreshes_share_one_swap_witness:
  "\<exists>s'. refresh_offer_locked demo_invoices (demo_request None) 9 demo_unpaid demo_shop = (Inr (Some ''lnbc''), s')
     \<and> refresh_offer_locked demo_invoices (demo_request None) 10 demo_unpaid s' = (Inr (Some ''lnbc''), s')"
proof -
  obtain s' where first: "refresh_offer_locked demo_invoices (demo_request None) 9 demo_unpaid demo_shop
      = (Inr (Some ''lnbc''), s')"
    using demo_offer by blast
  have "bolt11_is_reusable_at demo_invoices ''lnbc'' (int (rq_unix (demo_request None)))"
    by (simp add: bolt11_is_reusable_at_def demo_invoices_def)
  from lightning_refreshes_share_one_swap[OF first _ this, of 10] first show ?thesis
    by (auto simp: demo_shop_def)
qed

end
