(* ===== verification/InvoiceProperties.thy ===== *)
theory InvoiceProperties
  imports OfferProperties
begin

text \<open>
  What the invoice endpoints promise when requests are served one after another: how
  they move the ledger, who can create and cancel, and what a checkout leaves behind.
\<close>

subsection \<open>Effects of the shared handlers\<close>

text \<open>A relation that gates and rate look-ups stay within.\<close>
locale gate_effect = effect R for R :: "service \<Rightarrow> service \<Rightarrow> bool" +
  assumes limiter: "R s (s\<lparr>sv_limiter := l\<rparr>)"
    and rates: "R s (s\<lparr>sv_rates := c\<rparr>)"
begin

lemma eff_limited: "changes R (limited f)"
  by (auto simp: changes_def limited_def limiter split: prod.split)

lemma eff_gate: "changes R (gate_source g scope rq axis)"
  unfolding gate_source_def by (auto intro!: eff eff_limited split: option.split)

lemma eff_current_rate: "changes R (current_rate env rq reply currency)"
  by (auto simp: changes_def current_rate_def rates split: prod.split)

lemma eff_parse_create: "changes R (parse_create_request env rq reply r)"
  unfolding parse_create_request_def fiat_amount_def Let_def
  by (auto intro!: eff eff_current_rate split: option.split)

lemma eff_load: "changes R (load_invoice id_str iid)"
  unfolding load_invoice_def by (intro eff)

lemma eff_owner: "changes R (assert_nym_owner nym npub)"
  unfolding assert_nym_owner_def by (intro eff)

lemma eff_checkout_owner: "changes R (checkout_owner nym t)"
  unfolding checkout_owner_def by (intro eff)

lemma eff_validate: "changes R (validate_create_signed env rq r)"
  unfolding validate_create_signed_def canonical_addresses_def by (auto intro!: eff split: option.split)

lemma eff_render: "changes R (render_invoice_template env i)"
  unfolding render_invoice_template_def Let_def by (intro eff)

lemma eff_attempt: "changes R m \<Longrightarrow> changes R (attempt m)"
  by (simp add: changes_def attempt_def split_beta)

lemmas eff_shared = eff_limited eff_gate eff_parse_create eff_load eff_owner eff_checkout_owner eff_validate eff_render
  eff_attempt

end

text \<open>A relation that the creation of offers stays within too.\<close>
locale offering_effect = gate_effect +
  assumes key_seq: "R s (s\<lparr>sv_key_seq := k\<rparr>)"
    and touched: "R s (s\<lparr>sv_users := (sv_users s)\<lparr>us_users := touch_user_callback now nym (us_users (sv_users s))\<rparr>\<rparr>)"
    and swap_stored: "changes R (store_swap rq n)"
    and chain_stored: "changes R (store_chain_swap rq fid nc)"
begin

lemma eff_key: "changes R take_key_index"
  by (auto simp: changes_def take_key_index_def key_seq split: prod.split)

lemma eff_touch: "changes R (touch_callback rq nym)"
  unfolding touch_callback_def by (rule eff_modifies) (rule touched)

lemma eff_lightning_offer: "changes R (create_lightning_offer env rq sid nym amount i)"
  unfolding create_lightning_offer_def Let_def
  by (auto intro!: eff eff_key swap_stored eff_touch split: option.split)

lemma eff_chain_offer: "changes R (create_bitcoin_chain_offer env rq cid nym amount i)"
  unfolding create_bitcoin_chain_offer_def Let_def
  by (auto intro!: eff eff_key chain_stored)

lemma eff_refresh: "changes R (ensure_reusable_lightning_offer env rq sid i)"
  unfolding ensure_reusable_lightning_offer_def refresh_offer_locked_def
  by (auto intro!: eff eff_lightning_offer split: option.split)

end

text \<open>A relation that the allocation of addresses stays within too.\<close>
locale selling_effect = offering_effect +
  assumes pos_allocated: "allocate_next_liquid_for_pos_terminal derive nym pas (po_pages (sv_pos s)) = (r, ps)
      \<Longrightarrow> R s (s\<lparr>sv_pos := (sv_pos s)\<lparr>po_pages := ps\<rparr>\<rparr>)"
    and page_allocated: "allocate_next_liquid_for_donation_page derive nym pas (po_pages (sv_pos s)) = (r, ps)
      \<Longrightarrow> R s (s\<lparr>sv_pos := (sv_pos s)\<lparr>po_pages := ps\<rparr>\<rparr>)"
    and nym_allocated: "allocate_next_liquid_for_active_nym derive nym pas (us_users (sv_users s)) = (r2, us)
      \<Longrightarrow> R s (s\<lparr>sv_users := (sv_users s)\<lparr>us_users := us\<rparr>\<rparr>)"
begin

lemma eff_allocate: "changes R (allocate_checkout_address env nym t owner)"
proof -
  have "changes R (allocate_for_pos env nym)" "changes R (allocate_for_page env nym)" "changes R (allocate_for_nym env nym)"
    by (auto simp: changes_def allocate_for_pos_def allocate_for_page_def allocate_for_nym_def
        intro: pos_allocated page_allocated nym_allocated split: prod.split)
  then show ?thesis
    unfolding allocate_checkout_address_def by (auto intro!: eff split: option.split prod.split)
qed

lemmas eff_offers = eff_shared eff_lightning_offer eff_chain_offer eff_refresh eff_allocate

end

text \<open>A relation that ignores the users and both kinds of swaps.\<close>
locale swap_effect = gate_effect +
  assumes offers: "R s (s\<lparr>sv_swaps := a, sv_users := b\<rparr>)"
    and chain: "R s (s\<lparr>sv_chain := ch\<rparr>)"
    and any_key_seq: "R s (s\<lparr>sv_key_seq := k\<rparr>)"
begin

lemma users: "R s (s\<lparr>sv_users := b\<rparr>)"
  using offers[where s = s and a = "sv_swaps s" and b = b] by simp

end

sublocale swap_effect \<subseteq> offering_effect
  by unfold_locales
    (auto simp: changes_def store_swap_def store_chain_swap_def any_key_seq users offers chain refl split: sum.split prod.split)

text \<open>A relation that ignores the addresses handed out as well.\<close>
locale offer_effect = swap_effect +
  assumes pages: "R s (s\<lparr>sv_pos := p\<rparr>)"

sublocale offer_effect \<subseteq> selling_effect
  by unfold_locales (rule pages, rule pages, rule users)

text \<open>Gates, offers and allocations leave the ledger alone.\<close>
interpretation ledger_kept: offer_effect "\<lambda>s s'. sv_ledger s' = sv_ledger s"
  by unfold_locales auto

text \<open>Gates leave everything alone that holds money or identities.\<close>
interpretation offers_kept: gate_effect "\<lambda>s s'. sv_swaps s' = sv_swaps s \<and> sv_chain s' = sv_chain s
    \<and> sv_key_seq s' = sv_key_seq s \<and> sv_users s' = sv_users s \<and> sv_pos s' = sv_pos s"
  by unfold_locales auto

subsection \<open>How invoice requests move the ledger\<close>

inductive api_step :: "invoice_store \<Rightarrow> invoice_store \<Rightarrow> bool" where
  api_ledger: "ledger_step l l' \<Longrightarrow> api_step l l'"
| api_discard: "delete_unpaid_invoice_without_swaps iid swaps l = (n, l') \<Longrightarrow> api_step l l'"

text \<open>The columns that say whose invoice a row is.\<close>
definition row_key :: "invoice \<Rightarrow> uuid \<times> string \<times> string" where
  "row_key i = (inv_id i, inv_npub_owner i, inv_origin i)"

definition row_keys :: "invoice_store \<Rightarrow> (uuid \<times> string \<times> string) set" where
  "row_keys l = row_key ` set (is_invoices l)"

definition cancelled_keys :: "invoice_store \<Rightarrow> (uuid \<times> string \<times> string) set" where
  "cancelled_keys l = row_key ` {i \<in> set (is_invoices l). inv_status i = Cancelled}"

definition unique_ids :: "invoice_store \<Rightarrow> bool" where
  "unique_ids l \<longleftrightarrow> distinct (map inv_id (is_invoices l))"

definition invoice_effect ::
  "(uuid \<times> string \<times> string \<Rightarrow> bool) \<Rightarrow> (uuid \<times> string \<times> string \<Rightarrow> bool) \<Rightarrow> service \<Rightarrow> service \<Rightarrow> bool" where
  "invoice_effect made cancelled s s' \<longleftrightarrow> api_step\<^sup>*\<^sup>* (sv_ledger s) (sv_ledger s')
     \<and> (unique_ids (sv_ledger s) \<longrightarrow> unique_ids (sv_ledger s')
        \<and> row_keys (sv_ledger s') \<subseteq> row_keys (sv_ledger s) \<union> {k. made k}
        \<and> cancelled_keys (sv_ledger s') \<subseteq> cancelled_keys (sv_ledger s) \<union> {k. cancelled k})"

lemma invoice_effect_same: "sv_ledger s' = sv_ledger s \<Longrightarrow> invoice_effect made cancelled s s'"
  by (auto simp: invoice_effect_def)

interpretation invoices: offer_effect "invoice_effect made cancelled" for made cancelled
proof unfold_locales
  fix s t u
  assume "invoice_effect made cancelled s t" "invoice_effect made cancelled t u"
  then show "invoice_effect made cancelled s u"
    unfolding invoice_effect_def by (blast intro: rtranclp_trans)
qed (auto intro: invoice_effect_same)

lemma invoice_effect_mono:
  assumes "invoice_effect made cancelled s s'" "\<And>k. made k \<Longrightarrow> made' k" "\<And>k. cancelled k \<Longrightarrow> cancelled' k"
  shows "invoice_effect made' cancelled' s s'"
  using assms unfolding invoice_effect_def by blast

text \<open>One statement on the ledger.\<close>
lemma invoice_effect_step:
  assumes "api_step (sv_ledger s) (sv_ledger s')"
    and "unique_ids (sv_ledger s) \<Longrightarrow> unique_ids (sv_ledger s')"
    and "row_keys (sv_ledger s') \<subseteq> row_keys (sv_ledger s) \<union> {k. made k}"
    and "unique_ids (sv_ledger s) \<Longrightarrow> cancelled_keys (sv_ledger s') \<subseteq> cancelled_keys (sv_ledger s) \<union> {k. cancelled k}"
  shows "invoice_effect made cancelled s s'"
  using assms by (auto simp: invoice_effect_def)

lemma inserted:
  assumes "insert_invoice now fid n l = Inr (i, l')"
  shows "i = invoice_of_new now fid n" "is_invoices l' = is_invoices l @ [i]" "fid \<notin> inv_id ` set (is_invoices l)"
    "is_events l' = is_events l" "is_observations l' = is_observations l"
  using assms by (auto simp: insert_invoice_def Let_def row_exists_def list_ex_iff split: if_splits sum.splits)

lemma run_store_invoice:
  assumes "made (fid, ni_npub_owner n, ni_origin n)"
  shows "changes (invoice_effect made cancelled) (store_invoice rq fid n)"
proof -
  have "invoice_effect made cancelled s (s\<lparr>sv_ledger := l\<rparr>)"
    if i: "insert_invoice (rq_now rq) fid n (sv_ledger s) = Inr (i, l)" for s i l
  proof -
    have new: "row_key i = (fid, ni_npub_owner n, ni_origin n)" "inv_status i = Unpaid" "inv_id i = fid"
      by (simp_all add: inserted(1)[OF i] row_key_def invoice_of_new_def)
    show ?thesis
      by (rule invoice_effect_step)
        (use inserted(2,3)[OF i] new assms in \<open>auto simp: unique_ids_def row_keys_def cancelled_keys_def
          intro: api_ledger ls_insert[OF i]\<close>)
  qed
  then show ?thesis
    by (auto simp: changes_def store_invoice_def invoices.refl split: sum.split)
qed

lemma run_discard: "changes (invoice_effect made cancelled) (discard_invoice iid)"
proof -
  have "invoice_effect made cancelled s (s\<lparr>sv_ledger := l, sv_chain := ch\<rparr>)"
    if d: "delete_unpaid_invoice_without_swaps iid (sv_swaps s) (sv_ledger s) = (n, l)" for s n l ch
  proof (rule invoice_effect_step, goal_cases)
    case 1
    show ?case using api_discard[OF d] by simp
  qed (use d in \<open>auto simp: delete_unpaid_invoice_without_swaps_def Let_def split_beta unique_ids_def row_keys_def
        cancelled_keys_def tables distinct_map_filter split: if_splits\<close>)
  then show ?thesis unfolding discard_invoice_def by (intro invoices.eff_modifies) (auto split: prod.split)
qed

lemma row_keys_update:
  assumes "\<And>i. row_key (f i) = row_key i"
  shows "row_keys (l\<lparr>is_invoices := fst (update_where P f (is_invoices l))\<rparr>) = row_keys l"
    and "unique_ids (l\<lparr>is_invoices := fst (update_where P f (is_invoices l))\<rparr>) = unique_ids l"
proof -
  have "row_key (if P i then f i else i) = row_key i" for i using assms by simp
  moreover from this have "inv_id (if P i then f i else i) = inv_id i" for i by (metis row_key_def prod.inject)
  moreover have "is_invoices (l\<lparr>is_invoices := fst (update_where P f (is_invoices l))\<rparr>)
      = map (\<lambda>i. if P i then f i else i) (is_invoices l)"
    by (simp add: update_where_def)
  ultimately show "row_keys (l\<lparr>is_invoices := fst (update_where P f (is_invoices l))\<rparr>) = row_keys l"
    "unique_ids (l\<lparr>is_invoices := fst (update_where P f (is_invoices l))\<rparr>) = unique_ids l"
    by (simp_all only: row_keys_def unique_ids_def list.set_map image_image map_map o_def)
qed

lemma run_terminalize: "changes (invoice_effect made cancelled) (terminalize_stale env rq iid)"
proof -
  let ?f = "\<lambda>i. i\<lparr>inv_status := Underpaid\<rparr>"
  have key: "row_key (?f i) = row_key i" for i by (simp add: row_key_def)
  have "cancelled_keys (l\<lparr>is_invoices := fst (update_where P ?f (is_invoices l))\<rparr>) \<subseteq> cancelled_keys l" for P l
    by (auto simp: cancelled_keys_def update_where_def split: if_splits)
  then show ?thesis
    unfolding terminalize_stale_def
    by (intro invoices.eff_modifies invoice_effect_step)
      (auto simp: terminalize_stale_checkout_partial_invoice_def row_keys_update[OF key] intro!: api_ledger
        ls_stale[unfolded terminalize_stale_checkout_partial_invoice_def])
qed

subsection \<open>Cancelling\<close>

lemma unique_row:
  assumes "unique_ids l" "i \<in> set (is_invoices l)" "j \<in> set (is_invoices l)" "inv_id i = inv_id j"
  shows "i = j"
  using assms unfolding unique_ids_def by (metis distinct_map inj_on_def)

lemma cancel_row_effect:
  assumes "get_invoice_by_id iid (is_invoices (sv_ledger s)) = Some i" "cancelled (row_key i)"
  shows "invoice_effect made cancelled s (snd (cancel_row rq iid s))"
proof (cases "cancel_invoice (rq_now rq) iid (is_invoices (sv_ledger s))")
  case (Inr p)
  then obtain n st invs where p: "cancel_invoice (rq_now rq) iid (is_invoices (sv_ledger s)) = Inr (n, st, invs)"
    by (cases p) auto
  let ?P = "\<lambda>i. inv_id i = iid \<and> inv_status i = Unpaid" and ?f = "\<lambda>i. i\<lparr>inv_status := Cancelled, inv_cancelled_at := Some (rq_now rq)\<rparr>"
  have key: "row_key (?f i) = row_key i" for i by (simp add: row_key_def)
  have invs: "invs = fst (update_where ?P ?f (is_invoices (sv_ledger s)))"
    using p by (auto simp: cancel_invoice_def Let_def split_beta split: if_splits option.splits)
  have i: "i \<in> set (is_invoices (sv_ledger s))" "inv_id i = iid"
    using select_one_SomeD[OF assms(1)[unfolded get_invoice_by_id_def]] by auto
  have "cancelled_keys ((sv_ledger s)\<lparr>is_invoices := invs\<rparr>) \<subseteq> cancelled_keys (sv_ledger s) \<union> {k. cancelled k}"
    if u: "unique_ids (sv_ledger s)"
  proof -
    have "j = i" if "j \<in> set (is_invoices (sv_ledger s))" "inv_id j = iid" for j
      using unique_row[OF u that(1) i(1)] that(2) i(2) by simp
    then show ?thesis
      using assms(2) key by (auto simp: invs cancelled_keys_def update_where_def split: if_splits)
  qed
  then show ?thesis
    using api_ledger[OF ls_cancel[OF p]] row_keys_update[OF key, of ?P "sv_ledger s"]
    by (intro invoice_effect_step) (simp_all add: cancel_row_def p invs)
qed (simp add: cancel_row_def invoices.refl)

text \<open>A cancel request signed, over its own path, by the key that owns the row.\<close>
definition cancel_signed ::
  "('net, 'd, 'ba, 'la, 'bk, 'xk, 'xs) invoice_env \<Rightarrow> request \<Rightarrow> string option \<Rightarrow> string \<Rightarrow> cancel_request
    \<Rightarrow> uuid \<times> string \<times> string \<Rightarrow> bool" where
  "cancel_signed env rq nym id_str r k \<longleftrightarrow> ie_parse_uuid env id_str = Some (fst k) \<and> fst (snd k) = cx_npub r
     \<and> verify_la_v2 (ie_signing env) (rq_unix rq) invoice_action_cancel (cx_npub r) (text_or_empty nym) [id_str]
         (cx_timestamp r) (cx_signature r) = Inr ()"

lemma run_cancel:
  "changes (invoice_effect made (cancel_signed env rq nym id_str r)) (cancel_invoice_inner env rq nym id_str r)"
proof -
  let ?tail = "\<lambda>iid. andThen (load_invoice id_str iid) (\<lambda>i.
    andThen (require (inv_npub_owner i = cx_npub r) (InvoiceNotFound id_str)) (\<lambda>_.
    andThen (require (case nym of None \<Rightarrow> True | Some n \<Rightarrow> inv_nym_owner i = Some n) (InvoiceNotFound id_str)) (\<lambda>_.
    andThen (cancel_row rq iid) (\<lambda>final_status. pure (iid, final_status)))))"
  have tail: "changes (invoice_effect made (cancel_signed env rq nym id_str r)) (?tail iid)"
    if signed: "ie_parse_uuid env id_str = Some iid" "verify_la_v2 (ie_signing env) (rq_unix rq) invoice_action_cancel
      (cx_npub r) (text_or_empty nym) [id_str] (cx_timestamp r) (cx_signature r) = Inr ()" for iid
    unfolding changes_def
  proof
    fix s
    show "invoice_effect made (cancel_signed env rq nym id_str r) s (snd (?tail iid s))"
    proof (cases "get_invoice_by_id iid (is_invoices (sv_ledger s))")
      case (Some i)
      have "inv_id i = iid" using select_one_SomeD[OF Some[unfolded get_invoice_by_id_def]] by auto
      then have "inv_npub_owner i = cx_npub r \<Longrightarrow> cancel_signed env rq nym id_str r (row_key i)"
        using signed by (simp add: cancel_signed_def row_key_def)
      then show ?thesis
        using cancel_row_effect[OF Some] Some
        by (auto simp: andThen_def load_invoice_def handler_defs invoices.refl split_beta split: sum.split option.split)
    qed (simp add: andThen_def load_invoice_def handler_defs invoices.refl)
  qed
  show ?thesis
    unfolding cancel_invoice_inner_def cancel_payload_fields_def
  proof (rule invoices.eff_andThen[OF invoices.eff_gate], rule invoices.eff_andThen_known[OF invoices.eff_result],
      rule invoices.eff_andThen_known[OF invoices.eff_result], rule invoices.eff_andThen, goal_cases)
    case 1
    show ?case by (auto intro!: invoices.eff invoices.eff_owner split: option.split)
  next
    case (2 _ iid)
    then show ?case by (intro tail) (auto simp: parse_invoice_id_def split: option.splits)
  qed
qed

subsection \<open>Creating\<close>

lemma run_checkout:
  assumes "\<And>owner. made (ci_invoice_id fresh, owner, ''checkout'')"
  shows "changes (invoice_effect made cancelled) (create_checkout_invoice_inner env rq fresh nym r opts)"
proof -
  have stored: "changes (invoice_effect made cancelled)
      (store_invoice rq (ci_invoice_id fresh) (checkout_invoice nym owner opts sat fiat a b))" for owner sat fiat a b
    using assms by (intro run_store_invoice) (simp add: checkout_invoice_def)
  have eager: "changes (invoice_effect made cancelled) (eager_lightning_offer env rq sid nym sat i)" for sid sat i
    unfolding eager_lightning_offer_def
    by (auto intro!: invoices.eff invoices.eff_offers run_discard split: sum.split)
  show ?thesis
    unfolding create_checkout_invoice_inner_def Let_def
    by (auto intro!: invoices.eff invoices.eff_offers stored eager split: prod.split)
qed

text \<open>A create request signed, over its own fields, by the key it names.\<close>
definition create_signed ::
  "('net, 'd, 'ba, 'la, 'bk, 'xk, 'xs) invoice_env \<Rightarrow> request \<Rightarrow> string option \<Rightarrow> create_signed_request \<Rightarrow> string \<Rightarrow> bool" where
  "create_signed env rq nym r owner \<longleftrightarrow> owner = wr_npub r
     \<and> verify_la_v2 (ie_signing env) (rq_unix rq) invoice_action_create (wr_npub r) (text_or_empty nym)
         (create_payload_fields r) (wr_timestamp r) (wr_signature r) = Inr ()"

lemma run_store_wallet:
  assumes "verify_la_v2 (ie_signing env) (rq_unix rq) invoice_action_create (wr_npub r) (text_or_empty nym)
      (create_payload_fields r) (wr_timestamp r) (wr_signature r) = Inr ()"
  shows "changes (invoice_effect (\<lambda>(iid, owner, origin). origin = ''wallet'' \<and> create_signed env rq nym r owner) cancelled)
    (store_invoice rq fid (wallet_invoice nym r btc liquid t sat fiat))"
  using assms by (intro run_store_invoice) (simp add: wallet_invoice_def create_signed_def)

lemma run_create_signed:
  "changes (invoice_effect (\<lambda>(iid, owner, origin). origin = ''wallet'' \<and> create_signed env rq nym r owner) cancelled)
     (create_invoice_inner env rq fresh nym r)"
  unfolding create_invoice_inner_def
  by (auto intro!: invoices.eff_known invoices.eff_offers run_store_wallet split: option.split prod.split)

subsection \<open>Serving requests\<close>

datatype invoice_request =
    Post_checkout creation_inputs string create_anonymous_request checkout_options
  | Post_invoice creation_inputs "string option" create_signed_request
  | Delete_invoice "string option" string cancel_request
  | Post_lightning uuid string
  | Get_status string
  | Get_invoices list_signed_query
  | Get_page "string option" string

fun serve_invoice ::
  "('net, 'd, 'ba, 'la, 'bk, 'xk, 'xs) invoice_env \<Rightarrow> request \<times> invoice_request \<Rightarrow> service \<Rightarrow> service" where
  "serve_invoice env (rq, Post_checkout fresh nym r opts) s = snd (create_checkout_invoice_inner env rq fresh nym r opts s)"
| "serve_invoice env (rq, Post_invoice fresh nym r) s = snd (create_invoice_inner env rq fresh nym r s)"
| "serve_invoice env (rq, Delete_invoice nym id_str r) s = snd (cancel_invoice_inner env rq nym id_str r s)"
| "serve_invoice env (rq, Post_lightning sid id_str) s = snd (fetch_lightning_offer env rq sid id_str s)"
| "serve_invoice env (rq, Get_status id_str) s = snd (invoice_status_endpoint env rq id_str s)"
| "serve_invoice env (rq, Get_invoices q) s = snd (list_signed env rq q s)"
| "serve_invoice env (rq, Get_page nym id_str) s =
     snd (case nym of Some n \<Rightarrow> render_payment env n id_str s | None \<Rightarrow> render_unlinked_payment env id_str s)"

text \<open>The rows a request may add, and the rows it may cancel.\<close>
fun may_create :: "('net, 'd, 'ba, 'la, 'bk, 'xk, 'xs) invoice_env \<Rightarrow> uuid \<times> string \<times> string
    \<Rightarrow> request \<times> invoice_request \<Rightarrow> bool" where
  "may_create env (iid, owner, origin) (rq, Post_checkout fresh nym r opts) \<longleftrightarrow> origin = ''checkout''"
| "may_create env (iid, owner, origin) (rq, Post_invoice fresh nym r) \<longleftrightarrow>
     origin = ''wallet'' \<and> create_signed env rq nym r owner"
| "may_create env k q \<longleftrightarrow> False"

fun may_cancel :: "('net, 'd, 'ba, 'la, 'bk, 'xk, 'xs) invoice_env \<Rightarrow> uuid \<times> string \<times> string
    \<Rightarrow> request \<times> invoice_request \<Rightarrow> bool" where
  "may_cancel env k (rq, Delete_invoice nym id_str r) \<longleftrightarrow> cancel_signed env rq nym id_str r k"
| "may_cancel env k q \<longleftrightarrow> False"

lemma run_fetch: "changes (invoice_effect made cancelled) (fetch_lightning_offer env rq sid id_str)"
  unfolding fetch_lightning_offer_def by (intro invoices.eff invoices.eff_offers)

lemma run_status_poll: "changes (invoice_effect made cancelled) (invoice_status_endpoint env rq id_str)"
  unfolding invoice_status_endpoint_def latest_reusable_lightning_offer_def
  by (auto intro!: invoices.eff invoices.eff_shared run_terminalize)

lemma run_list: "changes (invoice_effect made cancelled) (list_signed env rq q)"
  unfolding list_signed_def Let_def by (intro invoices.eff invoices.eff_shared)

lemma run_pages: "changes (invoice_effect made cancelled) (render_payment env nym id_str)"
  "changes (invoice_effect made cancelled) (render_unlinked_payment env id_str)"
  unfolding render_payment_def render_unlinked_payment_def by (intro invoices.eff invoices.eff_shared)+

lemma serve_invoice_effect:
  "invoice_effect (\<lambda>k. may_create env k q) (\<lambda>k. may_cancel env k q) s (serve_invoice env q s)"
proof -
  obtain rq a where q: "q = (rq, a)" by fastforce
  show ?thesis
  proof (cases a)
    case (Post_checkout fresh nym r opts)
    show ?thesis
      by (simp add: q Post_checkout)
        (rule changes_at, rule run_checkout, simp)
  next
    case (Post_invoice fresh nym r)
    show ?thesis
      by (simp add: q Post_invoice)
        (rule invoice_effect_mono[OF changes_at[OF run_create_signed[where cancelled = "\<lambda>k. False"]]], auto)
  qed (auto simp: q changes_at[OF run_cancel] changes_at[OF run_fetch] changes_at[OF run_status_poll] changes_at[OF run_list]
      changes_at[OF run_pages(1)] changes_at[OF run_pages(2)] split: option.split)
qed

lemma serve_invoices_effect:
  assumes "set qs \<subseteq> Q"
  shows "invoice_effect (\<lambda>k. \<exists>q\<in>Q. may_create env k q) (\<lambda>k. \<exists>q\<in>Q. may_cancel env k q) s (fold (serve_invoice env) qs s)"
  using assms
proof (induction qs arbitrary: s)
  case (Cons q qs)
  then have q: "q \<in> Q" by simp
  have "invoice_effect (\<lambda>k. \<exists>q\<in>Q. may_create env k q) (\<lambda>k. \<exists>q\<in>Q. may_cancel env k q) s (serve_invoice env q s)"
    by (rule invoice_effect_mono[OF serve_invoice_effect]) (use q in blast)+
  from invoices.trans[OF this Cons.IH] Cons.prems show ?case by simp
qed (simp add: invoices.refl)

text \<open>Of the requests to the invoice API only the owner's cancels: if an invoice is cancelled after serving any
  requests and was not before, one of them is a cancel request naming it and
  freshly signed by the very key the row belongs to.\<close>
lemma signed_cancellations:
  assumes "unique_ids (sv_ledger s)"
    and "i \<in> set (is_invoices (sv_ledger (fold (serve_invoice env) qs s)))" "inv_status i = Cancelled"
    and "row_key i \<notin> cancelled_keys (sv_ledger s)"
  shows "\<exists>rq nym id_str r. (rq, Delete_invoice nym id_str r) \<in> set qs \<and> cancel_signed env rq nym id_str r (row_key i)"
proof -
  have "row_key i \<in> cancelled_keys (sv_ledger (fold (serve_invoice env) qs s))"
    using assms(2,3) by (auto simp: cancelled_keys_def)
  then obtain q where q: "q \<in> set qs" "may_cancel env (row_key i) q"
    using serve_invoices_effect[of qs "set qs" env s] assms(1,4) by (auto simp: invoice_effect_def)
  then show ?thesis by (cases "(env, row_key i, q)" rule: may_cancel.cases) auto
qed

text \<open>C22: Nobody issues a wallet invoice in another key's name: an invoice of origin wallet that
  serving requests has added was created by a request that the key on the row
  freshly signed, over exactly the fields of that request.\<close>
theorem wallet_invoices_are_signed:
  assumes "unique_ids (sv_ledger s)"
    and "i \<in> set (is_invoices (sv_ledger (fold (serve_invoice env) qs s)))" "inv_origin i = ''wallet''"
    and "row_key i \<notin> row_keys (sv_ledger s)"
  shows "\<exists>rq fresh nym r. (rq, Post_invoice fresh nym r) \<in> set qs \<and> create_signed env rq nym r (inv_npub_owner i)"
proof -
  have "row_key i \<in> row_keys (sv_ledger (fold (serve_invoice env) qs s))"
    using assms(2) by (auto simp: row_keys_def)
  then obtain q where q: "q \<in> set qs" "may_create env (row_key i) q"
    using serve_invoices_effect[of qs "set qs" env s] assms(1,4) by (auto simp: invoice_effect_def)
  then show ?thesis
    using assms(3) by (cases "(env, row_key i, q)" rule: may_create.cases) (auto simp: row_key_def)
qed

subsection \<open>The ledger invariant\<close>

lemma discard_ok:
  assumes "delete_unpaid_invoice_without_swaps iid swaps l = (n, l')" "ledger_ok l"
  shows "ledger_ok l'"
proof (cases "l' = l")
  case False
  let ?gone = "\<lambda>i. inv_id i = iid \<and> inv_status i = Unpaid \<and> \<not> row_exists (\<lambda>r. sr_invoice_id r = Some (inv_id i)) swaps"
  have l': "is_invoices l' = filter (\<lambda>i. \<not> ?gone i) (is_invoices l)"
    "is_events l' = filter (\<lambda>p. pe_invoice_id p \<noteq> iid) (is_events l)" and some: "\<exists>i\<in>set (is_invoices l). ?gone i"
    using assms(1) False
    by (auto simp: delete_unpaid_invoice_without_swaps_def Let_def split_beta tables filter_empty_conv split: if_splits)
  then obtain g where g: "g \<in> set (is_invoices l)" "inv_id g = iid" "inv_status g = Unpaid" by blast
  have ids: "unique_ids l" using assms(2) by (simp add: ledger_ok_def unique_ids_def)
  then have "\<not> ?gone i \<longleftrightarrow> inv_id i \<noteq> iid" if "i \<in> set (is_invoices l)" for i
    using unique_row[OF ids that] some by metis
  then have rows: "is_invoices l' = filter (\<lambda>i. inv_id i \<noteq> iid) (is_invoices l)"
    unfolding l'(1) by (auto intro: filter_cong)
  have events: "events_of (inv_id i) (is_events l') = events_of (inv_id i) (is_events l)" if "inv_id i \<noteq> iid" for i
    using that unfolding l'(2) events_of_def by (auto intro!: filter_cong simp: filter_filter)
  have "row_ok (is_events l') i" if "i \<in> set (is_invoices l')" for i
  proof -
    have i: "inv_id i \<noteq> iid" "row_ok (is_events l) i" using that assms(2) unfolding rows by (auto simp: ledger_ok_def)
    then show ?thesis unfolding row_ok_def received_sat_def events[OF i(1)] by blast
  qed
  moreover have "pe_invoice_id p \<in> inv_id ` set (is_invoices l') \<and> 0 < pe_amount_sat p" if "p \<in> set (is_events l')" for p
    using that assms(2) unfolding rows l'(2) by (fastforce simp: ledger_ok_def)
  moreover have "no_double_credit (is_events l')" "distinct (map pe_event_key (is_events l'))"
      "distinct (map inv_id (is_invoices l'))"
    using assms(2) unfolding rows l'(2) by (auto simp: ledger_ok_def no_double_credit_def distinct_map_filter)
  ultimately show ?thesis by (simp add: ledger_ok_def)
qed (use assms in simp)

lemma api_step_ok: "api_step l l' \<Longrightarrow> ledger_ok l \<Longrightarrow> ledger_ok l'"
  by (induction rule: api_step.induct) (auto intro: ledger_step_ok discard_ok)

text \<open>Whatever invoice requests are served, accepted or refused, they keep the ledger
  invariant: a checkout that was taken back leaves no event behind, and every
  row's credit is still the sum of its events.\<close>
theorem invoice_requests_keep_the_ledger:
  assumes "ledger_ok (sv_ledger s)"
  shows "ledger_ok (sv_ledger (fold (serve_invoice env) qs s))"
proof -
  have "api_step\<^sup>*\<^sup>* (sv_ledger s) (sv_ledger (fold (serve_invoice env) qs s))"
    using serve_invoices_effect[of qs "set qs" env s] by (simp add: invoice_effect_def)
  then show ?thesis using assms by induction (auto intro: api_step_ok)
qed

subsection \<open>A checkout that fails\<close>

text \<open>The identifier is free: no row of any table refers to it.\<close>
definition id_free :: "uuid \<Rightarrow> service \<Rightarrow> bool" where
  "id_free iid s \<longleftrightarrow> (\<forall>r\<in>set (sv_swaps s). sr_invoice_id r \<noteq> Some iid)
     \<and> (\<forall>p\<in>set (is_events (sv_ledger s)). pe_invoice_id p \<noteq> iid)
     \<and> (\<forall>p\<in>set (is_addresses (sv_ledger s)). pa_invoice_id p \<noteq> iid)
     \<and> (\<forall>p\<in>set (is_observations (sv_ledger s)). po_invoice_id p \<noteq> iid)"

text \<open>What does not touch the swaps before a Lightning offer.\<close>
interpretation swaps_kept: gate_effect "\<lambda>s s'. sv_swaps s' = sv_swaps s \<and> sv_ledger s' = sv_ledger s"
  by unfold_locales auto

lemma allocate_keeps: "changes (\<lambda>s s'. sv_swaps s' = sv_swaps s \<and> sv_ledger s' = sv_ledger s)
    (allocate_checkout_address env nym t owner)"
proof -
  have "changes (\<lambda>s s'. sv_swaps s' = sv_swaps s \<and> sv_ledger s' = sv_ledger s) (allocate_for_pos env nym)"
    "changes (\<lambda>s s'. sv_swaps s' = sv_swaps s \<and> sv_ledger s' = sv_ledger s) (allocate_for_page env nym)"
    "changes (\<lambda>s s'. sv_swaps s' = sv_swaps s \<and> sv_ledger s' = sv_ledger s) (allocate_for_nym env nym)"
    by (auto simp: changes_def allocate_for_pos_def allocate_for_page_def allocate_for_nym_def split: prod.split)
  then show ?thesis
    unfolding allocate_checkout_address_def by (auto intro!: swaps_kept.eff split: option.split prod.split)
qed

lemma store_swap_err: "store_swap rq n t = (Inl e, t') \<Longrightarrow> t' = t"
  by (auto simp: store_swap_def split: sum.splits prod.splits)

text \<open>A Lightning offer that could not be made left no swap.\<close>
lemma failed_offer:
  assumes "create_lightning_offer env rq sid nym amount i s = (Inl e, s')"
  shows "sv_swaps s' = sv_swaps s" "sv_ledger s' = sv_ledger s"
proof -
  show "sv_swaps s' = sv_swaps s"
    using assms unfolding create_lightning_offer_def Let_def
    by (cases nym)
      (auto simp: andThen_err take_key_index_def next_swap_key_index_def touch_callback_def dest!: store_swap_err)
  show "sv_ledger s' = sv_ledger s"
    using changesD[OF ledger_kept.eff_lightning_offer assms] .
qed

text \<open>\<open>m\<close> leaves the ledger as it was whenever it fails.\<close>
definition fails_clean :: "uuid \<Rightarrow> (service, app_error, 'a) handler \<Rightarrow> bool" where
  "fails_clean iid m \<longleftrightarrow> (\<forall>s e s'. id_free iid s \<longrightarrow> m s = (Inl e, s') \<longrightarrow> sv_ledger s' = sv_ledger s)"

lemma fails_clean_andThen:
  assumes "changes (\<lambda>s s'. sv_swaps s' = sv_swaps s \<and> sv_ledger s' = sv_ledger s) m" "\<And>a. fails_clean iid (f a)"
  shows "fails_clean iid (andThen m f)"
  unfolding fails_clean_def
proof (intro allI impI)
  fix s e s'' assume free: "id_free iid s" and err: "andThen m f s = (Inl e, s'')"
  from err consider "m s = (Inl e, s'')" | a s' where "m s = (Inr a, s')" "f a s' = (Inl e, s'')"
    by (auto simp: andThen_err)
  then show "sv_ledger s'' = sv_ledger s"
  proof cases
    case (2 a s')
    have same: "sv_swaps s' = sv_swaps s" "sv_ledger s' = sv_ledger s" using changesD[OF assms(1) 2(1)] by simp_all
    then have "id_free iid s'" using free by (simp add: id_free_def)
    then show ?thesis using assms(2)[of a] 2(2) same(2) by (auto simp: fails_clean_def)
  qed (use changesD[OF assms(1)] in blast)
qed

lemma discard_restores:
  assumes "insert_invoice now iid n (sv_ledger s) = Inr (i, l)" "id_free iid s"
  shows "snd (delete_unpaid_invoice_without_swaps iid (sv_swaps s) l) = sv_ledger s"
proof -
  note new = inserted[OF assms(1)]
  have i: "inv_id i = iid" "inv_status i = Unpaid" by (simp_all add: new(1) invoice_of_new_def)
  have none: "\<not> row_exists (\<lambda>r. sr_invoice_id r = Some iid) (sv_swaps s)"
    using assms(2) by (auto simp: id_free_def row_exists_def list_ex_iff)
  have addresses: "filter (\<lambda>a. pa_invoice_id a \<noteq> iid) (is_addresses l) = is_addresses (sv_ledger s)"
    using assms by (auto simp: insert_invoice_def Let_def reserve_address_def id_free_def filter_id_conv
        split: if_splits sum.splits option.splits)
  have others: "inv_id x \<noteq> iid" if "x \<in> set (is_invoices (sv_ledger s))" for x using new(3) that by blast
  have "filter (\<lambda>x. \<not> (inv_id x = iid \<and> inv_status x = Unpaid
      \<and> \<not> row_exists (\<lambda>r. sr_invoice_id r = Some (inv_id x)) (sv_swaps s))) (is_invoices l) = is_invoices (sv_ledger s)"
    using others i none unfolding new(2) by (auto simp: filter_id_conv)
  moreover have "filter (\<lambda>p. pe_invoice_id p \<noteq> iid) (is_events l) = is_events (sv_ledger s)"
    "filter (\<lambda>p. po_invoice_id p \<noteq> iid) (is_observations l) = is_observations (sv_ledger s)"
    using assms(2) unfolding new(4,5) by (auto simp: id_free_def filter_id_conv)
  ultimately show ?thesis
    using addresses i none new(2) by (simp add: delete_unpaid_invoice_without_swaps_def Let_def split_beta tables)
qed

lemma discard_outcome:
  "discard_invoice iid s = (x, s') \<longleftrightarrow> x = Inr () \<and> s' = snd (discard_invoice iid s)"
  "sv_ledger (snd (discard_invoice iid s)) = snd (delete_unpaid_invoice_without_swaps iid (sv_swaps s) (sv_ledger s))"
  by (auto simp: discard_invoice_def modifies_def split: prod.split)

lemma offered_checkout_fails_clean:
  "fails_clean iid (andThen (store_invoice rq iid n) (\<lambda>i.
     andThen (eager_lightning_offer env rq sid nym amount i) (\<lambda>pr. andThen (attempt (m i)) (\<lambda>c. pure (f i pr c)))))"
  unfolding fails_clean_def
proof (intro allI impI)
  fix s e s'
  assume free: "id_free iid s" and err: "andThen (store_invoice rq iid n) (\<lambda>i.
     andThen (eager_lightning_offer env rq sid nym amount i) (\<lambda>pr. andThen (attempt (m i)) (\<lambda>c. pure (f i pr c)))) s = (Inl e, s')"
  show "sv_ledger s' = sv_ledger s"
  proof (cases "insert_invoice (rq_now rq) iid n (sv_ledger s)")
    case (Inr p)
    then obtain i l where i: "insert_invoice (rq_now rq) iid n (sv_ledger s) = Inr (i, l)" by (cases p) auto
    let ?s = "s\<lparr>sv_ledger := l\<rparr>"
    have "inv_id i = iid" by (simp add: inserted(1)[OF i] invoice_of_new_def)
    moreover obtain t where t: "create_lightning_offer env rq sid (Some nym) amount i ?s = (Inl e, t)"
      "s' = snd (discard_invoice (inv_id i) t)"
      using err i
      by (auto simp: andThen_def store_invoice_def eager_lightning_offer_def attempt_def discard_outcome(1) handler_defs
          split: prod.splits sum.splits)
    ultimately show ?thesis
      using failed_offer[OF t(1)] discard_restores[OF i free] by (simp add: discard_outcome(2))
  next
    case (Inl e')
    then show ?thesis using err by (simp add: andThen_def store_invoice_def)
  qed
qed


end
