(* ===== verification/CheckoutProperties.thy ===== *)
theory CheckoutProperties
  imports InvoiceProperties
begin

text \<open>
  What a checkout returns: whichever rail the payer takes, the money ends at one address
  of the page owner, derived from the descriptor that the kind of checkout calls
  for.  Witnesses of the invoice endpoints' properties.
\<close>

subsection \<open>A checkout that succeeds\<close>

text \<open>Terminal sales settle to the POS descriptor, page sales to the page's own descriptor
  or, without one, to the owner's.\<close>
definition fund_descriptor :: "uuid option \<Rightarrow> donation_page \<Rightarrow> user \<Rightarrow> string option" where
  "fund_descriptor terminal_id page owner =
    (if terminal_id \<noteq> None then dp_pos_ct_descriptor page
     else case dp_ct_descriptor page of Some d \<Rightarrow> Some d | None \<Rightarrow> Some (u_ct_descriptor owner))"

lemma alloc_loop_derived:
  "alloc_loop derive in_use d n idx = AllocFound addr i \<Longrightarrow> (\<exists>k. derive d k = Inr addr) \<and> \<not> in_use addr"
  by (induction derive in_use d n idx rule: alloc_loop.induct) (auto split: if_splits sum.splits)

lemma derive_for_ok: "derive_for env d k = Inr a \<longleftrightarrow> derive_address (ie_descriptors env) d k = Inr a"
  by (cases "derive_address (ie_descriptors env) d k") (simp_all add: derive_for_def)

lemma unique_page:
  assumes "distinct (map dp_nym ps)" "select_one (\<lambda>p. dp_nym p = nym) ps = Some page"
  shows "select_one (\<lambda>p. dp_nym p = nym \<and> Q p) ps = (if Q page then Some page else None)"
proof -
  have page: "page \<in> set ps" "dp_nym page = nym" using select_one_SomeD[OF assms(2)] by auto
  have only: "p = page" if "p \<in> set ps" "dp_nym p = nym" for p
    using assms(1) page that by (metis distinct_map inj_on_def)
  then have "(dp_nym p = nym \<and> Q p) = (p = page \<and> Q page)" if "p \<in> set ps" for p
    using that page(2) by blast
  then have "select_one (\<lambda>p. dp_nym p = nym \<and> Q p) ps = select_one (\<lambda>p. p = page \<and> Q page) ps"
    unfolding select_one_def by (rule find_cong[OF refl])
  also have "\<dots> = (if Q page then Some page else None)"
    using page(1) unfolding select_one_def by (cases "Q page"; induction ps) (auto simp: find_None_iff)
  finally show ?thesis .
qed

lemma allocated:
  assumes "allocate_checkout_address env nym t owner s = (Inr (a, d), s')"
    and "distinct (map dp_nym (po_pages (sv_pos s)))"
    and "get_donation_page_by_nym nym (po_pages (sv_pos s)) = Some page" "\<not> dp_is_archived page"
    and "get_active_user_by_nym nym (us_users (sv_users s)) = Some owner"
  shows "fund_descriptor t page owner = Some d \<and> (\<exists>k. derive_address (ie_descriptors env) d k = Inr a)
    \<and> \<not> liquid_in_use (is_addresses (sv_ledger s)) a"
proof -
  note page = unique_page[OF assms(2) assms(3)[unfolded get_donation_page_by_nym_def]]
  have rows: "select_one (\<lambda>p. dp_nym p = nym \<and> dp_archived_at p = None \<and> dp_pos_ct_descriptor p \<noteq> None) (po_pages (sv_pos s))
      = (if dp_pos_ct_descriptor page \<noteq> None then Some page else None)"
    "select_one (\<lambda>p. dp_nym p = nym \<and> dp_archived_at p = None \<and> dp_ct_descriptor p \<noteq> None) (po_pages (sv_pos s))
      = (if dp_ct_descriptor page \<noteq> None then Some page else None)"
    using page[of "\<lambda>p. dp_archived_at p = None \<and> dp_pos_ct_descriptor p \<noteq> None"]
      page[of "\<lambda>p. dp_archived_at p = None \<and> dp_ct_descriptor p \<noteq> None"] assms(4)
    by (simp_all add: dp_is_archived_def)
  show ?thesis
  proof (cases t)
    case (Some tid)
    then obtain i where "alloc_loop (derive_for env) (liquid_in_use (is_addresses (sv_ledger s))) d 100
        (dp_pos_next_addr_idx page) = AllocFound a i" "dp_pos_ct_descriptor page = Some d"
      using assms(1) rows(1)
      by (auto simp: allocate_checkout_address_def andThen_ok allocate_for_pos_def allocate_next_liquid_for_pos_terminal_def
          Let_def split: prod.splits if_splits alloc_outcome.splits)
    then show ?thesis
      using Some alloc_loop_derived by (fastforce simp: fund_descriptor_def derive_for_ok)
  next
    case None
    show ?thesis
    proof (cases "dp_ct_descriptor page")
      case (Some x)
      then obtain i where "alloc_loop (derive_for env) (liquid_in_use (is_addresses (sv_ledger s))) d 100
          (dp_next_addr_idx page) = AllocFound a i" "d = x"
        using assms(1) rows(2) None
        by (auto simp: allocate_checkout_address_def andThen_ok allocate_for_page_def
            allocate_next_liquid_for_donation_page_def Let_def split: prod.splits if_splits alloc_outcome.splits option.splits)
      then show ?thesis
        using Some None alloc_loop_derived by (fastforce simp: fund_descriptor_def derive_for_ok)
    next
      case no_page: None
      then obtain i where "alloc_loop (derive_for env) (liquid_in_use (is_addresses (sv_ledger s))) (u_ct_descriptor owner)
          100 (u_next_addr_idx owner) = AllocFound a i" "d = u_ct_descriptor owner"
        using assms(1,5) rows(2) None
        by (auto simp: allocate_checkout_address_def andThen_ok allocate_for_page_def allocate_for_nym_def
            allocate_next_liquid_for_donation_page_def allocate_next_liquid_for_active_nym_def Let_def
            split: prod.splits if_splits alloc_outcome.splits option.splits)
      then show ?thesis
        using no_page None alloc_loop_derived by (fastforce simp: fund_descriptor_def derive_for_ok)
    qed
  qed
qed

text \<open>What a stored invoice and its Lightning offer leave behind.\<close>
lemma eager_offer:
  assumes "eager_lightning_offer env rq sid nym amount i s = (Inr pr, s')"
  shows "create_lightning_offer env rq sid (Some nym) amount i s = (Inr pr, s')"
  using assms
  by (auto simp: eager_lightning_offer_def andThen_def attempt_def handler_defs split: prod.splits sum.splits)

lemma chain_offer_keeps: "changes (\<lambda>s s'. sv_swaps s' = sv_swaps s \<and> sv_ledger s' = sv_ledger s)
    (create_bitcoin_chain_offer env rq cid nym amount i)"
proof -
  have "changes (\<lambda>s s'. sv_swaps s' = sv_swaps s \<and> sv_ledger s' = sv_ledger s) take_key_index"
    by (auto simp: changes_def take_key_index_def split: prod.split)
  moreover have "changes (\<lambda>s s'. sv_swaps s' = sv_swaps s \<and> sv_ledger s' = sv_ledger s) (store_chain_swap rq fid n)" for fid n
    by (auto simp: changes_def store_chain_swap_def split: sum.split prod.split)
  ultimately show ?thesis
    unfolding create_bitcoin_chain_offer_def Let_def by (auto intro!: swaps_kept.eff)
qed

text \<open>The invoice of a checkout response, its settlement address and the swap behind its BOLT11.\<close>
definition checkout_settles ::
  "('net, 'd, 'ba, 'la, 'bk, 'xk, 'xs) invoice_env \<Rightarrow> string option \<Rightarrow> user \<Rightarrow> create_invoice_response \<Rightarrow> service \<Rightarrow> bool" where
  "checkout_settles env descriptor owner resp s \<longleftrightarrow>
     (\<exists>i\<in>set (is_invoices (sv_ledger s)). \<exists>r\<in>set (sv_swaps s). \<exists>d k.
        inv_id i = ic_invoice_id resp \<and> inv_npub_owner i = u_npub owner \<and> inv_origin i = ''checkout''
        \<and> \<not> inv_accept_btc i \<and> inv_liquid_address i = Some (ic_liquid_address resp)
        \<and> descriptor = Some d \<and> derive_address (ie_descriptors env) d k = Inr (ic_liquid_address resp)
        \<and> sr_invoice_id r = Some (inv_id i) \<and> sr_invoice r = ic_lightning_pr resp \<and> sr_address r = None
        \<and> sr_amount_sat r = inv_amount_sat i \<and> min_sat env \<le> inv_amount_sat i \<and> inv_amount_sat i \<le> max_sat env)"

lemma checkout_amount:
  assumes "parse_create_request env rq reply r s = (Inr (amount_sat, fiat), s')"
  shows "0 < amount_sat" "min_sat env \<le> amount_sat" "amount_sat \<le> max_sat env"
  using assms
  by (auto simp: parse_create_request_def fiat_amount_def andThen_ok sat_amount_def fiat_to_sat_def Let_def
      split: if_splits option.splits)

text \<open>C24: A checkout answered with success has one settlement address: it is derived from the
  descriptor for that kind of sale (the POS descriptor for a terminal, the page's, or
  the owner's where the page has none), it is the address of an invoice owned by the
  page owner that takes no direct Bitcoin, and the BOLT11 returned with it is that of a
  swap bound to this invoice for its full amount, within the configured limits, with no
  other destination set.\<close>
theorem checkout_settles_to_the_page_owner:
  assumes "create_checkout_invoice_inner env rq fresh nym r opts s = (Inr resp, s')"
    and "distinct (map dp_nym (po_pages (sv_pos s)))"
    and "get_donation_page_by_nym nym (po_pages (sv_pos s)) = Some page"
    and "get_active_user_by_nym nym (us_users (sv_users s)) = Some owner"
  shows "checkout_settles env (fund_descriptor (co_terminal_id opts) page owner) owner resp s'"
  using assms(1) unfolding create_checkout_invoice_inner_def Let_def split_beta
proof (elim andThen_okE, goal_cases)
  case (1 u s1 amt s2 own s3 addr s4 blind s5 i s6 pr s7 c s8)
  have gate: "changes (\<lambda>s s'. sv_swaps s' = sv_swaps s \<and> sv_chain s' = sv_chain s \<and> sv_key_seq s' = sv_key_seq s
      \<and> sv_users s' = sv_users s \<and> sv_pos s' = sv_pos s) (if co_terminal_id opts = None
      then gate_source (ie_gates env) InvoiceCreate rq check_invoice_create_per_source else pure ())"
    by (simp add: offers_kept.eff_gate offers_kept.eff_pure)
  have same: "sv_users s2 = sv_users s" "sv_pos s2 = sv_pos s"
    using changesD[OF gate 1(1)] changesD[OF offers_kept.eff_parse_create 1(2)] by simp_all
  have owner: "own = owner" "\<not> dp_is_archived page" "s3 = s2"
    using 1(3) assms(3,4) same by (auto simp: checkout_owner_def andThen_ok)
  have here: "fund_descriptor (co_terminal_id opts) page owner = Some (snd addr)
      \<and> (\<exists>k. derive_address (ie_descriptors env) (snd addr) k = Inr (fst addr)) \<and> \<not> liquid_in_use (is_addresses (sv_ledger s3)) (fst addr)"
    using 1(4) owner assms(2,3,4) same by (intro allocated[of env nym "co_terminal_id opts" owner]) simp_all
  obtain l where stored: "insert_invoice (rq_now rq) (ci_invoice_id fresh)
      (checkout_invoice nym own opts (fst amt) (snd amt) (fst addr) blind) (sv_ledger s5) = Inr (i, l)" "s6 = s5\<lparr>sv_ledger := l\<rparr>"
    using 1(6) by (auto simp: store_invoice_def split: sum.splits prod.splits)
  note offer = eager_offer[OF 1(7)]
  have i: "i \<in> set (is_invoices (sv_ledger s7))" "inv_npub_owner i = u_npub owner" "inv_origin i = ''checkout''"
    "\<not> inv_accept_btc i" "inv_liquid_address i = Some (fst addr)" "inv_amount_sat i = fst amt"
    using changesD[OF ledger_kept.eff_lightning_offer offer] stored(2) inserted(2)[OF stored(1)] owner(1)
    by (simp_all add: inserted(1)[OF stored(1)] invoice_of_new_def checkout_invoice_def)
  obtain sw json where sw: "pr = sw_invoice sw" "sv_swaps s7 = sv_swaps s6
      @ [swap_of_new (rq_now rq) (ci_swap_id fresh) (lightning_offer_record (Some nym) (nat (fst amt)) (inv_id i) sw json)]"
    using created_offer_row[OF offer] by blast
  have attempted: "sv_ledger s' = sv_ledger s7" "sv_swaps s' = sv_swaps s7" "resp = \<lparr>ic_invoice_id = inv_id i,
      ic_lightning_pr = pr, ic_liquid_address = fst addr,
      ic_bitcoin_chain_address = map_option bo_lockup_address (case c of Inl e \<Rightarrow> None | Inr offer \<Rightarrow> offer),
      ic_bitcoin_chain_bip21 = (case case c of Inl e \<Rightarrow> None | Inr offer \<Rightarrow> offer of None \<Rightarrow> None | Some x \<Rightarrow> bo_lockup_bip21 x),
      ic_expires_at_unix = epoch (inv_expires_at i)\<rparr>"
    using 1(9) changesD[OF swaps_kept.eff_attempt[OF chain_offer_keeps] 1(8)] by simp_all
  have amount: "0 < fst amt" "min_sat env \<le> fst amt" "fst amt \<le> max_sat env"
    using checkout_amount[of env rq _ r _ "fst amt" "snd amt"] 1(2) by simp_all
  moreover have "inv_amount_sat i \<le> i64_max"
    using stored(1) by (auto simp: insert_invoice_def Let_def invoice_checks_def split: if_splits sum.splits)
  ultimately have "as_i64 (int (nat (fst amt))) = fst amt"
    using i(6) as_i64_in[of "fst amt"] by (simp add: in_i64_def i64_min_def)
  then have "sr_amount_sat (swap_of_new (rq_now rq) (ci_swap_id fresh) (lightning_offer_record (Some nym) (nat (fst amt))
      (inv_id i) sw json)) = inv_amount_sat i"
    using i(6) by (simp add: swap_of_new_def lightning_offer_record_def)
  then show ?case
    using here i sw attempted amount unfolding checkout_settles_def
    by (intro bexI[of _ i] bexI[of _ "swap_of_new (rq_now rq) (ci_swap_id fresh) (lightning_offer_record (Some nym)
        (nat (fst amt)) (inv_id i) sw json)"]) (auto simp: swap_of_new_def lightning_offer_record_def)
qed

subsection \<open>Witnesses\<close>

definition demo_cancel :: cancel_request where
  "demo_cancel = \<lparr>cx_npub = ''n'', cx_timestamp = 50,
     cx_signature = ''n'' @ build_la_v2_message invoice_action_cancel ''n'' [] [''7''] 50\<rparr>"

lemma demo_shop_rows: "unique_ids (sv_ledger demo_shop)" "is_invoices (sv_ledger demo_shop) = [demo_unpaid]"
  "inv_id demo_unpaid = 7" "inv_status demo_unpaid = Unpaid" "row_key demo_unpaid = (7, ''n'', ''wallet'')"
  "inv_npub_owner demo_unpaid = ''n''"
  by (simp_all add: unique_ids_def demo_shop_def demo_unpaid_def invoice_of_new_def row_key_def demo_new_invoice_def)

lemma demo_gate: "gate_source (ie_gates demo_invoices) scope (demo_request None) axis s = (Inr (), s)"
  by (simp add: gate_source_def demo_invoices_def demo_no_ip pure_def)

lemma demo_clock [simp]: "rq_now (demo_request ip) = 1000" "rq_unix (demo_request ip) = 50"
  by (simp_all add: demo_request_def)

lemma demo_signs: "verify_la_v2 (ie_signing demo_invoices) 50 action key nym payload 50
    (key @ build_la_v2_message action key nym payload 50) = Inr ()"
  by (simp add: verify_la_v2_def check_ts_freshness_def abs_diff_def la_auth_ts_window_secs_def verify_signature_def
      demo_signing_def demo_invoices_def demo_request_def)

lemma demo_cancelled: "serve_invoice demo_invoices (demo_request None, Delete_invoice None ''7'' demo_cancel) demo_shop
    = demo_shop\<lparr>sv_ledger := (sv_ledger demo_shop)\<lparr>is_invoices :=
        [demo_unpaid\<lparr>inv_status := Cancelled, inv_cancelled_at := Some 1000\<rparr>]\<rparr>\<rparr>"
proof -
  have "parse_invoice_id demo_invoices ''7'' = Inr 7" by (simp add: parse_invoice_id_def demo_invoices_def)
  moreover have "get_invoice_by_id 7 (is_invoices (sv_ledger demo_shop)) = Some demo_unpaid"
    by (simp add: demo_shop_rows get_invoice_by_id_def select_one_def)
  moreover have "cancel_invoice 1000 7 (is_invoices (sv_ledger demo_shop)) = Inr (1, ''cancelled'',
      [demo_unpaid\<lparr>inv_status := Cancelled, inv_cancelled_at := Some 1000\<rparr>])"
    by (simp add: cancel_invoice_def demo_shop_rows tables split_beta Let_def)
  ultimately show ?thesis
    using demo_signs[of invoice_action_cancel "''n''" "[]" "[''7'']"]
    by (simp add: cancel_invoice_inner_def andThen_def demo_gate handler_defs demo_cancel_def cancel_payload_fields_def
        text_or_empty_def load_invoice_def cancel_row_def demo_shop_rows)
qed

lemma signed_cancellations_example:
  "cancel_signed demo_invoices (demo_request None) None ''7'' demo_cancel (row_key demo_unpaid)"
proof -
  let ?q = "(demo_request None, Delete_invoice None ''7'' demo_cancel)"
  let ?i = "demo_unpaid\<lparr>inv_status := Cancelled, inv_cancelled_at := Some 1000\<rparr>"
  have "?i \<in> set (is_invoices (sv_ledger (fold (serve_invoice demo_invoices) [?q] demo_shop)))"
    by (simp add: demo_cancelled del: serve_invoice.simps)
  moreover have key: "row_key ?i = row_key demo_unpaid" by (simp add: row_key_def)
  moreover have "row_key ?i \<notin> cancelled_keys (sv_ledger demo_shop)"
    using demo_shop_rows(4) by (auto simp: cancelled_keys_def demo_shop_rows(2))
  ultimately obtain rq nym id_str r where "(rq, Delete_invoice nym id_str r) \<in> set [?q]"
    "cancel_signed demo_invoices rq nym id_str r (row_key ?i)"
    using signed_cancellations[OF demo_shop_rows(1), of ?i demo_invoices "[?q]"] by auto
  then show ?thesis unfolding key by simp
qed

lemma demo_shop_ledger: "ledger_ok (sv_ledger demo_shop)"
  by (simp add: ledger_ok_def demo_shop_def no_double_credit_def row_ok_def invoice_checks_def demo_unpaid_def
      invoice_of_new_def demo_new_invoice_def uncredited_def events_of_def i64_max_def)

lemma invoice_requests_keep_the_ledger_witness:
  "ledger_ok ((sv_ledger demo_shop)\<lparr>is_invoices := [demo_unpaid\<lparr>inv_status := Cancelled, inv_cancelled_at := Some 1000\<rparr>]\<rparr>)"
  using invoice_requests_keep_the_ledger[OF demo_shop_ledger, of demo_invoices
      "[(demo_request None, Delete_invoice None ''7'' demo_cancel)]"]
  by (simp add: demo_cancelled del: serve_invoice.simps)

definition demo_page :: donation_page where
  "demo_page = \<lparr>dp_nym = ''bob'', dp_ct_descriptor = Some ''p'', dp_next_addr_idx = 0, dp_pos_ct_descriptor = None,
     dp_pos_next_addr_idx = 0, dp_header = [], dp_description = [], dp_avatar_sha256 = None, dp_og_sha256 = None,
     dp_display_currency = ''USD'', dp_website = None, dp_twitter = None, dp_instagram = None, dp_enabled = True,
     dp_archived_at = None\<rparr>"

definition demo_store :: service where
  "demo_store = demo_shop\<lparr>sv_limiter := demo_limits\<lparr>rl_cfg := (rl_cfg demo_limits)
       \<lparr>rc_invoice_create_per_npub_per_hour := 0\<rparr>\<rparr>,
     sv_pos := \<lparr>po_terminals = [], po_pages = [demo_page]\<rparr>\<rparr>"

definition demo_creation :: creation_inputs where
  "demo_creation = \<lparr>ci_invoice_id = 8, ci_swap_id = 9, ci_chain_id = 10, ci_rate_reply = undefined\<rparr>"

definition demo_sale :: create_anonymous_request where
  "demo_sale = \<lparr>ca_amount_sat = Some 500, ca_fiat_amount_minor = None, ca_fiat_currency = None\<rparr>"

definition demo_issue :: create_signed_request where
  "demo_issue = \<lparr>wr_npub = ''n'', wr_amount_sat = Some 500, wr_fiat_amount_minor = None, wr_fiat_currency = None,
     wr_public_description = None, wr_recipient_label = None, wr_invoice_number = None, wr_accept_btc = False,
     wr_accept_ln = False, wr_accept_liquid = True, wr_bitcoin_address = None, wr_liquid_address = Some ''lq2'',
     wr_liquid_blinding_key_hex = Some ''lq2'', wr_expires_at_unix = None, wr_timestamp = 50, wr_signature = []\<rparr>"

definition demo_issue_signed :: create_signed_request where
  "demo_issue_signed = demo_issue\<lparr>wr_signature :=
     ''n'' @ build_la_v2_message invoice_action_create ''n'' [] (create_payload_fields demo_issue) 50\<rparr>"

lemma demo_issue_payload: "create_payload_fields demo_issue_signed = create_payload_fields demo_issue"
  by (simp add: create_payload_fields_def demo_issue_signed_def)

definition demo_issued :: invoice where
  "demo_issued = invoice_of_new 1000 8 (wallet_invoice None demo_issue_signed None (Some ''lq2'') 604800 500 None)"

lemma demo_valid: "validate_create_signed demo_invoices (demo_request None) demo_issue_signed s
    = (Inr (None, Some ''lq2'', 604800), s)"
  by (simp add: validate_create_signed_def canonical_addresses_def andThen_def handler_defs text_within_def
      demo_issue_signed_def demo_issue_def canonical_liquid_mainnet_address_def demo_invoices_def
      validate_liquid_blinding_key_matches_address_def invoice_lifetime_def max_wallet_expires_secs_def)

lemma demo_limit_sat: "min_sat demo_invoices = 1" "max_sat demo_invoices = 9000"
  by (simp_all add: min_sat_def max_sat_def as_i64_def demo_invoices_def)

lemma demo_price: "ca_amount_sat r = Some 500 \<Longrightarrow> ca_fiat_amount_minor r = None \<Longrightarrow> ca_fiat_currency r = None \<Longrightarrow>
    parse_create_request demo_invoices rq reply r s = (Inr (500, None), s)"
  by (simp add: parse_create_request_def andThen_def handler_defs sat_amount_def demo_limit_sat)

lemma demo_created: "\<exists>l. insert_invoice 1000 8 (wallet_invoice None demo_issue_signed None (Some ''lq2'') 604800 500 None)
    (sv_ledger demo_store) = Inr (demo_issued, l)"
  by (simp add: insert_invoice_def Let_def invoice_checks_def invoice_of_new_def wallet_invoice_def demo_issue_signed_def
      demo_issue_def demo_issued_def demo_store_def demo_shop_def demo_unpaid_def row_exists_def reserve_address_def
      i64_max_def demo_new_invoice_def)

lemma wallet_invoices_are_signed_witness:
  "demo_issued \<in> set (is_invoices (sv_ledger (serve_invoice demo_invoices
      (demo_request None, Post_invoice demo_creation None demo_issue_signed) demo_store)))
   \<and> create_signed demo_invoices (demo_request None) None demo_issue_signed ''n''"
proof -
  let ?q = "(demo_request None, Post_invoice demo_creation None demo_issue_signed)"
  obtain l where l: "insert_invoice 1000 8 (wallet_invoice None demo_issue_signed None (Some ''lq2'') 604800 500 None)
      (sv_ledger demo_store) = Inr (demo_issued, l)" using demo_created by blast
  have signed: "verify_la_v2 (ie_signing demo_invoices) 50 invoice_action_create ''n'' []
      (create_payload_fields demo_issue_signed) 50 (wr_signature demo_issue_signed) = Inr ()"
    unfolding demo_issue_payload using demo_signs[of invoice_action_create "''n''" "[]" "create_payload_fields demo_issue"]
    by (simp add: demo_issue_signed_def)
  have fields: "wr_npub demo_issue_signed = ''n''" "wr_timestamp demo_issue_signed = 50"
    "wr_amount_sat demo_issue_signed = Some 500" "wr_fiat_amount_minor demo_issue_signed = None"
    "wr_fiat_currency demo_issue_signed = None"
    by (simp_all add: demo_issue_signed_def demo_issue_def)
  have limit: "limited (check_invoice_create_per_npub 1000 ''n'') demo_store = (Inr (), demo_store)"
    by (simp add: limited_def check_invoice_create_per_npub_def inmem_sliding_check_def demo_store_def)
  have no_ln: "\<not> inv_accept_ln demo_issued"
    by (simp add: demo_issued_def invoice_of_new_def wallet_invoice_def demo_issue_signed_def demo_issue_def)
  have stored: "serve_invoice demo_invoices ?q demo_store = demo_store\<lparr>sv_ledger := l\<rparr>"
    using l signed limit no_ln
    by (simp add: create_invoice_inner_def andThen_def demo_gate demo_valid fields text_or_empty_def handler_defs demo_price
        demo_creation_def store_invoice_def)
  moreover have new: "demo_issued \<in> set (is_invoices l)" using inserted(2)[OF l] by simp
  moreover have "row_key demo_issued \<notin> row_keys (sv_ledger demo_store)" "inv_origin demo_issued = ''wallet''"
    "inv_npub_owner demo_issued = ''n''" "unique_ids (sv_ledger demo_store)"
    by (simp_all add: row_keys_def row_key_def demo_store_def demo_shop_def demo_issued_def invoice_of_new_def demo_unpaid_def
        wallet_invoice_def demo_issue_signed_def demo_issue_def unique_ids_def)
  ultimately show ?thesis
    using wallet_invoices_are_signed[of demo_store demo_issued demo_invoices "[?q]"] by auto
qed

text \<open>A sale on bob's page, with Boltz up and with Boltz down.\<close>

definition demo_opts :: checkout_options where
  "demo_opts = \<lparr>co_terminal_id = None, co_memo = None\<rparr>"

definition demo_down :: "(ip_addr, string, string, string, string, string, string) invoice_env" where
  "demo_down = demo_invoices\<lparr>ie_boltz := demo_boltz\<lparr>bz_post_reverse := (\<lambda>q. Inl ''down'')\<rparr>\<rparr>"

lemma demo_down_fields: "ie_gates demo_down = ie_gates demo_invoices" "ie_descriptors demo_down = ie_descriptors demo_invoices"
  by (simp_all add: demo_down_def)

lemma demo_price_down: "parse_create_request demo_down rq reply demo_sale s = (Inr (500, None), s)"
  "parse_create_request demo_invoices rq reply demo_sale s = (Inr (500, None), s)"
proof -
  have "min_sat demo_down = 1" "max_sat demo_down = 9000"
    using demo_limit_sat by (simp_all add: min_sat_def max_sat_def demo_down_def)
  then show "parse_create_request demo_down rq reply demo_sale s = (Inr (500, None), s)"
    by (simp add: parse_create_request_def andThen_def handler_defs sat_amount_def demo_sale_def)
qed (rule demo_price, simp_all add: demo_sale_def)

lemma demo_owner: "checkout_owner ''bob'' None demo_store = (Inr demo_account, demo_store)"
  by (simp add: checkout_owner_def andThen_def handler_defs get_donation_page_by_nym_def get_active_user_by_nym_def
      select_one_def demo_store_def demo_page_def dp_is_archived_def demo_shop_def demo_service_def demo_account_def)

lemma demo_address:
  assumes "ie_descriptors env = ie_descriptors demo_invoices"
  shows "\<exists>p. allocate_checkout_address env ''bob'' None demo_account demo_store
      = (Inr (''p0'', ''p''), demo_store\<lparr>sv_pos := p\<rparr>)"
proof -
  have pages: "select_one (\<lambda>p. dp_nym p = ''bob'' \<and> dp_archived_at p = None \<and> dp_ct_descriptor p \<noteq> None)
      (po_pages (sv_pos demo_store)) = Some demo_page"
    by (simp add: select_one_def demo_store_def demo_page_def)
  have "derive_for env ''p'' 0 = Inr ''p0''"
    using assms by (simp add: derive_for_def derive_address_def demo_invoices_def demo_descriptors_def show_nat.simps[of 0]
        char_of_eq_iff)
  moreover have hundred: "(100::nat) = Suc 99" by simp
  ultimately have "alloc_loop (derive_for env) (liquid_in_use (is_addresses (sv_ledger demo_store))) ''p'' 100 0
      = AllocFound ''p0'' 0"
    unfolding hundred alloc_loop.simps by (simp add: liquid_in_use_def demo_store_def demo_shop_def row_exists_def)
  then show ?thesis
    using pages
    by (auto simp: allocate_checkout_address_def andThen_def allocate_for_page_def allocate_next_liquid_for_donation_page_def
        handler_defs demo_page_def)
qed

abbreviation "demo_bill \<equiv> checkout_invoice ''bob'' demo_account demo_opts 500 None ''p0'' ''p0''"

lemma demo_billed: "\<exists>l. insert_invoice 1000 8 demo_bill (sv_ledger demo_store) = Inr (invoice_of_new 1000 8 demo_bill, l)"
  by (simp add: insert_invoice_def Let_def invoice_checks_def invoice_of_new_def checkout_invoice_def demo_store_def
      demo_shop_def demo_unpaid_def row_exists_def reserve_address_def i64_max_def demo_opts_def)

lemma demo_blinding: "derive_blinding_key_hex (ie_descriptors demo_invoices) ''p'' ''p0'' = Inr ''p0''"
  by (simp add: derive_blinding_key_hex_def demo_invoices_def demo_descriptors_def)

lemma demo_bob: "row_exists (\<lambda>u. u_nym u = ''bob'') (us_users (sv_users demo_store))"
  by (simp add: row_exists_def demo_store_def demo_shop_def demo_service_def demo_account_def)

lemma demo_lightning:
  assumes "row_exists (\<lambda>u. u_nym u = ''bob'') (us_users (sv_users s))" "sv_swaps s = []"
  shows "\<exists>s'. create_lightning_offer demo_invoices (demo_request None) 9 (Some ''bob'') n i s = (Inr ''lnbc'', s')"
proof -
  have "bz_derive_swapkey (ie_boltz demo_invoices) k = Inr (replicate 64 CHR ''a'')"
    "bz_post_reverse (ie_boltz demo_invoices) q = Inr \<lparr>rr_id = ''swap'', rr_invoice = Some ''lnbc'', rr_json = Inr ''{}''\<rparr>"
    for k q by (simp_all add: demo_boltz_def demo_invoices_def)
  then show ?thesis
    using assms
    by (simp add: andThen_def handler_defs create_lightning_offer_def take_key_index_def next_swap_key_index_def Let_def
        create_reverse_swap_def store_swap_def record_swap_def lightning_offer_record_def row_exists_def touch_callback_def)
qed

lemma demo_lightning_down:
  "\<exists>e s'. create_lightning_offer demo_down (demo_request None) 9 (Some ''bob'') n i s = (Inl e, s')"
proof -
  have "bz_derive_swapkey (ie_boltz demo_down) k = Inr (replicate 64 CHR ''a'')"
    "bz_post_reverse (ie_boltz demo_down) q = Inl ''down''" for k q by (simp_all add: demo_boltz_def demo_down_def)
  then show ?thesis
    by (simp add: andThen_def handler_defs create_lightning_offer_def take_key_index_def next_swap_key_index_def Let_def
        create_reverse_swap_def)
qed

lemma attempt_some: "\<exists>r s'. attempt m s = (Inr r, s')"
  by (simp add: attempt_def split: prod.split)

lemma demo_sold: "\<exists>resp s'. create_checkout_invoice_inner demo_invoices (demo_request None) demo_creation ''bob'' demo_sale
    demo_opts demo_store = (Inr resp, s')"
proof -
  obtain p where p: "allocate_checkout_address demo_invoices ''bob'' None demo_account demo_store
      = (Inr (''p0'', ''p''), demo_store\<lparr>sv_pos := p\<rparr>)" using demo_address by blast
  obtain l where l: "insert_invoice 1000 8 demo_bill (sv_ledger demo_store) = Inr (invoice_of_new 1000 8 demo_bill, l)"
    using demo_billed by blast
  let ?s = "demo_store\<lparr>sv_pos := p, sv_ledger := l\<rparr>" and ?i = "invoice_of_new 1000 8 demo_bill"
  obtain t where t: "create_lightning_offer demo_invoices (demo_request None) 9 (Some ''bob'') 500 ?i ?s = (Inr ''lnbc'', t)"
    using demo_lightning[of ?s 500 ?i] demo_bob by (auto simp: demo_store_def demo_shop_def)
  let ?chain = "attempt (create_bitcoin_chain_offer demo_invoices (demo_request None) 10 (Some ''bob'') 500 ?i)
      :: (service, app_error, app_error + bitcoin_chain_offer option) handler"
  obtain c u where c: "?chain t = (Inr c, u)" using attempt_some[of _ t] by meson
  show ?thesis
    using p l t c demo_blinding
    by (simp add: create_checkout_invoice_inner_def andThen_def demo_gate demo_price_down demo_owner handler_defs
        store_invoice_def eager_lightning_offer_def attempt_def demo_creation_def demo_opts_def Let_def split: prod.split)
qed

lemma checkout_settles_to_the_page_owner_witness:
  "\<exists>resp s'. create_checkout_invoice_inner demo_invoices (demo_request None) demo_creation ''bob'' demo_sale demo_opts
      demo_store = (Inr resp, s') \<and> checkout_settles demo_invoices (Some ''p'') demo_account resp s'"
proof -
  obtain resp s' where sold: "create_checkout_invoice_inner demo_invoices (demo_request None) demo_creation ''bob'' demo_sale
      demo_opts demo_store = (Inr resp, s')" using demo_sold by blast
  have "distinct (map dp_nym (po_pages (sv_pos demo_store)))"
    "get_donation_page_by_nym ''bob'' (po_pages (sv_pos demo_store)) = Some demo_page"
    "get_active_user_by_nym ''bob'' (us_users (sv_users demo_store)) = Some demo_account"
    by (simp_all add: demo_store_def get_donation_page_by_nym_def get_active_user_by_nym_def select_one_def demo_page_def
        demo_shop_def demo_service_def demo_account_def)
  from checkout_settles_to_the_page_owner[OF sold this] sold show ?thesis
    by (auto simp: fund_descriptor_def demo_opts_def demo_page_def)
qed


end
