(* ===== verification/PosApi.thy ===== *)
theory PosApi
  imports WalletInvoices "HOL-Library.Word"
begin

text \<open>
  The POS endpoints (src/src/pos.rs): pairing a terminal, claiming and polling the
  pairing, the sales of a terminal, and the merchant's list and revocation of
  terminals.  A sale is the checkout of theory InvoiceApi with a terminal.
\<close>

unbundle bit_operations_syntax

record ('net, 'd, 'ba, 'la, 'bk, 'xk, 'xs) pos_env =
  px_invoices :: "('net, 'd, 'ba, 'la, 'bk, 'xk, 'xs) invoice_env"
  px_max_descriptor_len :: nat

abbreviation px_gates :: "('net, 'd, 'ba, 'la, 'bk, 'xk, 'xs) pos_env \<Rightarrow> 'net gates" where
  "px_gates env \<equiv> ie_gates (px_invoices env)"

abbreviation px_signing :: "('net, 'd, 'ba, 'la, 'bk, 'xk, 'xs) pos_env \<Rightarrow> ('xk, 'xs) sig_scheme" where
  "px_signing env \<equiv> ie_signing (px_invoices env)"

abbreviation px_sha256_hex :: "('net, 'd, 'ba, 'la, 'bk, 'xk, 'xs) pos_env \<Rightarrow> string \<Rightarrow> string" where
  "px_sha256_hex env \<equiv> ie_sha256_hex (px_invoices env)"

definition pos_action_pair :: string where "pos_action_pair = ''pos-pair''"
definition pos_action_terminal_list :: string where "pos_action_terminal_list = ''pos-terminal-list''"
definition pos_action_terminal_revoke :: string where "pos_action_terminal_revoke = ''pos-terminal-revoke''"
definition pairing_code_alphabet :: string where
  "pairing_code_alphabet = ''ABCDEFGHJKLMNPQRSTUVWXYZ23456789''"
definition pairing_code_len :: nat where "pairing_code_len = 8"
definition pairing_expires_secs :: int where "pairing_expires_secs = 5 * 60"

subsection \<open>Helpers\<close>

text \<open>The random bytes come with the request.\<close>
definition generate_pairing_code :: "8 word list \<Rightarrow> string" where
  "generate_pairing_code bytes = map (\<lambda>b. pairing_code_alphabet ! unat (b AND 31)) (take pairing_code_len bytes)"

definition pairing_not_found :: "string \<Rightarrow> app_error" where
  "pairing_not_found nym = DonationPageNotFound nym"

definition validate_label :: "string option \<Rightarrow> app_error + string option" where
  "validate_label label =
    (case label of
       None \<Rightarrow> Inr None
     | Some l \<Rightarrow>
         if has_control l then Inl (InvalidAmount ''label must not contain control characters'')
         else if 100 < char_count l then Inl (InvalidAmount ''label too long (max 100 chars)'')
         else if l = [] then Inr None
         else Inr (Some l))"

definition validate_list_query :: "int \<Rightarrow> int \<Rightarrow> string option \<Rightarrow> app_error + int \<times> int \<times> string option" where
  "validate_list_query page page_size status =
    (if page < 1 then Inl (InvalidAmount ''page must be >= 1'')
     else if 1000 < page then Inl (InvalidAmount ''page must be <= 1000'')
     else if page_size < 1 then Inl (InvalidAmount ''pageSize must be >= 1'')
     else map_sum id (\<lambda>f. (page, min page_size 100, f)) (status_filter status))"

text \<open>The whitelist alone lifts the POS limits; certification does not.\<close>
definition pos_subject :: "'net gates \<Rightarrow> request \<Rightarrow> ip_addr option" where
  "pos_subject g rq =
    (case request_ip g rq of None \<Rightarrow> None | Some ip \<Rightarrow> if whitelisted g ip then None else Some ip)"

datatype pos_rate_bucket = Create | Poll

fun pos_axis :: "pos_rate_bucket \<Rightarrow> int \<Rightarrow> ip_addr \<Rightarrow> limiter \<Rightarrow> (app_error + unit) \<times> limiter" where
  "pos_axis Create = check_pos_pairing_create_per_source"
| "pos_axis Poll = check_pos_pairing_poll_per_source"

definition check_ip_rate_limit ::
  "'net gates \<Rightarrow> request \<Rightarrow> pos_rate_bucket \<Rightarrow> (service, app_error, unit) handler" where
  "check_ip_rate_limit g rq bucket =
    (case pos_subject g rq of None \<Rightarrow> pure () | Some ip \<Rightarrow> limited (pos_axis bucket (rq_now rq) ip))"

text \<open>An archived page blocks POS; a nym without a page does not.\<close>
definition page_not_archived :: "string \<Rightarrow> app_error \<Rightarrow> (service, app_error, unit) handler" where
  "page_not_archived nym e =
    andThen (gets (\<lambda>s. get_donation_page_by_nym nym (po_pages (sv_pos s)))) (\<lambda>p.
      case p of None \<Rightarrow> pure () | Some page \<Rightarrow> require (\<not> dp_is_archived page) e)"

subsection \<open>Pairing\<close>

record create_pairing_response =
  cr_pairing_id :: uuid
  cr_code :: string
  cr_expires_at_unix :: int

definition insert_pairing ::
  "request \<Rightarrow> string \<Rightarrow> string \<Rightarrow> string \<Rightarrow> (service, app_error, pos_terminal) handler" where
  "insert_pairing rq nym token_hash code_hash = (\<lambda>s.
    case insert_pos_pairing (rq_now rq) (rq_fresh_id rq) (us_users (sv_users s)) nym token_hash code_hash
           pairing_expires_secs (po_terminals (sv_pos s)) of
      Inl e \<Rightarrow> (Inl (from_sqlx e), s)
    | Inr (t, ts) \<Rightarrow> (Inr t, s\<lparr>sv_pos := (sv_pos s)\<lparr>po_terminals := ts\<rparr>\<rparr>))"

definition create_pairing ::
  "('net, 'd, 'ba, 'la, 'bk, 'xk, 'xs) pos_env \<Rightarrow> request \<Rightarrow> 8 word list \<Rightarrow> string \<Rightarrow> string
    \<Rightarrow> (service, app_error, create_pairing_response) handler" where
  "create_pairing env rq bytes nym token_hash =
    andThen (require (is_lower_hex64 token_hash) (InvalidAmount ''token_hash must be 64 lowercase hex chars'')) (\<lambda>_.
    andThen (check_ip_rate_limit (px_gates env) rq Create) (\<lambda>_.
    andThen (gets (\<lambda>s. get_active_user_by_nym nym (us_users (sv_users s)))) (\<lambda>u.
    andThen (some_or (DonationPageNotFound nym) u) (\<lambda>user.
    andThen (page_not_archived nym (DonationPageNotFound nym)) (\<lambda>_.
    let code = generate_pairing_code bytes in
    andThen (insert_pairing rq (u_nym user) token_hash (px_sha256_hex env code)) (\<lambda>row. pure
      \<lparr>cr_pairing_id = pt_id row, cr_code = code, cr_expires_at_unix = epoch (pt_pairing_expires_at row)\<rparr>))))))"

record claim_pairing_request =
  kp_npub :: string
  kp_nym :: string
  kp_code :: string
  kp_label :: "string option"
  kp_pos_ct_descriptor :: string
  kp_timestamp :: nat
  kp_signature :: string

record claim_pairing_response =
  cl_terminal_id :: uuid
  cl_nym :: string
  cl_label :: "string option"
  cl_claimed_at_unix :: int

definition claim_failure_gate ::
  "'net gates \<Rightarrow> request \<Rightarrow> (service, app_error, unit) handler" where
  "claim_failure_gate g rq =
    (case pos_subject g rq of
       None \<Rightarrow> pure ()
     | Some ip \<Rightarrow> limited (check_pos_pairing_claim_failure_per_source (rq_now rq) ip))"

definition record_pairing_failure :: "'net gates \<Rightarrow> request \<Rightarrow> (service, app_error, unit) handler" where
  "record_pairing_failure g rq =
    (case pos_subject g rq of
       None \<Rightarrow> pure ()
     | Some ip \<Rightarrow> modifies (\<lambda>s. s\<lparr>sv_limiter :=
         record_pos_pairing_claim_failure_per_source (rq_now rq) ip (sv_limiter s)\<rparr>))"

text \<open>The database claim, with the mismatch of the pinned descriptor told apart.\<close>
definition claim_row ::
  "request \<Rightarrow> string \<Rightarrow> string \<Rightarrow> string \<Rightarrow> string option \<Rightarrow> string
    \<Rightarrow> (service, app_error, pos_terminal option) handler" where
  "claim_row rq nym code_hash npub label descriptor = (\<lambda>s.
    case claim_pos_pairing (rq_now rq) nym code_hash npub label descriptor (sv_pos s) of
      Inl e \<Rightarrow> (Inl (case e of
          ProtocolError msg \<Rightarrow>
            if str_contains ''POS descriptor mismatch'' msg then PosDescriptorMismatch nym else from_sqlx e
        | _ \<Rightarrow> from_sqlx e), s)
    | Inr (row, p) \<Rightarrow> (Inr row, s\<lparr>sv_pos := p\<rparr>))"

definition claim_payload :: "claim_pairing_request \<Rightarrow> string list" where
  "claim_payload r = [kp_code r, text_or_empty (kp_label r), kp_pos_ct_descriptor r]"

text \<open>The claim proper, between the look at the failures of the source and the record of one more.\<close>
definition claim_checked ::
  "('net, 'd, 'ba, 'la, 'bk, 'xk, 'xs) pos_env \<Rightarrow> request \<Rightarrow> claim_pairing_request
    \<Rightarrow> (service, app_error, pos_terminal option) handler" where
  "claim_checked env rq r =
    andThen (result (verify_la_v2 (px_signing env) (rq_unix rq) pos_action_pair (kp_npub r) (kp_nym r)
      (claim_payload r) (kp_timestamp r) (kp_signature r))) (\<lambda>_.
    andThen (require (kp_pos_ct_descriptor r \<noteq> []) (InvalidDescriptor ''POS descriptor is required'')) (\<lambda>_.
    andThen (result (validate_descriptor (ie_descriptors (px_invoices env)) (kp_pos_ct_descriptor r)
      (px_max_descriptor_len env))) (\<lambda>_.
    andThen (assert_nym_owner (kp_nym r) (kp_npub r)) (\<lambda>_.
    andThen (page_not_archived (kp_nym r) (pairing_not_found (kp_nym r))) (\<lambda>_.
    andThen (result (validate_label (kp_label r))) (\<lambda>label.
      claim_row rq (kp_nym r) (px_sha256_hex env (kp_code r)) (kp_npub r) label (kp_pos_ct_descriptor r)))))))"

definition claim_answer ::
  "('net, 'd, 'ba, 'la, 'bk, 'xk, 'xs) pos_env \<Rightarrow> request \<Rightarrow> claim_pairing_request \<Rightarrow> pos_terminal option
    \<Rightarrow> (service, app_error, claim_pairing_response) handler" where
  "claim_answer env rq r claimed =
    (case claimed of
        None \<Rightarrow> andThen (record_pairing_failure (px_gates env) rq) (\<lambda>_. fail (pairing_not_found (kp_nym r)))
      | Some row \<Rightarrow> pure
          \<lparr>cl_terminal_id = pt_id row, cl_nym = pt_nym row, cl_label = pt_label row,
           cl_claimed_at_unix = (case pt_claimed_at row of None \<Rightarrow> 0 | Some t \<Rightarrow> epoch t)\<rparr>)"

text \<open>One claim with nothing in between; theory PairingProperties interleaves the three parts of many.\<close>
definition claim_pairing ::
  "('net, 'd, 'ba, 'la, 'bk, 'xk, 'xs) pos_env \<Rightarrow> request \<Rightarrow> claim_pairing_request
    \<Rightarrow> (service, app_error, claim_pairing_response) handler" where
  "claim_pairing env rq r =
    andThen (claim_failure_gate (px_gates env) rq) (\<lambda>_.
    andThen (claim_checked env rq r) (\<lambda>claimed. claim_answer env rq r claimed))"

record poll_pairing_response =
  pp_status :: string
  pp_terminal_id :: "uuid option"

definition poll_pairing ::
  "('net, 'd, 'ba, 'la, 'bk, 'xk, 'xs) pos_env \<Rightarrow> request \<Rightarrow> string \<Rightarrow> uuid \<Rightarrow> string option
    \<Rightarrow> (service, app_error, poll_pairing_response) handler" where
  "poll_pairing env rq nym tid token =
    andThen (check_ip_rate_limit (px_gates env) rq Poll) (\<lambda>_.
    andThen (some_or (pairing_not_found nym)
      (case token of None \<Rightarrow> None | Some h \<Rightarrow> if is_lower_hex64 h then Some h else None)) (\<lambda>token_hash.
    andThen (gets (\<lambda>s. get_pos_pairing tid token_hash (po_terminals (sv_pos s)))) (\<lambda>t.
    andThen (some_or (pairing_not_found nym) t) (\<lambda>row.
    andThen (require (pt_nym row = nym) (pairing_not_found nym)) (\<lambda>_. pure
      (if terminal_claimed row then \<lparr>pp_status = ''approved'', pp_terminal_id = Some (pt_id row)\<rparr>
       else if epoch (pt_pairing_expires_at row) \<le> int (rq_unix rq)
         then \<lparr>pp_status = ''expired'', pp_terminal_id = None\<rparr>
       else \<lparr>pp_status = ''pending'', pp_terminal_id = None\<rparr>))))))"

subsection \<open>Terminals\<close>

definition bearer_prefix :: string where "bearer_prefix = ''Bearer ''"

definition bearer_token :: "(string \<Rightarrow> string option) \<Rightarrow> string option" where
  "bearer_token headers =
    (case headers ''authorization'' of
       None \<Rightarrow> None
     | Some raw \<Rightarrow>
         if starts_with bearer_prefix raw \<and> drop (length bearer_prefix) raw \<noteq> []
         then Some (drop (length bearer_prefix) raw) else None)"

definition authenticate_terminal ::
  "('net, 'd, 'ba, 'la, 'bk, 'xk, 'xs) pos_env \<Rightarrow> request \<Rightarrow> string \<Rightarrow> (service, app_error, pos_terminal) handler" where
  "authenticate_terminal env rq nym =
    andThen (some_or (AuthError ''missing bearer token'') (bearer_token (rq_headers rq))) (\<lambda>token.
    andThen (gets (\<lambda>s. get_active_terminal_by_token nym (px_sha256_hex env token) (po_terminals (sv_pos s)))) (\<lambda>t.
    andThen (some_or (AuthError ''invalid terminal token'') t) (\<lambda>terminal.
    andThen (modifies (\<lambda>s. s\<lparr>sv_pos := (sv_pos s)\<lparr>po_terminals :=
      fst (touch_terminal_seen (rq_now rq) (pt_id terminal) (po_terminals (sv_pos s)))\<rparr>\<rparr>)) (\<lambda>_. pure terminal))))"

record create_terminal_invoice_request =
  ct_amount_sat :: "int option"
  ct_fiat_amount_minor :: "int option"
  ct_fiat_currency :: "string option"
  ct_memo :: "string option"

definition create_terminal_invoice ::
  "('net, 'd, 'ba, 'la, 'bk, 'xk, 'xs) pos_env \<Rightarrow> request \<Rightarrow> creation_inputs \<Rightarrow> string \<Rightarrow> create_terminal_invoice_request
    \<Rightarrow> (service, app_error, create_invoice_response) handler" where
  "create_terminal_invoice env rq fresh nym r =
    andThen (authenticate_terminal env rq nym) (\<lambda>terminal.
    andThen (limited (check_pos_invoice_create_per_terminal (rq_now rq) (pt_id terminal))) (\<lambda>_.
    andThen (result (validate_pos_memo (ct_memo r))) (\<lambda>memo.
      create_checkout_invoice_inner (px_invoices env) rq fresh nym
        \<lparr>ca_amount_sat = ct_amount_sat r, ca_fiat_amount_minor = ct_fiat_amount_minor r,
         ca_fiat_currency = ct_fiat_currency r\<rparr>
        \<lparr>co_terminal_id = Some (pt_id terminal), co_memo = memo\<rparr>)))"

record pos_invoice_list_item =
  pi_id :: uuid
  pi_status :: invoice_status
  pi_pricing_mode :: pricing_mode
  pi_settlement_status :: settlement_status
  pi_amount_sat :: sat
  pi_remaining_amount_sat :: sat
  pi_fiat_amount_minor :: "int option"
  pi_fiat_currency :: "string option"
  pi_memo :: "string option"
  pi_terminal_id :: "uuid option"
  pi_accept_btc :: bool
  pi_accept_ln :: bool
  pi_accept_liquid :: bool
  pi_bitcoin_address :: "string option"
  pi_liquid_address :: "string option"
  pi_created_at_unix :: int
  pi_expires_at_unix :: int
  pi_paid_via :: "string option"
  pi_paid_at_unix :: "int option"
  pi_paid_amount_sat :: "sat option"

definition pos_list_item :: "invoice \<Rightarrow> pos_invoice_list_item" where
  "pos_list_item i =
    \<lparr>pi_id = inv_id i, pi_status = inv_status i, pi_pricing_mode = inv_pricing_mode i,
     pi_settlement_status = inv_settlement_status i, pi_amount_sat = inv_amount_sat i,
     pi_remaining_amount_sat = remaining_amount_sat i, pi_fiat_amount_minor = inv_fiat_amount_minor i,
     pi_fiat_currency = inv_fiat_currency i, pi_memo = inv_memo i, pi_terminal_id = inv_terminal_id i,
     pi_accept_btc = inv_accept_btc i, pi_accept_ln = inv_accept_ln i, pi_accept_liquid = inv_accept_liquid i,
     pi_bitcoin_address = inv_bitcoin_address i, pi_liquid_address = inv_liquid_address i,
     pi_created_at_unix = epoch (inv_created_at i), pi_expires_at_unix = epoch (inv_expires_at i),
     pi_paid_via = inv_paid_via i, pi_paid_at_unix = map_option epoch (inv_paid_at i),
     pi_paid_amount_sat = inv_paid_amount_sat i\<rparr>"

record pos_invoices_response =
  pl_invoices :: "pos_invoice_list_item list"
  pl_page :: int
  pl_page_size :: int
  pl_has_more :: bool

definition list_terminal_invoices ::
  "('net, 'd, 'ba, 'la, 'bk, 'xk, 'xs) pos_env \<Rightarrow> request \<Rightarrow> string \<Rightarrow> int \<Rightarrow> int \<Rightarrow> string option
    \<Rightarrow> (service, app_error, pos_invoices_response) handler" where
  "list_terminal_invoices env rq nym page0 page_size0 status =
    andThen (authenticate_terminal env rq nym) (\<lambda>_.
    andThen (result (validate_list_query page0 page_size0 status)) (\<lambda>(page, page_size, filter_by).
    andThen (gets (\<lambda>s. list_pos_invoices_by_nym nym filter_by page page_size (is_invoices (sv_ledger s)))) (\<lambda>rows. pure
      \<lparr>pl_invoices = map pos_list_item rows, pl_page = page, pl_page_size = page_size,
       pl_has_more = page_size \<le> int (length rows)\<rparr>)))"

text \<open>The row is updated before its final status is looked at.\<close>
definition cancel_terminal_invoice ::
  "('net, 'd, 'ba, 'la, 'bk, 'xk, 'xs) pos_env \<Rightarrow> request \<Rightarrow> string \<Rightarrow> uuid
    \<Rightarrow> (service, app_error, uuid \<times> string) handler" where
  "cancel_terminal_invoice env rq nym iid =
    andThen (authenticate_terminal env rq nym) (\<lambda>_.
    andThen (load_invoice (uuid_text iid) iid) (\<lambda>i.
    andThen (require (inv_nym_owner i = Some nym \<and> inv_terminal_id i \<noteq> None) (InvoiceNotFound (uuid_text iid))) (\<lambda>_.
    andThen (cancel_row rq iid) (\<lambda>final_status.
    andThen (require (final_status \<notin> {''in_progress'', ''partially_paid'', ''paid'', ''underpaid'', ''overpaid''})
      InvoicePaymentAlreadyDetected) (\<lambda>_. pure (iid, final_status))))))"

record terminal_action_request =
  ta_npub :: string
  ta_timestamp :: nat
  ta_signature :: string

record terminal_item =
  ti_id :: uuid
  ti_nym :: string
  ti_label :: "string option"
  ti_claimed_at_unix :: "int option"
  ti_last_seen_at_unix :: "int option"
  ti_revoked_at_unix :: "int option"
  ti_created_at_unix :: int

definition terminal_item_of :: "pos_terminal \<Rightarrow> terminal_item" where
  "terminal_item_of row =
    \<lparr>ti_id = pt_id row, ti_nym = pt_nym row, ti_label = pt_label row,
     ti_claimed_at_unix = map_option epoch (pt_claimed_at row),
     ti_last_seen_at_unix = map_option epoch (pt_last_seen_at row),
     ti_revoked_at_unix = map_option epoch (pt_revoked_at row), ti_created_at_unix = epoch (pt_created_at row)\<rparr>"

definition list_terminals ::
  "('net, 'd, 'ba, 'la, 'bk, 'xk, 'xs) pos_env \<Rightarrow> request \<Rightarrow> terminal_action_request
    \<Rightarrow> (service, app_error, terminal_item list) handler" where
  "list_terminals env rq r =
    andThen (result (verify_la_v2 (px_signing env) (rq_unix rq) pos_action_terminal_list (ta_npub r) [] []
      (ta_timestamp r) (ta_signature r))) (\<lambda>_.
    gets (\<lambda>s. map terminal_item_of (list_terminals_by_npub (ta_npub r) (po_terminals (sv_pos s)))))"

text \<open>The UPDATE and its row count.\<close>
definition revoke_row :: "request \<Rightarrow> uuid \<Rightarrow> string \<Rightarrow> (service, app_error, nat) handler" where
  "revoke_row rq tid npub = (\<lambda>s.
    case revoke_terminal (rq_now rq) tid npub (po_terminals (sv_pos s)) of
      (ts, n) \<Rightarrow> (Inr n, s\<lparr>sv_pos := (sv_pos s)\<lparr>po_terminals := ts\<rparr>\<rparr>))"

definition revoke_terminal_endpoint ::
  "('net, 'd, 'ba, 'la, 'bk, 'xk, 'xs) pos_env \<Rightarrow> request \<Rightarrow> uuid \<Rightarrow> terminal_action_request
    \<Rightarrow> (service, app_error, uuid \<times> bool) handler" where
  "revoke_terminal_endpoint env rq tid r =
    andThen (result (verify_la_v2 (px_signing env) (rq_unix rq) pos_action_terminal_revoke (ta_npub r) []
      [uuid_text tid] (ta_timestamp r) (ta_signature r))) (\<lambda>_.
    andThen (revoke_row rq tid (ta_npub r)) (\<lambda>rows.
    andThen (require (rows \<noteq> 0) (TerminalNotFound (uuid_text tid))) (\<lambda>_. pure (tid, True))))"

end
