(* ===== verification/PosApiProperties.thy ===== *)
theory PosApiProperties
  imports PosApi CheckoutProperties
begin

text \<open>
  What the POS endpoints promise over runs of requests: they move the terminal and page
  tables by the steps of theory PosTerminals and the ledger by the steps of theory
  InvoiceProperties, only the merchant's wallet claims a terminal, only a live token
  makes or cancels sales, and only an invoice's owner or a live terminal cancels it.
\<close>

subsection \<open>Requests\<close>

datatype pos_request =
    Post_pairing "8 word list" string string
  | Post_claim claim_pairing_request
  | Get_pairing string uuid "string option"
  | Post_sale creation_inputs string create_terminal_invoice_request
  | Get_sales string int int "string option"
  | Delete_sale string uuid
  | Get_terminals terminal_action_request
  | Delete_terminal uuid terminal_action_request

fun serve_pos ::
  "('net, 'd, 'ba, 'la, 'bk, 'xk, 'xs) pos_env \<Rightarrow> request \<times> pos_request \<Rightarrow> service \<Rightarrow> service" where
  "serve_pos env (rq, Post_pairing bytes nym tok) s = snd (create_pairing env rq bytes nym tok s)"
| "serve_pos env (rq, Post_claim r) s = snd (claim_pairing env rq r s)"
| "serve_pos env (rq, Get_pairing nym tid tok) s = snd (poll_pairing env rq nym tid tok s)"
| "serve_pos env (rq, Post_sale fresh nym r) s = snd (create_terminal_invoice env rq fresh nym r s)"
| "serve_pos env (rq, Get_sales nym p n f) s = snd (list_terminal_invoices env rq nym p n f s)"
| "serve_pos env (rq, Delete_sale nym iid) s = snd (cancel_terminal_invoice env rq nym iid s)"
| "serve_pos env (rq, Get_terminals r) s = snd (list_terminals env rq r s)"
| "serve_pos env (rq, Delete_terminal tid r) s = snd (revoke_terminal_endpoint env rq tid r s)"

text \<open>A claim as one chain of steps.\<close>
lemma andThen_assoc: "andThen (andThen m f) g = andThen m (\<lambda>a. andThen (f a) g)"
  by (rule ext) (simp add: andThen_def split: prod.split sum.split)

lemma claim_pairing_flat: "claim_pairing env rq r =
    andThen (claim_failure_gate (px_gates env) rq) (\<lambda>_.
    andThen (result (verify_la_v2 (px_signing env) (rq_unix rq) pos_action_pair (kp_npub r) (kp_nym r)
      (claim_payload r) (kp_timestamp r) (kp_signature r))) (\<lambda>_.
    andThen (require (kp_pos_ct_descriptor r \<noteq> []) (InvalidDescriptor ''POS descriptor is required'')) (\<lambda>_.
    andThen (result (validate_descriptor (ie_descriptors (px_invoices env)) (kp_pos_ct_descriptor r)
      (px_max_descriptor_len env))) (\<lambda>_.
    andThen (assert_nym_owner (kp_nym r) (kp_npub r)) (\<lambda>_.
    andThen (page_not_archived (kp_nym r) (pairing_not_found (kp_nym r))) (\<lambda>_.
    andThen (result (validate_label (kp_label r))) (\<lambda>label.
    andThen (claim_row rq (kp_nym r) (px_sha256_hex env (kp_code r)) (kp_npub r) label (kp_pos_ct_descriptor r)) (\<lambda>claimed.
      case claimed of
        None \<Rightarrow> andThen (record_pairing_failure (px_gates env) rq) (\<lambda>_. fail (pairing_not_found (kp_nym r)))
      | Some row \<Rightarrow> pure
          \<lparr>cl_terminal_id = pt_id row, cl_nym = pt_nym row, cl_label = pt_label row,
           cl_claimed_at_unix = (case pt_claimed_at row of None \<Rightarrow> 0 | Some t \<Rightarrow> epoch t)\<rparr>))))))))"
  by (simp add: claim_pairing_def claim_checked_def claim_answer_def andThen_assoc)

subsection \<open>How POS requests move the tables\<close>

text \<open>A terminal once claimed, and for whom.\<close>
definition claim_key :: "pos_terminal \<Rightarrow> uuid \<times> string \<times> string option" where
  "claim_key t = (pt_id t, pt_nym t, pt_npub_owner t)"

definition claims_of :: "pos_store \<Rightarrow> (uuid \<times> string \<times> string option) set" where
  "claims_of p = claim_key ` {t \<in> set (po_terminals p). terminal_claimed t}"

definition pos_effect :: "(uuid \<times> string \<times> string option \<Rightarrow> bool) \<Rightarrow> service \<Rightarrow> service \<Rightarrow> bool" where
  "pos_effect claimed s s' \<longleftrightarrow> pos_step\<^sup>*\<^sup>* (sv_pos s) (sv_pos s')
     \<and> claims_of (sv_pos s') \<subseteq> claims_of (sv_pos s) \<union> {k. claimed k}"

lemma pos_effect_same: "sv_pos s' = sv_pos s \<Longrightarrow> pos_effect claimed s s'"
  by (simp add: pos_effect_def)

interpretation pos_tables: swap_effect "pos_effect claimed" for claimed
proof unfold_locales
  fix s t u
  assume "pos_effect claimed s t" "pos_effect claimed t u"
  then show "pos_effect claimed s u"
    unfolding pos_effect_def by (blast intro: rtranclp_trans)
qed (auto intro: pos_effect_same)

lemma pos_effect_step:
  assumes "pos_step (sv_pos s) p"
    and "\<And>t. t \<in> set (po_terminals p) \<Longrightarrow> terminal_claimed t \<Longrightarrow>
      (\<exists>u\<in>set (po_terminals (sv_pos s)). terminal_claimed u \<and> claim_key u = claim_key t) \<or> claimed (claim_key t)"
  shows "pos_effect claimed s (s\<lparr>sv_pos := p\<rparr>)"
proof -
  have "claim_key t \<in> claims_of (sv_pos s) \<union> {k. claimed k}" if "t \<in> set (po_terminals p)" "terminal_claimed t" for t
    using assms(2)[OF that] unfolding claims_of_def by (metis (mono_tags, lifting) UnCI imageI mem_Collect_eq)
  then have "claims_of p \<subseteq> claims_of (sv_pos s) \<union> {k. claimed k}"
    unfolding claims_of_def[of p] by (intro image_subsetI) simp
  then show ?thesis using assms(1) by (simp add: pos_effect_def r_into_rtranclp)
qed

lemma pos_subject_gate:
  assumes "\<And>l s. R s (s\<lparr>sv_limiter := l\<rparr>)" "\<And>s. R s s"
  shows "changes R (check_ip_rate_limit g rq b)" "changes R (claim_failure_gate g rq)"
    "changes R (record_pairing_failure g rq)"
  using assms
  by (auto simp: check_ip_rate_limit_def claim_failure_gate_def record_pairing_failure_def changes_def limited_def pure_def
      modifies_def split: option.split prod.split)

text \<open>What a composed handler does from one given state.\<close>
context effect
begin

lemma at_andThen:
  assumes "R s (snd (m s))" "\<And>a s'. m s = (Inr a, s') \<Longrightarrow> R s' (snd (f a s'))"
  shows "R s (snd (andThen m f s))"
proof -
  obtain r s' where m: "m s = (r, s')" by fastforce
  then show ?thesis
    using assms trans[of s s'] by (cases r) (auto simp: andThen_def)
qed

end

context gate_effect
begin

lemma eff_pos_gates:
  "changes R (check_ip_rate_limit g rq b)" "changes R (claim_failure_gate g rq)" "changes R (record_pairing_failure g rq)"
  using pos_subject_gate[of R, OF limiter refl] by blast+

lemma eff_not_archived: "changes R (page_not_archived nym e)"
  unfolding page_not_archived_def by (auto intro!: eff split: option.split)

end

lemma run_pairing: "changes (pos_effect claimed) (create_pairing env rq bytes nym tok)"
proof -
  have "changes (pos_effect claimed) (insert_pairing rq nym tok code)" for nym code
    unfolding changes_def
  proof
    fix s
    show "pos_effect claimed s (snd (insert_pairing rq nym tok code s))"
    proof (cases "insert_pos_pairing (rq_now rq) (rq_fresh_id rq) (us_users (sv_users s)) nym tok code
        pairing_expires_secs (po_terminals (sv_pos s))")
      case (Inr p)
      obtain t ts where p: "p = (t, ts)" by fastforce
      have "ts = po_terminals (sv_pos s) @ [t]" "\<not> terminal_claimed t"
        using Inr p
        by (auto simp: insert_pos_pairing_def Let_def new_terminal_def terminal_claimed_def split: if_splits)
      then show ?thesis
        using ps_pair[OF Inr[unfolded p]] Inr p by (auto simp: insert_pairing_def intro!: pos_effect_step)
    qed (simp add: insert_pairing_def pos_tables.refl)
  qed
  then show ?thesis
    unfolding create_pairing_def Let_def
    by (intro pos_tables.eff pos_tables.eff_pos_gates pos_tables.eff_not_archived)
qed

text \<open>An update of terminals that leaves every claim as it is.\<close>
lemma update_claims:
  assumes "t \<in> set (fst (update_where P f ts))" "\<And>t. claim_key (f t) = claim_key t"
    "\<And>t. pt_claimed_at (f t) = pt_claimed_at t" "terminal_claimed t"
  shows "\<exists>u\<in>set ts. terminal_claimed u \<and> claim_key u = claim_key t"
  using assms by (fastforce simp: update_where_def terminal_claimed_def)

lemma run_authenticate: "changes (pos_effect claimed) (authenticate_terminal env rq nym)"
proof -
  have "pos_effect claimed s (s\<lparr>sv_pos := (sv_pos s)\<lparr>po_terminals := fst (touch_terminal_seen now tid
      (po_terminals (sv_pos s)))\<rparr>\<rparr>)" for s now tid
    by (rule pos_effect_step[OF ps_touch], rule disjI1, simp add: touch_terminal_seen_def, erule update_claims)
      (simp_all add: claim_key_def)
  then show ?thesis
    unfolding authenticate_terminal_def by (intro pos_tables.eff pos_tables.eff_modifies)
qed

lemma run_revoke: "changes (pos_effect claimed) (revoke_terminal_endpoint env rq tid r)"
proof -
  have "pos_effect claimed s (snd (revoke_row rq tid npub s))" for s npub
    unfolding revoke_row_def split_beta
    by (simp, rule pos_effect_step[OF ps_revoke], rule disjI1, simp add: revoke_terminal_def, erule update_claims)
      (simp_all add: claim_key_def)
  then have "changes (pos_effect claimed) (revoke_row rq tid npub)" for npub
    by (simp add: changes_def)
  then show ?thesis
    unfolding revoke_terminal_endpoint_def by (intro pos_tables.eff)
qed

text \<open>A terminal's sale takes its address from the POS cursor alone.\<close>
lemma run_pos_checkout:
  "changes (pos_effect claimed) (create_checkout_invoice_inner env rq fresh nym r \<lparr>co_terminal_id = Some t, co_memo = m\<rparr>)"
proof -
  have step: "pos_effect claimed s (s\<lparr>sv_pos := (sv_pos s)\<lparr>po_pages := ps\<rparr>\<rparr>)"
    if "allocate_next_liquid_for_pos_terminal derive nym pas (po_pages (sv_pos s)) = (x, ps)" for s derive pas x ps
    by (rule pos_effect_step[OF ps_allocate[OF that]]) auto
  have "changes (pos_effect claimed) (allocate_for_pos env nym)"
    by (auto simp: changes_def allocate_for_pos_def split: prod.split intro: step)
  then have alloc: "changes (pos_effect claimed) (allocate_checkout_address env nym (Some t) owner)" for owner
    unfolding allocate_checkout_address_def by (auto intro!: pos_tables.eff split: prod.split)
  have "changes (pos_effect claimed) (store_invoice rq fid n)" for fid n
    by (auto simp: changes_def store_invoice_def intro: pos_effect_same split: sum.split)
  moreover have "changes (pos_effect claimed) (discard_invoice iid)" for iid
    unfolding discard_invoice_def by (rule pos_tables.eff_modifies) (simp add: pos_effect_same split: prod.split)
  ultimately show ?thesis
    unfolding create_checkout_invoice_inner_def eager_lightning_offer_def Let_def
    by (auto intro!: pos_tables.eff pos_tables.eff_shared pos_tables.eff_lightning_offer pos_tables.eff_chain_offer alloc
        split: prod.split sum.split)
qed

subsection \<open>Claiming\<close>

text \<open>A claim signed by the key that owns the nym at that moment, for a pairing that waits for
  exactly this code.\<close>
definition claim_authorised ::
  "('net, 'd, 'ba, 'la, 'bk, 'xk, 'xs) pos_env \<Rightarrow> request \<Rightarrow> claim_pairing_request \<Rightarrow> service
    \<Rightarrow> uuid \<times> string \<times> string option \<Rightarrow> bool" where
  "claim_authorised env rq r s k \<longleftrightarrow> fst (snd k) = kp_nym r \<and> snd (snd k) = Some (kp_npub r)
     \<and> verify_la_v2 (px_signing env) (rq_unix rq) pos_action_pair (kp_npub r) (kp_nym r)
         [kp_code r, text_or_empty (kp_label r), kp_pos_ct_descriptor r] (kp_timestamp r) (kp_signature r) = Inr ()
     \<and> (\<exists>u. get_user_by_npub (kp_npub r) (us_users (sv_users s)) = Some u \<and> u_nym u = kp_nym r)
     \<and> (\<exists>t\<in>set (po_terminals (sv_pos s)). pt_id t = fst k \<and> \<not> terminal_claimed t
          \<and> pt_pairing_code_hash t = Some (px_sha256_hex env (kp_code r)) \<and> rq_now rq < pt_pairing_expires_at t)"

lemma claim_row_pos_effect:
  assumes "\<And>t. t \<in> set (po_terminals (sv_pos s)) \<Longrightarrow> \<not> terminal_claimed t \<Longrightarrow> pt_nym t = nym \<Longrightarrow>
      pt_pairing_code_hash t = Some code \<Longrightarrow> rq_now rq < pt_pairing_expires_at t \<Longrightarrow> claimed (pt_id t, nym, Some npub)"
    and "distinct (map pt_id (po_terminals (sv_pos s)))"
  shows "pos_effect claimed s (snd (claim_row rq nym code npub label d s))"
proof (cases "claim_pos_pairing (rq_now rq) nym code npub label d (sv_pos s)")
  case (Inr x)
  obtain r p where x: "x = (r, p)" by fastforce
  note c = Inr[unfolded x]
  from c have "pos_effect claimed s (s\<lparr>sv_pos := p\<rparr>)"
  proof (cases rule: claim_cases)
    case none
    then show ?thesis by (simp add: pos_tables.refl)
  next
    case (claimed pending pages)
    let ?upd = "\<lambda>t. t\<lparr>pt_npub_owner := Some npub, pt_label := label, pt_claimed_at := Some (rq_now rq),
      pt_pairing_code_hash := None\<rparr>"
    have pend: "pending \<in> set (po_terminals (sv_pos s))" "pt_nym pending = nym" "claimed (pt_id pending, nym, Some npub)"
      using select_one_SomeD[OF claimed(1)] assms(1) by auto
    have "(\<exists>u\<in>set (po_terminals (sv_pos s)). terminal_claimed u \<and> claim_key u = claim_key t) \<or> claimed (claim_key t)"
      if t: "t \<in> set (po_terminals p)" "terminal_claimed t" for t
    proof -
      obtain u where u: "u \<in> set (po_terminals (sv_pos s))" "t = (if pt_id u = pt_id pending then ?upd u else u)"
        using t(1) claimed(3) by (auto elim: update_where_setE)
      show ?thesis
      proof (cases "pt_id u = pt_id pending")
        case True
        then have "u = pending" using assms(2) u(1) pend(1) by (metis distinct_map inj_on_def)
        then show ?thesis using u(2) pend by (simp add: claim_key_def)
      qed (use u t(2) in auto)
    qed
    then show ?thesis by (rule pos_effect_step[OF ps_claim[OF c]])
  qed
  then show ?thesis by (simp add: claim_row_def c)
qed (simp add: claim_row_def pos_tables.refl)

lemma not_archived_same: "page_not_archived nym e s = (Inr u, s') \<Longrightarrow> s' = s"
  by (auto simp: page_not_archived_def andThen_ok split: option.splits)

lemma owner_found:
  "assert_nym_owner nym npub s = (Inr u, s') \<Longrightarrow> s' = s \<and> get_user_by_npub npub (us_users (sv_users s)) = Some u \<and> u_nym u = nym"
  by (auto simp: assert_nym_owner_def andThen_ok)

lemma gate_keeps: "claim_failure_gate g rq s = (x, s') \<Longrightarrow> sv_pos s' = sv_pos s \<and> sv_users s' = sv_users s"
  by (auto simp: claim_failure_gate_def limited_def split: option.splits prod.splits)

lemma run_claim_request:
  assumes "pos_ok (sv_pos s)"
  shows "pos_effect (claim_authorised env rq r s) s (snd (claim_pairing env rq r s))"
  unfolding claim_pairing_flat
proof (intro pos_tables.at_andThen, goal_cases)
  case (8 u1 s1 u2 s2 u3 s3 u4 s4 u5 s5 u6 s6 label s7)
  have same: "s7 = s1" "sv_pos s1 = sv_pos s" "sv_users s1 = sv_users s"
    using 8 owner_found[OF 8(5)] not_archived_same[OF 8(6)] gate_keeps[OF 8(1)] by simp_all
  have "claim_authorised env rq r s (pt_id t, kp_nym r, Some (kp_npub r))"
    if "t \<in> set (po_terminals (sv_pos s))" "\<not> terminal_claimed t"
      "pt_pairing_code_hash t = Some (px_sha256_hex env (kp_code r))" "rq_now rq < pt_pairing_expires_at t" for t
    using that 8(2,3,4) owner_found[OF 8(5)] same(3) by (auto simp: claim_authorised_def claim_payload_def)
  then show ?case
    using assms same by (intro claim_row_pos_effect) (auto simp: pos_ok_def apart_ids)
qed (rule changes_at, auto intro!: pos_tables.eff pos_tables.eff_pos_gates pos_tables.eff_not_archived
    pos_tables.eff_owner split: option.split)+

lemma run_other_pos:
  "changes (pos_effect claimed) (poll_pairing env rq nym tid tok)"
  "changes (pos_effect claimed) (create_terminal_invoice env rq fresh nym sale)"
  "changes (pos_effect claimed) (list_terminal_invoices env rq nym p n f)"
  "changes (pos_effect claimed) (cancel_terminal_invoice env rq nym iid)"
  "changes (pos_effect claimed) (list_terminals env rq r)"
proof -
  have "changes (pos_effect claimed) (cancel_row rq iid)"
    by (auto simp: changes_def cancel_row_def intro: pos_effect_same split: sum.split)
  then show "changes (pos_effect claimed) (cancel_terminal_invoice env rq nym iid)"
    unfolding cancel_terminal_invoice_def by (intro pos_tables.eff pos_tables.eff_load run_authenticate)
qed (auto simp: poll_pairing_def create_terminal_invoice_def list_terminal_invoices_def list_terminals_def
    intro!: pos_tables.eff pos_tables.eff_pos_gates run_authenticate run_pos_checkout pos_tables.eff_limited)

text \<open>The claims one request makes, and those of a run.\<close>
definition claims_by ::
  "('net, 'd, 'ba, 'la, 'bk, 'xk, 'xs) pos_env \<Rightarrow> request \<times> pos_request \<Rightarrow> service \<Rightarrow> uuid \<times> string \<times> string option \<Rightarrow> bool"
  where
  "claims_by env q s k \<longleftrightarrow> (\<exists>rq r. q = (rq, Post_claim r) \<and> claim_authorised env rq r s k)"

lemma serve_pos_effect:
  assumes "pos_ok (sv_pos s)"
  shows "pos_effect (claims_by env q s) s (serve_pos env q s)"
proof -
  obtain rq a where q: "q = (rq, a)" by fastforce
  show ?thesis
  proof (cases a)
    case (Post_claim r)
    have "claims_by env q s = claim_authorised env rq r s" by (auto simp: q Post_claim claims_by_def)
    then show ?thesis using run_claim_request[OF assms] by (simp add: q Post_claim)
  qed (simp_all add: q changes_at[OF run_pairing] changes_at[OF run_revoke] changes_at[OF run_other_pos(1)]
      changes_at[OF run_other_pos(2)] changes_at[OF run_other_pos(3)] changes_at[OF run_other_pos(4)]
      changes_at[OF run_other_pos(5)])
qed

lemma pos_run_ok: "pos_step\<^sup>*\<^sup>* p p' \<Longrightarrow> pos_ok p \<Longrightarrow> pos_ok p'"
  by (induction rule: rtranclp_induct) (auto intro: pos_step_ok)

text \<open>C25: A terminal is claimed by its merchant only: a claim that appears while POS requests are
  served, for a terminal, a nym and a key, was made by a claim request of that key for that nym,
  freshly signed over the code, the label and the POS descriptor; at that moment the key owned
  the nym and the terminal was an unclaimed pairing, not expired, waiting for exactly this code.\<close>
theorem terminals_are_claimed_by_their_merchant:
  assumes "pos_ok (sv_pos s)"
    and "k \<in> claims_of (sv_pos (fold (serve_pos env) qs s))" "k \<notin> claims_of (sv_pos s)"
  shows "\<exists>before rq r rest. qs = before @ (rq, Post_claim r) # rest
    \<and> claim_authorised env rq r (fold (serve_pos env) before s) k"
  using assms
proof (induction qs arbitrary: s)
  case (Cons q qs)
  let ?s = "serve_pos env q s"
  note step = serve_pos_effect[OF Cons.prems(1), of env q]
  show ?case
  proof (cases "k \<in> claims_of (sv_pos ?s)")
    case True
    then have "claims_by env q s k" using step Cons.prems(3) by (auto simp: pos_effect_def)
    then show ?thesis by (auto simp: claims_by_def intro!: exI[of _ "[]"])
  next
    case False
    have "pos_ok (sv_pos ?s)" using step pos_run_ok Cons.prems(1) by (auto simp: pos_effect_def)
    from Cons.IH[OF this _ False] Cons.prems(2) obtain before rq r rest
      where "qs = before @ (rq, Post_claim r) # rest" "claim_authorised env rq r (fold (serve_pos env) before ?s) k" by auto
    then have "q # qs = (q # before) @ (rq, Post_claim r) # rest"
      "claim_authorised env rq r (fold (serve_pos env) (q # before) s) k" by simp_all
    then show ?thesis by blast
  qed
qed simp

subsection \<open>Sales\<close>

text \<open>The rows of invoices that were not there before, or have changed.\<close>
definition new_rows :: "(invoice \<Rightarrow> bool) \<Rightarrow> service \<Rightarrow> service \<Rightarrow> bool" where
  "new_rows P s s' \<longleftrightarrow> (\<forall>i\<in>set (is_invoices (sv_ledger s')). i \<in> set (is_invoices (sv_ledger s)) \<or> P i)"

interpretation sale_rows: offer_effect "new_rows P" for P
  by unfold_locales (auto simp: new_rows_def)

lemma new_rows_same: "sv_ledger s' = sv_ledger s \<Longrightarrow> new_rows P s s'"
  by (simp add: new_rows_def)

lemma new_rows_mono: "new_rows P s s' \<Longrightarrow> (\<And>i. P i \<Longrightarrow> Q i) \<Longrightarrow> new_rows Q s s'"
  by (auto simp: new_rows_def)

lemma checkout_new_rows:
  assumes "\<And>i. inv_nym_owner i = Some nym \<Longrightarrow> inv_terminal_id i = co_terminal_id opts \<Longrightarrow> inv_status i = Unpaid \<Longrightarrow> P i"
  shows "changes (new_rows P) (create_checkout_invoice_inner env rq fresh nym r opts)"
proof -
  have stored: "changes (new_rows P) (store_invoice rq fid (checkout_invoice nym owner opts sat fiat a b))"
    for fid owner sat fiat a b
  proof -
    have "new_rows P s (s\<lparr>sv_ledger := l\<rparr>)"
      if "insert_invoice (rq_now rq) fid (checkout_invoice nym owner opts sat fiat a b) (sv_ledger s) = Inr (i, l)" for s i l
      using inserted(1,2)[OF that] by (auto simp: new_rows_def invoice_of_new_def checkout_invoice_def intro!: assms)
    then show ?thesis by (auto simp: changes_def store_invoice_def sale_rows.refl split: sum.split)
  qed
  have eager: "changes (new_rows P) (eager_lightning_offer env rq sid nym sat i)" for sid sat i
  proof -
    have "changes (new_rows P) (discard_invoice iid)" for iid
      unfolding discard_invoice_def
      by (rule sale_rows.eff_modifies)
        (auto simp: new_rows_def delete_unpaid_invoice_without_swaps_def Let_def split_beta tables split: if_splits)
    then show ?thesis
      unfolding eager_lightning_offer_def by (auto intro!: sale_rows.eff sale_rows.eff_offers split: sum.split)
  qed
  show ?thesis
    unfolding create_checkout_invoice_inner_def Let_def
    by (auto intro!: sale_rows.eff sale_rows.eff_offers stored eager split: prod.split)
qed

text \<open>The bearer token of a request, as the hash of a live terminal of the nym.\<close>
definition live_token ::
  "('net, 'd, 'ba, 'la, 'bk, 'xk, 'xs) pos_env \<Rightarrow> request \<Rightarrow> string \<Rightarrow> service \<Rightarrow> pos_terminal \<Rightarrow> bool" where
  "live_token env rq nym s t \<longleftrightarrow> (\<exists>token. bearer_token (rq_headers rq) = Some token
     \<and> get_active_terminal_by_token nym (px_sha256_hex env token) (po_terminals (sv_pos s)) = Some t)"

lemma authenticated:
  assumes "authenticate_terminal env rq nym s = (Inr t, s')"
  shows "live_token env rq nym s t" "sv_ledger s' = sv_ledger s" "sv_users s' = sv_users s"
  using assms by (auto simp: authenticate_terminal_def andThen_ok live_token_def)

lemma authenticate_keeps: "changes (\<lambda>s s'. sv_ledger s' = sv_ledger s) (authenticate_terminal env rq nym)"
  unfolding authenticate_terminal_def by (intro ledger_kept.eff ledger_kept.eff_modifies) simp

lemma cancelled_row:
  assumes "get_invoice_by_id iid (is_invoices (sv_ledger s)) = Some i" "unique_ids (sv_ledger s)"
  shows "new_rows (\<lambda>j. inv_id j = iid \<and> inv_nym_owner j = inv_nym_owner i \<and> inv_terminal_id j = inv_terminal_id i
    \<and> inv_status j = Cancelled) s (snd (cancel_row rq iid s))"
proof (cases "cancel_invoice (rq_now rq) iid (is_invoices (sv_ledger s))")
  case (Inr p)
  obtain n st invs where p: "p = (n, st, invs)" by (cases p)
  have i: "i \<in> set (is_invoices (sv_ledger s))" "inv_id i = iid"
    using select_one_SomeD[OF assms(1)[unfolded get_invoice_by_id_def]] by auto
  have "invs = fst (update_where (\<lambda>i. inv_id i = iid \<and> inv_status i = Unpaid)
      (\<lambda>i. i\<lparr>inv_status := Cancelled, inv_cancelled_at := Some (rq_now rq)\<rparr>) (is_invoices (sv_ledger s)))"
    using Inr p by (auto simp: cancel_invoice_def Let_def split_beta split: if_splits option.splits)
  moreover have "inv_nym_owner x = inv_nym_owner i" "inv_terminal_id x = inv_terminal_id i" if "x \<in> set (is_invoices (sv_ledger s))" "inv_id x = iid" for x
    using unique_row[OF assms(2) that(1) i(1)] that(2) i(2) by simp_all
  ultimately show ?thesis
    using i(2) Inr p by (auto simp: new_rows_def cancel_row_def update_where_def split: if_splits)
qed (simp add: cancel_row_def sale_rows.refl)

lemma pos_ledger_kept:
  "changes (\<lambda>s s'. sv_ledger s' = sv_ledger s) (create_pairing env rq bytes nym tok)"
  "changes (\<lambda>s s'. sv_ledger s' = sv_ledger s) (claim_pairing env rq r)"
  "changes (\<lambda>s s'. sv_ledger s' = sv_ledger s) (poll_pairing env rq nym tid h)"
  "changes (\<lambda>s s'. sv_ledger s' = sv_ledger s) (list_terminal_invoices env rq nym p n f)"
  "changes (\<lambda>s s'. sv_ledger s' = sv_ledger s) (list_terminals env rq ta)"
  "changes (\<lambda>s s'. sv_ledger s' = sv_ledger s) (revoke_terminal_endpoint env rq tid ta)"
proof -
  have rows: "changes (\<lambda>s s'. sv_ledger s' = sv_ledger s) (insert_pairing rq nym tok code)"
    "changes (\<lambda>s s'. sv_ledger s' = sv_ledger s) (claim_row rq nym code npub label d)"
    "changes (\<lambda>s s'. sv_ledger s' = sv_ledger s) (revoke_row rq tid npub)" for nym code npub label d
    by (auto simp: changes_def insert_pairing_def claim_row_def revoke_row_def split: sum.split prod.split)
  note kept = ledger_kept.eff ledger_kept.eff_pos_gates ledger_kept.eff_not_archived ledger_kept.eff_owner
    authenticate_keeps rows
  show "changes (\<lambda>s s'. sv_ledger s' = sv_ledger s) (create_pairing env rq bytes nym tok)"
    unfolding create_pairing_def Let_def by (intro kept)
  show "changes (\<lambda>s s'. sv_ledger s' = sv_ledger s) (claim_pairing env rq r)"
    unfolding claim_pairing_flat by (auto intro!: kept split: option.split)
  show "changes (\<lambda>s s'. sv_ledger s' = sv_ledger s) (poll_pairing env rq nym tid h)"
    unfolding poll_pairing_def by (intro kept)
  show "changes (\<lambda>s s'. sv_ledger s' = sv_ledger s) (list_terminal_invoices env rq nym p n f)"
    unfolding list_terminal_invoices_def by (auto intro!: kept)
  show "changes (\<lambda>s s'. sv_ledger s' = sv_ledger s) (list_terminals env rq ta)"
    unfolding list_terminals_def by (intro kept)
  show "changes (\<lambda>s s'. sv_ledger s' = sv_ledger s) (revoke_terminal_endpoint env rq tid ta)"
    unfolding revoke_terminal_endpoint_def by (intro kept)
qed

lemma pos_rows_authorised:
  assumes "unique_ids (sv_ledger s)"
    and "i \<in> set (is_invoices (sv_ledger (serve_pos env (rq, a) s)))" "i \<notin> set (is_invoices (sv_ledger s))"
  shows "\<exists>nym t. live_token env rq nym s t \<and> inv_nym_owner i = Some nym
    \<and> ((\<exists>fresh r. a = Post_sale fresh nym r \<and> inv_terminal_id i = Some (pt_id t) \<and> inv_status i = Unpaid)
       \<or> (a = Delete_sale nym (inv_id i) \<and> inv_terminal_id i \<noteq> None \<and> inv_status i = Cancelled))"
proof -
  let ?Q = "\<lambda>i. \<exists>nym t. live_token env rq nym s t \<and> inv_nym_owner i = Some nym
    \<and> ((\<exists>fresh r. a = Post_sale fresh nym r \<and> inv_terminal_id i = Some (pt_id t) \<and> inv_status i = Unpaid)
       \<or> (a = Delete_sale nym (inv_id i) \<and> inv_terminal_id i \<noteq> None \<and> inv_status i = Cancelled))"
  have same: "new_rows ?Q u (snd (m u))" if "changes (\<lambda>s s'. sv_ledger s' = sv_ledger s) m" for m u
    using that by (simp add: changes_def new_rows_same)
  have "new_rows ?Q s (serve_pos env (rq, a) s)"
  proof (cases a)
    case (Post_sale fresh nym r)
    have "new_rows ?Q s (snd (create_terminal_invoice env rq fresh nym r s))"
      unfolding create_terminal_invoice_def
      by (intro sale_rows.at_andThen changes_at[OF checkout_new_rows] same authenticate_keeps ledger_kept.eff
          ledger_kept.eff_limited) (auto dest!: authenticated(1) simp: Post_sale)
    then show ?thesis by (simp add: Post_sale)
  next
    case (Delete_sale nym iid)
    have "new_rows ?Q s (snd (cancel_terminal_invoice env rq nym iid s))"
      unfolding cancel_terminal_invoice_def
    proof (intro sale_rows.at_andThen, goal_cases)
      case (4 t s1 j s2 u s3)
      have j: "s3 = s2" "s2 = s1" "get_invoice_by_id iid (is_invoices (sv_ledger s)) = Some j"
        using 4 authenticated(2)[OF 4(1)] by (auto simp: load_invoice_def andThen_ok)
      then have "new_rows (\<lambda>x. inv_id x = iid \<and> inv_nym_owner x = inv_nym_owner j \<and> inv_terminal_id x = inv_terminal_id j
          \<and> inv_status x = Cancelled) s3 (snd (cancel_row rq iid s3))"
        using cancelled_row[of iid s3 j rq] authenticated(2)[OF 4(1)] assms(1) by simp
      then show ?case
        by (rule new_rows_mono) (use 4(3) authenticated(1)[OF 4(1)] Delete_sale in auto)
    qed (intro same authenticate_keeps ledger_kept.eff_load ledger_kept.eff)+
    then show ?thesis by (simp add: Delete_sale)
  qed (simp_all add: new_rows_same[OF changes_at[OF pos_ledger_kept(1)]] new_rows_same[OF changes_at[OF pos_ledger_kept(2)]]
      new_rows_same[OF changes_at[OF pos_ledger_kept(3)]] new_rows_same[OF changes_at[OF pos_ledger_kept(4)]]
      new_rows_same[OF changes_at[OF pos_ledger_kept(5)]] new_rows_same[OF changes_at[OF pos_ledger_kept(6)]])
  then show ?thesis using assms(2,3) by (auto simp: new_rows_def)
qed

text \<open>C26: Only a live terminal touches sales: an invoice that serving one POS request has added or
  changed belongs to the nym of a claimed and not revoked terminal whose token came with the
  request, and it is either the sale that terminal makes, or a cancelled sale of a
  terminal of that same nym.\<close>
theorem terminal_sales_need_a_live_token:
  assumes "unique_ids (sv_ledger s)"
    and "i \<in> set (is_invoices (sv_ledger (serve_pos env (rq, a) s)))" "i \<notin> set (is_invoices (sv_ledger s))"
  shows "\<exists>nym t. live_token env rq nym s t \<and> inv_nym_owner i = Some nym
    \<and> ((\<exists>fresh r. a = Post_sale fresh nym r \<and> inv_terminal_id i = Some (pt_id t))
       \<or> (a = Delete_sale nym (inv_id i) \<and> inv_terminal_id i \<noteq> None \<and> inv_status i = Cancelled))"
  using pos_rows_authorised[OF assms] by blast

subsection \<open>Refinement of the table steps\<close>

lemma serve_pos_ledger: "invoice_effect (\<lambda>k. True) (\<lambda>k. True) s (serve_pos env q s)"
proof -
  let ?R = "invoice_effect (\<lambda>k. True) (\<lambda>k. True)"
  have same: "?R s (snd (m s))" if "changes (\<lambda>s s'. sv_ledger s' = sv_ledger s) m" for m s
    using that by (simp add: changes_def invoice_effect_same)
  have row: "?R s (snd (andThen (load_invoice id_str iid) (\<lambda>i. andThen (require (P i) e) (\<lambda>_. andThen (cancel_row rq iid) f)) s))"
    if "\<And>a. changes ?R (f a)" for s id_str iid P e rq f
    by (intro invoices.at_andThen changes_at[OF that] changes_at[OF invoices.eff_load] changes_at[OF invoices.eff_require]
        cancel_row_effect[where i = "the (get_invoice_by_id iid (is_invoices (sv_ledger s)))"])
      (auto simp: load_invoice_def andThen_ok)
  obtain rq a where q: "q = (rq, a)" by fastforce
  show ?thesis
  proof (cases a)
    case (Post_sale fresh nym r)
    have "?R s (snd (create_terminal_invoice env rq fresh nym r s))"
      unfolding create_terminal_invoice_def
      by (intro invoices.at_andThen same authenticate_keeps ledger_kept.eff_limited ledger_kept.eff changes_at[OF run_checkout])
        simp
    then show ?thesis by (simp add: q Post_sale)
  next
    case (Delete_sale nym iid)
    have "?R s (snd (cancel_terminal_invoice env rq nym iid s))"
      unfolding cancel_terminal_invoice_def
      by (intro invoices.at_andThen[OF same[OF authenticate_keeps]] row invoices.eff)
    then show ?thesis by (simp add: q Delete_sale)
  qed (simp_all add: q same[OF pos_ledger_kept(1)] same[OF pos_ledger_kept(2)] same[OF pos_ledger_kept(3)]
      same[OF pos_ledger_kept(4)] same[OF pos_ledger_kept(5)] same[OF pos_ledger_kept(6)])
qed

subsection \<open>Who cancels\<close>

text \<open>The two groups of endpoints that write invoices, in any order.\<close>
definition serve_sales ::
  "('net, 'd, 'ba, 'la, 'bk, 'xk, 'xs) pos_env \<Rightarrow> request \<times> invoice_request + request \<times> pos_request \<Rightarrow> service \<Rightarrow> service" where
  "serve_sales env q = (case q of Inl a \<Rightarrow> serve_invoice (px_invoices env) a | Inr b \<Rightarrow> serve_pos env b)"

text \<open>What a request has to show to cancel a row: the owner's signature, or for the sale of a terminal the token of
  a live terminal of the same nym.\<close>
definition cancels ::
  "('net, 'd, 'ba, 'la, 'bk, 'xk, 'xs) pos_env \<Rightarrow> request \<times> invoice_request + request \<times> pos_request \<Rightarrow> service
    \<Rightarrow> uuid \<times> string \<times> string \<Rightarrow> bool" where
  "cancels env q s k \<longleftrightarrow>
     (\<exists>rq nym id_str r. q = Inl (rq, Delete_invoice nym id_str r) \<and> cancel_signed (px_invoices env) rq nym id_str r k)
   \<or> (\<exists>rq nym t i. q = Inr (rq, Delete_sale nym (inv_id i)) \<and> live_token env rq nym s t \<and> row_key i = k
        \<and> i \<in> set (is_invoices (sv_ledger (serve_sales env q s))) \<and> inv_nym_owner i = Some nym \<and> inv_terminal_id i \<noteq> None)"

lemma serve_sales_ids: "unique_ids (sv_ledger s) \<Longrightarrow> unique_ids (sv_ledger (serve_sales env q s))"
  using serve_invoice_effect[of "px_invoices env" _ s] serve_pos_ledger[of s env]
  by (auto simp: serve_sales_def invoice_effect_def split: sum.split)

lemma newly_cancelled:
  assumes "unique_ids (sv_ledger s)" "k \<notin> cancelled_keys (sv_ledger s)" "k \<in> cancelled_keys (sv_ledger (serve_sales env q s))"
  shows "cancels env q s k"
proof (cases q)
  case (Inl a)
  then have "may_cancel (px_invoices env) k a"
    using serve_invoice_effect[of "px_invoices env" a s] assms by (auto simp: serve_sales_def invoice_effect_def)
  then show ?thesis using Inl by (cases "(px_invoices env, k, a)" rule: may_cancel.cases) (auto simp: cancels_def)
next
  case (Inr b)
  obtain rq a where b: "b = (rq, a)" by fastforce
  obtain i where i: "i \<in> set (is_invoices (sv_ledger (serve_pos env (rq, a) s)))" "inv_status i = Cancelled" "row_key i = k"
    using assms(3) by (auto simp: serve_sales_def Inr b cancelled_keys_def)
  have "i \<notin> set (is_invoices (sv_ledger s))" using assms(2) i(2,3) by (auto simp: cancelled_keys_def)
  from pos_rows_authorised[OF assms(1) i(1) this] i(2) obtain nym t where
      "live_token env rq nym s t" "inv_nym_owner i = Some nym" "a = Delete_sale nym (inv_id i)" "inv_terminal_id i \<noteq> None"
    by auto
  then show ?thesis using i by (fastforce simp: cancels_def serve_sales_def Inr b)
qed

text \<open>C21: Nobody cancels another's invoice: if an invoice is cancelled after serving any requests to the invoice
  and the terminal API, in any order, and was not before, one of them cancelled it, and that is either a cancel
  request naming it and freshly signed by the very key the row belongs to, or the cancellation of a terminal's sale
  with the token of a terminal that was live then and belongs to the nym of the sale.\<close>
theorem only_the_owner_cancels:
  assumes "unique_ids (sv_ledger s)"
    and "i \<in> set (is_invoices (sv_ledger (fold (serve_sales env) qs s)))" "inv_status i = Cancelled"
    and "row_key i \<notin> cancelled_keys (sv_ledger s)"
  shows "\<exists>before q rest. qs = before @ q # rest \<and> cancels env q (fold (serve_sales env) before s) (row_key i)"
  using assms
proof (induction qs arbitrary: s)
  case Nil
  then show ?case by (auto simp: cancelled_keys_def)
next
  case (Cons q qs)
  show ?case
  proof (cases "row_key i \<in> cancelled_keys (sv_ledger (serve_sales env q s))")
    case True
    then have "cancels env q s (row_key i)" by (rule newly_cancelled[OF Cons.prems(1,4)])
    then show ?thesis by (intro exI[of _ "[]"]) simp
  next
    case False
    then obtain before q' rest where "qs = before @ q' # rest"
        "cancels env q' (fold (serve_sales env) before (serve_sales env q s)) (row_key i)"
      using Cons.IH[OF serve_sales_ids[OF Cons.prems(1), of env q]] Cons.prems(2,3) by auto
    then show ?thesis by (intro exI[of _ "q # before"]) simp
  qed
qed

lemma api_run_ok: "api_step\<^sup>*\<^sup>* l l' \<Longrightarrow> ledger_ok l \<Longrightarrow> ledger_ok l'"
  by (induction rule: rtranclp_induct) (auto intro: api_step_ok)

text \<open>Serving POS requests is a run of the terminal and page steps on those tables, and a run of
  ledger operations on the ledger; so both invariants survive any run of requests,
  whether they are accepted or refused.\<close>
theorem pos_requests_refine_the_tables:
  assumes "pos_ok (sv_pos s)" "ledger_ok (sv_ledger s)"
  shows "pos_step\<^sup>*\<^sup>* (sv_pos s) (sv_pos (fold (serve_pos env) qs s))
    \<and> api_step\<^sup>*\<^sup>* (sv_ledger s) (sv_ledger (fold (serve_pos env) qs s))
    \<and> pos_ok (sv_pos (fold (serve_pos env) qs s)) \<and> ledger_ok (sv_ledger (fold (serve_pos env) qs s))"
proof -
  have "pos_step\<^sup>*\<^sup>* (sv_pos s) (sv_pos (fold (serve_pos env) qs s))
      \<and> api_step\<^sup>*\<^sup>* (sv_ledger s) (sv_ledger (fold (serve_pos env) qs s))"
    using assms
  proof (induction qs arbitrary: s)
    case (Cons q qs)
    have "pos_step\<^sup>*\<^sup>* (sv_pos s) (sv_pos (serve_pos env q s))" "api_step\<^sup>*\<^sup>* (sv_ledger s) (sv_ledger (serve_pos env q s))"
      using serve_pos_effect[OF Cons.prems(1), of env q] serve_pos_ledger[of s env q]
      by (simp_all add: pos_effect_def invoice_effect_def)
    then show ?case
      using Cons.IH[of "serve_pos env q s"] pos_run_ok api_run_ok Cons.prems by (auto intro: rtranclp_trans)
  qed simp
  then show ?thesis using assms pos_run_ok api_run_ok by blast
qed

end
