(* ===== verification/PairingProperties.thy ===== *)
theory PairingProperties
  imports PosApiProperties
begin

text \<open>
  Guessing a pairing code: how often a source may name a wrong code before it is locked
  out, with the parts of concurrent claims interleaved, and what the code is made of.  Witnesses of the POS properties.
\<close>

subsection \<open>Wrong codes\<close>

text \<open>The failures of a source that are remembered since a time.\<close>
definition failures_since :: "int \<Rightarrow> ip_addr \<Rightarrow> service \<Rightarrow> nat" where
  "failures_since t0 ip s =
    length (filter (\<lambda>t. t0 \<le> t) (deque_of (''pos_pair_claim_fail:'' @ source_key ip) (rl_inmem (sv_limiter s))))"

definition failure_limit :: "service \<Rightarrow> nat" where
  "failure_limit s = rc_pos_pairing_claim_failures_per_source_per_hour (rl_cfg (sv_limiter s))"

lemma prune_recent: "c \<le> t0 \<Longrightarrow> filter (\<lambda>t. t0 \<le> t) (prune_old c d) = filter (\<lambda>t. t0 \<le> t) d"
  unfolding prune_old_def by (induction d) auto

declare deque_of_update [simp]

lemma claim_gate:
  assumes "pos_subject g rq = Some ip" "0 < failure_limit s" "rq_now rq - secs 3600 \<le> t0"
    and "claim_failure_gate g rq s = (r, s')"
  shows "failures_since t0 ip s' = failures_since t0 ip s \<and> failure_limit s' = failure_limit s \<and> sv_pos s' = sv_pos s
    \<and> sv_users s' = sv_users s \<and> (failure_limit s \<le> failures_since t0 ip s \<longrightarrow> r = Inl PosPairingClaimRateLimited)
    \<and> (\<forall>e. r = Inl e \<longrightarrow> e = PosPairingClaimRateLimited)"
proof -
  let ?k = "''pos_pair_claim_fail:'' @ source_key ip"
  let ?d = "prune_old (rq_now rq - secs 3600) (deque_of ?k (rl_inmem (sv_limiter s)))"
  have kept: "filter (\<lambda>t. t0 \<le> t) ?d = filter (\<lambda>t. t0 \<le> t) (deque_of ?k (rl_inmem (sv_limiter s)))"
    by (rule prune_recent[OF assms(3)])
  then have "failures_since t0 ip s \<le> length ?d"
    unfolding failures_since_def by (metis length_filter_le)
  then show ?thesis
    using assms kept
    by (auto simp: claim_failure_gate_def limited_def check_pos_pairing_claim_failure_per_source_def inmem_sliding_peek_def
        peek_count_def Let_def failure_limit_def failures_since_def split: if_splits)
qed

lemma recorded_failure:
  assumes "pos_subject g rq = Some ip" "0 < failure_limit s" "rq_now rq - secs 3600 \<le> t0" "t0 \<le> rq_now rq"
    and "record_pairing_failure g rq s = (r, s')"
  shows "failures_since t0 ip s' = Suc (failures_since t0 ip s) \<and> failure_limit s' = failure_limit s \<and> r = Inr ()"
  using assms
  by (auto simp: record_pairing_failure_def record_pos_pairing_claim_failure_per_source_def inmem_sliding_record_def
      record_hit_def Let_def failure_limit_def failures_since_def prune_recent)

lemma page_not_archived_iff: "page_not_archived nym e s = (r, s') \<longleftrightarrow> s' = s
    \<and> r = (case get_donation_page_by_nym nym (po_pages (sv_pos s)) of
            None \<Rightarrow> Inr () | Some p \<Rightarrow> if dp_is_archived p then Inl e else Inr ())"
  by (auto simp: page_not_archived_def andThen_def handler_defs split: option.splits if_splits)

lemma andThen_errE:
  assumes "andThen m f s = (Inl e, s'')"
  obtains "m s = (Inl e, s'')" | a s' where "m s = (Inr a, s')" "f a s' = (Inl e, s'')"
  using assms by (auto simp: andThen_err)

text \<open>Between its look at the failures and its record of one, a claim leaves the limiter alone.\<close>
interpretation limiter_kept: effect "\<lambda>s s'. sv_limiter s' = sv_limiter s"
  by unfold_locales auto

lemma claim_checked_limiter: "claim_checked env rq r s = (y, s') \<Longrightarrow> sv_limiter s' = sv_limiter s"
proof -
  have row: "changes (\<lambda>s s'. sv_limiter s' = sv_limiter s) (claim_row rq nym code npub lab d)" for nym code npub lab d
    by (auto simp: changes_def claim_row_def split: sum.split prod.split)
  have "changes (\<lambda>s s'. sv_limiter s' = sv_limiter s) (claim_checked env rq r)"
    unfolding claim_checked_def assert_nym_owner_def page_not_archived_def
    by (auto intro!: limiter_kept.eff row split: option.split)
  then show "claim_checked env rq r s = (y, s') \<Longrightarrow> sv_limiter s' = sv_limiter s" by (drule changesD) auto
qed

text \<open>A claim waits between its parts, and other claims of the source run meanwhile: it arrives, is admitted by
  the look at the failures, misses when nothing waits for its code, and then records that it was wrong.\<close>
datatype claim_phase = Arrived | Admitted | Missed | Wrong | Answered

record claim_task =
  ct_request :: request
  ct_claim :: claim_pairing_request
  ct_phase :: claim_phase

abbreviation at_time :: "timestamp \<Rightarrow> request \<Rightarrow> request" where
  "at_time now rq \<equiv> rq\<lparr>rq_now := now\<rparr>"

definition in_flight :: "claim_task \<Rightarrow> bool" where
  "in_flight t \<longleftrightarrow> ct_phase t \<in> {Admitted, Missed}"

definition count :: "('a \<Rightarrow> bool) \<Rightarrow> 'a list \<Rightarrow> nat" where
  "count P ts = length (filter P ts)"

definition after_look :: "app_error + unit \<Rightarrow> claim_phase" where
  "after_look y = (case y of Inl e \<Rightarrow> Answered | Inr _ \<Rightarrow> Admitted)"

definition after_check :: "app_error + pos_terminal option \<Rightarrow> claim_phase" where
  "after_check y = (case y of Inr None \<Rightarrow> Missed | _ \<Rightarrow> Answered)"

text \<open>At most \<open>K\<close> claims in flight, each part at a time of its own within one hour from \<open>t0\<close>; whatever else the
  service does may come in between, as long as it does not forget failures of this hour.\<close>
inductive claims_step ::
  "('net, 'd, 'ba, 'la, 'bk, 'xk, 'xs) pos_env \<Rightarrow> ip_addr \<Rightarrow> int \<Rightarrow> nat \<Rightarrow> service \<times> claim_task list \<Rightarrow> service \<times> claim_task list \<Rightarrow> bool"
  for env ip t0 K where
  cl_look: "i < length ts \<Longrightarrow> ct_phase (ts ! i) = Arrived \<Longrightarrow> count in_flight ts < K \<Longrightarrow> t0 \<le> now \<Longrightarrow> now \<le> t0 + secs 3600
    \<Longrightarrow> claim_failure_gate (px_gates env) (at_time now (ct_request (ts ! i))) s = (y, s')
    \<Longrightarrow> claims_step env ip t0 K (s, ts) (s', ts[i := (ts ! i)\<lparr>ct_phase := after_look y\<rparr>])"
| cl_check: "i < length ts \<Longrightarrow> ct_phase (ts ! i) = Admitted
    \<Longrightarrow> claim_checked env (at_time now (ct_request (ts ! i))) (ct_claim (ts ! i)) s = (z, s')
    \<Longrightarrow> claims_step env ip t0 K (s, ts) (s', ts[i := (ts ! i)\<lparr>ct_phase := after_check z\<rparr>])"
| cl_record: "i < length ts \<Longrightarrow> ct_phase (ts ! i) = Missed \<Longrightarrow> t0 \<le> now \<Longrightarrow> now \<le> t0 + secs 3600
    \<Longrightarrow> claim_answer env (at_time now (ct_request (ts ! i))) (ct_claim (ts ! i)) None s = (x, s')
    \<Longrightarrow> claims_step env ip t0 K (s, ts) (s', ts[i := (ts ! i)\<lparr>ct_phase := Wrong\<rparr>])"
| cl_other: "failures_since t0 ip s \<le> failures_since t0 ip s' \<Longrightarrow> failure_limit s' = failure_limit s
    \<Longrightarrow> claims_step env ip t0 K (s, ts) (s', ts)"

lemma count_update:
  "i < length ts \<Longrightarrow> count P (ts[i := x]) + (if P (ts ! i) then 1 else 0) = count P ts + (if P x then 1 else 0)"
proof -
  assume i: "i < length ts"
  have "count P ts = count P (take i ts @ ts ! i # drop (Suc i) ts)" using id_take_nth_drop[OF i] by simp
  then show ?thesis by (simp add: upd_conv_take_nth_drop[OF i] count_def)
qed

abbreviation wrong :: "claim_task \<Rightarrow> bool" where
  "wrong t \<equiv> ct_phase t = Wrong"

text \<open>What stays true while the claims of one source run: every wrong one is remembered, and those in flight
  were admitted below the limit.\<close>
definition claims_ok ::
  "('net, 'd, 'ba, 'la, 'bk, 'xk, 'xs) pos_env \<Rightarrow> ip_addr \<Rightarrow> int \<Rightarrow> nat \<Rightarrow> nat \<Rightarrow> nat \<Rightarrow> service \<times> claim_task list \<Rightarrow> bool" where
  "claims_ok env ip t0 K limit f0 c \<longleftrightarrow> (case c of (s, ts) \<Rightarrow>
     failure_limit s = limit \<and> (\<forall>t\<in>set ts. pos_subject (px_gates env) (ct_request t) = Some ip)
     \<and> f0 + count wrong ts \<le> failures_since t0 ip s
     \<and> (0 < count wrong ts + count in_flight ts
         \<longrightarrow> f0 < limit \<and> 0 < K \<and> f0 + count wrong ts + count in_flight ts \<le> limit - 1 + K))"

lemma subject_at_time: "pos_subject g (at_time now rq) = pos_subject g rq"
  by (simp add: pos_subject_def request_ip_def)

lemma subjects_update:
  assumes "\<forall>t\<in>set ts. pos_subject g (ct_request t) = Some ip" "i < length ts"
  shows "\<forall>t\<in>set (ts[i := (ts ! i)\<lparr>ct_phase := ph\<rparr>]). pos_subject g (ct_request t) = Some ip"
  using assms by (auto dest!: subsetD[OF set_update_subset_insert])

lemma claims_ok_step:
  assumes "claims_step env ip t0 K c c'" "0 < limit" "claims_ok env ip t0 K limit f0 c"
  shows "claims_ok env ip t0 K limit f0 c'"
  using assms(1)
proof cases
  case (cl_look i ts now s y s')
  have ip: "pos_subject (px_gates env) (at_time now (ct_request (ts ! i))) = Some ip"
    using assms(3) cl_look(1,3) by (simp add: claims_ok_def subject_at_time)
  have "0 < failure_limit s" using assms(2,3) cl_look(1) by (simp add: claims_ok_def)
  note g = claim_gate[OF ip this _ cl_look(8), of t0]
  have u: "count in_flight (ts[i := (ts ! i)\<lparr>ct_phase := after_look y\<rparr>]) = count in_flight ts + (if y = Inr () then 1 else 0)"
    "count wrong (ts[i := (ts ! i)\<lparr>ct_phase := after_look y\<rparr>]) = count wrong ts"
    using count_update[OF cl_look(3), of in_flight "(ts ! i)\<lparr>ct_phase := after_look y\<rparr>"]
      count_update[OF cl_look(3), of wrong "(ts ! i)\<lparr>ct_phase := after_look y\<rparr>"] cl_look(4)
    by (auto simp: in_flight_def after_look_def split: sum.splits)
  show ?thesis
    using assms(3) cl_look(5-7) g subjects_update[of ts "px_gates env" ip i "after_look y"] cl_look(3) u
    by (auto simp: claims_ok_def cl_look(1,2) split: if_splits)
next
  case (cl_check i ts now s z s')
  have u: "count in_flight (ts[i := (ts ! i)\<lparr>ct_phase := after_check z\<rparr>]) \<le> count in_flight ts"
    "count wrong (ts[i := (ts ! i)\<lparr>ct_phase := after_check z\<rparr>]) = count wrong ts"
    using count_update[OF cl_check(3), of in_flight "(ts ! i)\<lparr>ct_phase := after_check z\<rparr>"]
      count_update[OF cl_check(3), of wrong "(ts ! i)\<lparr>ct_phase := after_check z\<rparr>"] cl_check(4)
    by (auto simp: in_flight_def after_check_def split: sum.splits option.splits if_splits)
  have "failures_since t0 ip s' = failures_since t0 ip s" "failure_limit s' = failure_limit s"
    using claim_checked_limiter[OF cl_check(5)] by (simp_all add: failures_since_def failure_limit_def)
  then show ?thesis
    using assms(3) subjects_update[of ts "px_gates env" ip i "after_check z"] cl_check(3) u
    by (auto simp: claims_ok_def cl_check(1,2))
next
  case (cl_record i ts now s x s')
  have ip: "pos_subject (px_gates env) (at_time now (ct_request (ts ! i))) = Some ip"
    using assms(3) cl_record(1,3) by (simp add: claims_ok_def subject_at_time)
  have lim: "0 < failure_limit s" using assms(2,3) cl_record(1) by (simp add: claims_ok_def)
  obtain w where "record_pairing_failure (px_gates env) (at_time now (ct_request (ts ! i))) s = (w, s')"
    using cl_record(7) by (auto simp: claim_answer_def andThen_def handler_defs split: prod.splits sum.splits)
  note g = recorded_failure[OF ip lim _ _ this, of t0]
  have u: "count in_flight (ts[i := (ts ! i)\<lparr>ct_phase := Wrong\<rparr>]) + 1 = count in_flight ts"
    "count wrong (ts[i := (ts ! i)\<lparr>ct_phase := Wrong\<rparr>]) = count wrong ts + 1"
    using count_update[OF cl_record(3), of in_flight "(ts ! i)\<lparr>ct_phase := Wrong\<rparr>"]
      count_update[OF cl_record(3), of wrong "(ts ! i)\<lparr>ct_phase := Wrong\<rparr>"] cl_record(4)
    by (auto simp: in_flight_def)
  show ?thesis
    using assms(3) cl_record(5,6) g subjects_update[of ts "px_gates env" ip i Wrong] cl_record(3) u
    by (auto simp: claims_ok_def cl_record(1,2))
next
  case (cl_other s s' ts)
  then show ?thesis using assms(3) by (auto simp: claims_ok_def)
qed

text \<open>C27: Guessing a pairing code is bounded: of the claims that one source sends within an hour, in
  any number, with any codes and under any keys, and however their parts interleave with one another
  and with the rest of the service, the number that are answered that the code was wrong is at most what the
  configured limit leaves, plus one less than the number of claims that are in flight at once.  One at a time
  they are within the limit; the code looks at the count and records a failure in two
  steps, so that claims in flight together can each pass the look.\<close>
theorem pairing_guesses_are_bounded:
  assumes "(claims_step env ip t0 K)\<^sup>*\<^sup>* (s, ts) (s', ts')"
    and "\<forall>t\<in>set ts. ct_phase t = Arrived \<and> pos_subject (px_gates env) (ct_request t) = Some ip"
    and "0 < failure_limit s"
  shows "count wrong ts' \<le> (if failure_limit s \<le> failures_since t0 ip s then 0
    else failure_limit s - failures_since t0 ip s + (K - 1))"
proof -
  let ?ok = "claims_ok env ip t0 K (failure_limit s) (failures_since t0 ip s)"
  have "?ok (s, ts)" using assms(2) by (auto simp: claims_ok_def count_def in_flight_def filter_empty_conv)
  with assms(1) have "?ok (s', ts')" by induction (auto intro: claims_ok_step assms(3))
  then show ?thesis by (auto simp: claims_ok_def)
qed

text \<open>The handler on its own is such a run.\<close>
lemma claim_is_run:
  assumes "claim_pairing env rq r s = (x, s')"
  shows "\<exists>ph. (claims_step env ip (rq_now rq) 1)\<^sup>*\<^sup>* (s, [\<lparr>ct_request = rq, ct_claim = r, ct_phase = Arrived\<rparr>])
    (s', [\<lparr>ct_request = rq, ct_claim = r, ct_phase = ph\<rparr>])"
proof -
  let ?t = "\<lambda>ph. [\<lparr>ct_request = rq, ct_claim = r, ct_phase = ph\<rparr>]"
  obtain y s1 where look: "claim_failure_gate (px_gates env) rq s = (y, s1)" by fastforce
  have 1: "claims_step env ip (rq_now rq) 1 (s, ?t Arrived) (s1, ?t (after_look y))"
    using cl_look[of 0 "?t Arrived" 1 "rq_now rq" "rq_now rq" env s y s1] look by (simp add: count_def in_flight_def secs_def)
  show ?thesis
  proof (cases y)
    case (Inl e)
    then show ?thesis using assms 1 look by (auto simp: claim_pairing_def andThen_def)
  next
    case (Inr u)
    obtain z s2 where check: "claim_checked env rq r s1 = (z, s2)" by fastforce
    have 2: "claims_step env ip (rq_now rq) 1 (s1, ?t Admitted) (s2, ?t (after_check z))"
      using cl_check[of 0 "?t Admitted" env "rq_now rq" s1 z s2] check by simp
    have 12: "(claims_step env ip (rq_now rq) 1)\<^sup>*\<^sup>* (s, ?t Arrived) (s2, ?t (after_check z))"
      using 1 2 Inr by (simp add: after_look_def)
    show ?thesis
    proof (cases "z = Inr None")
      case True
      then have answer: "claim_answer env rq r None s2 = (x, s')"
        using assms look check Inr by (simp add: claim_pairing_def andThen_def)
      have "claims_step env ip (rq_now rq) 1 (s2, ?t Missed) (s', ?t Wrong)"
        using cl_record[of 0 "?t Missed" "rq_now rq" "rq_now rq" env s2 x s'] answer by (simp add: secs_def)
      then show ?thesis using 12 True by (auto simp: after_check_def intro: rtranclp.rtrancl_into_rtrancl)
    next
      case False
      then have "s' = s2"
        using assms look check Inr
        by (auto simp: claim_pairing_def andThen_def claim_answer_def pure_def split: sum.splits option.splits)
      then show ?thesis using 12 by blast
    qed
  qed
qed

subsection \<open>The code\<close>

lemma low_bits: "unat (b AND 31 :: 8 word) = unat b mod 32"
proof -
  have "unat (b AND 31) = unat b AND mask 5" by (simp add: unsigned_and_eq mask_eq_exp_minus_1)
  then show ?thesis by (simp add: take_bit_eq_mask[symmetric] take_bit_eq_mod)
qed

lemma alphabet_letters: "length pairing_code_alphabet = 32" "distinct pairing_code_alphabet"
  by (simp_all add: pairing_code_alphabet_def)

lemma bytes_of_residue:
  assumes "j < 32"
  shows "card {b :: 8 word. unat b mod 32 = j} = 8"
proof -
  have "unat ` {b :: 8 word. unat b mod 32 = j} = {n. n < 256 \<and> n mod 32 = j}"
  proof (intro equalityI subsetI)
    fix n assume "n \<in> {n. n < 256 \<and> n mod 32 = j}"
    then show "n \<in> unat ` {b :: 8 word. unat b mod 32 = j}"
      by (intro image_eqI[of _ _ "of_nat n"]) (simp_all add: unat_of_nat)
  qed (auto intro: order_less_le_trans[OF unsigned_less])
  also have "\<dots> = (\<lambda>k. j + 32 * k) ` {..<8}"
  proof (intro equalityI subsetI)
    fix n assume "n \<in> {n. n < 256 \<and> n mod 32 = j}"
    then show "n \<in> (\<lambda>k. j + 32 * k) ` {..<8}"
      by (intro image_eqI[of _ _ "n div 32"]) auto
  qed (use assms in auto)
  finally have "card (unat ` {b :: 8 word. unat b mod 32 = j}) = card ((\<lambda>k. j + 32 * k) ` {..<8})" by simp
  moreover have "inj_on unat {b :: 8 word. unat b mod 32 = j}" by (rule inj_onI) (simp add: word_unat_eq_iff)
  ultimately show ?thesis by (simp add: card_image inj_on_def[of "\<lambda>k. j + 32 * k"])
qed

text \<open>A pairing code has one letter for each of the 8 random bytes, all from an alphabet without look-alikes
  (no I, O, 0 or 1), and every letter is equally likely: it comes from exactly 8 of the
  256 bytes.\<close>
theorem pairing_codes_are_uniform:
  "length (generate_pairing_code bytes) = min (length bytes) pairing_code_len
   \<and> set (generate_pairing_code bytes) \<subseteq> set pairing_code_alphabet
   \<and> set pairing_code_alphabet \<inter> set ''IO01'' = {}
   \<and> (\<forall>c\<in>set pairing_code_alphabet. card {b. generate_pairing_code [b] = [c]} = 8)"
proof -
  have "card {b. generate_pairing_code [b] = [c]} = 8" if "c \<in> set pairing_code_alphabet" for c
  proof -
    obtain j where j: "j < 32" "c = pairing_code_alphabet ! j"
      using \<open>c \<in> set pairing_code_alphabet\<close> by (auto simp: in_set_conv_nth alphabet_letters)
    have "generate_pairing_code [b] = [c] \<longleftrightarrow> unat b mod 32 = j" for b
      using j nth_eq_iff_index_eq[OF alphabet_letters(2), of "unat b mod 32" j]
      by (simp add: generate_pairing_code_def low_bits alphabet_letters pairing_code_len_def)
    then show ?thesis using bytes_of_residue[OF j(1)] by simp
  qed
  moreover have "set pairing_code_alphabet \<inter> set ''IO01'' = {}" by (simp add: pairing_code_alphabet_def)
  moreover have "pairing_code_alphabet ! unat (b AND 31 :: 8 word) \<in> set pairing_code_alphabet" for b
    by (intro nth_mem) (simp add: low_bits alphabet_letters)
  then have "set (generate_pairing_code bytes) \<subseteq> set pairing_code_alphabet"
    by (auto simp: generate_pairing_code_def)
  ultimately show ?thesis by (simp add: generate_pairing_code_def)
qed

subsection \<open>Witnesses\<close>

text \<open>Bob's till: one pairing that waits for the code CODE, one terminal with the token TOK and an
  unpaid sale of it.\<close>

definition demo_merchant :: user where
  "demo_merchant = demo_account\<lparr>u_npub := replicate 64 CHR ''d''\<rparr>"

definition demo_waiting :: pos_terminal where
  "demo_waiting = new_terminal 0 5 ''bob'' ''hash'' ''CODE'' 600"

definition demo_terminal :: pos_terminal where
  "demo_terminal = (new_terminal 0 6 ''bob'' ''TOK'' ''OLD'' 600)\<lparr>pt_npub_owner := Some (replicate 64 CHR ''d''),
     pt_claimed_at := Some 9, pt_pairing_code_hash := None\<rparr>"

definition demo_sold :: invoice where
  "demo_sold = demo_unpaid\<lparr>inv_nym_owner := Some ''bob'', inv_terminal_id := Some 6\<rparr>"

definition demo_till :: "(ip_addr, string, string, string, string, string, string) pos_env" where
  "demo_till = \<lparr>px_invoices = demo_invoices, px_max_descriptor_len = 100\<rparr>"

definition demo_counter :: service where
  "demo_counter = demo_store\<lparr>
     sv_limiter := demo_limits\<lparr>rl_cfg := (rl_cfg demo_limits)\<lparr>rc_pos_pairing_claim_failures_per_source_per_hour := 1\<rparr>\<rparr>,
     sv_users := \<lparr>us_users = [demo_merchant], us_outpoints = []\<rparr>,
     sv_pos := \<lparr>po_terminals = [demo_waiting, demo_terminal], po_pages = [demo_page]\<rparr>,
     sv_ledger := (sv_ledger demo_shop)\<lparr>is_invoices := [demo_sold]\<rparr>\<rparr>"

definition demo_claiming :: "string \<Rightarrow> claim_pairing_request" where
  "demo_claiming code = \<lparr>kp_npub = replicate 64 CHR ''d'', kp_nym = ''bob'', kp_code = code, kp_label = None,
     kp_pos_ct_descriptor = ''x'', kp_timestamp = 50, kp_signature = replicate 64 CHR ''d''
       @ build_la_v2_message pos_action_pair (replicate 64 CHR ''d'') ''bob'' [code, [], ''x''] 50\<rparr>"

definition demo_bearer :: request where
  "demo_bearer = (demo_request None)\<lparr>rq_headers := (\<lambda>h. if h = ''authorization'' then Some ''Bearer TOK'' else None)\<rparr>"

lemmas demo_counter_defs = demo_counter_def demo_store_def demo_waiting_def demo_terminal_def demo_page_def new_terminal_def
  terminal_claimed_def terminal_revoked_def dp_is_archived_def select_one_def

lemma demo_counter_ok: "pos_ok (sv_pos demo_counter)" "unique_ids (sv_ledger demo_counter)"
  by (simp_all add: pos_ok_def terminal_ok_def terminals_apart_def unique_ids_def demo_counter_defs)

definition demo_paired :: pos_terminal where
  "demo_paired = demo_waiting\<lparr>pt_npub_owner := Some (replicate 64 CHR ''d''), pt_label := None, pt_claimed_at := Some 1000,
     pt_pairing_code_hash := None\<rparr>"

definition demo_paired_pos :: pos_store where
  "demo_paired_pos = \<lparr>po_terminals = [demo_paired, demo_terminal],
     po_pages = [demo_page\<lparr>dp_pos_ct_descriptor := Some ''x''\<rparr>]\<rparr>"

lemma demo_claim_row: "claim_row (demo_request None) ''bob'' ''CODE'' (replicate 64 CHR ''d'') None ''x'' demo_counter
    = (Inr (Some demo_paired), demo_counter\<lparr>sv_pos := demo_paired_pos\<rparr>)"
  "(5, ''bob'', Some (replicate 64 CHR ''d'')) \<in> claims_of demo_paired_pos"
  "(5, ''bob'', Some (replicate 64 CHR ''d'')) \<notin> claims_of (sv_pos demo_counter)"
proof -
  have hex: "is_lower_hex64 (replicate 64 CHR ''d'')"
    by (simp add: is_lower_hex64_def is_lower_hexdigit_def list_all_iff)
  show "claim_row (demo_request None) ''bob'' ''CODE'' (replicate 64 CHR ''d'') None ''x'' demo_counter
      = (Inr (Some demo_paired), demo_counter\<lparr>sv_pos := demo_paired_pos\<rparr>)"
    by (simp add: claim_row_def claim_pos_pairing_def hex placeholder_page_def pin_pos_descriptor_def Let_def tables
        secs_def demo_paired_pos_def demo_paired_def demo_counter_defs)
  have "claim_key demo_paired = (5, ''bob'', Some (replicate 64 CHR ''d''))" "terminal_claimed demo_paired"
    by (simp_all add: claim_key_def demo_paired_def demo_counter_defs)
  then show "(5, ''bob'', Some (replicate 64 CHR ''d'')) \<in> claims_of demo_paired_pos"
    unfolding claims_of_def demo_paired_pos_def by (intro image_eqI[of _ _ demo_paired]) simp_all
qed (auto simp: claims_of_def claim_key_def demo_counter_defs)

lemma demo_claim_checks:
  "verify_la_v2 (px_signing demo_till) (rq_unix (demo_request ip)) pos_action_pair (kp_npub (demo_claiming c))
     (kp_nym (demo_claiming c)) (claim_payload (demo_claiming c)) (kp_timestamp (demo_claiming c))
     (kp_signature (demo_claiming c)) = Inr ()"
  "validate_descriptor (ie_descriptors (px_invoices demo_till)) ''x'' (px_max_descriptor_len demo_till) = Inr ()"
  "assert_nym_owner ''bob'' (replicate 64 CHR ''d'') demo_counter = (Inr demo_merchant, demo_counter)"
  "page_not_archived ''bob'' e demo_counter = (Inr (), demo_counter)"
  "claim_failure_gate (px_gates demo_till) (demo_request None) s = (Inr (), s)"
  using demo_signs[of pos_action_pair "replicate 64 CHR ''d''" "''bob''" "[c, [], ''x'']"]
  by (simp_all add: demo_till_def demo_claiming_def claim_payload_def text_or_empty_def validate_descriptor_def
      derive_address_def demo_invoices_def demo_descriptors_def assert_nym_owner_def andThen_def handler_defs
      get_user_by_npub_def demo_merchant_def demo_account_def page_not_archived_iff get_donation_page_by_nym_def
      claim_failure_gate_def pos_subject_def demo_no_ip demo_counter_defs)

lemma terminals_are_claimed_by_their_merchant_witness:
  "(5, ''bob'', Some (replicate 64 CHR ''d''))
     \<in> claims_of (sv_pos (serve_pos demo_till (demo_request None, Post_claim (demo_claiming ''CODE'')) demo_counter))
   \<and> claim_authorised demo_till (demo_request None) (demo_claiming ''CODE'') demo_counter
      (5, ''bob'', Some (replicate 64 CHR ''d''))"
proof -
  let ?q = "(demo_request None, Post_claim (demo_claiming ''CODE''))" and ?k = "(5, ''bob'', Some (replicate 64 CHR ''d''))"
  have fields: "kp_nym (demo_claiming c) = ''bob''" "kp_npub (demo_claiming c) = replicate 64 CHR ''d''"
    "kp_code (demo_claiming c) = c" "kp_label (demo_claiming c) = None" "kp_pos_ct_descriptor (demo_claiming c) = ''x''" for c
    by (simp_all add: demo_claiming_def)
  have sha: "px_sha256_hex demo_till c = c" for c by (simp add: demo_till_def demo_invoices_def)
  have after: "serve_pos demo_till ?q demo_counter = demo_counter\<lparr>sv_pos := demo_paired_pos\<rparr>"
    using demo_claim_row(1) demo_claim_checks
    by (simp add: claim_pairing_flat andThen_def handler_defs fields sha validate_label_def)
  then obtain before rq r rest where "[?q] = before @ (rq, Post_claim r) # rest"
      "claim_authorised demo_till rq r (fold (serve_pos demo_till) before demo_counter) ?k"
    using terminals_are_claimed_by_their_merchant[OF demo_counter_ok(1), of ?k demo_till "[?q]"] demo_claim_row(2,3) by auto
  then show ?thesis using after demo_claim_row(2) by (auto simp: Cons_eq_append_conv)
qed

lemma demo_cancelled_sale: "serve_pos demo_till (demo_bearer, Delete_sale ''bob'' 7) demo_counter = demo_counter\<lparr>
    sv_pos := (sv_pos demo_counter)\<lparr>po_terminals := [demo_waiting, demo_terminal\<lparr>pt_last_seen_at := Some 1000\<rparr>]\<rparr>,
    sv_ledger := (sv_ledger demo_counter)\<lparr>is_invoices := [demo_sold\<lparr>inv_status := Cancelled, inv_cancelled_at := Some 1000\<rparr>]\<rparr>\<rparr>"
proof -
  have token: "bearer_token (rq_headers demo_bearer) = Some ''TOK''" "px_sha256_hex demo_till c = c" "rq_now demo_bearer = 1000" for c
    by (simp_all add: bearer_token_def demo_bearer_def bearer_prefix_def starts_with_def demo_till_def demo_invoices_def)
  have terminal: "get_active_terminal_by_token ''bob'' ''TOK'' (po_terminals (sv_pos demo_counter)) = Some demo_terminal"
    "fst (touch_terminal_seen 1000 (pt_id demo_terminal) (po_terminals (sv_pos demo_counter)))
       = [demo_waiting, demo_terminal\<lparr>pt_last_seen_at := Some 1000\<rparr>]"
    by (simp_all add: get_active_terminal_by_token_def touch_terminal_seen_def tables demo_counter_defs)
  have "is_invoices (sv_ledger demo_counter) = [demo_sold]" "inv_id demo_sold = 7" "inv_status demo_sold = Unpaid"
    "inv_nym_owner demo_sold = Some ''bob''" "inv_terminal_id demo_sold = Some 6"
    by (simp_all add: demo_counter_def demo_sold_def demo_shop_rows)
  moreover from this have "cancel_invoice 1000 7 [demo_sold]
      = Inr (1, ''cancelled'', [demo_sold\<lparr>inv_status := Cancelled, inv_cancelled_at := Some 1000\<rparr>])"
    "get_invoice_by_id 7 [demo_sold] = Some demo_sold"
    by (simp_all add: cancel_invoice_def tables split_beta Let_def get_invoice_by_id_def select_one_def)
  ultimately show ?thesis
    by (simp add: cancel_terminal_invoice_def authenticate_terminal_def andThen_def handler_defs token terminal load_invoice_def
        cancel_row_def)
qed

lemma terminal_sales_need_a_live_token_witness:
  "\<exists>t. live_token demo_till demo_bearer ''bob'' demo_counter t"
proof -
  let ?i = "demo_sold\<lparr>inv_status := Cancelled, inv_cancelled_at := Some 1000\<rparr>"
  have "?i \<in> set (is_invoices (sv_ledger (serve_pos demo_till (demo_bearer, Delete_sale ''bob'' 7) demo_counter)))"
    unfolding demo_cancelled_sale by simp
  moreover have "?i \<notin> set (is_invoices (sv_ledger demo_counter))"
    by (simp add: demo_counter_def demo_sold_def demo_unpaid_def invoice_of_new_def)
  ultimately show ?thesis
    using terminal_sales_need_a_live_token[OF demo_counter_ok(2), of ?i demo_till demo_bearer "Delete_sale ''bob'' 7"] by auto
qed

lemma only_the_owner_cancels_witness:
  "cancels demo_till (Inr (demo_bearer, Delete_sale ''bob'' 7)) demo_counter (row_key demo_sold)"
proof -
  let ?q = "Inr (demo_bearer, Delete_sale ''bob'' 7)" and ?i = "demo_sold\<lparr>inv_status := Cancelled, inv_cancelled_at := Some 1000\<rparr>"
  have "?i \<in> set (is_invoices (sv_ledger (fold (serve_sales demo_till) [?q] demo_counter)))"
    by (simp add: serve_sales_def demo_cancelled_sale del: serve_pos.simps)
  moreover have key: "row_key ?i = row_key demo_sold" by (simp add: row_key_def)
  moreover have "row_key ?i \<notin> cancelled_keys (sv_ledger demo_counter)"
    using demo_shop_rows(4) by (auto simp: cancelled_keys_def demo_counter_def demo_sold_def row_key_def)
  ultimately obtain before q rest where "[?q] = before @ q # rest"
    "cancels demo_till q (fold (serve_sales demo_till) before demo_counter) (row_key ?i)"
    using only_the_owner_cancels[OF demo_counter_ok(2), of ?i demo_till "[?q]"] by auto
  then show ?thesis unfolding key by (simp add: Cons_eq_append_conv)
qed

lemma demo_counter_ledger: "ledger_ok (sv_ledger demo_counter)"
  by (simp add: ledger_ok_def demo_counter_def demo_sold_def demo_shop_def no_double_credit_def row_ok_def
      invoice_checks_def demo_unpaid_def invoice_of_new_def demo_new_invoice_def uncredited_def events_of_def i64_max_def)

lemma pos_requests_refine_the_tables_witness:
  "pos_ok ((sv_pos demo_counter)\<lparr>po_terminals := [demo_waiting, demo_terminal\<lparr>pt_last_seen_at := Some 1000\<rparr>]\<rparr>)
   \<and> ledger_ok ((sv_ledger demo_counter)\<lparr>is_invoices := [demo_sold\<lparr>inv_status := Cancelled, inv_cancelled_at := Some 1000\<rparr>]\<rparr>)"
  using pos_requests_refine_the_tables[OF demo_counter_ok(1) demo_counter_ledger, of demo_till
      "[(demo_bearer, Delete_sale ''bob'' 7)]"]
  by (simp add: demo_cancelled_sale del: serve_pos.simps)

text \<open>Two wrong codes from one address, with a limit of one: both looks come before both records, and both
  are answered that the code was wrong.\<close>
definition demo_guess :: "claim_phase \<Rightarrow> claim_task" where
  "demo_guess ph = \<lparr>ct_request = demo_request (Some (V4 9 9 9 9)), ct_claim = demo_claiming ''A'', ct_phase = ph\<rparr>"

lemma demo_wrong_code:
  assumes "sv_pos s = sv_pos demo_counter" "sv_users s = sv_users demo_counter"
  shows "claim_checked demo_till (demo_request ip) (demo_claiming ''A'') s = (Inr None, s)"
proof -
  have fields: "kp_nym (demo_claiming c) = ''bob''" "kp_npub (demo_claiming c) = replicate 64 CHR ''d''"
    "kp_code (demo_claiming c) = c" "kp_label (demo_claiming c) = None" "kp_pos_ct_descriptor (demo_claiming c) = ''x''" for c
    by (simp_all add: demo_claiming_def)
  have "get_user_by_npub (replicate 64 CHR ''d'') (us_users (sv_users s)) = Some demo_merchant" "u_nym demo_merchant = ''bob''"
    using demo_claim_checks(3) assms(2) by (auto simp: assert_nym_owner_def andThen_ok)
  then have owner: "assert_nym_owner ''bob'' (replicate 64 CHR ''d'') s = (Inr demo_merchant, s)"
    by (simp add: assert_nym_owner_def andThen_def handler_defs)
  have page: "page_not_archived ''bob'' e s = (Inr (), s)" for e
    using demo_claim_checks(4)[of e] assms(1) by (simp add: page_not_archived_iff)
  have sha: "px_sha256_hex demo_till c = c" for c by (simp add: demo_till_def demo_invoices_def)
  have row: "claim_row (demo_request ip) ''bob'' ''A'' npub lab d s = (Inr None, s)" for npub lab d
    using assms(1) by (simp add: claim_row_def claim_pos_pairing_def demo_counter_defs)
  show ?thesis
    using demo_claim_checks(1,2) by (simp add: claim_checked_def andThen_def handler_defs fields owner page sha row validate_label_def)
qed

lemma pairing_guesses_are_bounded_witness:
  "\<exists>s'. (claims_step demo_till (V4 9 9 9 9) 1000 2)\<^sup>*\<^sup>* (demo_counter, [demo_guess Arrived, demo_guess Arrived])
       (s', [demo_guess Wrong, demo_guess Wrong])
     \<and> count wrong [demo_guess Wrong, demo_guess Wrong] \<le> failure_limit demo_counter + 1 \<and> failure_limit demo_counter = 1"
proof -
  let ?rq = "demo_request (Some (V4 9 9 9 9))" and ?ip = "V4 9 9 9 9" and ?g = "px_gates demo_till"
  let ?step = "claims_step demo_till ?ip 1000 2"
  have ip: "pos_subject ?g ?rq = Some ?ip"
    by (simp add: pos_subject_def demo_till_def demo_invoices_def demo_no_ip)
      (simp add: whitelisted_def demo_gates_def whitelist_contains_def)
  have now: "at_time 1000 ?rq = ?rq" by (simp add: demo_request_def)
  have task: "(demo_guess ph)\<lparr>ct_phase := ph'\<rparr> = demo_guess ph'" "ct_request (demo_guess ph) = ?rq" "ct_phase (demo_guess ph) = ph"
    "ct_claim (demo_guess ph) = demo_claiming ''A''" for ph ph'
    by (simp_all add: demo_guess_def)
  have limit: "failure_limit demo_counter = 1" "failures_since 1000 ?ip demo_counter = 0"
    by (simp_all add: failure_limit_def failures_since_def demo_counter_def demo_limits_def deque_of_def)
  have look: "\<exists>t. claim_failure_gate ?g ?rq s = (Inr (), t) \<and> sv_pos t = sv_pos s \<and> sv_users t = sv_users s
      \<and> failure_limit t = failure_limit s \<and> deque_of (''pos_pair_claim_fail:'' @ source_key ?ip) (rl_inmem (sv_limiter t)) = []"
    if "failure_limit s = 1" "deque_of (''pos_pair_claim_fail:'' @ source_key ?ip) (rl_inmem (sv_limiter s)) = []" for s
    using that
    by (intro exI[of _ "snd (claim_failure_gate ?g ?rq s)"])
      (simp add: claim_failure_gate_def ip limited_def check_pos_pairing_claim_failure_per_source_def inmem_sliding_peek_def
        peek_count_def Let_def failure_limit_def prune_old_def del: source_key.simps One_nat_def)
  have "deque_of (''pos_pair_claim_fail:'' @ source_key ?ip) (rl_inmem (sv_limiter demo_counter)) = []"
    by (simp add: demo_counter_def demo_limits_def deque_of_def)
  from look[OF limit(1) this] obtain s1 where s1: "claim_failure_gate ?g ?rq demo_counter = (Inr (), s1)" "sv_pos s1 = sv_pos demo_counter"
      "sv_users s1 = sv_users demo_counter" "failure_limit s1 = 1"
      "deque_of (''pos_pair_claim_fail:'' @ source_key ?ip) (rl_inmem (sv_limiter s1)) = []" using limit(1) by auto
  from look[OF s1(4,5)] obtain s2 where s2: "claim_failure_gate ?g ?rq s1 = (Inr (), s2)" "sv_pos s2 = sv_pos demo_counter"
      "sv_users s2 = sv_users demo_counter" using s1 by auto
  obtain x3 s3 where s3: "claim_answer demo_till ?rq (demo_claiming ''A'') None s2 = (x3, s3)" by fastforce
  obtain x4 s4 where s4: "claim_answer demo_till ?rq (demo_claiming ''A'') None s3 = (x4, s4)" by fastforce
  have wrong: "claim_checked demo_till ?rq (demo_claiming ''A'') s2 = (Inr None, s2)" by (rule demo_wrong_code[OF s2(2,3)])
  have "?step (demo_counter, [demo_guess Arrived, demo_guess Arrived]) (s1, [demo_guess Admitted, demo_guess Arrived])"
    using cl_look[of 0 "[demo_guess Arrived, demo_guess Arrived]" 2 1000 1000 demo_till demo_counter "Inr ()" s1] s1(1)
    by (simp add: task now count_def in_flight_def secs_def after_look_def)
  moreover have "?step (s1, [demo_guess Admitted, demo_guess Arrived]) (s2, [demo_guess Admitted, demo_guess Admitted])"
    using cl_look[of 1 "[demo_guess Admitted, demo_guess Arrived]" 2 1000 1000 demo_till s1 "Inr ()" s2] s2(1)
    by (simp add: task now count_def in_flight_def secs_def after_look_def)
  moreover have "?step (s2, [demo_guess Admitted, demo_guess Admitted]) (s2, [demo_guess Missed, demo_guess Admitted])"
    using cl_check[of 0 "[demo_guess Admitted, demo_guess Admitted]" demo_till 1000 s2 "Inr None" s2] wrong
    by (simp add: task now after_check_def)
  moreover have "?step (s2, [demo_guess Missed, demo_guess Admitted]) (s2, [demo_guess Missed, demo_guess Missed])"
    using cl_check[of 1 "[demo_guess Missed, demo_guess Admitted]" demo_till 1000 s2 "Inr None" s2] wrong
    by (simp add: task now after_check_def)
  moreover have "?step (s2, [demo_guess Missed, demo_guess Missed]) (s3, [demo_guess Wrong, demo_guess Missed])"
    using cl_record[of 0 "[demo_guess Missed, demo_guess Missed]" 1000 1000 demo_till s2 x3 s3] s3
    by (simp add: task now secs_def)
  moreover have "?step (s3, [demo_guess Wrong, demo_guess Missed]) (s4, [demo_guess Wrong, demo_guess Wrong])"
    using cl_record[of 1 "[demo_guess Wrong, demo_guess Missed]" 1000 1000 demo_till s3 x4 s4] s4
    by (simp add: task now secs_def)
  ultimately have run: "?step\<^sup>*\<^sup>* (demo_counter, [demo_guess Arrived, demo_guess Arrived]) (s4, [demo_guess Wrong, demo_guess Wrong])"
    by (meson converse_rtranclp_into_rtranclp rtranclp.rtrancl_refl)
  from pairing_guesses_are_bounded[OF run] run show ?thesis using limit ip by (auto simp: task)
qed

end
