(* ===== verification/ImagePipeline.thy ===== *)
theory ImagePipeline
  imports Service "HOL-Library.Word"
begin

text \<open>
  The image pipeline of the donation pages (src/src/image_pipeline.rs): sniffing the
  format, the budgets checked before decoding, the re-encoding and the atomic
  write.  Decoder, resizer, encoders and the hash are arguments.  The file
  system is a map from paths (lists of components) to contents; which of its
  calls fails, and how much of a failed write has reached the disk, is an argument too.
\<close>

subsection \<open>Kinds and formats\<close>

datatype image_kind = Avatar | Og

fun image_kind_as_str :: "image_kind \<Rightarrow> string" where
  "image_kind_as_str Avatar = ''avatar''"
| "image_kind_as_str Og = ''og''"

definition image_kind_parse :: "string \<Rightarrow> image_kind option" where
  "image_kind_parse s = (if s = ''avatar'' then Some Avatar else if s = ''og'' then Some Og else None)"

datatype sniffed_format = Sniffed_jpeg | Sniffed_png | Sniffed_webp

text \<open>\<open>image::ImageFormat\<close>, as far as it is used.\<close>
datatype image_format = Jpeg | Png | WebP

fun to_image_format :: "sniffed_format \<Rightarrow> image_format" where
  "to_image_format Sniffed_jpeg = Jpeg"
| "to_image_format Sniffed_png = Png"
| "to_image_format Sniffed_webp = WebP"

definition jpeg_magic :: string where "jpeg_magic = [CHR 0xFF, CHR 0xD8, CHR 0xFF]"
definition png_magic :: string where
  "png_magic = [CHR 0x89, CHR 0x50, CHR 0x4E, CHR 0x47, CHR 0x0D, CHR 0x0A, CHR 0x1A, CHR 0x0A]"

definition sniff_format :: "string \<Rightarrow> sniffed_format option" where
  "sniff_format bytes =
    (if length bytes < 12 then None
     else if starts_with jpeg_magic bytes then Some Sniffed_jpeg
     else if starts_with png_magic bytes then Some Sniffed_png
     else if take 4 bytes = ''RIFF'' \<and> take 4 (drop 8 bytes) = ''WEBP'' then Some Sniffed_webp
     else None)"

subsection \<open>Processing\<close>

record processed_image =
  im_bytes :: string
  im_source_sha256 :: string

record pipeline_config =
  pc_max_bytes :: nat
  pc_max_dimension :: "32 word"
  pc_max_pixels :: "64 word"
  pc_avatar_size :: "32 word"
  pc_og_width :: "32 word"
  pc_og_height :: "32 word"

record 'img image_lib =
  il_dimensions :: "image_format \<Rightarrow> string \<Rightarrow> string + 32 word \<times> 32 word"
  il_decode :: "image_format \<Rightarrow> string \<Rightarrow> string + 'img"
  il_resize_to_fill :: "'img \<Rightarrow> 32 word \<Rightarrow> 32 word \<Rightarrow> 'img"
  il_to_rgb8 :: "'img \<Rightarrow> 'img"
  il_webp_lossless :: "'img \<Rightarrow> string + string"
  il_jpeg :: "nat \<Rightarrow> 'img \<Rightarrow> string + string"
  il_sha256_hex :: "string \<Rightarrow> string"

text \<open>The header-only probe against the budgets.\<close>
definition check_dimensions :: "pipeline_config \<Rightarrow> 32 word \<times> 32 word \<Rightarrow> app_error + unit" where
  "check_dimensions cfg d =
    (let (w, h) = d; pixels = (ucast w :: 64 word) * ucast h in
     if pc_max_dimension cfg < w \<or> pc_max_dimension cfg < h
       then Inl (ImageDimensionsTooLarge (unat (pc_max_dimension cfg)))
     else if pc_max_pixels cfg < pixels then Inl (ImagePixelsTooLarge (unat (pc_max_pixels cfg)))
     else Inr ())"

definition resize :: "'img image_lib \<Rightarrow> image_kind \<Rightarrow> pipeline_config \<Rightarrow> 'img \<Rightarrow> 'img" where
  "resize l kind cfg img =
    (case kind of
       Avatar \<Rightarrow> il_resize_to_fill l img (pc_avatar_size cfg) (pc_avatar_size cfg)
     | Og \<Rightarrow> il_resize_to_fill l img (pc_og_width cfg) (pc_og_height cfg))"

definition encode :: "'img image_lib \<Rightarrow> image_kind \<Rightarrow> 'img \<Rightarrow> app_error + string" where
  "encode l kind resized =
    (case kind of
       Avatar \<Rightarrow> map_sum (\<lambda>e. ImageInvalid (''webp encode failed: '' @ e)) id (il_webp_lossless l resized)
     | Og \<Rightarrow> map_sum (\<lambda>e. ImageInvalid (''jpeg encode failed: '' @ e)) id (il_jpeg l 85 (il_to_rgb8 l resized)))"

definition process_image :: "'img image_lib \<Rightarrow> string \<Rightarrow> image_kind \<Rightarrow> pipeline_config \<Rightarrow> app_error + processed_image" where
  "process_image l bytes kind cfg =
    (if bytes = [] then Inl (ImageInvalid ''empty body'')
     else if pc_max_bytes cfg < length bytes
       then Inl (ImageInvalid (show_nat (length bytes) @ '' bytes exceeds cap '' @ show_nat (pc_max_bytes cfg)))
     else case sniff_format bytes of
       None \<Rightarrow> Inl (ImageInvalid ''unrecognized magic bytes (only JPEG/PNG/WebP accepted)'')
     | Some sniffed \<Rightarrow>
        (let format = to_image_format sniffed in
         case il_dimensions l format bytes of
           Inl e \<Rightarrow> Inl (ImageInvalid (''dimension probe failed: '' @ e))
         | Inr d \<Rightarrow>
            (case check_dimensions cfg d of
               Inl e \<Rightarrow> Inl e
             | Inr _ \<Rightarrow>
                (case il_decode l format bytes of
                   Inl e \<Rightarrow> Inl (ImageInvalid (''decode failed: '' @ e))
                 | Inr img \<Rightarrow>
                    map_sum id (\<lambda>out. \<lparr>im_bytes = out, im_source_sha256 = il_sha256_hex l bytes\<rparr>)
                      (encode l kind (resize l kind cfg img))))))"

subsection \<open>Paths and the atomic write\<close>

type_synonym path = "string list"

definition image_path :: "string \<Rightarrow> string \<Rightarrow> image_kind \<Rightarrow> path" where
  "image_path image_root nym kind =
    (let ext = (case kind of Avatar \<Rightarrow> ''webp'' | Og \<Rightarrow> ''jpg'')
     in [image_root, nym, image_kind_as_str kind @ ''.'' @ ext])"

text \<open>The file name up to its last dot; a name without one, or with only a leading one, is all stem.\<close>
definition file_stem :: "string \<Rightarrow> string" where
  "file_stem name =
    (let stem = rev (tl (dropWhile (\<lambda>c. c \<noteq> CHR ''.'') (rev name)))
     in if CHR ''.'' \<notin> set name \<or> stem = [] \<or> name = ''..'' then name else stem)"

definition with_extension :: "path \<Rightarrow> string \<Rightarrow> path" where
  "with_extension p ext =
    (if p = [] then []
     else butlast p @ [if ext = [] then file_stem (last p) else file_stem (last p) @ ''.'' @ ext])"

record file_system =
  fs_dirs :: "path list"
  fs_files :: "path \<Rightarrow> string option"

text \<open>What the operating system answers to the calls of one write: None is success, a write
  that fails has appended that many bytes.\<close>
record os_answers =
  os_create_dir :: "string option"
  os_create :: "string option"
  os_write :: "(nat \<times> string) option"
  os_sync :: "string option"
  os_rename :: "string option"
  os_remove :: "string option"

definition os_call :: "string option \<Rightarrow> (file_system \<Rightarrow> file_system) \<Rightarrow> (file_system, string, unit) handler" where
  "os_call answer change = (case answer of None \<Rightarrow> modifies change | Some e \<Rightarrow> fail e)"

definition create_dir_all :: "path \<Rightarrow> file_system \<Rightarrow> file_system" where
  "create_dir_all p fs = fs\<lparr>fs_dirs := p # fs_dirs fs\<rparr>"

definition file_create :: "path \<Rightarrow> file_system \<Rightarrow> file_system" where
  "file_create p fs = fs\<lparr>fs_files := (fs_files fs)(p \<mapsto> [])\<rparr>"

definition file_append :: "path \<Rightarrow> string \<Rightarrow> file_system \<Rightarrow> file_system" where
  "file_append p bytes fs = (case fs_files fs p of None \<Rightarrow> fs | Some old \<Rightarrow> fs\<lparr>fs_files := (fs_files fs)(p \<mapsto> old @ bytes)\<rparr>)"

definition file_rename :: "path \<Rightarrow> path \<Rightarrow> file_system \<Rightarrow> file_system" where
  "file_rename a b fs = fs\<lparr>fs_files := (fs_files fs)(b := fs_files fs a, a := None)\<rparr>"

definition file_remove :: "path \<Rightarrow> file_system \<Rightarrow> file_system" where
  "file_remove p fs = fs\<lparr>fs_files := (fs_files fs)(p := None)\<rparr>"

definition write_all :: "(nat \<times> string) option \<Rightarrow> path \<Rightarrow> string \<Rightarrow> (file_system, string, unit) handler" where
  "write_all answer p bytes =
    (case answer of
       None \<Rightarrow> modifies (file_append p bytes)
     | Some (n, e) \<Rightarrow> andThen (modifies (file_append p (take n bytes))) (\<lambda>_. fail e))"

definition tmp_path :: "path \<Rightarrow> uuid \<Rightarrow> path" where
  "tmp_path final_path fresh = with_extension final_path (''img.tmp.'' @ uuid_text fresh)"

definition atomic_write ::
  "os_answers \<Rightarrow> uuid \<Rightarrow> path \<Rightarrow> string \<Rightarrow> (file_system, string, unit) handler" where
  "atomic_write os fresh final_path bytes =
    (let tmp = tmp_path final_path fresh in
     andThen (os_call (os_create_dir os) (create_dir_all (butlast final_path))) (\<lambda>_.
     andThen (os_call (os_create os) (file_create tmp)) (\<lambda>_.
     andThen (write_all (os_write os) tmp bytes) (\<lambda>_.
     andThen (os_call (os_sync os) id) (\<lambda>_.
       case os_rename os of
         None \<Rightarrow> modifies (file_rename tmp final_path)
       | Some e \<Rightarrow> andThen (case os_remove os of None \<Rightarrow> modifies (file_remove tmp) | Some _ \<Rightarrow> pure ())
                    (\<lambda>_. fail e))))))"

end
