(* ===== verification/ImageProperties.thy ===== *)
theory ImageProperties
  imports ImagePipeline
begin

text \<open>
  The image pipeline never decodes beyond its budgets, and concurrent uploads to one
  place leave a whole image there at every moment.
\<close>

subsection \<open>The budgets\<close>

lemma pixels_exact: "unat ((ucast w :: 64 word) * ucast h) = unat (w :: 32 word) * unat (h :: 32 word)"
proof -
  have small: "unat w < 2 ^ 32" "unat h < 2 ^ 32"
    using unsigned_less[of w] unsigned_less[of h] by simp_all
  then have "unat w * unat h < 2 ^ 32 * 2 ^ 32" by (intro mult_strict_mono) simp_all
  moreover have "unat (ucast w :: 64 word) = unat w" "unat (ucast h :: 64 word) = unat h"
    using small by (simp_all add: unsigned_ucast_eq take_bit_eq_mod)
  ultimately show ?thesis by (simp add: unat_word_ariths)
qed

lemma dimensions_checked:
  "check_dimensions cfg (w, h) = Inr () \<longleftrightarrow> w \<le> pc_max_dimension cfg \<and> h \<le> pc_max_dimension cfg
     \<and> unat w * unat h \<le> unat (pc_max_pixels cfg)"
proof -
  have "(ucast w :: 64 word) * ucast h \<le> pc_max_pixels cfg \<longleftrightarrow> unat w * unat h \<le> unat (pc_max_pixels cfg)"
    unfolding word_le_nat_alt pixels_exact ..
  then show ?thesis by (auto simp: check_dimensions_def Let_def not_less)
qed

text \<open>C30: The decoder is out of reach of an upload that is over budget: if it can make any difference
  what the decoder does, then the upload is within the byte cap, its magic bytes name the
  format, and the dimensions its header reports are within the limit on each axis and,
  multiplied without overflow, within the pixel budget.\<close>
theorem decoder_stays_within_budget:
  assumes "process_image (l\<lparr>il_decode := d\<rparr>) bytes kind cfg \<noteq> process_image (l\<lparr>il_decode := d'\<rparr>) bytes kind cfg"
  shows "\<exists>f w h. sniff_format bytes = Some f \<and> il_dimensions l (to_image_format f) bytes = Inr (w, h)
    \<and> d (to_image_format f) bytes \<noteq> d' (to_image_format f) bytes
    \<and> length bytes \<le> pc_max_bytes cfg \<and> w \<le> pc_max_dimension cfg \<and> h \<le> pc_max_dimension cfg
    \<and> unat w * unat h \<le> unat (pc_max_pixels cfg)"
proof -
  have fixed: "il_dimensions (l\<lparr>il_decode := x\<rparr>) = il_dimensions l" "il_sha256_hex (l\<lparr>il_decode := x\<rparr>) = il_sha256_hex l"
    "resize (l\<lparr>il_decode := x\<rparr>) = resize l" "encode (l\<lparr>il_decode := x\<rparr>) = encode l" for x
    by (simp_all add: resize_def encode_def fun_eq_iff split: image_kind.split)
  have same: "process_image (l\<lparr>il_decode := d\<rparr>) bytes kind cfg = process_image (l\<lparr>il_decode := d'\<rparr>) bytes kind cfg"
    if "pc_max_bytes cfg < length bytes \<or> sniff_format bytes = None
      \<or> (\<exists>f. sniff_format bytes = Some f \<and> ((\<exists>e. il_dimensions l (to_image_format f) bytes = Inl e)
          \<or> (\<exists>x. il_dimensions l (to_image_format f) bytes = Inr x
              \<and> ((\<exists>e. check_dimensions cfg x = Inl e) \<or> d (to_image_format f) bytes = d' (to_image_format f) bytes))))"
    using that by (auto simp: process_image_def fixed Let_def split: sum.split)
  obtain f where f: "sniff_format bytes = Some f" using same assms by fastforce
  obtain w h where dims: "il_dimensions l (to_image_format f) bytes = Inr (w, h)"
    using same assms f by (cases "il_dimensions l (to_image_format f) bytes") auto
  have "check_dimensions cfg (w, h) = Inr ()"
    using same assms f dims by (cases "check_dimensions cfg (w, h)") auto
  moreover have "d (to_image_format f) bytes \<noteq> d' (to_image_format f) bytes" "\<not> pc_max_bytes cfg < length bytes"
    using same assms f dims by auto
  ultimately show ?thesis using f dims by (auto simp: dimensions_checked not_less)
qed

subsection \<open>Concurrent uploads\<close>

text \<open>Any number of uploads to one place, interleaved call by call.  A write reaches the disk in
  any number of chunks; at any moment an upload may fail, with or without removing its
  temporary file, or never go on.\<close>

datatype upload_phase = Waiting | Writing nat | Done | Failed

record upload =
  wr_id :: uuid
  wr_bytes :: string
  wr_phase :: upload_phase

abbreviation upload_tmp :: "path \<Rightarrow> upload \<Rightarrow> path" where
  "upload_tmp final w \<equiv> tmp_path final (wr_id w)"

inductive upload_step :: "path \<Rightarrow> file_system \<times> upload list \<Rightarrow> file_system \<times> upload list \<Rightarrow> bool" for final where
  us_create_dir: "upload_step final (fs, us) (create_dir_all p fs, us)"
| us_create: "i < length us \<Longrightarrow> wr_phase (us ! i) = Waiting \<Longrightarrow>
    upload_step final (fs, us) (file_create (upload_tmp final (us ! i)) fs, us[i := (us ! i)\<lparr>wr_phase := Writing 0\<rparr>])"
| us_append: "i < length us \<Longrightarrow> wr_phase (us ! i) = Writing n \<Longrightarrow> n + k \<le> length (wr_bytes (us ! i)) \<Longrightarrow>
    upload_step final (fs, us) (file_append (upload_tmp final (us ! i)) (take k (drop n (wr_bytes (us ! i)))) fs,
      us[i := (us ! i)\<lparr>wr_phase := Writing (n + k)\<rparr>])"
| us_rename: "i < length us \<Longrightarrow> wr_phase (us ! i) = Writing (length (wr_bytes (us ! i))) \<Longrightarrow>
    upload_step final (fs, us) (file_rename (upload_tmp final (us ! i)) final fs, us[i := (us ! i)\<lparr>wr_phase := Done\<rparr>])"
| us_fail: "i < length us \<Longrightarrow> wr_phase (us ! i) \<noteq> Done \<Longrightarrow>
    upload_step final (fs, us) (fs, us[i := (us ! i)\<lparr>wr_phase := Failed\<rparr>])"
| us_cleanup: "i < length us \<Longrightarrow> wr_phase (us ! i) = Writing n \<Longrightarrow>
    upload_step final (fs, us) (file_remove (upload_tmp final (us ! i)) fs, us[i := (us ! i)\<lparr>wr_phase := Failed\<rparr>])"

text \<open>What the place shows: nothing new before an upload is done, and a whole upload after.\<close>
definition shows_whole :: "path \<Rightarrow> string option \<Rightarrow> file_system \<Rightarrow> upload list \<Rightarrow> bool" where
  "shows_whole final old fs us \<longleftrightarrow>
     (if \<exists>w\<in>set us. wr_phase w = Done
      then \<exists>w\<in>set us. wr_phase w = Done \<and> fs_files fs final = Some (wr_bytes w)
      else fs_files fs final = old)"

definition uploads_ok :: "path \<Rightarrow> string option \<Rightarrow> file_system \<Rightarrow> upload list \<Rightarrow> bool" where
  "uploads_ok final old fs us \<longleftrightarrow> distinct (map (upload_tmp final) us) \<and> final \<notin> set (map (upload_tmp final) us)
     \<and> (\<forall>w\<in>set us. \<forall>n. wr_phase w = Writing n \<longrightarrow> fs_files fs (upload_tmp final w) = Some (take n (wr_bytes w)))
     \<and> shows_whole final old fs us"

text \<open>One upload moves on: the others keep their temporary files, and the place shows what it did,
  or the finished upload.\<close>
lemma uploads_ok_move:
  assumes ok: "uploads_ok final old fs us" and i: "i < length us" "wr_phase (us ! i) \<noteq> Done"
    and frame: "\<And>p. p \<noteq> upload_tmp final (us ! i) \<Longrightarrow> p \<noteq> final \<Longrightarrow> fs_files fs' p = fs_files fs p"
    and own: "\<And>n. ph = Writing n \<Longrightarrow> fs_files fs' (upload_tmp final (us ! i)) = Some (take n (wr_bytes (us ! i)))"
    and place: "fs_files fs' final = (if ph = Done then Some (wr_bytes (us ! i)) else fs_files fs final)"
  shows "uploads_ok final old fs' (us[i := (us ! i)\<lparr>wr_phase := ph\<rparr>])"
proof -
  let ?w = "(us ! i)\<lparr>wr_phase := ph\<rparr>" and ?us = "us[i := (us ! i)\<lparr>wr_phase := ph\<rparr>]"
  have tmps: "map (upload_tmp final) ?us = map (upload_tmp final) us"
    by (simp add: map_update) (metis i(1) list_update_id map_update nth_map)
  have dist: "distinct (map (upload_tmp final) us)" "final \<notin> set (map (upload_tmp final) us)"
    using ok by (simp_all add: uploads_ok_def)
  have other: "upload_tmp final (us ! j) \<noteq> upload_tmp final (us ! i)" if "j < length us" "j \<noteq> i" for j
    using dist(1) i(1) that by (metis length_map nth_eq_iff_index_eq nth_map)
  have whole: "\<forall>w\<in>set us. \<forall>n. wr_phase w = Writing n \<longrightarrow> fs_files fs (upload_tmp final w) = Some (take n (wr_bytes w))"
    "shows_whole final old fs us" using ok by (simp_all add: uploads_ok_def)
  have "fs_files fs' (upload_tmp final w) = Some (take n (wr_bytes w))" if w: "w \<in> set ?us" "wr_phase w = Writing n" for w n
  proof -
    obtain j where j: "j < length us" "w = ?us ! j" using w(1) by (auto simp: in_set_conv_nth)
    show ?thesis
    proof (cases "j = i")
      case True
      then show ?thesis using j w(2) own by simp
    next
      case False
      then have "w = us ! j" using j by simp
      moreover have "upload_tmp final (us ! j) \<noteq> final" using dist(2) j(1) by (metis imageI list.set_map nth_mem)
      ultimately show ?thesis using whole(1) w(2) j(1) other[OF j(1) False] frame by (metis nth_mem)
    qed
  qed
  moreover have "shows_whole final old fs' ?us"
  proof (cases "ph = Done")
    case True
    then have "?w \<in> set ?us" "wr_phase ?w = Done" "fs_files fs' final = Some (wr_bytes ?w)"
      using i(1) place by (simp_all add: set_update_memI)
    then show ?thesis unfolding shows_whole_def by (metis (full_types))
  next
    case False
    have "w \<in> set ?us \<longleftrightarrow> w \<in> set us" if "wr_phase w = Done" for w
    proof -
      have "w \<noteq> ?w" "w \<noteq> us ! i" using that False i(2) by auto
      moreover have "set ?us \<subseteq> insert ?w (set us)" by (rule set_update_subset_insert)
      moreover have "w \<in> set ?us" if "w \<in> set us" "w \<noteq> us ! i"
        using that unfolding in_set_conv_nth by (metis length_list_update nth_list_update_neq)
      ultimately show ?thesis by blast
    qed
    then show ?thesis using whole(2) place False unfolding shows_whole_def by (metis (full_types))
  qed
  ultimately show ?thesis using dist by (simp add: uploads_ok_def tmps)
qed

lemma file_changes:
  "fs_files (create_dir_all p fs) = fs_files fs"
  "fs_files (file_create p fs) = (fs_files fs)(p \<mapsto> [])"
  "fs_files (file_rename a b fs) = (fs_files fs)(b := fs_files fs a, a := None)"
  "fs_files (file_remove p fs) = (fs_files fs)(p := None)"
  "fs_files fs p = Some old \<Longrightarrow> fs_files (file_append p bytes fs) = (fs_files fs)(p \<mapsto> old @ bytes)"
  by (simp_all add: create_dir_all_def file_create_def file_rename_def file_remove_def file_append_def)

lemma upload_step_ok: "upload_step final x y \<Longrightarrow> uploads_ok final old (fst x) (snd x) \<Longrightarrow> uploads_ok final old (fst y) (snd y)"
proof (induction rule: upload_step.induct)
  case (us_create_dir fs us p)
  then show ?case by (simp add: uploads_ok_def shows_whole_def file_changes)
next
  case (us_create i us fs)
  have "final \<noteq> upload_tmp final (us ! i)" using us_create by (auto simp: uploads_ok_def)
  then show ?case using us_create unfolding fst_conv snd_conv by (intro uploads_ok_move) (auto simp: file_changes)
next
  case (us_append i us n k fs)
  let ?w = "us ! i"
  have w: "final \<noteq> upload_tmp final ?w" "fs_files fs (upload_tmp final ?w) = Some (take n (wr_bytes ?w))"
    using us_append by (auto simp: uploads_ok_def)
  have "take n (wr_bytes ?w) @ take k (drop n (wr_bytes ?w)) = take (n + k) (wr_bytes ?w)" by (simp add: take_add)
  then show ?case
    using us_append w unfolding fst_conv snd_conv by (intro uploads_ok_move) (auto simp: file_changes(5)[OF w(2)])
next
  case (us_rename i us fs)
  have "final \<noteq> upload_tmp final (us ! i)"
    "fs_files fs (upload_tmp final (us ! i)) = Some (wr_bytes (us ! i))"
    using us_rename by (auto simp: uploads_ok_def)
  then show ?case using us_rename unfolding fst_conv snd_conv by (intro uploads_ok_move) (auto simp: file_changes)
next
  case (us_fail i us fs)
  then show ?case unfolding fst_conv snd_conv by (intro uploads_ok_move) auto
next
  case (us_cleanup i us n fs)
  have "final \<noteq> upload_tmp final (us ! i)" using us_cleanup by (auto simp: uploads_ok_def)
  then show ?case using us_cleanup unfolding fst_conv snd_conv by (intro uploads_ok_move) (auto simp: file_changes)
qed

lemma image_name: "with_extension (image_path image_root nym kind) ext
    = [image_root, nym, image_kind_as_str kind @ (if ext = [] then [] else ''.'' @ ext)]"
  by (cases kind) (simp_all add: with_extension_def image_path_def file_stem_def Let_def)

lemma tmp_names:
  "tmp_path (image_path image_root nym kind) u \<noteq> image_path image_root nym kind"
  "tmp_path (image_path image_root nym kind) u = tmp_path (image_path image_root nym kind) v \<longleftrightarrow> uuid_text u = uuid_text v"
  unfolding tmp_path_def image_name by (cases kind; simp add: image_path_def Let_def del: uuid_text_def)
    (simp add: image_path_def)

lemma uploads_start:
  assumes "\<forall>w\<in>set us. wr_phase w = Waiting" "distinct (map (\<lambda>w. uuid_text (wr_id w)) us)"
  shows "uploads_ok (image_path image_root nym kind) (fs_files fs (image_path image_root nym kind)) fs us"
proof -
  have "distinct (map (upload_tmp (image_path image_root nym kind)) us)"
    using assms(2) by (induction us) (auto simp: tmp_names)
  moreover have "image_path image_root nym kind \<notin> set (map (upload_tmp (image_path image_root nym kind)) us)"
    unfolding set_map by (metis imageE tmp_names(1))
  ultimately show ?thesis using assms(1) by (auto simp: uploads_ok_def shows_whole_def)
qed

text \<open>One call of \<open>atomic_write\<close>, whatever the system answers, is such a run.\<close>
lemma atomic_write_is_a_run:
  assumes "atomic_write os fresh final bytes fs = (r, fs')"
  shows "\<exists>ph. (upload_step final)\<^sup>*\<^sup>* (fs, [\<lparr>wr_id = fresh, wr_bytes = bytes, wr_phase = Waiting\<rparr>])
      (fs', [\<lparr>wr_id = fresh, wr_bytes = bytes, wr_phase = ph\<rparr>]) \<and> (r = Inr () \<longleftrightarrow> ph = Done)"
proof -
  let ?u = "\<lambda>ph. [\<lparr>wr_id = fresh, wr_bytes = bytes, wr_phase = ph\<rparr>]" and ?t = "tmp_path final fresh"
  let ?fs1 = "create_dir_all (butlast final) fs"
  let ?fs2 = "file_create ?t ?fs1"
  let ?fs3 = "\<lambda>k. file_append ?t (take k bytes) ?fs2"
  have dir: "upload_step final (fs, ?u Waiting) (?fs1, ?u Waiting)" by (rule us_create_dir)
  have create: "upload_step final (?fs1, ?u Waiting) (?fs2, ?u (Writing 0))"
    using us_create[of 0 "?u Waiting" final ?fs1] by simp
  have append: "upload_step final (?fs2, ?u (Writing 0)) (?fs3 k, ?u (Writing (min k (length bytes))))" for k
    using us_append[of 0 "?u (Writing 0)" 0 "min k (length bytes)" final ?fs2]
    by (cases "k \<le> length bytes") (simp_all add: min_def)
  have wrote: "upload_step final (?fs2, ?u (Writing 0)) (file_append ?t bytes ?fs2, ?u (Writing (length bytes)))"
    using append[of "length bytes"] by simp
  have rename: "upload_step final (x, ?u (Writing (length bytes))) (file_rename ?t final x, ?u Done)" for x
    using us_rename[of 0 "?u (Writing (length bytes))" final x] by simp
  have failed: "upload_step final (x, ?u ph) (x, ?u Failed)" if "ph \<noteq> Done" for x ph
    using us_fail[of 0 "?u ph" final x] that by simp
  have cleanup: "upload_step final (x, ?u (Writing n)) (file_remove ?t x, ?u Failed)" for x n
    using us_cleanup[of 0 "?u (Writing n)" n final x] by simp
  note chain = converse_rtranclp_into_rtranclp[of "upload_step final"]
  consider (none) "\<exists>e. r = Inl e" "fs' = fs" | (dir) "\<exists>e. r = Inl e" "fs' = ?fs1" | (created) k where "\<exists>e. r = Inl e" "fs' = ?fs3 k"
    | (whole) "\<exists>e. r = Inl e" "fs' = file_append ?t bytes ?fs2"
    | (removed) "\<exists>e. r = Inl e" "fs' = file_remove ?t (file_append ?t bytes ?fs2)"
    | (renamed) "r = Inr ()" "fs' = file_rename ?t final (file_append ?t bytes ?fs2)"
    using assms
    by (auto simp: atomic_write_def Let_def andThen_def os_call_def write_all_def handler_defs
        split: option.splits prod.splits if_splits)
  then show ?thesis
  proof cases
    case none
    then show ?thesis using chain[OF failed] by (intro exI[of _ Failed]) auto
  next
    case dir
    then show ?thesis using chain[OF \<open>upload_step final (fs, ?u Waiting) (?fs1, ?u Waiting)\<close> chain[OF failed]]
      by (intro exI[of _ Failed]) auto
  next
    case (created k)
    then show ?thesis
      using chain[OF \<open>upload_step final (fs, ?u Waiting) (?fs1, ?u Waiting)\<close> chain[OF create chain[OF append[of k] chain[OF failed]]]]
      by (intro exI[of _ Failed]) auto
  next
    case whole
    then show ?thesis
      using chain[OF \<open>upload_step final (fs, ?u Waiting) (?fs1, ?u Waiting)\<close> chain[OF create chain[OF wrote chain[OF failed]]]]
      by (intro exI[of _ Failed]) auto
  next
    case removed
    then show ?thesis
      using chain[OF \<open>upload_step final (fs, ?u Waiting) (?fs1, ?u Waiting)\<close> chain[OF create chain[OF wrote chain[OF cleanup]]]]
      by (intro exI[of _ Failed]) auto
  next
    case renamed
    then show ?thesis
      using chain[OF \<open>upload_step final (fs, ?u Waiting) (?fs1, ?u Waiting)\<close> chain[OF create chain[OF wrote chain[OF rename]]]]
      by (intro exI[of _ Done]) auto
  qed
qed

text \<open>C31: An image is replaced whole: however many uploads to one nym and kind interleave their
  file system calls, and wherever they fail or stop, the place shows what it showed
  before until one of them is done, and from then on the complete bytes of one that is done.
  Every call of the atomic write is such a run, done exactly when it returns success.\<close>
theorem images_are_replaced_whole:
  assumes "final = image_path image_root nym kind"
    and "\<forall>w\<in>set us. wr_phase w = Waiting" "distinct (map (\<lambda>w. uuid_text (wr_id w)) us)"
    and "(upload_step final)\<^sup>*\<^sup>* (fs, us) (fs', us')"
    and "atomic_write os fresh final bytes fs0 = (r, fs0')"
  shows "shows_whole final (fs_files fs final) fs' us'
    \<and> (\<exists>ph. (upload_step final)\<^sup>*\<^sup>* (fs0, [\<lparr>wr_id = fresh, wr_bytes = bytes, wr_phase = Waiting\<rparr>])
        (fs0', [\<lparr>wr_id = fresh, wr_bytes = bytes, wr_phase = ph\<rparr>]) \<and> (r = Inr () \<longleftrightarrow> ph = Done))"
proof -
  have "uploads_ok final (fs_files fs final) (fst y) (snd y)" if "(upload_step final)\<^sup>*\<^sup>* (fs, us) y" for y
    using that
  proof (induction rule: rtranclp_induct)
    case base
    then show ?case using uploads_start[OF assms(2,3)] assms(1) by simp
  qed (rule upload_step_ok)
  then have "shows_whole final (fs_files fs final) fs' us'" using assms(4) by (fastforce simp: uploads_ok_def)
  then show ?thesis using atomic_write_is_a_run[OF assms(5)] by simp
qed

subsection \<open>Witnesses\<close>

definition demo_images :: "string image_lib" where
  "demo_images = \<lparr>il_dimensions = (\<lambda>f b. Inr (4, 2)), il_decode = (\<lambda>f b. Inl ''bad''), il_resize_to_fill = (\<lambda>i w h. i),
     il_to_rgb8 = id, il_webp_lossless = Inr, il_jpeg = (\<lambda>q. Inr), il_sha256_hex = id\<rparr>"

definition demo_budget :: pipeline_config where
  "demo_budget = \<lparr>pc_max_bytes = 20, pc_max_dimension = 4, pc_max_pixels = 8, pc_avatar_size = 2, pc_og_width = 4,
     pc_og_height = 2\<rparr>"

definition demo_jpeg :: string where
  "demo_jpeg = jpeg_magic @ ''123456789''"

lemma decoder_stays_within_budget_witness:
  "\<exists>f w h. sniff_format demo_jpeg = Some f \<and> il_dimensions demo_images (to_image_format f) demo_jpeg = Inr (w, h)
     \<and> unat w * unat h \<le> 8"
proof -
  have sniffed: "sniff_format demo_jpeg = Some Sniffed_jpeg" "length demo_jpeg = 12" "demo_jpeg \<noteq> []"
    by (simp_all add: sniff_format_def demo_jpeg_def jpeg_magic_def starts_with_def)
  have "check_dimensions demo_budget (4, 2) = Inr ()" by (simp add: dimensions_checked demo_budget_def)
  then have "process_image (demo_images\<lparr>il_decode := (\<lambda>f b. Inl ''bad'')\<rparr>) demo_jpeg Avatar demo_budget
      \<noteq> process_image (demo_images\<lparr>il_decode := (\<lambda>f b. Inr ''img'')\<rparr>) demo_jpeg Avatar demo_budget"
    using sniffed
    by (simp add: process_image_def Let_def demo_images_def encode_def resize_def demo_budget_def)
  from decoder_stays_within_budget[OF this] show ?thesis by (auto simp: demo_budget_def)
qed

lemma images_are_replaced_whole_witness:
  "shows_whole [''r'', ''bob'', ''avatar.webp''] None
     (snd (atomic_write \<lparr>os_create_dir = None, os_create = None, os_write = None, os_sync = None, os_rename = None,
        os_remove = None\<rparr> 7 [''r'', ''bob'', ''avatar.webp''] ''img'' \<lparr>fs_dirs = [], fs_files = Map.empty\<rparr>))
     [\<lparr>wr_id = 7, wr_bytes = ''img'', wr_phase = Done\<rparr>]"
proof -
  let ?os = "\<lparr>os_create_dir = None, os_create = None, os_write = None, os_sync = None, os_rename = None, os_remove = None\<rparr>"
  let ?p = "[''r'', ''bob'', ''avatar.webp'']" and ?fs = "\<lparr>fs_dirs = [], fs_files = Map.empty\<rparr>"
  let ?u = "\<lambda>ph. [\<lparr>wr_id = 7 :: uuid, wr_bytes = ''img'', wr_phase = ph\<rparr>]"
  have place: "?p = image_path ''r'' ''bob'' Avatar" by (simp add: image_path_def)
  obtain fs' where run: "atomic_write ?os 7 ?p ''img'' ?fs = (Inr (), fs')"
    by (simp add: atomic_write_def Let_def andThen_def os_call_def write_all_def handler_defs)
  obtain ph where ph: "(upload_step ?p)\<^sup>*\<^sup>* (?fs, ?u Waiting) (fs', ?u ph)" "ph = Done"
    using atomic_write_is_a_run[OF run] by auto
  have "shows_whole ?p (fs_files ?fs ?p) fs' (?u Done)"
    using images_are_replaced_whole[OF place, of "?u Waiting" ?fs fs' "?u ph" ?os 7 "''img''" ?fs "Inr ()" fs'] ph run by simp
  then show ?thesis by (simp add: run)
qed

end
