(* ===== verification/PageApi.thy ===== *)
theory PageApi
  imports PosApi ImagePipeline
begin

text \<open>
  The donation page endpoints (src/src/donation_page.rs): save, archive, read and the upload of an
  image.  The upload works on the tables and the file system; the multipart body is the list
  of what the parser hands out, field by field.
\<close>

definition page_action_save :: string where "page_action_save = ''donation-page-save''"
definition page_action_archive :: string where "page_action_archive = ''donation-page-archive''"
definition page_action_image :: string where "page_action_image = ''donation-page-image''"
definition max_header_len :: nat where "max_header_len = 80"
definition max_description_len :: nat where "max_description_len = 280"
definition max_social_link_len :: nat where "max_social_link_len = 200"
definition max_social_handle_len :: nat where "max_social_handle_len = 50"
definition max_multipart_fields :: nat where "max_multipart_fields = 64"
definition max_text_field :: nat where "max_text_field = 4096"

record ('net, 'd, 'xk, 'xs, 'img) page_env =
  ge_domain :: string
  ge_max_descriptor_len :: nat
  ge_gates :: "'net gates"
  ge_signing :: "('xk, 'xs) sig_scheme"
  ge_descriptors :: "'d descriptor_lib"
  ge_currencies :: "currency_view list"
  ge_images :: "'img image_lib"
  ge_pipeline :: pipeline_config
  ge_image_root_path :: string

text \<open>The tables and the files; a handler on either is one on both.\<close>
record page_state =
  gs_service :: service
  gs_files :: file_system

definition on_service :: "(service, 'e, 'a) handler \<Rightarrow> (page_state, 'e, 'a) handler" where
  "on_service m = (\<lambda>s. case m (gs_service s) of (r, t) \<Rightarrow> (r, s\<lparr>gs_service := t\<rparr>))"

definition on_files :: "(file_system, 'e, 'a) handler \<Rightarrow> (page_state, 'e, 'a) handler" where
  "on_files m = (\<lambda>s. case m (gs_files s) of (r, t) \<Rightarrow> (r, s\<lparr>gs_files := t\<rparr>))"

subsection \<open>Validation\<close>

record save_request =
  sp_nym :: string
  sp_npub :: string
  sp_ct_descriptor :: "string option"
  sp_header :: string
  sp_description :: string
  sp_display_currency :: string
  sp_website :: "string option"
  sp_twitter :: "string option"
  sp_instagram :: "string option"
  sp_enabled :: bool
  sp_timestamp :: nat
  sp_signature :: string

record archive_request =
  ar_nym :: string
  ar_npub :: string
  ar_timestamp :: nat
  ar_signature :: string

definition ascii_alnum :: "char \<Rightarrow> bool" where
  "ascii_alnum c \<longleftrightarrow> (let n = (of_char c :: nat) in
     (48 \<le> n \<and> n \<le> 57) \<or> (65 \<le> n \<and> n \<le> 90) \<or> (97 \<le> n \<and> n \<le> 122))"

text \<open>\<open>^[A-Za-z0-9_]{1,50}$\<close> and \<open>^[A-Za-z0-9._]{1,50}$\<close>.\<close>
definition twitter_handle_regex :: "string \<Rightarrow> bool" where
  "twitter_handle_regex s \<longleftrightarrow> 1 \<le> length s \<and> length s \<le> 50 \<and> list_all (\<lambda>c. ascii_alnum c \<or> c = CHR ''_'') s"

definition instagram_handle_regex :: "string \<Rightarrow> bool" where
  "instagram_handle_regex s \<longleftrightarrow> 1 \<le> length s \<and> length s \<le> 50
     \<and> list_all (\<lambda>c. ascii_alnum c \<or> c = CHR ''.'' \<or> c = CHR ''_'') s"

text \<open>\<open>filter(|s| !s.is_empty())\<close>.\<close>
definition non_empty :: "string option \<Rightarrow> string option" where
  "non_empty v = (case v of Some s \<Rightarrow> if s = [] then None else Some s | None \<Rightarrow> None)"

definition validate_website :: "string option \<Rightarrow> app_error + unit" where
  "validate_website v =
    (case v of
       None \<Rightarrow> Inr ()
     | Some w \<Rightarrow>
         if max_social_link_len < length w then Inl (DonationPageInvalid ''website too long'')
         else if w \<noteq> [] \<and> \<not> starts_with ''https://'' w
           then Inl (DonationPageInvalid ''website must start with https://'')
         else Inr ())"

definition validate_handle :: "(string \<Rightarrow> bool) \<Rightarrow> string \<Rightarrow> string \<Rightarrow> string option \<Rightarrow> app_error + unit" where
  "validate_handle regex rule name v =
    (case v of
       None \<Rightarrow> Inr ()
     | Some t \<Rightarrow>
         if t \<noteq> [] \<and> \<not> regex t then Inl (DonationPageInvalid (name @ '' handle: '' @ rule))
         else if max_social_handle_len < length t then Inl (DonationPageInvalid (name @ '' handle too long''))
         else Inr ())"

definition validate_lengths ::
  "('net, 'd, 'xk, 'xs, 'img) page_env \<Rightarrow> save_request \<Rightarrow> (service, app_error, unit) handler" where
  "validate_lengths env r =
    andThen (require (sp_header r \<noteq> [] \<and> length (sp_header r) \<le> max_header_len)
      (DonationPageInvalid (''header must be 1..='' @ show_nat max_header_len @ '' chars''))) (\<lambda>_.
    andThen (require (sp_description r \<noteq> [] \<and> length (sp_description r) \<le> max_description_len)
      (DonationPageInvalid (''description must be 1..='' @ show_nat max_description_len @ '' chars''))) (\<lambda>_.
    andThen (require (sp_display_currency r = normalize_currency_code (sp_display_currency r))
      (DonationPageInvalid ''display_currency must be a canonical uppercase ISO 4217 code'')) (\<lambda>_.
    andThen (require (is_supported_currency (ge_currencies env) (sp_display_currency r))
      (DonationPageInvalid ''display_currency is not supported; fetch /api/v1/supported-currencies'')) (\<lambda>_.
    andThen (case non_empty (sp_ct_descriptor r) of
        None \<Rightarrow> pure ()
      | Some d \<Rightarrow> result (validate_descriptor (ge_descriptors env) d (ge_max_descriptor_len env))) (\<lambda>_.
    andThen (result (validate_website (sp_website r))) (\<lambda>_.
    andThen (result (validate_handle twitter_handle_regex ''1-50 chars, alphanumeric and underscore only'' ''twitter''
      (sp_twitter r))) (\<lambda>_.
      result (validate_handle instagram_handle_regex ''1-50 chars, alphanumeric, dot, underscore only'' ''instagram''
        (sp_instagram r)))))))))"

definition save_payload_fields ::
  "string \<Rightarrow> string \<Rightarrow> string \<Rightarrow> string \<Rightarrow> string \<Rightarrow> string \<Rightarrow> string \<Rightarrow> string option \<Rightarrow> string list" where
  "save_payload_fields header description display_currency website twitter instagram enabled_str ct_descriptor =
    [header, description, display_currency, website, twitter, instagram, enabled_str]
    @ (case ct_descriptor of None \<Rightarrow> [] | Some d \<Rightarrow> [d])"

definition save_payload :: "save_request \<Rightarrow> string list" where
  "save_payload r = save_payload_fields (sp_header r) (sp_description r) (sp_display_currency r)
     (text_or_empty (sp_website r)) (text_or_empty (sp_twitter r)) (text_or_empty (sp_instagram r))
     (if sp_enabled r then ''1'' else ''0'') (sp_ct_descriptor r)"

subsection \<open>The view\<close>

record donation_page_view =
  dv_nym :: string
  dv_header :: string
  dv_description :: string
  dv_display_currency :: string
  dv_website :: "string option"
  dv_twitter :: "string option"
  dv_instagram :: "string option"
  dv_enabled :: bool
  dv_is_archived :: bool
  dv_avatar_sha256 :: "string option"
  dv_og_sha256 :: "string option"
  dv_public_url :: string

definition view_from_row :: "donation_page \<Rightarrow> string \<Rightarrow> donation_page_view" where
  "view_from_row row domain =
    \<lparr>dv_nym = dp_nym row, dv_header = dp_header row, dv_description = dp_description row,
     dv_display_currency = dp_display_currency row, dv_website = dp_website row, dv_twitter = dp_twitter row,
     dv_instagram = dp_instagram row, dv_enabled = dp_enabled row, dv_is_archived = dp_is_archived row,
     dv_avatar_sha256 = dp_avatar_sha256 row, dv_og_sha256 = dp_og_sha256 row,
     dv_public_url = ''https://'' @ domain @ ''/'' @ dp_nym row\<rparr>"

subsection \<open>Save, archive, read\<close>

text \<open>The whitelist alone lifts the limits.\<close>
definition page_gate ::
  "'net gates \<Rightarrow> request \<Rightarrow> (int \<Rightarrow> ip_addr \<Rightarrow> limiter \<Rightarrow> (app_error + unit) \<times> limiter) \<Rightarrow> (service, app_error, unit) handler"
  where
  "page_gate g rq axis =
    (case pos_subject g rq of None \<Rightarrow> pure () | Some ip \<Rightarrow> limited (axis (rq_now rq) ip))"

definition upsert_of_save :: "save_request \<Rightarrow> upsert_page" where
  "upsert_of_save r =
    \<lparr>up_nym = sp_nym r, up_ct_descriptor = non_empty (sp_ct_descriptor r), up_header = sp_header r,
     up_description = sp_description r, up_display_currency = sp_display_currency r,
     up_website = non_empty (sp_website r), up_twitter = non_empty (sp_twitter r),
     up_instagram = non_empty (sp_instagram r), up_enabled = sp_enabled r\<rparr>"

text \<open>\<open>fetch_one\<close> of the upsert's RETURNING row.\<close>
definition upsert_row :: "upsert_page \<Rightarrow> (service, app_error, donation_page) handler" where
  "upsert_row u = (\<lambda>s.
    let ps = upsert_donation_page u (po_pages (sv_pos s)) in
    case get_donation_page_by_nym (up_nym u) ps of
      None \<Rightarrow> (Inl (from_sqlx RowNotFound), s)
    | Some row \<Rightarrow> (Inr row, s\<lparr>sv_pos := (sv_pos s)\<lparr>po_pages := ps\<rparr>\<rparr>))"

definition save_page ::
  "('net, 'd, 'xk, 'xs, 'img) page_env \<Rightarrow> request \<Rightarrow> save_request \<Rightarrow> (service, app_error, donation_page_view) handler" where
  "save_page env rq r =
    andThen (page_gate (ge_gates env) rq check_metadata_per_ip) (\<lambda>_.
    andThen (validate_lengths env r) (\<lambda>_.
    andThen (result (verify_la_v2 (ge_signing env) (rq_unix rq) page_action_save (sp_npub r) (sp_nym r) (save_payload r)
      (sp_timestamp r) (sp_signature r))) (\<lambda>_.
    andThen (assert_nym_owner (sp_nym r) (sp_npub r)) (\<lambda>_.
    andThen (upsert_row (upsert_of_save r)) (\<lambda>row. pure (view_from_row row (ge_domain env)))))))"

definition archive_row :: "request \<Rightarrow> string \<Rightarrow> (service, app_error, donation_page option) handler" where
  "archive_row rq nym = (\<lambda>s.
    case archive_donation_page (rq_now rq) nym (po_pages (sv_pos s)) of
      (row, ps) \<Rightarrow> (Inr row, s\<lparr>sv_pos := (sv_pos s)\<lparr>po_pages := ps\<rparr>\<rparr>))"

definition archive_page ::
  "('net, 'd, 'xk, 'xs, 'img) page_env \<Rightarrow> request \<Rightarrow> archive_request \<Rightarrow> (service, app_error, donation_page_view) handler" where
  "archive_page env rq r =
    andThen (page_gate (ge_gates env) rq check_metadata_per_ip) (\<lambda>_.
    andThen (result (verify_la_v2 (ge_signing env) (rq_unix rq) page_action_archive (ar_npub r) (ar_nym r) []
      (ar_timestamp r) (ar_signature r))) (\<lambda>_.
    andThen (assert_nym_owner (ar_nym r) (ar_npub r)) (\<lambda>_.
    andThen (archive_row rq (ar_nym r)) (\<lambda>archived.
    andThen (some_or (DonationPageNotFound ''no donation page to archive (already archived or never existed)'') archived) (\<lambda>row.
      pure (view_from_row row (ge_domain env)))))))"

definition get_page ::
  "('net, 'd, 'xk, 'xs, 'img) page_env \<Rightarrow> request \<Rightarrow> string \<Rightarrow> (service, app_error, donation_page_view) handler" where
  "get_page env rq nym =
    andThen (page_gate (ge_gates env) rq check_metadata_per_ip) (\<lambda>_.
    andThen (gets (\<lambda>s. get_donation_page_by_nym nym (po_pages (sv_pos s)))) (\<lambda>p.
    andThen (some_or (DonationPageNotFound nym) p) (\<lambda>row. pure (view_from_row row (ge_domain env)))))"

subsection \<open>The multipart body\<close>

text \<open>\<open>String::from_utf8\<close>: no overlong form, no surrogate, nothing beyond U+10FFFF.\<close>
definition continuation :: "char \<Rightarrow> bool" where
  "continuation c \<longleftrightarrow> 128 \<le> (of_char c :: nat) \<and> (of_char c :: nat) < 192"

fun utf8_valid :: "string \<Rightarrow> bool" where
  "utf8_valid [] = True"
| "utf8_valid (a # s) =
    (let n = (of_char a :: nat) in
     if n < 128 then utf8_valid s
     else if 194 \<le> n \<and> n \<le> 223 then
       (case s of b # s' \<Rightarrow> continuation b \<and> utf8_valid s' | _ \<Rightarrow> False)
     else if 224 \<le> n \<and> n \<le> 239 then
       (case s of b # c # s' \<Rightarrow> continuation b \<and> continuation c
          \<and> (n = 224 \<longrightarrow> 160 \<le> (of_char b :: nat)) \<and> (n = 237 \<longrightarrow> (of_char b :: nat) < 160) \<and> utf8_valid s'
        | _ \<Rightarrow> False)
     else if 240 \<le> n \<and> n \<le> 244 then
       (case s of b # c # d # s' \<Rightarrow> continuation b \<and> continuation c \<and> continuation d
          \<and> (n = 240 \<longrightarrow> 144 \<le> (of_char b :: nat)) \<and> (n = 244 \<longrightarrow> (of_char b :: nat) < 144) \<and> utf8_valid s'
        | _ \<Rightarrow> False)
     else False)"

text \<open>A field: its name, and its bytes or the error of reading them.\<close>
record multipart_field =
  mf_name :: "string option"
  mf_bytes :: "string + string"

definition text_field :: "multipart_field \<Rightarrow> app_error + string" where
  "text_field f =
    (case mf_bytes f of
       Inl e \<Rightarrow> Inl (MultipartInvalid (''text field read: '' @ e))
     | Inr bytes \<Rightarrow>
         if max_text_field < length bytes then Inl (MultipartInvalid ''text field too large'')
         else if \<not> utf8_valid bytes then Inl (MultipartInvalid ''text field not utf-8'')
         else Inr bytes)"

definition u64_max :: nat where "u64_max = 18446744073709551615"

fun parse_digits_u64 :: "nat \<Rightarrow> string \<Rightarrow> nat option" where
  "parse_digits_u64 acc [] = Some acc"
| "parse_digits_u64 acc (c # s) =
    (if digit c then
       (let n = 10 * acc + (of_char c - 48) in if u64_max < n then None else parse_digits_u64 n s)
     else None)"

text \<open>\<open>str::parse::<u64>\<close>: a leading plus is allowed.\<close>
definition parse_u64 :: "string \<Rightarrow> nat option" where
  "parse_u64 s = (let t = (case s of c # r \<Rightarrow> if c = CHR ''+'' then r else s | [] \<Rightarrow> s)
     in if t = [] then None else parse_digits_u64 0 t)"

record upload_form =
  uf_nym :: "string option"
  uf_npub :: "string option"
  uf_kind :: "string option"
  uf_sha256 :: "string option"
  uf_timestamp :: "nat option"
  uf_signature :: "string option"
  uf_file :: "string option"

definition empty_form :: upload_form where
  "empty_form = \<lparr>uf_nym = None, uf_npub = None, uf_kind = None, uf_sha256 = None, uf_timestamp = None,
     uf_signature = None, uf_file = None\<rparr>"

text \<open>One field; a repeated one replaces the former, an unknown one is drained.\<close>
definition read_field :: "multipart_field \<Rightarrow> upload_form \<Rightarrow> app_error + upload_form" where
  "read_field f form =
    (let name = text_or_empty (mf_name f) in
     if name = ''nym'' then map_sum id (\<lambda>v. form\<lparr>uf_nym := Some v\<rparr>) (text_field f)
     else if name = ''npub'' then map_sum id (\<lambda>v. form\<lparr>uf_npub := Some v\<rparr>) (text_field f)
     else if name = ''kind'' then map_sum id (\<lambda>v. form\<lparr>uf_kind := Some v\<rparr>) (text_field f)
     else if name = ''sha256'' then map_sum id (\<lambda>v. form\<lparr>uf_sha256 := Some v\<rparr>) (text_field f)
     else if name = ''timestamp'' then
       (case text_field f of
          Inl e \<Rightarrow> Inl e
        | Inr s \<Rightarrow> (case parse_u64 s of
              None \<Rightarrow> Inl (MultipartInvalid ''timestamp must be a u64'')
            | Some t \<Rightarrow> Inr (form\<lparr>uf_timestamp := Some t\<rparr>)))
     else if name = ''signature'' then map_sum id (\<lambda>v. form\<lparr>uf_signature := Some v\<rparr>) (text_field f)
     else if name = ''file'' then
       (case mf_bytes f of
          Inl e \<Rightarrow> Inl (MultipartInvalid (''file read: '' @ e))
        | Inr bytes \<Rightarrow> Inr (form\<lparr>uf_file := Some bytes\<rparr>))
     else Inr form)"

text \<open>The loop over \<open>next_field\<close>: its errors, and the cap on the number of fields.\<close>
fun read_fields :: "nat \<Rightarrow> (string + multipart_field) list \<Rightarrow> upload_form \<Rightarrow> app_error + upload_form" where
  "read_fields n [] form = Inr form"
| "read_fields n (Inl e # fs) form = Inl (MultipartInvalid (''parse: '' @ e))"
| "read_fields n (Inr f # fs) form =
    (if max_multipart_fields < Suc n then Inl (MultipartInvalid ''too many fields'')
     else case read_field f form of Inl e \<Rightarrow> Inl e | Inr form' \<Rightarrow> read_fields (Suc n) fs form')"

definition missing :: "string \<Rightarrow> app_error" where
  "missing name = MultipartInvalid (''missing '' @ [CHR 0x27] @ name @ [CHR 0x27])"

record upload_request =
  ur_nym :: string
  ur_npub :: string
  ur_kind :: string
  ur_sha256 :: string
  ur_timestamp :: nat
  ur_signature :: string
  ur_file :: string

definition complete_form :: "upload_form \<Rightarrow> (page_state, app_error, upload_request) handler" where
  "complete_form form =
    andThen (some_or (missing ''nym'') (uf_nym form)) (\<lambda>nym.
    andThen (some_or (missing ''npub'') (uf_npub form)) (\<lambda>npub.
    andThen (some_or (missing ''kind'') (uf_kind form)) (\<lambda>kind.
    andThen (some_or (missing ''sha256'') (uf_sha256 form)) (\<lambda>sha.
    andThen (some_or (missing ''timestamp'') (uf_timestamp form)) (\<lambda>timestamp.
    andThen (some_or (missing ''signature'') (uf_signature form)) (\<lambda>sig.
    andThen (some_or (missing ''file'') (uf_file form)) (\<lambda>file. pure
      \<lparr>ur_nym = nym, ur_npub = npub, ur_kind = kind, ur_sha256 = sha, ur_timestamp = timestamp,
       ur_signature = sig, ur_file = file\<rparr>)))))))"

subsection \<open>Uploading an image\<close>

text \<open>What the last statement meets, which runs after the file is in place: a database that runs it, a row that someone
  outside the service has deleted meanwhile, or a database error.\<close>
datatype row_update = Row_there | Row_gone | Row_error sqlx_error

text \<open>What the system, the generator of temporary names and the last statement answer during one upload.\<close>
record upload_inputs =
  ui_os :: os_answers
  ui_fresh :: uuid
  ui_update :: row_update

text \<open>The blocking task: the pipeline and, when it succeeds, the write.\<close>
definition persist_image ::
  "('net, 'd, 'xk, 'xs, 'img) page_env \<Rightarrow> upload_inputs \<Rightarrow> upload_request \<Rightarrow> image_kind
    \<Rightarrow> (page_state, app_error, processed_image) handler" where
  "persist_image env ui r kind =
    andThen (result (process_image (ge_images env) (ur_file r) kind (ge_pipeline env))) (\<lambda>p.
    andThen (map_err (\<lambda>e. ImageInvalid ''could not persist image'') (on_files (atomic_write (ui_os ui) (ui_fresh ui)
      (image_path (ge_image_root_path env) (ur_nym r) kind) (im_bytes p)))) (\<lambda>_. pure p))"

fun image_column :: "image_kind \<Rightarrow> string" where
  "image_column Avatar = ''avatar_sha256''"
| "image_column Og = ''og_sha256''"

definition image_hash_row ::
  "row_update \<Rightarrow> string \<Rightarrow> string \<Rightarrow> string \<Rightarrow> (service, app_error, donation_page option) handler" where
  "image_hash_row reply nym kind_column sha = (\<lambda>s.
    case reply of
      Row_error e \<Rightarrow> (Inl (from_sqlx e), s)
    | Row_gone \<Rightarrow> (Inr None, s)
    | Row_there \<Rightarrow>
       (case update_donation_page_image_hash nym kind_column sha (po_pages (sv_pos s)) of
          Inl e \<Rightarrow> (Inl (from_sqlx e), s)
        | Inr (row, ps) \<Rightarrow> (Inr row, s\<lparr>sv_pos := (sv_pos s)\<lparr>po_pages := ps\<rparr>\<rparr>)))"

text \<open>\<open>eq_ignore_ascii_case\<close>.\<close>
definition eq_ignore_case :: "string \<Rightarrow> string \<Rightarrow> bool" where
  "eq_ignore_case a b \<longleftrightarrow> ascii_lowercase a = ascii_lowercase b"

definition upload_checks ::
  "('net, 'd, 'xk, 'xs, 'img) page_env \<Rightarrow> request \<Rightarrow> upload_request \<Rightarrow> (page_state, app_error, image_kind) handler" where
  "upload_checks env rq r =
    andThen (some_or (ImageInvalid (''kind must be '' @ [CHR 0x27] @ ''avatar'' @ [CHR 0x27] @ '' or '' @ [CHR 0x27] @ ''og''
      @ [CHR 0x27])) (image_kind_parse (ur_kind r))) (\<lambda>kind.
    andThen (result (verify_la_v2 (ge_signing env) (rq_unix rq) page_action_image (ur_npub r) (ur_nym r)
      [image_kind_as_str kind, ur_sha256 r] (ur_timestamp r) (ur_signature r))) (\<lambda>_.
    andThen (require (eq_ignore_case (il_sha256_hex (ge_images env) (ur_file r)) (ur_sha256 r))
      (ImageInvalid ''claimed sha256 does not match received bytes'')) (\<lambda>_.
    andThen (on_service (assert_nym_owner (ur_nym r) (ur_npub r))) (\<lambda>_.
    andThen (if (case request_ip (ge_gates env) rq of None \<Rightarrow> False | Some ip \<Rightarrow> whitelisted (ge_gates env) ip) then pure ()
             else on_service (limited (check_donation_image_uploads_per_npub (rq_now rq) (ur_npub r)))) (\<lambda>_.
    andThen (on_service (gets (\<lambda>s. get_donation_page_by_nym (ur_nym r) (po_pages (sv_pos s))))) (\<lambda>p.
    andThen (some_or (DonationPageNotFound ''create the donation page before uploading images'') p) (\<lambda>_.
      pure kind)))))))"

definition upload_image ::
  "('net, 'd, 'xk, 'xs, 'img) page_env \<Rightarrow> request \<Rightarrow> upload_inputs \<Rightarrow> (string + multipart_field) list
    \<Rightarrow> (page_state, app_error, donation_page_view) handler" where
  "upload_image env rq ui body =
    andThen (on_service (page_gate (ge_gates env) rq check_donation_image_uploads_per_source)) (\<lambda>_.
    andThen (result (read_fields 0 body empty_form)) (\<lambda>form.
    andThen (complete_form form) (\<lambda>r.
    andThen (upload_checks env rq r) (\<lambda>kind.
    andThen (persist_image env ui r kind) (\<lambda>processed.
    andThen (on_service (image_hash_row (ui_update ui) (ur_nym r) (image_column kind) (im_source_sha256 processed))) (\<lambda>updated.
    andThen (some_or (DonationPageNotFound ''donation page disappeared mid-upload'') updated) (\<lambda>row.
      pure (view_from_row row (ge_domain env)))))))))"

end
