(* ===== verification/PageProperties.thy ===== *)
theory PageProperties
  imports PageApi PairingProperties ImageProperties
begin

text \<open>
  What the donation page endpoints promise: pages and images change only by the word of the key
  that owns the nym, and an upload that fails leaves both the image and its hash as they were, with
  one exception: the image is renamed into place before the hash is stored.
\<close>

subsection \<open>Requests\<close>

datatype page_request =
    Put_page save_request
  | Delete_page archive_request
  | Post_image upload_inputs "(string + multipart_field) list"
  | Get_page_of string

fun serve_page ::
  "('net, 'd, 'xk, 'xs, 'img) page_env \<Rightarrow> request \<times> page_request \<Rightarrow> page_state \<Rightarrow> page_state" where
  "serve_page env (rq, Put_page r) s = snd (on_service (save_page env rq r) s)"
| "serve_page env (rq, Delete_page r) s = snd (on_service (archive_page env rq r) s)"
| "serve_page env (rq, Post_image ui body) s = snd (upload_image env rq ui body s)"
| "serve_page env (rq, Get_page_of nym) s = snd (on_service (get_page env rq nym) s)"

subsection \<open>Effects on pages and files\<close>

definition page_of :: "string \<Rightarrow> page_state \<Rightarrow> donation_page option" where
  "page_of n s = get_donation_page_by_nym n (po_pages (sv_pos (gs_service s)))"

text \<open>The places a nym's images are written to, temporary ones included.\<close>
definition places_of :: "string \<Rightarrow> string \<Rightarrow> path set" where
  "places_of image_root n = {p. \<exists>kind. p = image_path image_root n kind \<or> (\<exists>u. p = tmp_path (image_path image_root n kind) u)}"

definition page_effect :: "string \<Rightarrow> string set \<Rightarrow> page_state \<Rightarrow> page_state \<Rightarrow> bool" where
  "page_effect image_root N s s' \<longleftrightarrow> sv_users (gs_service s') = sv_users (gs_service s)
     \<and> (\<forall>n. n \<notin> N \<longrightarrow> page_of n s' = page_of n s)
     \<and> (\<forall>p. p \<notin> (\<Union>n\<in>N. places_of image_root n) \<longrightarrow> fs_files (gs_files s') p = fs_files (gs_files s) p)"

interpretation pages: effect "page_effect image_root N" for image_root N
  by unfold_locales (auto simp: page_effect_def)

lemma page_effect_mono: "page_effect image_root N s s' \<Longrightarrow> N \<subseteq> M \<Longrightarrow> page_effect image_root M s s'"
  by (auto simp: page_effect_def subset_iff)

text \<open>The relation that a gate or a look-up stays within.\<close>
interpretation tables_kept: gate_effect "\<lambda>s s'. sv_users s' = sv_users s \<and> sv_pos s' = sv_pos s"
  by unfold_locales auto

context gate_effect
begin

lemma eff_page_gate: "changes R (page_gate g rq axis)"
  unfolding page_gate_def by (auto intro!: eff eff_limited split: option.split)

end

lemma on_service_effect:
  assumes "sv_users (snd (m (gs_service s))) = sv_users (gs_service s)"
    and "\<And>n. n \<notin> N \<Longrightarrow> get_donation_page_by_nym n (po_pages (sv_pos (snd (m (gs_service s)))))
           = get_donation_page_by_nym n (po_pages (sv_pos (gs_service s)))"
  shows "page_effect image_root N s (snd (on_service m s))"
  using assms by (simp add: page_effect_def page_of_def on_service_def split_beta)

lemma kept_on_service:
  assumes "changes (\<lambda>s s'. sv_users s' = sv_users s \<and> sv_pos s' = sv_pos s) m"
  shows "page_effect image_root N s (snd (on_service m s))"
  using changes_at[OF assms, of "gs_service s"] by (intro on_service_effect) simp_all

lemma other_page:
  "n \<noteq> m \<Longrightarrow> (\<And>p. dp_nym (f p) = dp_nym p) \<Longrightarrow>
   get_donation_page_by_nym n (fst (update_where (\<lambda>p. dp_nym p = m \<and> Q p) f ps)) = get_donation_page_by_nym n ps"
  unfolding get_donation_page_by_nym_def select_one_def update_where_def by (induction ps) auto

lemma other_page_plain:
  "n \<noteq> m \<Longrightarrow> (\<And>p. dp_nym (f p) = dp_nym p) \<Longrightarrow>
   get_donation_page_by_nym n (fst (update_where (\<lambda>p. dp_nym p = m) f ps)) = get_donation_page_by_nym n ps"
  using other_page[of n m f "\<lambda>p. True"] by simp

lemma other_page_upsert:
  "n \<noteq> up_nym u \<Longrightarrow> get_donation_page_by_nym n (upsert_donation_page u ps) = get_donation_page_by_nym n ps"
proof (cases "row_exists (\<lambda>p. dp_nym p = up_nym u) ps")
  case True
  assume "n \<noteq> up_nym u"
  then show ?thesis using True by (simp add: upsert_donation_page_def other_page_plain)
next
  case False
  assume "n \<noteq> up_nym u"
  then show ?thesis
    using False
    by (simp add: upsert_donation_page_def get_donation_page_by_nym_def select_one_append page_of_upsert_def
        select_one_def[of _ "[x]" for x] split: option.split)
qed

text \<open>The three statements on a page row.\<close>
lemma row_effects:
  "page_effect image_root {up_nym u} s (snd (on_service (upsert_row u) s))"
  "page_effect image_root {nym} s (snd (on_service (archive_row rq nym) s))"
  "page_effect image_root {nym} s (snd (on_service (image_hash_row reply nym col sha) s))"
proof -
  show "page_effect image_root {up_nym u} s (snd (on_service (upsert_row u) s))"
    by (rule on_service_effect) (auto simp: upsert_row_def Let_def other_page_upsert split: option.split)
  show "page_effect image_root {nym} s (snd (on_service (archive_row rq nym) s))"
    by (rule on_service_effect) (auto simp: archive_row_def archive_donation_page_def Let_def other_page)
  show "page_effect image_root {nym} s (snd (on_service (image_hash_row reply nym col sha) s))"
    by (rule on_service_effect)
      (auto simp: image_hash_row_def update_donation_page_image_hash_def Let_def other_page_plain split: sum.split row_update.split)
qed

lemma atomic_write_elsewhere:
  assumes "p \<noteq> final" "p \<noteq> tmp_path final fresh"
  shows "fs_files (snd (atomic_write os fresh final bytes fs)) p = fs_files fs p"
  using assms
  by (auto simp: atomic_write_def Let_def andThen_def os_call_def write_all_def handler_defs file_create_def file_rename_def
      file_remove_def create_dir_all_def file_append_def split: option.splits prod.splits)

lemma written_elsewhere:
  assumes "atomic_write os fresh final bytes fs = (x, fs')" "p \<noteq> final" "p \<noteq> tmp_path final fresh"
  shows "fs_files fs' p = fs_files fs p"
  using atomic_write_elsewhere[OF assms(2,3), of os bytes fs] assms(1) by simp

lemma write_effect:
  "page_effect (ge_image_root_path env) {ur_nym r} s (snd (persist_image env ui r kind s))"
  unfolding persist_image_def
proof (intro pages.at_andThen changes_at[OF pages.eff_result], goal_cases)
  case (1 p s1)
  let ?final = "image_path (ge_image_root_path env) (ur_nym r) kind"
  have "fs_files (snd (atomic_write (ui_os ui) (ui_fresh ui) ?final (im_bytes p) fs)) q = fs_files fs q"
    if "q \<notin> places_of (ge_image_root_path env) (ur_nym r)" for q fs
    using that by (intro atomic_write_elsewhere) (auto simp: places_of_def)
  then show ?case by (simp add: map_err_def on_files_def split_beta page_effect_def page_of_def)
qed (rule changes_at[OF pages.eff_pure])

subsection \<open>Who may change a page\<close>

text \<open>The key owns the nym in a users table.\<close>
definition owns :: "user list \<Rightarrow> string \<Rightarrow> string \<Rightarrow> bool" where
  "owns us npub nym \<longleftrightarrow> (\<exists>u. get_user_by_npub npub us = Some u \<and> u_nym u = nym)"

text \<open>The request changes the page or an image of this nym by the word of its owner: a fresh
  signature over the action, the nym and the payload (for an image: its kind and the hash of
  the received bytes).\<close>
fun page_authorised ::
  "('net, 'd, 'xk, 'xs, 'img) page_env \<Rightarrow> user list \<Rightarrow> request \<times> page_request \<Rightarrow> string \<Rightarrow> bool" where
  "page_authorised env us (rq, Put_page r) n \<longleftrightarrow> n = sp_nym r \<and> owns us (sp_npub r) n
     \<and> verify_la_v2 (ge_signing env) (rq_unix rq) page_action_save (sp_npub r) n (save_payload r)
         (sp_timestamp r) (sp_signature r) = Inr ()"
| "page_authorised env us (rq, Delete_page r) n \<longleftrightarrow> n = ar_nym r \<and> owns us (ar_npub r) n
     \<and> verify_la_v2 (ge_signing env) (rq_unix rq) page_action_archive (ar_npub r) n []
         (ar_timestamp r) (ar_signature r) = Inr ()"
| "page_authorised env us (rq, Post_image ui body) n \<longleftrightarrow> (\<exists>npub kind sha ts sg file. owns us npub n
     \<and> verify_la_v2 (ge_signing env) (rq_unix rq) page_action_image npub n [image_kind_as_str kind, sha] ts sg = Inr ()
     \<and> eq_ignore_case (il_sha256_hex (ge_images env) file) sha
     \<and> (\<exists>f. read_fields 0 body empty_form = Inr f \<and> uf_file f = Some file))"
| "page_authorised env us (rq, Get_page_of nym) n \<longleftrightarrow> False"

declare page_authorised.simps [simp del]

text \<open>A service handler in two parts.\<close>
lemma on_service_andThen: "on_service (andThen m f) s = andThen (on_service m) (\<lambda>a. on_service (f a)) s"
  by (auto simp: on_service_def andThen_def split: prod.splits sum.splits)

lemma on_service_ok: "on_service m s = (Inr a, s') \<longleftrightarrow> (\<exists>t. m (gs_service s) = (Inr a, t) \<and> s' = s\<lparr>gs_service := t\<rparr>)"
  by (auto simp: on_service_def split: prod.splits)

lemma validate_keeps: "changes (\<lambda>s s'. sv_users s' = sv_users s \<and> sv_pos s' = sv_pos s) (validate_lengths env r)"
  unfolding validate_lengths_def by (auto intro!: tables_kept.eff split: option.split)

lemmas page_steps = tables_kept.eff tables_kept.eff_page_gate tables_kept.eff_owner validate_keeps tables_kept.eff_limited

lemma kept_users: "changes (\<lambda>s s'. sv_users s' = sv_users s \<and> sv_pos s' = sv_pos s) m \<Longrightarrow> m s = (Inr a, s') \<Longrightarrow> sv_users s' = sv_users s"
  by (drule changesD) auto

lemma run_save:
  "page_effect (ge_image_root_path env) {n. page_authorised env (us_users (sv_users (gs_service s))) (rq, Put_page r) n} s
     (snd (on_service (save_page env rq r) s))"
  unfolding save_page_def on_service_andThen
proof (intro pages.at_andThen, goal_cases)
  case (5 u1 s1 u2 s2 u3 s3 o1 s4)
  note 1 = 5
  have "sv_users (gs_service s3) = sv_users (gs_service s)"
    using 1(1,2,3) by (auto simp: on_service_ok dest!: kept_users[OF tables_kept.eff_page_gate] kept_users[OF validate_keeps])
  then have "page_authorised env (us_users (sv_users (gs_service s))) (rq, Put_page r) (sp_nym r)"
    using 1(3,4) owner_found[of "sp_nym r" "sp_npub r" "gs_service s3" o1] by (auto simp: on_service_ok owns_def page_authorised.simps)
  then show ?case
    by (intro page_effect_mono[OF row_effects(1)]) (auto simp: upsert_of_save_def)
qed (intro kept_on_service page_steps)+

lemma run_archive:
  "page_effect (ge_image_root_path env) {n. page_authorised env (us_users (sv_users (gs_service s))) (rq, Delete_page r) n} s
     (snd (on_service (archive_page env rq r) s))"
  unfolding archive_page_def on_service_andThen
proof (intro pages.at_andThen, goal_cases)
  case (4 u1 s1 u2 s2 o1 s3)
  note 1 = 4
  have "sv_users (gs_service s2) = sv_users (gs_service s)"
    using 1(1,2) by (auto simp: on_service_ok dest!: kept_users[OF tables_kept.eff_page_gate])
  then have "page_authorised env (us_users (sv_users (gs_service s))) (rq, Delete_page r) (ar_nym r)"
    using 1(2,3) owner_found[of "ar_nym r" "ar_npub r" "gs_service s2" o1] by (auto simp: on_service_ok owns_def page_authorised.simps)
  then show ?case by (intro page_effect_mono[OF row_effects(2)]) auto
qed (intro kept_on_service page_steps)+

lemma complete_form_ok:
  "complete_form form s = (x, s') \<Longrightarrow> s' = s"
  "complete_form form s = (Inr r, s') \<Longrightarrow> uf_file form = Some (ur_file r)"
  by (auto simp: complete_form_def andThen_def handler_defs split: option.splits)

text \<open>What only looks, at both halves of the state.\<close>
definition looks :: "page_state \<Rightarrow> page_state \<Rightarrow> bool" where
  "looks s s' \<longleftrightarrow> sv_users (gs_service s') = sv_users (gs_service s) \<and> sv_pos (gs_service s') = sv_pos (gs_service s)
     \<and> gs_files s' = gs_files s"

interpretation looking: effect looks
  by unfold_locales (auto simp: looks_def)

lemma looks_on_service:
  "changes (\<lambda>s s'. sv_users s' = sv_users s \<and> sv_pos s' = sv_pos s) m \<Longrightarrow> changes looks (on_service m)"
  by (simp add: changes_def looks_def on_service_def split_beta)

lemma looks_page_effect: "looks s s' \<Longrightarrow> page_effect image_root N s s'"
  by (simp add: looks_def page_effect_def page_of_def)

lemma looks_gate: "changes looks (on_service (page_gate g rq axis))"
  by (rule looks_on_service) (rule tables_kept.eff_page_gate)

lemma looks_form: "changes looks (complete_form form)"
  unfolding complete_form_def by (intro looking.eff)

lemma looks_checks: "changes looks (upload_checks env rq r)"
proof -
  have "changes looks (on_service (assert_nym_owner n k))" "changes looks (on_service (limited f))"
    "changes looks (on_service (gets g))" for n k f g
    by (intro looks_on_service page_steps)+
  then show ?thesis unfolding upload_checks_def by (auto intro!: looking.eff)
qed

lemma looks_to_request:
  assumes "on_service (page_gate g rq axis) s = (x, s1)" "result y s1 = (z, s2)" "complete_form form s2 = (w, s3)"
  shows "looks s s3"
  using looking.trans[OF looking.trans[OF changesD[OF looks_gate assms(1)] changesD[OF looking.eff_result assms(2)]]
    changesD[OF looks_form assms(3)]] .

lemma upload_checked:
  assumes "upload_checks env rq r s = (Inr kind, s')"
  shows "verify_la_v2 (ge_signing env) (rq_unix rq) page_action_image (ur_npub r) (ur_nym r)
      [image_kind_as_str kind, ur_sha256 r] (ur_timestamp r) (ur_signature r) = Inr ()"
    "eq_ignore_case (il_sha256_hex (ge_images env) (ur_file r)) (ur_sha256 r)"
    "owns (us_users (sv_users (gs_service s))) (ur_npub r) (ur_nym r)"
    "page_of (ur_nym r) s \<noteq> None" "looks s s'"
proof -
  show looks: "looks s s'" by (rule changesD[OF looks_checks assms])
  have all: "verify_la_v2 (ge_signing env) (rq_unix rq) page_action_image (ur_npub r) (ur_nym r)
      [image_kind_as_str kind, ur_sha256 r] (ur_timestamp r) (ur_signature r) = Inr ()
    \<and> eq_ignore_case (il_sha256_hex (ge_images env) (ur_file r)) (ur_sha256 r)
    \<and> owns (us_users (sv_users (gs_service s))) (ur_npub r) (ur_nym r) \<and> page_of (ur_nym r) s' \<noteq> None"
    using assms
    by (auto simp: upload_checks_def andThen_ok on_service_ok owns_def page_of_def dest!: owner_found)
  then show "verify_la_v2 (ge_signing env) (rq_unix rq) page_action_image (ur_npub r) (ur_nym r)
      [image_kind_as_str kind, ur_sha256 r] (ur_timestamp r) (ur_signature r) = Inr ()"
    "eq_ignore_case (il_sha256_hex (ge_images env) (ur_file r)) (ur_sha256 r)"
    "owns (us_users (sv_users (gs_service s))) (ur_npub r) (ur_nym r)" by blast+
  show "page_of (ur_nym r) s \<noteq> None" using all looks by (simp add: looks_def page_of_def)
qed

lemma upload_authorised:
  assumes "upload_checks env rq r s = (Inr kind, s')"
    and "read_fields 0 body empty_form = Inr form" "uf_file form = Some (ur_file r)"
  shows "page_authorised env (us_users (sv_users (gs_service s))) (rq, Post_image ui body) (ur_nym r)"
  using upload_checked(1,2,3)[OF assms(1)] assms(2,3) unfolding page_authorised.simps by blast

lemma run_upload:
  "page_effect (ge_image_root_path env) {n. page_authorised env (us_users (sv_users (gs_service s))) (rq, Post_image ui body) n} s
     (snd (upload_image env rq ui body s))"
  unfolding upload_image_def
proof (intro pages.at_andThen, goal_cases)
  case 1
  show ?case by (rule looks_page_effect) (rule changes_at[OF looks_gate])
next
  case 2
  show ?case by (rule looks_page_effect) (rule changes_at[OF looking.eff_result])
next
  case 3
  show ?case by (rule looks_page_effect) (rule changes_at[OF looks_form])
next
  case 4
  show ?case by (rule looks_page_effect) (rule changes_at[OF looks_checks])
next
  case (5 u1 s1 form s2 r s3 kind s4)
  have "looks s s3" by (rule looks_to_request[OF 5(1-3)])
  then have "page_authorised env (us_users (sv_users (gs_service s))) (rq, Post_image ui body) (ur_nym r)"
    using upload_authorised[OF 5(4), of body form ui] complete_form_ok(2)[OF 5(3)] 5(2) by (simp add: looks_def)
  then show ?case by (intro page_effect_mono[OF write_effect]) auto
next
  case (6 u1 s1 form s2 r s3 kind s4 p s5)
  have "looks s s3" by (rule looks_to_request[OF 6(1-3)])
  then have "page_authorised env (us_users (sv_users (gs_service s))) (rq, Post_image ui body) (ur_nym r)"
    using upload_authorised[OF 6(4), of body form ui] complete_form_ok(2)[OF 6(3)] 6(2) by (simp add: looks_def)
  then show ?case by (intro page_effect_mono[OF row_effects(3)]) auto
qed (rule changes_at, intro pages.eff)+

lemma serve_page_effect:
  "page_effect (ge_image_root_path env) {n. page_authorised env (us_users (sv_users (gs_service s))) q n} s (serve_page env q s)"
proof -
  obtain rq a where q: "q = (rq, a)" by fastforce
  show ?thesis
  proof (cases a)
    case (Get_page_of nym)
    have "changes looks (on_service (get_page env rq nym))"
      unfolding get_page_def by (intro looks_on_service page_steps)
    then have "looks s (snd (on_service (get_page env rq nym) s))" by (rule changes_at)
    then show ?thesis by (simp add: q Get_page_of looks_page_effect)
  qed (simp_all add: q run_save run_archive run_upload)
qed

text \<open>C28: Only the owner changes a page: after serving any page requests, the nyms whose page has
  changed are among those for which one of the requests was authorised, that is freshly
  signed, for this action and payload, by the key that owns the nym; and every file that has
  changed is at an image place (or a temporary one) of such a nym.\<close>
theorem only_the_owner_changes_a_page:
  "{n. page_of n (fold (serve_page env) qs s) \<noteq> page_of n s}
     \<subseteq> {n. \<exists>q\<in>set qs. page_authorised env (us_users (sv_users (gs_service s))) q n}
   \<and> {p. fs_files (gs_files (fold (serve_page env) qs s)) p \<noteq> fs_files (gs_files s) p}
     \<subseteq> (\<Union>n\<in>{n. \<exists>q\<in>set qs. page_authorised env (us_users (sv_users (gs_service s))) q n}.
          places_of (ge_image_root_path env) n)"
proof -
  let ?N = "\<lambda>us qs. {n. \<exists>q\<in>set qs. page_authorised env us q n}"
  have "page_effect (ge_image_root_path env) (?N us qs) s (fold (serve_page env) qs s)"
    if "us_users (sv_users (gs_service s)) = us" for us
    using that
  proof (induction qs arbitrary: s)
    case (Cons q qs)
    have step: "page_effect (ge_image_root_path env) {n. page_authorised env us q n} s (serve_page env q s)"
      using serve_page_effect[of env s q] Cons.prems by simp
    have "page_effect (ge_image_root_path env) (?N us qs) (serve_page env q s) (fold (serve_page env) qs (serve_page env q s))"
      using step Cons.prems by (intro Cons.IH) (simp add: page_effect_def)
    from pages.trans[OF page_effect_mono[OF step] page_effect_mono[OF this], of "?N us (q # qs)"] show ?case by auto
  qed (simp add: pages.refl)
  from this[OF refl] show ?thesis unfolding page_effect_def by blast
qed

subsection \<open>An upload as a whole\<close>

lemma tmp_is_no_image: "tmp_path (image_path image_root n k) u \<noteq> image_path image_root m k'"
  unfolding tmp_path_def image_name by (cases k; cases k'; simp add: image_path_def)

lemma write_outcome:
  assumes "atomic_write os fresh (image_path image_root n k) bytes fs = (x, fs')"
  shows "x = Inr () \<Longrightarrow> fs_files fs' (image_path image_root n k) = Some bytes"
    "x = Inl e \<Longrightarrow> fs_files fs' (image_path image_root m k') = fs_files fs (image_path image_root m k')"
  using assms tmp_is_no_image[of image_root n k fresh n k] tmp_is_no_image[of image_root n k fresh m k']
  by (auto simp: atomic_write_def Let_def andThen_def os_call_def write_all_def handler_defs file_create_def file_rename_def
      file_remove_def create_dir_all_def file_append_def split: option.splits prod.splits)

text \<open>The image hash a page carries for a kind.\<close>
fun image_hash :: "image_kind \<Rightarrow> donation_page \<Rightarrow> string option" where
  "image_hash Avatar p = dp_avatar_sha256 p"
| "image_hash Og p = dp_og_sha256 p"

lemma select_updated:
  assumes "select_one P ps = Some p" "\<And>p. P (f p) = P p"
  shows "select_one P (fst (update_where P f ps)) = Some (f p)"
  using assms unfolding select_one_def update_where_def by (induction ps) (auto split: if_splits)

lemma hash_row:
  assumes "page_of n s = Some p"
  shows "\<exists>p' s'. on_service (image_hash_row Row_there n (image_column k) sha) s = (Inr (Some p'), s') \<and> page_of n s' = Some p'
    \<and> image_hash k p' = Some sha \<and> gs_files s' = gs_files s"
proof (cases k)
  case Avatar
  show ?thesis
    using assms unfolding page_of_def get_donation_page_by_nym_def
    by (frule_tac f = "\<lambda>p. p\<lparr>dp_avatar_sha256 := Some sha\<rparr>" in select_updated)
      (simp_all add: Avatar image_hash_row_def on_service_def update_donation_page_image_hash_def Let_def get_donation_page_by_nym_def)
next
  case Og
  show ?thesis
    using assms unfolding page_of_def get_donation_page_by_nym_def
    by (frule_tac f = "\<lambda>p. p\<lparr>dp_og_sha256 := Some sha\<rparr>" in select_updated)
      (simp_all add: Og image_hash_row_def on_service_def update_donation_page_image_hash_def Let_def get_donation_page_by_nym_def)
qed

text \<open>What a successful upload has stored, for the form it carried.\<close>
definition upload_stored ::
  "('net, 'd, 'xk, 'xs, 'img) page_env \<Rightarrow> upload_request \<Rightarrow> page_state \<Rightarrow> bool" where
  "upload_stored env r s \<longleftrightarrow> (\<exists>kind p page. image_kind_parse (ur_kind r) = Some kind
     \<and> process_image (ge_images env) (ur_file r) kind (ge_pipeline env) = Inr p
     \<and> fs_files (gs_files s) (image_path (ge_image_root_path env) (ur_nym r) kind) = Some (im_bytes p)
     \<and> page_of (ur_nym r) s = Some page \<and> image_hash kind page = Some (im_source_sha256 p))"

lemma checked_kind: "upload_checks env rq r s = (Inr kind, s') \<Longrightarrow> image_kind_parse (ur_kind r) = Some kind"
  by (auto simp: upload_checks_def andThen_ok)

lemma shown_same:
  "looks s s' \<Longrightarrow> page_of n s' = page_of n s \<and> fs_files (gs_files s') p = fs_files (gs_files s) p"
  by (simp add: looks_def page_of_def)

lemma persisted:
  assumes "persist_image env ui r kind s = (x, s')"
  shows "gs_service s' = gs_service s"
    "x = Inr p \<Longrightarrow> process_image (ge_images env) (ur_file r) kind (ge_pipeline env) = Inr p
       \<and> fs_files (gs_files s') (image_path (ge_image_root_path env) (ur_nym r) kind) = Some (im_bytes p)"
    "x = Inl e \<Longrightarrow> fs_files (gs_files s') (image_path (ge_image_root_path env) m k')
       = fs_files (gs_files s) (image_path (ge_image_root_path env) m k')"
proof -
  show "gs_service s' = gs_service s"
    using assms by (auto simp: persist_image_def andThen_def handler_defs map_err_def on_files_def split: prod.splits sum.splits)
  show "process_image (ge_images env) (ur_file r) kind (ge_pipeline env) = Inr p
      \<and> fs_files (gs_files s') (image_path (ge_image_root_path env) (ur_nym r) kind) = Some (im_bytes p)" if "x = Inr p"
    using assms that
    by (auto simp: persist_image_def andThen_ok on_files_def split: prod.splits dest: write_outcome(1))
  show "fs_files (gs_files s') (image_path (ge_image_root_path env) m k')
      = fs_files (gs_files s) (image_path (ge_image_root_path env) m k')" if "x = Inl e"
    using assms that
    by (auto simp: persist_image_def andThen_err map_err_def on_files_def map_sum_Inl_iff split: prod.splits
        dest: write_outcome(2))
qed

lemma persisted_elsewhere:
  assumes "persist_image env ui r kind s = (x, s')"
    "image_path (ge_image_root_path env) n k \<noteq> image_path (ge_image_root_path env) (ur_nym r) kind"
  shows "fs_files (gs_files s') (image_path (ge_image_root_path env) n k)
    = fs_files (gs_files s) (image_path (ge_image_root_path env) n k)"
  using assms tmp_is_no_image[of "ge_image_root_path env" "ur_nym r" kind "ui_fresh ui" n k, symmetric]
  by (auto simp: persist_image_def andThen_def handler_defs map_err_def on_files_def
      dest: written_elsewhere split: prod.splits sum.splits)

lemma page_kept_by_checks:
  assumes "upload_checks env rq r s3 = (Inr kind, s4)" "persist_image env ui r kind s4 = (y, s5)"
  shows "page_of (ur_nym r) s5 \<noteq> None"
  using upload_checked(4,5)[OF assms(1)] persisted(1)[OF assms(2)] by (simp add: looks_def page_of_def)

lemma hashed:
  assumes "page_of (ur_nym r) s5 \<noteq> None" "on_service (image_hash_row reply (ur_nym r) (image_column kind) sha) s5 = (y, s6)"
  shows "y = Inl e \<Longrightarrow> s6 = s5 \<and> (\<exists>d. reply = Row_error d \<and> e = from_sqlx d)"
    "y = Inr None \<Longrightarrow> s6 = s5 \<and> reply = Row_gone"
    "y = Inr (Some p) \<Longrightarrow> reply = Row_there \<and> page_of (ur_nym r) s6 = Some p \<and> image_hash kind p = Some sha
       \<and> gs_files s6 = gs_files s5"
  using assms hash_row[of "ur_nym r" s5 _ kind sha]
  by (cases reply; auto simp: image_hash_row_def on_service_def)+

text \<open>What an upload leaves behind when its last statement does not store the hash: the new image is in place, under
  the hash of the old one, and every other image is as it was.\<close>
definition hash_not_stored ::
  "('net, 'd, 'xk, 'xs, 'img) page_env \<Rightarrow> upload_inputs \<Rightarrow> (string + multipart_field) list \<Rightarrow> page_state \<Rightarrow> page_state
    \<Rightarrow> app_error \<Rightarrow> bool" where
  "hash_not_stored env ui body s s' e \<longleftrightarrow>
     (\<exists>form r kind p. read_fields 0 body empty_form = Inr form \<and> complete_form form s = (Inr r, s)
        \<and> image_kind_parse (ur_kind r) = Some kind
        \<and> process_image (ge_images env) (ur_file r) kind (ge_pipeline env) = Inr p
        \<and> fs_files (gs_files s') (image_path (ge_image_root_path env) (ur_nym r) kind) = Some (im_bytes p)
        \<and> (\<forall>n k. image_path (ge_image_root_path env) n k \<noteq> image_path (ge_image_root_path env) (ur_nym r) kind \<longrightarrow>
             fs_files (gs_files s') (image_path (ge_image_root_path env) n k)
               = fs_files (gs_files s) (image_path (ge_image_root_path env) n k)))
     \<and> (ui_update ui = Row_gone \<and> e = DonationPageNotFound ''donation page disappeared mid-upload''
        \<or> (\<exists>d. ui_update ui = Row_error d \<and> e = from_sqlx d))"

lemma form_of: "complete_form f s' = (Inr r, s'') \<Longrightarrow> complete_form f s = (Inr r, s)"
  by (auto simp: complete_form_def andThen_def handler_defs split: option.splits)

lemma hash_lost:
  assumes "on_service (page_gate g rq axis) s = (u, s1)" "result (read_fields 0 body empty_form) s1 = (Inr f, s2)"
    and "complete_form f s2 = (Inr r, s3)" "upload_checks env rq r s3 = (Inr kind, s4)"
    and "persist_image env ui r kind s4 = (Inr p, s')"
    and "ui_update ui = Row_gone \<and> e = DonationPageNotFound ''donation page disappeared mid-upload''
       \<or> (\<exists>d. ui_update ui = Row_error d \<and> e = from_sqlx d)"
  shows "hash_not_stored env ui body s s' e" "page_of n s' = page_of n s"
proof -
  have looks: "looks s s4" by (rule looking.trans[OF looks_to_request[OF assms(1-3)] changesD[OF looks_checks assms(4)]])
  show "page_of n s' = page_of n s" using looks persisted(1)[OF assms(5)] by (simp add: looks_def page_of_def)
  have "fs_files (gs_files s') (image_path (ge_image_root_path env) n k) = fs_files (gs_files s) (image_path (ge_image_root_path env) n k)"
    if "image_path (ge_image_root_path env) n k \<noteq> image_path (ge_image_root_path env) (ur_nym r) kind" for n k
    using persisted_elsewhere[OF assms(5) that] looks by (simp add: looks_def)
  moreover have "complete_form f s = (Inr r, s)" by (rule form_of[OF assms(3)])
  ultimately show "hash_not_stored env ui body s s' e"
    using assms(2,6) checked_kind[OF assms(4)] persisted(2)[OF assms(5) refl] unfolding hash_not_stored_def by auto
qed

lemma looks_failed:
  "looks s s' \<Longrightarrow> page_of n s' = page_of n s \<and> (fs_files (gs_files s') p = fs_files (gs_files s) p \<or> Q)"
  using shown_same by blast

lemma upload_failed:
  assumes "upload_image env rq ui body s = (Inl e, s')"
  shows "page_of n s' = page_of n s \<and> (fs_files (gs_files s') (image_path (ge_image_root_path env) m k)
     = fs_files (gs_files s) (image_path (ge_image_root_path env) m k) \<or> hash_not_stored env ui body s s' e)"
  using assms unfolding upload_image_def
proof (elim andThen_errE, goal_cases)
  case (5 u s1 f s2 r s3 kind s4)
  have "looks s s4" by (rule looking.trans[OF looks_to_request[OF 5(1-3)] changesD[OF looks_checks 5(4)]])
  then show ?case using shown_same[of s s4] persisted(1,3)[OF 5(5)] by (simp add: page_of_def)
next
  case (6 u s1 f s2 r s3 kind s4 p s5)
  then show ?case
    using hashed(1)[OF page_kept_by_checks[OF 6(4,5)] 6(6) refl] hash_lost[OF 6(1-5)] by blast
next
  case (7 u s1 f s2 r s3 kind s4 p s5 h s6)
  then show ?case
    using hashed(2)[OF page_kept_by_checks[OF 7(4,5)] 7(6)] hash_lost[OF 7(1-5)]
    by (auto simp: some_or_def handler_defs split: option.splits)
qed (auto intro!: looks_failed dest!: changesD[OF looks_gate] changesD[OF looks_form] changesD[OF looks_checks]
    intro: looking.trans)

lemma upload_succeeded:
  assumes "upload_image env rq ui body s = (Inr v, s')"
  shows "\<exists>form r. read_fields 0 body empty_form = Inr form \<and> complete_form form s = (Inr r, s) \<and> upload_stored env r s'
    \<and> ui_update ui = Row_there"
  using assms unfolding upload_image_def
proof (elim andThen_okE, goal_cases)
  case (1 u s1 f s2 r s3 kind s4 p s5 h s6 row s7)
  have "h = Some row" "s6 = s'" using 1(7,8) by (auto simp: some_or_def handler_defs split: option.splits)
  then have "upload_stored env r s' \<and> ui_update ui = Row_there"
    using checked_kind[OF 1(4)] persisted(2)[OF 1(5) refl] hashed(3)[OF page_kept_by_checks[OF 1(4,5)] 1(6)]
    by (auto simp: upload_stored_def)
  moreover have "complete_form f s = (Inr r, s)" by (rule form_of[OF 1(3)])
  ultimately show ?case using 1(2) by auto
qed

text \<open>C29: An upload that fails changes nothing, up to its last statement: one that answers with an error leaves every
  page as it was, and every image too, unless the update of the hash found no row or failed after the rename, and
  then only the image at the place of its nym and kind has changed, and it is the encoding of the file sent.  One that
  succeeds has put the encoded bytes of its own file at the place of its nym and kind, and the hash of that file on
  the page.\<close>
theorem uploads_change_nothing_until_the_hash:
  assumes "upload_image env rq ui body s = (x, s')"
  shows "(case x of
      Inl e \<Rightarrow> (\<forall>n. page_of n s' = page_of n s)
        \<and> ((\<forall>n kind. fs_files (gs_files s') (image_path (ge_image_root_path env) n kind)
              = fs_files (gs_files s) (image_path (ge_image_root_path env) n kind))
           \<or> hash_not_stored env ui body s s' e)
    | Inr v \<Rightarrow> \<exists>form r. read_fields 0 body empty_form = Inr form \<and> complete_form form s = (Inr r, s)
        \<and> upload_stored env r s' \<and> ui_update ui = Row_there)"
  using assms upload_failed[of env rq ui body s _ s'] upload_succeeded[of env rq ui body s _ s']
  by (auto split: sum.split)

subsection \<open>A witness\<close>

text \<open>Bob's key \<open>k\<close> uploads an avatar; the toy scheme accepts the key itself as a signature.\<close>
definition demo_gallery :: "(ip_addr, string, string, string, string) page_env" where
  "demo_gallery = \<lparr>ge_domain = ''d'', ge_max_descriptor_len = 100, ge_gates = demo_gates,
     ge_signing = \<lparr>sg_pubkey = Some, sg_sha256 = id, sg_signature = Some, sg_verify = (\<lambda>s d p. s = p)\<rparr>,
     ge_descriptors = demo_descriptors, ge_currencies = [],
     ge_images = demo_images\<lparr>il_decode := (\<lambda>f b. Inr ''img''), il_sha256_hex := (\<lambda>b. ''ab'')\<rparr>,
     ge_pipeline = demo_budget, ge_image_root_path = ''r''\<rparr>"

definition demo_desk :: page_state where
  "demo_desk = \<lparr>gs_service = demo_counter\<lparr>
       sv_limiter := demo_limits\<lparr>rl_cfg := (rl_cfg demo_limits)\<lparr>rc_donation_image_uploads_per_npub_per_hour := 0\<rparr>\<rparr>,
       sv_users := \<lparr>us_users = [demo_account\<lparr>u_npub := ''k''\<rparr>], us_outpoints = []\<rparr>\<rparr>,
     gs_files = \<lparr>fs_dirs = [], fs_files = Map.empty\<rparr>\<rparr>"

definition demo_field :: "string \<Rightarrow> string \<Rightarrow> string + multipart_field" where
  "demo_field name v = Inr \<lparr>mf_name = Some name, mf_bytes = Inr v\<rparr>"

definition demo_body :: "(string + multipart_field) list" where
  "demo_body = [demo_field ''nym'' ''bob'', demo_field ''npub'' ''k'', demo_field ''kind'' ''avatar'', demo_field ''sha256'' ''ab'',
     demo_field ''timestamp'' ''50'', demo_field ''signature'' ''k'', demo_field ''file'' demo_jpeg]"

definition demo_upload :: upload_request where
  "demo_upload = \<lparr>ur_nym = ''bob'', ur_npub = ''k'', ur_kind = ''avatar'', ur_sha256 = ''ab'', ur_timestamp = 50,
     ur_signature = ''k'', ur_file = demo_jpeg\<rparr>"

lemma demo_form: "\<exists>f. read_fields 0 demo_body empty_form = Inr f \<and> complete_form f s = (Inr demo_upload, s)"
  by (simp add: demo_body_def demo_field_def max_multipart_fields_def read_field_def text_or_empty_def text_field_def
      max_text_field_def parse_u64_def u64_max_def digit_def Let_def empty_form_def complete_form_def andThen_def handler_defs
      demo_upload_def)

text \<open>The upload's statement, with what it says about a success.\<close>
lemma demo_checked: "upload_checks demo_gallery (demo_request None) demo_upload demo_desk = (Inr Avatar, demo_desk)"
  by (simp add: upload_checks_def demo_upload_def image_kind_parse_def andThen_def handler_defs verify_la_v2_def
      check_ts_freshness_def abs_diff_def la_auth_ts_window_secs_def verify_signature_def demo_gallery_def eq_ignore_case_def
      ascii_lowercase_def on_service_def assert_nym_owner_def demo_desk_def get_user_by_npub_def demo_account_def demo_no_ip
      limited_def check_donation_image_uploads_per_npub_def atomic_sliding_window_check_def get_donation_page_by_nym_def
      demo_counter_defs)

definition all_well :: os_answers where
  "all_well = \<lparr>os_create_dir = None, os_create = None, os_write = None, os_sync = None, os_rename = None, os_remove = None\<rparr>"

lemma demo_stored: "\<exists>p s1. persist_image demo_gallery \<lparr>ui_os = all_well, ui_fresh = 7, ui_update = reply\<rparr> demo_upload Avatar demo_desk = (Inr p, s1)"
proof -
  have sniffed: "sniff_format demo_jpeg = Some Sniffed_jpeg" "length demo_jpeg = 12" "demo_jpeg \<noteq> []"
    by (simp_all add: sniff_format_def demo_jpeg_def jpeg_magic_def starts_with_def)
  have "check_dimensions demo_budget (4, 2) = Inr ()" by (simp add: dimensions_checked demo_budget_def)
  then have "process_image (ge_images demo_gallery) demo_jpeg Avatar demo_budget
      = Inr \<lparr>im_bytes = ''img'', im_source_sha256 = ''ab''\<rparr>"
    using sniffed
    by (simp add: process_image_def Let_def demo_gallery_def demo_images_def encode_def resize_def demo_budget_def)
  moreover have "ge_pipeline demo_gallery = demo_budget" "ur_file demo_upload = demo_jpeg"
    by (simp_all add: demo_gallery_def demo_upload_def)
  ultimately show ?thesis
    by (simp add: persist_image_def andThen_def handler_defs map_err_def on_files_def atomic_write_def Let_def os_call_def
        write_all_def all_well_def)
qed

lemma demo_gate_open: "on_service (page_gate (ge_gates demo_gallery) (demo_request None) axis) s = (Inr (), s)"
  by (simp add: page_gate_def pos_subject_def demo_gallery_def demo_no_ip on_service_def handler_defs)

lemma uploads_change_nothing_until_the_hash_witness:
  "upload_stored demo_gallery demo_upload
     (snd (upload_image demo_gallery (demo_request None) \<lparr>ui_os = all_well, ui_fresh = 7, ui_update = Row_there\<rparr> demo_body demo_desk))"
proof -
  let ?ui = "\<lparr>ui_os = all_well, ui_fresh = 7, ui_update = Row_there\<rparr>"
  obtain form where form: "read_fields 0 demo_body empty_form = Inr form"
      "complete_form form demo_desk = (Inr demo_upload, demo_desk)"
    using demo_form by blast
  obtain p s1 where stored: "persist_image demo_gallery ?ui demo_upload Avatar demo_desk = (Inr p, s1)"
    using demo_stored by blast
  have "page_of (ur_nym demo_upload) s1 = Some demo_page"
    using persisted(1)[OF stored]
    by (simp add: page_of_def demo_desk_def demo_upload_def get_donation_page_by_nym_def demo_counter_defs)
  then obtain page s2 where
      "on_service (image_hash_row Row_there (ur_nym demo_upload) (image_column Avatar) (im_source_sha256 p)) s1 = (Inr (Some page), s2)"
    using hash_row by blast
  then have run: "upload_image demo_gallery (demo_request None) ?ui demo_body demo_desk
      = (Inr (view_from_row page (ge_domain demo_gallery)), s2)"
    by (simp add: upload_image_def andThen_def demo_gate_open handler_defs form demo_checked stored)
  then show ?thesis
    using uploads_change_nothing_until_the_hash[OF run] form by auto
qed

text \<open>The exception is real: the same upload, when its last statement finds the row gone, answers with an error and
  leaves an image where there was none.\<close>
lemma image_without_its_hash:
  "\<exists>e s'. upload_image demo_gallery (demo_request None) \<lparr>ui_os = all_well, ui_fresh = 7, ui_update = Row_gone\<rparr>
       demo_body demo_desk = (Inl e, s')
   \<and> fs_files (gs_files s') (image_path ''r'' ''bob'' Avatar) \<noteq> None
   \<and> fs_files (gs_files demo_desk) (image_path ''r'' ''bob'' Avatar) = None"
proof -
  let ?ui = "\<lparr>ui_os = all_well, ui_fresh = 7, ui_update = Row_gone\<rparr>"
  obtain form where form: "read_fields 0 demo_body empty_form = Inr form"
      "complete_form form demo_desk = (Inr demo_upload, demo_desk)"
    using demo_form by blast
  obtain p s1 where stored: "persist_image demo_gallery ?ui demo_upload Avatar demo_desk = (Inr p, s1)"
    using demo_stored by blast
  have "fs_files (gs_files s1) (image_path ''r'' ''bob'' Avatar) \<noteq> None"
    using persisted(2)[OF stored refl] by (simp add: demo_gallery_def demo_upload_def)
  moreover have "on_service (image_hash_row Row_gone n col sha) s1 = (Inr None, s1)" for n col sha
    by (simp add: image_hash_row_def on_service_def)
  then have "upload_image demo_gallery (demo_request None) ?ui demo_body demo_desk
      = (Inl (DonationPageNotFound ''donation page disappeared mid-upload''), s1)"
    by (simp add: upload_image_def andThen_def demo_gate_open handler_defs form demo_checked stored)
  moreover have "fs_files (gs_files demo_desk) (image_path ''r'' ''bob'' Avatar) = None" by (simp add: demo_desk_def)
  ultimately show ?thesis by blast
qed

end
