(* ===== verification/DonationRender.thy ===== *)
theory DonationRender
  imports PageApi InvoiceViews
begin

text \<open>
  The public pages of a nym (src/src/donation_render.rs): the fallback handler that shows a donation
  page, the shell of a terminal, the two web manifests and the service worker.  The page shells
  are files of the built frontend with three markers; the templates used when a shell
  cannot be read are compiled by Askama.  Reading a file and rendering a template are arguments.
\<close>

subsection \<open>Shells\<close>

record pwa_shells =
  ps_donation :: "path option"
  ps_pos :: "path option"

datatype shell_kind = Donation_shell | Pos_shell

fun shell_mode :: "shell_kind \<Rightarrow> string" where
  "shell_mode Donation_shell = ''donation''"
| "shell_mode Pos_shell = ''pos''"

definition squoted :: "string \<Rightarrow> string" where
  "squoted s = [CHR 0x27] @ s @ [CHR 0x27]"

definition quoted :: "string \<Rightarrow> string" where
  "quoted s = [CHR 0x22] @ s @ [CHR 0x22]"

definition donation_csp :: string where
  "donation_csp = ''default-src '' @ squoted ''self'' @ ''; img-src '' @ squoted ''self'' @ '' data:; script-src ''
     @ squoted ''self'' @ '' '' @ squoted ''unsafe-inline'' @ ''; style-src '' @ squoted ''self'' @ '' '' @ squoted ''unsafe-inline''
     @ ''; connect-src '' @ squoted ''self'' @ '' wss://liquid.network wss://liquid.bullbitcoin.com; frame-ancestors ''
     @ squoted ''none'' @ ''; base-uri '' @ squoted ''none''"

definition pos_csp :: string where
  "pos_csp = ''default-src '' @ squoted ''self'' @ ''; img-src '' @ squoted ''self'' @ '' data:; script-src ''
     @ squoted ''self'' @ '' '' @ squoted ''unsafe-inline'' @ ''; style-src '' @ squoted ''self'' @ '' '' @ squoted ''unsafe-inline''
     @ ''; connect-src '' @ squoted ''self'' @ '' https: wss://liquid.network wss://liquid.bullbitcoin.com; frame-ancestors ''
     @ squoted ''none'' @ ''; base-uri '' @ squoted ''none''"

fun shell_csp :: "shell_kind \<Rightarrow> string" where
  "shell_csp Donation_shell = donation_csp"
| "shell_csp Pos_shell = pos_csp"

fun manifest_href :: "shell_kind \<Rightarrow> string \<Rightarrow> string" where
  "manifest_href Donation_shell nym = ''/'' @ nym @ ''/manifest.webmanifest''"
| "manifest_href Pos_shell nym = ''/'' @ nym @ ''/pos/manifest.webmanifest''"

fun start_url :: "shell_kind \<Rightarrow> string \<Rightarrow> string" where
  "start_url Donation_shell nym = ''/'' @ nym"
| "start_url Pos_shell nym = ''/'' @ nym @ ''/pos''"

definition shell_path :: "string \<Rightarrow> string \<Rightarrow> path" where
  "shell_path dist_dir app = [dist_dir, ''apps'', app, ''index.html'']"

definition pwa_shells_load :: "string \<Rightarrow> pwa_shells" where
  "pwa_shells_load dist_dir =
    \<lparr>ps_donation = Some (shell_path dist_dir ''donation''), ps_pos = Some (shell_path dist_dir ''pos'')\<rparr>"

text \<open>\<open>read\<close> is \<open>read_to_string\<close>, None when it fails.\<close>
definition shell_for :: "(path \<Rightarrow> string option) \<Rightarrow> pwa_shells \<Rightarrow> shell_kind \<Rightarrow> string option" where
  "shell_for read_file shells kind =
    Option.bind (case kind of Donation_shell \<Rightarrow> ps_donation shells | Pos_shell \<Rightarrow> ps_pos shells) read_file"

subsection \<open>Names and escapes\<close>

definition is_valid_slug :: "string \<Rightarrow> bool" where
  "is_valid_slug s \<longleftrightarrow> \<not> (s = [] \<or> 32 < length s)
     \<and> list_all (\<lambda>b. let n = (of_char b :: nat) in (97 \<le> n \<and> n \<le> 122) \<or> (48 \<le> n \<and> n \<le> 57) \<or> b = CHR ''-'') s"

text \<open>\<open>str::replace\<close>, left to right without overlaps, for a pattern that is not empty.\<close>
fun replace_all :: "string \<Rightarrow> string \<Rightarrow> string \<Rightarrow> string" where
  "replace_all pat by [] = []"
| "replace_all pat by (c # s) =
    (if starts_with pat (c # s) then by @ replace_all pat by (drop (length pat - 1) s)
     else c # replace_all pat by s)"

definition escape_json_for_script :: "string \<Rightarrow> string" where
  "escape_json_for_script json = replace_all ''<'' ([CHR 0x5C] @ ''u003c'') json"

definition html_escape_char :: "char \<Rightarrow> string" where
  "html_escape_char c =
    (if c = CHR ''&'' then ''&amp;'' else if c = CHR ''<'' then ''&lt;'' else if c = CHR ''>'' then ''&gt;''
     else if c = CHR 0x22 then ''&quot;'' else if c = CHR 0x27 then ''&#x27;'' else [c])"

definition html_escape_attr :: "string \<Rightarrow> string" where
  "html_escape_attr value = concat (map html_escape_char value)"

text \<open>\<open>chars().take(n)\<close> on UTF-8 text: a character is a byte and the continuation bytes after it.\<close>
fun take_chars :: "nat \<Rightarrow> string \<Rightarrow> string" where
  "take_chars 0 s = []"
| "take_chars (Suc n) [] = []"
| "take_chars (Suc n) (c # s) = (c # takeWhile continuation s) @ take_chars n (dropWhile continuation s)"

definition short_manifest_name :: "string \<Rightarrow> string" where
  "short_manifest_name name = take_chars 12 name"

text \<open>\<open>char::is_whitespace\<close> beyond ASCII, on the UTF-8 bytes of a character: U+0085, U+00A0, U+1680,
  U+2000 to U+200A, U+2028, U+2029, U+202F, U+205F and U+3000.\<close>
definition unicode_space :: "nat list \<Rightarrow> bool" where
  "unicode_space ns \<longleftrightarrow> ns \<in> set [[194, 133], [194, 160], [225, 154, 128], [226, 128, 168], [226, 128, 169], [226, 128, 175],
       [226, 129, 159], [227, 128, 128]]
     \<or> (length ns = 3 \<and> take 2 ns = [226, 128] \<and> 128 \<le> ns ! 2 \<and> ns ! 2 \<le> 138)"

text \<open>\<open>trim().is_empty()\<close>.\<close>
fun all_space :: "string \<Rightarrow> bool" where
  "all_space [] = True"
| "all_space (a # s) = (if ascii_space a then all_space s
     else (case s of
        b # t \<Rightarrow> (if unicode_space [of_char a, of_char b] then all_space t
                 else (case t of c # u \<Rightarrow> unicode_space [of_char a, of_char b, of_char c] \<and> all_space u | [] \<Rightarrow> False))
      | [] \<Rightarrow> False))"

subsection \<open>JSON\<close>

definition json_object :: "(string \<times> string) list \<Rightarrow> string" where
  "json_object ms = ''{'' @ join '','' (map (\<lambda>(k, v). json_string k @ '':'' @ v) ms) @ ''}''"

definition json_option :: "string option \<Rightarrow> string" where
  "json_option v = (case v of None \<Rightarrow> ''null'' | Some s \<Rightarrow> json_string s)"

definition json_bool :: "bool \<Rightarrow> string" where
  "json_bool b = (if b then ''true'' else ''false'')"

record pwa_config_view =
  pv_nym :: string
  pv_mode :: string
  pv_currency :: string
  pv_header :: string
  pv_description :: string
  pv_avatar_url :: "string option"
  pv_website :: "string option"
  pv_twitter :: "string option"
  pv_instagram :: "string option"
  pv_minor_per_btc :: int
  pv_last_known_rate :: bool
  pv_liquid_btc_asset_id :: string
  pv_domain :: string

definition config_members :: "pwa_config_view \<Rightarrow> (string \<times> string) list" where
  "config_members c =
    [(''nym'', json_string (pv_nym c)), (''mode'', json_string (pv_mode c)), (''currency'', json_string (pv_currency c)),
     (''header'', json_string (pv_header c)), (''description'', json_string (pv_description c)),
     (''avatar_url'', json_option (pv_avatar_url c)), (''website'', json_option (pv_website c)),
     (''twitter'', json_option (pv_twitter c)), (''instagram'', json_option (pv_instagram c)),
     (''minor_per_btc'', show_int (pv_minor_per_btc c)), (''last_known_rate'', json_bool (pv_last_known_rate c)),
     (''liquid_btc_asset_id'', json_string (pv_liquid_btc_asset_id c)), (''domain'', json_string (pv_domain c))]"

definition config_json :: "pwa_config_view \<Rightarrow> string" where
  "config_json c = json_object (config_members c)"

record web_manifest_icon =
  wi_src :: string
  wi_sizes :: string
  wi_content_type :: string
  wi_purpose :: string

record web_manifest =
  wm_name :: string
  wm_short_name :: string
  wm_start_url :: string
  wm_scope :: string
  wm_display :: string
  wm_background_color :: string
  wm_theme_color :: string
  wm_icons :: "web_manifest_icon list"

definition icon_json :: "web_manifest_icon \<Rightarrow> string" where
  "icon_json i = json_object [(''src'', json_string (wi_src i)), (''sizes'', json_string (wi_sizes i)),
     (''type'', json_string (wi_content_type i)), (''purpose'', json_string (wi_purpose i))]"

definition manifest_json :: "web_manifest \<Rightarrow> string" where
  "manifest_json m = json_object
    [(''name'', json_string (wm_name m)), (''short_name'', json_string (wm_short_name m)),
     (''start_url'', json_string (wm_start_url m)), (''scope'', json_string (wm_scope m)),
     (''display'', json_string (wm_display m)), (''background_color'', json_string (wm_background_color m)),
     (''theme_color'', json_string (wm_theme_color m)), (''icons'', json_array (map icon_json (wm_icons m)))]"

definition icon :: "string \<Rightarrow> string \<Rightarrow> web_manifest_icon" where
  "icon pixels purpose =
    \<lparr>wi_src = ''/pwa-assets/icons/icon-'' @ pixels @ ''.png'', wi_sizes = pixels @ ''x'' @ pixels, wi_content_type = ''image/png'',
     wi_purpose = purpose\<rparr>"

definition web_manifest_for_page :: "donation_page \<Rightarrow> shell_kind \<Rightarrow> web_manifest" where
  "web_manifest_for_page page kind =
    (let name = (if all_space (dp_header page) then dp_nym page else dp_header page);
         manifest_name = (case kind of Donation_shell \<Rightarrow> name | Pos_shell \<Rightarrow> name @ '' POS'')
     in \<lparr>wm_name = manifest_name, wm_short_name = short_manifest_name manifest_name,
         wm_start_url = start_url kind (dp_nym page), wm_scope = ''/'', wm_display = ''standalone'',
         wm_background_color = ''#161512'', wm_theme_color = ''#161512'',
         wm_icons = [icon ''192'' ''any'', icon ''192'' ''maskable'', icon ''512'' ''any'', icon ''512'' ''maskable'']\<rparr>)"

subsection \<open>Filling a shell\<close>

definition marker :: "string \<Rightarrow> string" where
  "marker name = ''<!-- BULLNYM_'' @ name @ '' -->''"

definition meta_tag :: "string \<Rightarrow> string \<Rightarrow> string" where
  "meta_tag property content = ''<meta property='' @ quoted (''og:'' @ property) @ '' content='' @ quoted (html_escape_attr content) @ ''>''"

definition og_meta_tags :: "string \<Rightarrow> string \<Rightarrow> string option \<Rightarrow> string" where
  "og_meta_tags header description og_url =
    meta_tag ''title'' header @ [CHR 0x0A] @ meta_tag ''description'' description
    @ (case og_url of None \<Rightarrow> [] | Some u \<Rightarrow> [CHR 0x0A] @ meta_tag ''image'' u)"

definition config_script :: "pwa_config_view \<Rightarrow> string" where
  "config_script config = ''<script id='' @ quoted ''bullnym-config'' @ '' type='' @ quoted ''application/json'' @ ''>''
     @ escape_json_for_script (config_json config) @ ''</script>''"

definition manifest_link :: "shell_kind \<Rightarrow> string \<Rightarrow> string" where
  "manifest_link kind nym = ''<link rel='' @ quoted ''manifest'' @ '' href='' @ quoted (html_escape_attr (manifest_href kind nym)) @ ''>''"

definition inject_pwa_shell :: "string \<Rightarrow> pwa_config_view \<Rightarrow> shell_kind \<Rightarrow> string option \<Rightarrow> string" where
  "inject_pwa_shell shell config kind og_url =
    replace_all (marker ''OG'') (og_meta_tags (pv_header config) (pv_description config) og_url)
      (replace_all (marker ''MANIFEST'') (manifest_link kind (pv_nym config))
        (replace_all (marker ''CONFIG'') (config_script config) shell))"

subsection \<open>Answers\<close>

record donation_page_tpl =
  dt_nym :: string
  dt_header :: string
  dt_description :: string
  dt_public_url :: string
  dt_avatar_url :: "string option"
  dt_og_url :: "string option"
  dt_display_currency :: string
  dt_website :: "string option"
  dt_twitter :: "string option"
  dt_instagram :: "string option"
  dt_minor_per_btc :: int
  dt_last_known_rate :: bool
  dt_supported_currencies :: "currency_view list"

datatype answer_body = Text string | Error_body app_error

record http_answer =
  an_status :: nat
  an_headers :: "string \<rightharpoonup> string"
  an_body :: answer_body

definition status_answer :: "nat \<Rightarrow> http_answer" where
  "status_answer code = \<lparr>an_status = code, an_headers = Map.empty, an_body = Text []\<rparr>"

text \<open>What axum makes of a status and a body.\<close>
definition text_answer :: "nat \<Rightarrow> string \<Rightarrow> http_answer" where
  "text_answer code body = \<lparr>an_status = code, an_headers = [''content-type'' \<mapsto> ''text/plain; charset=utf-8''],
     an_body = Text body\<rparr>"

definition bytes_answer :: "nat \<Rightarrow> string \<Rightarrow> http_answer" where
  "bytes_answer code body = \<lparr>an_status = code, an_headers = [''content-type'' \<mapsto> ''application/octet-stream''],
     an_body = Text body\<rparr>"

definition error_answer :: "app_error \<Rightarrow> http_answer" where
  "error_answer e = \<lparr>an_status = error_http_status e, an_headers = [''content-type'' \<mapsto> ''application/json''],
     an_body = Error_body e\<rparr>"

definition set_header :: "string \<Rightarrow> string \<Rightarrow> http_answer \<Rightarrow> http_answer" where
  "set_header name v a = a\<lparr>an_headers := (an_headers a)(name \<mapsto> v)\<rparr>"

definition apply_security_headers :: "shell_kind \<Rightarrow> http_answer \<Rightarrow> http_answer" where
  "apply_security_headers kind =
    set_header ''cache-control'' ''public, max-age=60'' \<circ> set_header ''content-security-policy'' (shell_csp kind)
    \<circ> set_header ''referrer-policy'' ''strict-origin-when-cross-origin'' \<circ> set_header ''x-frame-options'' ''DENY''
    \<circ> set_header ''x-content-type-options'' ''nosniff'' \<circ> set_header ''content-type'' ''text/html; charset=utf-8''"

definition mark_pwa_shell_response :: "shell_kind \<Rightarrow> http_answer \<Rightarrow> http_answer" where
  "mark_pwa_shell_response kind = set_header ''x-bullnym-pwa-shell'' (shell_mode kind)"

subsection \<open>Handlers\<close>

text \<open>A handler that returns early with an answer.\<close>
type_synonym responder = "(service, http_answer, http_answer) handler"

definition respond :: "responder \<Rightarrow> service \<Rightarrow> http_answer \<times> service" where
  "respond m s = (case m s of (Inl a, s') \<Rightarrow> (a, s') | (Inr a, s') \<Rightarrow> (a, s'))"

record 'net render_env =
  rn_domain :: string
  rn_gates :: "'net gates"
  rn_pricer :: pricer_config
  rn_currencies :: "currency_view list"
  rn_dist_dir :: string
  rn_shells :: pwa_shells
  rn_read_file :: "path \<Rightarrow> string option"
  rn_page_template :: "donation_page_tpl \<Rightarrow> string + string"
  rn_not_found_template :: "string \<Rightarrow> string \<Rightarrow> string option"
  rn_archived_template :: "string \<Rightarrow> string \<Rightarrow> string option"

definition render_404 :: "'net render_env \<Rightarrow> string \<Rightarrow> http_answer" where
  "render_404 env nym = apply_security_headers Donation_shell (text_answer 404
     (case rn_not_found_template env nym (rn_domain env) of None \<Rightarrow> ''Not found'' | Some b \<Rightarrow> b))"

definition render_archived :: "'net render_env \<Rightarrow> string \<Rightarrow> http_answer" where
  "render_archived env nym = apply_security_headers Donation_shell (text_answer 200
     (case rn_archived_template env nym (rn_domain env) of None \<Rightarrow> ''Archived'' | Some b \<Rightarrow> b))"

datatype donation_rate_bucket = Html | Manifest

fun bucket_axis :: "donation_rate_bucket \<Rightarrow> int \<Rightarrow> ip_addr \<Rightarrow> limiter \<Rightarrow> (app_error + unit) \<times> limiter" where
  "bucket_axis Html = check_donation_html_per_source"
| "bucket_axis Manifest = check_donation_manifest_per_source"

definition check_donation_rate_limit :: "'net render_env \<Rightarrow> request \<Rightarrow> donation_rate_bucket \<Rightarrow> (service, http_answer, unit) handler" where
  "check_donation_rate_limit env rq bucket = map_err error_answer (page_gate (rn_gates env) rq (bucket_axis bucket))"

definition service_worker :: "'net render_env \<Rightarrow> http_answer" where
  "service_worker env =
    (case rn_read_file env [rn_dist_dir env, ''sw.js''] of
       None \<Rightarrow> status_answer 404
     | Some bytes \<Rightarrow> set_header ''cache-control'' ''no-cache'' (set_header ''content-type'' ''application/javascript''
         (bytes_answer 200 bytes)))"

definition pos_placeholder_page :: "string \<Rightarrow> service \<Rightarrow> donation_page option" where
  "pos_placeholder_page nym s =
    map_option (\<lambda>u. \<lparr>dp_nym = u_nym u, dp_ct_descriptor = None, dp_next_addr_idx = 0, dp_pos_ct_descriptor = None,
       dp_pos_next_addr_idx = 0, dp_header = u_nym u, dp_description = [], dp_avatar_sha256 = None, dp_og_sha256 = None,
       dp_display_currency = ''USD'', dp_website = None, dp_twitter = None, dp_instagram = None, dp_enabled = False,
       dp_archived_at = None\<rparr>)
      (get_active_user_by_nym nym (us_users (sv_users s)))"

definition known_slug :: "string \<Rightarrow> http_answer \<Rightarrow> (service, http_answer, unit) handler" where
  "known_slug nym otherwise = require (is_valid_slug nym \<and> \<not> is_reserved nym) otherwise"

definition placeholder_or_404 :: "string \<Rightarrow> (service, http_answer, donation_page) handler" where
  "placeholder_or_404 nym = andThen (gets (pos_placeholder_page nym)) (some_or (status_answer 404))"

text \<open>The match on the page of a manifest request.\<close>
definition manifest_page :: "shell_kind \<Rightarrow> string \<Rightarrow> (service, http_answer, donation_page) handler" where
  "manifest_page kind nym =
    andThen (gets (\<lambda>s. get_donation_page_by_nym nym (po_pages (sv_pos s)))) (\<lambda>page.
      case page of
        Some p \<Rightarrow> if \<not> dp_is_archived p \<and> (kind = Pos_shell \<or> dp_enabled p) then pure p else fail (status_answer 404)
      | None \<Rightarrow> if kind = Pos_shell then placeholder_or_404 nym else fail (status_answer 404))"

definition manifest_for_kind :: "'net render_env \<Rightarrow> request \<Rightarrow> shell_kind \<Rightarrow> string \<Rightarrow> responder" where
  "manifest_for_kind env rq kind nym =
    andThen (known_slug nym (status_answer 404)) (\<lambda>_.
    andThen (check_donation_rate_limit env rq Manifest) (\<lambda>_.
    andThen (manifest_page kind nym) (\<lambda>page.
      pure (set_header ''cache-control'' ''public, max-age=300'' (set_header ''content-type'' ''application/manifest+json''
        (text_answer 200 (manifest_json (web_manifest_for_page page kind))))))))"

definition manifest :: "'net render_env \<Rightarrow> request \<Rightarrow> string \<Rightarrow> service \<Rightarrow> http_answer \<times> service" where
  "manifest env rq nym = respond (manifest_for_kind env rq Donation_shell nym)"

definition pos_manifest :: "'net render_env \<Rightarrow> request \<Rightarrow> string \<Rightarrow> service \<Rightarrow> http_answer \<times> service" where
  "pos_manifest env rq nym = respond (manifest_for_kind env rq Pos_shell nym)"

definition page_rate ::
  "'net render_env \<Rightarrow> request \<Rightarrow> pricer_reply \<Rightarrow> string \<Rightarrow> (service, http_answer, rate_view option) handler" where
  "page_rate env rq reply currency = (\<lambda>s.
    case get_rate (rn_pricer env) (rq_now rq) (int (rq_unix rq)) reply currency (sv_rates s) of
      (v, cache) \<Rightarrow> (Inr v, s\<lparr>sv_rates := cache\<rparr>))"

text \<open>The shell filled in, or the template when no shell can be read.\<close>
definition live_answer :: "'net render_env \<Rightarrow> donation_page \<Rightarrow> shell_kind \<Rightarrow> rate_view option \<Rightarrow> http_answer" where
  "live_answer env page kind rate =
    (let img = ''https://'' @ rn_domain env @ ''/img/'' @ dp_nym page;
         avatar_url = map_option (\<lambda>_. img @ ''/avatar.webp'') (dp_avatar_sha256 page);
         og_url = map_option (\<lambda>hash. img @ ''/og.jpg?v='' @ hash) (dp_og_sha256 page);
         (minor_per_btc, last_known_rate) = (case rate of
           Some r \<Rightarrow> (rv_minor_per_btc r, rv_last_known_rate r) | None \<Rightarrow> (0, False))
     in case shell_for (rn_read_file env) (rn_shells env) kind of
       Some shell \<Rightarrow> mark_pwa_shell_response kind (apply_security_headers kind (text_answer 200 (inject_pwa_shell shell
          \<lparr>pv_nym = dp_nym page, pv_mode = shell_mode kind, pv_currency = dp_display_currency page,
           pv_header = dp_header page, pv_description = dp_description page, pv_avatar_url = avatar_url,
           pv_website = dp_website page, pv_twitter = dp_twitter page, pv_instagram = dp_instagram page,
           pv_minor_per_btc = minor_per_btc, pv_last_known_rate = last_known_rate,
           pv_liquid_btc_asset_id = liquid_btc_asset_id, pv_domain = rn_domain env\<rparr> kind og_url)))
     | None \<Rightarrow> apply_security_headers Donation_shell (text_answer 200
          (case rn_page_template env
             \<lparr>dt_nym = dp_nym page, dt_header = dp_header page, dt_description = dp_description page,
              dt_public_url = ''https://'' @ rn_domain env @ ''/'' @ dp_nym page, dt_avatar_url = avatar_url,
              dt_og_url = og_url, dt_display_currency = dp_display_currency page, dt_website = dp_website page,
              dt_twitter = dp_twitter page, dt_instagram = dp_instagram page, dt_minor_per_btc = minor_per_btc,
              dt_last_known_rate = last_known_rate, dt_supported_currencies = rn_currencies env\<rparr> of
             Inr body \<Rightarrow> body | Inl e \<Rightarrow> ''template render failed: '' @ e)))"

definition render_live ::
  "'net render_env \<Rightarrow> request \<Rightarrow> pricer_reply \<Rightarrow> donation_page \<Rightarrow> shell_kind \<Rightarrow> responder" where
  "render_live env rq reply page kind =
    andThen (page_rate env rq reply (dp_display_currency page)) (\<lambda>rate. pure (live_answer env page kind rate))"

text \<open>The slug of a path: one leading and one trailing slash are taken off.\<close>
definition slug_of_path :: "string \<Rightarrow> string" where
  "slug_of_path raw_path =
    (let nym = (case raw_path of c # r \<Rightarrow> if c = CHR ''/'' then r else raw_path | [] \<Rightarrow> [])
     in if nym \<noteq> [] \<and> last nym = CHR ''/'' then butlast nym else nym)"

definition render_or_404 ::
  "'net render_env \<Rightarrow> request \<Rightarrow> pricer_reply \<Rightarrow> string \<Rightarrow> service \<Rightarrow> http_answer \<times> service" where
  "render_or_404 env rq reply raw_path =
    (let nym = slug_of_path raw_path in respond (
      andThen (known_slug nym (render_404 env nym)) (\<lambda>_.
      andThen (check_donation_rate_limit env rq Html) (\<lambda>_.
      andThen (gets (\<lambda>s. get_donation_page_by_nym nym (po_pages (sv_pos s)))) (\<lambda>page.
      andThen (some_or (render_404 env nym) page) (\<lambda>p.
      andThen (require (\<not> dp_is_archived p) (render_archived env nym)) (\<lambda>_.
      andThen (require (dp_enabled p) (render_404 env nym)) (\<lambda>_.
        render_live env rq reply p Donation_shell))))))))"

definition render_pos_or_404 ::
  "'net render_env \<Rightarrow> request \<Rightarrow> pricer_reply \<Rightarrow> string \<Rightarrow> service \<Rightarrow> http_answer \<times> service" where
  "render_pos_or_404 env rq reply nym = respond (
    andThen (known_slug nym (status_answer 404)) (\<lambda>_.
    andThen (check_donation_rate_limit env rq Html) (\<lambda>_.
    andThen (gets (\<lambda>s. get_donation_page_by_nym nym (po_pages (sv_pos s)))) (\<lambda>page.
    andThen (case page of
        Some p \<Rightarrow> if \<not> dp_is_archived p then pure p else fail (status_answer 404)
      | None \<Rightarrow> placeholder_or_404 nym) (\<lambda>p.
      render_live env rq reply p Pos_shell)))))"

end
