(* ===== verification/RenderProperties.thy ===== *)
theory RenderProperties
  imports DonationRender PageProperties
begin

text \<open>
  What the public pages promise: a shell is filled as if its markers were replaced all at once, what a
  merchant writes reaches the browser unchanged and as text, and what is hidden does not show.
\<close>

subsection \<open>Replacing the markers of a shell\<close>

text \<open>A document cut before each opening bracket.\<close>
function tags :: "string \<Rightarrow> string list" where
  "tags [] = []"
| "tags (c # s) = (c # takeWhile (\<lambda>x. x \<noteq> CHR ''<'') s) # tags (dropWhile (\<lambda>x. x \<noteq> CHR ''<'') s)"
  by pat_completeness auto
termination by (relation "measure length") (simp_all add: less_Suc_eq_le length_dropWhile_le)

lemma concat_tags [simp]: "concat (tags s) = s"
  by (induction s rule: tags.induct) simp_all

lemma tags_head: "t \<in> set (tl (tags s)) \<Longrightarrow> t \<noteq> [] \<and> hd t = CHR ''<''"
proof (induction s rule: tags.induct)
  case (2 c s)
  have later: "hd (dropWhile (\<lambda>x. x \<noteq> CHR ''<'') s) = CHR ''<''" if "dropWhile (\<lambda>x. x \<noteq> CHR ''<'') s \<noteq> []"
    using hd_dropWhile[OF that] by simp
  show ?case
  proof (cases "dropWhile (\<lambda>x. x \<noteq> CHR ''<'') s")
    case (Cons d r)
    then have "d = CHR ''<''" using later by simp
    then show ?thesis using 2 Cons by auto
  next
    case Nil
    then have "tags (c # s) = [c # takeWhile (\<lambda>x. x \<noteq> CHR ''<'') s]" by (simp only: tags.simps)
    then show ?thesis using 2(2) by (simp del: tags.simps)
  qed
qed simp

text \<open>A pattern with its only opening bracket at the front.\<close>
definition bracket :: "string \<Rightarrow> bool" where
  "bracket m \<longleftrightarrow> (\<exists>r. m = CHR ''<'' # r \<and> CHR ''<'' \<notin> set r)"

lemma take_whole: "take (length r) w = r \<Longrightarrow> length r \<le> length w"
  by (metis length_take min.cobounded1)

lemma starts_cut:
  assumes "bracket m" "CHR ''<'' \<notin> set w" "d = [] \<or> hd d = CHR ''<''"
  shows "starts_with m (c # w @ d) \<longleftrightarrow> starts_with m (c # w)"
proof
  obtain r where m: "m = CHR ''<'' # r" "CHR ''<'' \<notin> set r" using assms(1) by (auto simp: bracket_def)
  assume s: "starts_with m (c # w @ d)"
  then have t: "take (length r) (w @ d) = r" "c = CHR ''<''" by (auto simp: m starts_with_def)
  have "length r \<le> length w \<or> d = []"
  proof (rule ccontr)
    assume "\<not> ?thesis"
    then obtain e where d: "length w < length r" "d = CHR ''<'' # e" using assms(3) by (cases d) auto
    then have "r ! length w = CHR ''<''" using t(1) by (metis nth_append_length nth_take)
    then show False using m(2) d(1) nth_mem by metis
  qed
  then show "starts_with m (c # w)" using t by (auto simp: m starts_with_def)
qed (use assms(1) in \<open>auto simp: bracket_def starts_with_def dest: take_whole\<close>)

lemma no_bracket_kept:
  assumes "bracket m" "CHR ''<'' \<notin> set w"
  shows "replace_all m r (w @ d) = w @ replace_all m r d"
  using assms(2)
proof (induction w)
  case (Cons c w)
  then have "\<not> starts_with m (c # w @ d)" using assms(1) by (auto simp: bracket_def starts_with_def)
  then show ?case using Cons by simp
qed simp

text \<open>Replacing a bracket works tag by tag.\<close>
lemma replace_tags:
  assumes "bracket m"
  shows "replace_all m r s = concat (map (\<lambda>t. if starts_with m t then r @ drop (length m) t else t) (tags s))"
proof (induction s rule: tags.induct)
  case (2 c s)
  let ?w = "takeWhile (\<lambda>x. x \<noteq> CHR ''<'') s" and ?d = "dropWhile (\<lambda>x. x \<noteq> CHR ''<'') s"
  have s: "s = ?w @ ?d" by simp
  have w: "CHR ''<'' \<notin> set ?w" by (auto dest: set_takeWhileD)
  have "?d = [] \<or> hd ?d = CHR ''<''" using hd_dropWhile[of "\<lambda>x. x \<noteq> CHR ''<''" s] by auto
  then have cut: "starts_with m (c # s) \<longleftrightarrow> starts_with m (c # ?w)" using starts_cut[OF assms w, of ?d c] by simp
  show ?case
  proof (cases "starts_with m (c # ?w)")
    case True
    then have len: "length m - 1 \<le> length ?w" "0 < length m"
      using assms by (auto simp: bracket_def starts_with_def dest: take_whole)
    then have "drop (length m - 1) s = drop (length m - 1) ?w @ ?d" by (subst s) (simp del: takeWhile_dropWhile_id)
    moreover have "CHR ''<'' \<notin> set (drop (length m - 1) ?w)" using w by (meson in_set_dropD)
    ultimately have "replace_all m r (drop (length m - 1) s) = drop (length m - 1) ?w @ replace_all m r ?d"
      using no_bracket_kept[OF assms] by simp
    then show ?thesis using True cut len 2 by (simp add: drop_Cons')
  next
    case False
    have "replace_all m r s = ?w @ replace_all m r ?d"
      using no_bracket_kept[OF assms w, of r ?d] by simp
    then show ?thesis using False cut 2 by simp
  qed
qed simp

lemma replace_append:
  assumes "bracket m" "b = [] \<or> hd b = CHR ''<''"
  shows "replace_all m r (a @ b) = replace_all m r a @ replace_all m r b"
proof -
  have "tags (a @ b) = tags a @ tags b"
    using assms(2)
  proof (induction a rule: tags.induct)
    case (2 c s)
    have "takeWhile (\<lambda>x. x \<noteq> CHR ''<'') (s @ b) = takeWhile (\<lambda>x. x \<noteq> CHR ''<'') s"
      "dropWhile (\<lambda>x. x \<noteq> CHR ''<'') (s @ b) = dropWhile (\<lambda>x. x \<noteq> CHR ''<'') s @ b"
      using 2(2) by (cases b; induction s; auto)+
    then show ?case using 2 by simp
  qed simp
  then show ?thesis by (simp add: replace_tags[OF assms(1)])
qed

lemma replace_concat:
  assumes "bracket m" "\<forall>t\<in>set (tl ts). t \<noteq> [] \<and> hd t = CHR ''<''"
  shows "replace_all m r (concat ts) = concat (map (replace_all m r) ts)"
  using assms(2)
proof (induction ts)
  case (Cons t ts)
  have "concat ts = [] \<or> hd (concat ts) = CHR ''<''" using Cons.prems by (cases ts) auto
  moreover have "\<forall>t\<in>set (tl ts). t \<noteq> [] \<and> hd t = CHR ''<''" using Cons.prems by (cases ts) auto
  ultimately show ?case using Cons.IH by (simp add: replace_append[OF assms(1)])
qed simp

lemma replace_none:
  assumes "bracket m" "\<And>t. t \<in> set (tags s) \<Longrightarrow> \<not> starts_with m t"
  shows "replace_all m r s = s"
proof -
  have "map (\<lambda>t. if starts_with m t then r @ drop (length m) t else t) (tags s) = tags s"
    using assms(2) by (intro map_idI) simp
  then show ?thesis using replace_tags[OF assms(1), of r s] by simp
qed

lemma markers: "bracket (marker ''CONFIG'')" "bracket (marker ''MANIFEST'')" "bracket (marker ''OG'')"
  by (simp_all add: bracket_def marker_def)

subsection \<open>The pieces a shell is filled with\<close>

lemma escape_json: "escape_json_for_script s = concat (map (\<lambda>c. if c = CHR ''<'' then [CHR 0x5C] @ ''u003c'' else [c]) s)"
  unfolding escape_json_for_script_def by (induction s) (auto simp: starts_with_def)

lemma no_bracket_escaped: "CHR ''<'' \<notin> set (escape_json_for_script s)" "CHR ''<'' \<notin> set (html_escape_attr s)"
  by (auto simp: escape_json html_escape_attr_def html_escape_char_def split: if_splits)

lemma tags_piece: "CHR ''<'' \<notin> set w \<Longrightarrow> d = [] \<or> hd d = CHR ''<'' \<Longrightarrow> tags (c # w @ d) = (c # w) # tags d"
proof -
  assume w: "CHR ''<'' \<notin> set w" and d: "d = [] \<or> hd d = CHR ''<''"
  have "takeWhile (\<lambda>x. x \<noteq> CHR ''<'') (w @ d) = w" "dropWhile (\<lambda>x. x \<noteq> CHR ''<'') (w @ d) = d"
    using w d by (cases d; induction w; auto)+
  then show ?thesis by simp
qed

text \<open>The config script and the manifest link, followed by what a tag has left, hold no marker.\<close>
lemma script_inert:
  assumes "CHR ''<'' \<notin> set rest" "m \<in> {marker ''MANIFEST'', marker ''OG''}"
  shows "replace_all m r (config_script config @ rest) = config_script config @ rest"
proof -
  let ?j = "escape_json_for_script (config_json config)"
  let ?open = "''script id='' @ quoted ''bullnym-config'' @ '' type='' @ quoted ''application/json'' @ ''>'' @ ?j"
  have cut: "config_script config @ rest = CHR ''<'' # ?open @ (CHR ''<'' # ''/script>'' @ rest)"
    by (simp add: config_script_def)
  have "CHR ''<'' \<notin> set ?open" using no_bracket_escaped(1) by (simp add: quoted_def)
  then have "tags (config_script config @ rest) = [CHR ''<'' # ?open, CHR ''<'' # ''/script>'' @ rest]"
    unfolding cut using assms(1) tags_piece[of "''/script>'' @ rest" "[]" "CHR ''<''"] by (subst tags_piece) simp_all
  then show ?thesis using assms(2) markers by (intro replace_none) (auto simp: marker_def starts_with_def)
qed

lemma link_inert:
  assumes "CHR ''<'' \<notin> set rest"
  shows "replace_all (marker ''OG'') r (manifest_link kind nym @ rest) = manifest_link kind nym @ rest"
proof -
  let ?open = "''link rel='' @ quoted ''manifest'' @ '' href='' @ quoted (html_escape_attr (manifest_href kind nym)) @ ''>''"
  have cut: "manifest_link kind nym @ rest = CHR ''<'' # (?open @ rest) @ []" by (simp add: manifest_link_def)
  have "CHR ''<'' \<notin> set (?open @ rest)" using no_bracket_escaped(2) assms by (simp add: quoted_def)
  then have "tags (manifest_link kind nym @ rest) = [CHR ''<'' # ?open @ rest]"
    unfolding cut by (subst tags_piece) simp_all
  then show ?thesis using markers by (intro replace_none) (auto simp: marker_def starts_with_def)
qed

subsection \<open>The shell, filled\<close>

text \<open>One marker in place, at the front of a tag.\<close>
definition fill_tag :: "pwa_config_view \<Rightarrow> shell_kind \<Rightarrow> string option \<Rightarrow> string \<Rightarrow> string" where
  "fill_tag config kind og_url t =
    (if starts_with (marker ''CONFIG'') t then config_script config @ drop (length (marker ''CONFIG'')) t
     else if starts_with (marker ''MANIFEST'') t
       then manifest_link kind (pv_nym config) @ drop (length (marker ''MANIFEST'')) t
     else if starts_with (marker ''OG'') t
       then og_meta_tags (pv_header config) (pv_description config) og_url @ drop (length (marker ''OG'')) t
     else t)"

lemma tag_tail:
  assumes "t \<in> set (tags s)" "starts_with m t" "bracket m"
  shows "CHR ''<'' \<notin> set (drop (length m) t)"
proof -
  have "CHR ''<'' \<notin> set (tl t)" using assms(1)
    by (induction s rule: tags.induct) (auto dest: set_takeWhileD)
  moreover have "drop (length m) t = drop (length m - 1) (tl t)" using assms(3) by (cases m; cases t) (auto simp: bracket_def)
  ultimately show ?thesis by (auto dest: in_set_dropD)
qed

lemma single_tag:
  assumes "bracket m" "t \<in> set (tags s)"
  shows "replace_all m r t = (if starts_with m t then r @ drop (length m) t else t)"
proof -
  have whole: "dropWhile P (takeWhile P x) = []" for P and x :: string by (induction x) auto
  have "tags t = [t]" using assms(2) by (induction s rule: tags.induct) (auto simp: whole)
  then show ?thesis using replace_tags[OF assms(1), of r t] by simp
qed

lemma filled_tag:
  assumes "t \<in> set (tags s)"
  shows "replace_all (marker ''OG'') (og_meta_tags (pv_header config) (pv_description config) og_url)
      (replace_all (marker ''MANIFEST'') (manifest_link kind (pv_nym config))
        (replace_all (marker ''CONFIG'') (config_script config) t)) = fill_tag config kind og_url t"
  using single_tag[OF markers(1) assms] single_tag[OF markers(2) assms] single_tag[OF markers(3) assms]
    script_inert tag_tail[OF assms _ markers(1)] link_inert tag_tail[OF assms _ markers(2)]
  by (auto simp: fill_tag_def)

lemma replace_head:
  "r \<noteq> [] \<and> hd r = CHR ''<'' \<Longrightarrow> t \<noteq> [] \<and> hd t = CHR ''<'' \<Longrightarrow>
   replace_all m r t \<noteq> [] \<and> hd (replace_all m r t) = CHR ''<''"
  by (cases t) auto

lemma replace_pieces:
  assumes "bracket m" "\<forall>t\<in>set (tl ts). f t \<noteq> [] \<and> hd (f t) = CHR ''<''"
  shows "replace_all m r (concat (map f ts)) = concat (map (\<lambda>t. replace_all m r (f t)) ts)"
proof -
  have "\<forall>t\<in>set (tl (map f ts)). t \<noteq> [] \<and> hd t = CHR ''<''" using assms(2) by (cases ts) auto
  then show ?thesis using replace_concat[OF assms(1), of "map f ts" r] by (simp add: comp_def)
qed

text \<open>A shell is filled as if its markers were replaced all at once, whatever the page says: no text of
  the page, inserted for one marker, is taken for another marker or hides one.\<close>
theorem shell_markers_are_replaced_at_once:
  "inject_pwa_shell shell config kind og_url = concat (map (fill_tag config kind og_url) (tags shell))"
proof -
  let ?c = "config_script config" and ?m = "manifest_link kind (pv_nym config)"
  let ?f = "\<lambda>t. replace_all (marker ''CONFIG'') ?c t"
  have front: "?c \<noteq> [] \<and> hd ?c = CHR ''<''" "?m \<noteq> [] \<and> hd ?m = CHR ''<''"
    by (simp_all add: config_script_def manifest_link_def)
  have heads: "\<forall>t\<in>set (tl (tags shell)). t \<noteq> [] \<and> hd t = CHR ''<''" using tags_head by blast
  then have filled: "\<forall>t\<in>set (tl (tags shell)). ?f t \<noteq> [] \<and> hd (?f t) = CHR ''<''"
    using replace_head[OF front(1)] by blast
  then have linked: "\<forall>t\<in>set (tl (tags shell)). replace_all (marker ''MANIFEST'') ?m (?f t) \<noteq> []
      \<and> hd (replace_all (marker ''MANIFEST'') ?m (?f t)) = CHR ''<''"
    using replace_head[OF front(2)] by blast
  have "?f shell = concat (map ?f (tags shell))"
    using replace_concat[OF markers(1) heads, of ?c] by simp
  then show ?thesis
    unfolding inject_pwa_shell_def
    by (simp add: replace_pieces[OF markers(2) filled] replace_pieces[OF markers(3) linked] filled_tag cong: map_cong)
qed

subsection \<open>What a merchant writes\<close>

text \<open>A browser reading a quoted attribute: the reference that \<open>html_escape_attr\<close> is measured against.  It
  knows the five references the escape makes and refuses what would end the attribute or the tag.\<close>
fun html_read :: "string \<Rightarrow> string option" where
  "html_read [] = Some []"
| "html_read (c # s) =
    (if c = CHR ''&'' then
       (if starts_with ''amp;'' s then map_option ((#) CHR ''&'') (html_read (drop 4 s))
        else if starts_with ''lt;'' s then map_option ((#) CHR ''<'') (html_read (drop 3 s))
        else if starts_with ''gt;'' s then map_option ((#) CHR ''>'') (html_read (drop 3 s))
        else if starts_with ''quot;'' s then map_option ((#) CHR 0x22) (html_read (drop 5 s))
        else if starts_with ''#x27;'' s then map_option ((#) CHR 0x27) (html_read (drop 5 s))
        else None)
     else if c \<in> {CHR ''<'', CHR ''>'', CHR 0x22, CHR 0x27} then None
     else map_option ((#) c) (html_read s))"

lemma html_read_escape: "html_read (html_escape_attr v) = Some v"
proof (induction v)
  case (Cons c v)
  have "html_read (html_escape_char c @ r) = map_option ((#) c) (html_read r)" for r
    by (auto simp: html_escape_char_def starts_with_def)
  then show ?case using Cons by (simp add: html_escape_attr_def)
qed (simp add: html_escape_attr_def)

lemma html_escape_inert: "set (html_escape_attr v) \<inter> {CHR ''<'', CHR ''>'', CHR 0x22, CHR 0x27} = {}"
  by (auto simp: html_escape_attr_def html_escape_char_def split: if_splits)

lemma escape_json_append: "escape_json_for_script (a @ b) = escape_json_for_script a @ escape_json_for_script b"
  by (simp add: escape_json)

lemma escape_plain: "CHR ''<'' \<notin> set s \<Longrightarrow> escape_json_for_script s = s"
  unfolding escape_json by (induction s) auto

lemma json_char_plain: "x \<in> set (json_char ch) \<Longrightarrow> x \<in> {CHR ''>'', CHR ''&''} \<Longrightarrow> x = ch"
proof -
  assume x: "x \<in> set (json_char ch)" "x \<in> {CHR ''>'', CHR ''&''}"
  have digit: "hex_digit n \<noteq> x" if "n < 16" for n
    using hex_digit_plain[OF that] x(2) by (auto simp: js_safe_char_def split: if_splits)
  have "x \<notin> set (hex2 (of_char ch))" if "(of_char ch :: nat) < 32"
  proof -
    have "(of_char ch :: nat) div 16 < 16" using that by linarith
    then show ?thesis using digit[of "of_char ch div 16"] digit[of "of_char ch mod 16"] by (auto simp: hex2_def)
  qed
  then show "x = ch" using x by (auto simp: json_char_def Let_def split: if_splits)
qed

lemma json_escape_char:
  "js_read_body (escape_json_for_script (json_char ch) @ r) = map_option ((#) ch) (js_read_body r)"
proof (cases "ch \<in> {CHR ''>'', CHR ''&''}")
  case True
  then have "json_char ch = [ch]" by (auto simp: json_char_def)
  then show ?thesis using True by (auto simp: escape_json)
next
  case False
  then have "js_safe_char x = (if x = CHR ''<'' then [CHR 0x5C] @ ''u003c'' else [x])" if "x \<in> set (json_char ch)" for x
    using json_char_plain[OF that] by (auto simp: js_safe_char_def)
  then have "map js_safe_char (json_char ch) = map (\<lambda>x. if x = CHR ''<'' then [CHR 0x5C] @ ''u003c'' else [x]) (json_char ch)"
    by (intro map_cong refl)
  then have "escape_json_for_script (json_char ch) = concat (map js_safe_char (json_char ch))" by (simp only: escape_json)
  then show ?thesis using js_read_char by simp
qed

lemma json_escape_reads: "js_read (escape_json_for_script (json_string v)) = Some v"
proof -
  have "js_read_body (escape_json_for_script (concat (map json_char v)) @ [CHR 0x22]) = Some v"
    by (induction v) (simp_all add: escape_json_append json_escape_char escape_json[of "[]"])
  moreover have "escape_json_for_script [CHR 0x22] = [CHR 0x22]" by (simp add: escape_json)
  ultimately show ?thesis
    using escape_json_append[of "[CHR 0x22]"] by (simp add: json_string_def escape_json_append js_read_def)
qed

lemma escape_join:
  "CHR ''<'' \<notin> set sep \<Longrightarrow> escape_json_for_script (join sep xs) = join sep (map escape_json_for_script xs)"
proof (induction sep xs rule: join.induct)
  case (3 sep s t ts)
  then show ?case using escape_plain[of sep] by (simp add: escape_json_append)
qed (simp_all add: escape_json)

lemma escape_object:
  assumes "\<forall>(k, v)\<in>set ms. CHR ''<'' \<notin> set (json_string k)"
  shows "escape_json_for_script (json_object ms) = json_object (map (\<lambda>(k, v). (k, escape_json_for_script v)) ms)"
proof -
  have "map (escape_json_for_script \<circ> (\<lambda>(k, v). json_string k @ '':'' @ v)) ms
      = map ((\<lambda>(k, v). json_string k @ '':'' @ v) \<circ> (\<lambda>(k, v). (k, escape_json_for_script v))) ms"
  proof (intro map_cong refl)
    fix m
    assume "m \<in> set ms"
    then have "CHR ''<'' \<notin> set (json_string (fst m) @ '':'')" using assms by auto
    then show "(escape_json_for_script \<circ> (\<lambda>(k, v). json_string k @ '':'' @ v)) m
        = ((\<lambda>(k, v). json_string k @ '':'' @ v) \<circ> (\<lambda>(k, v). (k, escape_json_for_script v))) m"
      using escape_plain escape_json_append[of "json_string (fst m) @ '':''"] by (cases m) simp
  qed
  then have members: "map escape_json_for_script (map (\<lambda>(k, v). json_string k @ '':'' @ v) ms)
      = map (\<lambda>(k, v). json_string k @ '':'' @ v) (map (\<lambda>(k, v). (k, escape_json_for_script v)) ms)"
    by (simp only: list.map_comp)
  have "escape_json_for_script ''{'' = ''{''" "escape_json_for_script ''}'' = ''}''" by (simp_all add: escape_plain)
  moreover have "escape_json_for_script (join '','' xs) = join '','' (map escape_json_for_script xs)" for xs
    by (rule escape_join) simp
  ultimately show ?thesis by (simp only: json_object_def escape_json_append members)
qed

text \<open>C33: What a merchant writes reaches the browser as it was written, and as text: an attribute value reads
  back, and has no quote or bracket that could end the attribute or the tag; the JSON in the
  config script is the object with each of its members escaped, an escaped string reads back, and no
  bracket is left that could end the script.\<close>
theorem page_text_reads_back:
  "html_read (html_escape_attr v) = Some v
   \<and> set (html_escape_attr v) \<inter> {CHR ''<'', CHR ''>'', CHR 0x22, CHR 0x27} = {}
   \<and> escape_json_for_script (config_json c)
       = json_object (map (\<lambda>(k, m). (k, escape_json_for_script m)) (config_members c))
   \<and> js_read (escape_json_for_script (json_string v)) = Some v
   \<and> CHR ''<'' \<notin> set (escape_json_for_script (config_json c))"
proof -
  have "\<forall>(k, m)\<in>set (config_members c). CHR ''<'' \<notin> set (json_string k)"
    by (simp add: config_members_def json_string_def json_char_def)
  then show ?thesis
    by (intro conjI html_read_escape html_escape_inert json_escape_reads no_bracket_escaped(1))
      (simp only: config_json_def escape_object)
qed

subsection \<open>What is hidden\<close>

text \<open>The text of hidden pages exchanged for that of any other page.\<close>
definition conceal :: "(donation_page \<Rightarrow> bool) \<Rightarrow> donation_page \<Rightarrow> donation_page \<Rightarrow> donation_page" where
  "conceal hidden other p =
    (if hidden p then other\<lparr>dp_nym := dp_nym p, dp_enabled := dp_enabled p, dp_archived_at := dp_archived_at p\<rparr> else p)"

definition conceal_pages :: "(donation_page \<Rightarrow> bool) \<Rightarrow> donation_page \<Rightarrow> service \<Rightarrow> service" where
  "conceal_pages hidden other s = s\<lparr>sv_pos := (sv_pos s)\<lparr>po_pages := map (conceal hidden other) (po_pages (sv_pos s))\<rparr>\<rparr>"

definition unpublished :: "donation_page \<Rightarrow> bool" where
  "unpublished p \<longleftrightarrow> dp_is_archived p \<or> \<not> dp_enabled p"

text \<open>A handler that cannot tell a state from its changed copy.\<close>
definition blind :: "(service \<Rightarrow> service) \<Rightarrow> (service, 'e, 'a) handler \<Rightarrow> bool" where
  "blind c m \<longleftrightarrow> (\<forall>s. m (c s) = (fst (m s), c (snd (m s))))"

lemma blind_at: "blind c m \<Longrightarrow> m (c s) = (fst (m s), c (snd (m s)))"
  by (simp add: blind_def)

lemma blind_basic:
  "blind c (pure x)" "blind c (fail e)" "blind c (require b e)" "blind c (some_or e v)"
  by (auto simp: blind_def handler_defs split: option.split)

lemma blind_andThen: "blind c m \<Longrightarrow> (\<And>a. blind c (f a)) \<Longrightarrow> blind c (andThen m f)"
  by (auto simp: blind_def andThen_def split: prod.split sum.split)

lemma blind_map_err: "blind c m \<Longrightarrow> blind c (map_err f m)"
  by (auto simp: blind_def map_err_def split: prod.split)

lemma blind_gets:
  "(\<And>s. f (g (c s)) (c s) = (fst (f (g s) s), c (snd (f (g s) s)))) \<Longrightarrow> blind c (andThen (gets g) f)"
  by (simp add: blind_def andThen_def handler_defs)

lemma concealed_parts:
  "sv_limiter (conceal_pages h d s) = sv_limiter s" "sv_rates (conceal_pages h d s) = sv_rates s"
  "sv_users (conceal_pages h d s) = sv_users s"
  "get_donation_page_by_nym n (po_pages (sv_pos (conceal_pages h d s)))
     = map_option (conceal h d) (get_donation_page_by_nym n (po_pages (sv_pos s)))"
proof -
  have "select_one (\<lambda>p. dp_nym p = n) (map (conceal h d) ps) = map_option (conceal h d) (select_one (\<lambda>p. dp_nym p = n) ps)" for ps
    by (induction ps) (auto simp: conceal_def select_one_def)
  then show "get_donation_page_by_nym n (po_pages (sv_pos (conceal_pages h d s)))
     = map_option (conceal h d) (get_donation_page_by_nym n (po_pages (sv_pos s)))"
    by (simp add: conceal_pages_def get_donation_page_by_nym_def)
qed (simp_all add: conceal_pages_def)

lemma blind_gate: "blind (conceal_pages h d) (check_donation_rate_limit env rq b)"
  unfolding check_donation_rate_limit_def page_gate_def
  by (intro blind_map_err) (auto simp: blind_def handler_defs limited_def conceal_pages_def split: option.split prod.split)

lemma blind_live: "blind (conceal_pages h d) (render_live env rq reply p kind)"
  unfolding render_live_def page_rate_def
  by (intro blind_andThen blind_basic) (auto simp: blind_def conceal_pages_def split: prod.split)

lemma blind_placeholder: "blind (conceal_pages h d) (placeholder_or_404 nym)"
  unfolding placeholder_or_404_def
  by (intro blind_gets) (auto simp: pos_placeholder_page_def concealed_parts handler_defs split: option.split)

lemma hidden_gate:
  assumes "blind (conceal_pages h d) (f None)"
    and "\<And>p s. h p \<Longrightarrow> f (Some (conceal h d p)) (conceal_pages h d s)
        = (fst (f (Some p) s), conceal_pages h d (snd (f (Some p) s)))"
    and "\<And>p. \<not> h p \<Longrightarrow> blind (conceal_pages h d) (f (Some p))"
  shows "blind (conceal_pages h d) (andThen (gets (\<lambda>s. get_donation_page_by_nym n (po_pages (sv_pos s)))) f)"
proof (rule blind_gets)
  fix s
  show "f (get_donation_page_by_nym n (po_pages (sv_pos (conceal_pages h d s)))) (conceal_pages h d s)
      = (fst (f (get_donation_page_by_nym n (po_pages (sv_pos s))) s),
         conceal_pages h d (snd (f (get_donation_page_by_nym n (po_pages (sv_pos s))) s)))"
  proof (cases "get_donation_page_by_nym n (po_pages (sv_pos s))")
    case None
    then show ?thesis using blind_at[OF assms(1)] by (simp add: concealed_parts)
  next
    case (Some p)
    then show ?thesis
      using assms(2)[of p s] blind_at[OF assms(3)[of p], of s] by (cases "h p") (simp_all add: concealed_parts conceal_def)
  qed
qed

lemma blind_respond: "blind c m \<Longrightarrow> fst (respond m (c s)) = fst (respond m s)"
  by (auto simp: respond_def blind_at split: prod.split sum.split)

lemmas blind_steps = blind_basic blind_andThen blind_gate blind_live blind_placeholder

lemma conceal_status: "dp_is_archived (conceal h d p) = dp_is_archived p" "dp_enabled (conceal h d p) = dp_enabled p"
  by (simp_all add: conceal_def dp_is_archived_def)

lemma blind_donation:
  "blind (conceal_pages unpublished d) (andThen (known_slug nym e) (\<lambda>_. andThen (check_donation_rate_limit env rq b) (\<lambda>_.
     andThen (gets (\<lambda>s. get_donation_page_by_nym nym (po_pages (sv_pos s)))) (\<lambda>page.
     andThen (some_or e page) (\<lambda>p. andThen (require (\<not> dp_is_archived p) a) (\<lambda>_.
     andThen (require (dp_enabled p) e) (\<lambda>_. render_live env rq reply p kind)))))))"
  unfolding known_slug_def
proof (intro hidden_gate blind_andThen blind_basic blind_gate, goal_cases)
  case (1 u v)
  then show ?case by (intro blind_steps)
next
  case (2 u v p s)
  then show ?case by (auto simp: unpublished_def conceal_status andThen_def handler_defs)
next
  case (3 u v p)
  then show ?case by (intro blind_steps)
qed

lemma blind_manifest:
  assumes "\<And>p. h p \<longleftrightarrow> dp_is_archived p \<or> (kind = Donation_shell \<and> \<not> dp_enabled p)"
  shows "blind (conceal_pages h d) (manifest_for_kind env rq kind nym)"
  unfolding manifest_for_kind_def known_slug_def manifest_page_def
proof (intro hidden_gate blind_andThen blind_basic blind_gate, goal_cases)
  case (1 u v)
  then show ?case by (auto intro: blind_steps)
next
  case (2 u v p s)
  then show ?case using assms by (cases kind) (auto simp: conceal_status handler_defs)
next
  case (3 u v p)
  then show ?case by (auto intro: blind_steps)
qed

lemma blind_pos:
  "blind (conceal_pages dp_is_archived d) (andThen (known_slug nym e) (\<lambda>_. andThen (check_donation_rate_limit env rq b) (\<lambda>_.
     andThen (gets (\<lambda>s. get_donation_page_by_nym nym (po_pages (sv_pos s)))) (\<lambda>page.
     andThen (case page of Some p \<Rightarrow> if \<not> dp_is_archived p then pure p else fail e' | None \<Rightarrow> placeholder_or_404 nym)
       (\<lambda>p. render_live env rq reply p kind)))))"
  unfolding known_slug_def
proof (intro blind_andThen[of _ "known_slug nym e"] blind_andThen[of _ "require x y" for x y]
    blind_andThen[of _ "check_donation_rate_limit env rq b"] blind_basic blind_gate hidden_gate, goal_cases)
  case (1 u v)
  then show ?case by (auto intro: blind_steps)
next
  case (2 u v p s)
  then show ?case by (auto simp: conceal_status andThen_def handler_defs)
next
  case (3 u v p)
  then show ?case by (auto intro: blind_steps)
qed

text \<open>C32: What is hidden does not show: the public page and the manifest of a nym answer the same whatever the
  text, images, links and currency of archived and disabled pages are, and the terminal's page and
  manifest answer the same whatever those of archived pages are.\<close>
theorem hidden_pages_do_not_show:
  "fst (render_or_404 env rq reply path (conceal_pages unpublished other s)) = fst (render_or_404 env rq reply path s)
   \<and> fst (manifest env rq nym (conceal_pages unpublished other s)) = fst (manifest env rq nym s)
   \<and> fst (render_pos_or_404 env rq reply nym (conceal_pages dp_is_archived other s))
       = fst (render_pos_or_404 env rq reply nym s)
   \<and> fst (pos_manifest env rq nym (conceal_pages dp_is_archived other s)) = fst (pos_manifest env rq nym s)"
  by (simp add: render_or_404_def manifest_def render_pos_or_404_def pos_manifest_def Let_def blind_respond[OF blind_donation]
      blind_respond[OF blind_pos] blind_respond[OF blind_manifest] unpublished_def)

text \<open>The terminal's page before the first claim shows the page that the claim will create.\<close>
lemma placeholder_is_the_claimed_page:
  assumes "get_active_user_by_nym nym (us_users (sv_users s)) = Some u" "get_donation_page_by_nym nym ps = None"
  shows "get_donation_page_by_nym nym (placeholder_page nym ps) = pos_placeholder_page nym s"
proof -
  have "u_nym u = nym" using assms(1) unfolding get_active_user_by_nym_def by (auto dest: select_one_SomeD)
  moreover have "\<not> row_exists (\<lambda>p. dp_nym p = nym) ps"
    using assms(2) by (simp add: get_donation_page_by_nym_def select_one_None_iff row_exists_iff)
  ultimately show ?thesis
    using assms
    by (simp add: placeholder_page_def pos_placeholder_page_def get_donation_page_by_nym_def select_one_append page_of_upsert_def
        select_one_Cons select_one_Nil)
qed

end
