(* ===== verification/RetryProperties.thy ===== *)
theory RetryProperties
  imports ClaimProperties SwapProperties
begin

text \<open>
  Failing claims end: a measure on the table of reverse swaps that no operation increases and that every
  recorded failure of the swap decreases.
\<close>

subsection \<open>The measure\<close>

definition attempts_left :: "int \<Rightarrow> uuid \<Rightarrow> swap_record list \<Rightarrow> nat" where
  "attempts_left mx sid t = (case get_swap_by_id sid t of
     Some r \<Rightarrow> if swap_open r then nat (max 1 (mx - sr_claim_attempts r)) else 0 | None \<Rightarrow> 0)"

lemma get_swap_iff: "swaps_ok t \<Longrightarrow> get_swap_by_id sid t = Some r \<longleftrightarrow> r \<in> set t \<and> sr_id r = sid"
  unfolding get_swap_by_id_def by (rule select_one_key_iff) (simp add: swaps_ok_def)

lemma run_row:
  assumes "swap_step\<^sup>*\<^sup>* t t'" "swaps_ok t" "get_swap_by_id sid t = Some r"
  shows "\<exists>r'. get_swap_by_id sid t' = Some r' \<and> swap_evolves r r'"
  using swap_table.run_evolves[OF assms(1,2)] swap_table.run_good[OF assms(1,2)] assms(2,3) by (fastforce simp: get_swap_iff)

lemma run_attempts:
  assumes "swap_step\<^sup>*\<^sup>* t t'" "swaps_ok t" "get_swap_by_id sid t = Some r"
  shows "attempts_left mx sid t' \<le> attempts_left mx sid t"
proof -
  obtain r' where r': "get_swap_by_id sid t' = Some r'" "swap_evolves r r'" using run_row[OF assms] by blast
  then show ?thesis
    using assms(3) swap_open_cong[of r' r] by (auto simp: attempts_left_def swap_evolves_def)
qed

lemma failure_attempts:
  assumes "record_claim_failure now j sid msg mx t = (oc, t')" "swaps_ok t" "get_swap_by_id sid t = Some r" "swap_open r"
  shows "attempts_left mx sid t' < attempts_left mx sid t"
  using claim_failure_row[OF _ assms(1)] assms(2-4) by (auto simp: swaps_ok_def attempts_left_def bump_failure_def swap_open_def)

subsection \<open>A claim that fails\<close>

lemma failing_claim_open:
  assumes "claim_swap_inner c env tol sid db = (Inl e, db1)" "swaps_ok (sd_swaps db)" "get_swap_by_id sid (sd_swaps db) = Some r"
  shows "\<exists>r1. get_swap_by_id sid (sd_swaps db1) = Some r1 \<and> swap_open r1"
proof -
  obtain p db2 where p: "claim_swap_prepare c env sid db = (p, db2)" by fastforce
  have db1: "db1 = db2" "\<not> (\<exists>oc. p = Inr (Finished oc))"
    using assms(1) p by (auto simp: claim_swap_inner_def split: sum.splits claim_step.splits)
  have r: "r \<in> set (sd_swaps db)" "sr_id r = sid" using assms(2,3) by (simp_all add: get_swap_iff)
  obtain st where "sr_status r = swap_status_text st" using r(1) assms(2) by (auto simp: swaps_ok_def)
  then have "swap_open r" using p db1(2) assms(3)
    by (auto simp: claim_swap_prepare_def parsed_status_def swap_open_text split: if_splits sum.splits)
  have "\<exists>r1\<in>set (sd_swaps db2). sr_id r1 = sid \<and> swap_open r1"
    using p
  proof (cases rule: prepare_cases)
    case early
    then show ?thesis using r \<open>swap_open r\<close> by blast
  next
    case (error e db3 swap x)
    obtain r1 where r1: "r1 \<in> set (sd_swaps db3)" "sr_id r1 = sid" "swap_open r1"
      using resolve_open[OF error(2) r(1) \<open>swap_open r\<close>] r(2) by blast
    have "\<exists>r2\<in>set (mark_cooperative_refused (ce_now env) sid (sd_swaps db3)). sr_id r2 = sr_id r1 \<and> swap_open r2"
      unfolding mark_cooperative_refused_def using r1
      by (intro update_where_evolves[where R = "\<lambda>_ r'. swap_open r'"]) (auto simp: swap_open_def)
    then show ?thesis using error(3) r1 by auto
  qed (use prepare_open_row p in blast)+
  moreover have "distinct (map sr_id (sd_swaps db2))" using prepare_ids[OF p] assms(2) by (simp add: swaps_ok_def)
  ultimately show ?thesis unfolding db1(1) get_swap_by_id_def by (metis select_one_key_iff)
qed

subsection \<open>Runs with failing claims\<close>

text \<open>A run of the swap table with a count of the failures of one swap: a claim call that returns an error, or,
  where other tasks ran between its parts, the failure it records on the row; anything else may happen in between.\<close>
inductive retry_run :: "tx_codec \<Rightarrow> int \<Rightarrow> uuid \<Rightarrow> nat \<Rightarrow> swap_record list \<Rightarrow> swap_record list \<Rightarrow> bool" for c mx sid where
  rr_start: "retry_run c mx sid 0 t t"
| rr_other: "retry_run c mx sid n t t1 \<Longrightarrow> swap_step t1 t2 \<Longrightarrow> retry_run c mx sid n t t2"
| rr_recorded: "retry_run c mx sid n t t1 \<Longrightarrow> record_claim_failure now j sid msg mx t1 = (oc, t2) \<Longrightarrow> oc \<noteq> NoOp
    \<Longrightarrow> retry_run c mx sid (Suc n) t t2"
| rr_failed: "retry_run c mx sid n t (sd_swaps db) \<Longrightarrow> claim_swap c env tol mx sid db = (Inl e, db')
    \<Longrightarrow> retry_run c mx sid (Suc n) t (sd_swaps db')"

lemma failed_swaps: "sd_swaps (claim_swap_failed env mx sid e db)
    = snd (record_claim_failure (ce_now env) (ce_jitter env) sid (error_text e) mx (sd_swaps db))"
  by (auto simp: claim_swap_failed_def Let_def on_invoices_def split: prod.splits sum.splits)

lemma failed_call:
  assumes "claim_swap c env tol mx sid db = (Inl e, db')" "swaps_ok (sd_swaps db)" "get_swap_by_id sid (sd_swaps db) = Some r"
  shows "swap_step\<^sup>*\<^sup>* (sd_swaps db) (sd_swaps db')"
    and "attempts_left mx sid (sd_swaps db') < attempts_left mx sid (sd_swaps db)"
proof -
  obtain db1 where i: "claim_swap_inner c env tol sid db = (Inl e, db1)" "db' = claim_swap_failed env mx sid e db1"
    using assms(1) by (auto simp: claim_swap_def split: prod.splits sum.splits)
  obtain p where "claim_swap_prepare c env sid db = (p, db1)"
    using i(1) by (auto simp: claim_swap_inner_def split: prod.splits sum.splits claim_step.splits)
  then have run: "swap_step\<^sup>*\<^sup>* (sd_swaps db) (sd_swaps db1)" using quiet_prepare by (simp add: quiet_def)
  then show "swap_step\<^sup>*\<^sup>* (sd_swaps db) (sd_swaps db')"
    using quiet_failed[of db1 env mx sid e] i(2) run by (auto simp: quiet_def)
  obtain r1 where r1: "get_swap_by_id sid (sd_swaps db1) = Some r1" "swap_open r1"
    using failing_claim_open[OF i(1) assms(2,3)] by blast
  have ok: "swaps_ok (sd_swaps db1)" by (rule swap_table.run_good[OF run assms(2)])
  obtain oc t where f: "record_claim_failure (ce_now env) (ce_jitter env) sid (error_text e) mx (sd_swaps db1) = (oc, t)" by fastforce
  have "attempts_left mx sid t < attempts_left mx sid (sd_swaps db1)" by (rule failure_attempts[OF f ok r1])
  also have "\<dots> \<le> attempts_left mx sid (sd_swaps db)" by (rule run_attempts[OF run assms(2,3)])
  finally show "attempts_left mx sid (sd_swaps db') < attempts_left mx sid (sd_swaps db)"
    by (simp add: i(2) failed_swaps f)
qed

lemma retry_run_attempts:
  assumes "retry_run c mx sid n t t'" "swaps_ok t" "get_swap_by_id sid t = Some r"
  shows "swap_step\<^sup>*\<^sup>* t t' \<and> n + attempts_left mx sid t' \<le> attempts_left mx sid t"
  using assms
proof (induction rule: retry_run.induct)
  case (rr_other n t t1 t2)
  then have run: "swap_step\<^sup>*\<^sup>* t t1" and le: "n + attempts_left mx sid t1 \<le> attempts_left mx sid t" by auto
  obtain r1 where r1: "get_swap_by_id sid t1 = Some r1" using run_row[OF run rr_other.prems] by blast
  have "attempts_left mx sid t2 \<le> attempts_left mx sid t1"
    by (rule run_attempts[OF _ swap_table.run_good[OF run rr_other.prems(1)] r1]) (use rr_other.hyps(2) in simp)
  then show ?case using le run rr_other.hyps(2) by auto
next
  case (rr_recorded n t t1 now j msg oc t2)
  then have run: "swap_step\<^sup>*\<^sup>* t t1" and le: "n + attempts_left mx sid t1 \<le> attempts_left mx sid t" by auto
  have ok: "swaps_ok t1" by (rule swap_table.run_good[OF run rr_recorded.prems(1)])
  obtain r1 where r1: "get_swap_by_id sid t1 = Some r1" using run_row[OF run rr_recorded.prems] by blast
  have "swap_open r1"
    using claim_failure_row[OF _ rr_recorded.hyps(2)] ok r1 rr_recorded.hyps(3) by (cases "swap_open r1") (simp_all add: swaps_ok_def)
  then have "attempts_left mx sid t2 < attempts_left mx sid t1" by (rule failure_attempts[OF rr_recorded.hyps(2) ok r1])
  then show ?case using le run ss_failure[OF rr_recorded.hyps(2)] by auto
next
  case (rr_failed n t db env tol e db')
  then have run: "swap_step\<^sup>*\<^sup>* t (sd_swaps db)" and le: "n + attempts_left mx sid (sd_swaps db) \<le> attempts_left mx sid t" by auto
  obtain r1 where r1: "get_swap_by_id sid (sd_swaps db) = Some r1" using run_row[OF run rr_failed.prems] by blast
  note call = failed_call[OF rr_failed.hyps(2) swap_table.run_good[OF run rr_failed.prems(1)] r1]
  show ?case using le call run by (auto intro: rtranclp_trans)
qed simp

lemma spent_swap:
  assumes "attempts_left mx sid t = 0" "swaps_ok t" "get_swap_by_id sid t = Some r"
  shows "\<not> swap_open r" "q \<in> set (get_ready_to_claim_swaps now t) \<Longrightarrow> sr_id q \<noteq> sid"
proof -
  show closed: "\<not> swap_open r" using assms(1,3) by (auto simp: attempts_left_def split: if_splits)
  assume "q \<in> set (get_ready_to_claim_swaps now t)"
  then have q: "q \<in> set t" "swap_open q" using ready_open by (auto simp: get_ready_to_claim_swaps_def)
  show "sr_id q \<noteq> sid"
  proof
    assume "sr_id q = sid"
    then have "get_swap_by_id sid t = Some q" using q(1) assms(2) by (simp add: get_swap_iff)
    then show False using closed q(2) assms(3) by simp
  qed
qed

text \<open>C40: A claim that keeps failing is given up after the configured number of attempts: whatever webhooks,
  sweeps and reconciler ticks do to the table in between, at most that many failures are counted for a
  swap (one, when the maximum was reached already), and after the last one no sweep selects it and every further claim returns at once.\<close>
theorem claim_retries_end:
  assumes "retry_run c mx sid n t t'" "swaps_ok t" "get_swap_by_id sid t = Some r"
  shows "n \<le> nat (max 1 (mx - sr_claim_attempts r))
    \<and> (n = nat (max 1 (mx - sr_claim_attempts r)) \<longrightarrow>
        (\<forall>now. \<forall>q\<in>set (get_ready_to_claim_swaps now t'). sr_id q \<noteq> sid)
        \<and> (\<forall>env tol db. sd_swaps db = t' \<longrightarrow>
             claim_swap c env tol mx sid db = (Inr (if ce_lock env then AlreadyTerminal else SkippedLockHeld), db)))"
proof -
  have run: "swap_step\<^sup>*\<^sup>* t t'" and le: "n + attempts_left mx sid t' \<le> attempts_left mx sid t"
    using retry_run_attempts[OF assms] by simp_all
  have ok: "swaps_ok t'" by (rule swap_table.run_good[OF run assms(2)])
  obtain r' where r': "get_swap_by_id sid t' = Some r'" using run_row[OF run assms(2,3)] by blast
  have cap: "attempts_left mx sid t \<le> nat (max 1 (mx - sr_claim_attempts r))" by (simp add: attempts_left_def assms(3))
  have "claim_swap c env tol mx sid db = (Inr (if ce_lock env then AlreadyTerminal else SkippedLockHeld), db)"
    if "attempts_left mx sid t' = 0" "sd_swaps db = t'" for env tol db
  proof -
    obtain st where "sr_status r' = swap_status_text st" using r' ok by (auto simp: get_swap_iff swaps_ok_def)
    then show ?thesis
      using spent_swap(1)[OF that(1) ok r'] r' that(2)
      by (simp add: claim_swap_def claim_swap_inner_def claim_swap_prepare_def parsed_status_def swap_open_text)
  qed
  moreover have "attempts_left mx sid t' = 0" if "n = nat (max 1 (mx - sr_claim_attempts r))" using le cap that by linarith
  moreover have "n \<le> nat (max 1 (mx - sr_claim_attempts r))" using le cap by linarith
  ultimately show ?thesis using spent_swap(2)[OF _ ok r'] by blast
qed

text \<open>A builder that always fails, with one attempt allowed.\<close>
theorem claim_retries_end_witness:
  "\<exists>db'. claim_swap demo_codec (demo_env\<lparr>ce_build := \<lambda>_ _ _ _ _ _. Inl (ClaimError ''no'')\<rparr>) default_tolerances 1 7 demo_db
      = (Inl (ClaimError ''no''), db') \<and> (\<forall>q\<in>set (get_ready_to_claim_swaps 5000 (sd_swaps db')). sr_id q \<noteq> 7)"
proof -
  let ?env = "demo_env\<lparr>ce_build := \<lambda>_ _ _ _ _ _. Inl (ClaimError ''no'')\<rparr>"
  have "fst (claim_swap demo_codec ?env default_tolerances 1 7 demo_db) = Inl (ClaimError ''no'')" by code_simp
  then obtain db' where db': "claim_swap demo_codec ?env default_tolerances 1 7 demo_db = (Inl (ClaimError ''no''), db')"
    by (cases "claim_swap demo_codec ?env default_tolerances 1 7 demo_db") auto
  have run: "retry_run demo_codec 1 7 1 [demo_row] (sd_swaps db')"
    using rr_failed[OF _ db', of 0 "[demo_row]"] rr_start[of demo_codec 1 7 "[demo_row]"] by (simp add: demo_db_def)
  have ok: "swaps_ok [demo_row]"
    using demo_state_ok by (simp add: settlement_ok_def tables_ok_def demo_state_def demo_db_def)
  have row: "get_swap_by_id 7 [demo_row] = Some demo_row" "sr_claim_attempts demo_row = 0"
    by (simp_all add: get_swap_by_id_def demo_row_def)
  show ?thesis using claim_retries_end[OF run ok row(1)] row(2) db' by auto
qed

end
