(* ===== verification/Config.thy ===== *)
theory Config
  imports Registration DonationRender BitcoinWatcher Gc
begin

text \<open>
  The configuration (src/src/config.rs): the sections of the TOML file with their defaults, the values
  taken from the process environment, and the validation.  The TOML parser is an argument; what
  serde derives from a struct, its attributes and its types is written out: a table is a list of
  keys and values, unknown keys are ignored, a value of the wrong type or outside the machine type is an
  error, and an absent key takes the default of its attribute.  Which of several errors is reported first
  is not modelled.
\<close>

subsection \<open>Reading a table\<close>

datatype toml = Toml_int int | Toml_string string | Toml_bool bool | Toml_array "toml list"
  | Toml_table "(string \<times> toml) list" | Toml_other

type_synonym table = "(string \<times> toml) list"

datatype config_error = Missing_field string | Invalid_type string | Out_of_range string | Duplicate_field string
  | Config_message string

type_synonym 'a reader = "string \<Rightarrow> toml \<Rightarrow> config_error + 'a"

text \<open>A field of a struct: what reading it does to the record.\<close>
type_synonym 'r field = "table \<Rightarrow> config_error + ('r \<Rightarrow> 'r)"

definition as_range :: "int \<Rightarrow> int \<Rightarrow> int reader" where
  "as_range lo hi key v = (case v of
     Toml_int i \<Rightarrow> if lo \<le> i \<and> i \<le> hi then Inr i else Inl (Out_of_range key)
   | _ \<Rightarrow> Inl (Invalid_type key))"

definition read_i32 :: "int reader" where "read_i32 = as_range i32_min i32_max"
definition read_i64 :: "int reader" where "read_i64 = as_range i64_min i64_max"
definition read_u32 :: "nat reader" where "read_u32 key v = map_sum id nat (as_range 0 (int u32_max) key v)"
definition read_u64 :: "nat reader" where "read_u64 key v = map_sum id nat (as_range 0 (int u64_max) key v)"

definition as_bool :: "bool reader" where
  "as_bool key v = (case v of Toml_bool b \<Rightarrow> Inr b | _ \<Rightarrow> Inl (Invalid_type key))"

definition as_text :: "string reader" where
  "as_text key v = (case v of Toml_string s \<Rightarrow> Inr s | _ \<Rightarrow> Inl (Invalid_type key))"

definition as_text_option :: "string option reader" where
  "as_text_option key v = map_sum id Some (as_text key v)"

fun texts_of :: "string \<Rightarrow> toml list \<Rightarrow> config_error + string list" where
  "texts_of key [] = Inr []"
| "texts_of key (v # vs) = (case as_text key v of
     Inl e \<Rightarrow> Inl e
   | Inr s \<Rightarrow> (case texts_of key vs of Inl e \<Rightarrow> Inl e | Inr ss \<Rightarrow> Inr (s # ss)))"

definition as_texts :: "string list reader" where
  "as_texts key v = (case v of Toml_array vs \<Rightarrow> texts_of key vs | _ \<Rightarrow> Inl (Invalid_type key))"

text \<open>\<open>#[serde(default = ...)]\<close>, or none.\<close>
definition field :: "string \<Rightarrow> 'a reader \<Rightarrow> 'a option \<Rightarrow> (('a \<Rightarrow> 'a) \<Rightarrow> 'r \<Rightarrow> 'r) \<Rightarrow> 'r field" where
  "field key rd default_value upd t = (case map_of t key of
     Some v \<Rightarrow> map_sum id (\<lambda>x. upd (\<lambda>_. x)) (rd key v)
   | None \<Rightarrow> (case default_value of Some x \<Rightarrow> Inr (upd (\<lambda>_. x)) | None \<Rightarrow> Inl (Missing_field key)))"

text \<open>\<open>#[serde(alias = ...)]\<close>: a second name, and an error when both are there.\<close>
definition field_alias ::
  "string \<Rightarrow> string \<Rightarrow> 'a reader \<Rightarrow> 'a option \<Rightarrow> (('a \<Rightarrow> 'a) \<Rightarrow> 'r \<Rightarrow> 'r) \<Rightarrow> 'r field" where
  "field_alias key alias rd default_value upd t =
    (if map_of t key \<noteq> None \<and> map_of t alias \<noteq> None then Inl (Duplicate_field key)
     else field (if map_of t alias \<noteq> None then alias else key) rd default_value upd t)"

fun read_section :: "'r field list \<Rightarrow> table \<Rightarrow> 'r \<Rightarrow> config_error + 'r" where
  "read_section [] t r = Inr r"
| "read_section (f # fs) t r = (case f t of Inl e \<Rightarrow> Inl e | Inr u \<Rightarrow> read_section fs t (u r))"

text \<open>A nested table; every field is set, so the record it starts from does not matter.\<close>
definition as_section :: "'r field list \<Rightarrow> 'r \<Rightarrow> 'r reader" where
  "as_section fs start key v = (case v of Toml_table t \<Rightarrow> read_section fs t start | _ \<Rightarrow> Inl (Invalid_type key))"

subsection \<open>FeaturesConfig\<close>

record features_config =
  feat_lightning_address :: bool
  feat_invoices :: bool
  feat_payment_pages :: bool

definition default_feature_enabled :: bool where "default_feature_enabled = True"

definition default_features_config :: features_config where
  "default_features_config =
    \<lparr>feat_lightning_address = default_feature_enabled, feat_invoices = default_feature_enabled,
     feat_payment_pages = default_feature_enabled\<rparr>"

definition features_config_fields :: "features_config field list" where
  "features_config_fields =
    [field ''lightning_address'' as_bool (Some default_feature_enabled) feat_lightning_address_update,
     field ''invoices'' as_bool (Some default_feature_enabled) feat_invoices_update,
     field ''payment_pages'' as_bool (Some default_feature_enabled) feat_payment_pages_update]"

subsection \<open>WorkersConfig\<close>

record workers_config =
  work_enabled :: bool

definition default_workers_enabled :: bool where "default_workers_enabled = True"

definition default_workers_config :: workers_config where
  "default_workers_config =
    \<lparr>work_enabled = default_workers_enabled\<rparr>"

definition workers_config_fields :: "workers_config field list" where
  "workers_config_fields =
    [field ''enabled'' as_bool (Some default_workers_enabled) work_enabled_update]"

subsection \<open>InvoiceAccountingConfig\<close>

record invoice_accounting_config =
  acct_btc_shortfall_tolerance_sat :: int
  acct_liquid_shortfall_tolerance_sat :: int
  acct_lightning_shortfall_tolerance_sat :: int
  acct_checkout_partial_terminal_grace_secs :: nat

definition DEFAULT_BTC_SHORTFALL_TOLERANCE_SAT :: int where "DEFAULT_BTC_SHORTFALL_TOLERANCE_SAT = 300"
definition default_btc_shortfall_tolerance_sat :: int where "default_btc_shortfall_tolerance_sat = DEFAULT_BTC_SHORTFALL_TOLERANCE_SAT"
definition DEFAULT_LIQUID_SHORTFALL_TOLERANCE_SAT :: int where "DEFAULT_LIQUID_SHORTFALL_TOLERANCE_SAT = 60"
definition default_liquid_shortfall_tolerance_sat :: int where "default_liquid_shortfall_tolerance_sat = DEFAULT_LIQUID_SHORTFALL_TOLERANCE_SAT"
definition DEFAULT_LIGHTNING_SHORTFALL_TOLERANCE_SAT :: int where "DEFAULT_LIGHTNING_SHORTFALL_TOLERANCE_SAT = 1"
definition default_lightning_shortfall_tolerance_sat :: int where "default_lightning_shortfall_tolerance_sat = DEFAULT_LIGHTNING_SHORTFALL_TOLERANCE_SAT"
definition DEFAULT_CHECKOUT_PARTIAL_TERMINAL_GRACE_SECS :: nat where "DEFAULT_CHECKOUT_PARTIAL_TERMINAL_GRACE_SECS = 900"
definition default_checkout_partial_terminal_grace_secs :: nat where "default_checkout_partial_terminal_grace_secs = DEFAULT_CHECKOUT_PARTIAL_TERMINAL_GRACE_SECS"

definition default_invoice_accounting_config :: invoice_accounting_config where
  "default_invoice_accounting_config =
    \<lparr>acct_btc_shortfall_tolerance_sat = DEFAULT_BTC_SHORTFALL_TOLERANCE_SAT,
     acct_liquid_shortfall_tolerance_sat = DEFAULT_LIQUID_SHORTFALL_TOLERANCE_SAT,
     acct_lightning_shortfall_tolerance_sat = DEFAULT_LIGHTNING_SHORTFALL_TOLERANCE_SAT,
     acct_checkout_partial_terminal_grace_secs = DEFAULT_CHECKOUT_PARTIAL_TERMINAL_GRACE_SECS\<rparr>"

definition invoice_accounting_config_fields :: "invoice_accounting_config field list" where
  "invoice_accounting_config_fields =
    [field ''btc_shortfall_tolerance_sat'' read_i64 (Some default_btc_shortfall_tolerance_sat) acct_btc_shortfall_tolerance_sat_update,
     field ''liquid_shortfall_tolerance_sat'' read_i64 (Some default_liquid_shortfall_tolerance_sat) acct_liquid_shortfall_tolerance_sat_update,
     field ''lightning_shortfall_tolerance_sat'' read_i64 (Some default_lightning_shortfall_tolerance_sat) acct_lightning_shortfall_tolerance_sat_update,
     field ''checkout_partial_terminal_grace_secs'' read_u64 (Some default_checkout_partial_terminal_grace_secs) acct_checkout_partial_terminal_grace_secs_update]"

subsection \<open>BoltzConfig\<close>

record boltz_config =
  bltz_api_url :: string
  bltz_electrum_url :: string


definition boltz_config_fields :: "boltz_config field list" where
  "boltz_config_fields =
    [field ''api_url'' as_text None bltz_api_url_update,
     field ''electrum_url'' as_text None bltz_electrum_url_update]"

subsection \<open>ClaimConfig\<close>

record claim_config =
  clm_max_claim_attempts :: int

definition DEFAULT_MAX_CLAIM_ATTEMPTS :: int where "DEFAULT_MAX_CLAIM_ATTEMPTS = 30"
definition default_max_claim_attempts :: int where "default_max_claim_attempts = DEFAULT_MAX_CLAIM_ATTEMPTS"

definition default_claim_config :: claim_config where
  "default_claim_config =
    \<lparr>clm_max_claim_attempts = DEFAULT_MAX_CLAIM_ATTEMPTS\<rparr>"

definition claim_config_fields :: "claim_config field list" where
  "claim_config_fields =
    [field ''max_claim_attempts'' read_i32 (Some default_max_claim_attempts) clm_max_claim_attempts_update]"

subsection \<open>ReconcilerConfig\<close>

record reconciler_config =
  reco_interval_secs :: nat
  reco_min_age_secs :: nat
  reco_max_per_tick :: nat
  reco_inter_call_delay_ms :: nat

definition DEFAULT_RECONCILER_INTERVAL_SECS :: nat where "DEFAULT_RECONCILER_INTERVAL_SECS = 90"
definition default_reconciler_interval_secs :: nat where "default_reconciler_interval_secs = DEFAULT_RECONCILER_INTERVAL_SECS"
definition DEFAULT_RECONCILER_MIN_AGE_SECS :: nat where "DEFAULT_RECONCILER_MIN_AGE_SECS = 60"
definition default_reconciler_min_age_secs :: nat where "default_reconciler_min_age_secs = DEFAULT_RECONCILER_MIN_AGE_SECS"
definition DEFAULT_RECONCILER_MAX_PER_TICK :: nat where "DEFAULT_RECONCILER_MAX_PER_TICK = 200"
definition default_reconciler_max_per_tick :: nat where "default_reconciler_max_per_tick = DEFAULT_RECONCILER_MAX_PER_TICK"
definition DEFAULT_RECONCILER_INTER_CALL_DELAY_MS :: nat where "DEFAULT_RECONCILER_INTER_CALL_DELAY_MS = 50"
definition default_reconciler_inter_call_delay_ms :: nat where "default_reconciler_inter_call_delay_ms = DEFAULT_RECONCILER_INTER_CALL_DELAY_MS"

definition default_reconciler_config :: reconciler_config where
  "default_reconciler_config =
    \<lparr>reco_interval_secs = DEFAULT_RECONCILER_INTERVAL_SECS, reco_min_age_secs = DEFAULT_RECONCILER_MIN_AGE_SECS,
     reco_max_per_tick = DEFAULT_RECONCILER_MAX_PER_TICK,
     reco_inter_call_delay_ms = DEFAULT_RECONCILER_INTER_CALL_DELAY_MS\<rparr>"

definition reconciler_config_fields :: "reconciler_config field list" where
  "reconciler_config_fields =
    [field ''interval_secs'' read_u64 (Some default_reconciler_interval_secs) reco_interval_secs_update,
     field ''min_age_secs'' read_u64 (Some default_reconciler_min_age_secs) reco_min_age_secs_update,
     field ''max_per_tick'' read_u32 (Some default_reconciler_max_per_tick) reco_max_per_tick_update,
     field ''inter_call_delay_ms'' read_u64 (Some default_reconciler_inter_call_delay_ms) reco_inter_call_delay_ms_update]"

subsection \<open>PricerConfig\<close>

record pricer_section =
  prc_url :: string
  prc_cache_ttl_secs :: nat
  prc_request_timeout_ms :: nat
  prc_supported_currencies :: "string list"

definition DEFAULT_PRICER_URL :: string where "DEFAULT_PRICER_URL = ''https://api.bullbitcoin.com/public/price''"
definition default_pricer_url :: string where "default_pricer_url = DEFAULT_PRICER_URL"
definition DEFAULT_PRICER_CACHE_TTL_SECS :: nat where "DEFAULT_PRICER_CACHE_TTL_SECS = 60"
definition default_pricer_cache_ttl_secs :: nat where "default_pricer_cache_ttl_secs = DEFAULT_PRICER_CACHE_TTL_SECS"
definition DEFAULT_PRICER_REQUEST_TIMEOUT_MS :: nat where "DEFAULT_PRICER_REQUEST_TIMEOUT_MS = 2000"
definition default_pricer_request_timeout_ms :: nat where "default_pricer_request_timeout_ms = DEFAULT_PRICER_REQUEST_TIMEOUT_MS"
definition default_pricer_supported_currencies :: "string list" where "default_pricer_supported_currencies = [''USD'', ''CAD'', ''EUR'', ''CRC'', ''MXN'', ''ARS'', ''COP'']"

definition default_pricer_section :: pricer_section where
  "default_pricer_section =
    \<lparr>prc_url = DEFAULT_PRICER_URL, prc_cache_ttl_secs = DEFAULT_PRICER_CACHE_TTL_SECS,
     prc_request_timeout_ms = DEFAULT_PRICER_REQUEST_TIMEOUT_MS,
     prc_supported_currencies = default_pricer_supported_currencies\<rparr>"

definition pricer_section_fields :: "pricer_section field list" where
  "pricer_section_fields =
    [field ''url'' as_text (Some default_pricer_url) prc_url_update,
     field ''cache_ttl_secs'' read_u64 (Some default_pricer_cache_ttl_secs) prc_cache_ttl_secs_update,
     field ''request_timeout_ms'' read_u64 (Some default_pricer_request_timeout_ms) prc_request_timeout_ms_update,
     field ''supported_currencies'' as_texts (Some default_pricer_supported_currencies) prc_supported_currencies_update]"

subsection \<open>PwaConfig\<close>

record pwa_config =
  pwa_dist_dir :: string

definition DEFAULT_PWA_DIST_DIR :: string where "DEFAULT_PWA_DIST_DIR = ''pwa/dist''"
definition default_pwa_dist_dir :: string where "default_pwa_dist_dir = DEFAULT_PWA_DIST_DIR"

definition default_pwa_config :: pwa_config where
  "default_pwa_config =
    \<lparr>pwa_dist_dir = default_pwa_dist_dir\<rparr>"

definition pwa_config_fields :: "pwa_config field list" where
  "pwa_config_fields =
    [field ''dist_dir'' as_text (Some default_pwa_dist_dir) pwa_dist_dir_update]"

subsection \<open>DonationConfig\<close>

record donation_config =
  don_image_root_path :: string
  don_image_max_bytes :: nat
  don_image_max_dimension :: nat
  don_image_max_pixels :: nat
  don_avatar_size :: nat
  don_og_width :: nat
  don_og_height :: nat

definition DEFAULT_DONATION_IMAGE_ROOT :: string where "DEFAULT_DONATION_IMAGE_ROOT = ''/opt/payservice/data/images''"
definition default_donation_image_root :: string where "default_donation_image_root = DEFAULT_DONATION_IMAGE_ROOT"
definition DEFAULT_DONATION_IMAGE_MAX_BYTES :: nat where "DEFAULT_DONATION_IMAGE_MAX_BYTES = 2097152"
definition default_donation_image_max_bytes :: nat where "default_donation_image_max_bytes = DEFAULT_DONATION_IMAGE_MAX_BYTES"
definition DEFAULT_DONATION_IMAGE_MAX_DIMENSION :: nat where "DEFAULT_DONATION_IMAGE_MAX_DIMENSION = 5000"
definition default_donation_image_max_dimension :: nat where "default_donation_image_max_dimension = DEFAULT_DONATION_IMAGE_MAX_DIMENSION"
definition DEFAULT_DONATION_IMAGE_MAX_PIXELS :: nat where "DEFAULT_DONATION_IMAGE_MAX_PIXELS = 12000000"
definition default_donation_image_max_pixels :: nat where "default_donation_image_max_pixels = DEFAULT_DONATION_IMAGE_MAX_PIXELS"
definition DEFAULT_DONATION_AVATAR_SIZE :: nat where "DEFAULT_DONATION_AVATAR_SIZE = 256"
definition default_donation_avatar_size :: nat where "default_donation_avatar_size = DEFAULT_DONATION_AVATAR_SIZE"
definition DEFAULT_DONATION_OG_WIDTH :: nat where "DEFAULT_DONATION_OG_WIDTH = 1200"
definition default_donation_og_width :: nat where "default_donation_og_width = DEFAULT_DONATION_OG_WIDTH"
definition DEFAULT_DONATION_OG_HEIGHT :: nat where "DEFAULT_DONATION_OG_HEIGHT = 630"
definition default_donation_og_height :: nat where "default_donation_og_height = DEFAULT_DONATION_OG_HEIGHT"

definition default_donation_config :: donation_config where
  "default_donation_config =
    \<lparr>don_image_root_path = DEFAULT_DONATION_IMAGE_ROOT, don_image_max_bytes = DEFAULT_DONATION_IMAGE_MAX_BYTES,
     don_image_max_dimension = DEFAULT_DONATION_IMAGE_MAX_DIMENSION,
     don_image_max_pixels = DEFAULT_DONATION_IMAGE_MAX_PIXELS, don_avatar_size = DEFAULT_DONATION_AVATAR_SIZE,
     don_og_width = DEFAULT_DONATION_OG_WIDTH, don_og_height = DEFAULT_DONATION_OG_HEIGHT\<rparr>"

definition donation_config_fields :: "donation_config field list" where
  "donation_config_fields =
    [field ''image_root_path'' as_text (Some default_donation_image_root) don_image_root_path_update,
     field ''image_max_bytes'' read_u64 (Some default_donation_image_max_bytes) don_image_max_bytes_update,
     field ''image_max_dimension'' read_u32 (Some default_donation_image_max_dimension) don_image_max_dimension_update,
     field ''image_max_pixels'' read_u64 (Some default_donation_image_max_pixels) don_image_max_pixels_update,
     field ''avatar_size'' read_u32 (Some default_donation_avatar_size) don_avatar_size_update,
     field ''og_width'' read_u32 (Some default_donation_og_width) don_og_width_update,
     field ''og_height'' read_u32 (Some default_donation_og_height) don_og_height_update]"

subsection \<open>LimitsConfig\<close>

record limits_config =
  lim_min_sendable_msat :: nat
  lim_max_sendable_msat :: nat
  lim_max_descriptor_len :: nat
  lim_max_lifetime_nyms_per_npub :: int

definition DEFAULT_MIN_SENDABLE_MSAT :: nat where "DEFAULT_MIN_SENDABLE_MSAT = 100000"
definition default_min_sendable :: nat where "default_min_sendable = DEFAULT_MIN_SENDABLE_MSAT"
definition DEFAULT_MAX_SENDABLE_MSAT :: nat where "DEFAULT_MAX_SENDABLE_MSAT = 25000000000"
definition default_max_sendable :: nat where "default_max_sendable = DEFAULT_MAX_SENDABLE_MSAT"
definition DEFAULT_MAX_DESCRIPTOR_LEN :: nat where "DEFAULT_MAX_DESCRIPTOR_LEN = 1000"
definition default_max_descriptor_len :: nat where "default_max_descriptor_len = DEFAULT_MAX_DESCRIPTOR_LEN"
definition DEFAULT_MAX_LIFETIME_NYMS_PER_NPUB :: int where "DEFAULT_MAX_LIFETIME_NYMS_PER_NPUB = 3"
definition default_max_lifetime_nyms_per_npub :: int where "default_max_lifetime_nyms_per_npub = DEFAULT_MAX_LIFETIME_NYMS_PER_NPUB"

definition default_limits_config :: limits_config where
  "default_limits_config =
    \<lparr>lim_min_sendable_msat = DEFAULT_MIN_SENDABLE_MSAT, lim_max_sendable_msat = DEFAULT_MAX_SENDABLE_MSAT,
     lim_max_descriptor_len = DEFAULT_MAX_DESCRIPTOR_LEN,
     lim_max_lifetime_nyms_per_npub = DEFAULT_MAX_LIFETIME_NYMS_PER_NPUB\<rparr>"

definition limits_config_fields :: "limits_config field list" where
  "limits_config_fields =
    [field ''min_sendable_msat'' read_u64 (Some default_min_sendable) lim_min_sendable_msat_update,
     field ''max_sendable_msat'' read_u64 (Some default_max_sendable) lim_max_sendable_msat_update,
     field ''max_descriptor_len'' read_u64 (Some default_max_descriptor_len) lim_max_descriptor_len_update,
     field ''max_lifetime_nyms_per_npub'' read_i64 (Some default_max_lifetime_nyms_per_npub) lim_max_lifetime_nyms_per_npub_update]"

subsection \<open>ProofConfig\<close>

record proof_config =
  prf_min_proof_value_sat :: nat
  prf_message_tag :: string

definition DEFAULT_MIN_PROOF_VALUE_SAT :: nat where "DEFAULT_MIN_PROOF_VALUE_SAT = 1000"
definition default_min_proof_value_sat :: nat where "default_min_proof_value_sat = DEFAULT_MIN_PROOF_VALUE_SAT"
definition DEFAULT_MESSAGE_TAG :: string where "DEFAULT_MESSAGE_TAG = ''bullpay-lnurlp-v1''"
definition default_message_tag :: string where "default_message_tag = DEFAULT_MESSAGE_TAG"

definition default_proof_config :: proof_config where
  "default_proof_config =
    \<lparr>prf_min_proof_value_sat = DEFAULT_MIN_PROOF_VALUE_SAT, prf_message_tag = DEFAULT_MESSAGE_TAG\<rparr>"

definition proof_config_fields :: "proof_config field list" where
  "proof_config_fields =
    [field ''min_proof_value_sat'' read_u64 (Some default_min_proof_value_sat) prf_min_proof_value_sat_update,
     field ''message_tag'' as_text (Some default_message_tag) prf_message_tag_update]"

subsection \<open>BitcoinWatcherConfig\<close>

record bitcoin_watcher_section =
  bws_enabled :: bool
  bws_endpoint :: string
  bws_active_tick_secs :: nat
  bws_idle_tick_secs :: nat
  bws_active_window_secs :: int
  bws_confirmations_required :: nat
  bws_rate_per_sec :: nat
  bws_request_timeout_ms :: nat

definition default_btc_watcher_enabled :: bool where "default_btc_watcher_enabled = True"
definition DEFAULT_BTC_WATCHER_ENDPOINT :: string where "DEFAULT_BTC_WATCHER_ENDPOINT = ''https://mempool.bullbitcoin.com/api''"
definition default_btc_watcher_endpoint :: string where "default_btc_watcher_endpoint = DEFAULT_BTC_WATCHER_ENDPOINT"
definition DEFAULT_BTC_WATCHER_ACTIVE_TICK_SECS :: nat where "DEFAULT_BTC_WATCHER_ACTIVE_TICK_SECS = 30"
definition default_btc_watcher_active_tick_secs :: nat where "default_btc_watcher_active_tick_secs = DEFAULT_BTC_WATCHER_ACTIVE_TICK_SECS"
definition DEFAULT_BTC_WATCHER_IDLE_TICK_SECS :: nat where "DEFAULT_BTC_WATCHER_IDLE_TICK_SECS = 300"
definition default_btc_watcher_idle_tick_secs :: nat where "default_btc_watcher_idle_tick_secs = DEFAULT_BTC_WATCHER_IDLE_TICK_SECS"
definition DEFAULT_BTC_WATCHER_ACTIVE_WINDOW_SECS :: int where "DEFAULT_BTC_WATCHER_ACTIVE_WINDOW_SECS = 3600"
definition default_btc_watcher_active_window_secs :: int where "default_btc_watcher_active_window_secs = DEFAULT_BTC_WATCHER_ACTIVE_WINDOW_SECS"
definition DEFAULT_BTC_WATCHER_CONFIRMATIONS_REQUIRED :: nat where "DEFAULT_BTC_WATCHER_CONFIRMATIONS_REQUIRED = 1"
definition default_btc_watcher_confirmations_required :: nat where "default_btc_watcher_confirmations_required = DEFAULT_BTC_WATCHER_CONFIRMATIONS_REQUIRED"
definition DEFAULT_BTC_WATCHER_RATE_PER_SEC :: nat where "DEFAULT_BTC_WATCHER_RATE_PER_SEC = 5"
definition default_btc_watcher_rate_per_sec :: nat where "default_btc_watcher_rate_per_sec = DEFAULT_BTC_WATCHER_RATE_PER_SEC"
definition DEFAULT_BTC_WATCHER_REQUEST_TIMEOUT_MS :: nat where "DEFAULT_BTC_WATCHER_REQUEST_TIMEOUT_MS = 10000"
definition default_btc_watcher_request_timeout_ms :: nat where "default_btc_watcher_request_timeout_ms = DEFAULT_BTC_WATCHER_REQUEST_TIMEOUT_MS"

definition default_bitcoin_watcher_section :: bitcoin_watcher_section where
  "default_bitcoin_watcher_section =
    \<lparr>bws_enabled = default_btc_watcher_enabled, bws_endpoint = default_btc_watcher_endpoint,
     bws_active_tick_secs = default_btc_watcher_active_tick_secs,
     bws_idle_tick_secs = default_btc_watcher_idle_tick_secs,
     bws_active_window_secs = default_btc_watcher_active_window_secs,
     bws_confirmations_required = default_btc_watcher_confirmations_required,
     bws_rate_per_sec = default_btc_watcher_rate_per_sec,
     bws_request_timeout_ms = default_btc_watcher_request_timeout_ms\<rparr>"

definition bitcoin_watcher_section_fields :: "bitcoin_watcher_section field list" where
  "bitcoin_watcher_section_fields =
    [field ''enabled'' as_bool (Some default_btc_watcher_enabled) bws_enabled_update,
     field ''endpoint'' as_text (Some default_btc_watcher_endpoint) bws_endpoint_update,
     field ''active_tick_secs'' read_u64 (Some default_btc_watcher_active_tick_secs) bws_active_tick_secs_update,
     field ''idle_tick_secs'' read_u64 (Some default_btc_watcher_idle_tick_secs) bws_idle_tick_secs_update,
     field ''active_window_secs'' read_i64 (Some default_btc_watcher_active_window_secs) bws_active_window_secs_update,
     field ''confirmations_required'' read_u32 (Some default_btc_watcher_confirmations_required) bws_confirmations_required_update,
     field ''rate_per_sec'' read_u32 (Some default_btc_watcher_rate_per_sec) bws_rate_per_sec_update,
     field ''request_timeout_ms'' read_u64 (Some default_btc_watcher_request_timeout_ms) bws_request_timeout_ms_update]"

subsection \<open>RateLimitConfig\<close>

definition default_per_ip_limit :: nat where "default_per_ip_limit = 60"
definition default_per_ip_window_secs :: nat where "default_per_ip_window_secs = 60"
definition default_per_pubkey_limit :: nat where "default_per_pubkey_limit = 0"
definition default_per_pubkey_window_secs :: nat where "default_per_pubkey_window_secs = 3600"
definition default_distinct_nyms_per_ip :: nat where "default_distinct_nyms_per_ip = 5"
definition default_distinct_nyms_per_ipv6_56 :: nat where "default_distinct_nyms_per_ipv6_56 = 3"
definition default_distinct_nyms_per_outpoint :: nat where "default_distinct_nyms_per_outpoint = 3"
definition default_distinct_nyms_window_secs :: nat where "default_distinct_nyms_window_secs = 3600"
definition default_max_pending_per_nym :: nat where "default_max_pending_per_nym = 50000"
definition default_recycle_days :: nat where "default_recycle_days = 30"
definition default_lightning_rate :: nat where "default_lightning_rate = 0"
definition default_global_electrum_rate :: nat where "default_global_electrum_rate = 50"
definition default_register_rate_limit :: nat where "default_register_rate_limit = 5"
definition default_register_rate_window_secs :: nat where "default_register_rate_window_secs = 60"
definition default_register_distinct_npubs_per_ip :: nat where "default_register_distinct_npubs_per_ip = 3"
definition default_register_distinct_npubs_per_ip_window_secs :: nat where "default_register_distinct_npubs_per_ip_window_secs = 3600"
definition default_max_active_users :: nat where "default_max_active_users = 10000"
definition default_metadata_rate_limit :: nat where "default_metadata_rate_limit = 30"
definition default_metadata_rate_window_secs :: nat where "default_metadata_rate_window_secs = 60"
definition default_metadata_distinct_nyms_per_ip :: nat where "default_metadata_distinct_nyms_per_ip = 10"
definition default_metadata_distinct_nyms_per_ip_window_secs :: nat where "default_metadata_distinct_nyms_per_ip_window_secs = 3600"
definition default_lookup_distinct_npubs_per_ip :: nat where "default_lookup_distinct_npubs_per_ip = 5"
definition default_lookup_distinct_npubs_per_ip_window_secs :: nat where "default_lookup_distinct_npubs_per_ip_window_secs = 3600"
definition default_chain_watcher_electrum_rate :: nat where "default_chain_watcher_electrum_rate = 50"
definition default_chain_watcher_active_user_tick_secs :: nat where "default_chain_watcher_active_user_tick_secs = 30"
definition default_chain_watcher_idle_user_tick_secs :: nat where "default_chain_watcher_idle_user_tick_secs = 600"
definition default_chain_watcher_active_window_secs :: nat where "default_chain_watcher_active_window_secs = 86400"
definition default_webhook_rate_limit :: nat where "default_webhook_rate_limit = 10"
definition default_webhook_rate_window_secs :: nat where "default_webhook_rate_window_secs = 60"
definition default_lightning_per_source_limit :: nat where "default_lightning_per_source_limit = 30"
definition default_lightning_per_source_window_secs :: nat where "default_lightning_per_source_window_secs = 3600"
definition default_donation_html_rate_limit :: nat where "default_donation_html_rate_limit = 60"
definition default_donation_html_rate_window_secs :: nat where "default_donation_html_rate_window_secs = 60"
definition default_donation_manifest_rate_limit :: nat where "default_donation_manifest_rate_limit = default_donation_html_rate_limit"
definition default_donation_manifest_rate_window_secs :: nat where "default_donation_manifest_rate_window_secs = default_donation_html_rate_window_secs"
definition default_donation_image_uploads_per_npub_per_hour :: nat where "default_donation_image_uploads_per_npub_per_hour = 6"
definition default_donation_image_uploads_per_source_per_min :: nat where "default_donation_image_uploads_per_source_per_min = 3"
definition default_invoice_status_per_source_per_min :: nat where "default_invoice_status_per_source_per_min = 60"
definition default_invoice_create_per_source_per_min :: nat where "default_invoice_create_per_source_per_min = 5"
definition default_invoice_create_per_npub_per_hour :: nat where "default_invoice_create_per_npub_per_hour = 100"
definition default_pos_invoice_create_per_terminal_per_5min :: nat where "default_pos_invoice_create_per_terminal_per_5min = 30"
definition default_pos_pairing_create_per_source_per_hour :: nat where "default_pos_pairing_create_per_source_per_hour = 5"
definition default_pos_pairing_claim_failures_per_source_per_hour :: nat where "default_pos_pairing_claim_failures_per_source_per_hour = 20"
definition default_pos_pairing_poll_per_source_per_5min :: nat where "default_pos_pairing_poll_per_source_per_5min = 120"

definition default_rate_limit_config :: rate_limit_config where
  "default_rate_limit_config =
    \<lparr>rc_ip_whitelist = [], rc_trust_forwarded_for = False, rc_per_ip_limit = default_per_ip_limit,
     rc_per_ip_window_secs = default_per_ip_window_secs, rc_per_pubkey_limit = default_per_pubkey_limit,
     rc_per_pubkey_window_secs = default_per_pubkey_window_secs,
     rc_distinct_nyms_per_ip_limit = default_distinct_nyms_per_ip,
     rc_distinct_nyms_per_ipv6_56_limit = default_distinct_nyms_per_ipv6_56,
     rc_distinct_nyms_per_outpoint_limit = default_distinct_nyms_per_outpoint,
     rc_distinct_nyms_window_secs = default_distinct_nyms_window_secs,
     rc_max_pending_reservations_per_nym = default_max_pending_per_nym,
     rc_recycle_pending_older_than_days = default_recycle_days, rc_lightning_rate_per_minute = default_lightning_rate,
     rc_global_electrum_rate_per_sec = default_global_electrum_rate,
     rc_register_rate_limit = default_register_rate_limit,
     rc_register_rate_window_secs = default_register_rate_window_secs,
     rc_register_distinct_npubs_per_ip_limit = default_register_distinct_npubs_per_ip,
     rc_register_distinct_npubs_per_ip_window_secs = default_register_distinct_npubs_per_ip_window_secs,
     rc_max_active_users = default_max_active_users, rc_metadata_rate_limit = default_metadata_rate_limit,
     rc_metadata_rate_window_secs = default_metadata_rate_window_secs,
     rc_metadata_distinct_nyms_per_ip_limit = default_metadata_distinct_nyms_per_ip,
     rc_metadata_distinct_nyms_per_ip_window_secs = default_metadata_distinct_nyms_per_ip_window_secs,
     rc_lookup_distinct_npubs_per_ip_limit = default_lookup_distinct_npubs_per_ip,
     rc_lookup_distinct_npubs_per_ip_window_secs = default_lookup_distinct_npubs_per_ip_window_secs,
     rc_chain_watcher_electrum_rate_per_sec = default_chain_watcher_electrum_rate,
     rc_chain_watcher_active_user_tick_secs = default_chain_watcher_active_user_tick_secs,
     rc_chain_watcher_idle_user_tick_secs = default_chain_watcher_idle_user_tick_secs,
     rc_chain_watcher_active_window_secs = default_chain_watcher_active_window_secs,
     rc_webhook_rate_limit = default_webhook_rate_limit,
     rc_webhook_rate_window_secs = default_webhook_rate_window_secs,
     rc_lightning_per_source_limit = default_lightning_per_source_limit,
     rc_lightning_per_source_window_secs = default_lightning_per_source_window_secs,
     rc_donation_html_rate_limit = default_donation_html_rate_limit,
     rc_donation_html_rate_window_secs = default_donation_html_rate_window_secs,
     rc_donation_manifest_rate_limit = default_donation_manifest_rate_limit,
     rc_donation_manifest_rate_window_secs = default_donation_manifest_rate_window_secs,
     rc_donation_image_uploads_per_npub_per_hour = default_donation_image_uploads_per_npub_per_hour,
     rc_donation_image_uploads_per_source_per_min = default_donation_image_uploads_per_source_per_min,
     rc_invoice_status_per_source_per_min = default_invoice_status_per_source_per_min,
     rc_invoice_create_per_source_per_min = default_invoice_create_per_source_per_min,
     rc_invoice_create_per_npub_per_hour = default_invoice_create_per_npub_per_hour,
     rc_pos_invoice_create_per_terminal_per_5min = default_pos_invoice_create_per_terminal_per_5min,
     rc_pos_pairing_create_per_source_per_hour = default_pos_pairing_create_per_source_per_hour,
     rc_pos_pairing_claim_failures_per_source_per_hour = default_pos_pairing_claim_failures_per_source_per_hour,
     rc_pos_pairing_poll_per_source_per_5min = default_pos_pairing_poll_per_source_per_5min\<rparr>"

text \<open>The fields in two parts, up to the render gate and from there.\<close>
definition rate_limit_gate_fields :: "rate_limit_config field list" where
  "rate_limit_gate_fields =
    [field ''ip_whitelist'' as_texts (Some []) rc_ip_whitelist_update,
     field ''trust_forwarded_for'' as_bool (Some False) rc_trust_forwarded_for_update,
     field ''per_ip_limit'' read_u32 (Some default_per_ip_limit) rc_per_ip_limit_update,
     field ''per_ip_window_secs'' read_u32 (Some default_per_ip_window_secs) rc_per_ip_window_secs_update,
     field ''per_pubkey_limit'' read_u32 (Some default_per_pubkey_limit) rc_per_pubkey_limit_update,
     field ''per_pubkey_window_secs'' read_u32 (Some default_per_pubkey_window_secs) rc_per_pubkey_window_secs_update,
     field ''distinct_nyms_per_ip_limit'' read_u32 (Some default_distinct_nyms_per_ip) rc_distinct_nyms_per_ip_limit_update,
     field ''distinct_nyms_per_ipv6_56_limit'' read_u32 (Some default_distinct_nyms_per_ipv6_56) rc_distinct_nyms_per_ipv6_56_limit_update,
     field ''distinct_nyms_per_outpoint_limit'' read_u32 (Some default_distinct_nyms_per_outpoint) rc_distinct_nyms_per_outpoint_limit_update,
     field ''distinct_nyms_window_secs'' read_u32 (Some default_distinct_nyms_window_secs) rc_distinct_nyms_window_secs_update,
     field ''max_pending_reservations_per_nym'' read_u32 (Some default_max_pending_per_nym) rc_max_pending_reservations_per_nym_update,
     field ''recycle_pending_older_than_days'' read_u32 (Some default_recycle_days) rc_recycle_pending_older_than_days_update,
     field ''lightning_rate_per_minute'' read_u32 (Some default_lightning_rate) rc_lightning_rate_per_minute_update,
     field ''global_electrum_rate_per_sec'' read_u32 (Some default_global_electrum_rate) rc_global_electrum_rate_per_sec_update,
     field ''register_rate_limit'' read_u32 (Some default_register_rate_limit) rc_register_rate_limit_update,
     field ''register_rate_window_secs'' read_u32 (Some default_register_rate_window_secs) rc_register_rate_window_secs_update,
     field ''register_distinct_npubs_per_ip_limit'' read_u32 (Some default_register_distinct_npubs_per_ip) rc_register_distinct_npubs_per_ip_limit_update,
     field ''register_distinct_npubs_per_ip_window_secs'' read_u32 (Some default_register_distinct_npubs_per_ip_window_secs) rc_register_distinct_npubs_per_ip_window_secs_update,
     field ''max_active_users'' read_u32 (Some default_max_active_users) rc_max_active_users_update,
     field ''metadata_rate_limit'' read_u32 (Some default_metadata_rate_limit) rc_metadata_rate_limit_update,
     field ''metadata_rate_window_secs'' read_u32 (Some default_metadata_rate_window_secs) rc_metadata_rate_window_secs_update,
     field ''metadata_distinct_nyms_per_ip_limit'' read_u32 (Some default_metadata_distinct_nyms_per_ip) rc_metadata_distinct_nyms_per_ip_limit_update,
     field ''metadata_distinct_nyms_per_ip_window_secs'' read_u32 (Some default_metadata_distinct_nyms_per_ip_window_secs) rc_metadata_distinct_nyms_per_ip_window_secs_update,
     field ''lookup_distinct_npubs_per_ip_limit'' read_u32 (Some default_lookup_distinct_npubs_per_ip) rc_lookup_distinct_npubs_per_ip_limit_update,
     field ''lookup_distinct_npubs_per_ip_window_secs'' read_u32 (Some default_lookup_distinct_npubs_per_ip_window_secs) rc_lookup_distinct_npubs_per_ip_window_secs_update,
     field ''chain_watcher_electrum_rate_per_sec'' read_u32 (Some default_chain_watcher_electrum_rate) rc_chain_watcher_electrum_rate_per_sec_update,
     field ''chain_watcher_active_user_tick_secs'' read_u32 (Some default_chain_watcher_active_user_tick_secs) rc_chain_watcher_active_user_tick_secs_update,
     field ''chain_watcher_idle_user_tick_secs'' read_u32 (Some default_chain_watcher_idle_user_tick_secs) rc_chain_watcher_idle_user_tick_secs_update,
     field ''chain_watcher_active_window_secs'' read_u32 (Some default_chain_watcher_active_window_secs) rc_chain_watcher_active_window_secs_update,
     field ''webhook_rate_limit'' read_u32 (Some default_webhook_rate_limit) rc_webhook_rate_limit_update,
     field ''webhook_rate_window_secs'' read_u32 (Some default_webhook_rate_window_secs) rc_webhook_rate_window_secs_update,
     field ''lightning_per_source_limit'' read_u32 (Some default_lightning_per_source_limit) rc_lightning_per_source_limit_update,
     field ''lightning_per_source_window_secs'' read_u32 (Some default_lightning_per_source_window_secs) rc_lightning_per_source_window_secs_update]"

definition rate_limit_page_fields :: "rate_limit_config field list" where
  "rate_limit_page_fields =
    [field ''donation_html_rate_limit'' read_u32 (Some default_donation_html_rate_limit) rc_donation_html_rate_limit_update,
     field ''donation_html_rate_window_secs'' read_u32 (Some default_donation_html_rate_window_secs) rc_donation_html_rate_window_secs_update,
     field ''donation_manifest_rate_limit'' read_u32 (Some default_donation_manifest_rate_limit) rc_donation_manifest_rate_limit_update,
     field ''donation_manifest_rate_window_secs'' read_u32 (Some default_donation_manifest_rate_window_secs) rc_donation_manifest_rate_window_secs_update,
     field ''donation_image_uploads_per_npub_per_hour'' read_u32 (Some default_donation_image_uploads_per_npub_per_hour) rc_donation_image_uploads_per_npub_per_hour_update,
     field ''donation_image_uploads_per_source_per_min'' read_u32 (Some default_donation_image_uploads_per_source_per_min) rc_donation_image_uploads_per_source_per_min_update,
     field_alias ''invoice_status_per_source_per_min'' ''donation_status_per_source_per_min'' read_u32 (Some default_invoice_status_per_source_per_min) rc_invoice_status_per_source_per_min_update,
     field ''invoice_create_per_source_per_min'' read_u32 (Some default_invoice_create_per_source_per_min) rc_invoice_create_per_source_per_min_update,
     field ''invoice_create_per_npub_per_hour'' read_u32 (Some default_invoice_create_per_npub_per_hour) rc_invoice_create_per_npub_per_hour_update,
     field ''pos_invoice_create_per_terminal_per_5min'' read_u32 (Some default_pos_invoice_create_per_terminal_per_5min) rc_pos_invoice_create_per_terminal_per_5min_update,
     field ''pos_pairing_create_per_source_per_hour'' read_u32 (Some default_pos_pairing_create_per_source_per_hour) rc_pos_pairing_create_per_source_per_hour_update,
     field ''pos_pairing_claim_failures_per_source_per_hour'' read_u32 (Some default_pos_pairing_claim_failures_per_source_per_hour) rc_pos_pairing_claim_failures_per_source_per_hour_update,
     field ''pos_pairing_poll_per_source_per_5min'' read_u32 (Some default_pos_pairing_poll_per_source_per_5min) rc_pos_pairing_poll_per_source_per_5min_update]"

definition rate_limit_config_fields :: "rate_limit_config field list" where
  "rate_limit_config_fields = rate_limit_gate_fields @ rate_limit_page_fields"

subsection \<open>CertificationConfig\<close>

record certification_config =
  cert_enabled :: bool
  cert_source_allowlist :: "string list"
  cert_token :: string
  cert_scopes :: "string list"


text \<open>\<open>derive(Default)\<close>.\<close>
definition default_certification_config :: certification_config where
  "default_certification_config =
    \<lparr>cert_enabled = False, cert_source_allowlist = [], cert_token = [], cert_scopes = []\<rparr>"

definition certification_config_fields :: "certification_config field list" where
  "certification_config_fields =
    [field ''enabled'' as_bool (Some False) cert_enabled_update,
     field ''source_allowlist'' as_texts (Some []) cert_source_allowlist_update,
     field ''token'' as_text (Some []) cert_token_update,
     field ''scopes'' as_texts (Some []) cert_scopes_update]"

subsection \<open>ElectrumConfig\<close>

record electrum_config =
  elec_liquid_url :: "string option"
  elec_liquid_urls :: "string list"
  elec_cache_ttl_secs :: nat
  elec_cache_max_entries :: nat

definition default_liquid_electrum_url :: string where "default_liquid_electrum_url = ''ssl://blockstream.info:995''"
definition default_electrum_cache_ttl :: nat where "default_electrum_cache_ttl = 3600"
definition default_electrum_cache_max :: nat where "default_electrum_cache_max = 10000"

definition default_electrum_config :: electrum_config where
  "default_electrum_config =
    \<lparr>elec_liquid_url = None, elec_liquid_urls = [default_liquid_electrum_url],
     elec_cache_ttl_secs = default_electrum_cache_ttl, elec_cache_max_entries = default_electrum_cache_max\<rparr>"

definition electrum_config_fields :: "electrum_config field list" where
  "electrum_config_fields =
    [field ''liquid_url'' as_text_option (Some None) elec_liquid_url_update,
     field ''liquid_urls'' as_texts (Some []) elec_liquid_urls_update,
     field ''cache_ttl_secs'' read_u64 (Some default_electrum_cache_ttl) elec_cache_ttl_secs_update,
     field ''cache_max_entries'' read_u64 (Some default_electrum_cache_max) elec_cache_max_entries_update]"

text \<open>A bare \<open>host:port\<close> is taken to speak TLS.\<close>
definition normalize_electrum_url :: "string \<Rightarrow> string" where
  "normalize_electrum_url raw = (if starts_with ''ssl://'' raw \<or> starts_with ''tcp://'' raw then raw else ''ssl://'' @ raw)"

text \<open>The loop over \<open>liquid_urls\<close>: empty and repeated ones are skipped.\<close>
fun add_urls :: "string list \<Rightarrow> string list \<Rightarrow> string list" where
  "add_urls out [] = out"
| "add_urls out (u # us) = (if u = [] \<or> normalize_electrum_url u \<in> set out then add_urls out us
     else add_urls (out @ [normalize_electrum_url u]) us)"

definition electrum_urls :: "electrum_config \<Rightarrow> string list" where
  "electrum_urls c =
    (let first = (case elec_liquid_url c of
         Some u \<Rightarrow> if u = [] then [] else [normalize_electrum_url u] | None \<Rightarrow> []);
         out = add_urls first (elec_liquid_urls c)
     in if out = [] then [default_liquid_electrum_url] else out)"

subsection \<open>The whole file\<close>

record config =
  co_domain :: string
  co_listen :: string
  co_pool_size :: nat
  co_boltz :: boltz_config
  co_pricer :: pricer_section
  co_pwa :: pwa_config
  co_donation :: donation_config
  co_limits :: limits_config
  co_proof :: proof_config
  co_features :: features_config
  co_rate_limit :: rate_limit_config
  co_certification :: certification_config
  co_electrum :: electrum_config
  co_claim :: claim_config
  co_reconciler :: reconciler_config
  co_bitcoin_watcher :: bitcoin_watcher_section
  co_workers :: workers_config
  co_invoice_accounting :: invoice_accounting_config
  co_database_url :: string
  co_swap_mnemonic :: string
  co_boltz_webhook_url_secret :: string
  co_boltz_webhook_url_secret_previous :: string

definition DEFAULT_POOL_SIZE :: nat where "DEFAULT_POOL_SIZE = 10"
definition default_pool_size :: nat where "default_pool_size = DEFAULT_POOL_SIZE"

text \<open>The fields with no key in the file start empty.\<close>
definition blank_config :: config where
  "blank_config =
    \<lparr>co_domain = [], co_listen = [], co_pool_size = 0, co_boltz = \<lparr>bltz_api_url = [], bltz_electrum_url = []\<rparr>,
     co_pricer = default_pricer_section, co_pwa = default_pwa_config, co_donation = default_donation_config,
     co_limits = default_limits_config, co_proof = default_proof_config, co_features = default_features_config,
     co_rate_limit = default_rate_limit_config, co_certification = default_certification_config,
     co_electrum = default_electrum_config, co_claim = default_claim_config, co_reconciler = default_reconciler_config,
     co_bitcoin_watcher = default_bitcoin_watcher_section, co_workers = default_workers_config,
     co_invoice_accounting = default_invoice_accounting_config, co_database_url = [], co_swap_mnemonic = [],
     co_boltz_webhook_url_secret = [], co_boltz_webhook_url_secret_previous = []\<rparr>"

text \<open>A section with \<open>#[serde(default)]\<close>: absent, it is the default of its type.\<close>
definition optional_section :: "string \<Rightarrow> 'a field list \<Rightarrow> 'a \<Rightarrow> (('a \<Rightarrow> 'a) \<Rightarrow> config \<Rightarrow> config) \<Rightarrow> config field" where
  "optional_section key fs default_value = field key (as_section fs default_value) (Some default_value)"

definition config_fields :: "config field list" where
  "config_fields =
    [field ''domain'' as_text None co_domain_update,
     field ''listen'' as_text None co_listen_update,
     field ''pool_size'' read_u32 (Some default_pool_size) co_pool_size_update,
     field ''boltz'' (as_section boltz_config_fields \<lparr>bltz_api_url = [], bltz_electrum_url = []\<rparr>) None co_boltz_update,
     optional_section ''pricer'' pricer_section_fields default_pricer_section co_pricer_update,
     optional_section ''pwa'' pwa_config_fields default_pwa_config co_pwa_update,
     optional_section ''donation'' donation_config_fields default_donation_config co_donation_update,
     optional_section ''limits'' limits_config_fields default_limits_config co_limits_update,
     optional_section ''proof'' proof_config_fields default_proof_config co_proof_update,
     optional_section ''features'' features_config_fields default_features_config co_features_update,
     optional_section ''rate_limit'' rate_limit_config_fields default_rate_limit_config co_rate_limit_update,
     optional_section ''certification'' certification_config_fields default_certification_config co_certification_update,
     optional_section ''electrum'' electrum_config_fields default_electrum_config co_electrum_update,
     optional_section ''claim'' claim_config_fields default_claim_config co_claim_update,
     optional_section ''reconciler'' reconciler_config_fields default_reconciler_config co_reconciler_update,
     optional_section ''bitcoin_watcher'' bitcoin_watcher_section_fields default_bitcoin_watcher_section co_bitcoin_watcher_update,
     optional_section ''workers'' workers_config_fields default_workers_config co_workers_update,
     optional_section ''invoice_accounting'' invoice_accounting_config_fields default_invoice_accounting_config
       co_invoice_accounting_update]"

definition config_of_toml :: "table \<Rightarrow> config_error + config" where
  "config_of_toml t = read_section config_fields t blank_config"

subsection \<open>Validation\<close>

definition demand :: "bool \<Rightarrow> string \<Rightarrow> config_error + unit" where
  "demand b msg = (if b then Inr () else Inl (Config_message msg))"

text \<open>The first demand that is not met.\<close>
fun demands :: "(bool \<times> string) list \<Rightarrow> config_error + unit" where
  "demands [] = Inr ()"
| "demands ((b, msg) # ds) = (case demand b msg of Inl e \<Rightarrow> Inl e | Inr _ \<Rightarrow> demands ds)"

definition validate_common :: "config \<Rightarrow> config_error + unit" where
  "validate_common c =
    (let ct = co_certification c in demands
     ([(lim_min_sendable_msat (co_limits c) \<le> lim_max_sendable_msat (co_limits c), ''min_sendable_msat must be <= max_sendable_msat''),
       (lim_min_sendable_msat (co_limits c) \<noteq> 0, ''min_sendable_msat must be > 0''),
       (prf_message_tag (co_proof c) \<noteq> [], ''proof.message_tag must be non-empty''),
       (don_image_max_dimension (co_donation c) \<noteq> 0, ''donation.image_max_dimension must be > 0''),
       (don_image_max_pixels (co_donation c) \<noteq> 0, ''donation.image_max_pixels must be > 0'')]
      @ (if cert_enabled ct then
          [(cert_token ct \<noteq> [], ''certification.token must be non-empty when enabled''),
           (cert_source_allowlist ct \<noteq> [], ''certification.source_allowlist must be non-empty when enabled''),
           (cert_scopes ct \<noteq> [], ''certification.scopes must be non-empty when enabled'')] else [])))"

text \<open>\<open>IpAddr::is_loopback\<close>.\<close>
fun is_loopback :: "ip_addr \<Rightarrow> bool" where
  "is_loopback (V4 a b c d) \<longleftrightarrow> a = 127"
| "is_loopback (V6 ws) \<longleftrightarrow> ws = [0, 0, 0, 0, 0, 0, 0, 1]"

text \<open>\<open>parse_addr\<close> is \<open>SocketAddr::from_str\<close>, with the address of the result.\<close>
definition listen_addr_is_non_loopback :: "(string \<Rightarrow> string + ip_addr) \<Rightarrow> string \<Rightarrow> config_error + bool" where
  "listen_addr_is_non_loopback parse_addr listen = (case parse_addr listen of
     Inl e \<Rightarrow> Inl (Config_message (''listen must be a socket address host:port: '' @ e))
   | Inr ip \<Rightarrow> Inr (\<not> is_loopback ip))"

definition validate_production :: "(string \<Rightarrow> string + ip_addr) \<Rightarrow> bool \<Rightarrow> config \<Rightarrow> config_error + unit" where
  "validate_production parse_addr allow_public_listen c =
    (case demands
       [(co_boltz_webhook_url_secret c \<noteq> [], ''BOLTZ_WEBHOOK_URL_SECRET must be set when BULLNYM_RUNTIME_MODE=production''),
        (\<not> (co_domain c = ''localhost'' \<or> starts_with ''localhost:'' (co_domain c)), ''domain must not be localhost in production'')] of
       Inl e \<Rightarrow> Inl e
     | Inr _ \<Rightarrow>
        if allow_public_listen then Inr ()
        else (case listen_addr_is_non_loopback parse_addr (co_listen c) of
          Inl e \<Rightarrow> Inl e
        | Inr public \<Rightarrow> demand (\<not> public)
            ''listen must bind loopback in production; use 127.0.0.1 or set BULLNYM_ALLOW_PUBLIC_LISTEN=true''))"

definition validate_for_runtime ::
  "(string \<Rightarrow> string + ip_addr) \<Rightarrow> string \<Rightarrow> bool \<Rightarrow> config \<Rightarrow> config_error + unit" where
  "validate_for_runtime parse_addr runtime_mode allow_public_listen c =
    (case validate_common c of
       Inl e \<Rightarrow> Inl e
     | Inr _ \<Rightarrow> if runtime_mode = ''production'' then validate_production parse_addr allow_public_listen c else Inr ())"

subsection \<open>Loading\<close>

text \<open>The bytes of the white space character at the front, and \<open>trim_start\<close>.\<close>
fun space_len :: "string \<Rightarrow> nat" where
  "space_len (a # s) = (if ascii_space a then 1 else (case s of
     b # t \<Rightarrow> (if unicode_space [of_char a, of_char b] then 2
              else (case t of c # u \<Rightarrow> if unicode_space [of_char a, of_char b, of_char c] then 3 else 0 | [] \<Rightarrow> 0))
   | [] \<Rightarrow> 0))"
| "space_len [] = 0"

function trim_start :: "string \<Rightarrow> string" where
  "trim_start s = (if space_len s = 0 then s else trim_start (drop (space_len s) s))"
  by pat_completeness auto
termination
proof (relation "measure length")
  fix s :: string
  assume "space_len s \<noteq> 0"
  then have "s \<noteq> []" by (cases s) auto
  then show "(drop (space_len s) s, s) \<in> measure length" using \<open>space_len s \<noteq> 0\<close> by (cases s) auto
qed simp

text \<open>Trimmed and in lower case, one of the four words.\<close>
definition env_flag_enabled :: "string \<Rightarrow> bool" where
  "env_flag_enabled value =
    (let t = trim_start value in
     list_ex (\<lambda>w. ascii_lowercase (take (length w) t) = w \<and> all_space (drop (length w) t)) [''1'', ''true'', ''yes'', ''on''])"

text \<open>The file, its TOML, the environment and the parser of socket addresses.\<close>
record load_inputs =
  li_read_file :: "string \<Rightarrow> string + string"
  li_parse_toml :: "string \<Rightarrow> string + table"
  li_env :: "string \<Rightarrow> string option"
  li_parse_addr :: "string \<Rightarrow> string + ip_addr"

definition or_empty :: "string option \<Rightarrow> string" where
  "or_empty v = (case v of Some s \<Rightarrow> s | None \<Rightarrow> [])"

definition with_environment :: "(string \<Rightarrow> string option) \<Rightarrow> config \<Rightarrow> config_error + config" where
  "with_environment env c =
    (case env ''DATABASE_URL'' of
       None \<Rightarrow> Inl (Config_message ''DATABASE_URL environment variable is required'')
     | Some database_url \<Rightarrow>
    (case env ''SWAP_MNEMONIC'' of
       None \<Rightarrow> Inl (Config_message ''SWAP_MNEMONIC environment variable is required'')
     | Some swap_mnemonic \<Rightarrow> Inr (c\<lparr>co_database_url := database_url, co_swap_mnemonic := swap_mnemonic,
         co_boltz_webhook_url_secret := (case env ''BOLTZ_WEBHOOK_URL_SECRET'' of
            Some s \<Rightarrow> s | None \<Rightarrow> or_empty (env ''BOLTZ_WEBHOOK_SECRET'')),
         co_boltz_webhook_url_secret_previous := or_empty (env ''BOLTZ_WEBHOOK_URL_SECRET_PREVIOUS'')\<rparr>)))"

definition runtime_mode :: "(string \<Rightarrow> string option) \<Rightarrow> string" where
  "runtime_mode env = (case env ''BULLNYM_RUNTIME_MODE'' of Some m \<Rightarrow> m | None \<Rightarrow> ''unknown'')"

definition allow_public_listen :: "(string \<Rightarrow> string option) \<Rightarrow> bool" where
  "allow_public_listen env = (case env ''BULLNYM_ALLOW_PUBLIC_LISTEN'' of Some v \<Rightarrow> env_flag_enabled v | None \<Rightarrow> False)"

definition config_load :: "load_inputs \<Rightarrow> string \<Rightarrow> config_error + config" where
  "config_load li file =
    (case li_read_file li file of
       Inl e \<Rightarrow> Inl (Config_message e)
     | Inr content \<Rightarrow>
    (case li_parse_toml li content of
       Inl e \<Rightarrow> Inl (Config_message e)
     | Inr t \<Rightarrow>
    (case config_of_toml t of
       Inl e \<Rightarrow> Inl e
     | Inr c0 \<Rightarrow>
    (case with_environment (li_env li) c0 of
       Inl e \<Rightarrow> Inl e
     | Inr c \<Rightarrow> map_sum id (\<lambda>_. c)
         (validate_for_runtime (li_parse_addr li) (runtime_mode (li_env li)) (allow_public_listen (li_env li)) c)))))"

subsection \<open>What the components are given\<close>

definition pricer_config_of :: "pricer_section \<Rightarrow> pricer_config" where
  "pricer_config_of p = \<lparr>pc_url = prc_url p, pc_cache_ttl_secs = int (prc_cache_ttl_secs p),
     pc_supported_currencies = prc_supported_currencies p\<rparr>"

definition bitcoin_watcher_config_of :: "bitcoin_watcher_section \<Rightarrow> bitcoin_watcher_config" where
  "bitcoin_watcher_config_of b = \<lparr>bw_confirmations_required = bws_confirmations_required b,
     bw_active_window_secs = bws_active_window_secs b\<rparr>"

definition tolerances_of :: "invoice_accounting_config \<Rightarrow> tolerances" where
  "tolerances_of a = \<lparr>tol_btc_sat = acct_btc_shortfall_tolerance_sat a,
     tol_liquid_sat = acct_liquid_shortfall_tolerance_sat a, tol_lightning_sat = acct_lightning_shortfall_tolerance_sat a\<rparr>"

definition pipeline_config_of :: "donation_config \<Rightarrow> pipeline_config" where
  "pipeline_config_of d =
    \<lparr>pc_max_bytes = don_image_max_bytes d, pc_max_dimension = of_nat (don_image_max_dimension d),
     pc_max_pixels = of_nat (don_image_max_pixels d), pc_avatar_size = of_nat (don_avatar_size d),
     pc_og_width = of_nat (don_og_width d), pc_og_height = of_nat (don_og_height d)\<rparr>"

definition gc_config_of :: "invoice_accounting_config \<Rightarrow> gc_config" where
  "gc_config_of a = default_gc_config\<lparr>gc_checkout_partial_terminal_grace_secs := int (acct_checkout_partial_terminal_grace_secs a)\<rparr>"

end
