(* ===== verification/ConfigProperties.thy ===== *)
theory ConfigProperties
  imports Config RenderProperties
begin

text \<open>
  What a configuration that has been loaded guarantees: the
  validation has passed, and leaving a section out is the same as leaving it empty.
\<close>

subsection \<open>Machine types\<close>

definition invoice_accounting_typed :: "invoice_accounting_config \<Rightarrow> bool" where
  "invoice_accounting_typed r \<longleftrightarrow> list_all (\<lambda>f. f r \<le> u64_max)
    [acct_checkout_partial_terminal_grace_secs]
   \<and> list_all (\<lambda>f. i64_min \<le> f r \<and> f r \<le> i64_max)
    [acct_btc_shortfall_tolerance_sat, acct_liquid_shortfall_tolerance_sat, acct_lightning_shortfall_tolerance_sat]"

definition claim_typed :: "claim_config \<Rightarrow> bool" where
  "claim_typed r \<longleftrightarrow> list_all (\<lambda>f. i32_min \<le> f r \<and> f r \<le> i32_max)
    [clm_max_claim_attempts]"

definition reconciler_typed :: "reconciler_config \<Rightarrow> bool" where
  "reconciler_typed r \<longleftrightarrow> list_all (\<lambda>f. f r \<le> u32_max)
    [reco_max_per_tick]
   \<and> list_all (\<lambda>f. f r \<le> u64_max)
    [reco_interval_secs, reco_min_age_secs, reco_inter_call_delay_ms]"

definition pricer_typed :: "pricer_section \<Rightarrow> bool" where
  "pricer_typed r \<longleftrightarrow> list_all (\<lambda>f. f r \<le> u64_max)
    [prc_cache_ttl_secs, prc_request_timeout_ms]"

definition donation_typed :: "donation_config \<Rightarrow> bool" where
  "donation_typed r \<longleftrightarrow> list_all (\<lambda>f. f r \<le> u32_max)
    [don_image_max_dimension, don_avatar_size, don_og_width, don_og_height]
   \<and> list_all (\<lambda>f. f r \<le> u64_max)
    [don_image_max_pixels]
   \<and> list_all (\<lambda>f. f r \<le> u64_max)
    [don_image_max_bytes]"

definition limits_typed :: "limits_config \<Rightarrow> bool" where
  "limits_typed r \<longleftrightarrow> list_all (\<lambda>f. f r \<le> u64_max)
    [lim_min_sendable_msat, lim_max_sendable_msat]
   \<and> list_all (\<lambda>f. f r \<le> u64_max)
    [lim_max_descriptor_len]
   \<and> list_all (\<lambda>f. i64_min \<le> f r \<and> f r \<le> i64_max)
    [lim_max_lifetime_nyms_per_npub]"

definition proof_typed :: "proof_config \<Rightarrow> bool" where
  "proof_typed r \<longleftrightarrow> list_all (\<lambda>f. f r \<le> u64_max)
    [prf_min_proof_value_sat]"

definition bitcoin_watcher_typed :: "bitcoin_watcher_section \<Rightarrow> bool" where
  "bitcoin_watcher_typed r \<longleftrightarrow> list_all (\<lambda>f. f r \<le> u32_max)
    [bws_confirmations_required, bws_rate_per_sec]
   \<and> list_all (\<lambda>f. f r \<le> u64_max)
    [bws_active_tick_secs, bws_idle_tick_secs, bws_request_timeout_ms]
   \<and> list_all (\<lambda>f. i64_min \<le> f r \<and> f r \<le> i64_max)
    [bws_active_window_secs]"

definition rate_limit_typed :: "rate_limit_config \<Rightarrow> bool" where
  "rate_limit_typed r \<longleftrightarrow> list_all (\<lambda>f. f r \<le> u32_max)
    [rc_per_ip_limit, rc_per_ip_window_secs, rc_per_pubkey_limit, rc_per_pubkey_window_secs,
     rc_distinct_nyms_per_ip_limit, rc_distinct_nyms_per_ipv6_56_limit, rc_distinct_nyms_per_outpoint_limit,
     rc_distinct_nyms_window_secs, rc_max_pending_reservations_per_nym, rc_recycle_pending_older_than_days,
     rc_lightning_rate_per_minute, rc_global_electrum_rate_per_sec, rc_register_rate_limit,
     rc_register_rate_window_secs, rc_register_distinct_npubs_per_ip_limit,
     rc_register_distinct_npubs_per_ip_window_secs, rc_max_active_users, rc_metadata_rate_limit,
     rc_metadata_rate_window_secs, rc_metadata_distinct_nyms_per_ip_limit,
     rc_metadata_distinct_nyms_per_ip_window_secs, rc_lookup_distinct_npubs_per_ip_limit,
     rc_lookup_distinct_npubs_per_ip_window_secs, rc_chain_watcher_electrum_rate_per_sec,
     rc_chain_watcher_active_user_tick_secs, rc_chain_watcher_idle_user_tick_secs,
     rc_chain_watcher_active_window_secs, rc_webhook_rate_limit, rc_webhook_rate_window_secs,
     rc_lightning_per_source_limit, rc_lightning_per_source_window_secs, rc_donation_html_rate_limit,
     rc_donation_html_rate_window_secs, rc_donation_manifest_rate_limit, rc_donation_manifest_rate_window_secs,
     rc_donation_image_uploads_per_npub_per_hour, rc_donation_image_uploads_per_source_per_min,
     rc_invoice_status_per_source_per_min, rc_invoice_create_per_source_per_min, rc_invoice_create_per_npub_per_hour,
     rc_pos_invoice_create_per_terminal_per_5min, rc_pos_pairing_create_per_source_per_hour,
     rc_pos_pairing_claim_failures_per_source_per_hour, rc_pos_pairing_poll_per_source_per_5min]"

definition electrum_typed :: "electrum_config \<Rightarrow> bool" where
  "electrum_typed r \<longleftrightarrow> list_all (\<lambda>f. f r \<le> u64_max)
    [elec_cache_ttl_secs]
   \<and> list_all (\<lambda>f. f r \<le> u64_max)
    [elec_cache_max_entries]"

definition config_typed :: "config \<Rightarrow> bool" where
  "config_typed c \<longleftrightarrow> co_pool_size c \<le> u32_max \<and> pricer_typed (co_pricer c) \<and> donation_typed (co_donation c)
     \<and> limits_typed (co_limits c) \<and> proof_typed (co_proof c) \<and> rate_limit_typed (co_rate_limit c)
     \<and> electrum_typed (co_electrum c) \<and> claim_typed (co_claim c) \<and> reconciler_typed (co_reconciler c)
     \<and> bitcoin_watcher_typed (co_bitcoin_watcher c) \<and> invoice_accounting_typed (co_invoice_accounting c)"

text \<open>Reading a field keeps what holds of the record.\<close>
definition keeps :: "('r \<Rightarrow> bool) \<Rightarrow> 'r field \<Rightarrow> bool" where
  "keeps P f \<longleftrightarrow> (\<forall>t u r. f t = Inr u \<longrightarrow> P r \<longrightarrow> P (u r))"

lemma section_keeps: "list_all (keeps P) fs \<Longrightarrow> P r \<Longrightarrow> read_section fs t r = Inr r' \<Longrightarrow> P r'"
proof (induction fs arbitrary: r)
  case (Cons f fs)
  then obtain u where u: "f t = Inr u" "read_section fs t (u r) = Inr r'" by (auto split: sum.splits)
  moreover have "P (u r)" using Cons.prems u(1) by (simp add: keeps_def)
  ultimately show ?case using Cons by simp
qed simp

lemma keeps_field:
  assumes "\<And>v x r. rd key v = Inr x \<Longrightarrow> P r \<Longrightarrow> P (upd (\<lambda>_. x) r)"
    and "\<And>x r. dv = Some x \<Longrightarrow> P r \<Longrightarrow> P (upd (\<lambda>_. x) r)"
  shows "keeps P (field key rd dv upd)"
  using assms by (auto simp: keeps_def field_def map_sum_Inr_iff split: option.splits)

lemma range_read:
  "read_u32 key v = Inr n \<Longrightarrow> n \<le> u32_max" "read_u64 key v = Inr n \<Longrightarrow> n \<le> u64_max"
  "read_i32 key v = Inr i \<Longrightarrow> i32_min \<le> i \<and> i \<le> i32_max" "read_i64 key v = Inr i \<Longrightarrow> i64_min \<le> i \<and> i \<le> i64_max"
  by (auto simp: read_u32_def read_u64_def read_i32_def read_i64_def as_range_def split: toml.splits if_splits)

text \<open>A field of each machine type, with what its default has to satisfy.\<close>
lemma keeps_number:
  "(\<And>x r. x \<le> u32_max \<Longrightarrow> P r \<Longrightarrow> P (upd (\<lambda>_. x) r)) \<Longrightarrow> d \<le> u32_max \<Longrightarrow> keeps P (field k read_u32 (Some d) upd)"
  "(\<And>x r. x \<le> u64_max \<Longrightarrow> P r \<Longrightarrow> P (upd (\<lambda>_. x) r)) \<Longrightarrow> d \<le> u64_max \<Longrightarrow> keeps P (field k read_u64 (Some d) upd)"
  "(\<And>x r. i32_min \<le> x \<Longrightarrow> x \<le> i32_max \<Longrightarrow> P r \<Longrightarrow> P (updi (\<lambda>_. x) r)) \<Longrightarrow> i32_min \<le> di \<Longrightarrow> di \<le> i32_max
    \<Longrightarrow> keeps P (field k read_i32 (Some di) updi)"
  "(\<And>x r. i64_min \<le> x \<Longrightarrow> x \<le> i64_max \<Longrightarrow> P r \<Longrightarrow> P (updi (\<lambda>_. x) r)) \<Longrightarrow> i64_min \<le> di \<Longrightarrow> di \<le> i64_max
    \<Longrightarrow> keeps P (field k read_i64 (Some di) updi)"
  by (rule keeps_field; (blast dest: range_read | simp))+

lemma keeps_other: "(\<And>x r. P r \<Longrightarrow> P (upd (\<lambda>_. x) r)) \<Longrightarrow> keeps P (field k rd dv upd)"
  by (rule keeps_field) auto

lemma keeps_alias:
  "(\<And>x r. x \<le> u32_max \<Longrightarrow> P r \<Longrightarrow> P (upd (\<lambda>_. x) r)) \<Longrightarrow> d \<le> u32_max \<Longrightarrow> keeps P (field_alias k a read_u32 (Some d) upd)"
  using keeps_number(1)[of P upd d] by (fastforce simp: keeps_def field_alias_def)

lemmas limits_unfold = u32_max_def u64_max_def i32_min_def i32_max_def i64_min_def i64_max_def

text \<open>The constants and the functions of the defaults.\<close>
lemmas default_values =
  default_feature_enabled_def default_workers_enabled_def DEFAULT_BTC_SHORTFALL_TOLERANCE_SAT_def
  default_btc_shortfall_tolerance_sat_def DEFAULT_LIQUID_SHORTFALL_TOLERANCE_SAT_def
  default_liquid_shortfall_tolerance_sat_def DEFAULT_LIGHTNING_SHORTFALL_TOLERANCE_SAT_def
  default_lightning_shortfall_tolerance_sat_def DEFAULT_CHECKOUT_PARTIAL_TERMINAL_GRACE_SECS_def
  default_checkout_partial_terminal_grace_secs_def DEFAULT_MAX_CLAIM_ATTEMPTS_def default_max_claim_attempts_def
  DEFAULT_RECONCILER_INTERVAL_SECS_def default_reconciler_interval_secs_def DEFAULT_RECONCILER_MIN_AGE_SECS_def
  default_reconciler_min_age_secs_def DEFAULT_RECONCILER_MAX_PER_TICK_def default_reconciler_max_per_tick_def
  DEFAULT_RECONCILER_INTER_CALL_DELAY_MS_def default_reconciler_inter_call_delay_ms_def DEFAULT_PRICER_URL_def
  default_pricer_url_def DEFAULT_PRICER_CACHE_TTL_SECS_def default_pricer_cache_ttl_secs_def
  DEFAULT_PRICER_REQUEST_TIMEOUT_MS_def default_pricer_request_timeout_ms_def default_pricer_supported_currencies_def
  DEFAULT_PWA_DIST_DIR_def default_pwa_dist_dir_def DEFAULT_DONATION_IMAGE_ROOT_def default_donation_image_root_def
  DEFAULT_DONATION_IMAGE_MAX_BYTES_def default_donation_image_max_bytes_def DEFAULT_DONATION_IMAGE_MAX_DIMENSION_def
  default_donation_image_max_dimension_def DEFAULT_DONATION_IMAGE_MAX_PIXELS_def default_donation_image_max_pixels_def
  DEFAULT_DONATION_AVATAR_SIZE_def default_donation_avatar_size_def DEFAULT_DONATION_OG_WIDTH_def
  default_donation_og_width_def DEFAULT_DONATION_OG_HEIGHT_def default_donation_og_height_def
  DEFAULT_MIN_SENDABLE_MSAT_def default_min_sendable_def DEFAULT_MAX_SENDABLE_MSAT_def default_max_sendable_def
  DEFAULT_MAX_DESCRIPTOR_LEN_def default_max_descriptor_len_def DEFAULT_MAX_LIFETIME_NYMS_PER_NPUB_def
  default_max_lifetime_nyms_per_npub_def DEFAULT_MIN_PROOF_VALUE_SAT_def default_min_proof_value_sat_def
  DEFAULT_MESSAGE_TAG_def default_message_tag_def default_btc_watcher_enabled_def DEFAULT_BTC_WATCHER_ENDPOINT_def
  default_btc_watcher_endpoint_def DEFAULT_BTC_WATCHER_ACTIVE_TICK_SECS_def default_btc_watcher_active_tick_secs_def
  DEFAULT_BTC_WATCHER_IDLE_TICK_SECS_def default_btc_watcher_idle_tick_secs_def
  DEFAULT_BTC_WATCHER_ACTIVE_WINDOW_SECS_def default_btc_watcher_active_window_secs_def
  DEFAULT_BTC_WATCHER_CONFIRMATIONS_REQUIRED_def default_btc_watcher_confirmations_required_def
  DEFAULT_BTC_WATCHER_RATE_PER_SEC_def default_btc_watcher_rate_per_sec_def DEFAULT_BTC_WATCHER_REQUEST_TIMEOUT_MS_def
  default_btc_watcher_request_timeout_ms_def default_per_ip_limit_def default_per_ip_window_secs_def
  default_per_pubkey_limit_def default_per_pubkey_window_secs_def default_distinct_nyms_per_ip_def
  default_distinct_nyms_per_ipv6_56_def default_distinct_nyms_per_outpoint_def default_distinct_nyms_window_secs_def
  default_max_pending_per_nym_def default_recycle_days_def default_lightning_rate_def default_global_electrum_rate_def
  default_register_rate_limit_def default_register_rate_window_secs_def default_register_distinct_npubs_per_ip_def
  default_register_distinct_npubs_per_ip_window_secs_def default_max_active_users_def default_metadata_rate_limit_def
  default_metadata_rate_window_secs_def default_metadata_distinct_nyms_per_ip_def
  default_metadata_distinct_nyms_per_ip_window_secs_def default_lookup_distinct_npubs_per_ip_def
  default_lookup_distinct_npubs_per_ip_window_secs_def default_chain_watcher_electrum_rate_def
  default_chain_watcher_active_user_tick_secs_def default_chain_watcher_idle_user_tick_secs_def
  default_chain_watcher_active_window_secs_def default_webhook_rate_limit_def default_webhook_rate_window_secs_def
  default_lightning_per_source_limit_def default_lightning_per_source_window_secs_def
  default_donation_html_rate_limit_def default_donation_html_rate_window_secs_def
  default_donation_manifest_rate_limit_def default_donation_manifest_rate_window_secs_def
  default_donation_image_uploads_per_npub_per_hour_def default_donation_image_uploads_per_source_per_min_def
  default_invoice_status_per_source_per_min_def default_invoice_create_per_source_per_min_def
  default_invoice_create_per_npub_per_hour_def default_pos_invoice_create_per_terminal_per_5min_def
  default_pos_pairing_create_per_source_per_hour_def default_pos_pairing_claim_failures_per_source_per_hour_def
  default_pos_pairing_poll_per_source_per_5min_def default_liquid_electrum_url_def default_electrum_cache_ttl_def
  default_electrum_cache_max_def

lemma invoice_accounting_keeps: "list_all (keeps invoice_accounting_typed) invoice_accounting_config_fields" "invoice_accounting_typed default_invoice_accounting_config"
  unfolding invoice_accounting_config_fields_def list.pred_inject list_all_append
  by (intro conjI TrueI keeps_number keeps_alias keeps_other; simp add: invoice_accounting_typed_def default_values limits_unfold)
    (simp add: invoice_accounting_typed_def default_invoice_accounting_config_def default_values limits_unfold)

lemma claim_keeps: "list_all (keeps claim_typed) claim_config_fields" "claim_typed default_claim_config"
  unfolding claim_config_fields_def list.pred_inject list_all_append
  by (intro conjI TrueI keeps_number keeps_alias keeps_other; simp add: claim_typed_def default_values limits_unfold)
    (simp add: claim_typed_def default_claim_config_def default_values limits_unfold)

lemma reconciler_keeps: "list_all (keeps reconciler_typed) reconciler_config_fields" "reconciler_typed default_reconciler_config"
  unfolding reconciler_config_fields_def list.pred_inject list_all_append
  by (intro conjI TrueI keeps_number keeps_alias keeps_other; simp add: reconciler_typed_def default_values limits_unfold)
    (simp add: reconciler_typed_def default_reconciler_config_def default_values limits_unfold)

lemma pricer_keeps: "list_all (keeps pricer_typed) pricer_section_fields" "pricer_typed default_pricer_section"
  unfolding pricer_section_fields_def list.pred_inject list_all_append
  by (intro conjI TrueI keeps_number keeps_alias keeps_other; simp add: pricer_typed_def default_values limits_unfold)
    (simp add: pricer_typed_def default_pricer_section_def default_values limits_unfold)

lemma donation_keeps: "list_all (keeps donation_typed) donation_config_fields" "donation_typed default_donation_config"
  unfolding donation_config_fields_def list.pred_inject list_all_append
  by (intro conjI TrueI keeps_number keeps_alias keeps_other; simp add: donation_typed_def default_values limits_unfold)
    (simp add: donation_typed_def default_donation_config_def default_values limits_unfold)

lemma limits_keeps: "list_all (keeps limits_typed) limits_config_fields" "limits_typed default_limits_config"
  unfolding limits_config_fields_def list.pred_inject list_all_append
  by (intro conjI TrueI keeps_number keeps_alias keeps_other; simp add: limits_typed_def default_values limits_unfold)
    (simp add: limits_typed_def default_limits_config_def default_values limits_unfold)

lemma proof_keeps: "list_all (keeps proof_typed) proof_config_fields" "proof_typed default_proof_config"
  unfolding proof_config_fields_def list.pred_inject list_all_append
  by (intro conjI TrueI keeps_number keeps_alias keeps_other; simp add: proof_typed_def default_values limits_unfold)
    (simp add: proof_typed_def default_proof_config_def default_values limits_unfold)

lemma bitcoin_watcher_keeps: "list_all (keeps bitcoin_watcher_typed) bitcoin_watcher_section_fields" "bitcoin_watcher_typed default_bitcoin_watcher_section"
  unfolding bitcoin_watcher_section_fields_def list.pred_inject list_all_append
  by (intro conjI TrueI keeps_number keeps_alias keeps_other; simp add: bitcoin_watcher_typed_def default_values limits_unfold)
    (simp add: bitcoin_watcher_typed_def default_bitcoin_watcher_section_def default_values limits_unfold)

lemma rate_limit_keeps: "list_all (keeps rate_limit_typed) rate_limit_config_fields" "rate_limit_typed default_rate_limit_config"
  unfolding rate_limit_config_fields_def rate_limit_gate_fields_def rate_limit_page_fields_def list.pred_inject list_all_append
  by (intro conjI TrueI keeps_number keeps_alias keeps_other; simp add: rate_limit_typed_def default_values limits_unfold)
    (simp add: rate_limit_typed_def default_rate_limit_config_def default_values limits_unfold)

lemma electrum_keeps: "list_all (keeps electrum_typed) electrum_config_fields" "electrum_typed default_electrum_config"
  unfolding electrum_config_fields_def list.pred_inject list_all_append
  by (intro conjI TrueI keeps_number keeps_alias keeps_other; simp add: electrum_typed_def default_values limits_unfold)
    (simp add: electrum_typed_def default_electrum_config_def default_values limits_unfold)

lemma keeps_section:
  assumes "list_all (keeps Q) fs" "Q d" "\<And>x r. Q x \<Longrightarrow> P r \<Longrightarrow> P (upd (\<lambda>_. x) r)"
  shows "keeps P (optional_section k fs d upd)"
proof -
  have "Q x" if "as_section fs d k' v = Inr x" for k' v x
    using that section_keeps[OF assms(1,2)] by (auto simp: as_section_def split: toml.splits)
  then show ?thesis unfolding optional_section_def using assms(2,3) by (intro keeps_field) auto
qed

lemma keeps_plain_section: "(\<And>x r. P r \<Longrightarrow> P (upd (\<lambda>_. x) r)) \<Longrightarrow> keeps P (optional_section k fs d upd)"
  unfolding optional_section_def by (rule keeps_other)

lemmas sections_typed = rate_limit_keeps(2) pricer_keeps(2) donation_keeps(2) limits_keeps(2) proof_keeps(2) electrum_keeps(2)
  claim_keeps(2) reconciler_keeps(2) bitcoin_watcher_keeps(2) invoice_accounting_keeps(2)

lemma config_keeps: "list_all (keeps config_typed) config_fields"
  unfolding config_fields_def list.pred_inject
  by (intro conjI TrueI keeps_number(1) keeps_section[OF rate_limit_keeps] keeps_section[OF pricer_keeps]
      keeps_section[OF donation_keeps] keeps_section[OF limits_keeps] keeps_section[OF proof_keeps]
      keeps_section[OF electrum_keeps] keeps_section[OF claim_keeps] keeps_section[OF reconciler_keeps]
      keeps_section[OF bitcoin_watcher_keeps] keeps_section[OF invoice_accounting_keeps] keeps_plain_section keeps_other)
    (simp_all add: config_typed_def default_pool_size_def DEFAULT_POOL_SIZE_def u32_max_def)

subsection \<open>A small configuration\<close>

definition demo_table :: table where
  "demo_table = [(''domain'', Toml_string ''pay.example''), (''listen'', Toml_string ''127.0.0.1:8080''),
     (''boltz'', Toml_table [(''api_url'', Toml_string ''https://b''), (''electrum_url'', Toml_string ''e:1'')]),
     (''limits'', Toml_table [(''min_sendable_msat'', Toml_int 1000)])]"

definition demo_load_inputs :: load_inputs where
  "demo_load_inputs = \<lparr>li_read_file = (\<lambda>_. Inr ''toml''), li_parse_toml = (\<lambda>_. Inr demo_table),
     li_env = map_of [(''DATABASE_URL'', ''postgres''), (''SWAP_MNEMONIC'', ''words''), (''BOLTZ_WEBHOOK_URL_SECRET'', ''s''),
       (''BULLNYM_RUNTIME_MODE'', ''production'')],
     li_parse_addr = (\<lambda>_. Inr (V4 127 0 0 1))\<rparr>"

definition demo_config :: config where
  "demo_config = blank_config\<lparr>co_domain := ''pay.example'', co_listen := ''127.0.0.1:8080'', co_pool_size := 10,
     co_boltz := \<lparr>bltz_api_url = ''https://b'', bltz_electrum_url = ''e:1''\<rparr>,
     co_limits := default_limits_config\<lparr>lim_min_sendable_msat := 1000\<rparr>,
     co_database_url := ''postgres'', co_swap_mnemonic := ''words'', co_boltz_webhook_url_secret := ''s''\<rparr>"

lemma demo_toml: "config_of_toml demo_table = Inr (demo_config\<lparr>co_database_url := [], co_swap_mnemonic := [], co_boltz_webhook_url_secret := []\<rparr>)"
  by (simp add: config_of_toml_def config_fields_def demo_table_def optional_section_def field_def as_section_def
    as_text_def limits_config_fields_def boltz_config_fields_def read_u64_def read_i64_def as_range_def u64_max_def default_pool_size_def
    DEFAULT_POOL_SIZE_def demo_config_def blank_config_def default_limits_config_def default_values as_text_option_def)

lemma demo_load: "config_load demo_load_inputs ''config.toml'' = Inr demo_config"
proof -
  have "with_environment (li_env demo_load_inputs) (demo_config\<lparr>co_database_url := [], co_swap_mnemonic := [], co_boltz_webhook_url_secret := []\<rparr>)
      = Inr demo_config"
    by (simp add: with_environment_def demo_load_inputs_def demo_config_def blank_config_def or_empty_def)
  moreover have "validate_common demo_config = Inr ()"
    by (simp add: validate_common_def Let_def demand_def demo_config_def blank_config_def default_limits_config_def
      default_proof_config_def default_donation_config_def default_certification_config_def default_values)
  moreover have "validate_production (li_parse_addr demo_load_inputs) b demo_config = Inr ()" for b
    by (simp add: validate_production_def demand_def demo_config_def blank_config_def listen_addr_is_non_loopback_def
      demo_load_inputs_def starts_with_def)
  moreover have "li_read_file demo_load_inputs f = Inr ''toml''" "li_parse_toml demo_load_inputs x = Inr demo_table" for f x
    by (simp_all add: demo_load_inputs_def)
  ultimately show ?thesis by (simp add: config_load_def demo_toml validate_for_runtime_def)
qed

text \<open>A load that succeeds.\<close>
lemma loaded:
  assumes "config_load li file = Inr c"
  shows "\<exists>t c0. config_of_toml t = Inr c0 \<and> with_environment (li_env li) c0 = Inr c
    \<and> validate_for_runtime (li_parse_addr li) (runtime_mode (li_env li)) (allow_public_listen (li_env li)) c = Inr ()"
  using assms unfolding config_load_def by (auto simp: map_sum_Inr_iff split: sum.splits)

text \<open>Every number of a loaded configuration fits its machine type, whatever the file holds: what does not
  fit is an error of the load, and the defaults fit.\<close>
theorem loaded_config_is_typed:
  assumes "config_load li file = Inr c"
  shows "config_typed c"
proof -
  obtain t c0 where c: "config_of_toml t = Inr c0" "with_environment (li_env li) c0 = Inr c" using loaded[OF assms] by blast
  have "config_typed blank_config" by (simp add: blank_config_def config_typed_def sections_typed)
  then have "config_typed c0" using section_keeps[OF config_keeps] c(1) by (simp add: config_of_toml_def)
  then show ?thesis using c(2) by (auto simp: with_environment_def config_typed_def split: option.splits)
qed

theorem loaded_config_is_typed_witness: "config_typed demo_config"
  by (rule loaded_config_is_typed[OF demo_load])

subsection \<open>Validation\<close>

lemma demands_met: "demands ds = Inr () \<longleftrightarrow> (\<forall>(b, msg)\<in>set ds. b)"
  by (induction ds) (auto simp: demand_def split: sum.splits if_splits)

declare demands.simps [simp del]

text \<open>What the validation leaves of a configuration, one fact at a time.\<close>
lemma loaded_config_checked:
  assumes "config_load li file = Inr c"
  shows "0 < lim_min_sendable_msat (co_limits c)" "lim_min_sendable_msat (co_limits c) \<le> lim_max_sendable_msat (co_limits c)"
    "prf_message_tag (co_proof c) \<noteq> []" "0 < don_image_max_dimension (co_donation c)" "0 < don_image_max_pixels (co_donation c)"
    "cert_enabled (co_certification c) \<Longrightarrow> cert_token (co_certification c) \<noteq> []
         \<and> cert_source_allowlist (co_certification c) \<noteq> [] \<and> cert_scopes (co_certification c) \<noteq> []"
    "li_env li ''DATABASE_URL'' = Some (co_database_url c)" "li_env li ''SWAP_MNEMONIC'' = Some (co_swap_mnemonic c)"
    "li_env li ''BULLNYM_RUNTIME_MODE'' = Some ''production'' \<Longrightarrow> co_boltz_webhook_url_secret c \<noteq> [] \<and> co_domain c \<noteq> ''localhost''
         \<and> (allow_public_listen (li_env li) \<or> (\<exists>ip. li_parse_addr li (co_listen c) = Inr ip \<and> is_loopback ip))"
proof -
  obtain c0 where c: "with_environment (li_env li) c0 = Inr c"
    "validate_for_runtime (li_parse_addr li) (runtime_mode (li_env li)) (allow_public_listen (li_env li)) c = Inr ()"
    using loaded[OF assms] by blast
  have "validate_common c = Inr ()" using c(2) by (auto simp: validate_for_runtime_def split: sum.splits)
  then show "0 < lim_min_sendable_msat (co_limits c)" "lim_min_sendable_msat (co_limits c) \<le> lim_max_sendable_msat (co_limits c)"
    "prf_message_tag (co_proof c) \<noteq> []" "0 < don_image_max_dimension (co_donation c)" "0 < don_image_max_pixels (co_donation c)"
    "cert_enabled (co_certification c) \<Longrightarrow> cert_token (co_certification c) \<noteq> []
         \<and> cert_source_allowlist (co_certification c) \<noteq> [] \<and> cert_scopes (co_certification c) \<noteq> []"
    by (auto simp: validate_common_def Let_def demands_met split: if_splits)
  show "li_env li ''DATABASE_URL'' = Some (co_database_url c)" "li_env li ''SWAP_MNEMONIC'' = Some (co_swap_mnemonic c)"
    using c(1) by (auto simp: with_environment_def split: option.splits)
  assume "li_env li ''BULLNYM_RUNTIME_MODE'' = Some ''production''"
  then have "validate_production (li_parse_addr li) (allow_public_listen (li_env li)) c = Inr ()"
    using c(2) by (auto simp: validate_for_runtime_def runtime_mode_def split: sum.splits)
  then show "co_boltz_webhook_url_secret c \<noteq> [] \<and> co_domain c \<noteq> ''localhost''
      \<and> (allow_public_listen (li_env li) \<or> (\<exists>ip. li_parse_addr li (co_listen c) = Inr ip \<and> is_loopback ip))"
    by (auto simp: validate_production_def demands_met demand_def listen_addr_is_non_loopback_def split: sum.splits if_splits)
qed



subsection \<open>Sections left out\<close>

lemma same_fields: "list_all (\<lambda>f. f t' = f t) fs \<Longrightarrow> read_section fs t' r = read_section fs t r"
  by (induction fs arbitrary: r) (simp_all split: sum.split)

lemma other_key: "key \<noteq> k \<Longrightarrow> field key rd dv upd ((k, v) # t) = field key rd dv upd t"
  "key \<noteq> k \<Longrightarrow> optional_section key fs d upds ((k, v) # t) = optional_section key fs d upds t"
  by (simp_all add: field_def optional_section_def)

lemma section_left_out: "map_of t k = None \<Longrightarrow> read_section fs [] d = Inr d \<Longrightarrow>
    optional_section key fs d upd ((k, Toml_table []) # t) = optional_section key fs d upd t"
  by (auto simp: optional_section_def field_def as_section_def)

lemma features_config_empty: "read_section features_config_fields [] default_features_config = Inr default_features_config"
  by (simp add: features_config_fields_def field_def default_features_config_def default_values)

lemma workers_config_empty: "read_section workers_config_fields [] default_workers_config = Inr default_workers_config"
  by (simp add: workers_config_fields_def field_def default_workers_config_def default_values)

lemma invoice_accounting_config_empty: "read_section invoice_accounting_config_fields [] default_invoice_accounting_config = Inr default_invoice_accounting_config"
  by (simp add: invoice_accounting_config_fields_def field_def default_invoice_accounting_config_def default_values)

lemma claim_config_empty: "read_section claim_config_fields [] default_claim_config = Inr default_claim_config"
  by (simp add: claim_config_fields_def field_def default_claim_config_def default_values)

lemma reconciler_config_empty: "read_section reconciler_config_fields [] default_reconciler_config = Inr default_reconciler_config"
  by (simp add: reconciler_config_fields_def field_def default_reconciler_config_def default_values)

lemma pricer_section_empty: "read_section pricer_section_fields [] default_pricer_section = Inr default_pricer_section"
  by (simp add: pricer_section_fields_def field_def default_pricer_section_def default_values)

lemma pwa_config_empty: "read_section pwa_config_fields [] default_pwa_config = Inr default_pwa_config"
  by (simp add: pwa_config_fields_def field_def default_pwa_config_def default_values)

lemma donation_config_empty: "read_section donation_config_fields [] default_donation_config = Inr default_donation_config"
  by (simp add: donation_config_fields_def field_def default_donation_config_def default_values)

lemma limits_config_empty: "read_section limits_config_fields [] default_limits_config = Inr default_limits_config"
  by (simp add: limits_config_fields_def field_def default_limits_config_def default_values)

lemma proof_config_empty: "read_section proof_config_fields [] default_proof_config = Inr default_proof_config"
  by (simp add: proof_config_fields_def field_def default_proof_config_def default_values)

lemma bitcoin_watcher_section_empty: "read_section bitcoin_watcher_section_fields [] default_bitcoin_watcher_section = Inr default_bitcoin_watcher_section"
  by (simp add: bitcoin_watcher_section_fields_def field_def default_bitcoin_watcher_section_def default_values)

lemma rate_limit_config_empty: "read_section rate_limit_config_fields [] default_rate_limit_config = Inr default_rate_limit_config"
  by (simp add: rate_limit_config_fields_def rate_limit_gate_fields_def rate_limit_page_fields_def field_alias_def field_def default_rate_limit_config_def default_values)

lemma certification_config_empty: "read_section certification_config_fields [] default_certification_config = Inr default_certification_config"
  by (simp add: certification_config_fields_def field_def default_certification_config_def default_values)

lemmas empty_sections =
  features_config_empty workers_config_empty invoice_accounting_config_empty claim_config_empty reconciler_config_empty
  pricer_section_empty pwa_config_empty donation_config_empty limits_config_empty proof_config_empty
  bitcoin_watcher_section_empty rate_limit_config_empty certification_config_empty

text \<open>What the service makes of a configuration: the Electrum servers as one list.\<close>
definition one_list :: "electrum_config \<Rightarrow> electrum_config" where
  "one_list e = e\<lparr>elec_liquid_url := None, elec_liquid_urls := electrum_urls e\<rparr>"

definition effective :: "config \<Rightarrow> config" where
  "effective c = c\<lparr>co_electrum := one_list (co_electrum c)\<rparr>"

definition optional_sections :: "string list" where
  "optional_sections = [''pricer'', ''pwa'', ''donation'', ''limits'', ''proof'', ''features'', ''rate_limit'', ''certification'',
     ''electrum'', ''claim'', ''reconciler'', ''bitcoin_watcher'', ''workers'', ''invoice_accounting'']"

lemma plain_section_left_out:
  assumes "k \<in> set optional_sections" "k \<noteq> ''electrum''" "map_of t k = None"
  shows "config_of_toml ((k, Toml_table []) # t) = config_of_toml t"
proof -
  have "''domain'' \<noteq> k" "''listen'' \<noteq> k" "''pool_size'' \<noteq> k" "''boltz'' \<noteq> k" "''electrum'' \<noteq> k"
    using assms(1,2) by (auto simp: optional_sections_def)
  then show ?thesis
    unfolding config_of_toml_def config_fields_def
    by (intro same_fields) (simp add: other_key section_left_out[OF assms(3)] empty_sections)
qed

text \<open>Two configurations that differ in how they name the same servers.\<close>
definition alike :: "config \<Rightarrow> config \<Rightarrow> bool" where
  "alike r r' \<longleftrightarrow> (\<exists>e. r' = r\<lparr>co_electrum := e\<rparr> \<and> one_list e = one_list (co_electrum r))"

lemma alike_effective: "alike r r' \<Longrightarrow> effective r = effective r'"
  by (auto simp: alike_def effective_def)

definition alike_field :: "table \<Rightarrow> table \<Rightarrow> config field \<Rightarrow> bool" where
  "alike_field t t' f \<longleftrightarrow> rel_sum (=) (\<lambda>u u'. \<forall>r r'. alike r r' \<longrightarrow> alike (u r) (u' r')) (f t) (f t')"

lemma alike_refl: "alike r r"
  unfolding alike_def by (rule exI[of _ "co_electrum r"]) simp

lemma alike_sections:
  "list_all (alike_field t t') fs \<Longrightarrow> alike r r' \<Longrightarrow> rel_sum (=) alike (read_section fs t r) (read_section fs t' r')"
proof (induction fs arbitrary: r r')
  case (Cons f fs)
  then have "rel_sum (=) (\<lambda>u u'. \<forall>r r'. alike r r' \<longrightarrow> alike (u r) (u' r')) (f t) (f t')" by (simp add: alike_field_def)
  then show ?case using Cons by cases simp_all
qed simp

lemma alike_same:
  assumes "key \<noteq> k" "\<And>x r e. upd (\<lambda>_. x) (r\<lparr>co_electrum := e\<rparr>) = (upd (\<lambda>_. x) r)\<lparr>co_electrum := e\<rparr>"
    "\<And>x r. co_electrum (upd (\<lambda>_. x) r) = co_electrum r"
  shows "alike_field t ((k, v) # t) (field key rd dv upd)"
proof -
  have step: "alike (upd (\<lambda>_. x) r) (upd (\<lambda>_. x) r')" if "alike r r'" for x r r'
    using that assms(2,3) by (auto simp: alike_def)
  have "\<exists>x. u = upd (\<lambda>_. x)" if "field key rd dv upd t = Inr u" for u
    using that by (auto simp: field_def map_sum_Inr_iff split: option.splits)
  then have "rel_sum (=) (\<lambda>u u'. \<forall>r r'. alike r r' \<longrightarrow> alike (u r) (u' r')) (field key rd dv upd t) (field key rd dv upd t)"
    using step by (cases "field key rd dv upd t") fastforce+
  then show ?thesis using assms(1) by (simp add: alike_field_def other_key)
qed

lemma electrum_left_out:
  assumes "map_of t ''electrum'' = None"
  shows "rel_sum (=) alike (config_of_toml t) (config_of_toml ((''electrum'', Toml_table []) # t))"
  unfolding config_of_toml_def
proof (rule alike_sections)
  let ?e = "default_electrum_config\<lparr>elec_liquid_urls := []\<rparr>"
  have empty: "read_section electrum_config_fields [] default_electrum_config = Inr ?e"
    by (simp add: electrum_config_fields_def field_def default_electrum_config_def default_values)
  have "one_list ?e = one_list default_electrum_config"
    by (simp add: one_list_def electrum_urls_def default_electrum_config_def default_values normalize_electrum_url_def starts_with_def)
  then have "alike (r\<lparr>co_electrum := default_electrum_config\<rparr>) (r'\<lparr>co_electrum := ?e\<rparr>)" if "alike r r'" for r r'
    using that by (auto simp: alike_def)
  then have "alike_field t ((''electrum'', Toml_table []) # t)
      (optional_section ''electrum'' electrum_config_fields default_electrum_config co_electrum_update)"
    using assms empty by (simp add: alike_field_def optional_section_def field_def as_section_def)
  then show "list_all (alike_field t ((''electrum'', Toml_table []) # t)) config_fields"
    unfolding config_fields_def by (simp add: alike_same optional_section_def)
qed (rule alike_refl)

text \<open>C35: An empty section is the same as no section at all, whichever section it is: the struct-level
  defaults of the sections and the field-level ones agree, up to how the default Electrum server is
  named, which is the same list of servers.\<close>
theorem empty_section_is_absent_section:
  assumes "k \<in> set optional_sections" "map_of t k = None"
  shows "map_sum id effective (config_of_toml ((k, Toml_table []) # t)) = map_sum id effective (config_of_toml t)"
proof (cases "k = ''electrum''")
  case True
  then have "rel_sum (=) alike (config_of_toml t) (config_of_toml ((k, Toml_table []) # t))"
    using electrum_left_out assms(2) by simp
  then show ?thesis by cases (simp_all add: alike_effective)
qed (simp add: plain_section_left_out assms)

theorem empty_section_is_absent_section_witness:
  "map_sum id effective (config_of_toml ((''electrum'', Toml_table []) # demo_table)) = map_sum id effective (config_of_toml demo_table)"
  by (rule empty_section_is_absent_section) (simp_all add: optional_sections_def demo_table_def)

end
