(* ===== verification/Routes.thy ===== *)
theory Routes
  imports Config
begin

text \<open>
  The routes of the service (src/src/main.rs: \<open>build_router\<close>), with the handler each one names, and what the
  router makes of a method and a path.  The router is axum's: its documented behaviour is written out here.  A
  segment that a pattern spells out goes before a parameter, and a path with no match under the first is
  tried under the second; a path that matches with another method is refused and never falls back.
\<close>

subsection \<open>Patterns\<close>

datatype segment = Lit string | Param | Rest

definition segment_of :: "string \<Rightarrow> segment" where
  "segment_of s = (case s of [] \<Rightarrow> Lit [] | ch # _ \<Rightarrow> if ch = CHR '':'' then Param else if ch = CHR ''*'' then Rest else Lit s)"

definition pattern :: "string \<Rightarrow> segment list" where
  "pattern s = map segment_of (split_on CHR ''/'' s)"

text \<open>The rules left after a segment of the path, and those that end here.\<close>
fun after_lit :: "string \<Rightarrow> (segment list \<times> 'a) list \<Rightarrow> (segment list \<times> 'a) list" where
  "after_lit s [] = []"
| "after_lit s ((p, x) # rs) = (case p of
     Lit t # q \<Rightarrow> if s = t then (q, x) # after_lit s rs else after_lit s rs
   | _ \<Rightarrow> after_lit s rs)"

fun after_param :: "(segment list \<times> 'a) list \<Rightarrow> (segment list \<times> 'a) list" where
  "after_param [] = []"
| "after_param ((p, x) # rs) = (case p of Param # q \<Rightarrow> (q, x) # after_param rs | _ \<Rightarrow> after_param rs)"

definition ending :: "segment list \<Rightarrow> (segment list \<times> 'a) list \<Rightarrow> 'a list" where
  "ending tail rs = map snd (filter (\<lambda>(p, _). p = tail) rs)"

definition some_rules :: "'a list \<Rightarrow> string list \<Rightarrow> ('a list \<times> string list) option" where
  "some_rules xs ps = (if xs = [] then None else Some (xs, ps))"

text \<open>The rules of the matching pattern, one for each method, with the parameters of the path.\<close>
fun match_path :: "(segment list \<times> 'a) list \<Rightarrow> string list \<Rightarrow> ('a list \<times> string list) option" where
  "match_path rs [] = some_rules (ending [] rs) []"
| "match_path rs (s # ss) = (case match_path (after_lit s rs) ss of
     Some found \<Rightarrow> Some found
   | None \<Rightarrow> (case if s = [] \<or> after_param rs = [] then None else match_path (after_param rs) ss of
       Some (xs, ps) \<Rightarrow> Some (xs, s # ps)
     | None \<Rightarrow> if s # ss = [[]] then None else some_rules (ending [Rest] rs) []))"

subsection \<open>Endpoints\<close>

text \<open>The handlers, by the module that declares them.\<close>
datatype endpoint =
    Pricer_supported_currencies | Pricer_rate | Pwa_assets | Invoice_robots_txt | Render_service_worker | Qr_generate
  | Claimer_webhook_with_secret | Claimer_webhook_unauthenticated | Health | Readiness_ready | Version_version
  | Certification_preflight
  | Lnurl_metadata | Nostr_json | Lnurl_callback | Registration_register | Registration_update | Registration_delete
  | Registration_lookup | Registration_reservations
  | Page_save | Page_archive | Page_get | Render_manifest | Render_pos | Render_pos_manifest | Invoice_create_anonymous
  | Pos_create_pairing | Pos_poll_pairing | Pos_create_invoice | Pos_list_invoices | Pos_cancel_invoice | Pos_claim_pairing
  | Pos_list_terminals | Pos_revoke_terminal | Invoice_render_payment | Page_upload_image
  | Invoice_status | Invoice_lightning_offer | Invoice_liquid_offer
  | Invoice_create_linked | Invoice_create_unlinked | Invoice_cancel_linked | Invoice_cancel_unlinked | Invoice_list_signed
  | Invoice_render_unlinked
  | Render_page | Not_found

datatype http_method = GET | HEAD | POST | PUT | DELETE | OPTIONS | Other_method

text \<open>A route: the method it was registered for (none for a nested service), its handler, the
  \<open>DefaultBodyLimit\<close> on it and the \<open>RequestBodyLimitLayer\<close>s around it.\<close>
record route =
  rt_method :: "http_method option"
  rt_endpoint :: endpoint
  rt_default_limit :: "nat option"
  rt_layer_limits :: "nat list"

type_synonym rule = "segment list \<times> route"

definition on :: "string \<Rightarrow> http_method \<Rightarrow> endpoint \<Rightarrow> rule" where
  "on path m e = (pattern path, \<lparr>rt_method = Some m, rt_endpoint = e, rt_default_limit = None, rt_layer_limits = []\<rparr>)"

definition with_default_limit :: "nat \<Rightarrow> rule \<Rightarrow> rule" where
  "with_default_limit n = apsnd (\<lambda>r. r\<lparr>rt_default_limit := Some n\<rparr>)"

text \<open>A layer on a router wraps every route it has so far.\<close>
definition limit_layer :: "nat \<Rightarrow> rule list \<Rightarrow> rule list" where
  "limit_layer n = map (apsnd (\<lambda>r. r\<lparr>rt_layer_limits := n # rt_layer_limits r\<rparr>))"

text \<open>\<open>nest_service\<close>: the prefix, the prefix with a slash, and everything below.\<close>
definition nest_service :: "string \<Rightarrow> endpoint \<Rightarrow> rule list" where
  "nest_service prefix e = map (\<lambda>p. (pattern p, \<lparr>rt_method = None, rt_endpoint = e, rt_default_limit = None, rt_layer_limits = []\<rparr>))
     [prefix @ ''/*rest'', prefix, prefix @ ''/'']"

subsection \<open>The table\<close>

definition common_routes :: "rule list" where
  "common_routes =
    [on ''/api/v1/supported-currencies'' GET Pricer_supported_currencies,
     on ''/api/v1/rate'' GET Pricer_rate]
    @ nest_service ''/pwa-assets'' Pwa_assets
    @ [on ''/robots.txt'' GET Invoice_robots_txt,
     on ''/sw.js'' GET Render_service_worker,
     on ''/qr.svg'' GET Qr_generate,
     on ''/webhook/boltz/:secret'' POST Claimer_webhook_with_secret,
     on ''/webhook/boltz'' POST Claimer_webhook_unauthenticated,
     on ''/health'' GET Health,
     on ''/ready'' GET Readiness_ready,
     on ''/version'' GET Version_version,
     on ''/certification/preflight'' GET Certification_preflight]"

definition lightning_address_routes :: "rule list" where
  "lightning_address_routes =
    [on ''/.well-known/lnurlp/:nym'' GET Lnurl_metadata,
     on ''/.well-known/nostr.json'' GET Nostr_json,
     on ''/lnurlp/callback/:nym'' GET Lnurl_callback,
     on ''/register'' POST Registration_register,
     on ''/register'' PUT Registration_update,
     on ''/register'' DELETE Registration_delete,
     on ''/register/lookup'' GET Registration_lookup,
     on ''/api/reservations/:nym'' GET Registration_reservations]"

definition image_upload_router :: "rule list" where
  "image_upload_router = limit_layer (2 * 1024 * 1024) [on ''/donation-page/image'' POST Page_upload_image]"

definition payment_page_routes :: "rule list" where
  "payment_page_routes =
    [with_default_limit (8 * 1024) (on ''/donation-page'' PUT Page_save),
     with_default_limit 1024 (on ''/donation-page'' DELETE Page_archive),
     on ''/donation-page/:nym'' GET Page_get,
     on ''/:nym/manifest.webmanifest'' GET Render_manifest,
     on ''/:nym/pos'' GET Render_pos,
     on ''/:nym/pos/manifest.webmanifest'' GET Render_pos_manifest,
     with_default_limit 1024 (on ''/:nym/invoice'' POST Invoice_create_anonymous),
     with_default_limit 512 (on ''/:nym/pos/pairings'' POST Pos_create_pairing),
     on ''/:nym/pos/pairings/:id'' GET Pos_poll_pairing,
     with_default_limit 2048 (on ''/:nym/pos/invoice'' POST Pos_create_invoice),
     on ''/:nym/pos/invoices'' GET Pos_list_invoices,
     with_default_limit 1024 (on ''/:nym/pos/invoices/:id/cancel'' POST Pos_cancel_invoice),
     with_default_limit 1024 (on ''/api/v1/pos/pairings/claim'' POST Pos_claim_pairing),
     on ''/api/v1/pos/terminals'' GET Pos_list_terminals,
     with_default_limit 1024 (on ''/api/v1/pos/terminals/:id/revoke'' POST Pos_revoke_terminal),
     on ''/:nym/i/:id'' GET Invoice_render_payment] @ image_upload_router"

definition invoice_session_routes :: "rule list" where
  "invoice_session_routes =
    [on ''/api/v1/invoices/:id/status'' GET Invoice_status,
     on ''/api/v1/invoices/:id/lightning'' POST Invoice_lightning_offer,
     on ''/api/v1/invoices/:id/liquid'' POST Invoice_liquid_offer]"

definition invoice_routes :: "rule list" where
  "invoice_routes =
    [with_default_limit (8 * 1024) (on ''/api/v1/:nym/invoices'' POST Invoice_create_linked),
     with_default_limit (8 * 1024) (on ''/api/v1/invoices'' POST Invoice_create_unlinked),
     with_default_limit 1024 (on ''/api/v1/:nym/invoices/:id'' DELETE Invoice_cancel_linked),
     with_default_limit 1024 (on ''/api/v1/invoices/:id'' DELETE Invoice_cancel_unlinked),
     on ''/api/v1/invoices'' GET Invoice_list_signed,
     on ''/invoice/:id'' GET Invoice_render_unlinked]"

text \<open>The fallback is wrapped by the outer layer as the routes are.\<close>
definition build_router :: "features_config \<Rightarrow> rule list" where
  "build_router f = limit_layer (64 * 1024)
    (common_routes
     @ (if feat_lightning_address f then lightning_address_routes else [])
     @ (if feat_payment_pages f then payment_page_routes else [])
     @ (if feat_invoices f \<or> feat_payment_pages f then invoice_session_routes else [])
     @ (if feat_invoices f then invoice_routes else []))"

definition fallback :: "features_config \<Rightarrow> endpoint" where
  "fallback f = (if feat_payment_pages f then Render_page else Not_found)"

subsection \<open>Requests\<close>

text \<open>A hexadecimal digit, in either case.\<close>
definition nibble :: "char \<Rightarrow> nat option" where
  "nibble c = (let n = (of_char c :: nat) in
     if 48 \<le> n \<and> n \<le> 57 then Some (n - 48) else if 65 \<le> n \<and> n \<le> 70 then Some (n - 55)
     else if 97 \<le> n \<and> n \<le> 102 then Some (n - 87) else None)"

text \<open>A percent sign that no two digits follow stands for itself.\<close>
fun percent_decode :: "string \<Rightarrow> string" where
  "percent_decode (a # b # c # s) =
    (if a = CHR ''%'' then (case (nibble b, nibble c) of
         (Some m, Some n) \<Rightarrow> char_of (16 * m + n) # percent_decode s
       | _ \<Rightarrow> a # percent_decode (b # c # s))
     else a # percent_decode (b # c # s))"
| "percent_decode s = s"

text \<open>The router decodes the parameters of a path after it has matched the raw segments; what is not UTF-8 then is
  refused with 400 by the \<open>Path\<close> extractor, which every handler with a parameter has.\<close>
definition path_param :: "string \<Rightarrow> string option" where
  "path_param s = (let d = percent_decode s in if utf8_valid d then Some d else None)"

datatype dispatched = Run endpoint "string list" | Method_not_allowed | Bad_path | Preflight

text \<open>A route for GET answers HEAD as well.\<close>
definition serves :: "http_method \<Rightarrow> route \<Rightarrow> bool" where
  "serves m r \<longleftrightarrow> (case rt_method r of None \<Rightarrow> True | Some k \<Rightarrow> k = m \<or> (k = GET \<and> m = HEAD))"

text \<open>The CORS layer is outside the router and answers OPTIONS itself.\<close>
definition dispatch :: "features_config \<Rightarrow> http_method \<Rightarrow> string \<Rightarrow> dispatched" where
  "dispatch f m path =
    (if m = OPTIONS then Preflight
     else (case match_path (build_router f) (split_on CHR ''/'' path) of
       None \<Rightarrow> Run (fallback f) []
     | Some (rs, ps) \<Rightarrow> (case find (serves m) rs of
           None \<Rightarrow> Method_not_allowed
         | Some r \<Rightarrow> (case those (map path_param ps) of None \<Rightarrow> Bad_path | Some qs \<Rightarrow> Run (rt_endpoint r) qs))))"

text \<open>What axum lets an extractor read when a route has no limit of its own.\<close>
definition axum_default_limit :: nat where
  "axum_default_limit = 2097152"

text \<open>The longest body a handler can read through all of the limits.\<close>
definition body_limit :: "route \<Rightarrow> nat" where
  "body_limit r = foldr min (rt_layer_limits r) (case rt_default_limit r of Some n \<Rightarrow> n | None \<Rightarrow> axum_default_limit)"

subsection \<open>The assets of the web application\<close>

text \<open>\<open>raw_path\<close> is the path below the nest and \<open>inner\<close> the answer of the file service.\<close>
definition pwa_assets_headers :: "string \<Rightarrow> http_answer \<Rightarrow> http_answer" where
  "pwa_assets_headers raw_path inner =
    (let path = (if starts_with ''/pwa-assets'' raw_path then drop (length ''/pwa-assets'') raw_path else raw_path) in
     if starts_with ''/apps/'' path then status_answer 404
     else if \<not> (200 \<le> an_status inner \<and> an_status inner < 300) then inner
     else set_header ''cache-control'' (if starts_with ''/assets/'' path then ''public, max-age=31536000, immutable''
       else ''public, max-age=3600'') inner)"

text \<open>\<open>append\<close> adds a value to those the answer has.\<close>
definition append_header :: "string \<Rightarrow> string \<Rightarrow> http_answer \<Rightarrow> http_answer" where
  "append_header name v a = set_header name (case an_headers a name of None \<Rightarrow> v | Some old \<Rightarrow> old @ '', '' @ v) a"

definition pwa_assets_vary_accept_encoding :: "string \<Rightarrow> http_answer \<Rightarrow> http_answer" where
  "pwa_assets_vary_accept_encoding path resp =
    (if 200 \<le> an_status resp \<and> an_status resp < 300 \<and> starts_with ''/pwa-assets/'' path
     then append_header ''vary'' ''Accept-Encoding'' resp else resp)"

definition health :: http_answer where
  "health = text_answer 200 ''ok''"

definition not_found :: http_answer where
  "not_found = status_answer 404"

end
