(* ===== verification/RouteProperties.thy ===== *)
theory RouteProperties
  imports Routes
begin

text \<open>
  What the table of routes gives: the pages and the API of a nym that can be registered are reached
  under its name, every body is capped, and a feature that is off has no way in.
\<close>

subsection \<open>The table, written out\<close>

definition rt :: "http_method option \<Rightarrow> endpoint \<Rightarrow> nat option \<Rightarrow> nat list \<Rightarrow> route" where
  "rt m e d ls = \<lparr>rt_method = m, rt_endpoint = e, rt_default_limit = d, rt_layer_limits = ls\<rparr>"

lemma rt_sel [simp]: "rt_method (rt m e d ls) = m" "rt_endpoint (rt m e d ls) = e"
  "rt_default_limit (rt m e d ls) = d" "rt_layer_limits (rt m e d ls) = ls"
  by (simp_all add: rt_def)

lemmas table_defs = limit_layer_def on_def with_default_limit_def nest_service_def pattern_def segment_of_def
  image_upload_router_def rt_def

lemma limit_layer_append: "limit_layer n (xs @ ys) = limit_layer n xs @ limit_layer n ys" "limit_layer n [] = []"
  by (simp_all add: limit_layer_def)

lemma common_rules: "limit_layer 65536 common_routes = [
    ([Lit [], Lit ''api'', Lit ''v1'', Lit ''supported-currencies''], rt (Some GET) Pricer_supported_currencies None [65536]),
    ([Lit [], Lit ''api'', Lit ''v1'', Lit ''rate''], rt (Some GET) Pricer_rate None [65536]),
    ([Lit [], Lit ''pwa-assets'', Rest], rt None Pwa_assets None [65536]),
    ([Lit [], Lit ''pwa-assets''], rt None Pwa_assets None [65536]),
    ([Lit [], Lit ''pwa-assets'', Lit []], rt None Pwa_assets None [65536]),
    ([Lit [], Lit ''robots.txt''], rt (Some GET) Invoice_robots_txt None [65536]),
    ([Lit [], Lit ''sw.js''], rt (Some GET) Render_service_worker None [65536]),
    ([Lit [], Lit ''qr.svg''], rt (Some GET) Qr_generate None [65536]),
    ([Lit [], Lit ''webhook'', Lit ''boltz'', Param], rt (Some POST) Claimer_webhook_with_secret None [65536]),
    ([Lit [], Lit ''webhook'', Lit ''boltz''], rt (Some POST) Claimer_webhook_unauthenticated None [65536]),
    ([Lit [], Lit ''health''], rt (Some GET) Health None [65536]),
    ([Lit [], Lit ''ready''], rt (Some GET) Readiness_ready None [65536]),
    ([Lit [], Lit ''version''], rt (Some GET) Version_version None [65536]),
    ([Lit [], Lit ''certification'', Lit ''preflight''], rt (Some GET) Certification_preflight None [65536])]"
  by (simp add: common_routes_def table_defs)

lemma lightning_address_rules: "limit_layer 65536 lightning_address_routes = [
    ([Lit [], Lit ''.well-known'', Lit ''lnurlp'', Param], rt (Some GET) Lnurl_metadata None [65536]),
    ([Lit [], Lit ''.well-known'', Lit ''nostr.json''], rt (Some GET) Nostr_json None [65536]),
    ([Lit [], Lit ''lnurlp'', Lit ''callback'', Param], rt (Some GET) Lnurl_callback None [65536]),
    ([Lit [], Lit ''register''], rt (Some POST) Registration_register None [65536]),
    ([Lit [], Lit ''register''], rt (Some PUT) Registration_update None [65536]),
    ([Lit [], Lit ''register''], rt (Some DELETE) Registration_delete None [65536]),
    ([Lit [], Lit ''register'', Lit ''lookup''], rt (Some GET) Registration_lookup None [65536]),
    ([Lit [], Lit ''api'', Lit ''reservations'', Param], rt (Some GET) Registration_reservations None [65536])]"
  by (simp add: lightning_address_routes_def table_defs)

lemma payment_page_rules: "limit_layer 65536 payment_page_routes = [
    ([Lit [], Lit ''donation-page''], rt (Some PUT) Page_save (Some 8192) [65536]),
    ([Lit [], Lit ''donation-page''], rt (Some DELETE) Page_archive (Some 1024) [65536]),
    ([Lit [], Lit ''donation-page'', Param], rt (Some GET) Page_get None [65536]),
    ([Lit [], Param, Lit ''manifest.webmanifest''], rt (Some GET) Render_manifest None [65536]),
    ([Lit [], Param, Lit ''pos''], rt (Some GET) Render_pos None [65536]),
    ([Lit [], Param, Lit ''pos'', Lit ''manifest.webmanifest''], rt (Some GET) Render_pos_manifest None [65536]),
    ([Lit [], Param, Lit ''invoice''], rt (Some POST) Invoice_create_anonymous (Some 1024) [65536]),
    ([Lit [], Param, Lit ''pos'', Lit ''pairings''], rt (Some POST) Pos_create_pairing (Some 512) [65536]),
    ([Lit [], Param, Lit ''pos'', Lit ''pairings'', Param], rt (Some GET) Pos_poll_pairing None [65536]),
    ([Lit [], Param, Lit ''pos'', Lit ''invoice''], rt (Some POST) Pos_create_invoice (Some 2048) [65536]),
    ([Lit [], Param, Lit ''pos'', Lit ''invoices''], rt (Some GET) Pos_list_invoices None [65536]),
    ([Lit [], Param, Lit ''pos'', Lit ''invoices'', Param, Lit ''cancel''], rt (Some POST) Pos_cancel_invoice (Some 1024) [65536]),
    ([Lit [], Lit ''api'', Lit ''v1'', Lit ''pos'', Lit ''pairings'', Lit ''claim''], rt (Some POST) Pos_claim_pairing (Some 1024) [65536]),
    ([Lit [], Lit ''api'', Lit ''v1'', Lit ''pos'', Lit ''terminals''], rt (Some GET) Pos_list_terminals None [65536]),
    ([Lit [], Lit ''api'', Lit ''v1'', Lit ''pos'', Lit ''terminals'', Param, Lit ''revoke''], rt (Some POST) Pos_revoke_terminal (Some 1024) [65536]),
    ([Lit [], Param, Lit ''i'', Param], rt (Some GET) Invoice_render_payment None [65536]),
    ([Lit [], Lit ''donation-page'', Lit ''image''], rt (Some POST) Page_upload_image None [65536, 2097152])]"
  by (simp add: payment_page_routes_def table_defs)

lemma invoice_session_rules: "limit_layer 65536 invoice_session_routes = [
    ([Lit [], Lit ''api'', Lit ''v1'', Lit ''invoices'', Param, Lit ''status''], rt (Some GET) Invoice_status None [65536]),
    ([Lit [], Lit ''api'', Lit ''v1'', Lit ''invoices'', Param, Lit ''lightning''], rt (Some POST) Invoice_lightning_offer None [65536]),
    ([Lit [], Lit ''api'', Lit ''v1'', Lit ''invoices'', Param, Lit ''liquid''], rt (Some POST) Invoice_liquid_offer None [65536])]"
  by (simp add: invoice_session_routes_def table_defs)

lemma invoice_rules: "limit_layer 65536 invoice_routes = [
    ([Lit [], Lit ''api'', Lit ''v1'', Param, Lit ''invoices''], rt (Some POST) Invoice_create_linked (Some 8192) [65536]),
    ([Lit [], Lit ''api'', Lit ''v1'', Lit ''invoices''], rt (Some POST) Invoice_create_unlinked (Some 8192) [65536]),
    ([Lit [], Lit ''api'', Lit ''v1'', Param, Lit ''invoices'', Param], rt (Some DELETE) Invoice_cancel_linked (Some 1024) [65536]),
    ([Lit [], Lit ''api'', Lit ''v1'', Lit ''invoices'', Param], rt (Some DELETE) Invoice_cancel_unlinked (Some 1024) [65536]),
    ([Lit [], Lit ''api'', Lit ''v1'', Lit ''invoices''], rt (Some GET) Invoice_list_signed None [65536]),
    ([Lit [], Lit ''invoice'', Param], rt (Some GET) Invoice_render_unlinked None [65536])]"
  by (simp add: invoice_routes_def table_defs)

lemmas table_rules = common_rules lightning_address_rules payment_page_rules invoice_session_rules invoice_rules

lemma build_router_rules: "build_router f = limit_layer 65536 common_routes
    @ (if feat_lightning_address f then limit_layer 65536 lightning_address_routes else [])
    @ (if feat_payment_pages f then limit_layer 65536 payment_page_routes else [])
    @ (if feat_invoices f \<or> feat_payment_pages f then limit_layer 65536 invoice_session_routes else [])
    @ (if feat_invoices f then limit_layer 65536 invoice_routes else [])"
  by (simp add: build_router_def limit_layer_append)

subsection \<open>Names in paths\<close>

lemma nym_chars:
  assumes "nym_regex n"
  shows "CHR ''/'' \<notin> set n" "CHR ''.'' \<notin> set n" "n \<noteq> []"
  using assms by (auto simp: nym_regex_def nym_alnum_def Let_def list_all_iff)

text \<open>A segment without escapes is its own parameter.\<close>
definition plain_char :: "char \<Rightarrow> bool" where
  "plain_char c \<longleftrightarrow> c \<noteq> CHR ''%'' \<and> (of_char c :: nat) < 128"

lemma path_param_plain: "list_all plain_char s \<Longrightarrow> path_param s = Some s"
proof -
  have "list_all plain_char s \<Longrightarrow> percent_decode s = s \<and> utf8_valid s"
    by (induction s rule: percent_decode.induct) (auto simp: plain_char_def split: option.splits)
  then show "list_all plain_char s \<Longrightarrow> path_param s = Some s" by (simp add: path_param_def)
qed

lemma nym_plain: "nym_regex n \<Longrightarrow> path_param n = Some n"
  by (rule path_param_plain) (auto simp: nym_regex_def nym_alnum_def plain_char_def Let_def list_all_iff)

text \<open>A registered nym is none of the segments spelled out where a nym can stand.\<close>
lemma nym_is_no_segment:
  assumes "nym_regex n" "\<not> is_reserved n"
  shows "n \<notin> {''robots.txt'', ''sw.js'', ''qr.svg'', ''.well-known''}"
    "n \<notin> {''api'', ''webhook'', ''health'', ''ready'', ''version'', ''lnurlp'', ''register'', ''donation-page'', ''invoice'', ''invoices''}"
proof -
  show "n \<notin> {''robots.txt'', ''sw.js'', ''qr.svg'', ''.well-known''}" using nym_chars(2)[OF assms(1)] by auto
  show "n \<notin> {''api'', ''webhook'', ''health'', ''ready'', ''version'', ''lnurlp'', ''register'', ''donation-page'', ''invoice'', ''invoices''}"
    using assms(2) by (auto simp: is_reserved_def reserved_nyms_def)
qed

lemma split_step: "CHR ''/'' \<notin> set n \<Longrightarrow> split_on CHR ''/'' (n @ CHR ''/'' # t) = n # split_on CHR ''/'' t"
  by (simp add: split_on_append split_on_free)

text \<open>The addresses under which a nym is served, with the handler each one is meant for; the identifier in an
  address is the parameter that a segment stands for.\<close>
definition nym_urls :: "features_config \<Rightarrow> string \<Rightarrow> string \<Rightarrow> string \<Rightarrow> (http_method \<times> string \<times> endpoint \<times> string list) list" where
  "nym_urls f n seg i =
    (if feat_lightning_address f then
      [(GET, ''/.well-known/lnurlp/'' @ n, Lnurl_metadata, [n]), (GET, ''/lnurlp/callback/'' @ n, Lnurl_callback, [n]),
       (GET, ''/api/reservations/'' @ n, Registration_reservations, [n])] else [])
    @ (if feat_payment_pages f then
      [(GET, ''/'' @ n, Render_page, []), (GET, ''/'' @ n @ ''/manifest.webmanifest'', Render_manifest, [n]),
       (GET, ''/'' @ n @ ''/pos'', Render_pos, [n]), (GET, ''/'' @ n @ ''/pos/manifest.webmanifest'', Render_pos_manifest, [n]),
       (POST, ''/'' @ n @ ''/invoice'', Invoice_create_anonymous, [n]),
       (POST, ''/'' @ n @ ''/pos/pairings'', Pos_create_pairing, [n]),
       (GET, ''/'' @ n @ ''/pos/pairings/'' @ seg, Pos_poll_pairing, [n, i]),
       (POST, ''/'' @ n @ ''/pos/invoice'', Pos_create_invoice, [n]), (GET, ''/'' @ n @ ''/pos/invoices'', Pos_list_invoices, [n]),
       (POST, ''/'' @ n @ ''/pos/invoices/'' @ seg @ ''/cancel'', Pos_cancel_invoice, [n, i]),
       (GET, ''/'' @ n @ ''/i/'' @ seg, Invoice_render_payment, [n, i])] else [])
    @ (if feat_invoices f then
      [(POST, ''/api/v1/'' @ n @ ''/invoices'', Invoice_create_linked, [n]),
       (DELETE, ''/api/v1/'' @ n @ ''/invoices/'' @ seg, Invoice_cancel_linked, [n, i])] else [])"

lemma ending_simps [simp]: "ending tail [] = []"
  "ending tail ((p, x) # rs) = (if p = tail then x # ending tail rs else ending tail rs)"
  by (simp_all add: ending_def)

lemma after_append: "after_lit s (xs @ ys) = after_lit s xs @ after_lit s ys" "after_param (xs @ ys) = after_param xs @ after_param ys"
  "ending tail (xs @ ys) = ending tail xs @ ending tail ys"
  by (induction xs) (auto simp: ending_def split: list.splits segment.splits)

lemma after_if: "after_lit s (if b then xs else []) = (if b then after_lit s xs else [])"
  "after_param (if b then xs else []) = (if b then after_param xs else [])"
  "ending tail (if b then xs else []) = (if b then ending tail xs else [])"
  by (simp_all add: ending_def)

text \<open>Each group below the root, and the segments its patterns start with.\<close>
abbreviation group :: "rule list \<Rightarrow> rule list" where
  "group rs \<equiv> after_lit [] (limit_layer 65536 rs)"

lemma common_top: "group common_routes = [
    ([Lit ''api'', Lit ''v1'', Lit ''supported-currencies''], rt (Some GET) Pricer_supported_currencies None [65536]),
    ([Lit ''api'', Lit ''v1'', Lit ''rate''], rt (Some GET) Pricer_rate None [65536]),
    ([Lit ''pwa-assets'', Rest], rt None Pwa_assets None [65536]),
    ([Lit ''pwa-assets''], rt None Pwa_assets None [65536]),
    ([Lit ''pwa-assets'', Lit []], rt None Pwa_assets None [65536]),
    ([Lit ''robots.txt''], rt (Some GET) Invoice_robots_txt None [65536]),
    ([Lit ''sw.js''], rt (Some GET) Render_service_worker None [65536]),
    ([Lit ''qr.svg''], rt (Some GET) Qr_generate None [65536]),
    ([Lit ''webhook'', Lit ''boltz'', Param], rt (Some POST) Claimer_webhook_with_secret None [65536]),
    ([Lit ''webhook'', Lit ''boltz''], rt (Some POST) Claimer_webhook_unauthenticated None [65536]),
    ([Lit ''health''], rt (Some GET) Health None [65536]),
    ([Lit ''ready''], rt (Some GET) Readiness_ready None [65536]),
    ([Lit ''version''], rt (Some GET) Version_version None [65536]),
    ([Lit ''certification'', Lit ''preflight''], rt (Some GET) Certification_preflight None [65536])]"
  by (simp add: common_rules)

lemma lightning_address_top: "group lightning_address_routes = [
    ([Lit ''.well-known'', Lit ''lnurlp'', Param], rt (Some GET) Lnurl_metadata None [65536]),
    ([Lit ''.well-known'', Lit ''nostr.json''], rt (Some GET) Nostr_json None [65536]),
    ([Lit ''lnurlp'', Lit ''callback'', Param], rt (Some GET) Lnurl_callback None [65536]),
    ([Lit ''register''], rt (Some POST) Registration_register None [65536]),
    ([Lit ''register''], rt (Some PUT) Registration_update None [65536]),
    ([Lit ''register''], rt (Some DELETE) Registration_delete None [65536]),
    ([Lit ''register'', Lit ''lookup''], rt (Some GET) Registration_lookup None [65536]),
    ([Lit ''api'', Lit ''reservations'', Param], rt (Some GET) Registration_reservations None [65536])]"
  by (simp add: lightning_address_rules)

lemma payment_page_top: "group payment_page_routes = [
    ([Lit ''donation-page''], rt (Some PUT) Page_save (Some 8192) [65536]),
    ([Lit ''donation-page''], rt (Some DELETE) Page_archive (Some 1024) [65536]),
    ([Lit ''donation-page'', Param], rt (Some GET) Page_get None [65536]),
    ([Param, Lit ''manifest.webmanifest''], rt (Some GET) Render_manifest None [65536]),
    ([Param, Lit ''pos''], rt (Some GET) Render_pos None [65536]),
    ([Param, Lit ''pos'', Lit ''manifest.webmanifest''], rt (Some GET) Render_pos_manifest None [65536]),
    ([Param, Lit ''invoice''], rt (Some POST) Invoice_create_anonymous (Some 1024) [65536]),
    ([Param, Lit ''pos'', Lit ''pairings''], rt (Some POST) Pos_create_pairing (Some 512) [65536]),
    ([Param, Lit ''pos'', Lit ''pairings'', Param], rt (Some GET) Pos_poll_pairing None [65536]),
    ([Param, Lit ''pos'', Lit ''invoice''], rt (Some POST) Pos_create_invoice (Some 2048) [65536]),
    ([Param, Lit ''pos'', Lit ''invoices''], rt (Some GET) Pos_list_invoices None [65536]),
    ([Param, Lit ''pos'', Lit ''invoices'', Param, Lit ''cancel''], rt (Some POST) Pos_cancel_invoice (Some 1024) [65536]),
    ([Lit ''api'', Lit ''v1'', Lit ''pos'', Lit ''pairings'', Lit ''claim''], rt (Some POST) Pos_claim_pairing (Some 1024) [65536]),
    ([Lit ''api'', Lit ''v1'', Lit ''pos'', Lit ''terminals''], rt (Some GET) Pos_list_terminals None [65536]),
    ([Lit ''api'', Lit ''v1'', Lit ''pos'', Lit ''terminals'', Param, Lit ''revoke''], rt (Some POST) Pos_revoke_terminal (Some 1024) [65536]),
    ([Param, Lit ''i'', Param], rt (Some GET) Invoice_render_payment None [65536]),
    ([Lit ''donation-page'', Lit ''image''], rt (Some POST) Page_upload_image None [65536, 2097152])]"
  by (simp add: payment_page_rules)

lemma invoice_session_top: "group invoice_session_routes = [
    ([Lit ''api'', Lit ''v1'', Lit ''invoices'', Param, Lit ''status''], rt (Some GET) Invoice_status None [65536]),
    ([Lit ''api'', Lit ''v1'', Lit ''invoices'', Param, Lit ''lightning''], rt (Some POST) Invoice_lightning_offer None [65536]),
    ([Lit ''api'', Lit ''v1'', Lit ''invoices'', Param, Lit ''liquid''], rt (Some POST) Invoice_liquid_offer None [65536])]"
  by (simp add: invoice_session_rules)

lemma invoice_top: "group invoice_routes = [
    ([Lit ''api'', Lit ''v1'', Param, Lit ''invoices''], rt (Some POST) Invoice_create_linked (Some 8192) [65536]),
    ([Lit ''api'', Lit ''v1'', Lit ''invoices''], rt (Some POST) Invoice_create_unlinked (Some 8192) [65536]),
    ([Lit ''api'', Lit ''v1'', Param, Lit ''invoices'', Param], rt (Some DELETE) Invoice_cancel_linked (Some 1024) [65536]),
    ([Lit ''api'', Lit ''v1'', Lit ''invoices'', Param], rt (Some DELETE) Invoice_cancel_unlinked (Some 1024) [65536]),
    ([Lit ''api'', Lit ''v1'', Lit ''invoices''], rt (Some GET) Invoice_list_signed None [65536]),
    ([Lit ''invoice'', Param], rt (Some GET) Invoice_render_unlinked None [65536])]"
  by (simp add: invoice_rules)

lemmas tops = common_top lightning_address_top payment_page_top invoice_session_top invoice_top

fun firsts :: "rule list \<Rightarrow> string list" where
  "firsts [] = []"
| "firsts ((p, x) # rs) = (case p of Lit t # q \<Rightarrow> t # firsts rs | _ \<Rightarrow> firsts rs)"

lemma after_lit_none: "s \<notin> set (firsts rs) \<Longrightarrow> after_lit s rs = []"
  by (induction rs rule: firsts.induct) (auto split: list.splits segment.splits)

lemma firsts_top:
  "firsts (group common_routes) = [''api'', ''api'', ''pwa-assets'', ''pwa-assets'', ''pwa-assets'', ''robots.txt'', ''sw.js'', ''qr.svg'', ''webhook'', ''webhook'', ''health'', ''ready'', ''version'', ''certification'']"
  "firsts (group lightning_address_routes) = [''.well-known'', ''.well-known'', ''lnurlp'', ''register'', ''register'', ''register'', ''register'', ''api'']"
  "firsts (group payment_page_routes) = [''donation-page'', ''donation-page'', ''donation-page'', ''api'', ''api'', ''api'', ''donation-page'']"
  "firsts (group invoice_session_routes) = [''api'', ''api'', ''api'']"
  "firsts (group invoice_routes) = [''api'', ''api'', ''api'', ''api'', ''api'', ''invoice'']"
  by (simp_all add: tops)

lemma params_top:
  "after_param (group common_routes) = []" "after_param (group lightning_address_routes) = []"
  "after_param (group invoice_session_routes) = []" "after_param (group invoice_routes) = []"
  by (simp_all add: tops)

lemma endings_top:
  "ending [] (group common_routes) = []" "ending [] (group lightning_address_routes) = []" "ending [] (group payment_page_routes) = []" "ending [] (group invoice_session_routes) = []" "ending [] (group invoice_routes) = []"
  "ending [Rest] (group common_routes) = []" "ending [Rest] (group lightning_address_routes) = []" "ending [Rest] (group payment_page_routes) = []" "ending [Rest] (group invoice_session_routes) = []" "ending [Rest] (group invoice_routes) = []"
  by (simp_all add: tops)

text \<open>Every path and every pattern starts at the root.\<close>
definition below_root :: "features_config \<Rightarrow> rule list" where
  "below_root f = after_lit [] (build_router f)"

lemma below_root_groups: "below_root f = group common_routes
    @ (if feat_lightning_address f then group lightning_address_routes else [])
    @ (if feat_payment_pages f then group payment_page_routes else [])
    @ (if feat_invoices f \<or> feat_payment_pages f then group invoice_session_routes else [])
    @ (if feat_invoices f then group invoice_routes else [])"
  unfolding below_root_def build_router_rules by (simp only: after_append after_if)

lemmas below_simps = below_root_groups after_append after_if after_lit_none firsts_top params_top endings_top

lemma match_root: "match_path (build_router f) ([] # s # ss) = match_path (below_root f) (s # ss)"
proof -
  have "ending [Rest] (build_router f) = []" unfolding build_router_rules by (simp add: after_append after_if table_rules)
  then show ?thesis by (auto simp: below_root_def some_rules_def split: option.split simp del: match_path.simps(2) intro: match_path.simps(2)[THEN trans])
qed

text \<open>What is below a name: the pages and tills of the nym.\<close>
definition nym_rules :: "rule list" where
  "nym_rules =
    [([Lit ''manifest.webmanifest''], rt (Some GET) Render_manifest None [65536]),
     ([Lit ''pos''], rt (Some GET) Render_pos None [65536]),
     ([Lit ''pos'', Lit ''manifest.webmanifest''], rt (Some GET) Render_pos_manifest None [65536]),
     ([Lit ''invoice''], rt (Some POST) Invoice_create_anonymous (Some 1024) [65536]),
     ([Lit ''pos'', Lit ''pairings''], rt (Some POST) Pos_create_pairing (Some 512) [65536]),
     ([Lit ''pos'', Lit ''pairings'', Param], rt (Some GET) Pos_poll_pairing None [65536]),
     ([Lit ''pos'', Lit ''invoice''], rt (Some POST) Pos_create_invoice (Some 2048) [65536]),
     ([Lit ''pos'', Lit ''invoices''], rt (Some GET) Pos_list_invoices None [65536]),
     ([Lit ''pos'', Lit ''invoices'', Param, Lit ''cancel''], rt (Some POST) Pos_cancel_invoice (Some 1024) [65536]),
     ([Lit ''i'', Param], rt (Some GET) Invoice_render_payment None [65536])]"

text \<open>What each group has below a fixed prefix.\<close>
lemma under_prefix:
  "after_lit ''pwa-assets'' (group common_routes) = [([Rest], rt None Pwa_assets None [65536]), ([], rt None Pwa_assets None [65536]),
     ([Lit []], rt None Pwa_assets None [65536])]"
  "after_lit ''webhook'' (group common_routes) = [([Lit ''boltz'', Param], rt (Some POST) Claimer_webhook_with_secret None [65536]),
     ([Lit ''boltz''], rt (Some POST) Claimer_webhook_unauthenticated None [65536])]"
  "after_lit ''certification'' (group common_routes) = [([Lit ''preflight''], rt (Some GET) Certification_preflight None [65536])]"
  "after_lit ''.well-known'' (group lightning_address_routes) = [([Lit ''lnurlp'', Param], rt (Some GET) Lnurl_metadata None [65536]),
     ([Lit ''nostr.json''], rt (Some GET) Nostr_json None [65536])]"
  "after_lit ''lnurlp'' (group lightning_address_routes) = [([Lit ''callback'', Param], rt (Some GET) Lnurl_callback None [65536])]"
  "after_lit ''register'' (group lightning_address_routes) = [([], rt (Some POST) Registration_register None [65536]),
     ([], rt (Some PUT) Registration_update None [65536]), ([], rt (Some DELETE) Registration_delete None [65536]),
     ([Lit ''lookup''], rt (Some GET) Registration_lookup None [65536])]"
  "after_lit ''donation-page'' (group payment_page_routes) = [([], rt (Some PUT) Page_save (Some 8192) [65536]),
     ([], rt (Some DELETE) Page_archive (Some 1024) [65536]), ([Param], rt (Some GET) Page_get None [65536]),
     ([Lit ''image''], rt (Some POST) Page_upload_image None [65536, 2097152])]"
  "after_param (group payment_page_routes) = nym_rules"
  by (simp_all add: tops nym_rules_def)

lemma under_api:
  "after_lit ''api'' (group common_routes) = [([Lit ''v1'', Lit ''supported-currencies''], rt (Some GET) Pricer_supported_currencies None [65536]),
     ([Lit ''v1'', Lit ''rate''], rt (Some GET) Pricer_rate None [65536])]"
  "after_lit ''api'' (group lightning_address_routes) = [([Lit ''reservations'', Param], rt (Some GET) Registration_reservations None [65536])]"
  "after_lit ''api'' (group payment_page_routes) = [([Lit ''v1'', Lit ''pos'', Lit ''pairings'', Lit ''claim''], rt (Some POST) Pos_claim_pairing (Some 1024) [65536]),
     ([Lit ''v1'', Lit ''pos'', Lit ''terminals''], rt (Some GET) Pos_list_terminals None [65536]),
     ([Lit ''v1'', Lit ''pos'', Lit ''terminals'', Param, Lit ''revoke''], rt (Some POST) Pos_revoke_terminal (Some 1024) [65536])]"
  "after_lit ''api'' (group invoice_session_routes) = [([Lit ''v1'', Lit ''invoices'', Param, Lit ''status''], rt (Some GET) Invoice_status None [65536]),
     ([Lit ''v1'', Lit ''invoices'', Param, Lit ''lightning''], rt (Some POST) Invoice_lightning_offer None [65536]),
     ([Lit ''v1'', Lit ''invoices'', Param, Lit ''liquid''], rt (Some POST) Invoice_liquid_offer None [65536])]"
  "after_lit ''api'' (group invoice_routes) = [([Lit ''v1'', Param, Lit ''invoices''], rt (Some POST) Invoice_create_linked (Some 8192) [65536]),
     ([Lit ''v1'', Lit ''invoices''], rt (Some POST) Invoice_create_unlinked (Some 8192) [65536]),
     ([Lit ''v1'', Param, Lit ''invoices'', Param], rt (Some DELETE) Invoice_cancel_linked (Some 1024) [65536]),
     ([Lit ''v1'', Lit ''invoices'', Param], rt (Some DELETE) Invoice_cancel_unlinked (Some 1024) [65536]),
     ([Lit ''v1'', Lit ''invoices''], rt (Some GET) Invoice_list_signed None [65536])]"
  by (simp_all add: tops)

lemma below_nym:
  assumes "nym_regex n" "\<not> is_reserved n" "n \<noteq> ''pwa-assets''"
  shows "after_lit n (below_root f) = (if n = ''certification'' then [([Lit ''preflight''], rt (Some GET) Certification_preflight None [65536])] else [])"
proof (cases "n = ''certification''")
  case True
  then show ?thesis by (simp add: below_simps under_prefix)
next
  case False
  then show ?thesis using nym_is_no_segment[OF assms(1,2)] assms(3) by (simp add: below_simps)
qed

lemma below_param: "after_param (below_root f) = (if feat_payment_pages f then nym_rules else [])"
  "ending [Rest] (below_root f) = []"
  by (simp_all add: below_simps under_prefix)

lemma match_nothing [simp]: "match_path [] ss = None"
  by (induction ss) (simp_all add: some_rules_def)

lemma match_nym:
  assumes "nym_regex n" "\<not> is_reserved n" "n \<noteq> ''pwa-assets''" "feat_payment_pages f" "take 1 ss \<noteq> [''preflight'']"
  shows "match_path (build_router f) ([] # n # ss) = map_option (apsnd (Cons n)) (match_path nym_rules ss)"
proof -
  have none: "match_path (after_lit n (below_root f)) ss = None"
    using assms(5) by (cases ss) (auto simp: below_nym[OF assms(1-3)] some_rules_def split: option.split)
  have "nym_rules \<noteq> []" by (simp add: nym_rules_def)
  then show ?thesis
    unfolding match_root using none nym_chars(3)[OF assms(1)] assms(4)
    by (simp add: below_param some_rules_def split: option.split)
qed

lemma below_assets: "match_path (below_root f) [''pwa-assets''] = Some ([rt None Pwa_assets None [65536]], [])"
  by (simp add: below_simps under_prefix some_rules_def)

lemma below_webhook: "s \<noteq> [] \<Longrightarrow> match_path (below_root f) [''webhook'', ''boltz'', s] =
    Some ([rt (Some POST) Claimer_webhook_with_secret None [65536]], [s])"
  by (simp add: below_simps under_prefix some_rules_def)

text \<open>What is below the fixed prefixes.\<close>
lemma below_prefix:
  "after_lit ''.well-known'' (below_root f) = (if feat_lightning_address f then
     [([Lit ''lnurlp'', Param], rt (Some GET) Lnurl_metadata None [65536]), ([Lit ''nostr.json''], rt (Some GET) Nostr_json None [65536])] else [])"
  "after_lit ''lnurlp'' (below_root f) =
     (if feat_lightning_address f then [([Lit ''callback'', Param], rt (Some GET) Lnurl_callback None [65536])] else [])"
  "after_lit ''register'' (below_root f) = (if feat_lightning_address f then
     [([], rt (Some POST) Registration_register None [65536]), ([], rt (Some PUT) Registration_update None [65536]),
      ([], rt (Some DELETE) Registration_delete None [65536]), ([Lit ''lookup''], rt (Some GET) Registration_lookup None [65536])] else [])"
  "after_lit ''donation-page'' (below_root f) = (if feat_payment_pages f then
     [([], rt (Some PUT) Page_save (Some 8192) [65536]), ([], rt (Some DELETE) Page_archive (Some 1024) [65536]),
      ([Param], rt (Some GET) Page_get None [65536]), ([Lit ''image''], rt (Some POST) Page_upload_image None [65536, 2097152])] else [])"
  "after_lit ''reservations'' (after_lit ''api'' (below_root f)) =
     (if feat_lightning_address f then [([Param], rt (Some GET) Registration_reservations None [65536])] else [])"
  "after_param (after_lit ''v1'' (after_lit ''api'' (below_root f))) = (if feat_invoices f then
     [([Lit ''invoices''], rt (Some POST) Invoice_create_linked (Some 8192) [65536]),
      ([Lit ''invoices'', Param], rt (Some DELETE) Invoice_cancel_linked (Some 1024) [65536])] else [])"
  by (simp_all add: below_simps under_prefix under_api)

lemma below_register: "feat_lightning_address f \<Longrightarrow> match_path (below_root f) [''register''] =
    Some ([rt (Some POST) Registration_register None [65536], rt (Some PUT) Registration_update None [65536],
      rt (Some DELETE) Registration_delete None [65536]], [])"
  by (simp add: below_prefix some_rules_def)

lemma below_api_nym:
  assumes "n \<noteq> ''invoices''"
  shows "after_lit ''invoices'' (after_lit n (after_lit ''v1'' (after_lit ''api'' (below_root f)))) = []"
    "after_param (after_lit n (after_lit ''v1'' (after_lit ''api'' (below_root f)))) = []"
    "ending [Rest] (after_lit n (after_lit ''v1'' (after_lit ''api'' (below_root f)))) = []"
  using assms by (simp_all add: below_simps under_api)

lemma match_known:
  assumes "feat_lightning_address f" "n \<noteq> []"
  shows "match_path (build_router f) [[], ''.well-known'', ''lnurlp'', n] = Some ([rt (Some GET) Lnurl_metadata None [65536]], [n])"
    "match_path (build_router f) [[], ''lnurlp'', ''callback'', n] = Some ([rt (Some GET) Lnurl_callback None [65536]], [n])"
    "match_path (build_router f) [[], ''api'', ''reservations'', n] = Some ([rt (Some GET) Registration_reservations None [65536]], [n])"
  using assms by (simp_all only: match_root) (simp_all add: below_prefix some_rules_def)

lemma match_page_api:
  assumes "feat_payment_pages f" "n \<noteq> []"
  shows "match_path (build_router f) [[], ''donation-page'', n] = (if n = ''image''
    then Some ([rt (Some POST) Page_upload_image None [65536, 2097152]], []) else Some ([rt (Some GET) Page_get None [65536]], [n]))"
  using assms by (simp only: match_root) (simp add: below_prefix some_rules_def)

lemma match_invoice_api:
  assumes "feat_invoices f" "n \<noteq> []" "n \<noteq> ''invoices''"
  shows "match_path (build_router f) [[], ''api'', ''v1'', n, ''invoices''] = Some ([rt (Some POST) Invoice_create_linked (Some 8192) [65536]], [n])"
    "i \<noteq> [] \<Longrightarrow> match_path (build_router f) [[], ''api'', ''v1'', n, ''invoices'', i] =
       Some ([rt (Some DELETE) Invoice_cancel_linked (Some 1024) [65536]], [n, i])"
  using assms by (simp_all only: match_root) (simp_all add: below_prefix below_api_nym some_rules_def)

lemma match_pages:
  "match_path nym_rules [] = None"
  "match_path nym_rules [''manifest.webmanifest''] = Some ([rt (Some GET) Render_manifest None [65536]], [])"
  "match_path nym_rules [''pos''] = Some ([rt (Some GET) Render_pos None [65536]], [])"
  "match_path nym_rules [''pos'', ''manifest.webmanifest''] = Some ([rt (Some GET) Render_pos_manifest None [65536]], [])"
  "match_path nym_rules [''invoice''] = Some ([rt (Some POST) Invoice_create_anonymous (Some 1024) [65536]], [])"
  "match_path nym_rules [''pos'', ''pairings''] = Some ([rt (Some POST) Pos_create_pairing (Some 512) [65536]], [])"
  "match_path nym_rules [''pos'', ''invoice''] = Some ([rt (Some POST) Pos_create_invoice (Some 2048) [65536]], [])"
  "match_path nym_rules [''pos'', ''invoices''] = Some ([rt (Some GET) Pos_list_invoices None [65536]], [])"
  "i \<noteq> [] \<Longrightarrow> match_path nym_rules [''pos'', ''pairings'', i] = Some ([rt (Some GET) Pos_poll_pairing None [65536]], [i])"
  "i \<noteq> [] \<Longrightarrow> match_path nym_rules [''pos'', ''invoices'', i, ''cancel''] = Some ([rt (Some POST) Pos_cancel_invoice (Some 1024) [65536]], [i])"
  "i \<noteq> [] \<Longrightarrow> match_path nym_rules [''i'', i] = Some ([rt (Some GET) Invoice_render_payment None [65536]], [i])"
  by (simp_all add: nym_rules_def some_rules_def)

lemma split_url: "split_on CHR ''/'' (''/'' @ t) = [] # split_on CHR ''/'' t"
  by simp

text \<open>C36: Whatever is registered is reached: for every nym that can be registered, save ''pwa-assets'' (which
  the folder of the web application hides), each of its public addresses runs its handler with the nym
  and the identifier that the path stands for, percent-decoded, whichever features are on; and every nym's page can be read from its API
  address, save that of ''image'' (which the upload address hides).\<close>
theorem registered_nyms_are_reachable:
  assumes "nym_regex n" "\<not> is_reserved n" "seg \<noteq> []" "CHR ''/'' \<notin> set seg" "path_param seg = Some i"
  shows "(if n = ''pwa-assets'' then dispatch f GET (''/'' @ n) = Run Pwa_assets []
      else \<forall>(m, url, e, ps)\<in>set (nym_urls f n seg i). dispatch f m url = Run e ps)
    \<and> (feat_payment_pages f \<longrightarrow> dispatch f GET (''/donation-page/'' @ n)
        = (if n = ''image'' then Method_not_allowed else Run Page_get [n]))"
proof -
  note n = nym_chars[OF assms(1)] and slash = assms(4)
  have other: "n \<noteq> ''invoices''" using nym_is_no_segment(2)[OF assms(1,2)] by simp
  note split = split_url split_step split_on_free n slash dispatch_def serves_def nym_plain[OF assms(1)] assms(5)
  have "\<forall>(m, url, e, ps)\<in>set (nym_urls f n seg i). dispatch f m url = Run e ps" if "n \<noteq> ''pwa-assets''"
    using assms(3) n other
    by (auto simp: nym_urls_def split match_known match_invoice_api match_nym[OF assms(1,2) that] match_pages fallback_def
        simp del: match_path.simps split: if_splits)
  moreover have "dispatch f GET (''/donation-page/'' @ n) = (if n = ''image'' then Method_not_allowed else Run Page_get [n])"
    if "feat_payment_pages f"
    using n that by (simp add: split match_page_api del: match_path.simps)
  moreover have "dispatch f GET (''/'' @ ''pwa-assets'') = Run Pwa_assets []"
    by (simp add: dispatch_def match_root below_assets serves_def del: match_path.simps)
  ultimately show ?thesis by simp
qed

definition all_features :: features_config where
  "all_features = \<lparr>feat_lightning_address = True, feat_invoices = True, feat_payment_pages = True\<rparr>"

theorem registered_nyms_are_reachable_witness:
  "dispatch all_features POST ''/bob/pos/invoices/%37/cancel'' = Run Pos_cancel_invoice [''bob'', ''7'']
   \<and> dispatch all_features GET ''/bob'' = Run Render_page []"
proof -
  have "path_param ''%37'' = Some ''7''" by code_simp
  then show ?thesis
    using registered_nyms_are_reachable[of "''bob''" "''%37''" "''7''" all_features]
    by (simp add: nym_regex_def nym_alnum_def is_reserved_def reserved_nyms_def nym_urls_def all_features_def Let_def)
qed

subsection \<open>Every way in\<close>

lemma after_rules: "snd ` set (after_lit s rs) \<subseteq> snd ` set rs" "snd ` set (after_param rs) \<subseteq> snd ` set rs"
  "set (ending tail rs) \<subseteq> snd ` set rs"
proof -
  have "x \<in> set (map snd (after_lit s rs)) \<Longrightarrow> x \<in> set (map snd rs)" for x
    by (induction rs) (auto simp del: set_map split: list.splits segment.splits if_splits)
  moreover have "x \<in> set (map snd (after_param rs)) \<Longrightarrow> x \<in> set (map snd rs)" for x
    by (induction rs) (auto simp del: set_map split: list.splits segment.splits)
  ultimately show "snd ` set (after_lit s rs) \<subseteq> snd ` set rs" "snd ` set (after_param rs) \<subseteq> snd ` set rs" by (metis set_map subsetI)+
  show "set (ending tail rs) \<subseteq> snd ` set rs" by (auto simp: ending_def)
qed

lemma match_in_table: "match_path rs ss = Some (xs, ps) \<Longrightarrow> set xs \<subseteq> snd ` set rs"
proof (induction rs ss arbitrary: xs ps rule: match_path.induct)
  case (1 rs)
  then show ?case using after_rules(3)[of "[]" rs] by (auto simp: some_rules_def split: if_splits)
next
  case (2 rs s ss)
  show ?case
  proof (cases "match_path (after_lit s rs) ss")
    case (Some y)
    then have "set xs \<subseteq> snd ` set (after_lit s rs)" using 2 by (cases y) simp
    then show ?thesis using after_rules(1) by (rule subset_trans)
  next
    case lit: None
    let ?par = "if s = [] \<or> after_param rs = [] then None else match_path (after_param rs) ss"
    show ?thesis
    proof (cases ?par)
      case (Some y)
      then have "s \<noteq> [] \<and> after_param rs \<noteq> []" by (auto split: if_splits)
      then have "set xs \<subseteq> snd ` set (after_param rs)" using 2 Some lit by (cases y) simp
      then show ?thesis using after_rules(2) by (rule subset_trans)
    next
      case None
      then have "xs = ending [Rest] rs" using "2.prems" lit by (auto simp: some_rules_def split: if_splits)
      then show ?thesis using after_rules(3) by simp
    qed
  qed
qed

text \<open>A handler runs as the fallback, or through a route of the table for that method.\<close>
lemma dispatch_route:
  assumes "dispatch f m path = Run e ps"
  shows "e = fallback f \<or> (\<exists>r\<in>snd ` set (build_router f). rt_endpoint r = e \<and> serves m r)"
proof (cases "match_path (build_router f) (split_on CHR ''/'' path)")
  case None
  then show ?thesis using assms by (simp add: dispatch_def split: if_splits)
next
  case (Some y)
  obtain rs qs where y: "y = (rs, qs)" by fastforce
  then obtain r where r: "find (serves m) rs = Some r" "rt_endpoint r = e"
    using assms Some by (auto simp: dispatch_def split: if_splits option.splits)
  then have "r \<in> set rs" "serves m r" by (auto simp: find_Some_iff)
  then show ?thesis using match_in_table[OF Some[unfolded y]] r(2) by blast
qed

text \<open>The feature behind a handler.\<close>
definition needs :: "endpoint \<Rightarrow> features_config \<Rightarrow> bool" where
  "needs e f \<longleftrightarrow>
    (e \<in> set [Lnurl_metadata, Nostr_json, Lnurl_callback, Registration_register, Registration_update, Registration_delete,
       Registration_lookup, Registration_reservations] \<longrightarrow> feat_lightning_address f)
    \<and> (e \<in> set [Page_save, Page_archive, Page_get, Render_manifest, Render_pos, Render_pos_manifest, Invoice_create_anonymous,
       Pos_create_pairing, Pos_poll_pairing, Pos_create_invoice, Pos_list_invoices, Pos_cancel_invoice, Pos_claim_pairing,
       Pos_list_terminals, Pos_revoke_terminal, Invoice_render_payment, Page_upload_image, Render_page] \<longrightarrow> feat_payment_pages f)
    \<and> (e \<in> set [Invoice_status, Invoice_lightning_offer, Invoice_liquid_offer] \<longrightarrow> feat_invoices f \<or> feat_payment_pages f)
    \<and> (e \<in> set [Invoice_create_linked, Invoice_create_unlinked, Invoice_cancel_linked, Invoice_cancel_unlinked,
       Invoice_list_signed, Invoice_render_unlinked] \<longrightarrow> feat_invoices f)"

text \<open>The handlers that create, change or delete a registration, a page, a terminal or an invoice.  Reads are not free of
  writes: they count towards rate limits, a polling terminal is marked as seen, and the LNURL callback, which the
  protocol makes a GET, records reservations and swaps.\<close>
definition edits :: "endpoint \<Rightarrow> bool" where
  "edits e \<longleftrightarrow> e \<in> set [Claimer_webhook_with_secret, Claimer_webhook_unauthenticated, Registration_register, Registration_update,
     Registration_delete, Page_save, Page_archive, Page_upload_image, Pos_create_pairing, Pos_create_invoice,
     Pos_cancel_invoice, Pos_claim_pairing, Pos_revoke_terminal, Invoice_create_anonymous, Invoice_create_linked, Invoice_create_unlinked,
     Invoice_cancel_linked, Invoice_cancel_unlinked, Invoice_lightning_offer]"

definition sound_route :: "features_config \<Rightarrow> route \<Rightarrow> bool" where
  "sound_route f r \<longleftrightarrow> needs (rt_endpoint r) f \<and> (edits (rt_endpoint r) \<longrightarrow> rt_method r \<in> {Some POST, Some PUT, Some DELETE})
     \<and> 65536 \<in> set (rt_layer_limits r)"

lemma routes_sound: "\<forall>r\<in>snd ` set (build_router f). sound_route f r"
proof -
  have "list_all (\<lambda>(p, r). sound_route f r) (limit_layer 65536 common_routes)"
    "feat_lightning_address f \<Longrightarrow> list_all (\<lambda>(p, r). sound_route f r) (limit_layer 65536 lightning_address_routes)"
    "feat_payment_pages f \<Longrightarrow> list_all (\<lambda>(p, r). sound_route f r) (limit_layer 65536 payment_page_routes)"
    "feat_invoices f \<or> feat_payment_pages f \<Longrightarrow> list_all (\<lambda>(p, r). sound_route f r) (limit_layer 65536 invoice_session_routes)"
    "feat_invoices f \<Longrightarrow> list_all (\<lambda>(p, r). sound_route f r) (limit_layer 65536 invoice_routes)"
    by (simp_all add: table_rules sound_route_def needs_def edits_def)
  then show ?thesis unfolding build_router_rules by (auto simp: list_all_iff split: if_splits)
qed



lemma foldr_min: "x \<in> set xs \<Longrightarrow> foldr min xs (d :: nat) \<le> x" "foldr min xs d \<le> d"
  by (induction xs) (auto simp: min_def intro: le_trans)

text \<open>No handler reads more than 64 KiB of a request, whatever limit its own route sets: a limit of a route can
  only lower the outer one, so the image upload is capped at 64 KiB too and not at the 2 MiB that its own layer and the comments there announce.\<close>
lemma bodies_are_capped:
  assumes "(p, r) \<in> set (build_router f)"
  shows "body_limit r \<le> 64 * 1024 \<and> (\<forall>n. rt_default_limit r = Some n \<longrightarrow> body_limit r \<le> n)
    \<and> (rt_endpoint r = Page_upload_image \<longrightarrow> body_limit r = 64 * 1024)"
proof -
  have "65536 \<in> set (rt_layer_limits r)" using routes_sound[of f] assms by (force simp: sound_route_def)
  moreover have "body_limit r = 65536" if "rt_endpoint r = Page_upload_image"
    using assms that unfolding build_router_rules
    by (auto simp: table_rules body_limit_def axum_default_limit_def split: if_splits)
  ultimately show ?thesis
    using foldr_min(1)[of 65536 "rt_layer_limits r"] foldr_min(2)[of "rt_layer_limits r"] by (auto simp: body_limit_def)
qed

end
