(* ===== verification/Endpoints.thy ===== *)
theory Endpoints
  imports Routes
begin

text \<open>
  The small endpoints: the QR codes (src/src/qr.rs), the readiness probe (src/src/readiness.rs), the
  version (src/src/version.rs), and the fixed answers of src/src/invoice.rs and src/src/pricer.rs.  The
  QR encoder and the answers of the database probes are arguments.
\<close>

subsection \<open>QR codes\<close>

definition MAX_DATA_LEN :: nat where "MAX_DATA_LEN = 4096"

text \<open>\<open>qr_encode\<close> is the QR library: the rendered image, or its error.\<close>
definition qr_generate ::
  "'net gates \<Rightarrow> (string \<Rightarrow> string + string) \<Rightarrow> request \<Rightarrow> string \<Rightarrow> (service, app_error, http_answer) handler" where
  "qr_generate g qr_encode rq data =
    andThen (require (data \<noteq> []) (InvalidAmount ''data is required'')) (\<lambda>_.
    andThen (require (length data \<le> MAX_DATA_LEN) (InvalidAmount (''data exceeds '' @ show_nat MAX_DATA_LEN @ '' chars''))) (\<lambda>_.
    andThen (page_gate g rq check_donation_html_per_source) (\<lambda>_.
    andThen (result (map_sum (\<lambda>e. InvalidAmount (''qr encode failed: '' @ e)) id (qr_encode data))) (\<lambda>svg.
      pure (set_header ''x-content-type-options'' ''nosniff'' (set_header ''cache-control'' ''public, max-age=300''
        (set_header ''content-type'' ''image/svg+xml'' (text_answer 200 svg))))))))"

subsection \<open>Version\<close>

definition EXPECTED_SCHEMA_MARKER :: string where "EXPECTED_SCHEMA_MARKER = ''035_pos_wallet_separation''"

record version_response =
  vr_service :: string
  vr_crate_version :: string
  vr_build_commit :: string
  vr_build_branch :: string
  vr_build_time :: string
  vr_build_dirty :: string
  vr_runtime_mode :: string
  vr_expected_schema_marker :: string

definition or_unknown :: "string option \<Rightarrow> string" where
  "or_unknown v = (case v of Some s \<Rightarrow> s | None \<Rightarrow> ''unknown'')"

text \<open>\<open>built\<close> is the environment of the build, \<open>env\<close> that of the process.\<close>
definition version :: "string \<Rightarrow> (string \<Rightarrow> string option) \<Rightarrow> (string \<Rightarrow> string option) \<Rightarrow> version_response" where
  "version cargo_version built env =
    \<lparr>vr_service = ''pay-service'', vr_crate_version = cargo_version,
     vr_build_commit = or_unknown (built ''BULLNYM_BUILD_COMMIT''), vr_build_branch = or_unknown (built ''BULLNYM_BUILD_BRANCH''),
     vr_build_time = or_unknown (built ''BULLNYM_BUILD_TIME''), vr_build_dirty = or_unknown (built ''BULLNYM_BUILD_DIRTY''),
     vr_runtime_mode = or_unknown (env ''BULLNYM_RUNTIME_MODE''), vr_expected_schema_marker = EXPECTED_SCHEMA_MARKER\<rparr>"

subsection \<open>Readiness\<close>

record component_status =
  st_ok :: bool
  st_detail :: "string option"

record readiness_response =
  rr_service :: string
  rr_ready :: bool
  rr_expected_schema_marker :: string
  rr_database :: component_status
  rr_schema :: component_status

definition status_ok :: component_status where "status_ok = \<lparr>st_ok = True, st_detail = None\<rparr>"
definition status_error :: "string \<Rightarrow> component_status" where "status_error d = \<lparr>st_ok = False, st_detail = Some d\<rparr>"

text \<open>A query under the two second timeout: its value, its error, or nothing in time.\<close>
datatype 'a probe = Answered 'a | Failed_probe string | Timed_out

definition check_database :: "int probe \<Rightarrow> component_status" where
  "check_database p = (case p of
     Answered v \<Rightarrow> if v = 1 then status_ok else status_error ''unexpected database probe result''
   | Failed_probe e \<Rightarrow> status_error ''database probe failed''
   | Timed_out \<Rightarrow> status_error ''database probe timed out'')"

definition check_schema :: "bool probe \<Rightarrow> component_status" where
  "check_schema p = (case p of
     Answered present \<Rightarrow> if present then status_ok
       else status_error (''expected schema marker '' @ EXPECTED_SCHEMA_MARKER @ '' is not present'')
   | Failed_probe e \<Rightarrow> status_error ''schema probe failed''
   | Timed_out \<Rightarrow> status_error ''schema probe timed out'')"

text \<open>The columns the marker query asks for, of the columns the database has.\<close>
definition schema_marker_present :: "(string \<times> string) list \<Rightarrow> bool" where
  "schema_marker_present columns \<longleftrightarrow>
    (''users'', ''verification_npub'') \<in> set columns \<and> (''donation_pages'', ''ct_descriptor'') \<in> set columns
    \<and> (''donation_pages'', ''next_addr_idx'') \<in> set columns \<and> (''donation_pages'', ''pos_ct_descriptor'') \<in> set columns"

text \<open>The status and the body; the schema is asked for only when the database answers.\<close>
definition ready :: "int probe \<Rightarrow> bool probe \<Rightarrow> nat \<times> readiness_response" where
  "ready db_probe schema_probe =
    (let database = check_database db_probe;
         schema = (if st_ok database then check_schema schema_probe else status_error ''database unavailable'');
         is_ready = st_ok database \<and> st_ok schema
     in (if is_ready then 200 else 503,
         \<lparr>rr_service = ''pay-service'', rr_ready = is_ready, rr_expected_schema_marker = EXPECTED_SCHEMA_MARKER,
          rr_database = database, rr_schema = schema\<rparr>))"

subsection \<open>Fixed answers\<close>

text \<open>The headers of every invoice page.\<close>
definition html_response :: "string \<Rightarrow> http_answer" where
  "html_response html =
    set_header ''x-robots-tag'' ''noindex, nofollow'' (set_header ''cache-control'' ''private, no-store''
    (set_header ''referrer-policy'' ''strict-origin-when-cross-origin'' (set_header ''x-frame-options'' ''DENY''
    (set_header ''x-content-type-options'' ''nosniff'' (set_header ''content-type'' ''text/html; charset=utf-8''
    (text_answer 200 html))))))"

definition robots_txt :: http_answer where
  "robots_txt = set_header ''content-type'' ''text/plain; charset=utf-8''
    (text_answer 200 (''User-agent: *'' @ [CHR 0x0A] @ ''Disallow: /'' @ [CHR 0x0A]))"

definition fetch_liquid_offer :: http_answer where
  "fetch_liquid_offer = set_header ''content-type'' ''text/plain; charset=utf-8''
    (text_answer 410 (''POST /api/v1/invoices/<id>/liquid is deprecated. Wallet supplies the ''
      @ ''Liquid address at invoice-create time.''))"

text \<open>The list of the pricer, as it is.\<close>
definition supported_currencies :: "currency_view list \<Rightarrow> currency_view list" where
  "supported_currencies cs = cs"

text \<open>The last eight bytes of a key, for the log.\<close>
definition npub_log_tag :: "string \<Rightarrow> string" where
  "npub_log_tag npub = (if 8 < length npub then drop (length npub - 8) npub else npub)"

end
