(* ===== verification/Startup.thy ===== *)
theory Startup
  imports Endpoints Utxo
begin

text \<open>
  The start of the process (src/src/main.rs: \<open>main\<close>): from the configuration to the state the handlers share, the
  background workers and the router.  Connecting to the database, the key library, the Electrum servers,
  the HTTP client and the listening socket are arguments; the log lines are not modelled.
\<close>

subsection \<open>Workers\<close>

record chain_watcher_config =
  cw_active_tick_secs :: nat
  cw_idle_tick_secs :: nat
  cw_active_window_secs :: nat
  cw_lookahead :: nat

definition default_chain_watcher_config :: chain_watcher_config where
  "default_chain_watcher_config = \<lparr>cw_active_tick_secs = 30, cw_idle_tick_secs = 600, cw_active_window_secs = 86400, cw_lookahead = 10\<rparr>"

definition from_rate_limit_config :: "rate_limit_config \<Rightarrow> chain_watcher_config" where
  "from_rate_limit_config rl =
    \<lparr>cw_active_tick_secs = rc_chain_watcher_active_user_tick_secs rl, cw_idle_tick_secs = rc_chain_watcher_idle_user_tick_secs rl,
     cw_active_window_secs = rc_chain_watcher_active_window_secs rl, cw_lookahead = 10\<rparr>"

text \<open>A task that runs beside the server, with what it was given; the sweep with the age in seconds.\<close>
datatype worker =
    Background_claimer
  | Reconciler_worker string reconciler_config
  | Gc_worker gc_config
  | Limiter_sweep nat
  | Chain_watcher_worker chain_watcher_config tolerances
  | Bitcoin_watcher_worker bitcoin_watcher_section tolerances

definition background_workers :: "config \<Rightarrow> bool \<Rightarrow> worker list" where
  "background_workers c has_backend =
    (if work_enabled (co_workers c) then
       [Background_claimer,
        Reconciler_worker (bltz_api_url (co_boltz c)) (co_reconciler c),
        Gc_worker (gc_config_of (co_invoice_accounting c)),
        Limiter_sweep 7200]
       @ (if has_backend then
            [Chain_watcher_worker (from_rate_limit_config (co_rate_limit c)) (tolerances_of (co_invoice_accounting c))] else [])
       @ (if bws_enabled (co_bitcoin_watcher c) then
            [Bitcoin_watcher_worker (co_bitcoin_watcher c) (tolerances_of (co_invoice_accounting c))] else [])
     else [])"

subsection \<open>The shared state\<close>

text \<open>Boltz signs nothing: the address itself is the secret.\<close>
definition webhook_url :: "config \<Rightarrow> string" where
  "webhook_url c =
    (if co_boltz_webhook_url_secret c = [] then ''https://'' @ co_domain c @ ''/webhook/boltz''
     else ''https://'' @ co_domain c @ ''/webhook/boltz/'' @ co_boltz_webhook_url_secret c)"

definition limiter_new :: "int \<Rightarrow> rate_limit_config \<Rightarrow> limiter" where
  "limiter_new now cfg =
    \<lparr>rl_cfg = cfg, rl_inmem = [], rl_events = [], rl_nyms = [],
     rl_electrum = token_bucket_new now (rc_global_electrum_rate_per_sec cfg),
     rl_watcher_electrum = token_bucket_new now (rc_chain_watcher_electrum_rate_per_sec cfg)\<rparr>"

record 'net app_state =
  as_config :: config
  as_webhook_url :: string
  as_whitelist :: "'net list"
  as_certification :: "'net certification_allowlist"
  as_limiter :: limiter
  as_backend :: "electrum_client option"
  as_currencies :: "currency_view list"
  as_shells :: pwa_shells

text \<open>The world the process starts in: the arguments after the program's name, the clock, and what the libraries answer.\<close>
record 'net startup_env =
  su_args :: "string list"
  su_now :: int
  su_load :: load_inputs
  su_connect_db :: "nat \<Rightarrow> string \<Rightarrow> string + unit"
  su_master_key :: "string \<Rightarrow> string + unit"
  su_net :: "'net net_lib"
  su_electrum_reachable :: "string \<Rightarrow> bool"
  su_lowercase :: "string \<Rightarrow> string"
  su_http_client_error :: "string option"
  su_bind :: "string \<Rightarrow> string + unit"

datatype startup_error = Config_failed config_error | Startup_failed string | Pricer_failed pricer_init_error

definition electrum_client_new :: "(string \<Rightarrow> bool) \<Rightarrow> string list \<Rightarrow> nat \<Rightarrow> nat \<Rightarrow> electrum_client option" where
  "electrum_client_new reachable urls ttl_secs cache_max =
    (case electrum_connect (\<lambda>i. reachable (urls ! i)) (length urls) of
       Inl e \<Rightarrow> None
     | Inr st \<Rightarrow> Some \<lparr>el_urls = length urls, el_state = st, el_cache = [], el_cache_ttl = secs (int ttl_secs), el_cache_max = cache_max\<rparr>)"

definition config_path :: "string list \<Rightarrow> string" where
  "config_path args = (case args of p # _ \<Rightarrow> p | [] \<Rightarrow> ''config.toml'')"

definition or_fail :: "string \<Rightarrow> string + 'a \<Rightarrow> startup_error + 'a" where
  "or_fail what = map_sum (\<lambda>e. Startup_failed (what @ e)) id"

definition build_state :: "'net startup_env \<Rightarrow> config \<Rightarrow> startup_error + 'net app_state" where
  "build_state su c =
    (case or_fail ''database connection failed: '' (su_connect_db su (co_pool_size c) (co_database_url c)) of
       Inl e \<Rightarrow> Inl e
     | Inr _ \<Rightarrow>
    (case or_fail ''invalid swap mnemonic: '' (su_master_key su (co_swap_mnemonic c)) of
       Inl e \<Rightarrow> Inl e
     | Inr _ \<Rightarrow>
    (case or_fail ''ip_whitelist parse error: '' (whitelist_parse (su_net su) (rc_ip_whitelist (co_rate_limit c))) of
       Inl e \<Rightarrow> Inl e
     | Inr whitelist \<Rightarrow>
    (let ct = co_certification c in
     case or_fail ''certification allowlist parse error: ''
       (certification_parse (su_net su) (cert_enabled ct) (cert_source_allowlist ct) (cert_token ct) (cert_scopes ct)) of
       Inl e \<Rightarrow> Inl e
     | Inr certification \<Rightarrow>
    (case pricer_new (su_lowercase su) (su_http_client_error su) (pricer_config_of (co_pricer c)) of
       Inl e \<Rightarrow> Inl (Pricer_failed e)
     | Inr currencies \<Rightarrow> Inr
        \<lparr>as_config = c, as_webhook_url = webhook_url c, as_whitelist = whitelist, as_certification = certification,
         as_limiter = limiter_new (su_now su) (co_rate_limit c),
         as_backend = electrum_client_new (su_electrum_reachable su) (electrum_urls (co_electrum c))
           (elec_cache_ttl_secs (co_electrum c)) (elec_cache_max_entries (co_electrum c)),
         as_currencies = currencies, as_shells = pwa_shells_load (pwa_dist_dir (co_pwa c))\<rparr>)))))"

definition startup :: "'net startup_env \<Rightarrow> startup_error + ('net app_state \<times> worker list \<times> rule list)" where
  "startup su =
    (case config_load (su_load su) (config_path (su_args su)) of
       Inl e \<Rightarrow> Inl (Config_failed e)
     | Inr c \<Rightarrow>
    (case build_state su c of
       Inl e \<Rightarrow> Inl e
     | Inr st \<Rightarrow>
        map_sum id (\<lambda>_. (st, background_workers c (as_backend st \<noteq> None), build_router (co_features c)))
          (or_fail [] (su_bind su (co_listen c)))))"

end
