(* ===== verification/StartupProperties.thy ===== *)
theory StartupProperties
  imports Startup RouteProperties ConfigProperties ServiceProperties ClaimProperties
begin

text \<open>
  What holds once the process has started: the validated configuration, the routes and the handlers put
  together.
\<close>

subsection \<open>The Electrum servers\<close>

lemma add_urls_distinct: "distinct out \<Longrightarrow> distinct (add_urls out us)"
  by (induction us arbitrary: out) auto

definition has_scheme :: "string \<Rightarrow> bool" where
  "has_scheme u \<longleftrightarrow> starts_with ''ssl://'' u \<or> starts_with ''tcp://'' u"

lemma add_urls_scheme: "list_all has_scheme out \<Longrightarrow> list_all has_scheme (add_urls out us)"
  by (induction us arbitrary: out) (auto simp: has_scheme_def normalize_electrum_url_def starts_with_def)

lemma electrum_urls_usable:
  "electrum_urls c \<noteq> []" "distinct (electrum_urls c)" "list_all has_scheme (electrum_urls c)"
proof -
  let ?first = "case elec_liquid_url c of Some u \<Rightarrow> if u = [] then [] else [normalize_electrum_url u] | None \<Rightarrow> []"
  have "distinct ?first" "list_all has_scheme ?first"
    by (auto simp: has_scheme_def normalize_electrum_url_def starts_with_def split: option.split)
  then show "electrum_urls c \<noteq> []" "distinct (electrum_urls c)" "list_all has_scheme (electrum_urls c)"
    using add_urls_distinct add_urls_scheme
    by (auto simp: electrum_urls_def Let_def default_liquid_electrum_url_def has_scheme_def starts_with_def)
qed

lemma backend_starts: "\<exists>y. electrum_client_new reachable (electrum_urls c) ttl m = Some y"
  using electrum_urls_usable(1)[of c] by (auto simp: electrum_client_new_def electrum_connect_def split: option.split)

subsection \<open>A start that succeeds\<close>

lemma started:
  assumes "startup su = Inr (st, ws, routes)"
  shows "config_load (su_load su) (config_path (su_args su)) = Inr (as_config st)"
    and "build_state su (as_config st) = Inr st"
    and "ws = background_workers (as_config st) (as_backend st \<noteq> None)"
    and "routes = build_router (co_features (as_config st))"
proof -
  obtain c where c: "config_load (su_load su) (config_path (su_args su)) = Inr c" "build_state su c = Inr st"
      "ws = background_workers c (as_backend st \<noteq> None)" "routes = build_router (co_features c)"
    using assms by (auto simp: startup_def map_sum_Inr_iff split: sum.splits)
  moreover have "as_config st = c" using c(2) by (auto simp: build_state_def Let_def split: sum.splits)
  ultimately show "config_load (su_load su) (config_path (su_args su)) = Inr (as_config st)"
    "build_state su (as_config st) = Inr st" "ws = background_workers (as_config st) (as_backend st \<noteq> None)"
    "routes = build_router (co_features (as_config st))" by simp_all
qed

lemma built_state:
  assumes "build_state su c = Inr st"
  shows "as_backend st \<noteq> None" "as_webhook_url st = webhook_url c"
    "ca_enabled (as_certification st) = cert_enabled (co_certification c)" "ca_token (as_certification st) = cert_token (co_certification c)"
  using assms by (auto simp: build_state_def Let_def or_fail_def map_sum_Inr_iff backend_starts certification_parse_def
      split: sum.splits)

text \<open>C38: A server that has started is guarded: the certification bypass is only ever granted for the configured
  token, which is not empty, and in production the webhook without a secret answers as if it did not
  exist and changes nothing.\<close>
theorem started_service_is_guarded:
  assumes "startup su = Inr (st, ws, routes)"
  shows "(allows_scope (su_net su) (as_certification st) trust scope peer headers \<longrightarrow>
      (\<exists>v. headers ''x-bullnym-certification-token'' = Some v \<and> v = cert_token (co_certification (as_config st)) \<and> v \<noteq> []))
    \<and> (li_env (su_load su) ''BULLNYM_RUNTIME_MODE'' = Some ''production'' \<longrightarrow>
      webhook_unauthenticated c env tol mx (co_boltz_webhook_url_secret (as_config st)) gate parse body db = (None, db))"
proof -
  let ?c = "as_config st"
  note valid = loaded_config_checked[OF started(1)[OF assms]] and built = built_state[OF started(2)[OF assms]]
  have "\<exists>v. headers ''x-bullnym-certification-token'' = Some v \<and> v = cert_token (co_certification ?c) \<and> v \<noteq> []"
    if "allows_scope (su_net su) (as_certification st) trust scope peer headers"
  proof -
    have "ca_enabled (as_certification st)" "header_token_valid (as_certification st) headers"
      using that by (simp_all add: allows_scope_def decide_def Let_def)
    then show ?thesis using valid(6) built(3,4) by (auto simp: header_token_valid_def split: option.splits if_splits)
  qed
  moreover have "webhook_unauthenticated c env tol mx (co_boltz_webhook_url_secret ?c) gate parse body db = (None, db)"
    if "li_env (su_load su) ''BULLNYM_RUNTIME_MODE'' = Some ''production''"
    using valid(9) that by (simp add: webhook_unauthenticated_def)
  ultimately show ?thesis by blast
qed

definition demo_startup :: "ip_addr startup_env" where
  "demo_startup = \<lparr>su_args = [], su_now = 0, su_load = demo_load_inputs, su_connect_db = (\<lambda>_ _. Inr ()),
     su_master_key = (\<lambda>_. Inr ()), su_net = demo_net, su_electrum_reachable = (\<lambda>_. False), su_lowercase = id,
     su_http_client_error = None, su_bind = (\<lambda>_. Inr ())\<rparr>"

lemma demo_start: "\<exists>st. startup demo_startup = Inr (st, background_workers demo_config True, build_router (co_features demo_config))
    \<and> as_config st = demo_config"
proof -
  have load: "config_load (su_load demo_startup) (config_path (su_args demo_startup)) = Inr demo_config"
    by (simp add: demo_startup_def config_path_def demo_load)
  have nets: "whitelist_parse demo_net (rc_ip_whitelist (co_rate_limit demo_config)) = Inr []"
    by (simp add: demo_config_def blank_config_def default_rate_limit_config_def whitelist_parse_def)
  have cert: "\<exists>a. certification_parse demo_net (cert_enabled (co_certification demo_config)) (cert_source_allowlist (co_certification demo_config))
      (cert_token (co_certification demo_config)) (cert_scopes (co_certification demo_config)) = Inr a"
    by (simp add: demo_config_def blank_config_def default_certification_config_def certification_parse_def)
  have same: "co_pricer demo_config = default_pricer_section" by (simp add: demo_config_def blank_config_def)
  have "case pricer_new id None (pricer_config_of default_pricer_section) of Inr _ \<Rightarrow> True | Inl _ \<Rightarrow> False" by code_simp
  then have pricer: "\<exists>v. pricer_new id None (pricer_config_of (co_pricer demo_config)) = Inr v"
    unfolding same by (cases "pricer_new id None (pricer_config_of default_pricer_section)") simp_all
  obtain st where st: "build_state demo_startup demo_config = Inr st" "as_config st = demo_config"
    using nets cert pricer by (auto simp: build_state_def demo_startup_def or_fail_def Let_def)
  have "su_bind demo_startup x = Inr ()" for x by (simp add: demo_startup_def)
  then show ?thesis using load st built_state(1)[OF st(1)] by (simp add: startup_def or_fail_def)
qed

theorem started_service_is_guarded_witness:
  "\<exists>st ws routes. startup demo_startup = Inr (st, ws, routes)
    \<and> webhook_unauthenticated demo_codec demo_env default_tolerances 5 (co_boltz_webhook_url_secret (as_config st)) None Inl ''x'' demo_db = (None, demo_db)"
proof -
  obtain st where st: "startup demo_startup = Inr (st, background_workers demo_config True, build_router (co_features demo_config))"
    using demo_start by blast
  have "li_env (su_load demo_startup) ''BULLNYM_RUNTIME_MODE'' = Some ''production''" by (simp add: demo_startup_def demo_load_inputs_def)
  then show ?thesis using started_service_is_guarded[OF st] st by blast
qed

end
