(* ===== verification/Workers.thy ===== *)
theory Workers
  imports Startup Webhooks ChainWatcher Gc
begin

text \<open>
  The loops of the background workers: \<open>run\<close> of src/src/gc.rs, src/src/chain_watcher.rs and
  src/src/bitcoin_watcher.rs, \<open>spawn\<close> of src/src/reconciler.rs and \<open>spawn_background_claimer\<close> of
  src/src/claimer.rs.  A loop is run over what wakes it: its shutdown or a tick, with what the world
  answers during that tick.  A tick is one step here; how the claims of several tasks interleave inside it
  is the step relation of theory Claimer.
\<close>

subsection \<open>The select loop\<close>

datatype 'e wake = Shutdown | Due 'e

text \<open>A loop has panicked, has returned, or waits for its next wake.\<close>
datatype 's life = Panicked | Returned 's | Running 's

fun select_loop :: "('e \<Rightarrow> 's \<Rightarrow> 's) \<Rightarrow> 'e wake list \<Rightarrow> 's \<Rightarrow> 's life" where
  "select_loop tick [] s = Running s"
| "select_loop tick (Shutdown # ws) s = Returned s"
| "select_loop tick (Due e # ws) s = select_loop tick ws (tick e s)"

text \<open>\<open>tokio::time::interval\<close> panics on a zero period.\<close>
definition with_intervals :: "nat list \<Rightarrow> 's life \<Rightarrow> 's life" where
  "with_intervals periods l = (if 0 \<in> set periods then Panicked else l)"

subsection \<open>Garbage collector\<close>

definition gc_run :: "gc_config \<Rightarrow> timestamp wake list \<Rightarrow> gc_state \<Rightarrow> gc_state life" where
  "gc_run cfg ws s = with_intervals [nat (gc_tick_secs cfg)] (select_loop (\<lambda>now t. snd (gc_tick cfg now t)) ws s)"

subsection \<open>Reconciler\<close>

text \<open>What one tick meets: the clock, the error of the listing query, and the answers of Boltz.\<close>
record reconciler_due =
  rd_now :: timestamp
  rd_list_error :: "string option"
  rd_remote :: "string \<Rightarrow> string option"

definition reconciler_arm :: "reconciler_config \<Rightarrow> reconciler_due \<Rightarrow> settlement_db \<Rightarrow> settlement_db" where
  "reconciler_arm cfg d db =
    (case rd_list_error d of
       Some e \<Rightarrow> db
     | None \<Rightarrow> run_one_tick (rd_now d) (int (reco_min_age_secs cfg)) (reco_max_per_tick cfg) (rd_remote d) db)"

definition reconciler_spawn :: "reconciler_config \<Rightarrow> reconciler_due wake list \<Rightarrow> settlement_db \<Rightarrow> settlement_db life" where
  "reconciler_spawn cfg ws db = with_intervals [reco_interval_secs cfg] (select_loop (reconciler_arm cfg) ws db)"

subsection \<open>Chain watcher\<close>

text \<open>Which of the two ticks is due, the error of its listing query, and the rounds of its two scans.\<close>
record ('script, 'out) chain_due =
  cd_active :: bool
  cd_now :: timestamp
  cd_list_error :: "string option"
  cd_nym_rounds :: "nat \<Rightarrow> nat \<Rightarrow> ('script, 'out) scan_round"
  cd_invoice_rounds :: "nat \<Rightarrow> ('script, 'out) scan_round"

type_synonym watcher_state = "limiter \<times> user_store \<times> invoice_store"

text \<open>A failed listing skips the rest of the tick, the invoices too.\<close>
definition chain_watcher_arm ::
  "chain_watcher_config \<Rightarrow> tolerances \<Rightarrow> ('script, 'out) chain_due \<Rightarrow> watcher_state \<Rightarrow> watcher_state" where
  "chain_watcher_arm cfg tol d st =
    (case cd_list_error d of
       Some e \<Rightarrow> st
     | None \<Rightarrow> (case st of (l, us, s) \<Rightarrow>
         chain_watcher_tick tol (cw_lookahead cfg) (cd_active d) (int (cw_active_window_secs cfg)) (cd_nym_rounds d)
           (cd_invoice_rounds d) (cd_now d) l us s))"

definition chain_watcher_run ::
  "chain_watcher_config \<Rightarrow> tolerances \<Rightarrow> ('script, 'out) chain_due wake list \<Rightarrow> watcher_state \<Rightarrow> watcher_state life" where
  "chain_watcher_run cfg tol ws st =
    with_intervals [cw_active_tick_secs cfg, cw_idle_tick_secs cfg] (select_loop (chain_watcher_arm cfg tol) ws st)"

subsection \<open>Bitcoin watcher\<close>

text \<open>The watcher in memory: its configuration, its tolerances and its bucket; the HTTP client is what answers.\<close>
record bitcoin_watcher =
  wt_cfg :: bitcoin_watcher_section
  wt_tolerances :: tolerances
  wt_bucket :: token_bucket

definition bitcoin_watcher_new ::
  "string option \<Rightarrow> int \<Rightarrow> bitcoin_watcher_section \<Rightarrow> tolerances \<Rightarrow> string + bitcoin_watcher" where
  "bitcoin_watcher_new http_error instant cfg tol =
    (case http_error of
       Some e \<Rightarrow> Inl e
     | None \<Rightarrow> Inr \<lparr>wt_cfg = cfg, wt_tolerances = tol, wt_bucket = token_bucket_new instant (bws_rate_per_sec cfg)\<rparr>)"

record bitcoin_due =
  bd_active :: bool
  bd_now :: timestamp
  bd_list_error :: "string option"
  bd_tip_reply :: "string http_reply"
  bd_rounds :: "nat \<Rightarrow> btc_round"

definition watched_section :: "bitcoin_watcher_section \<Rightarrow> bitcoin_watcher_config" where
  "watched_section cfg = \<lparr>bw_confirmations_required = bws_confirmations_required cfg,
     bw_active_window_secs = bws_active_window_secs cfg\<rparr>"

definition bitcoin_arm :: "bitcoin_due \<Rightarrow> bitcoin_watcher \<times> invoice_store \<Rightarrow> bitcoin_watcher \<times> invoice_store" where
  "bitcoin_arm d st =
    (case st of (w, s) \<Rightarrow>
     (case bd_list_error d of
        Some e \<Rightarrow> (w, s)
      | None \<Rightarrow>
         (case btc_poll_tier (watched_section (wt_cfg w)) (wt_tolerances w) (bd_active d) (bd_now d) (bd_tip_reply d)
             (bd_rounds d) (wt_bucket w) s of
            (b, s') \<Rightarrow> (w\<lparr>wt_bucket := b\<rparr>, s'))))"

definition bitcoin_watcher_loop :: "bitcoin_due wake list \<Rightarrow> bitcoin_watcher \<times> invoice_store \<Rightarrow> (bitcoin_watcher \<times> invoice_store) life" where
  "bitcoin_watcher_loop ws st =
    with_intervals [bws_active_tick_secs (wt_cfg (fst st)), bws_idle_tick_secs (wt_cfg (fst st))] (select_loop bitcoin_arm ws st)"

definition life_of_store :: "('w \<times> 's) life \<Rightarrow> 's life" where
  "life_of_store l = (case l of Panicked \<Rightarrow> Panicked | Returned st \<Rightarrow> Returned (snd st) | Running st \<Rightarrow> Running (snd st))"

text \<open>The entry point: off by configuration, or without a client, it returns at once.\<close>
definition bitcoin_watcher_run ::
  "string option \<Rightarrow> int \<Rightarrow> bitcoin_watcher_section \<Rightarrow> tolerances \<Rightarrow> bitcoin_due wake list \<Rightarrow> invoice_store \<Rightarrow> invoice_store life" where
  "bitcoin_watcher_run http_error instant cfg tol ws s =
    (if \<not> bws_enabled cfg then Returned s
     else case bitcoin_watcher_new http_error instant cfg tol of
       Inl e \<Rightarrow> Returned s
     | Inr w \<Rightarrow> life_of_store (bitcoin_watcher_loop ws (w, s)))"

subsection \<open>Background claimer\<close>

text \<open>One pass: the errors of its two listing queries, and what its claims meet.\<close>
record claimer_pass =
  cp_env :: claim_env
  cp_swaps_error :: "string option"
  cp_chain_error :: "string option"

text \<open>Without the list of reverse swaps the pass ends; without that of chain swaps it has none to claim.\<close>
definition claimer_sweep :: "tx_codec \<Rightarrow> tolerances \<Rightarrow> int \<Rightarrow> claimer_pass \<Rightarrow> settlement_db \<Rightarrow> settlement_db" where
  "claimer_sweep c tol max_attempts p db =
    (case cp_swaps_error p of
       Some e \<Rightarrow> db
     | None \<Rightarrow>
        (let env = cp_env p;
             db1 = fold (\<lambda>r d. snd (claim_swap c env tol max_attempts (sr_id r) d))
               (get_ready_to_claim_swaps (ce_now env) (sd_swaps db)) db;
             ready_chain = (case cp_chain_error p of
               Some e \<Rightarrow> [] | None \<Rightarrow> get_ready_to_claim_chain_swaps (ce_now env) (sd_chain db1))
         in fold (\<lambda>r d. snd (claim_chain_swap c env tol max_attempts (cs_id r) d)) ready_chain db1))"

text \<open>The first pass comes before the first wait; each wait ends with the shutdown or the next pass.\<close>
definition spawn_background_claimer ::
  "tx_codec \<Rightarrow> tolerances \<Rightarrow> int \<Rightarrow> claimer_pass \<Rightarrow> claimer_pass wake list \<Rightarrow> settlement_db \<Rightarrow> settlement_db life" where
  "spawn_background_claimer c tol max_attempts first ws db =
    select_loop (claimer_sweep c tol max_attempts) ws (claimer_sweep c tol max_attempts first db)"

end
