(* ===== verification/Program.thy ===== *)
theory Program
  imports Workers PageProperties DonationRender
begin

text \<open>
  The running server as a whole: the requests of every endpoint group, the webhook and the ticks of the
  workers that \<open>main\<close> of src/src/main.rs started, served one after another on the state they share
  (\<open>AppState\<close> and the database behind it).  The components keep their own parts of that state;
  the views below hand each component its part and put it back.
\<close>

subsection \<open>The shared state\<close>

text \<open>The tables, limiter, rate cache and image files; the webhook table; the bucket of the Bitcoin watcher.\<close>
record program =
  pr_pages :: page_state
  pr_webhooks :: "string list"
  pr_bucket :: token_bucket

abbreviation pr_service :: "program \<Rightarrow> service" where
  "pr_service p \<equiv> gs_service (pr_pages p)"

definition with_service :: "service \<Rightarrow> program \<Rightarrow> program" where
  "with_service s p = p\<lparr>pr_pages := (pr_pages p)\<lparr>gs_service := s\<rparr>\<rparr>"

definition settlement_of :: "program \<Rightarrow> settlement_db" where
  "settlement_of p = \<lparr>sd_ledger = sv_ledger (pr_service p), sd_swaps = sv_swaps (pr_service p),
     sd_chain = sv_chain (pr_service p), sd_users = us_users (sv_users (pr_service p)), sd_webhooks = pr_webhooks p\<rparr>"

definition with_settlement :: "settlement_db \<Rightarrow> program \<Rightarrow> program" where
  "with_settlement db p =
    (let s = pr_service p in
     (with_service (s\<lparr>sv_ledger := sd_ledger db, sv_swaps := sd_swaps db, sv_chain := sd_chain db,
        sv_users := (sv_users s)\<lparr>us_users := sd_users db\<rparr>\<rparr>) p)\<lparr>pr_webhooks := sd_webhooks db\<rparr>)"

definition gc_part :: "program \<Rightarrow> gc_state" where
  "gc_part p = \<lparr>gs_limiter = sv_limiter (pr_service p), gs_users = sv_users (pr_service p),
     gs_invoices = sv_ledger (pr_service p), gs_pos = sv_pos (pr_service p)\<rparr>"

definition with_gc_part :: "gc_state \<Rightarrow> program \<Rightarrow> program" where
  "with_gc_part g p = with_service ((pr_service p)\<lparr>sv_limiter := gs_limiter g, sv_users := gs_users g,
     sv_ledger := gs_invoices g, sv_pos := gs_pos g\<rparr>) p"

definition empty_program :: "limiter \<Rightarrow> rate_cache \<Rightarrow> file_system \<Rightarrow> token_bucket \<Rightarrow> program" where
  "empty_program l rates files b = \<lparr>pr_pages = \<lparr>gs_service =
       \<lparr>sv_limiter = l, sv_users = \<lparr>us_users = [], us_outpoints = []\<rparr>, sv_swaps = [], sv_chain = [],
        sv_pos = \<lparr>po_terminals = [], po_pages = []\<rparr>,
        sv_ledger = \<lparr>is_invoices = [], is_events = [], is_addresses = [], is_observations = []\<rparr>,
        sv_key_seq = 0, sv_rates = rates\<rparr>, gs_files = files\<rparr>,
     pr_webhooks = [], pr_bucket = b\<rparr>"

subsection \<open>What can happen\<close>

datatype page_view = Live_page string | Live_pos string | Page_manifest string | Pos_manifest string

text \<open>A webhook delivery: the secret in its address, if there is one, and its body, the answer of its rate gate, and what its claim meets.\<close>
record boltz_delivery =
  bz_env :: claim_env
  bz_gate :: "app_error option"
  bz_secret :: "string option"
  bz_body :: string

datatype ('script, 'out) program_event =
    Account_call "request \<times> account_request"
  | Invoice_call "request \<times> invoice_request"
  | Pos_call "request \<times> pos_request"
  | Page_call "request \<times> page_request"
  | View_call request pricer_reply page_view
  | Boltz_call boltz_delivery
  | Claimer_wakes claimer_pass
  | Reconciler_wakes reconciler_due
  | Gc_wakes timestamp
  | Sweep_wakes int
  | Chain_watcher_wakes "('script, 'out) chain_due"
  | Bitcoin_watcher_wakes bitcoin_due

text \<open>What the handlers were given at the start, and the workers that were started.\<close>
record ('net, 'd, 'pk, 'sg, 'ba, 'la, 'bk, 'xk, 'xs, 'img) program_env =
  pe_lnurl :: "('net, 'd, 'pk, 'sg) lnurl_env"
  pe_register :: "('net, 'd, 'xk, 'xs) register_env"
  pe_invoices :: "('net, 'd, 'ba, 'la, 'bk, 'xk, 'xs) invoice_env"
  pe_pos :: "('net, 'd, 'ba, 'la, 'bk, 'xk, 'xs) pos_env"
  pe_pages :: "('net, 'd, 'xk, 'xs, 'img) page_env"
  pe_render :: "'net render_env"
  pe_codec :: tx_codec
  pe_parse_webhook :: "string \<Rightarrow> string + string \<times> string"
  pe_config :: config
  pe_workers :: "worker list"

subsection \<open>Requests\<close>

definition serve_view ::
  "'net render_env \<Rightarrow> request \<Rightarrow> pricer_reply \<Rightarrow> page_view \<Rightarrow> service \<Rightarrow> service" where
  "serve_view env rq reply v s =
    (case v of
       Live_page path \<Rightarrow> snd (render_or_404 env rq reply path s)
     | Live_pos nym \<Rightarrow> snd (render_pos_or_404 env rq reply nym s)
     | Page_manifest nym \<Rightarrow> snd (manifest env rq nym s)
     | Pos_manifest nym \<Rightarrow> snd (pos_manifest env rq nym s))"

definition deliver ::
  "('net, 'd, 'pk, 'sg, 'ba, 'la, 'bk, 'xk, 'xs, 'img) program_env \<Rightarrow> boltz_delivery \<Rightarrow> settlement_db \<Rightarrow> settlement_db" where
  "deliver env d db =
    (let c = pe_config env; tol = tolerances_of (co_invoice_accounting c); mx = clm_max_claim_attempts (co_claim c) in
     snd (case bz_secret d of
       Some secret \<Rightarrow> webhook_with_secret (pe_codec env) (bz_env d) tol mx (co_boltz_webhook_url_secret c)
         (co_boltz_webhook_url_secret_previous c) (bz_gate d) (pe_parse_webhook env) secret (bz_body d) db
     | None \<Rightarrow> webhook_unauthenticated (pe_codec env) (bz_env d) tol mx (co_boltz_webhook_url_secret c)
         (bz_gate d) (pe_parse_webhook env) (bz_body d) db))"

subsection \<open>Ticks\<close>

fun worker_periods :: "worker \<Rightarrow> nat list" where
  "worker_periods (Reconciler_worker url cfg) = [reco_interval_secs cfg]"
| "worker_periods (Gc_worker cfg) = [nat (gc_tick_secs cfg)]"
| "worker_periods (Chain_watcher_worker cfg tol) = [cw_active_tick_secs cfg, cw_idle_tick_secs cfg]"
| "worker_periods (Bitcoin_watcher_worker cfg tol) = [bws_active_tick_secs cfg, bws_idle_tick_secs cfg]"
| "worker_periods w = []"

text \<open>What one worker does at an event: only its own wakes it.\<close>
fun worker_tick ::
  "('net, 'd, 'pk, 'sg, 'ba, 'la, 'bk, 'xk, 'xs, 'img) program_env \<Rightarrow> ('script, 'out) program_event
    \<Rightarrow> worker \<Rightarrow> program \<Rightarrow> program" where
  "worker_tick env e Background_claimer p =
     (case e of
        Claimer_wakes q \<Rightarrow> with_settlement (claimer_sweep (pe_codec env)
          (tolerances_of (co_invoice_accounting (pe_config env))) (clm_max_claim_attempts (co_claim (pe_config env))) q
          (settlement_of p)) p
      | _ \<Rightarrow> p)"
| "worker_tick env e (Reconciler_worker url cfg) p =
     (case e of Reconciler_wakes d \<Rightarrow> with_settlement (reconciler_arm cfg d (settlement_of p)) p | _ \<Rightarrow> p)"
| "worker_tick env e (Gc_worker cfg) p =
     (case e of Gc_wakes now \<Rightarrow> with_gc_part (snd (gc_tick cfg now (gc_part p))) p | _ \<Rightarrow> p)"
| "worker_tick env e (Limiter_sweep age) p =
     (case e of
        Sweep_wakes instant \<Rightarrow>
          (let s = pr_service p; l = sv_limiter s in
           with_service (s\<lparr>sv_limiter := l\<lparr>rl_inmem := snd (sweep_idle instant (secs (int age)) (rl_inmem l))\<rparr>\<rparr>) p)
      | _ \<Rightarrow> p)"
| "worker_tick env e (Chain_watcher_worker cfg tol) p =
     (case e of
        Chain_watcher_wakes d \<Rightarrow>
          (let s = pr_service p in
           case chain_watcher_arm cfg tol d (sv_limiter s, sv_users s, sv_ledger s) of
             (l, us, led) \<Rightarrow> with_service (s\<lparr>sv_limiter := l, sv_users := us, sv_ledger := led\<rparr>) p)
      | _ \<Rightarrow> p)"
| "worker_tick env e (Bitcoin_watcher_worker cfg tol) p =
     (case e of
        Bitcoin_watcher_wakes d \<Rightarrow>
          (case bitcoin_arm d (\<lparr>wt_cfg = cfg, wt_tolerances = tol, wt_bucket = pr_bucket p\<rparr>, sv_ledger (pr_service p)) of
             (w, led) \<Rightarrow> (with_service ((pr_service p)\<lparr>sv_ledger := led\<rparr>) p)\<lparr>pr_bucket := wt_bucket w\<rparr>)
      | _ \<Rightarrow> p)"

text \<open>A worker with a zero period died when it was started.\<close>
definition worker_wakes ::
  "('net, 'd, 'pk, 'sg, 'ba, 'la, 'bk, 'xk, 'xs, 'img) program_env \<Rightarrow> ('script, 'out) program_event \<Rightarrow> program \<Rightarrow> program" where
  "worker_wakes env e p =
    fold (\<lambda>w q. if 0 \<in> set (worker_periods w) then q else worker_tick env e w q) (pe_workers env) p"

subsection \<open>One event\<close>

fun happens ::
  "('net, 'd, 'pk, 'sg, 'ba, 'la, 'bk, 'xk, 'xs, 'img) program_env \<Rightarrow> ('script, 'out) program_event \<Rightarrow> program \<Rightarrow> program" where
  "happens env (Account_call q) p = with_service (serve (pe_lnurl env) (pe_register env) q (pr_service p)) p"
| "happens env (Invoice_call q) p = with_service (serve_invoice (pe_invoices env) q (pr_service p)) p"
| "happens env (Pos_call q) p = with_service (serve_pos (pe_pos env) q (pr_service p)) p"
| "happens env (Page_call q) p = p\<lparr>pr_pages := serve_page (pe_pages env) q (pr_pages p)\<rparr>"
| "happens env (View_call rq reply v) p = with_service (serve_view (pe_render env) rq reply v (pr_service p)) p"
| "happens env (Boltz_call d) p = with_settlement (deliver env d (settlement_of p)) p"
| "happens env e p = worker_wakes env e p"

end
