(* ===== verification/TableMoves.thy ===== *)
theory TableMoves
  imports Program RetryProperties WatcherProperties UserProperties
begin

text \<open>
  How each shared table may move while the whole program runs: its invariant survives and what must not be
  forgotten (who owns a nym, a credited invoice, a claimed terminal) stays.  Every operation of a
  component is shown to be such a move of the tables it touches.
\<close>

subsection \<open>Users\<close>

definition owners :: "user list \<Rightarrow> (string \<times> string) set" where
  "owners us = (\<lambda>u. (u_nym u, u_npub u)) ` set us"

text \<open>The unique indices hold; no cursor is promised here, since an index column wraps at its top.\<close>
definition users_unique :: "user list \<Rightarrow> bool" where
  "users_unique us \<longleftrightarrow> sorted_wrt users_apart us"

definition users_move :: "user list \<Rightarrow> user list \<Rightarrow> bool" where
  "users_move us us' \<longleftrightarrow> (users_unique us \<longrightarrow> users_unique us') \<and> owners us \<subseteq> owners us'"

lemma users_move_refl [simp]: "users_move us us"
  by (simp add: users_move_def)

lemma users_move_trans: "users_move us vs \<Longrightarrow> users_move vs ws \<Longrightarrow> users_move us ws"
  by (auto simp: users_move_def)

lemma unique_update:
  assumes "users_unique us"
    and "\<And>u v. u \<in> set us \<Longrightarrow> v \<in> set us \<Longrightarrow> users_apart u v
      \<Longrightarrow> users_apart (if P u then f u else u) (if P v then f v else v)"
  shows "users_unique (fst (update_where P f us))"
  using assms sorted_wrt_mono_rel[of us users_apart
      "\<lambda>u v. users_apart (if P u then f u else u) (if P v then f v else v)"]
  by (simp add: users_unique_def tables sorted_wrt_map)

lemma owners_update:
  assumes "\<And>u. u_nym (f u) = u_nym u \<and> u_npub (f u) = u_npub u"
  shows "owners (fst (update_where P f us)) = owners us"
proof -
  have "map (\<lambda>u. (u_nym u, u_npub u)) (fst (update_where P f us)) = map (\<lambda>u. (u_nym u, u_npub u)) us"
    by (rule update_where_map) (simp add: assms)
  then show ?thesis unfolding owners_def set_map[symmetric] by (rule arg_cong)
qed

text \<open>An update that activates nobody.\<close>
lemma users_move_update:
  assumes "\<And>u. u_id (f u) = u_id u \<and> u_nym (f u) = u_nym u \<and> u_npub (f u) = u_npub u
      \<and> (u_is_active (f u) \<longrightarrow> u_is_active u)"
  shows "users_move us (fst (update_where P f us))"
proof -
  have "users_apart (if P u then f u else u) (if P v then f v else v)" if "users_apart u v" for u v
    using that assms[of u] assms[of v] by (auto simp: users_apart_def)
  then show ?thesis using assms by (auto simp: users_move_def owners_update intro: unique_update)
qed

lemma users_move_insert: "insert_user u us = Inr us' \<Longrightarrow> users_move us us'"
  by (auto simp: users_move_def users_unique_def owners_def insert_user_def users_apart_def sorted_wrt_append
      split: if_splits)

lemma users_move_reactivate:
  assumes "get_user_by_npub npub us = None"
    and "\<And>u. u_id (f u) = u_id u \<and> u_nym (f u) = u_nym u \<and> u_npub (f u) = u_npub u"
  shows "users_move us (fst (update_where (\<lambda>u. u_npub u = npub \<and> u_nym u = nym \<and> \<not> u_is_active u) f us))"
proof -
  let ?P = "\<lambda>u. u_npub u = npub \<and> u_nym u = nym \<and> \<not> u_is_active u"
  have "users_apart (if ?P u then f u else u) (if ?P v then f v else v)"
    if "u \<in> set us" "v \<in> set us" "users_apart u v" for u v
    using that assms by (auto simp: users_apart_def get_user_by_npub_None)
  then show ?thesis using assms(2) by (auto simp: users_move_def owners_update intro: unique_update)
qed

lemma users_move_advance: "users_move us (advance_next_addr_idx nym i us)"
  unfolding advance_next_addr_idx_def by (rule users_move_update) simp

lemma users_move_step: "user_step s s' \<Longrightarrow> users_move (us_users s) (us_users s')"
proof (induction rule: user_step.induct)
  case (step_register now fid npub nym d v cap s out s')
  then show ?case
    by (cases rule: register_cases) (auto intro: users_move_insert users_move_reactivate)
next
  case (step_create now fid nym npub d s u us')
  then show ?case by (auto simp: create_user_def Let_def map_sum_Inr_iff intro: users_move_insert)
qed (auto simp: deactivate_user_def allocate_address_index_def Let_def mark_user_used_def users_move_advance
    touch_user_callback_def allocate_outpoint_address_def update_user_descriptor_def
    intro!: users_move_update split: option.splits)

lemma users_move_run: "user_step\<^sup>*\<^sup>* s s' \<Longrightarrow> users_move (us_users s) (us_users s')"
  by (induction rule: rtranclp_induct) (auto intro: users_move_trans users_move_step)

lemma users_move_allocate:
  "allocate_next_liquid_for_active_nym derive nym pas us = (r, us') \<Longrightarrow> users_move us us'"
  by (auto simp: allocate_next_liquid_for_active_nym_def Let_def intro!: users_move_update
      split: option.splits alloc_outcome.splits)

lemma users_move_index: "allocate_address_index nym us = (r, us') \<Longrightarrow> users_move us us'"
  by (auto simp: allocate_address_index_def Let_def intro!: users_move_update split: option.splits)

text \<open>A scan of the nyms' windows.\<close>
lemma users_move_window:
  assumes "scan_window env nym d base offset left l s = (l', s')"
  shows "users_move (us_users s) (us_users s')"
  using assms by (cases rule: scan_window_step) (simp_all add: users_move_advance)

lemma users_move_poll: "poll_nyms env lookahead k nyms l s = (l', s') \<Longrightarrow> users_move (us_users s) (us_users s')"
proof (induction nyms arbitrary: k l s)
  case (Cons row nyms)
  obtain nym d i where row: "row = (nym, d, i)" by (metis prod_cases3)
  obtain l1 t where w: "scan_window (env k) nym d (nat i) 0 (Suc lookahead) l s = (l1, t)" by fastforce
  show ?case
    using Cons users_move_trans[OF users_move_window[OF w] Cons.IH[of "Suc k" l1 t]] w
    by (auto simp: row split: if_splits)
qed simp

subsection \<open>Ledger\<close>

text \<open>What is kept of an invoice once money came in.\<close>
definition same_credit :: "invoice \<Rightarrow> invoice \<Rightarrow> bool" where
  "same_credit i i' \<longleftrightarrow> inv_id i' = inv_id i \<and> inv_npub_owner i' = inv_npub_owner i \<and> inv_amount_sat i' = inv_amount_sat i
     \<and> inv_liquid_address i' = inv_liquid_address i \<and> inv_bitcoin_address i' = inv_bitcoin_address i
     \<and> (inv_paid_at i \<noteq> None \<longrightarrow> inv_paid_at i' = inv_paid_at i) \<and> \<not> uncredited (inv_status i')"

definition credits_kept :: "invoice_store \<Rightarrow> invoice_store \<Rightarrow> bool" where
  "credits_kept l l' \<longleftrightarrow> (\<forall>i\<in>set (is_invoices l). \<not> uncredited (inv_status i)
     \<longrightarrow> (\<exists>i'\<in>set (is_invoices l'). same_credit i i'))"

definition ledger_moves :: "invoice_store \<Rightarrow> invoice_store \<Rightarrow> bool" where
  "ledger_moves l l' \<longleftrightarrow> (ledger_ok l \<longrightarrow> ledger_ok l' \<and> credits_kept l l')"

lemma ledger_moves_refl [simp]: "ledger_moves l l"
  by (auto simp: ledger_moves_def credits_kept_def same_credit_def)

lemma credits_kept_trans: "credits_kept l m \<Longrightarrow> credits_kept m n \<Longrightarrow> credits_kept l n"
  unfolding credits_kept_def same_credit_def by (metis (no_types, opaque_lifting))

lemma ledger_moves_trans: "ledger_moves l m \<Longrightarrow> ledger_moves m n \<Longrightarrow> ledger_moves l n"
  unfolding ledger_moves_def using credits_kept_trans by blast

lemma ledger_moves_step: "ledger_step l l' \<Longrightarrow> ledger_moves l l'"
  unfolding ledger_moves_def credits_kept_def
proof (intro impI conjI ballI)
  assume st: "ledger_step l l'" "ledger_ok l"
  show "ledger_ok l'" by (rule invoice_table.step_good[OF st])
  fix i assume i: "i \<in> set (is_invoices l)" "\<not> uncredited (inv_status i)"
  obtain i' where "i' \<in> set (is_invoices l')" "inv_id i' = inv_id i" "invoice_evolves i i'"
    using invoice_table.step_evolves[OF st i(1)] by blast
  moreover from this have "\<not> uncredited (inv_status i')"
    using i(2) by (cases "inv_status i"; cases "inv_status i'")
      (auto simp: invoice_evolves_def may_become_def uncredited_def)
  ultimately show "\<exists>i'\<in>set (is_invoices l'). same_credit i i'"
    by (auto simp: same_credit_def invoice_evolves_def intro!: bexI[of _ i'])
qed

lemma ledger_moves_run: "ledger_step\<^sup>*\<^sup>* l l' \<Longrightarrow> ledger_moves l l'"
  by (induction rule: rtranclp_induct) (auto intro: ledger_moves_trans ledger_moves_step)

lemma ledger_moves_discard:
  assumes "delete_unpaid_invoice_without_swaps iid swaps l = (n, l')"
  shows "ledger_moves l l'"
proof -
  have "i \<in> set (is_invoices l')" if "i \<in> set (is_invoices l)" "\<not> uncredited (inv_status i)" for i
    using assms that
    by (auto simp: delete_unpaid_invoice_without_swaps_def Let_def split_beta tables uncredited_def split: if_splits)
  then show ?thesis
    unfolding ledger_moves_def credits_kept_def same_credit_def using discard_ok[OF assms] by blast
qed

lemma ledger_moves_api: "api_step\<^sup>*\<^sup>* l l' \<Longrightarrow> ledger_moves l l'"
proof (induction rule: rtranclp_induct)
  case (step m n)
  from step.hyps(2) have "ledger_moves m n"
    by cases (auto intro: ledger_moves_step ledger_moves_discard)
  then show ?case using step.IH ledger_moves_trans by blast
qed simp

text \<open>An update of columns that carry no money.\<close>
lemma ledger_moves_rows:
  assumes "\<And>i. f i = i \<or> f i = i\<lparr>inv_terminal_id := None\<rparr> \<or> f i = i\<lparr>inv_settlement_status := x\<rparr>"
  shows "ledger_moves l (l\<lparr>is_invoices := map f (is_invoices l)\<rparr>)"
proof -
  have kept: "inv_id (f i) = inv_id i" "row_ok evs (f i) \<longleftrightarrow> row_ok evs i"
    "\<not> uncredited (inv_status i) \<Longrightarrow> same_credit i (f i)" for evs i
    using assms[of i] by (elim disjE; simp add: row_ok_def invoice_checks_def same_credit_def)+
  have "inv_id \<circ> f = inv_id" "inv_id ` f ` set is = inv_id ` set is" for "is"
    by (auto simp: kept(1) image_image)
  then have "ledger_ok (l\<lparr>is_invoices := map f (is_invoices l)\<rparr>) \<longleftrightarrow> ledger_ok l"
    by (simp add: ledger_ok_def kept(2))
  then show ?thesis
    using kept(3) by (auto simp: ledger_moves_def credits_kept_def)
qed

subsection \<open>Terminals and pages\<close>

definition pos_moves :: "pos_store \<Rightarrow> pos_store \<Rightarrow> bool" where
  "pos_moves p p' \<longleftrightarrow> (pos_ok p \<longrightarrow> pos_ok p' \<and> (\<forall>t\<in>set (po_terminals p). terminal_claimed t \<longrightarrow>
     (\<exists>t'\<in>set (po_terminals p'). pt_id t' = pt_id t \<and> terminal_evolves t t')))"

lemma pos_moves_refl [simp]: "pos_moves p p"
  by (auto simp: pos_moves_def intro: terminal_evolves_refl)

lemma pos_moves_trans: "pos_moves p q \<Longrightarrow> pos_moves q r \<Longrightarrow> pos_moves p r"
  unfolding pos_moves_def by (metis terminal_evolves_def terminal_evolves_trans)

lemma pos_moves_step: "pos_step p p' \<Longrightarrow> pos_moves p p'"
  unfolding pos_moves_def using pos_step_ok pos_step_evolves by fastforce

lemma pos_moves_pages: "(distinct (map dp_nym (po_pages p)) \<Longrightarrow> distinct (map dp_nym ps)) \<Longrightarrow> pos_moves p (p\<lparr>po_pages := ps\<rparr>)"
  by (auto simp: pos_moves_def pos_ok_def intro: terminal_evolves_refl)

lemma page_allocator_nyms:
  "allocate_next_liquid_for_donation_page derive nym pas ps = (r, ps') \<Longrightarrow> map dp_nym ps' = map dp_nym ps"
  by (auto simp: allocate_next_liquid_for_donation_page_def Let_def pages_nyms_update
      split: option.splits alloc_outcome.splits)

subsection \<open>Swaps\<close>

definition swaps_move :: "swap_record list \<Rightarrow> swap_record list \<Rightarrow> bool" where
  "swaps_move t t' \<longleftrightarrow> (swaps_ok t \<longrightarrow> swaps_ok t')"

lemma swaps_move_refl [simp]: "swaps_move t t"
  by (simp add: swaps_move_def)

lemma swaps_move_trans: "swaps_move t u \<Longrightarrow> swaps_move u v \<Longrightarrow> swaps_move t v"
  by (simp add: swaps_move_def)

lemma swaps_move_run: "swap_step\<^sup>*\<^sup>* t t' \<Longrightarrow> swaps_move t t'"
  unfolding swaps_move_def using swap_table.run_good by blast

lemma swaps_move_delete: "swaps_move t (fst (delete_where P t))"
  by (auto simp: swaps_move_def swaps_ok_def tables distinct_map_filter)

subsection \<open>The settlement path\<close>

text \<open>What a task does to the tables of the settlement database.\<close>
definition settlement_moves :: "settlement_db \<Rightarrow> settlement_db \<Rightarrow> bool" where
  "settlement_moves db db' \<longleftrightarrow> swap_step\<^sup>*\<^sup>* (sd_swaps db) (sd_swaps db') \<and> chain_step\<^sup>*\<^sup>* (sd_chain db) (sd_chain db')
     \<and> ledger_moves (sd_ledger db) (sd_ledger db') \<and> users_move (sd_users db) (sd_users db')"

lemma settlement_moves_refl [simp]: "settlement_moves db db"
  by (simp add: settlement_moves_def)

lemma settlement_moves_trans: "settlement_moves a b \<Longrightarrow> settlement_moves b c \<Longrightarrow> settlement_moves a c"
  unfolding settlement_moves_def by (meson rtranclp_trans users_move_trans ledger_moves_trans)

text \<open>A quiet operation that leaves the ledger and the users alone.\<close>
lemma settlement_moves_quiet:
  "quiet db db' \<Longrightarrow> sd_ledger db' = sd_ledger db \<Longrightarrow> users_move (sd_users db) (sd_users db') \<Longrightarrow> settlement_moves db db'"
  by (simp add: settlement_moves_def quiet_def)

lemma settlement_moves_ledger:
  "ledger_moves (sd_ledger db) l \<Longrightarrow> settlement_moves db (db\<lparr>sd_ledger := l\<rparr>)"
  by (simp add: settlement_moves_def)

lemma settle_mark_moves: "settlement_moves db (on_invoices (settle_mark oid st) db)"
proof -
  have "ledger_moves l (l\<lparr>is_invoices := settle_mark oid st (is_invoices l)\<rparr>)" for l
  proof (cases "mark_invoice_settlement_status oid st (is_invoices l)")
    case (Inr x)
    then show ?thesis
      using ledger_moves_step[OF ls_settlement[of oid st l "fst x" "snd x"]] by (simp add: settle_mark_def split_beta)
  qed (simp add: settle_mark_def)
  then show ?thesis unfolding on_invoices_def by (rule settlement_moves_ledger)
qed

lemma flip_moves: "settlement_moves db (on_invoices (flip_in_progress oid) db)"
proof -
  have "ledger_moves l (l\<lparr>is_invoices := flip_in_progress oid (is_invoices l)\<rparr>)" for l
  proof (cases oid)
    case (Some iid)
    let ?m = "l\<lparr>is_invoices := fst (mark_invoice_in_progress iid (is_invoices l))\<rparr>"
    let ?n = "?m\<lparr>is_invoices := settle_mark (Some iid) ''pending'' (is_invoices ?m)\<rparr>"
    have "ledger_moves l ?m" by (rule ledger_moves_step[OF ls_progress])
    moreover have "ledger_moves ?m ?n"
      using settle_mark_moves[of "undefined\<lparr>sd_ledger := ?m\<rparr>" "Some iid" "''pending''"]
      by (simp add: settlement_moves_def on_invoices_def)
    moreover have "flip_in_progress oid (is_invoices l) =
        (if 0 < snd (mark_invoice_in_progress iid (is_invoices l)) then is_invoices ?m else is_invoices ?n)"
      by (simp add: Some flip_in_progress_def settle_mark_def split_beta)
    ultimately show ?thesis using ledger_moves_trans[of l ?m ?n] by simp
  qed (simp add: flip_in_progress_def)
  then show ?thesis unfolding on_invoices_def by (rule settlement_moves_ledger)
qed

lemma record_moves: "ledger_moves l (record_or_log now u oid e tol l)"
  by (auto simp: record_or_log_def split: option.split sum.split intro: ledger_moves_step ls_record)

lemma resolve_moves: "resolve_claim_address env swap db = (r, db') \<Longrightarrow> settlement_moves db db'"
  by (frule quiet_resolve, erule settlement_moves_quiet)
    (auto simp: resolve_claim_address_def intro!: users_move_update split: option.splits if_splits sum.splits)

lemma prepare_moves:
  assumes "claim_swap_prepare c env sid db = (r, db')"
  shows "settlement_moves db db'"
proof -
  consider db1 swap r1 where "resolve_claim_address env swap db = (r1, db1)" "sd_ledger db' = sd_ledger db1" "sd_users db' = sd_users db1"
    | "db' = db"
    using assms by (cases rule: prepare_cases) auto
  then show ?thesis
    using resolve_moves quiet_prepare[OF assms] by cases (auto simp: settlement_moves_def quiet_def)
qed

lemma prepare_chain_moves:
  assumes "claim_chain_swap_prepare c env sid db = (r, db')"
  shows "settlement_moves db db'"
  using assms quiet_prepare_chain[OF assms] by (cases rule: chain_prepare_cases) (auto intro: settlement_moves_quiet)

lemma finish_moves: "settlement_moves db (claim_swap_finish env tol swap txid db)"
  "settlement_moves db (claim_chain_swap_finish env tol cswap txid db)"
proof -
  let ?u = "\<lambda>oid l. l\<lparr>is_invoices := settle_mark oid ''settled'' (is_invoices l)\<rparr>"
  have "ledger_moves l (record_or_log now u oid e tol (?u oid l))" for l now u oid e
    using settle_mark_moves[of "undefined\<lparr>sd_ledger := l\<rparr>" oid "''settled''"] record_moves ledger_moves_trans
    by (fastforce simp: settlement_moves_def on_invoices_def)
  then show "settlement_moves db (claim_swap_finish env tol swap txid db)"
    "settlement_moves db (claim_chain_swap_finish env tol cswap txid db)"
    using finish_tables[where db = db] finish_chain_tables[where db = db]
    by (simp_all add: settlement_moves_def claim_swap_finish_def claim_chain_swap_finish_def Let_def on_invoices_def
        flip_invoice_on_lightning_settlement_def flip_invoice_on_bitcoin_boltz_settlement_def)
qed

lemma failed_moves: "settlement_moves db (claim_swap_failed env mx sid e db)"
  "settlement_moves db (claim_chain_swap_failed env mx sid e db)"
proof -
  have marked: "ledger_moves l (l\<lparr>is_invoices := invs\<rparr>)"
    if m: "mark_invoice_settlement_status_for_swap sid st swaps (is_invoices l) = Inr (invs, k)" for l st swaps invs k
  proof -
    obtain x where x: "parse_settlement_status st = Inr x"
      using m by (auto simp: mark_invoice_settlement_status_for_swap_def split: sum.splits)
    let ?f = "\<lambda>i. if row_exists (\<lambda>r. sr_id r = sid \<and> sr_invoice_id r = Some (inv_id i)) swaps
        \<and> \<not> settlement_frozen i then i\<lparr>inv_settlement_status := x\<rparr> else i"
    have "invs = map ?f (is_invoices l)"
      using m x by (simp add: mark_invoice_settlement_status_for_swap_def update_where_def)
    moreover have "ledger_moves l (l\<lparr>is_invoices := map ?f (is_invoices l)\<rparr>)" by (rule ledger_moves_rows) auto
    ultimately show ?thesis by simp
  qed
  show "settlement_moves db (claim_swap_failed env mx sid e db)"
    using quiet_failed[of db] marked
    by (auto simp: settlement_moves_def quiet_def claim_swap_failed_def Let_def on_invoices_def split: prod.splits sum.splits)
  show "settlement_moves db (claim_chain_swap_failed env mx sid e db)"
    using quiet_failed_chain[of db] settle_mark_moves[of db]
    by (auto simp: settlement_moves_def quiet_def claim_chain_swap_failed_def Let_def on_invoices_def
        split: prod.splits option.splits)
qed

lemma action_moves: "settlement_moves db (apply_action now swap a db)"
proof -
  have "ledger_moves (sd_ledger db) (sd_ledger (apply_action now swap a db))
      \<and> sd_users (apply_action now swap a db) = sd_users db"
    using flip_moves[of db] settle_mark_moves[of db]
    by (cases a) (auto simp: apply_action_def Let_def on_invoices_def settlement_moves_def flip_invoice_on_lightning_in_progress_def)
  then show ?thesis using quiet_action[of db now swap a] by (simp add: settlement_moves_def quiet_def)
qed

text \<open>The entry points are composed of these.\<close>
lemma settlement_step_moves: "settlement_step c s s' \<Longrightarrow> settlement_moves (ss_db s) (ss_db s')"
proof (induction rule: settlement_step.induct)
  case (se_record_swap now fid n s swaps us)
  then have "us = sd_users (ss_db s) \<or> us = mark_user_used (the (ns_nym n)) (sd_users (ss_db s))"
    by (auto simp: record_swap_def split: if_splits option.splits)
  then have "users_move (sd_users (ss_db s)) us"
    unfolding mark_user_used_def by (auto intro: users_move_update)
  then show ?case using ss_record[OF se_record_swap] by (simp add: settlement_moves_def r_into_rtranclp)
next
  case (se_record_chain now fid nc s r chain)
  then show ?case by (simp add: settlement_moves_def cst_record r_into_rtranclp)
next
  case (se_direct e now unix_now iid tol s n led)
  then show ?case by (simp add: settlement_moves_ledger ledger_moves_step ls_record)
next
  case (se_event_id s w)
  then show ?case by (simp add: settlement_moves_def)
qed (auto simp: finish_moves failed_moves action_moves flip_moves settle_mark_moves
    intro: prepare_moves prepare_chain_moves settlement_moves_quiet[OF quiet_swaps] settlement_moves_quiet[OF quiet_chain]
      swap_steps cst_status)

lemma settlement_run_moves: "(settlement_step c)\<^sup>*\<^sup>* s s' \<Longrightarrow> settlement_moves (ss_db s) (ss_db s')"
  by (induction rule: rtranclp_induct) (auto intro: settlement_moves_trans settlement_step_moves)

lemma db_run_moves: "db_run c db db' \<Longrightarrow> settlement_moves db db'"
  unfolding db_run_def using settlement_run_moves[of c "\<lparr>ss_db = db, ss_flight = [], ss_chain_flight = []\<rparr>"] by fastforce

end
