(* ===== verification/ProgramProperties.thy ===== *)
theory ProgramProperties
  imports TableMoves StartupProperties
begin

text \<open>
  What holds of the running server as a whole: whatever requests, webhook deliveries and worker ticks are
  served, in whatever order, the tables keep their invariants and nothing that must not be forgotten is.
\<close>

subsection \<open>What one event may do to the tables\<close>

definition moves :: "service \<Rightarrow> service \<Rightarrow> bool" where
  "moves s s' \<longleftrightarrow> users_move (us_users (sv_users s)) (us_users (sv_users s')) \<and> ledger_moves (sv_ledger s) (sv_ledger s')
     \<and> pos_moves (sv_pos s) (sv_pos s') \<and> swaps_move (sv_swaps s) (sv_swaps s')
     \<and> (chain_swaps_ok (sv_chain s) \<longrightarrow> chain_swaps_ok (sv_chain s'))"

lemma moves_same:
  "sv_users s' = sv_users s \<Longrightarrow> sv_ledger s' = sv_ledger s \<Longrightarrow> sv_pos s' = sv_pos s \<Longrightarrow> sv_swaps s' = sv_swaps s
    \<Longrightarrow> sv_chain s' = sv_chain s \<Longrightarrow> moves s s'"
  by (simp add: moves_def)

lemma moves_users: "users_move (us_users (sv_users s)) (us_users us) \<Longrightarrow> moves s (s\<lparr>sv_users := us\<rparr>)"
  and moves_ledger: "ledger_moves (sv_ledger s) l \<Longrightarrow> moves s (s\<lparr>sv_ledger := l\<rparr>)"
  and moves_pos: "pos_moves (sv_pos s) p \<Longrightarrow> moves s (s\<lparr>sv_pos := p\<rparr>)"
  by (simp_all add: moves_def)

lemma moves_swap_stored: "changes moves (store_swap rq n)"
proof -
  have "moves s (s\<lparr>sv_swaps := t, sv_users := (sv_users s)\<lparr>us_users := us\<rparr>\<rparr>)"
    if "record_swap (rq_now rq) (rq_fresh_id rq) n (sv_swaps s, us_users (sv_users s)) = Inr (t, us)" for s t us
  proof -
    have "us = us_users (sv_users s) \<or> us = mark_user_used (the (ns_nym n)) (us_users (sv_users s))"
      using that by (auto simp: record_swap_def split: if_splits option.splits)
    then have "users_move (us_users (sv_users s)) us" unfolding mark_user_used_def by (auto intro: users_move_update)
    then show ?thesis using swaps_move_run[OF r_into_rtranclp[of swap_step, OF ss_record[OF that]]] by (simp add: moves_def)
  qed
  then show ?thesis
    by (auto simp: changes_def store_swap_def moves_same split: sum.split)
qed

interpretation moving: selling_effect moves
proof (unfold_locales, goal_cases)
  case (2 s t u)
  then show ?case
    unfolding moves_def using users_move_trans ledger_moves_trans pos_moves_trans swaps_move_trans by blast
next
  case (6 s now nym)
  then show ?case unfolding touch_user_callback_def by (intro moves_users) (auto intro: users_move_update)
next
  case (7 rq n)
  then show ?case by (rule moves_swap_stored)
next
  case (8 rq fid nc)
  then show ?case
    by (auto simp: changes_def store_chain_swap_def moves_def dest: chain_step_ok[OF cst_record] split: sum.split prod.split)
next
  case (9 derive nym pas s r ps)
  then show ?case by (auto intro: moves_pos pos_moves_step ps_allocate)
next
  case (10 derive nym pas s r ps)
  then show ?case using page_allocator_nyms by (auto intro!: moves_pos pos_moves_pages)
next
  case (11 derive nym pas s r us)
  from users_move_allocate[OF 11] show ?case by (intro moves_users) simp
qed (auto intro: moves_same)

subsection \<open>Account requests\<close>

text \<open>A statement that touches the users alone.\<close>
lemma moving_users:
  assumes "changes (account_effect made keys) m"
    and "\<And>s. sv_ledger (snd (m s)) = sv_ledger s \<and> sv_pos (snd (m s)) = sv_pos s \<and> sv_swaps (snd (m s)) = sv_swaps s
      \<and> sv_chain (snd (m s)) = sv_chain s"
  shows "changes moves m"
  using assms users_move_run by (simp add: changes_def moves_def account_effect_def)

lemma moving_account_rows:
  "changes moves (reserve_outpoint rq nym outp pk)" "changes moves (register_user rq r v cap)"
  "changes moves (set_descriptor npub d)" "changes moves (deactivate_registration npub)"
proof -
  note all = run_reserve[of "\<lambda>_. True"] run_register[of "\<lambda>_. True"] run_descriptor[of "\<lambda>_. True"]
    run_deactivate[of "\<lambda>_. True"]
  show "changes moves (reserve_outpoint rq nym outp pk)"
    by (rule moving_users[OF all(1)]) (auto simp: reserve_outpoint_def split: sum.split)
  show "changes moves (register_user rq r v cap)"
    by (rule moving_users[OF all(2)]) (auto simp: register_user_def split: sum.split)
  show "changes moves (set_descriptor npub d)"
    by (rule moving_users[OF all(3)]) (auto simp: set_descriptor_def split: prod.split option.split)
  show "changes moves (deactivate_registration npub)"
    by (rule moving_users[OF all(4)]) (auto simp: deactivate_registration_def split: prod.split)
qed

text \<open>A purge also drops the swaps of the nym and archives its page.\<close>
lemma moving_purge: "changes moves (purge_registration rq npub)"
proof -
  have "moves s (snd (purge_registration rq npub s))" for s
  proof -
    obtain out lc where p: "purge_user (rq_now rq) npub
        \<lparr>lc_users = sv_users s, lc_swaps = sv_swaps s, lc_pages = po_pages (sv_pos s)\<rparr> = (out, lc)" by fastforce
    have "user_step\<^sup>*\<^sup>* (sv_users s) (sv_users (snd (purge_registration rq npub s)))"
      using changes_at[OF run_purge[of "\<lambda>_. True" npub "\<lambda>_. True" rq], of s] by (simp add: account_effect_def)
    then have users: "users_move (us_users (sv_users s)) (us_users (lc_users lc))"
      using users_move_run by (fastforce simp: purge_registration_def p)
    have "swaps_move (sv_swaps s) (lc_swaps lc) \<and> pos_moves (sv_pos s) ((sv_pos s)\<lparr>po_pages := lc_pages lc\<rparr>)"
      using p
    proof (cases rule: purge_cases)
      case refused
      then show ?thesis by simp
    next
      case (purged u)
      then show ?thesis
        using swaps_move_delete[of "sv_swaps s" "\<lambda>r. sr_nym r = Some (u_nym u)"]
          pos_moves_step[OF ps_archive[of "sv_pos s" "rq_now rq" "u_nym u"]] by (simp add: tables)
    qed
    then show ?thesis using users by (simp add: purge_registration_def p moves_def)
  qed
  then show ?thesis by (simp add: changes_def)
qed

lemma moving_metadata_gate: "changes moves (gate_metadata_per_ip g rq nym)"
  unfolding gate_metadata_per_ip_def by (auto intro!: moving.eff moving.eff_limited split: option.split)

lemma moving_active_user: "changes moves (active_user nym)"
  unfolding active_user_def by (intro moving.eff)

lemma moving_reserved_index: "changes moves (reserved_index env rq nym params ip)"
  unfolding reserved_index_def prove_and_reserve_def rl_gate_def Let_def
  by (auto intro!: moving.eff moving.eff_limited moving_account_rows split: option.split prod.split)

lemma moving_soft_fallback:
  assumes "changes moves m" "changes moves n"
  shows "changes moves (soft_fallback m n)"
  unfolding changes_def
proof
  fix s
  obtain r s' where m: "m s = (r, s')" by fastforce
  have "moves s s'" "moves s' (snd (n s'))" using changesD[OF assms(1) m] changes_at[OF assms(2)] by simp_all
  then show "moves s (snd (soft_fallback m n s))"
    using m by (auto simp: soft_fallback_def intro: moving.trans split: sum.split liquid_outcome.split)
qed

lemma moving_callback: "changes moves (callback env rq nym params)"
proof -
  have "changes moves (serve_liquid env rq nym u params ip w)" for u ip w
    unfolding serve_liquid_def by (auto intro!: moving.eff moving.eff_touch moving_reserved_index)
  moreover have "changes moves (serve_lightning env rq nym amount ip w)" for amount ip w
    unfolding serve_lightning_def create_lightning_swap_def
    by (auto intro!: moving.eff moving.eff_limited moving.eff_key moving.eff_touch moves_swap_stored split: option.split)
  ultimately show ?thesis
    unfolding callback_def Let_def
    by (auto intro!: moving.eff moving.eff_limited moving_active_user moving_soft_fallback split: option.split)
qed

lemma moving_register_gate: "changes moves (gate_register_per_ip env rq)"
  unfolding gate_register_per_ip_def Let_def by (auto intro!: moving.eff moving.eff_limited split: option.split)

lemma moving_quota: "changes moves (quota_of env npub)"
  unfolding quota_of_def by (intro moving.eff)

lemma moving_claimed: "changes moves (claimed_registration npub nym)"
  unfolding claimed_registration_def by (intro moving.eff)

lemmas moving_account = moving.eff moving.eff_limited moving_register_gate moving_quota moving_claimed
  moving_account_rows moving_purge moving_metadata_gate moving_active_user

lemma moves_account: "moves s (serve le re q s)"
proof -
  obtain rq a where q: "q = (rq, a)" by fastforce
  have "changes moves (metadata le rq nym)" "changes moves (nostr_json le rq nym)" for nym
    unfolding metadata_def nostr_json_def by (intro moving_account)+
  moreover have "changes moves (register re rq r)" for r
    unfolding register_def register_ok_def Let_def
    by (auto intro!: moving_account split: option.split register_outcome.split)
  moreover have "changes moves (update_registration re rq r)" "changes moves (delete_registration re rq d)" for r d
    unfolding update_registration_def delete_registration_def by (auto intro!: moving_account)
  moreover have "changes moves (lookup_by_npub re rq npub)" for npub
    unfolding lookup_by_npub_def Let_def by (auto intro!: moving_account split: option.split prod.split list.split)
  moreover have "changes moves (list_reservations re rq nym t sg npub)" for nym t sg npub
    unfolding list_reservations_def by (intro moving_account)
  ultimately show ?thesis
    by (cases a) (simp_all add: q changes_at moving_callback)
qed

subsection \<open>Invoice requests\<close>

lemma chain_swaps_ok_delete: "chain_swaps_ok t \<Longrightarrow> chain_swaps_ok (fst (delete_where P t))"
  by (auto simp: chain_swaps_ok_def tables distinct_map_filter)

lemma moving_ledger_rows:
  "changes moves (store_invoice rq fid n)" "changes moves (discard_invoice iid)" "changes moves (cancel_row rq iid)"
  "changes moves (terminalize_stale env rq iid)"
proof -
  show "changes moves (store_invoice rq fid n)"
    by (auto simp: changes_def store_invoice_def moving.refl intro: moves_ledger ledger_moves_step ls_insert split: sum.split)
  show "changes moves (discard_invoice iid)"
    unfolding discard_invoice_def
    by (rule moving.eff_modifies)
      (auto simp: moves_def chain_swaps_ok_delete dest: ledger_moves_discard split: prod.split)
  show "changes moves (cancel_row rq iid)"
    by (auto simp: changes_def cancel_row_def moving.refl intro: moves_ledger ledger_moves_step ls_cancel split: sum.split)
  show "changes moves (terminalize_stale env rq iid)"
    unfolding terminalize_stale_def by (intro moving.eff_modifies moves_ledger ledger_moves_step ls_stale)
qed

lemmas moving_invoices = moving.eff moving.eff_offers moving_ledger_rows

lemma moving_checkout: "changes moves (create_checkout_invoice_inner env rq fresh nym r opts)"
  unfolding create_checkout_invoice_inner_def eager_lightning_offer_def Let_def
  by (auto intro!: moving_invoices split: prod.split sum.split)

lemma moves_invoice: "moves s (serve_invoice env q s)"
proof -
  obtain rq a where q: "q = (rq, a)" by fastforce
  have "changes moves (create_invoice_inner env rq fresh nym r)" for fresh nym r
    unfolding create_invoice_inner_def by (auto intro!: moving_invoices split: option.split prod.split)
  moreover have "changes moves (cancel_invoice_inner env rq nym id_str c)" for nym id_str c
    unfolding cancel_invoice_inner_def by (auto intro!: moving_invoices split: option.split)
  moreover have "changes moves (fetch_lightning_offer env rq sid id_str)" for sid id_str
    unfolding fetch_lightning_offer_def by (intro moving_invoices)
  moreover have "changes moves (invoice_status_endpoint env rq id_str)" for id_str
    unfolding invoice_status_endpoint_def latest_reusable_lightning_offer_def by (auto intro!: moving_invoices)
  moreover have "changes moves (list_signed env rq l)" for l
    unfolding list_signed_def Let_def by (intro moving_invoices)
  moreover have "changes moves (render_payment env nym id_str)" "changes moves (render_unlinked_payment env id_str)" for nym id_str
    unfolding render_payment_def render_unlinked_payment_def by (intro moving_invoices)+
  ultimately show ?thesis
    by (cases a) (simp_all add: q changes_at moving_checkout split: option.split)
qed

subsection \<open>POS requests\<close>

lemma moving_pos_rows:
  "changes moves (insert_pairing rq nym tok code)" "changes moves (claim_row rq nym code npub label d)"
  "changes moves (revoke_row rq tid npub)" "changes moves (authenticate_terminal env rq nym)"
proof -
  show "changes moves (insert_pairing rq nym tok code)"
    by (auto simp: changes_def insert_pairing_def moving.refl intro: moves_pos pos_moves_step ps_pair split: sum.split)
  show "changes moves (claim_row rq nym code npub label d)"
    by (auto simp: changes_def claim_row_def moving.refl intro: moves_pos pos_moves_step ps_claim split: sum.split)
  show "changes moves (revoke_row rq tid npub)"
    by (auto simp: changes_def revoke_row_def split_beta intro: moves_pos pos_moves_step ps_revoke)
  show "changes moves (authenticate_terminal env rq nym)"
    unfolding authenticate_terminal_def by (intro moving.eff moving.eff_modifies moves_pos pos_moves_step ps_touch)
qed

lemmas moving_pos = moving_invoices moving_pos_rows moving.eff_pos_gates moving.eff_not_archived

lemma moves_pos_request: "moves s (serve_pos env q s)"
proof -
  obtain rq a where q: "q = (rq, a)" by fastforce
  have "changes moves (create_pairing env rq bytes nym tok)" for bytes nym tok
    unfolding create_pairing_def Let_def by (intro moving_pos)
  moreover have "changes moves (claim_pairing env rq r)" for r
    unfolding claim_pairing_flat by (auto intro!: moving_pos split: option.split)
  moreover have "changes moves (poll_pairing env rq nym tid tok)" for nym tid tok
    unfolding poll_pairing_def by (intro moving_pos)
  moreover have "changes moves (create_terminal_invoice env rq fresh nym r)" for fresh nym r
    unfolding create_terminal_invoice_def by (auto intro!: moving_pos moving_checkout)
  moreover have "changes moves (list_terminal_invoices env rq nym p n f)" for nym p n f
    unfolding list_terminal_invoices_def by (auto intro!: moving_pos)
  moreover have "changes moves (cancel_terminal_invoice env rq nym iid)" for nym iid
    unfolding cancel_terminal_invoice_def by (intro moving_pos)
  moreover have "changes moves (list_terminals env rq t)" "changes moves (revoke_terminal_endpoint env rq tid t)" for tid t
    unfolding list_terminals_def revoke_terminal_endpoint_def by (intro moving_pos)+
  ultimately show ?thesis by (cases a) (simp_all add: q changes_at)
qed

subsection \<open>Page requests and page views\<close>

definition page_moves :: "page_state \<Rightarrow> page_state \<Rightarrow> bool" where
  "page_moves p p' \<longleftrightarrow> moves (gs_service p) (gs_service p')"

interpretation page_moving: effect page_moves
  by unfold_locales (auto simp: page_moves_def moving.refl intro: moving.trans)

lemma moving_on_service: "changes moves m \<Longrightarrow> changes page_moves (on_service m)"
  by (simp add: changes_def page_moves_def on_service_def split_beta)

lemma moving_on_files: "changes page_moves (on_files m)"
  by (simp add: changes_def page_moves_def on_files_def split_beta moving.refl)

lemma hash_nyms: "update_donation_page_image_hash nym col sha ps = Inr (row, ps') \<Longrightarrow> map dp_nym ps' = map dp_nym ps"
  by (auto simp: update_donation_page_image_hash_def Let_def pages_nyms_update split: if_splits)

lemma moving_page_rows:
  "changes moves (upsert_row u)" "changes moves (archive_row rq nym)" "changes moves (image_hash_row reply nym col sha)"
proof -
  show "changes moves (upsert_row u)"
    by (auto simp: changes_def upsert_row_def Let_def moving.refl intro: moves_pos pos_moves_step ps_upsert split: option.split)
  show "changes moves (archive_row rq nym)"
    by (auto simp: changes_def archive_row_def split_beta intro: moves_pos pos_moves_step ps_archive)
  show "changes moves (image_hash_row reply nym col sha)"
    by (auto simp: changes_def image_hash_row_def moving.refl dest!: hash_nyms intro!: moves_pos pos_moves_pages split: sum.split row_update.split)
qed

lemma moves_page: "page_moves p (serve_page env q p)"
proof -
  obtain rq a where q: "q = (rq, a)" by fastforce
  have "changes moves (save_page env rq r)" for r
    unfolding save_page_def validate_lengths_def
    by (auto intro!: moving.eff moving.eff_page_gate moving.eff_owner moving_page_rows split: option.split)
  moreover have "changes moves (archive_page env rq r)" "changes moves (get_page env rq nym)" for r nym
    unfolding archive_page_def get_page_def
    by (intro moving.eff moving.eff_page_gate moving.eff_owner moving_page_rows)+
  moreover have "changes page_moves (upload_image env rq ui body)" for ui body
    unfolding upload_image_def upload_checks_def persist_image_def complete_form_def
    by (auto intro!: page_moving.eff moving_on_service moving_on_files moving.eff moving.eff_page_gate moving.eff_limited
        moving.eff_owner moving_page_rows)
  ultimately show ?thesis by (cases a) (simp_all add: q changes_at moving_on_service)
qed

lemma moving_respond: "changes moves m \<Longrightarrow> moves s (snd (respond m s))"
  using changes_at[of moves m s] by (auto simp: respond_def split: prod.split sum.split)

lemma moves_view: "moves s (serve_view env rq reply v s)"
proof -
  have gate: "changes moves (check_donation_rate_limit env rq b)" for b
    unfolding check_donation_rate_limit_def by (intro moving.eff moving.eff_page_gate)
  have "changes moves (page_rate env rq reply c)" for c
    by (auto simp: changes_def page_rate_def moves_same split: prod.split)
  then have live: "changes moves (render_live env rq reply page kind)" for page kind
    unfolding render_live_def by (intro moving.eff)
  have slug: "changes moves (known_slug nym otherwise)" "changes moves (placeholder_or_404 nym)" for nym otherwise
    unfolding known_slug_def placeholder_or_404_def by (intro moving.eff)+
  show ?thesis
    by (cases v)
      (auto simp: serve_view_def render_or_404_def render_pos_or_404_def manifest_def pos_manifest_def manifest_for_kind_def
        manifest_page_def Let_def intro!: moving_respond moving.eff gate live slug split: option.split)
qed

subsection \<open>Settlement tasks and workers\<close>

lemma moves_settlement:
  assumes "settlement_moves (settlement_of p) db"
  shows "moves (pr_service p) (pr_service (with_settlement db p))"
  using assms swaps_move_run chain_table.run_good
  by (auto simp: settlement_moves_def settlement_of_def with_settlement_def with_service_def moves_def Let_def)

lemma sweep_moves: "settlement_moves db (claimer_sweep c tol mx q db)"
proof -
  have "db_run c db (claimer_sweep c tol mx q db)"
    unfolding claimer_sweep_def Let_def 
    by (auto intro!: db_run_trans[OF db_run_fold db_run_fold] db_run_fold run_claim_swap run_claim_chain_swap split: option.split)
  then show ?thesis by (rule db_run_moves)
qed

lemma reconciler_moves: "settlement_moves db (reconciler_arm cfg d db)"
  unfolding reconciler_arm_def by (auto intro: db_run_moves run_tick split: option.split)

lemma deliver_moves: "settlement_moves db (deliver env d db)"
  using db_run_moves[OF run_dispatch]
  by (auto simp: deliver_def Let_def webhook_with_secret_def webhook_unauthenticated_def apfst_def split_beta
      split: option.split url_secret_match.split)

lemma gc_moves: "moves (pr_service p) (pr_service (with_gc_part (snd (gc_tick cfg now (gc_part p))) p))"
proof -
  let ?s = "pr_service p"
  obtain n5 ts invs1 where purge: "purge_expired_unclaimed_terminals now (gc_pos_pairing_purge_grace_secs cfg)
      (po_terminals (sv_pos ?s), fst (expire_invoices_past_deadline now (is_invoices (sv_ledger ?s)))) = (n5, ts, invs1)"
    by (metis prod_cases3)
  let ?l1 = "(sv_ledger ?s)\<lparr>is_invoices := fst (expire_invoices_past_deadline now (is_invoices (sv_ledger ?s)))\<rparr>"
  let ?l2 = "?l1\<lparr>is_invoices := invs1\<rparr>"
  let ?l3 = "?l2\<lparr>is_invoices := fst (terminalize_stale_checkout_partial_invoices now
      (gc_checkout_partial_terminal_grace_secs cfg) (is_events ?l2) (is_invoices ?l2))\<rparr>"
  have "ledger_moves (sv_ledger ?s) ?l1" by (rule ledger_moves_step[OF ls_expire])
  moreover have "ledger_moves ?l1 ?l2"
  proof -
    let ?gone = "map pt_id (filter (\<lambda>t. \<not> terminal_claimed t
        \<and> pt_pairing_expires_at t < now - secs (gc_pos_pairing_purge_grace_secs cfg)) (po_terminals (sv_pos ?s)))"
    have "invs1 = map (\<lambda>i. case inv_terminal_id i of Some t \<Rightarrow> if t \<in> set ?gone then i\<lparr>inv_terminal_id := None\<rparr> else i
        | None \<Rightarrow> i) (is_invoices ?l1)"
      using purge unfolding purge_expired_unclaimed_terminals_def Let_def by simp
    then show ?thesis by (simp only:) (rule ledger_moves_rows, auto split: option.split)
  qed
  moreover have "ledger_moves ?l2 ?l3" by (rule ledger_moves_step[OF ls_stale_bulk])
  ultimately have "ledger_moves (sv_ledger ?s) ?l3" using ledger_moves_trans by blast
  moreover have "pos_moves (sv_pos ?s) ((sv_pos ?s)\<lparr>po_terminals := ts\<rparr>)" by (rule pos_moves_step[OF ps_purge[OF purge]])
  ultimately show ?thesis
    by (simp add: gc_tick_def gc_part_def with_gc_part_def with_service_def moves_def purge split_beta Let_def)
qed

lemma watcher_moves:
  assumes "chain_watcher_arm cfg tol d (sv_limiter s, sv_users s, sv_ledger s) = (l, us, led)"
  shows "moves s (s\<lparr>sv_limiter := l, sv_users := us, sv_ledger := led\<rparr>)"
proof (cases "cd_list_error d")
  case None
  let ?nyms = "if cd_active d then list_recently_active_nyms_for_watcher (cd_now d) (int (cw_active_window_secs cfg)) (us_users (sv_users s))
       else list_active_nyms_for_watcher (us_users (sv_users s))"
  obtain l1 where n: "poll_nyms (cd_nym_rounds d) (cw_lookahead cfg) 0 ?nyms (sv_limiter s) (sv_users s) = (l1, us)"
    and p: "poll_invoice_addresses tol (cd_invoice_rounds d) (cd_now d) l1 (sv_ledger s) = (l, led)"
    using assms None by (auto simp: chain_watcher_arm_def chain_watcher_tick_def split: prod.splits)
  have "ledger_step\<^sup>*\<^sup>* (sv_ledger s) led"
    using p poll_addresses_watched watched_run unfolding poll_invoice_addresses_def by blast
  then show ?thesis using users_move_poll[OF n] by (simp add: moves_def ledger_moves_run)
qed (use assms in \<open>simp add: chain_watcher_arm_def moves_same\<close>)

lemma bitcoin_moves:
  assumes "bitcoin_arm d (w, l) = (w', l')"
  shows "ledger_moves l l'"
proof (cases "bd_list_error d")
  case None
  then obtain b where "btc_poll_tier (watched_section (wt_cfg w)) (wt_tolerances w) (bd_active d) (bd_now d) (bd_tip_reply d)
      (bd_rounds d) (wt_bucket w) l = (b, l')"
    using assms by (auto simp: bitcoin_arm_def split: prod.splits)
  then have "ledger_step\<^sup>*\<^sup>* l l'" by (cases rule: poll_tier_watched) (auto intro: watched_run)
  then show ?thesis by (rule ledger_moves_run)
qed (use assms in \<open>auto simp: bitcoin_arm_def\<close>)

lemma moves_tick: "moves (pr_service p) (pr_service (worker_tick env e w p))"
proof (cases w)
  case (Limiter_sweep age)
  then show ?thesis by (cases e) (simp_all add: with_service_def Let_def moves_same)
next
  case (Chain_watcher_worker cfg tol)
  then show ?thesis
    by (cases e) (auto simp: with_service_def Let_def moving.refl intro: watcher_moves split: prod.split)
next
  case (Bitcoin_watcher_worker cfg tol)
  then show ?thesis
    by (cases e) (auto simp: with_service_def moving.refl intro: moves_ledger bitcoin_moves split: prod.split)
qed (cases e; simp add: moving.refl moves_settlement sweep_moves reconciler_moves gc_moves)+

lemma moves_wakes: "moves (pr_service p) (pr_service (worker_wakes env e p))"
proof -
  have "moves (pr_service q) (pr_service (fold (\<lambda>w q. if 0 \<in> set (worker_periods w) then q else worker_tick env e w q) ws q))" for ws q
    by (induction ws arbitrary: q) (auto simp: moving.refl intro: moving.trans moves_tick)
  then show ?thesis by (simp add: worker_wakes_def)
qed

subsection \<open>The program\<close>

lemma happens_moves: "moves (pr_service p) (pr_service (happens env e p))"
  using moves_page[of "pr_pages p"]
  by (cases e) (simp_all add: with_service_def page_moves_def moves_account moves_invoice moves_pos_request moves_view
      moves_settlement deliver_moves moves_wakes)

lemma run_moves: "moves (pr_service p) (pr_service (fold (happens env) es p))"
  by (induction es arbitrary: p) (auto simp: moving.refl intro: moving.trans happens_moves)

definition tables_good :: "service \<Rightarrow> bool" where
  "tables_good s \<longleftrightarrow> ledger_ok (sv_ledger s) \<and> users_unique (us_users (sv_users s)) \<and> pos_ok (sv_pos s)
     \<and> swaps_ok (sv_swaps s) \<and> chain_swaps_ok (sv_chain s)"

lemma moves_good: "moves s s' \<Longrightarrow> tables_good s \<Longrightarrow> tables_good s'"
  by (auto simp: moves_def tables_good_def users_move_def ledger_moves_def pos_moves_def swaps_move_def)

lemma empty_good: "tables_good (pr_service (empty_program l rates files b))"
  by (simp add: tables_good_def empty_program_def ledger_ok_def no_double_credit_def users_unique_def pos_ok_def swaps_ok_def
      chain_swaps_ok_def)

text \<open>C5: From an empty database, whatever requests, webhook deliveries and worker ticks are served, accepted, refused
  or failing half way, in whatever order and whatever the outside world answers, every table keeps its invariant:
  an invoice is credited exactly what its payment events sum to and no payment counts twice, a nym has one row and
  a key at most one active nym, terminals and pairing codes are unique and consistent, a page is unique per nym, and
  every swap row has a known status.\<close>
theorem the_program_keeps_its_tables:
  fixes es :: "('script, 'out) program_event list"
  shows "let s = pr_service (fold (happens env) es (empty_program l rates files b)) in
    ledger_ok (sv_ledger s) \<and> sorted_wrt users_apart (us_users (sv_users s)) \<and> pos_ok (sv_pos s)
    \<and> swaps_ok (sv_swaps s) \<and> chain_swaps_ok (sv_chain s)"
  using moves_good[OF run_moves empty_good, of env es l rates files b]
  unfolding tables_good_def users_unique_def Let_def .

text \<open>C6: Nothing the users rely on is forgotten: whatever is served from a state whose tables are good on, a credited
  invoice is still there, still credited, with its amount, addresses, owner and first payment time; every nym
  ever given out still belongs to the same key; and a claimed terminal still belongs to whom it did and, once revoked,
  stays revoked.\<close>
theorem the_program_forgets_nothing:
  fixes es :: "('script, 'out) program_event list"
  assumes "s = pr_service p" "s' = pr_service (fold (happens env) es p)" "tables_good s"
  shows "(\<forall>i\<in>set (is_invoices (sv_ledger s)). \<not> uncredited (inv_status i)
      \<longrightarrow> (\<exists>i'\<in>set (is_invoices (sv_ledger s')). same_credit i i'))
    \<and> (\<forall>u\<in>set (us_users (sv_users s)). \<exists>u'\<in>set (us_users (sv_users s')). u_nym u' = u_nym u \<and> u_npub u' = u_npub u)
    \<and> (\<forall>t\<in>set (po_terminals (sv_pos s)). terminal_claimed t
      \<longrightarrow> (\<exists>t'\<in>set (po_terminals (sv_pos s')). pt_id t' = pt_id t \<and> terminal_evolves t t'))"
proof -
  have m: "moves s s'" unfolding assms(1,2) by (rule run_moves)
  have "\<exists>u'\<in>set (us_users (sv_users s')). u_nym u' = u_nym u \<and> u_npub u' = u_npub u" if "u \<in> set (us_users (sv_users s))" for u
    using m that by (fastforce simp: moves_def users_move_def owners_def)
  then show ?thesis
    using m assms(3) by (auto simp: moves_def tables_good_def ledger_moves_def credits_kept_def pos_moves_def)
qed

definition demo_program :: "limiter \<Rightarrow> rate_cache \<Rightarrow> file_system \<Rightarrow> token_bucket \<Rightarrow> program" where
  "demo_program l rates files b = (let p = empty_program l rates files b
     in with_service ((pr_service p)\<lparr>sv_ledger := demo_s2\<rparr>) p)"

theorem the_program_forgets_nothing_witness:
  "\<forall>env l rates files b.
     \<exists>i'\<in>set (is_invoices (sv_ledger (pr_service (happens (env\<lparr>pe_workers := [Gc_worker default_gc_config]\<rparr>)
       (Gc_wakes (secs 9999)) (demo_program l rates files b))))). inv_id i' = 1 \<and> \<not> uncredited (inv_status i')"
proof (intro allI)
  fix env l rates files b
  have "ledger_ok demo_s2" by (rule reachable_ok[OF demo_run])
  then have "tables_good (pr_service (demo_program l rates files b))"
    using empty_good[of l rates files b]
    by (simp add: demo_program_def tables_good_def with_service_def Let_def)
  note kept = the_program_forgets_nothing[OF refl refl this, of "env\<lparr>pe_workers := [Gc_worker default_gc_config]\<rparr>" "[Gc_wakes (secs 9999)]",
    THEN conjunct1, rule_format]
  let ?i = "hd (is_invoices demo_s2)"
  have "?i \<in> set (is_invoices (sv_ledger (pr_service (demo_program l rates files b))))" "inv_id ?i = 1" "\<not> uncredited (inv_status ?i)"
    by (simp_all add: demo_program_def with_service_def Let_def demo_s2_def demo_invoice_def invoice_of_new_def)
  with kept show "\<exists>i'\<in>set (is_invoices (sv_ledger (pr_service (happens (env\<lparr>pe_workers := [Gc_worker default_gc_config]\<rparr>)
       (Gc_wakes (secs 9999)) (demo_program l rates files b))))). inv_id i' = 1 \<and> \<not> uncredited (inv_status i')"
    by (fastforce simp: same_credit_def)
qed

subsection \<open>The life of a worker\<close>

text \<open>The ticks before the shutdown, and how a loop that went through them ends.\<close>
definition ticks_of :: "'e wake list \<Rightarrow> 'e list" where
  "ticks_of ws = [e. Due e \<leftarrow> takeWhile (\<lambda>w. w \<noteq> Shutdown) ws]"

definition life_after :: "'e wake list \<Rightarrow> 's \<Rightarrow> 's life" where
  "life_after ws s = (if Shutdown \<in> set ws then Returned s else Running s)"

lemma select_loop_ticks: "select_loop tick ws s = life_after ws (fold tick (ticks_of ws) s)"
proof (induction ws arbitrary: s)
  case (Cons w ws)
  then show ?case by (cases w) (simp_all add: life_after_def ticks_of_def)
qed (simp add: life_after_def ticks_of_def)

text \<open>A worker that was started with positive periods lives until the shutdown: no error of a query, of a remote
  party or of a claim ends it, it runs every tick before the shutdown and none after.  With a zero period, which the
  configuration accepts, it panics before its first tick; the claimer has no period.\<close>
theorem workers_live_until_shutdown:
  "gc_run gcfg gws g = (if 0 < gc_tick_secs gcfg
     then life_after gws (fold (\<lambda>now t. snd (gc_tick gcfg now t)) (ticks_of gws) g) else Panicked)
   \<and> reconciler_spawn rcfg rws db = (if 0 < reco_interval_secs rcfg
     then life_after rws (fold (reconciler_arm rcfg) (ticks_of rws) db) else Panicked)
   \<and> chain_watcher_run ccfg tol cws st = (if 0 < cw_active_tick_secs ccfg \<and> 0 < cw_idle_tick_secs ccfg
     then life_after cws (fold (chain_watcher_arm ccfg tol) (ticks_of cws) st) else Panicked)
   \<and> spawn_background_claimer c tol mx first sws db =
     life_after sws (fold (claimer_sweep c tol mx) (first # ticks_of sws) db)"
  by (simp add: gc_run_def reconciler_spawn_def chain_watcher_run_def spawn_background_claimer_def with_intervals_def
      select_loop_ticks)

subsection \<open>What a started server hears\<close>

text \<open>The characters of a host with a port, and those that stand for themselves in the path of a URL.\<close>
definition host_char :: "char \<Rightarrow> bool" where
  "host_char ch \<longleftrightarrow> nym_alnum ch \<or> ch \<in> {CHR ''-'', CHR ''.'', CHR '':''}"

definition url_safe :: "char \<Rightarrow> bool" where
  "url_safe ch \<longleftrightarrow> nym_alnum ch \<or> (65 \<le> (of_char ch :: nat) \<and> (of_char ch :: nat) \<le> 90) \<or> ch \<in> {CHR ''-'', CHR ''_'', CHR ''~''}"

text \<open>The path of an https URL: from the first slash after the host up to the query or the fragment.\<close>
definition url_path :: "string \<Rightarrow> string" where
  "url_path url = takeWhile (\<lambda>ch. ch \<noteq> CHR ''?'' \<and> ch \<noteq> CHR ''#'') (dropWhile (\<lambda>ch. ch \<noteq> CHR ''/'') (drop (length ''https://'') url))"

lemma safe_chars: "host_char ch \<Longrightarrow> ch \<noteq> CHR ''/''" "url_safe ch \<Longrightarrow> ch \<notin> {CHR ''/'', CHR ''?'', CHR ''#''} \<and> plain_char ch"
  by (auto simp: host_char_def url_safe_def nym_alnum_def plain_char_def Let_def)

lemma webhook_path:
  assumes "list_all host_char domain" "list_all url_safe secret"
  shows "url_path (''https://'' @ domain @ ''/webhook/boltz/'' @ secret) = ''/webhook/boltz/'' @ secret"
proof -
  have "dropWhile (\<lambda>ch. ch \<noteq> CHR ''/'') (domain @ ''/webhook/boltz/'' @ secret) = ''/webhook/boltz/'' @ secret"
    using assms(1) safe_chars(1) by (subst dropWhile_append2) (auto simp: list_all_iff)
  moreover have "takeWhile (\<lambda>ch. ch \<noteq> CHR ''?'' \<and> ch \<noteq> CHR ''#'') secret = secret"
    using assms(2) safe_chars(2) by (auto simp: list_all_iff)
  ultimately show ?thesis by (simp add: url_path_def)
qed

text \<open>C39: A started server hears Boltz and does its work: with a secret of URL-safe characters, a POST to the path of the
  URL registered with Boltz runs the webhook handler with that secret, which the handler takes for the current one and
  goes on to the payload.  With the workers on, the claimer, the reconciler and the chain watcher are spawned, and with
  positive periods each runs every tick up to the shutdown.\<close>
theorem started_service_hears_boltz:
  assumes "startup su = Inr (st, ws, routes)"
    and "list_all host_char (co_domain (as_config st))"
    and "co_boltz_webhook_url_secret (as_config st) = secret" "secret \<noteq> []" "list_all url_safe secret"
    and "rc = co_reconciler (as_config st)" "cw = from_rate_limit_config (co_rate_limit (as_config st))"
    and "tol = tolerances_of (co_invoice_accounting (as_config st))"
  shows "dispatch (co_features (as_config st)) POST (url_path (as_webhook_url st)) = Run Claimer_webhook_with_secret [secret]
    \<and> webhook_with_secret c env tol mx secret previous gate parse secret body db = apfst Some (dispatch_webhook c env tol mx gate parse body db)
    \<and> (work_enabled (co_workers (as_config st)) \<longrightarrow>
        Background_claimer \<in> set ws \<and> (\<exists>url. Reconciler_worker url rc \<in> set ws) \<and> Chain_watcher_worker cw tol \<in> set ws
        \<and> spawn_background_claimer c tol mx first cwakes db = life_after cwakes (fold (claimer_sweep c tol mx) (first # ticks_of cwakes) db)
        \<and> (0 < reco_interval_secs rc \<longrightarrow>
             reconciler_spawn rc rwakes db = life_after rwakes (fold (reconciler_arm rc) (ticks_of rwakes) db))
        \<and> (0 < cw_active_tick_secs cw \<and> 0 < cw_idle_tick_secs cw \<longrightarrow>
             chain_watcher_run cw tol wwakes w = life_after wwakes (fold (chain_watcher_arm cw tol) (ticks_of wwakes) w)))"
proof -
  note built = built_state[OF started(2)[OF assms(1)]]
  have "url_path (as_webhook_url st) = ''/webhook/boltz/'' @ secret"
    using assms(2-5) webhook_path by (simp add: built(2) webhook_url_def)
  moreover have "path_param secret = Some secret"
    using assms(5) safe_chars(2) by (intro path_param_plain) (auto simp: list_all_iff)
  moreover have "CHR ''/'' \<notin> set secret" using assms(5) safe_chars(2) by (auto simp: list_all_iff)
  ultimately have "dispatch (co_features (as_config st)) POST (url_path (as_webhook_url st)) = Run Claimer_webhook_with_secret [secret]"
    using assms(4) by (simp add: dispatch_def split_url split_on_free match_root below_webhook serves_def del: match_path.simps)
  moreover have "webhook_with_secret c env tol mx secret previous gate parse secret body db = apfst Some (dispatch_webhook c env tol mx gate parse body db)"
    using assms(4) by (simp add: webhook_with_secret_def match_url_secret_pair_def secret_eq_def)
  moreover have "Background_claimer \<in> set ws \<and> (\<exists>url. Reconciler_worker url rc \<in> set ws) \<and> Chain_watcher_worker cw tol \<in> set ws"
    if "work_enabled (co_workers (as_config st))"
    using built(1) that assms(6-8) by (auto simp: started(3)[OF assms(1)] background_workers_def)
  moreover have "spawn_background_claimer c tol mx first cwakes db = life_after cwakes (fold (claimer_sweep c tol mx) (first # ticks_of cwakes) db)"
    "0 < reco_interval_secs rc \<longrightarrow> reconciler_spawn rc rwakes db = life_after rwakes (fold (reconciler_arm rc) (ticks_of rwakes) db)"
    "0 < cw_active_tick_secs cw \<and> 0 < cw_idle_tick_secs cw \<longrightarrow>
       chain_watcher_run cw tol wwakes w = life_after wwakes (fold (chain_watcher_arm cw tol) (ticks_of wwakes) w)"
    by (simp_all add: workers_live_until_shutdown)
  ultimately show ?thesis by (intro conjI impI) simp_all
qed

lemma started_service_hears_boltz_witness:
  "\<exists>st ws routes. startup demo_startup = Inr (st, ws, routes)
    \<and> dispatch (co_features (as_config st)) POST (url_path (as_webhook_url st)) = Run Claimer_webhook_with_secret [''s'']"
proof -
  obtain st where st: "startup demo_startup = Inr (st, background_workers demo_config True, build_router (co_features demo_config))"
      "as_config st = demo_config" using demo_start by blast
  have "list_all host_char (co_domain (as_config st))" "co_boltz_webhook_url_secret (as_config st) = ''s''" "list_all url_safe ''s''"
    by (simp_all add: st(2) demo_config_def host_char_def url_safe_def nym_alnum_def)
  from started_service_hears_boltz[OF st(1) this(1,2) _ this(3) refl refl refl, THEN conjunct1] st(1) show ?thesis by blast
qed

end
