(* ===== verification/Spec2Isabelle.thy ===== *)
theory Spec2Isabelle
  imports Prelude Contracts Users Invoices InvoiceLedger InvoiceLifecycle LedgerProperties ReverseSwaps ChainSwaps
    SwapProperties AddressAllocators PosTerminals Lifecycle UserProperties PosProperties AppErrors Settlement
    AllocationProperties Claimer ClaimSafety Webhooks ClaimProperties Auth Access Budget RateLimit AccessProperties
    BitcoinWatcher ChainWatcher Gc WatcherProperties Pricer Utxo UtxoProperties
    Boltz Service Lnurl Registration ServiceProperties
    Offers InvoiceApi InvoiceViews WalletInvoices OfferProperties InvoiceProperties CheckoutProperties
    PosApi PosApiProperties PairingProperties ImagePipeline ImageProperties PageApi PageProperties
    DonationRender RenderProperties RetryProperties
    Config ConfigProperties Routes RouteProperties Endpoints Startup StartupProperties
    Workers Program TableMoves ProgramProperties
begin

text \<open>
  A verification library for the payment service (the Rust crate under src/): Lightning Addresses
  settled on Liquid, invoices payable over Lightning, Liquid and Bitcoin, donation pages and paired
  point-of-sale terminals.

  THE PROGRAM AND ITS MODEL.  The service is a set of PostgreSQL tables (src/src/db/), HTTP handlers
  over them (src/src/lnurl.rs, registration.rs, invoice.rs, ...), and background tasks that settle what was
  paid (src/src/claimer.rs, reconciler.rs, chain_watcher.rs, bitcoin_watcher.rs, gc.rs).  A table is the list of
  its rows, an SQL statement or transaction is one function on those lists, a constraint of
  src/migrations is an error value of the statement that can meet it.  An enum with a CHECK constraint
  is a datatype; a plain TEXT column is a string and parsing it can fail.  Strings are the UTF-8 byte
  strings of the source.  Identifiers generated by the database, the clocks, \<open>random()\<close> and every
  reply of a remote party are arguments.  i32 and i64 arithmetic is written out where it can wrap,
  saturate or truncate (theory Prelude).

  THEORIES, in the order of dependence.

  Prelude: table statements, times, machine integers.  Contracts: the locales the components share,
  \<open>evolving_table\<close> (a table whose rows are never lost and move along a preorder),
  \<open>terminal_table\<close> (rows in a final state keep their outcome) and \<open>index_source\<close>
  (steps that only move cursors forward and hand out the indices they pass); each is interpreted by the component that provides it.

  Users (db/users.rs, db/reservations.rs, db/watcher.rs), AddressAllocators (db/donation_pages.rs and the three Liquid
  allocators), PosTerminals (db/pos_terminals.rs), Lifecycle (\<open>purge_user\<close>): rows \<open>user\<close>,
  \<open>outpoint_address\<close>, \<open>donation_page\<close>, \<open>pos_terminal\<close>; step relations \<open>user_step\<close>
  and \<open>pos_step\<close>.  UserProperties and PosProperties: one active nym per key, a nym never changes hands,
  a pairing code works once, a revoked terminal stays
  locked out, the POS descriptor is pinned, a purge spares unfinished swaps.  AllocationProperties: along any interleaving of the
  statements that write the users and the pages tables (\<open>hands_out\<close>), no index is taken twice from one cursor.  The
  reservation of an LNURL proof is not among the allocators: it notes the index the cursor stands at, and the chain
  watcher moves the cursor past it once it is paid.

  Invoices (db/invoices.rs): rows \<open>invoice\<close>, \<open>payment_event\<close>, \<open>payment_address\<close>,
  \<open>payment_observation\<close>.  InvoiceLedger: the ledger invariant \<open>ledger_ok\<close> (a credited amount is the sum
  of the invoice's events, an event counts once, a status fits the money).  InvoiceLifecycle: the step relation
  \<open>ledger_step\<close> and the order of statuses.  LedgerProperties: their consequences over arbitrary runs.

  ReverseSwaps (db/swaps.rs) and ChainSwaps (db/chain_swaps.rs), with SwapProperties: the swap tables, their
  retry schedule and leases.  Settlement (the hooks of invoice.rs, reconciler.rs, the transactions of
  claimer.rs), Claimer (claim_swap, claim_chain_swap, the sweep; \<open>settlement_step\<close>, in which several claim
  tasks interleave around their broadcasts), Webhooks (the Boltz webhook).  ClaimSafety: the invariant of
  \<open>settlement_step\<close>.  ClaimProperties: every Boltz credit is backed by a constructed claim, concurrent
  claims of a swap share one transaction, and each entry point (webhook, sweep, reconciler) is a run of
  \<open>settlement_step\<close>, so that the invariant holds of what the program does.  RetryProperties: a measure on the
  swap table shows that a claim which keeps failing is given up after the configured number of attempts.

  AppErrors (error.rs), Auth (auth.rs), Access (ip_whitelist.rs, certification.rs, reserved_nyms.rs, validators.rs),
  Budget (the contract of a rate limiter), RateLimit (rate_limit.rs, db/rate_limits.rs), AccessProperties: a
  window limit holds for every window of time, a signed message determines the action it authorises.

  BitcoinWatcher, ChainWatcher, Gc, with WatcherProperties: a watcher tick is a run of \<open>ledger_step\<close> and
  credits only outputs it saw.  Pricer (pricer.rs), Utxo (utxo.rs, descriptor.rs), UtxoProperties.

  Boltz (boltz.rs), Service (\<open>AppState\<close> of lib.rs and the handler monad), Lnurl (lnurl.rs, nostr.rs),
  Registration (registration.rs), ServiceProperties: only a key changes its registration, a reservation is
  made only for a proven outpoint, and every account request acts on the users table as a run of
  \<open>user_step\<close>.

  Offers, InvoiceApi, InvoiceViews, WalletInvoices (the second half of invoice.rs): what an invoice still owes, its Lightning
  offer (a reverse swap bound to the invoice) and Bitcoin offer (a chain swap), the checkout handler, the payment page as the
  record its template is filled from, the status poll, and the wallet's signed create, cancel and list.
  OfferProperties: values reach the page's script unchanged and cannot leave it, the BIP21 link carries the
  invoice's URL, and concurrent refreshes of a Lightning offer share one swap.  InvoiceProperties and
  CheckoutProperties: serving invoice requests keeps the ledger invariant, a wallet
  invoice carries its owner's signature, a failed checkout leaves no invoice, and a successful one settles to the
  page owner's descriptor.

  PosApi (pos.rs), PosApiProperties, PairingProperties: the eight handlers of the paired terminals.  A terminal is
  claimed only by the signature of the key that owns its nym, terminal sales need a live token, and serving POS
  requests is a run of \<open>pos_step\<close> and of \<open>ledger_step\<close>.  Over requests to the invoice and the terminal API together
  (\<open>serve_sales\<close>) only the owner of an invoice cancels it, or a live terminal a sale of its nym.  Wrong pairing codes are
  bounded per source: the handler of a claim is cut into its look at the count, its database work and its answer, and
  the parts of concurrent claims interleave (\<open>claims_step\<close>), so that the bound is the limit plus the claims in flight.

  ImagePipeline (image_pipeline.rs), ImageProperties, PageApi (donation_page.rs), PageProperties: the upload of
  images and the donation page handlers, over the tables and a map from paths to contents.  What each call of the
  file system answers, and how much of a failed write has reached the disk, is an argument; a rename is
  atomic, and what a power loss leaves behind is not modelled.  The decoder sees only files within the budgets, an
  image is replaced whole however uploads interleave, an upload that fails has changed nothing unless it failed in its
  last statement (\<open>row_update\<close>: the update of the hash, after the rename), and only the key that owns a nym changes its page.

  DonationRender (donation_render.rs), RenderProperties: the public pages, the web manifests and the service worker with
  their headers.  A page that is hidden does not show in any answer, the markers of a shell are replaced all at
  once, and a text of a page reads back unchanged from attributes and scripts.

  Config (config.rs), ConfigProperties: the sections of the TOML file, each a record with the default of the type
  and the defaults of its fields, the values of the environment and the validation.  A loaded configuration
  has passed the validation, and an empty section is the same as none.

  Routes (\<open>build_router\<close> of main.rs), RouteProperties: the table of routes, matched segment by segment as axum
  documents it, with the parameters percent-decoded.  Each address of a nym that can be registered reaches its handler
  (the two names the table hides are part of the statement), and a feature that is off has no way in.
  Endpoints (qr.rs, readiness.rs, version.rs, fixed answers of invoice.rs), Startup (\<open>main\<close>, \<open>AppState\<close>),
  StartupProperties: from the arguments of the process to the shared state, the workers and the router.  What
  has started is guarded by the validated secrets.

  Workers (\<open>run\<close> of gc.rs, chain_watcher.rs and bitcoin_watcher.rs, \<open>spawn\<close> of reconciler.rs, the loop of
  claimer.rs): a loop is run over the list of what wakes it, ticks and the shutdown, and ends as panicked, returned or
  running.  Program: all of it over one state, the tables, the limiter, the image files and the bucket of the Bitcoin
  watcher, where requests of every endpoint group, page views, webhook deliveries and the ticks of the started workers
  happen in any order (\<open>happens\<close>).  TableMoves and ProgramProperties: from an empty database every table keeps its
  invariant whatever happens, and a credited invoice, the key of a nym and a claimed terminal are never forgotten; a
  worker with positive periods lives until the shutdown, and a started server serves the very address it has given to Boltz.  An event is one step there.  How the claims of several tasks interleave around
  their broadcasts is \<open>settlement_step\<close>, and it is for its runs that a Boltz credit is shown to be backed by a swap
  row: a purge of a registration may delete the row later.

  HANDLERS.  A handler is a state transformer with early return (theory Service); what it did before an error
  stays done.  \<open>changes R m\<close> says that \<open>m\<close> moves the state within \<open>R\<close> however it returns, and the
  locale \<open>effect\<close> derives it from the structure of the handler; \<open>raises P m\<close> bounds its errors.

  BOUNDS AND FUEL.  The allocation loop tries at most 100 indices (the code's constant, theory AddressAllocators):
  the fuel is the bound of the source, not of the model.  The Electrum retry loop makes at most
  max(urls, 2) attempts, again the source's bound (theory Utxo).  Every other recursion is structural or has a
  termination proof.

  NOT MODELLED.  The timers of Tokio (which tick comes when is arbitrary), a shutdown in the middle of a tick, the
  draining of open connections, logging and audit lines, what the compiled HTML templates make of their records, the QR encoder,
  the image codecs, the file service and the static frontend under src/pwa, the TOML parser, SQL migrations
  other than the constraints the statements can meet.  The cryptography, the transaction
  codecs, the HTTP clients and the address libraries are third-party crates: they are the fields of the
  \<open>_lib\<close> records, and nothing is assumed of them unless a statement says so.  Statements that fail for reasons outside
  the model (a lost connection) are not represented: a statement fails only by a
  constraint, but for the listing queries of the workers, whose failure is an argument of the tick, and the last statement of an
  image upload.  So the branch of a failed checkout in which the clean-up itself fails and is only logged is left out.
  \<open>claim_swap_prepare\<close> is one step: the code holds an advisory lock in one transaction throughout.
\<close>

end
